(* ===== verification/Prelude.thy ===== *)
theory Prelude
  imports Complex_Main
begin

text \<open>
  Shared vocabulary of the development: the named collections the components
  fill, the types that stand for Go's \<open>time.Time\<close>, \<open>time.Duration\<close>, error
  returns and maps, the fragment of Go's \<open>strings\<close>, \<open>strconv\<close> and \<open>fmt\<close> that the
  sources use, and generic lemmas about iteration over a Go map.
  A Go map is a partial function; \<open>range\<close> over a map visits its keys in an order
  that the language leaves open, so every loop over a map takes that order as a
  list argument and \<open>iter_order\<close> says which lists are possible orders.
\<close>

named_theorems wf_intros \<open>preservation of component invariants\<close>
named_theorems frame \<open>what an operation leaves unchanged\<close>

type_synonym time = int
type_synonym duration = int
type_synonym ('k, 'v) gomap = "'k \<rightharpoonup> 'v"

abbreviation (input) second :: duration where "second \<equiv> 1000000000"
abbreviation (input) minute :: duration where "minute \<equiv> 60000000000"
abbreviation (input) hour :: duration where "hour \<equiv> 3600000000000"

section \<open>Iteration order of a map\<close>

definition iter_order :: "'k list \<Rightarrow> ('k, 'v) gomap \<Rightarrow> bool" where
  "iter_order ks m \<longleftrightarrow> distinct ks \<and> set ks = dom m"

lemma iter_orderD:
  assumes "iter_order ks m"
  shows "distinct ks" and "set ks = dom m"
  using assms by (auto simp: iter_order_def)

lemma iter_order_ex: "finite (dom m) \<Longrightarrow> \<exists>ks. iter_order ks m"
  using finite_distinct_list [of "dom m"] by (auto simp: iter_order_def)

definition map_vals :: "'k list \<Rightarrow> ('k, 'v) gomap \<Rightarrow> 'v list" where
  "map_vals ks m = List.map_filter m ks"

lemma map_vals_Nil [simp]: "map_vals [] m = []"
  by (simp add: map_vals_def map_filter_def)

lemma map_vals_Cons [simp]:
  "map_vals (k # ks) m = (case m k of None \<Rightarrow> map_vals ks m | Some v \<Rightarrow> v # map_vals ks m)"
  by (simp add: map_vals_def map_filter_def split: option.splits)

lemma in_map_vals: "v \<in> set (map_vals ks m) \<longleftrightarrow> (\<exists>k \<in> set ks. m k = Some v)"
  by (induction ks) (auto split: option.splits)

lemma map_vals_order: "iter_order ks m \<Longrightarrow> set (map_vals ks m) = ran m"
  by (force simp: iter_order_def in_map_vals ran_def)

lemma length_map_vals: "set ks \<subseteq> dom m \<Longrightarrow> length (map_vals ks m) = length ks"
  by (induction ks) (auto split: option.splits)

lemma map_vals_cong: "(\<And>k. k \<in> set ks \<Longrightarrow> m k = m' k) \<Longrightarrow> map_vals ks m = map_vals ks m'"
  by (induction ks) (auto split: option.splits)

lemma map_vals_upd [simp]: "k \<notin> set ks \<Longrightarrow> map_vals ks (m(k := v)) = map_vals ks m"
  by (rule map_vals_cong) auto

lemma map_vals_the: "set ks \<subseteq> dom m \<Longrightarrow> map_vals ks m = map (the \<circ> m) ks"
  by (induction ks) (auto split: option.splits)

lemma map_vals_map: "map_vals ks (\<lambda>k. map_option f (m k)) = map f (map_vals ks m)"
  by (induction ks) (auto split: option.splits)

section \<open>64-bit integers and time\<close>

text \<open>
  \<open>i64\<close> reduces an integer to the range of Go's \<open>int64\<close> with wrap-around. A time
  is the number of nanoseconds since the Unix epoch; \<open>Truncate d\<close> rounds down to a
  multiple of \<open>d\<close> counted from the zero time, which is a whole number of days
  before the epoch, so for the durations used here (divisors of a day) it is
  rounding down to a multiple of \<open>d\<close> since the epoch.
\<close>

definition i64 :: "int \<Rightarrow> int" where
  "i64 x = (x + 2 ^ 63) mod 2 ^ 64 - 2 ^ 63"

lemma i64_range: "- (2 ^ 63) \<le> i64 x" "i64 x < 2 ^ 63"
  by (simp_all add: i64_def)

lemma i64_id: "- (2 ^ 63) \<le> x \<Longrightarrow> x < 2 ^ 63 \<Longrightarrow> i64 x = x"
  by (simp add: i64_def)

lemma i64_add_left [simp]: "i64 (i64 x + y) = i64 (x + y)"
proof -
  have "(i64 x + y + 2 ^ 63) mod 2 ^ 64 = (x + y + 2 ^ 63) mod 2 ^ 64"
    unfolding i64_def by (simp add: algebra_simps mod_simps)
  then show ?thesis by (simp add: i64_def [of "i64 x + y"] i64_def [of "x + y"])
qed

lemma i64_add_right [simp]: "i64 (x + i64 y) = i64 (x + y)"
  using i64_add_left [of y x] by (simp add: add.commute)

definition Truncate :: "duration \<Rightarrow> time \<Rightarrow> time" where
  "Truncate d t = (if d \<le> 0 then t else t - t mod d)"

lemma Truncate_le: "Truncate d t \<le> t"
  by (simp add: Truncate_def pos_mod_sign)

lemma Truncate_gt: "0 < d \<Longrightarrow> t - d < Truncate d t"
  by (simp add: Truncate_def)

lemma Truncate_mono: "0 < d \<Longrightarrow> s \<le> t \<Longrightarrow> Truncate d s \<le> Truncate d t"
  by (simp add: Truncate_def minus_mod_eq_div_mult zdiv_mono1 mult_right_mono)

lemma Truncate_idem [simp]: "Truncate d (Truncate d t) = Truncate d t"
  by (simp add: Truncate_def minus_mod_eq_div_mult)

section \<open>Go strings\<close>

definition HasPrefix :: "string \<Rightarrow> string \<Rightarrow> bool" where
  "HasPrefix s p \<longleftrightarrow> take (length p) s = p"

definition TrimPrefix :: "string \<Rightarrow> string \<Rightarrow> string" where
  "TrimPrefix s p = (if HasPrefix s p then drop (length p) s else s)"

lemma HasPrefix_append [simp]: "HasPrefix (p @ s) p"
  by (simp add: HasPrefix_def)

lemma HasPrefix_iff: "HasPrefix s p \<longleftrightarrow> (\<exists>t. s = p @ t)"
  by (metis HasPrefix_append HasPrefix_def append_take_drop_id)

lemma TrimPrefix_append [simp]: "TrimPrefix (p @ s) p = s"
  by (simp add: TrimPrefix_def)

definition is_space :: "char \<Rightarrow> bool" where
  "is_space c \<longleftrightarrow> c \<in> {CHR '' '', CHR 0x09, CHR 0x0A, CHR 0x0B, CHR 0x0C, CHR 0x0D}"

definition TrimSpace :: "string \<Rightarrow> string" where
  "TrimSpace s = rev (dropWhile is_space (rev (dropWhile is_space s)))"

definition lower_char :: "char \<Rightarrow> char" where
  "lower_char c = (if 65 \<le> (of_char c :: nat) \<and> (of_char c :: nat) \<le> 90
                   then char_of ((of_char c :: nat) + 32) else c)"

definition upper_char :: "char \<Rightarrow> char" where
  "upper_char c = (if 97 \<le> (of_char c :: nat) \<and> (of_char c :: nat) \<le> 122
                   then char_of ((of_char c :: nat) - 32) else c)"

definition ToLower :: "string \<Rightarrow> string" where "ToLower s = map lower_char s"
definition ToUpper :: "string \<Rightarrow> string" where "ToUpper s = map upper_char s"

lemma lower_char_idem [simp]: "lower_char (lower_char c) = lower_char c"
  by (auto simp: lower_char_def)

lemma ToLower_idem [simp]: "ToLower (ToLower s) = ToLower s"
  by (simp add: ToLower_def)

text \<open>
  \<open>fmt.Sprintf("%d", n)\<close>: the decimal numeral of an integer.
\<close>

fun dec_nat :: "nat \<Rightarrow> string" where
  "dec_nat n = (if n < 10 then [char_of (48 + n)] else dec_nat (n div 10) @ [char_of (48 + n mod 10)])"

declare dec_nat.simps [simp del]

definition dec_int :: "int \<Rightarrow> string" where
  "dec_int i = (if i < 0 then CHR ''-'' # dec_nat (nat (- i)) else dec_nat (nat i))"

fun undec :: "nat \<Rightarrow> string \<Rightarrow> nat" where
  "undec acc [] = acc"
| "undec acc (c # cs) = undec (10 * acc + (of_char c - 48)) cs"

lemma undec_append: "undec a (xs @ ys) = undec (undec a xs) ys"
  by (induction xs arbitrary: a) auto

lemma undec_dec_nat: "undec 0 (dec_nat n) = n"
proof (induction n rule: dec_nat.induct)
  case (1 n)
  show ?case
  proof (cases "n < 10")
    case True
    then show ?thesis by (simp add: dec_nat.simps [of n])
  next
    case False
    with 1 have "undec 0 (dec_nat (n div 10)) = n div 10" by simp
    moreover have "(of_char (char_of (48 + n mod 10) :: char) :: nat) = 48 + n mod 10"
      by simp
    ultimately show ?thesis using False
      by (simp add: dec_nat.simps [of n] undec_append)
  qed
qed

lemma dec_nat_inj: "dec_nat m = dec_nat n \<longleftrightarrow> m = n"
  by (metis undec_dec_nat)

lemma dec_nat_nonempty: "dec_nat n \<noteq> []"
  by (subst dec_nat.simps) simp

lemma dec_nat_no_minus: "c \<in> set (dec_nat n) \<Longrightarrow> c \<noteq> CHR ''-''"
proof (induction n rule: dec_nat.induct)
  case (1 n)
  have digit: "char_of (48 + k) \<noteq> CHR ''-''" if "k < 10" for k :: nat
  proof
    assume "char_of (48 + k) = CHR ''-''"
    then have "(of_char (char_of (48 + k) :: char) :: nat) = of_char (CHR ''-'')" by simp
    with that show False by simp
  qed
  show ?case
  proof (cases "n < 10")
    case True
    with 1 digit [of n] show ?thesis by (simp add: dec_nat.simps [of n])
  next
    case False
    with 1 digit [of "n mod 10"] show ?thesis by (auto simp: dec_nat.simps [of n])
  qed
qed

lemma numbered_suffix_inj:
  assumes "xs @ ''-'' @ dec_nat i = ys @ ''-'' @ dec_nat j"
  shows "i = j"
proof -
  have d: "takeWhile (\<lambda>c. c \<noteq> CHR ''-'') (rev (dec_nat n) @ CHR ''-'' # zs) = rev (dec_nat n)" for n zs
    using dec_nat_no_minus [of _ n] by (subst takeWhile_append2) auto
  have "rev (xs @ ''-'' @ dec_nat i) = rev (ys @ ''-'' @ dec_nat j)" using assms by simp
  then have "rev (dec_nat i) = rev (dec_nat j)" using d [of i "rev xs"] d [of j "rev ys"] by simp
  then show ?thesis by (simp add: dec_nat_inj)
qed

lemma dec_int_inj [simp]: "dec_int i = dec_int j \<longleftrightarrow> i = j"
proof
  assume eq: "dec_int i = dec_int j"
  have hd: "dec_nat n \<noteq> CHR ''-'' # xs" for n xs
    using dec_nat_no_minus [of "CHR ''-''" n] by (metis list.set_intros(1))
  show "i = j"
    using eq hd hd [symmetric]
    by (auto simp: dec_int_def dec_nat_inj split: if_splits)
qed simp

section \<open>Transition systems\<close>

text \<open>
  The interface between a component's step relation and its safety properties:
  an invariant kept by every step holds along every run, and so does every
  reflexive and transitive relation between the states of a step.
\<close>

locale transition_system =
  fixes step :: "'s \<Rightarrow> 's \<Rightarrow> bool" and inv :: "'s \<Rightarrow> bool"
  assumes inv_step: "step s s' \<Longrightarrow> inv s \<Longrightarrow> inv s'"
begin

lemma inv_run: "step\<^sup>*\<^sup>* s s' \<Longrightarrow> inv s \<Longrightarrow> inv s'"
  by (induction rule: rtranclp_induct) (auto intro: inv_step)

lemma relation_run:
  assumes "step\<^sup>*\<^sup>* s s'" and "inv s"
    and step: "\<And>s s'. step s s' \<Longrightarrow> inv s \<Longrightarrow> R s s'"
    and "\<And>s. R s s" and "\<And>s t u. R s t \<Longrightarrow> R t u \<Longrightarrow> R s u"
  shows "R s s'"
  using assms(1,2) by (induction rule: rtranclp_induct) (auto intro: assms step inv_run)

end

end
