(* ===== verification/GoText.thy ===== *)
theory GoText
  imports Prelude "HOL-Library.Sublist"
begin

text \<open>
  Go library functions on text that the HTTP layers use: \<open>strings.Split\<close> and
  \<open>strings.SplitN\<close> with one-character separators, \<open>strings.Contains\<close>,
  \<open>strconv.Atoi\<close> and \<open>base64.StdEncoding.DecodeString\<close>. Strings are byte sequences;
  case mapping and white space are those of ASCII.
\<close>

section \<open>Splitting\<close>

fun Split :: "char \<Rightarrow> string \<Rightarrow> string list" where
  "Split c [] = [[]]"
| "Split c (x # xs) = (if x = c then [] # Split c xs
     else (case Split c xs of [] \<Rightarrow> [[x]] | w # ws \<Rightarrow> (x # w) # ws))"

fun join :: "char \<Rightarrow> string list \<Rightarrow> string" where
  "join c [] = []"
| "join c [w] = w"
| "join c (w # v # ws) = w @ c # join c (v # ws)"

lemma Split_nonempty [simp]: "Split c s \<noteq> []"
  by (induction s) (auto split: list.splits)

lemma join_Cons: "ws \<noteq> [] \<Longrightarrow> join c (w # ws) = w @ c # join c ws"
  by (cases ws) auto

lemma join_Split: "join c (Split c s) = s"
proof (induction s)
  case (Cons x xs)
  obtain w ws where w: "Split c xs = w # ws" by (cases "Split c xs") auto
  with Cons show ?case by (cases ws) (auto simp: join_Cons)
qed simp

text \<open>\<open>strings.SplitN(s, sep, 2)\<close>: the text before and after the first separator, if there is one.\<close>

fun SplitN2 :: "char \<Rightarrow> string \<Rightarrow> (string \<times> string) option" where
  "SplitN2 c [] = None"
| "SplitN2 c (x # xs) = (if x = c then Some ([], xs)
     else (case SplitN2 c xs of None \<Rightarrow> None | Some (a, b) \<Rightarrow> Some (x # a, b)))"

lemma SplitN2_append: "c \<notin> set a \<Longrightarrow> SplitN2 c (a @ c # b) = Some (a, b)"
  by (induction a) auto

lemma SplitN2_Some: "SplitN2 c s = Some (a, b) \<longleftrightarrow> s = a @ c # b \<and> c \<notin> set a"
proof
  show "SplitN2 c s = Some (a, b) \<Longrightarrow> s = a @ c # b \<and> c \<notin> set a"
    by (induction s arbitrary: a) (auto split: if_splits option.splits)
qed (auto simp: SplitN2_append)

definition Contains :: "string \<Rightarrow> string \<Rightarrow> bool" where
  "Contains s sub = sublist sub s"

section \<open>Numbers\<close>

definition is_digit :: "char \<Rightarrow> bool" where
  "is_digit c \<longleftrightarrow> 48 \<le> (of_char c :: nat) \<and> (of_char c :: nat) \<le> 57"

text \<open>\<open>strconv.Atoi\<close>: an optional sign and decimal digits within the range of a 64-bit integer.\<close>

definition Atoi :: "string \<Rightarrow> int option" where
  "Atoi s =
     (let neg = (s \<noteq> [] \<and> hd s = CHR ''-'');
          ds = (if s \<noteq> [] \<and> (hd s = CHR ''-'' \<or> hd s = CHR ''+'') then tl s else s)
      in if ds = [] \<or> \<not> list_all is_digit ds then None
         else let n = int (undec 0 ds); i = (if neg then - n else n)
              in if - (2 ^ 63) \<le> i \<and> i < 2 ^ 63 then Some i else None)"

lemma dec_nat_digits: "list_all is_digit (dec_nat n)"
proof (induction n rule: dec_nat.induct)
  case (1 n)
  have d: "is_digit (char_of (48 + k))" if "k < 10" for k :: nat using that by (simp add: is_digit_def)
  from 1 show ?case by (subst dec_nat.simps) (simp add: d)
qed

lemma digit_not_sign: "is_digit c \<Longrightarrow> c \<noteq> CHR ''-'' \<and> c \<noteq> CHR ''+''"
  by (auto simp: is_digit_def)

lemma Atoi_dec_nat:
  assumes "int n < 2 ^ 63"
  shows "Atoi (dec_nat n) = Some (int n)"
proof -
  have "hd (dec_nat n) \<noteq> CHR ''-'' \<and> hd (dec_nat n) \<noteq> CHR ''+''"
    using dec_nat_digits [of n] dec_nat_nonempty [of n]
    by (metis digit_not_sign hd_in_set list_all_iff)
  with assms show ?thesis
    by (simp add: Atoi_def Let_def dec_nat_nonempty dec_nat_digits undec_dec_nat)
qed

section \<open>Base64\<close>

definition b64_digit :: "nat \<Rightarrow> char" where
  "b64_digit n = (if n < 26 then char_of (65 + n) else if n < 52 then char_of (97 + (n - 26))
     else if n < 62 then char_of (48 + (n - 52)) else if n = 62 then CHR ''+'' else CHR ''/'')"

definition b64_value :: "char \<Rightarrow> nat option" where
  "b64_value c = (let n = of_char c :: nat in
     if 65 \<le> n \<and> n \<le> 90 then Some (n - 65) else if 97 \<le> n \<and> n \<le> 122 then Some (n - 97 + 26)
     else if 48 \<le> n \<and> n \<le> 57 then Some (n - 48 + 52) else if n = 43 then Some 62
     else if n = 47 then Some 63 else None)"

fun b64_encode :: "string \<Rightarrow> string" where
  "b64_encode [] = []"
| "b64_encode [a] = (let n = of_char a * 16 in [b64_digit (n div 64), b64_digit (n mod 64), CHR ''='', CHR ''=''])"
| "b64_encode [a, b] = (let n = (of_char a * 256 + of_char b) * 4
     in [b64_digit (n div 4096), b64_digit (n div 64 mod 64), b64_digit (n mod 64), CHR ''=''])"
| "b64_encode (a # b # c # rest) = (let n = (of_char a * 256 + of_char b) * 256 + of_char c
     in b64_digit (n div 262144) # b64_digit (n div 4096 mod 64) # b64_digit (n div 64 mod 64) # b64_digit (n mod 64)
        # b64_encode rest)"

text \<open>
  The decoder takes quanta of four characters; only the last may be padded. Bits
  beyond the last whole byte of a padded quantum are ignored, as Go's non-strict
  decoder does. \<open>DecodeString\<close> first drops line breaks.
\<close>

fun b64_quanta :: "string \<Rightarrow> string option" where
  "b64_quanta [] = Some []"
| "b64_quanta (p # q # r # s # rest) = (case (b64_value p, b64_value q) of
     (Some x, Some y) \<Rightarrow>
       if r = CHR ''='' then (if s = CHR ''='' \<and> rest = [] then Some [char_of ((x * 64 + y) div 16)] else None)
       else (case b64_value r of
           None \<Rightarrow> None
         | Some z \<Rightarrow>
             if s = CHR ''='' then
               (if rest = [] then let n = ((x * 64 + y) * 64 + z) div 4 in Some [char_of (n div 256), char_of (n mod 256)]
                else None)
             else (case b64_value s of
                 None \<Rightarrow> None
               | Some w \<Rightarrow> (case b64_quanta rest of
                   None \<Rightarrow> None
                 | Some out \<Rightarrow> let n = ((x * 64 + y) * 64 + z) * 64 + w
                     in Some (char_of (n div 65536) # char_of (n div 256 mod 256) # char_of (n mod 256) # out))))
   | _ \<Rightarrow> None)"
| "b64_quanta _ = None"

definition DecodeString :: "string \<Rightarrow> string option" where
  "DecodeString s = b64_quanta (filter (\<lambda>c. c \<noteq> CHR 0x0A \<and> c \<noteq> CHR 0x0D) s)"

lemma b64_value_digit: "n < 64 \<Longrightarrow> b64_value (b64_digit n) = Some n"
  by (auto simp: b64_value_def b64_digit_def Let_def)

lemma b64_digit_plain:
  assumes "n < 64"
  shows "b64_digit n \<noteq> CHR ''=''" and "b64_digit n \<noteq> CHR 0x0A" and "b64_digit n \<noteq> CHR 0x0D"
  using b64_value_digit [OF assms] by (auto simp: b64_value_def)

lemma of_char_256: "(of_char c :: nat) < 256"
  using range_nat_of_char by (metis atLeastLessThan_iff rangeI)

lemma byte_bounds:
  fixes x y z :: nat
  assumes "x < 256" and "y < 256" and "z < 256"
  shows "(x * 256 + y) * 4 < 64 * 4096" and "(x * 256 + y) * 256 + z < 64 * 262144" and "x * 16 < 64 * 64"
proof -
  have xy: "x * 256 + y < 65536" using assms by simp
  then show "(x * 256 + y) * 4 < 64 * 4096" by simp
  have "(x * 256 + y) * 256 + z < Suc (x * 256 + y) * 256" using assms by simp
  also have "\<dots> \<le> 65536 * 256" using xy by (intro mult_right_mono) auto
  finally show "(x * 256 + y) * 256 + z < 64 * 262144" by simp
  show "x * 16 < 64 * 64" using assms by simp
qed

lemma base_64_digits:
  fixes n :: nat
  shows "(n div 4096 * 64 + n div 64 mod 64) * 64 + n mod 64 = n"
    and "((n div 262144 * 64 + n div 4096 mod 64) * 64 + n div 64 mod 64) * 64 + n mod 64 = n"
  using div_mult2_eq [of n 64 64] div_mult2_eq [of n 4096 64] by simp_all

lemmas char_bounds = byte_bounds [OF of_char_256 of_char_256 of_char_256]

lemma b64_quanta_digits:
  "x < 64 \<Longrightarrow> y < 64 \<Longrightarrow> b64_quanta [b64_digit x, b64_digit y, CHR ''='', CHR ''='']
     = Some [char_of ((x * 64 + y) div 16)]"
  "x < 64 \<Longrightarrow> y < 64 \<Longrightarrow> z < 64 \<Longrightarrow> b64_quanta [b64_digit x, b64_digit y, b64_digit z, CHR ''='']
     = Some [char_of (((x * 64 + y) * 64 + z) div 4 div 256), char_of (((x * 64 + y) * 64 + z) div 4 mod 256)]"
  "x < 64 \<Longrightarrow> y < 64 \<Longrightarrow> z < 64 \<Longrightarrow> w < 64 \<Longrightarrow> b64_quanta rest = Some out \<Longrightarrow>
     b64_quanta (b64_digit x # b64_digit y # b64_digit z # b64_digit w # rest)
     = (let n = ((x * 64 + y) * 64 + z) * 64 + w
        in Some (char_of (n div 65536) # char_of (n div 256 mod 256) # char_of (n mod 256) # out))"
  by (simp_all add: b64_value_digit b64_digit_plain Let_def)

lemma b64_quanta_encode: "b64_quanta (b64_encode s) = Some s"
proof (induction s rule: b64_encode.induct)
  case (2 a)
  have a: "(of_char a :: nat) < 256" by (rule of_char_256)
  define n :: nat where "n = of_char a * 16"
  have lt: "n div 64 < 64" "n mod 64 < 64" using a by (auto simp: n_def less_mult_imp_div_less)
  have "n div 64 * 64 + n mod 64 = n" by simp
  moreover have "n div 16 = of_char a" by (simp add: n_def)
  ultimately show ?case
    unfolding b64_encode.simps Let_def n_def [symmetric] b64_quanta_digits(1) [OF lt] by simp
next
  case (3 a b)
  define n :: nat where "n = (of_char a * 256 + of_char b) * 4"
  have ab: "(of_char a :: nat) < 256" "(of_char b :: nat) < 256" by (simp_all add: of_char_256)
  have "n < 64 * 4096" unfolding n_def by (rule char_bounds)
  then have lt: "n div 4096 < 64" "n div 64 mod 64 < 64" "n mod 64 < 64" by (simp_all add: less_mult_imp_div_less)
  have "(n div 4096 * 64 + n div 64 mod 64) * 64 + n mod 64 = n" by (rule base_64_digits)
  moreover have "n div 4 div 256 = of_char a" "n div 4 mod 256 = of_char b" using ab by (auto simp: n_def)
  ultimately show ?case
    unfolding b64_encode.simps Let_def n_def [symmetric] b64_quanta_digits(2) [OF lt] by simp
next
  case (4 a b c rest)
  define n :: nat where "n = (of_char a * 256 + of_char b) * 256 + of_char c"
  have abc: "(of_char a :: nat) < 256" "(of_char b :: nat) < 256" "(of_char c :: nat) < 256"
    by (simp_all add: of_char_256)
  have "n < 64 * 262144" unfolding n_def by (rule char_bounds)
  then have lt: "n div 262144 < 64" "n div 4096 mod 64 < 64" "n div 64 mod 64 < 64" "n mod 64 < 64"
    by (simp_all add: less_mult_imp_div_less)
  have "((n div 262144 * 64 + n div 4096 mod 64) * 64 + n div 64 mod 64) * 64 + n mod 64 = n" by (rule base_64_digits)
  moreover have n: "n div 256 = of_char a * 256 + of_char b" "n mod 256 = of_char c"
    using abc by (simp_all add: n_def del: distrib_right_numeral)
  moreover have "n div 65536 = of_char a" "n div 256 mod 256 = of_char b"
    using abc div_mult2_eq [of n 256 256] by (simp_all add: n)
  ultimately show ?case
    unfolding b64_encode.simps Let_def n_def [symmetric] b64_quanta_digits(3) [OF lt 4 [OF refl]] by simp
qed simp

lemma b64_encode_plain: "list_all (\<lambda>c. c \<noteq> CHR 0x0A \<and> c \<noteq> CHR 0x0D) (b64_encode s)"
proof (induction s rule: b64_encode.induct)
  case (4 a b c rest)
  have "((of_char a * 256 + of_char b) * 256 + of_char c) div 262144 < (64 :: nat)"
    by (intro less_mult_imp_div_less char_bounds)
  with 4 show ?case by (simp add: Let_def b64_digit_plain)
next
  case (3 a b)
  have "(of_char a * 256 + of_char b) * 4 div 4096 < (64 :: nat)"
    by (intro less_mult_imp_div_less char_bounds)
  then show ?case by (simp add: Let_def b64_digit_plain)
next
  case (2 a)
  have "of_char a * 16 div 64 < (64 :: nat)" by (intro less_mult_imp_div_less char_bounds)
  then show ?case by (simp add: Let_def b64_digit_plain)
qed simp

lemma DecodeString_encode: "DecodeString (b64_encode s) = Some s"
  using b64_encode_plain [of s] by (simp add: DecodeString_def list_all_iff b64_quanta_encode filter_True)

section \<open>Hexadecimal\<close>

text \<open>\<open>hex.EncodeToString\<close>.\<close>

definition hex_digit :: "nat \<Rightarrow> char" where
  "hex_digit n = (if n < 10 then char_of (48 + n) else char_of (87 + n))"

definition EncodeToString :: "string \<Rightarrow> string" where
  "EncodeToString bs = concat (map (\<lambda>b. [hex_digit (of_char b div 16), hex_digit (of_char b mod 16)]) bs)"

lemma of_char_hex_digit: "n < 16 \<Longrightarrow> of_char (hex_digit n) = (if n < 10 then 48 + n else 87 + n)"
  by (simp add: hex_digit_def take_bit_eq_mod)

lemma hex_digit_inj:
  assumes "m < 16" and "n < 16" and "hex_digit m = hex_digit n"
  shows "m = n"
proof -
  have "(if m < 10 then 48 + m else 87 + m) = (if n < 10 then 48 + n else 87 + n)"
    using assms(3) by (simp only: of_char_hex_digit [OF assms(1), symmetric] of_char_hex_digit [OF assms(2), symmetric])
  then show ?thesis by (simp split: if_splits)
qed

lemma EncodeToString_inj: "EncodeToString bs = EncodeToString cs \<Longrightarrow> bs = cs"
proof (induction bs arbitrary: cs)
  case (Cons b bs)
  then obtain c cs' where cs: "cs = c # cs'" by (cases cs) (auto simp: EncodeToString_def)
  from Cons.prems have "hex_digit (of_char b div 16) = hex_digit (of_char c div 16)"
      "hex_digit (of_char b mod 16) = hex_digit (of_char c mod 16)" "EncodeToString bs = EncodeToString cs'"
    by (simp_all add: cs EncodeToString_def)
  moreover have "(of_char d :: nat) div 16 < 16" for d
    using of_char_256 [of d] by (intro less_mult_imp_div_less) simp
  ultimately have "(of_char b :: nat) div 16 = of_char c div 16" "(of_char b :: nat) mod 16 = of_char c mod 16"
    by (auto intro: hex_digit_inj)
  then have "(of_char b :: nat) = of_char c" by (metis div_mult_mod_eq)
  then show ?case using Cons.IH [OF \<open>EncodeToString bs = EncodeToString cs'\<close>] cs by simp
qed (cases cs; simp_all add: EncodeToString_def)

end
