(* ===== verification/Float64.thy ===== *)
theory Float64
  imports Prelude "HOL-Library.Log_Nat"
begin

text \<open>
  Go's \<open>float64\<close>: IEEE 754 binary64 with round-to-nearest, ties-to-even. A finite
  value is the rational it denotes; every operation computes the exact rational
  result and rounds it once (\<open>rnd\<close>: 53 significant bits, gradual underflow at
  exponent -1074, overflow to an infinity). Infinities and the not-a-number value
  are constructors, and comparisons with \<open>NaN\<close> are false, as in Go. The sign of
  a zero is not recorded: the sources neither print a zero's sign nor divide by a
  value that can be a negative zero.
  The main facts are monotonicity of rounding (\<open>rv_mono\<close>), the exactness of
  operations on a grid of multiples of a power of two (\<open>grid\<close>), and that
  rounding is idempotent (\<open>wf_rnd\<close>).
\<close>

section \<open>Rounding\<close>

definition rhe :: "rat \<Rightarrow> int" where
  "rhe x = (let f = \<lfloor>x\<rfloor>; d = x - of_int f in
     if d < 1 / 2 then f else if 1 / 2 < d then f + 1 else if even f then f else f + 1)"

definition fexp :: "rat \<Rightarrow> int" where
  "fexp x = (let (p, q) = quotient_of \<bar>x\<bar>; e = bitlen p - bitlen q in
     if 2 powi e \<le> \<bar>x\<bar> then e else e - 1)"

definition uexp :: "rat \<Rightarrow> int" where
  "uexp x = max (fexp x) (- 1022) - 52"

definition rv :: "rat \<Rightarrow> rat" where
  "rv x = (if x = 0 then 0 else of_int (rhe (x / 2 powi uexp x)) * 2 powi uexp x)"

datatype float64 = Fin rat | PInf | NInf | NaN

abbreviation fmax :: rat where "fmax \<equiv> 2 ^ 1024"

definition rnd :: "rat \<Rightarrow> float64" where
  "rnd x = (let v = rv x in if fmax \<le> v then PInf else if v \<le> - fmax then NInf else Fin v)"

section \<open>Operations and comparisons\<close>

definition inf_of :: "bool \<Rightarrow> float64" where
  "inf_of pos = (if pos then PInf else NInf)"

fun fneg :: "float64 \<Rightarrow> float64" where
  "fneg (Fin x) = Fin (- x)"
| "fneg PInf = NInf"
| "fneg NInf = PInf"
| "fneg NaN = NaN"

fun fadd :: "float64 \<Rightarrow> float64 \<Rightarrow> float64" where
  "fadd (Fin x) (Fin y) = rnd (x + y)"
| "fadd NaN _ = NaN"
| "fadd _ NaN = NaN"
| "fadd PInf NInf = NaN"
| "fadd NInf PInf = NaN"
| "fadd PInf _ = PInf"
| "fadd _ PInf = PInf"
| "fadd NInf _ = NInf"
| "fadd _ NInf = NInf"

definition fsub :: "float64 \<Rightarrow> float64 \<Rightarrow> float64" where
  "fsub a b = fadd a (fneg b)"

fun fmul :: "float64 \<Rightarrow> float64 \<Rightarrow> float64" where
  "fmul (Fin x) (Fin y) = rnd (x * y)"
| "fmul NaN _ = NaN"
| "fmul _ NaN = NaN"
| "fmul (Fin x) PInf = (if x = 0 then NaN else inf_of (0 < x))"
| "fmul (Fin x) NInf = (if x = 0 then NaN else inf_of (x < 0))"
| "fmul PInf (Fin x) = (if x = 0 then NaN else inf_of (0 < x))"
| "fmul NInf (Fin x) = (if x = 0 then NaN else inf_of (x < 0))"
| "fmul PInf PInf = PInf"
| "fmul PInf NInf = NInf"
| "fmul NInf PInf = NInf"
| "fmul NInf NInf = PInf"

fun fdiv :: "float64 \<Rightarrow> float64 \<Rightarrow> float64" where
  "fdiv (Fin x) (Fin y) =
     (if y = 0 then (if x = 0 then NaN else inf_of (0 < x)) else rnd (x / y))"
| "fdiv NaN _ = NaN"
| "fdiv _ NaN = NaN"
| "fdiv (Fin x) PInf = Fin 0"
| "fdiv (Fin x) NInf = Fin 0"
| "fdiv PInf (Fin x) = inf_of (0 \<le> x)"
| "fdiv NInf (Fin x) = inf_of (x < 0)"
| "fdiv PInf _ = NaN"
| "fdiv NInf _ = NaN"

fun flt :: "float64 \<Rightarrow> float64 \<Rightarrow> bool" where
  "flt (Fin x) (Fin y) \<longleftrightarrow> x < y"
| "flt NaN _ \<longleftrightarrow> False"
| "flt _ NaN \<longleftrightarrow> False"
| "flt NInf b \<longleftrightarrow> b \<noteq> NInf"
| "flt _ NInf \<longleftrightarrow> False"
| "flt PInf _ \<longleftrightarrow> False"
| "flt _ PInf \<longleftrightarrow> True"

fun fle :: "float64 \<Rightarrow> float64 \<Rightarrow> bool" where
  "fle (Fin x) (Fin y) \<longleftrightarrow> x \<le> y"
| "fle NaN _ \<longleftrightarrow> False"
| "fle _ NaN \<longleftrightarrow> False"
| "fle NInf _ \<longleftrightarrow> True"
| "fle _ NInf \<longleftrightarrow> False"
| "fle _ PInf \<longleftrightarrow> True"
| "fle PInf _ \<longleftrightarrow> False"

text \<open>Go's \<open>==\<close> on floats (\<open>NaN\<close> differs from itself), \<open>math.Round\<close> (half away
  from zero; the result of rounding a finite float is representable), a decimal
  literal and the conversion of an integer.\<close>

definition feq :: "float64 \<Rightarrow> float64 \<Rightarrow> bool" where
  "feq a b \<longleftrightarrow> a \<noteq> NaN \<and> a = b"

fun fround :: "float64 \<Rightarrow> float64" where
  "fround (Fin x) = Fin (of_int (if 0 \<le> x then \<lfloor>x + 1 / 2\<rfloor> else \<lceil>x - 1 / 2\<rceil>))"
| "fround v = v"

definition lit :: "rat \<Rightarrow> float64" where "lit x = rnd x"
definition of_i64 :: "int \<Rightarrow> float64" where "of_i64 i = rnd (of_int i)"

fun val :: "float64 \<Rightarrow> rat" where
  "val (Fin x) = x"
| "val _ = 0"

fun wf_f64 :: "float64 \<Rightarrow> bool" where
  "wf_f64 (Fin x) \<longleftrightarrow> rnd x = Fin x"
| "wf_f64 _ \<longleftrightarrow> True"

fun is_fin :: "float64 \<Rightarrow> bool" where
  "is_fin (Fin x) \<longleftrightarrow> True"
| "is_fin _ \<longleftrightarrow> False"

section \<open>Rounding to an integer\<close>

lemma rhe_of_int [simp]: "rhe (of_int n) = n"
  by (simp add: rhe_def)

lemma rhe_bounds: "\<lfloor>x\<rfloor> \<le> rhe x" "rhe x \<le> \<lfloor>x\<rfloor> + 1"
  by (auto simp: rhe_def Let_def)

lemma rhe_mono:
  assumes "x \<le> y"
  shows "rhe x \<le> rhe y"
proof (cases "\<lfloor>x\<rfloor> = \<lfloor>y\<rfloor>")
  case True
  with assms show ?thesis by (auto simp: rhe_def Let_def)
next
  case False
  with assms have "\<lfloor>x\<rfloor> + 1 \<le> \<lfloor>y\<rfloor>" using floor_mono [OF assms] by linarith
  with rhe_bounds [of x] rhe_bounds [of y] show ?thesis by linarith
qed

lemma rhe_le_int: "x \<le> of_int n \<Longrightarrow> rhe x \<le> n"
  using rhe_mono [of x "of_int n"] by simp

lemma rhe_ge_int: "of_int n \<le> x \<Longrightarrow> n \<le> rhe x"
  using rhe_mono [of "of_int n" x] by simp

lemma rhe_uminus: "rhe (- x) = - rhe x"
proof (cases "x = of_int \<lfloor>x\<rfloor>")
  case True
  then show ?thesis by (metis of_int_minus rhe_of_int)
next
  case False
  then have fl: "\<lfloor>- x\<rfloor> = - \<lfloor>x\<rfloor> - 1"
    by (simp add: floor_minus ceiling_altdef)
  show ?thesis
    unfolding rhe_def Let_def fl by (auto simp: field_simps)
qed

section \<open>The binary exponent\<close>

lemma powi_le_iff: "(2::rat) powi m \<le> 2 powi n \<longleftrightarrow> m \<le> n"
proof
  assume "(2::rat) powi m \<le> 2 powi n"
  then show "m \<le> n"
    using power_int_strict_increasing [of n m "2::rat"] by (meson leD not_le_imp_less one_less_numeral_iff semiring_norm(76))
qed (simp add: power_int_increasing)

lemma powi_less_iff: "(2::rat) powi m < 2 powi n \<longleftrightarrow> m < n"
  using powi_le_iff [of n m] by (simp add: not_le [symmetric])

lemma powi_pos: "0 < (2::rat) powi n"
  by simp

lemma powi_mult: "(2::rat) powi m * 2 powi n = 2 powi (m + n)"
  by (simp add: power_int_add)

lemma powi_div: "(2::rat) powi m / 2 powi n = 2 powi (m - n)"
  by (simp add: power_int_diff)

lemma powi_nat: "0 \<le> n \<Longrightarrow> (2::rat) powi n = of_int (2 ^ nat n)"
  by (simp add: power_int_def)

lemma bitlen_powi:
  assumes "0 < p"
  shows "(2::rat) powi (bitlen p - 1) \<le> of_int p" and "of_int p < (2::rat) powi bitlen p"
proof -
  have b: "2 ^ nat (bitlen p - 1) \<le> p" "p < 2 ^ nat (bitlen p)"
    using bitlen_bounds [OF assms] by auto
  have "0 < bitlen p" using assms by (metis bitlen_nonneg bitlen_le_iff_power int_one_le_iff_zero_less nless_le not_le power_0 nat_0)
  then show "(2::rat) powi (bitlen p - 1) \<le> of_int p" and "of_int p < (2::rat) powi bitlen p"
    using b by (simp_all only: powi_nat of_int_le_iff of_int_less_iff)
qed

lemma fexp_bounds:
  assumes "x \<noteq> 0"
  shows "2 powi fexp x \<le> \<bar>x\<bar>" and "\<bar>x\<bar> < 2 powi (fexp x + 1)"
proof -
  obtain p q where pq: "quotient_of \<bar>x\<bar> = (p, q)" by fastforce
  then have x: "\<bar>x\<bar> = of_int p / of_int q" and q: "0 < q"
    using quotient_of_div quotient_of_denom_pos by auto
  from assms have "0 < (of_int p :: rat) / of_int q" by (simp flip: x)
  with q have p: "0 < p" by (simp add: zero_less_divide_iff)
  let ?e = "bitlen p - bitlen q"
  have up: "\<bar>x\<bar> < 2 powi (?e + 1)"
  proof -
    have "of_int p * 2 powi (bitlen q - 1) < (2::rat) powi bitlen p * of_int q"
      by (intro mult_less_le_imp_less bitlen_powi p q) (use p in simp_all)
    then have "\<bar>x\<bar> < 2 powi bitlen p / 2 powi (bitlen q - 1)"
      using q by (simp add: x field_simps)
    then show ?thesis by (simp add: powi_div algebra_simps)
  qed
  have low: "2 powi (?e - 1) \<le> \<bar>x\<bar>"
  proof -
    have "(2::rat) powi (bitlen p - 1) * of_int q \<le> of_int p * 2 powi bitlen q"
      by (intro mult_mono bitlen_powi p less_imp_le [OF bitlen_powi(2)] q) (use p q in simp_all)
    then have "2 powi (bitlen p - 1) / 2 powi bitlen q \<le> \<bar>x\<bar>"
      using q by (simp add: x field_simps)
    then show ?thesis by (simp add: powi_div algebra_simps)
  qed
  show "2 powi fexp x \<le> \<bar>x\<bar>" and "\<bar>x\<bar> < 2 powi (fexp x + 1)"
    using up low by (auto simp: fexp_def pq Let_def)
qed

lemma fexp_unique:
  assumes "2 powi e \<le> \<bar>x\<bar>" and "\<bar>x\<bar> < 2 powi (e + 1)"
  shows "fexp x = e"
proof -
  have "x \<noteq> 0" using assms(1) powi_pos [of e] by (metis abs_zero leD)
  note b = fexp_bounds [OF this]
  have "(2::rat) powi e < 2 powi (fexp x + 1)" "(2::rat) powi fexp x < 2 powi (e + 1)"
    using assms b by linarith+
  then show ?thesis by (simp add: powi_less_iff)
qed

lemma fexp_mono:
  assumes "0 < x" and "x \<le> y"
  shows "fexp x \<le> fexp y"
proof -
  have "x \<noteq> 0" "y \<noteq> 0" using assms by auto
  then have "(2::rat) powi fexp x < 2 powi (fexp y + 1)"
    using fexp_bounds(1) [of x] fexp_bounds(2) [of y] assms by auto
  then show ?thesis by (simp add: powi_less_iff)
qed

lemma fexp_uminus [simp]: "fexp (- x) = fexp x"
  by (simp add: fexp_def)

lemma uexp_uminus [simp]: "uexp (- x) = uexp x"
  by (simp add: uexp_def)

section \<open>Rounding is monotone\<close>

lemma rv_0 [simp]: "rv 0 = 0"
  by (simp add: rv_def)

lemma rv_uminus: "rv (- x) = - rv x"
  by (simp add: rv_def rhe_uminus)

lemma scaled_less:
  assumes "0 < x"
  shows "x / 2 powi uexp x < of_int (2 ^ 53)"
proof -
  have "x < 2 powi (fexp x + 1)" using fexp_bounds(2) [of x] assms by simp
  also have "\<dots> \<le> 2 powi (uexp x + 53)" by (simp add: powi_le_iff uexp_def)
  also have "\<dots> = 2 ^ 53 * 2 powi uexp x" by (simp add: power_int_add)
  finally show ?thesis by (simp add: divide_less_eq)
qed

lemma rv_le_binade:
  assumes "0 < x"
  shows "rv x \<le> 2 powi (uexp x + 53)"
proof -
  have "rhe (x / 2 powi uexp x) \<le> 2 ^ 53"
    using scaled_less [OF assms] by (intro rhe_le_int) simp
  then have "(of_int (rhe (x / 2 powi uexp x)) :: rat) \<le> of_int (2 ^ 53)"
    by (rule of_int_le_iff [THEN iffD2])
  then have "rv x \<le> 2 ^ 53 * 2 powi uexp x"
    using assms by (simp add: rv_def)
  then show ?thesis by (simp add: power_int_add)
qed

lemma rv_ge_binade:
  assumes "0 < x" and "- 1022 \<le> fexp x"
  shows "2 powi fexp x \<le> rv x"
proof -
  have u: "uexp x = fexp x - 52" using assms(2) by (simp add: uexp_def)
  have "of_int (2 ^ 52) * 2 powi uexp x = (2::rat) powi fexp x"
    by (simp add: u power_int_diff)
  also have "\<dots> \<le> x" using fexp_bounds(1) [of x] assms(1) by simp
  finally have "2 ^ 52 \<le> rhe (x / 2 powi uexp x)"
    by (intro rhe_ge_int) (simp add: le_divide_eq)
  then have "(of_int (2 ^ 52) :: rat) \<le> of_int (rhe (x / 2 powi uexp x))"
    by (rule of_int_le_iff [THEN iffD2])
  then have "2 ^ 52 * 2 powi uexp x \<le> rv x" using assms(1) by (simp add: rv_def)
  then show ?thesis by (simp add: u power_int_diff)
qed

lemma rv_nonneg: "0 \<le> x \<Longrightarrow> 0 \<le> rv x"
  using rhe_ge_int [of 0 "x / 2 powi uexp x"] by (simp add: rv_def)

lemma rv_mono_pos:
  assumes "0 < x" and "x \<le> y"
  shows "rv x \<le> rv y"
proof (cases "uexp x = uexp y")
  case True
  then have "rhe (x / 2 powi uexp x) \<le> rhe (y / 2 powi uexp y)"
    using assms by (intro rhe_mono) (simp add: divide_right_mono)
  then show ?thesis using assms True by (simp add: rv_def mult_right_mono)
next
  case False
  then have lt: "uexp x < uexp y" using fexp_mono [OF assms] by (auto simp: uexp_def max_def split: if_splits)
  then have e: "- 1022 \<le> fexp y" and u: "uexp x + 53 \<le> fexp y"
    by (auto simp: uexp_def max_def split: if_splits)
  have "rv x \<le> 2 powi (uexp x + 53)" using assms(1) by (rule rv_le_binade)
  also have "\<dots> \<le> 2 powi fexp y" using u by (simp add: powi_le_iff)
  also have "\<dots> \<le> rv y" using assms e by (intro rv_ge_binade) auto
  finally show ?thesis .
qed

lemma rv_mono: "x \<le> y \<Longrightarrow> rv x \<le> rv y"
proof -
  assume xy: "x \<le> y"
  consider "0 < x" | "x \<le> 0" "0 \<le> y" | "y < 0" by linarith
  then show ?thesis
  proof cases
    case 1 then show ?thesis using xy by (rule rv_mono_pos)
  next
    case 2 then show ?thesis
      using rv_nonneg [of y] rv_nonneg [of "- x"] by (simp add: rv_uminus)
  next
    case 3 then show ?thesis
      using rv_mono_pos [of "- y" "- x"] xy by (simp add: rv_uminus)
  qed
qed

lemma rnd_0 [simp]: "rnd 0 = Fin 0"
  by (simp add: rnd_def)

lemma rnd_not_NaN [simp]: "rnd x \<noteq> NaN"
  by (simp add: rnd_def Let_def)

lemma rnd_mono: "x \<le> y \<Longrightarrow> fle (rnd x) (rnd y)"
  using rv_mono [of x y] by (simp add: rnd_def Let_def)

lemma rnd_nonneg: "0 \<le> x \<Longrightarrow> fle (Fin 0) (rnd x)"
  using rnd_mono [of 0 x] by simp

section \<open>Exact results\<close>

lemma rv_scaled_int:
  assumes "x \<noteq> 0" and n: "x / 2 powi uexp x = of_int n"
  shows "rv x = x"
proof -
  have "rv x = of_int n * 2 powi uexp x" using assms by (simp only: rv_def rhe_of_int if_False)
  also have "\<dots> = x" by (simp flip: n)
  finally show ?thesis .
qed

lemma rv_exact_pos:
  assumes m: "0 < m" "m \<le> 2 ^ 53" and u: "- 1074 \<le> u"
  shows "rv (of_int m * 2 powi u) = of_int m * 2 powi u"
proof -
  let ?x = "(of_int m :: rat) * 2 powi u"
  have x: "0 < ?x" using m by simp
  have "(of_int m :: rat) \<le> of_int (2 ^ 53)" using m(2) by (rule of_int_le_iff [THEN iffD2])
  then have "?x \<le> 2 ^ 53 * 2 powi u" by (simp add: mult_right_mono)
  then have le: "?x \<le> 2 powi (u + 53)" by (simp add: power_int_add)
  have "\<exists>n. ?x / 2 powi uexp ?x = of_int n"
  proof (cases "uexp ?x \<le> u")
    case True
    then have "(2::rat) powi (u - uexp ?x) = of_int (2 ^ nat (u - uexp ?x))"
      by (intro powi_nat) simp
    then have "?x / 2 powi uexp ?x = of_int (m * 2 ^ nat (u - uexp ?x))"
      by (simp add: powi_div flip: times_divide_eq_right)
    then show ?thesis ..
  next
    case False
    then have e: "uexp ?x = fexp ?x - 52" and ge: "u + 53 \<le> fexp ?x"
      using u by (auto simp: uexp_def max_def split: if_splits)
    have "2 powi (u + 53) \<le> ?x"
      using order_trans [OF _ fexp_bounds(1) [of ?x], of "2 powi (u + 53)"] x ge m(1)
      by (simp add: powi_le_iff)
    with le have eq: "?x = 2 powi (u + 53)" by simp
    then have "fexp ?x = u + 53" by (intro fexp_unique) (simp_all add: powi_less_iff)
    with e have "uexp ?x = u + 1" by simp
    then have "?x / 2 powi uexp ?x = 2 powi (u + 53) / 2 powi (u + 1)" using eq by argo
    then have "?x / 2 powi uexp ?x = of_int (2 ^ 52)" by (simp add: powi_div powi_nat)
    then show ?thesis ..
  qed
  then obtain n where "?x / 2 powi uexp ?x = of_int n" ..
  with x show ?thesis by (intro rv_scaled_int) auto
qed

lemma rv_exact:
  assumes m: "\<bar>m\<bar> \<le> 2 ^ 53" and u: "- 1074 \<le> u"
  shows "rv (of_int m * 2 powi u) = of_int m * 2 powi u"
proof -
  consider "0 < m" | "m = 0" | "0 < - m" by linarith
  then show ?thesis
  proof cases
    case 1 with rv_exact_pos [of m u] m u show ?thesis by simp
  next
    case 2 then show ?thesis by simp
  next
    case 3 with rv_exact_pos [of "- m" u] m u rv_uminus [of "of_int m * 2 powi u"]
    show ?thesis by simp
  qed
qed

lemma rv_idem: "rv (rv x) = rv x"
proof (cases "x = 0")
  case False
  let ?m = "rhe (x / 2 powi uexp x)"
  have "\<bar>rhe (y / 2 powi uexp y)\<bar> \<le> 2 ^ 53" if "0 < y" for y
    using that rhe_le_int [OF less_imp_le [OF scaled_less [OF that]]]
      rhe_ge_int [of 0 "y / 2 powi uexp y"] by simp
  from this [of x] this [of "- x"] False have "\<bar>?m\<bar> \<le> 2 ^ 53"
    by (cases "0 < x") (simp_all add: rhe_uminus)
  then have "rv (of_int ?m * 2 powi uexp x) = of_int ?m * 2 powi uexp x"
    by (rule rv_exact) (simp add: uexp_def)
  then show ?thesis using False by (simp add: rv_def [of x])
qed simp

lemma wf_rnd [simp]: "wf_f64 (rnd x)"
  by (auto simp: rnd_def Let_def rv_idem)

lemma wf_Fin_rv: "wf_f64 (Fin x) \<Longrightarrow> rv x = x"
  by (auto simp: rnd_def Let_def split: if_splits)

lemma wf_range: "wf_f64 (Fin x) \<Longrightarrow> - fmax < x \<and> x < fmax"
  by (auto simp: rnd_def Let_def split: if_splits)

text \<open>
  A value of the grid \<open>2\<^sup>-\<^sup>k\<close> is an integer multiple of it that fits in 53 bits; whole
  dollars are the grid with \<open>k = 0\<close>.
\<close>

definition grid :: "nat \<Rightarrow> rat \<Rightarrow> bool" where
  "grid k x \<longleftrightarrow> (let m = x * 2 ^ k in m \<in> \<int> \<and> \<bar>m\<bar> \<le> 2 ^ 53)"

lemma rnd_in_range: "rv x = x \<Longrightarrow> \<bar>x\<bar> < fmax \<Longrightarrow> rnd x = Fin x"
  by (auto simp: rnd_def Let_def)

lemma rnd_grid:
  assumes "grid k x" and "k \<le> 1074"
  shows "rnd x = Fin x"
proof -
  from assms(1) obtain m where m: "x * 2 ^ k = of_int m" "\<bar>of_int m :: rat\<bar> \<le> 2 ^ 53"
    by (auto simp: grid_def Let_def elim!: Ints_cases)
  then have ab: "\<bar>m\<bar> \<le> 2 ^ 53" by (metis of_int_abs of_int_le_iff of_int_numeral of_int_power)
  have x: "x = of_int m * 2 powi (- int k)"
    using m(1) by (simp add: power_int_minus field_simps)
  then have "rv x = x" using rv_exact [OF ab, of "- int k"] assms(2) by simp
  moreover have "\<bar>x\<bar> < fmax"
  proof -
    have "\<bar>x\<bar> \<le> \<bar>x\<bar> * 2 ^ k" by (simp add: mult_le_cancel_left1)
    also have "\<dots> \<le> 2 ^ 53" using m by (simp add: abs_mult flip: m(1))
    also have "\<dots> < fmax" by (rule power_strict_increasing) simp_all
    finally show ?thesis .
  qed
  ultimately show ?thesis by (rule rnd_in_range)
qed

lemma rnd_int [simp]:
  assumes "\<bar>i\<bar> \<le> 2 ^ 53"
  shows "rnd (of_int i) = Fin (of_int i)"
proof (rule rnd_grid [of 0])
  have "(of_int \<bar>i\<bar> :: rat) \<le> of_int (2 ^ 53)" using assms by (rule of_int_le_iff [THEN iffD2])
  then show "grid 0 (of_int i)" by (simp add: grid_def)
qed simp

lemma rnd_numeral [simp]:
  "(numeral n :: int) \<le> 9007199254740992 \<Longrightarrow> rnd (numeral n) = Fin (numeral n)"
  "(numeral n :: int) \<le> 9007199254740992 \<Longrightarrow> rnd (- numeral n) = Fin (- numeral n)"
  "rnd 1 = Fin 1" "rnd (- 1) = Fin (- 1)"
  using rnd_int [of "numeral n"] rnd_int [of "- numeral n"] rnd_int [of 1] rnd_int [of "- 1"]
  by simp_all

section \<open>Arithmetic facts used by the ledgers\<close>

lemma wf_fadd [simp]: "wf_f64 (fadd a b)"
  by (cases a; cases b) auto

lemma wf_fneg [simp]: "wf_f64 a \<Longrightarrow> wf_f64 (fneg a)"
  by (cases a) (auto simp: rnd_def Let_def rv_uminus split: if_splits)

lemma wf_fsub [simp]: "wf_f64 (fsub a b)"
  by (simp add: fsub_def)

lemma wf_fmul [simp]: "wf_f64 (fmul a b)"
  by (cases a; cases b) (auto simp: inf_of_def)

lemma wf_fdiv [simp]: "wf_f64 (fdiv a b)"
  by (cases a; cases b) (auto simp: inf_of_def)

lemma NaN_right [simp]:
  "flt a NaN \<longleftrightarrow> False" "fle a NaN \<longleftrightarrow> False" "fadd a NaN = NaN" "fmul a NaN = NaN" "fsub a NaN = NaN"
  by (cases a; simp add: fsub_def)+

lemma fle_refl: "a \<noteq> NaN \<Longrightarrow> fle a a"
  by (cases a) auto

lemma fle_trans: "fle a b \<Longrightarrow> fle b c \<Longrightarrow> fle a c"
  by (cases a; cases b; cases c) auto

lemma flt_imp_fle: "flt a b \<Longrightarrow> fle a b"
  by (cases a; cases b) auto

lemma not_flt: "\<not> flt a b \<longleftrightarrow> fle b a \<or> a = NaN \<or> b = NaN"
  by (cases a; cases b) auto

lemma not_fle: "\<not> fle a b \<longleftrightarrow> flt b a \<or> a = NaN \<or> b = NaN"
  by (cases a; cases b) auto

lemma flt_fle_trans: "flt a b \<Longrightarrow> fle b c \<Longrightarrow> flt a c"
  by (cases a; cases b; cases c) auto

lemma fle_flt_trans: "fle a b \<Longrightarrow> flt b c \<Longrightarrow> flt a c"
  by (cases a; cases b; cases c) auto

text \<open>A non-negative finite amount, the usual state of a balance.\<close>

definition nonneg :: "float64 \<Rightarrow> bool" where
  "nonneg a \<longleftrightarrow> is_fin a \<and> wf_f64 a \<and> fle (Fin 0) a"

lemma nonnegE:
  assumes "nonneg a"
  obtains x where "a = Fin x" "0 \<le> x" "rnd x = Fin x"
  using assms by (cases a) (auto simp: nonneg_def)

lemma nonneg_Fin [simp]: "nonneg (Fin x) \<longleftrightarrow> 0 \<le> x \<and> rnd x = Fin x"
  by (auto simp: nonneg_def)

lemma rnd_between:
  assumes "0 \<le> x" and "x \<le> y" and "rnd y = Fin y"
  shows "nonneg (rnd x)"
proof -
  have "fle (rnd x) (Fin y)" "fle (Fin 0) (rnd x)"
    using rnd_mono [OF assms(2)] assms rnd_nonneg by auto
  then show ?thesis using wf_rnd [of x] by (cases "rnd x") (auto simp: nonneg_def)
qed

text \<open>Taking a guarded amount out of a balance keeps it non-negative, whatever the rounding.\<close>

lemma nonneg_fsub:
  assumes "nonneg a" and "fle (Fin 0) b" and "fle b a"
  shows "nonneg (fsub a b)"
proof -
  from assms(1) obtain x where a: "a = Fin x" "0 \<le> x" "rnd x = Fin x" by (rule nonnegE)
  with assms(2,3) obtain y where b: "b = Fin y" "0 \<le> y" "y \<le> x" by (cases b) auto
  then show ?thesis using rnd_between [of "x - y" x] a by (simp add: fsub_def)
qed

lemma fle_fadd_right: "wf_f64 a \<Longrightarrow> a \<noteq> NaN \<Longrightarrow> a \<noteq> NInf \<Longrightarrow> fle (Fin 0) b \<Longrightarrow> fle a (fadd a b)"
proof (cases a; cases b)
  fix x y assume "wf_f64 a" "a = Fin x" "b = Fin y" "fle (Fin 0) b"
  then show ?thesis using rnd_mono [of x "x + y"] by simp
qed auto

text \<open>Exact addition and subtraction on a grid.\<close>

definition ongrid :: "nat \<Rightarrow> float64 \<Rightarrow> bool" where
  "ongrid k a \<longleftrightarrow> is_fin a \<and> k \<le> 1074 \<and> val a * 2 ^ k \<in> \<int> \<and> \<bar>val a * 2 ^ k\<bar> \<le> 2 ^ 52"

lemma ongridE:
  assumes "ongrid k a"
  obtains x where "a = Fin x" "x * 2 ^ k \<in> \<int>" "\<bar>x * 2 ^ k\<bar> \<le> 2 ^ 52" "k \<le> 1074"
  using assms by (cases a) (auto simp: ongrid_def)

lemma ongrid_fadd:
  assumes "ongrid k a" and "ongrid k b"
  shows "fadd a b = Fin (val a + val b)"
proof -
  from assms obtain x y where a: "a = Fin x" "x * 2 ^ k \<in> \<int>" "\<bar>x * 2 ^ k\<bar> \<le> 2 ^ 52" "k \<le> 1074"
    and b: "b = Fin y" "y * 2 ^ k \<in> \<int>" "\<bar>y * 2 ^ k\<bar> \<le> 2 ^ 52" by (auto elim!: ongridE)
  have "(x + y) * 2 ^ k \<in> \<int>" using a b by (simp add: distrib_right)
  moreover have "\<bar>(x + y) * 2 ^ k\<bar> \<le> 2 ^ 53"
    using abs_triangle_ineq [of "x * 2 ^ k" "y * 2 ^ k"] a(3) b(3) by (simp add: distrib_right)
  ultimately have "grid k (x + y)" by (simp add: grid_def)
  then show ?thesis using a(4) by (simp add: a(1) b(1) rnd_grid)
qed

lemma ongrid_fneg: "ongrid k a \<Longrightarrow> ongrid k (fneg a) \<and> val (fneg a) = - val a"
  by (cases a) (auto simp: ongrid_def)

lemma ongrid_fsub:
  assumes "ongrid k a" and "ongrid k b"
  shows "fsub a b = Fin (val a - val b)"
  using ongrid_fadd [OF assms(1)] ongrid_fneg [OF assms(2)] by (simp add: fsub_def)

section \<open>Signs\<close>

text \<open>
  Comparisons with zero as the sources write them: a value that is not below
  zero may still be not-a-number.
\<close>

lemma not_flt_rnd: "0 \<le> x \<Longrightarrow> \<not> flt (rnd x) (Fin 0)"
  using rnd_nonneg [of x] by (cases "rnd x") auto

lemma fsub_not_neg: "\<not> flt a b \<Longrightarrow> \<not> flt (fsub a b) (Fin 0)"
  by (cases a; cases b) (auto simp: fsub_def not_flt_rnd)

lemma fadd_not_neg: "\<not> flt a (Fin 0) \<Longrightarrow> \<not> flt b (Fin 0) \<Longrightarrow> \<not> flt (fadd a b) (Fin 0)"
  by (cases a; cases b) (auto simp: not_flt_rnd)

lemma fmul_not_neg: "\<not> flt a (Fin 0) \<Longrightarrow> \<not> flt b (Fin 0) \<Longrightarrow> \<not> flt (fmul a b) (Fin 0)"
  by (cases a; cases b) (auto simp: not_flt_rnd inf_of_def)

lemma not_fle_not_neg: "\<not> fle a (Fin 0) \<Longrightarrow> \<not> flt a (Fin 0)"
  by (auto dest: flt_imp_fle)

lemma fadd_pos:
  assumes "wf_f64 a" and "\<not> fle a (Fin 0)" and "\<not> fle b (Fin 0)"
  shows "\<not> fle (fadd a b) (Fin 0)"
proof (cases a; cases b)
  fix x y assume ab: "a = Fin x" "b = Fin y"
  then have "0 < x" "rnd x = Fin x" "0 < y" using assms by auto
  then have "fle (Fin x) (rnd (x + y))" using rnd_mono [of x "x + y"] by simp
  with \<open>0 < x\<close> ab show ?thesis by (cases "rnd (x + y)") auto
qed (use assms in auto)

lemma rnd_within_1:
  assumes "0 \<le> x" and "x \<le> 2 ^ 52"
  obtains v where "rnd x = Fin v" and "x - 1 \<le> v" and "v \<le> x + 1"
proof -
  let ?i = "\<lfloor>x\<rfloor>"
  have i: "0 \<le> ?i" "?i \<le> 2 ^ 52" using assms by (auto simp: floor_le_iff)
  then have e: "rnd (of_int ?i) = Fin (of_int ?i)" "rnd (of_int (?i + 1)) = Fin (of_int (?i + 1))"
    by (intro rnd_int; simp)+
  have up: "x \<le> of_int (?i + 1)" by linarith
  have "fle (Fin (of_int ?i)) (rnd x)" "fle (rnd x) (Fin (of_int (?i + 1)))"
    using rnd_mono [of "of_int ?i" x] rnd_mono [OF up] e by auto
  moreover have "x - 1 \<le> of_int ?i" "of_int (?i + 1) \<le> x + 1" by (auto, linarith+)
  ultimately show ?thesis using that by (cases "rnd x") (fastforce intro: order_trans)+
qed

end
