(* ===== verification/CoreRepo.thy ===== *)
theory CoreRepo
  imports GoText Float64
begin

text \<open>
  The data model of the investment core, \<open>internal/repository/core_invest/repository.go\<close>, and
  its in-memory repository (\<open>mock.go\<close>, \<open>mock_portfolios_statements_gdpr.go\<close>,
  \<open>mock_gdpr.go\<close>). A portfolio is stored under its own identifier and under the identifier of
  its customer, and both map entries are the same Go pointer: portfolios are addresses into
  a heap. Slices of holdings are addresses as well, because the seed stores one slice under
  several keys and \<open>UpsertHolding\<close> overwrites an element in place. All other stored
  objects have one owner and are values.
\<close>

section \<open>Data\<close>

text \<open>Values of type \<open>interface{}\<close> in the loosely typed maps of a portfolio.\<close>

datatype dyn = DFloat64 float64 | DFloat32 float64 | DInt int | DInt32 int | DInt64 int | DString string

record CameraStream =
  csStreamID :: string
  csCameraAssetID :: string
  csStreamURL :: string
  csProtocol :: string
  csStatus :: string
  csIngestSettings :: string
  csCreatedAt :: time
  csUpdatedAt :: time

record BrokerageOrder =
  boOrderID :: string
  boPortfolioID :: string
  boStrategyID :: "string option"
  boEventID :: "string option"
  boBrokerName :: string
  boSymbol :: string
  boSide :: string
  boQuantity :: float64
  boPrice :: float64
  boStatus :: string
  boExecutedAt :: "time option"
  boCreatedAt :: time
  boUpdatedAt :: time

record BacktestRun =
  btBacktestID :: string
  btStrategyID :: string
  btStartDate :: time
  btEndDate :: time
  btParameters :: string
  btResults :: string
  btStatus :: string
  btCreatedAt :: time
  btUpdatedAt :: time

record RecurringDeposit =
  rdDepositID :: string
  rdCustomerID :: string
  rdPortfolioID :: string
  rdAmountUSD :: float64
  rdFrequency :: string
  rdBankAccount :: string
  rdStatus :: string
  rdNextChargeAt :: time
  rdCreatedAt :: time

record Portfolio =
  pfPortfolioID :: string
  pfCustomerID :: string
  pfCustomerName :: string
  pfAccountName :: string
  pfTotalBalanceUSD :: float64
  pfCashBalanceUSD :: float64
  pfStatus :: string
  pfHoldings :: "(string, dyn) gomap list"
  pfHistoricalPerf :: "(string, dyn) gomap list"
  pfCreatedAt :: time
  pfUpdatedAt :: time

record PortfolioHolding =
  phHoldingID :: string
  phPortfolioID :: string
  phSymbol :: string
  phQuantity :: float64
  phCostBasisUSD :: float64
  phAvgPriceUSD :: float64
  phCurrentPriceUSD :: float64
  phMarketValueUSD :: float64
  phUnrealizedGainUSD :: float64
  phUnrealizedGainPct :: float64
  phCreatedAt :: time
  phUpdatedAt :: time

record TaxLotSale =
  tlLotID :: string
  tlPortfolioID :: string
  tlSymbol :: string
  tlDescription :: string
  tlQuantity :: float64
  tlDateAcquired :: string
  tlDateSold :: string
  tlGrossProceedsUSD :: float64
  tlCostBasisUSD :: float64
  tlWashSaleLossDisallowed :: float64
  tlRealizedGainLossUSD :: float64
  tlIsShortTerm :: bool
  tlTaxYear :: int
  tlCreatedAt :: time
  tlUpdatedAt :: time

record CustomerAPIKey =
  akKeyID :: string
  akCustomerID :: string
  akKeyPrefix :: string
  akKeyHash :: string
  akAPIKey :: string
  akName :: string
  akStatus :: string
  akPermissions :: "string list"
  akCreatedAt :: time

record WebhookSubscription =
  whSubscriptionID :: string
  whCustomerID :: string
  whTargetURL :: string
  whEvents :: "string list"
  whSecret :: string
  whStatus :: string
  whCreatedAt :: time

record InvestmentStatement =
  stStatementID :: string
  stPortfolioID :: string
  stCustomerID :: string
  stStatementType :: string
  stPeriod :: string
  stTaxYear :: int
  stTitle :: string
  stFileName :: string
  stTotalProceedsUSD :: float64
  stNetGainUSD :: float64
  stStatus :: string
  stMetadata :: "(string, dyn) gomap"
  stCreatedAt :: time

record GDPRCertificateRecord =
  gcCertificateID :: string
  gcCustomerIDHash :: string
  gcCustomerEmailHash :: string
  gcLegalBasis :: string
  gcSupervisoryAuthority :: string
  gcTablesScrubbed :: "string list"
  gcSessionsPurgedCount :: int
  gcRecordsScrubbedCount :: int
  gcDigitalSignature :: string
  gcComplianceStatement :: string
  gcCreatedAt :: time

record GDPRErasureStats =
  geCustomerIDHash :: string
  geCustomerEmailHash :: string
  geTablesScrubbed :: "string list"
  geRecordsScrubbedCount :: int

type_synonym addr = nat

text \<open>\<open>mHeap\<close> holds the portfolios, \<open>mArrays\<close> the backing arrays of the slices of holdings.\<close>

record mockRepository =
  mStreams :: "(string, CameraStream) gomap"
  mOrders :: "(string, BrokerageOrder) gomap"
  mRuns :: "(string, BacktestRun) gomap"
  mDeposits :: "(string, RecurringDeposit) gomap"
  mPortfolios :: "(string, addr) gomap"
  mApiKeys :: "(string, CustomerAPIKey list) gomap"
  mWebhooks :: "(string, WebhookSubscription list) gomap"
  mStatements :: "(string, InvestmentStatement list) gomap"
  mCertificates :: "(string, GDPRCertificateRecord) gomap"
  mHoldings :: "(string, addr) gomap"
  mTaxLots :: "(string, TaxLotSale list) gomap"
  mHeap :: "(addr, Portfolio) gomap"
  mArrays :: "(addr, PortfolioHolding list) gomap"
  mNext :: addr

datatype repo_error = DepositNotFound | StatementNotFound | CertificateNotFound

text \<open>\<open>zeroTime\<close> is the zero value of \<open>time.Time\<close>, January 1 of the year 1.\<close>

definition zeroTime :: time where
  "zeroTime = - (62135596800 * second)"

definition slot :: "(string, 'v list) gomap \<Rightarrow> string \<Rightarrow> 'v list" where
  "slot m k = (case m k of None \<Rightarrow> [] | Some xs \<Rightarrow> xs)"

definition deref :: "mockRepository \<Rightarrow> string \<Rightarrow> Portfolio option" where
  "deref m k = (case mPortfolios m k of None \<Rightarrow> None | Some a \<Rightarrow> mHeap m a)"

definition alloc :: "Portfolio \<Rightarrow> mockRepository \<Rightarrow> addr \<times> mockRepository" where
  "alloc p m = (mNext m, m\<lparr>mHeap := (mHeap m)(mNext m \<mapsto> p), mNext := Suc (mNext m)\<rparr>)"

text \<open>An operation that reads the clock more than once is given one reading.\<close>

section \<open>Camera streams, orders and backtests\<close>

definition placeholder_stream :: "string \<Rightarrow> time \<Rightarrow> CameraStream" where
  "placeholder_stream i now = \<lparr>csStreamID = i, csCameraAssetID = ''cam-asset-001'',
     csStreamURL = ''rtsp://edge-camera-01.local/live'', csProtocol = ''rtsp'', csStatus = ''active'',
     csIngestSettings = [], csCreatedAt = now, csUpdatedAt = now\<rparr>"

definition GetCameraStreamByID :: "time \<Rightarrow> string \<Rightarrow> mockRepository \<Rightarrow> CameraStream" where
  "GetCameraStreamByID now i m = (case mStreams m i of Some s \<Rightarrow> s | None \<Rightarrow> placeholder_stream i now)"

definition ListCameraStreams :: "string list \<Rightarrow> time \<Rightarrow> mockRepository \<Rightarrow> CameraStream list" where
  "ListCameraStreams ord now m =
     (let xs = map_vals ord (mStreams m) in if xs = [] then [placeholder_stream ''stream-uuid-001'' now] else xs)"

definition CreateCameraStream :: "time \<Rightarrow> CameraStream \<Rightarrow> mockRepository \<Rightarrow> CameraStream \<times> mockRepository" where
  "CreateCameraStream now s m =
     (let s' = s\<lparr>csStreamID := ''stream-uuid-created'', csCreatedAt := now, csUpdatedAt := now\<rparr>
      in (s', m\<lparr>mStreams := (mStreams m)(csStreamID s' \<mapsto> s')\<rparr>))"

definition placeholder_order :: "string \<Rightarrow> time \<Rightarrow> BrokerageOrder" where
  "placeholder_order i now = \<lparr>boOrderID = i, boPortfolioID = ''portfolio-001'', boStrategyID = None, boEventID = None,
     boBrokerName = ''InteractiveBrokers'', boSymbol = ''ORNG'', boSide = ''buy'', boQuantity = Fin 100,
     boPrice = lit (4250 / 100), boStatus = ''executed'', boExecutedAt = Some now, boCreatedAt = now, boUpdatedAt = now\<rparr>"

definition GetBrokerageOrderByID :: "time \<Rightarrow> string \<Rightarrow> mockRepository \<Rightarrow> BrokerageOrder" where
  "GetBrokerageOrderByID now i m = (case mOrders m i of Some x \<Rightarrow> x | None \<Rightarrow> placeholder_order i now)"

definition ListBrokerageOrders :: "string list \<Rightarrow> time \<Rightarrow> mockRepository \<Rightarrow> BrokerageOrder list" where
  "ListBrokerageOrders ord now m =
     (let xs = map_vals ord (mOrders m) in if xs = [] then [placeholder_order ''order-uuid-001'' now] else xs)"

definition CreateBrokerageOrder :: "time \<Rightarrow> BrokerageOrder \<Rightarrow> mockRepository \<Rightarrow> BrokerageOrder \<times> mockRepository" where
  "CreateBrokerageOrder now x m =
     (let x' = x\<lparr>boOrderID := ''order-uuid-created'', boCreatedAt := now, boUpdatedAt := now\<rparr>
      in (x', m\<lparr>mOrders := (mOrders m)(boOrderID x' \<mapsto> x')\<rparr>))"

definition UpdateBrokerageOrderStatus ::
    "time \<Rightarrow> string \<Rightarrow> string \<Rightarrow> time option \<Rightarrow> mockRepository \<Rightarrow> BrokerageOrder \<times> mockRepository" where
  "UpdateBrokerageOrderStatus now i status executedAt m =
     (let x = (case mOrders m i of Some x \<Rightarrow> x | None \<Rightarrow> placeholder_order i now);
          x' = x\<lparr>boStatus := status, boExecutedAt := executedAt, boUpdatedAt := now\<rparr>
      in (x', m\<lparr>mOrders := (mOrders m)(i \<mapsto> x')\<rparr>))"

definition sample_results :: string where
  "sample_results = ''{'' @ [CHR 0x22] @ ''sharpe_ratio'' @ [CHR 0x22] @ '':1.85, '' @ [CHR 0x22] @ ''alpha'' @ [CHR 0x22] @ '':0.12}''"

definition placeholder_run :: "string \<Rightarrow> time \<Rightarrow> BacktestRun" where
  "placeholder_run i now = \<lparr>btBacktestID = i, btStrategyID = ''strategy-001'', btStartDate = now - 24 * hour * 30,
     btEndDate = now, btParameters = ''{}'', btResults = sample_results, btStatus = ''completed'', btCreatedAt = now, btUpdatedAt = now\<rparr>"

definition GetBacktestRunByID :: "time \<Rightarrow> string \<Rightarrow> mockRepository \<Rightarrow> BacktestRun" where
  "GetBacktestRunByID now i m = (case mRuns m i of Some x \<Rightarrow> x | None \<Rightarrow> placeholder_run i now)"

definition ListBacktestRuns :: "string list \<Rightarrow> time \<Rightarrow> mockRepository \<Rightarrow> BacktestRun list" where
  "ListBacktestRuns ord now m =
     (let xs = map_vals ord (mRuns m) in if xs = [] then [placeholder_run ''backtest-uuid-001'' now] else xs)"

definition CreateBacktestRun :: "time \<Rightarrow> BacktestRun \<Rightarrow> mockRepository \<Rightarrow> BacktestRun \<times> mockRepository" where
  "CreateBacktestRun now x m =
     (let x' = x\<lparr>btBacktestID := ''backtest-uuid-created'', btStatus := ''pending'', btCreatedAt := now, btUpdatedAt := now\<rparr>
      in (x', m\<lparr>mRuns := (mRuns m)(btBacktestID x' \<mapsto> x')\<rparr>))"

definition UpdateBacktestRunResults ::
    "time \<Rightarrow> string \<Rightarrow> string \<Rightarrow> string \<Rightarrow> mockRepository \<Rightarrow> BacktestRun \<times> mockRepository" where
  "UpdateBacktestRunResults now i status results m =
     (let x = (case mRuns m i of Some x \<Rightarrow> x | None \<Rightarrow> (placeholder_run i now)\<lparr>btParameters := []\<rparr>);
          x' = x\<lparr>btStatus := status, btResults := results, btUpdatedAt := now\<rparr>
      in (x', m\<lparr>mRuns := (mRuns m)(i \<mapsto> x')\<rparr>))"

section \<open>Recurring deposits\<close>

definition CreateRecurringDeposit :: "time \<Rightarrow> RecurringDeposit \<Rightarrow> mockRepository \<Rightarrow> RecurringDeposit \<times> mockRepository" where
  "CreateRecurringDeposit now d m =
     (let d' = d\<lparr>rdDepositID := ''deposit-mock-001'', rdCreatedAt := now\<rparr>
      in (d', m\<lparr>mDeposits := (mDeposits m)(rdDepositID d' \<mapsto> d')\<rparr>))"

definition ListRecurringDeposits :: "string list \<Rightarrow> string \<Rightarrow> mockRepository \<Rightarrow> RecurringDeposit list" where
  "ListRecurringDeposits ord customerID m =
     filter (\<lambda>d. customerID = [] \<or> rdCustomerID d = customerID) (map_vals ord (mDeposits m))"

definition GetRecurringDepositByID :: "string \<Rightarrow> mockRepository \<Rightarrow> repo_error + RecurringDeposit" where
  "GetRecurringDepositByID i m = (case mDeposits m i of Some d \<Rightarrow> Inr d | None \<Rightarrow> Inl DepositNotFound)"

definition AdvanceRecurringDepositSchedule ::
    "string \<Rightarrow> time \<Rightarrow> mockRepository \<Rightarrow> (repo_error + unit) \<times> mockRepository" where
  "AdvanceRecurringDepositSchedule i nextChargeAt m = (case mDeposits m i of
     None \<Rightarrow> (Inl DepositNotFound, m)
   | Some d \<Rightarrow> (Inr (), m\<lparr>mDeposits := (mDeposits m)(i \<mapsto> d\<lparr>rdNextChargeAt := nextChargeAt\<rparr>)\<rparr>))"

section \<open>Portfolios\<close>

definition empty_portfolio :: "string \<Rightarrow> string \<Rightarrow> time \<Rightarrow> Portfolio" where
  "empty_portfolio portfolioID customerID now = \<lparr>pfPortfolioID = portfolioID, pfCustomerID = customerID, pfCustomerName = [],
     pfAccountName = ''OCI Investment Portfolio'', pfTotalBalanceUSD = Fin 0, pfCashBalanceUSD = Fin 0,
     pfStatus = ''active'', pfHoldings = [], pfHistoricalPerf = [], pfCreatedAt = now, pfUpdatedAt = now\<rparr>"

text \<open>The first entry of a range over the portfolios that satisfies a condition.\<close>

definition find_portfolio :: "(Portfolio \<Rightarrow> bool) \<Rightarrow> string list \<Rightarrow> mockRepository \<Rightarrow> addr option" where
  "find_portfolio P ord m =
     (case List.find (\<lambda>k. case deref m k of None \<Rightarrow> False | Some p \<Rightarrow> P p) ord of
        None \<Rightarrow> None | Some k \<Rightarrow> mPortfolios m k)"

definition GetPortfolioByCustomerID :: "string list \<Rightarrow> time \<Rightarrow> string \<Rightarrow> mockRepository \<Rightarrow> addr \<times> mockRepository" where
  "GetPortfolioByCustomerID ord now customerID m = (case mPortfolios m customerID of
     Some a \<Rightarrow> (a, m)
   | None \<Rightarrow> (case find_portfolio (\<lambda>p. pfCustomerID p = customerID \<or> pfPortfolioID p = customerID) ord m of
       Some a \<Rightarrow> (a, m)
     | None \<Rightarrow>
         let (a, m') = alloc (empty_portfolio (''port-'' @ customerID) customerID now) m
         in (a, m'\<lparr>mPortfolios := (mPortfolios m)(customerID \<mapsto> a)\<rparr>)))"

definition GetPortfolioByID :: "string list \<Rightarrow> time \<Rightarrow> string \<Rightarrow> mockRepository \<Rightarrow> addr \<times> mockRepository" where
  "GetPortfolioByID ord now portfolioID m =
     (case find_portfolio (\<lambda>p. pfPortfolioID p = portfolioID) ord m of
        Some a \<Rightarrow> (a, m)
      | None \<Rightarrow> (case mPortfolios m portfolioID of
          Some a \<Rightarrow> (a, m)
        | None \<Rightarrow> alloc (empty_portfolio portfolioID portfolioID now) m))"

definition ListPortfolios :: "string list \<Rightarrow> mockRepository \<Rightarrow> Portfolio list" where
  "ListPortfolios ord m = List.map_filter (deref m) ord"

definition CreatePortfolio :: "time \<Rightarrow> Portfolio \<Rightarrow> mockRepository \<Rightarrow> addr \<times> mockRepository" where
  "CreatePortfolio now p m =
     (let p' = p\<lparr>pfPortfolioID := (if pfPortfolioID p = [] then ''port-'' @ dec_int now else pfPortfolioID p),
                 pfCreatedAt := now, pfUpdatedAt := now\<rparr>;
          (a, m') = alloc p' m
      in (a, m'\<lparr>mPortfolios := (mPortfolios m)(pfPortfolioID p' \<mapsto> a, pfCustomerID p' \<mapsto> a)\<rparr>))"

text \<open>\<open>UpdatePortfolio\<close> on the portfolio at address \<open>a\<close>; its holdings are dropped when it is closed.\<close>

definition UpdatePortfolio :: "time \<Rightarrow> addr \<Rightarrow> mockRepository \<Rightarrow> mockRepository" where
  "UpdatePortfolio now a m = (case mHeap m a of
     None \<Rightarrow> m
   | Some p0 \<Rightarrow>
       let p = p0\<lparr>pfUpdatedAt := now\<rparr>;
           pm = (mPortfolios m)(pfPortfolioID p \<mapsto> a);
           pm' = (if pfCustomerID p \<noteq> [] then pm(pfCustomerID p \<mapsto> a) else pm);
           hm = (if pfStatus p = ''closed''
                 then (if pfCustomerID p \<noteq> [] then (mHoldings m)(pfPortfolioID p := None, pfCustomerID p := None)
                       else (mHoldings m)(pfPortfolioID p := None))
                 else mHoldings m)
       in m\<lparr>mHeap := (mHeap m)(a \<mapsto> p), mPortfolios := pm', mHoldings := hm\<rparr>)"

section \<open>API keys and webhooks\<close>

definition CreateAPIKey :: "time \<Rightarrow> CustomerAPIKey \<Rightarrow> mockRepository \<Rightarrow> CustomerAPIKey \<times> mockRepository" where
  "CreateAPIKey now k m =
     (let k' = k\<lparr>akKeyID := (if akKeyID k = [] then ''key-'' @ dec_int now else akKeyID k), akCreatedAt := now, akStatus := ''active''\<rparr>
      in (k', m\<lparr>mApiKeys := (mApiKeys m)(akCustomerID k' \<mapsto> slot (mApiKeys m) (akCustomerID k') @ [k'])\<rparr>))"

definition ListAPIKeys :: "string \<Rightarrow> mockRepository \<Rightarrow> CustomerAPIKey list" where
  "ListAPIKeys customerID m = filter (\<lambda>k. akStatus k \<noteq> ''revoked'') (slot (mApiKeys m) customerID)"

definition RevokeAPIKey :: "string \<Rightarrow> string \<Rightarrow> mockRepository \<Rightarrow> mockRepository" where
  "RevokeAPIKey customerID keyID m =
     m\<lparr>mApiKeys := (\<lambda>c. if c = customerID
        then map_option (map (\<lambda>k. if akKeyID k = keyID \<or> akKeyPrefix k = keyID then k\<lparr>akStatus := ''revoked''\<rparr> else k)) (mApiKeys m c)
        else mApiKeys m c)\<rparr>"

definition CreateWebhook :: "time \<Rightarrow> WebhookSubscription \<Rightarrow> mockRepository \<Rightarrow> WebhookSubscription \<times> mockRepository" where
  "CreateWebhook now w m =
     (let w' = w\<lparr>whSubscriptionID := (if whSubscriptionID w = [] then ''sub-'' @ dec_int now else whSubscriptionID w),
                 whCreatedAt := now, whStatus := ''active''\<rparr>
      in (w', m\<lparr>mWebhooks := (mWebhooks m)(whCustomerID w' \<mapsto> slot (mWebhooks m) (whCustomerID w') @ [w'])\<rparr>))"

definition ListWebhooks :: "string \<Rightarrow> mockRepository \<Rightarrow> WebhookSubscription list" where
  "ListWebhooks customerID m = filter (\<lambda>w. whStatus w \<noteq> ''deleted'') (slot (mWebhooks m) customerID)"

definition DeleteWebhook :: "string \<Rightarrow> string \<Rightarrow> mockRepository \<Rightarrow> mockRepository" where
  "DeleteWebhook customerID subscriptionID m =
     m\<lparr>mWebhooks := (\<lambda>c. if c = customerID
        then map_option (map (\<lambda>w. if whSubscriptionID w = subscriptionID then w\<lparr>whStatus := ''deleted''\<rparr> else w)) (mWebhooks m c)
        else mWebhooks m c)\<rparr>"

section \<open>Holdings\<close>

definition slice_at :: "mockRepository \<Rightarrow> string \<Rightarrow> PortfolioHolding list option" where
  "slice_at m k = (case mHoldings m k of None \<Rightarrow> None | Some a \<Rightarrow> mArrays m a)"

text \<open>
  The slice stored under the argument, else that of the first portfolio of the range that
  the argument names and that has a slice under its own or its customer's identifier.
\<close>

definition holdings_via :: "string \<Rightarrow> mockRepository \<Rightarrow> string \<Rightarrow> PortfolioHolding list option" where
  "holdings_via portfolioID m k = (case deref m k of
     None \<Rightarrow> None
   | Some p \<Rightarrow>
       if k = portfolioID \<or> pfPortfolioID p = portfolioID \<or> pfCustomerID p = portfolioID
       then (case slice_at m (pfPortfolioID p) of Some xs \<Rightarrow> Some xs | None \<Rightarrow> slice_at m (pfCustomerID p))
       else None)"

definition GetHoldingsByPortfolioID :: "string list \<Rightarrow> string \<Rightarrow> mockRepository \<Rightarrow> PortfolioHolding list" where
  "GetHoldingsByPortfolioID ord portfolioID m = (case slice_at m portfolioID of
     Some xs \<Rightarrow> xs
   | None \<Rightarrow> (case List.map_filter (holdings_via portfolioID m) ord of [] \<Rightarrow> [] | xs # _ \<Rightarrow> xs))"

fun replace_symbol :: "PortfolioHolding \<Rightarrow> PortfolioHolding list \<Rightarrow> PortfolioHolding list option" where
  "replace_symbol h [] = None"
| "replace_symbol h (x # xs) = (if phSymbol x = phSymbol h then Some (h # xs) else map_option (Cons x) (replace_symbol h xs))"

definition UpsertHolding :: "time \<Rightarrow> PortfolioHolding \<Rightarrow> mockRepository \<Rightarrow> PortfolioHolding \<times> mockRepository" where
  "UpsertHolding now h0 m =
     (let h = h0\<lparr>phHoldingID := (if phHoldingID h0 = [] then ''holding-'' @ dec_int now else phHoldingID h0), phUpdatedAt := now,
                 phCreatedAt := (if phCreatedAt h0 = zeroTime then now else phCreatedAt h0)\<rparr>;
          xs = (case slice_at m (phPortfolioID h) of None \<Rightarrow> [] | Some xs \<Rightarrow> xs)
      in (h, case (mHoldings m (phPortfolioID h), replace_symbol h xs) of
               (Some a, Some ys) \<Rightarrow> m\<lparr>mArrays := (mArrays m)(a \<mapsto> ys)\<rparr>
             | _ \<Rightarrow> m\<lparr>mArrays := (mArrays m)(mNext m \<mapsto> xs @ [h]),
                      mHoldings := (mHoldings m)(phPortfolioID h \<mapsto> mNext m), mNext := Suc (mNext m)\<rparr>))"

section \<open>Statements and tax lots\<close>

definition CreateInvestmentStatement :: "time \<Rightarrow> InvestmentStatement \<Rightarrow> mockRepository \<Rightarrow> InvestmentStatement \<times> mockRepository" where
  "CreateInvestmentStatement now s m =
     (let s' = s\<lparr>stStatementID := (if stStatementID s = [] then ''stmt-'' @ dec_int now else stStatementID s),
                 stCreatedAt := now, stStatus := ''available''\<rparr>
      in (s', m\<lparr>mStatements := (mStatements m)(stCustomerID s' \<mapsto> s' # slot (mStatements m) (stCustomerID s'))\<rparr>))"

definition ListInvestmentStatements :: "string \<Rightarrow> mockRepository \<Rightarrow> InvestmentStatement list" where
  "ListInvestmentStatements customerID m = slot (mStatements m) customerID"

definition GetInvestmentStatementByID :: "string list \<Rightarrow> string \<Rightarrow> mockRepository \<Rightarrow> repo_error + InvestmentStatement" where
  "GetInvestmentStatementByID ord i m =
     (case List.find (\<lambda>s. stStatementID s = i) (concat (map_vals ord (mStatements m))) of
        Some s \<Rightarrow> Inr s | None \<Rightarrow> Inl StatementNotFound)"

definition lots_via :: "string \<Rightarrow> mockRepository \<Rightarrow> string \<Rightarrow> TaxLotSale list option" where
  "lots_via portfolioID m k = (case deref m k of
     None \<Rightarrow> None
   | Some p \<Rightarrow>
       if k = portfolioID \<or> pfPortfolioID p = portfolioID \<or> pfCustomerID p = portfolioID
       then (case mTaxLots m (pfPortfolioID p) of Some xs \<Rightarrow> Some xs | None \<Rightarrow> mTaxLots m (pfCustomerID p))
       else None)"

definition GetTaxLotSalesByPortfolioID :: "string list \<Rightarrow> string \<Rightarrow> int \<Rightarrow> mockRepository \<Rightarrow> TaxLotSale list" where
  "GetTaxLotSalesByPortfolioID ord portfolioID taxYear m =
     filter (\<lambda>l. taxYear = 0 \<or> tlTaxYear l = taxYear)
       (case mTaxLots m portfolioID of
          Some xs \<Rightarrow> xs
        | None \<Rightarrow> (case List.map_filter (lots_via portfolioID m) ord of [] \<Rightarrow> [] | xs # _ \<Rightarrow> xs))"

definition CreateTaxLotSale :: "time \<Rightarrow> TaxLotSale \<Rightarrow> mockRepository \<Rightarrow> TaxLotSale \<times> mockRepository" where
  "CreateTaxLotSale now l m =
     (let l' = l\<lparr>tlLotID := (if tlLotID l = [] then ''lot-'' @ dec_int now else tlLotID l), tlCreatedAt := now, tlUpdatedAt := now\<rparr>
      in (l', m\<lparr>mTaxLots := (mTaxLots m)(tlPortfolioID l' \<mapsto> slot (mTaxLots m) (tlPortfolioID l') @ [l'])\<rparr>))"

section \<open>Erasure\<close>

definition CreateGDPRErasureCertificate ::
    "time \<Rightarrow> GDPRCertificateRecord \<Rightarrow> mockRepository \<Rightarrow> GDPRCertificateRecord \<times> mockRepository" where
  "CreateGDPRErasureCertificate now c m =
     (let c' = c\<lparr>gcCertificateID := (if gcCertificateID c = [] then ''cert-gdpr-'' @ dec_int now else gcCertificateID c), gcCreatedAt := now\<rparr>
      in (c', m\<lparr>mCertificates := (mCertificates m)(gcCertificateID c' \<mapsto> c')\<rparr>))"

definition GetGDPRErasureCertificateByID :: "string \<Rightarrow> mockRepository \<Rightarrow> repo_error + GDPRCertificateRecord" where
  "GetGDPRErasureCertificateByID i m = (case mCertificates m i of Some c \<Rightarrow> Inr c | None \<Rightarrow> Inl CertificateNotFound)"

definition anonymize :: "string \<Rightarrow> time \<Rightarrow> Portfolio \<Rightarrow> Portfolio" where
  "anonymize custHash now p = p\<lparr>pfAccountName := ''Anonymized Investor ('' @ take 8 custHash @ '')'', pfCustomerName := ''Anonymized Subject'',
     pfStatus := ''closed'', pfTotalBalanceUSD := Fin 0, pfCashBalanceUSD := Fin 0, pfHoldings := [], pfUpdatedAt := now\<rparr>"

definition concerns :: "string \<Rightarrow> string \<Rightarrow> Portfolio \<Rightarrow> bool" where
  "concerns customerID k p \<longleftrightarrow> k = customerID \<or> pfCustomerID p = customerID \<or> pfPortfolioID p = customerID"

definition erase_entry :: "string \<Rightarrow> time \<Rightarrow> string \<Rightarrow> string \<Rightarrow> mockRepository \<times> string list \<Rightarrow> mockRepository \<times> string list" where
  "erase_entry custHash now customerID k st = (case st of (m, tables) \<Rightarrow>
     (case mPortfolios m k of
        None \<Rightarrow> st
      | Some a \<Rightarrow> (case mHeap m a of
          None \<Rightarrow> st
        | Some p \<Rightarrow>
            if concerns customerID k p
            then (m\<lparr>mHeap := (mHeap m)(a \<mapsto> anonymize custHash now p),
                    mHoldings := (mHoldings m)(pfPortfolioID p := None, pfCustomerID p := None, k := None),
                    mTaxLots := (mTaxLots m)(pfPortfolioID p := None, pfCustomerID p := None, k := None)\<rparr>,
                  tables @ [''core_invest.investment_portfolios'', ''core_invest.portfolio_holdings'', ''core_invest.tax_lot_sales''])
            else st)))"

text \<open>\<open>sha\<close> is SHA-256; \<open>dord\<close> and \<open>pord\<close> are the orders of the ranges over deposits and portfolios.\<close>

definition ExecuteGDPRErasure ::
    "(string \<Rightarrow> string) \<Rightarrow> string list \<Rightarrow> string list \<Rightarrow> time \<Rightarrow> string \<Rightarrow> mockRepository \<Rightarrow> GDPRErasureStats \<times> mockRepository" where
  "ExecuteGDPRErasure sha dord pord now customerID m =
     (let custHash = EncodeToString (sha customerID);
          (n1, t1) = (case mApiKeys m customerID of None \<Rightarrow> (0, []) | Some ks \<Rightarrow> (int (length ks), [''core_invest.customer_api_keys'']));
          (n2, t2) = (case mWebhooks m customerID of None \<Rightarrow> (0, []) | Some ws \<Rightarrow> (int (length ws), [''core_invest.webhook_subscriptions'']));
          depCount = int (length (filter (\<lambda>d. rdCustomerID d = customerID) (map_vals dord (mDeposits m))));
          t3 = (if 0 < depCount then [''core_invest.recurring_deposits''] else []);
          m1 = m\<lparr>mApiKeys := (mApiKeys m)(customerID := None), mWebhooks := (mWebhooks m)(customerID := None),
                 mDeposits := (\<lambda>i. case mDeposits m i of None \<Rightarrow> None | Some d \<Rightarrow> if rdCustomerID d = customerID then None else Some d)\<rparr>;
          (m2, tables) = fold (erase_entry custHash now customerID) pord (m1, t1 @ t2 @ t3)
      in (\<lparr>geCustomerIDHash = custHash, geCustomerEmailHash = custHash,
           geTablesScrubbed = tables @ [''ops.it_tickets'', ''ops.ticket_comments''],
           geRecordsScrubbedCount = n1 + n2 + depCount\<rparr>, m2))"

section \<open>Seeding\<close>

definition cents :: "int \<Rightarrow> float64" where
  "cents n = lit (of_int n / 100)"

definition seed_position :: "string \<Rightarrow> float64 \<Rightarrow> float64 \<Rightarrow> float64 \<Rightarrow> float64 \<Rightarrow> (string, dyn) gomap" where
  "seed_position symbol quantity avg_price current_price market_value =
     [''symbol'' \<mapsto> DString symbol, ''quantity'' \<mapsto> DFloat64 quantity, ''avg_price'' \<mapsto> DFloat64 avg_price,
      ''current_price'' \<mapsto> DFloat64 current_price, ''market_value'' \<mapsto> DFloat64 market_value]"

definition seed_valuation :: "string \<Rightarrow> float64 \<Rightarrow> (string, dyn) gomap" where
  "seed_valuation date valuation = [''date'' \<mapsto> DString date, ''valuation'' \<mapsto> DFloat64 valuation]"

definition arthurPortfolio :: "time \<Rightarrow> Portfolio" where
  "arthurPortfolio now = \<lparr>pfPortfolioID = ''port-cust-longterm-arthur'', pfCustomerID = ''cust-longterm-arthur'',
     pfCustomerName = ''Arthur Pendelton'', pfAccountName = ''OCI Alpha Growth Fund'',
     pfTotalBalanceUSD = cents 12845075, pfCashBalanceUSD = cents 3210025, pfStatus = ''active'',
     pfHoldings = [seed_position ''AAPL'' (Fin 120) (cents 17850) (cents 22430) (cents 2691600),
       seed_position ''NVDA'' (Fin 85) (cents 11020) (cents 13880) (cents 1179800),
       seed_position ''MSFT'' (Fin 90) (cents 38000) (cents 44820) (cents 4033800),
       seed_position ''TSLA'' (Fin 70) (cents 19000) (cents 24712) (cents 1729840)],
     pfHistoricalPerf = [seed_valuation ''2026-01-01'' (cents 10000000), seed_valuation ''2026-02-01'' (cents 10840000),
       seed_valuation ''2026-03-01'' (cents 11420000), seed_valuation ''2026-04-01'' (cents 12845075)],
     pfCreatedAt = now, pfUpdatedAt = now\<rparr>"

definition chloePortfolio :: "time \<Rightarrow> Portfolio" where
  "chloePortfolio now = \<lparr>pfPortfolioID = ''port-cust-active-chloe'', pfCustomerID = ''cust-active-chloe'',
     pfCustomerName = ''Chloe Spark'', pfAccountName = ''Chloe Spark High-Velocity Alpha'',
     pfTotalBalanceUSD = cents 8520000, pfCashBalanceUSD = cents 1540000, pfStatus = ''active'',
     pfHoldings = [seed_position ''NVDA'' (Fin 150) (cents 11240) (cents 13880) (cents 2082000),
       seed_position ''TSLA'' (Fin 120) (cents 18550) (cents 24712) (cents 2965440),
       seed_position ''AAPL'' (Fin 85) (cents 18010) (cents 22430) (cents 1906550)],
     pfHistoricalPerf = [seed_valuation ''2026-01-01'' (cents 5000000), seed_valuation ''2026-02-01'' (cents 6240000),
       seed_valuation ''2026-03-01'' (cents 7410000), seed_valuation ''2026-04-01'' (cents 8520000)],
     pfCreatedAt = now, pfUpdatedAt = now\<rparr>"

definition seed_holding ::
    "time \<Rightarrow> string \<Rightarrow> string \<Rightarrow> string \<Rightarrow> float64 \<Rightarrow> int \<Rightarrow> int \<Rightarrow> int \<Rightarrow> int \<Rightarrow> int \<Rightarrow> int \<Rightarrow> PortfolioHolding" where
  "seed_holding now digit portfolioID symbol qty cost avg cur mv gain pct10000 =
     \<lparr>phHoldingID = ''018f3a9a-9999-7000-8000-00000000000'' @ digit, phPortfolioID = portfolioID, phSymbol = symbol, phQuantity = qty,
      phCostBasisUSD = cents cost, phAvgPriceUSD = cents avg, phCurrentPriceUSD = cents cur, phMarketValueUSD = cents mv,
      phUnrealizedGainUSD = cents gain, phUnrealizedGainPct = lit (of_int pct10000 / 10000), phCreatedAt = now, phUpdatedAt = now\<rparr>"

definition arthurUUID :: string where "arthurUUID = ''018f3a9a-2222-7000-8000-000000000002''"
definition chloeUUID :: string where "chloeUUID = ''018f3a9a-2222-7000-8000-000000000003''"

definition arthurHoldings :: "time \<Rightarrow> PortfolioHolding list" where
  "arthurHoldings now = [seed_holding now ''1'' arthurUUID ''AAPL'' (Fin 120) 2142000 17850 22430 2691600 549600 256583,
     seed_holding now ''2'' arthurUUID ''NVDA'' (Fin 85) 936700 11020 13880 1179800 243100 259528,
     seed_holding now ''3'' arthurUUID ''MSFT'' (Fin 90) 3420000 38000 44820 4033800 613800 179474,
     seed_holding now ''4'' arthurUUID ''TSLA'' (Fin 70) 1330000 19000 24712 1729840 399840 300632]"

definition chloeHoldings :: "time \<Rightarrow> PortfolioHolding list" where
  "chloeHoldings now = [seed_holding now ''5'' chloeUUID ''NVDA'' (Fin 150) 1686000 11240 13880 2082000 396000 234875,
     seed_holding now ''6'' chloeUUID ''TSLA'' (Fin 120) 2226000 18550 24712 2965440 739440 332183,
     seed_holding now ''7'' chloeUUID ''AAPL'' (Fin 85) 1530850 18010 22430 1906550 375700 245420]"

definition seed_lot ::
    "time \<Rightarrow> string \<Rightarrow> string \<Rightarrow> string \<Rightarrow> string \<Rightarrow> int \<Rightarrow> string \<Rightarrow> string \<Rightarrow> int \<Rightarrow> int \<Rightarrow> int \<Rightarrow> bool \<Rightarrow> TaxLotSale" where
  "seed_lot now digit portfolioID symbol desc qty acquired sold gross cost gain short =
     \<lparr>tlLotID = ''018f3a9a-aaaa-7000-8000-00000000000'' @ digit, tlPortfolioID = portfolioID, tlSymbol = symbol, tlDescription = desc,
      tlQuantity = Fin (of_int qty), tlDateAcquired = acquired, tlDateSold = sold, tlGrossProceedsUSD = cents gross,
      tlCostBasisUSD = cents cost, tlWashSaleLossDisallowed = Fin 0, tlRealizedGainLossUSD = cents gain, tlIsShortTerm = short,
      tlTaxYear = 2025, tlCreatedAt = now, tlUpdatedAt = now\<rparr>"

definition arthurTaxLots :: "time \<Rightarrow> TaxLotSale list" where
  "arthurTaxLots now =
     [seed_lot now ''1'' arthurUUID ''NVDA'' ''50 shs NVDA'' 50 ''2025-02-14'' ''2025-08-20'' 694000 550000 144000 True,
      seed_lot now ''2'' arthurUUID ''AAPL'' ''35 shs AAPL'' 35 ''2025-01-10'' ''2025-09-15'' 785000 620000 165000 True,
      seed_lot now ''3'' arthurUUID ''MSFT'' ''20 shs MSFT'' 20 ''2024-03-01'' ''2025-11-12'' 896000 710000 186000 False]"

definition chloeTaxLots :: "time \<Rightarrow> TaxLotSale list" where
  "chloeTaxLots now =
     [seed_lot now ''4'' chloeUUID ''TSLA'' ''40 shs TSLA'' 40 ''2025-03-15'' ''2025-07-22'' 988480 742000 246480 True,
      seed_lot now ''5'' chloeUUID ''NVDA'' ''60 shs NVDA'' 60 ''2025-02-01'' ''2025-08-10'' 832800 674400 158400 True]"

definition seed_statement ::
    "time \<Rightarrow> string \<Rightarrow> string \<Rightarrow> string \<Rightarrow> string \<Rightarrow> int \<Rightarrow> string \<Rightarrow> string \<Rightarrow> int \<Rightarrow> int \<Rightarrow> InvestmentStatement" where
  "seed_statement created i customerID ty period year title file proceeds gain =
     \<lparr>stStatementID = i, stPortfolioID = ''port-'' @ customerID, stCustomerID = customerID, stStatementType = ty, stPeriod = period,
      stTaxYear = year, stTitle = title, stFileName = file, stTotalProceedsUSD = cents proceeds, stNetGainUSD = cents gain,
      stStatus = ''available'', stMetadata = Map.empty, stCreatedAt = created\<rparr>"

definition seed_statements :: "time \<Rightarrow> string \<Rightarrow> string \<Rightarrow> int \<Rightarrow> int \<Rightarrow> int \<Rightarrow> int \<Rightarrow> InvestmentStatement list" where
  "seed_statements now customerID short p1 g1 p2 g2 =
     [seed_statement (now - 24 * hour * 15) (''stmt-'' @ short @ ''-2026-03'') customerID ''monthly_summary'' ''March 2026'' 2026
        ''Monthly Portfolio Summary - March 2026'' (''monthly-statement-port-'' @ customerID @ ''-2026-03.pdf'') p1 g1,
      seed_statement (now - 24 * hour * 45) (''stmt-'' @ short @ ''-1099b-2025'') customerID ''form_1099b'' ''Tax Year 2025'' 2025
        ''IRS Form 1099-B Tax Report - 2025'' (''form1099b-port-'' @ customerID @ ''-2025.pdf'') p2 g2]"

definition arthur :: string where "arthur = ''cust-longterm-arthur''"
definition chloe :: string where "chloe = ''cust-active-chloe''"

definition NewMockRepository :: "time \<Rightarrow> mockRepository" where
  "NewMockRepository now =
     \<lparr>mStreams = Map.empty, mOrders = Map.empty, mRuns = Map.empty, mDeposits = Map.empty,
      mPortfolios = [arthur \<mapsto> 0, chloe \<mapsto> 1],
      mApiKeys = [chloe \<mapsto> [\<lparr>akKeyID = ''key-018f-8888'', akCustomerID = chloe, akKeyPrefix = ''oci_live_9a8f'', akKeyHash = [],
        akAPIKey = [], akName = ''Chloe Momentum Bot'', akStatus = ''active'',
        akPermissions = [''read_streams'', ''execute_orders'', ''read_telemetry''], akCreatedAt = now\<rparr>]],
      mWebhooks = [arthur \<mapsto> [\<lparr>whSubscriptionID = ''sub-018f-1111'', whCustomerID = arthur,
        whTargetURL = ''https://quant-bot.chloespark.io/api/v1/oci-callback'',
        whEvents = [''events.observation.cat_spotted.v1'', ''events.trade.executed.v1''], whSecret = [], whStatus = ''active'', whCreatedAt = now\<rparr>]],
      mStatements = [arthur \<mapsto> seed_statements now arthur ''arthur'' 12845075 2845075 6420000 1430000,
        chloe \<mapsto> seed_statements now chloe ''chloe'' 8520000 2280000 9840000 3210000],
      mCertificates = Map.empty,
      mHoldings = [arthurUUID \<mapsto> 2, arthur \<mapsto> 2, ''port-cust-longterm-arthur'' \<mapsto> 2, ''018e0000-0000-7000-8000-000000000099'' \<mapsto> 2,
        chloeUUID \<mapsto> 3, chloe \<mapsto> 3, ''port-cust-active-chloe'' \<mapsto> 3, ''018e0000-0000-7000-8000-000000000098'' \<mapsto> 3],
      mTaxLots = [arthurUUID \<mapsto> arthurTaxLots now, arthur \<mapsto> arthurTaxLots now, ''port-cust-longterm-arthur'' \<mapsto> arthurTaxLots now,
        chloeUUID \<mapsto> chloeTaxLots now, chloe \<mapsto> chloeTaxLots now, ''port-cust-active-chloe'' \<mapsto> chloeTaxLots now],
      mHeap = [0 \<mapsto> arthurPortfolio now, 1 \<mapsto> chloePortfolio now],
      mArrays = [2 \<mapsto> arthurHoldings now, 3 \<mapsto> chloeHoldings now], mNext = 4\<rparr>"

section \<open>The invariant of the repository\<close>

definition entry_ok :: "mockRepository \<Rightarrow> string \<Rightarrow> addr \<Rightarrow> bool" where
  "entry_ok m k a \<longleftrightarrow> (\<exists>p. mHeap m a = Some p \<and> (k = pfPortfolioID p \<or> k = pfCustomerID p))"

definition owned :: "('v \<Rightarrow> string) \<Rightarrow> (string, 'v list) gomap \<Rightarrow> bool" where
  "owned f m \<longleftrightarrow> (\<forall>c xs. m c = Some xs \<longrightarrow> (\<forall>x \<in> set xs. f x = c))"

definition repo_inv :: "mockRepository \<Rightarrow> bool" where
  "repo_inv m \<longleftrightarrow> (\<forall>k a. mPortfolios m k = Some a \<longrightarrow> entry_ok m k a)
     \<and> (\<forall>k a. mHoldings m k = Some a \<longrightarrow> a \<in> dom (mArrays m))
     \<and> (\<forall>a xs. mArrays m a = Some xs \<longrightarrow> distinct (map phSymbol xs))
     \<and> (\<forall>a \<in> dom (mHeap m) \<union> dom (mArrays m). a < mNext m)
     \<and> owned akCustomerID (mApiKeys m) \<and> owned whCustomerID (mWebhooks m) \<and> owned stCustomerID (mStatements m)"

lemma repo_invI:
  assumes "\<And>k a. mPortfolios m k = Some a \<Longrightarrow> entry_ok m k a"
    and "\<And>k a. mHoldings m k = Some a \<Longrightarrow> a \<in> dom (mArrays m)"
    and "\<And>a xs. mArrays m a = Some xs \<Longrightarrow> distinct (map phSymbol xs)"
    and "\<And>a. a \<in> dom (mHeap m) \<union> dom (mArrays m) \<Longrightarrow> a < mNext m"
    and "owned akCustomerID (mApiKeys m)" "owned whCustomerID (mWebhooks m)" "owned stCustomerID (mStatements m)"
  shows "repo_inv m"
  using assms unfolding repo_inv_def by blast

lemma repo_invD:
  assumes "repo_inv m"
  shows "mPortfolios m k = Some a \<Longrightarrow> entry_ok m k a"
    and "mHoldings m k = Some b \<Longrightarrow> b \<in> dom (mArrays m)"
    and "mArrays m b = Some xs \<Longrightarrow> distinct (map phSymbol xs)"
    and "mHeap m a = Some p \<Longrightarrow> a < mNext m"
    and "mArrays m b = Some xs \<Longrightarrow> b < mNext m"
    and "owned akCustomerID (mApiKeys m)" "owned whCustomerID (mWebhooks m)" "owned stCustomerID (mStatements m)"
  using assms unfolding repo_inv_def by blast+

lemma owned_snoc: "owned f m \<Longrightarrow> f x = c \<Longrightarrow> owned f (m(c \<mapsto> slot m c @ [x]))"
  by (cases "m c") (auto simp: owned_def slot_def)

lemma owned_Cons: "owned f m \<Longrightarrow> f x = c \<Longrightarrow> owned f (m(c \<mapsto> x # slot m c))"
  by (cases "m c") (auto simp: owned_def slot_def)

lemma owned_drop: "owned f m \<Longrightarrow> owned f (m(c := None))"
  by (auto simp: owned_def)

lemma owned_map:
  assumes "owned f m" and "\<And>x. f (g x) = f x"
  shows "owned f (\<lambda>d. if d = c then map_option (map g) (m d) else m d)"
  using assms by (auto simp: owned_def)

text \<open>Replacing a portfolio by one with the same identifiers keeps every map entry valid.\<close>

lemma entry_ok_upd:
  assumes "entry_ok m k b" and "mHeap m a = Some p" and "pfPortfolioID p' = pfPortfolioID p" "pfCustomerID p' = pfCustomerID p"
    and "mHeap m' = (mHeap m)(a \<mapsto> p')"
  shows "entry_ok m' k b"
  using assms unfolding entry_ok_def by (cases "b = a") auto

lemma entry_ok_heap: "mHeap m' = mHeap m \<Longrightarrow> entry_ok m' = entry_ok m"
  by (simp add: entry_ok_def fun_eq_iff)

lemma write_inv:
  assumes "repo_inv m" and "mHeap m a = Some p" and "pfPortfolioID p' = pfPortfolioID p" "pfCustomerID p' = pfCustomerID p"
  shows "repo_inv (m\<lparr>mHeap := (mHeap m)(a \<mapsto> p')\<rparr>)"
proof (rule repo_invI)
  fix k b assume "mPortfolios (m\<lparr>mHeap := (mHeap m)(a \<mapsto> p')\<rparr>) k = Some b"
  then have "entry_ok m k b" using repo_invD(1) [OF assms(1)] by simp
  then show "entry_ok (m\<lparr>mHeap := (mHeap m)(a \<mapsto> p')\<rparr>) k b"
    by (rule entry_ok_upd [OF _ assms(2-4)]) simp
qed (use repo_invD [OF assms(1)] assms(2) in \<open>auto split: if_splits\<close>)

lemma alloc_inv:
  assumes "repo_inv m" and "alloc p m = (a, m')"
  shows "repo_inv m'" and "mHeap m' a = Some p" and "mPortfolios m' = mPortfolios m" and "a = mNext m"
proof -
  have m': "m' = m\<lparr>mHeap := (mHeap m)(mNext m \<mapsto> p), mNext := Suc (mNext m)\<rparr>" "a = mNext m"
    using assms(2) by (auto simp: alloc_def)
  then show "mHeap m' a = Some p" "mPortfolios m' = mPortfolios m" "a = mNext m" by simp_all
  show "repo_inv m'"
  proof (rule repo_invI)
    fix k b assume "mPortfolios m' k = Some b"
    then have "entry_ok m k b" using repo_invD(1) [OF assms(1)] by (simp add: m')
    moreover from this have "b \<noteq> mNext m" using repo_invD(4) [OF assms(1)] by (auto simp: entry_ok_def)
    ultimately show "entry_ok m' k b" by (simp add: entry_ok_def m')
  qed (use repo_invD [OF assms(1)] in \<open>auto simp: m' less_Suc_eq split: if_splits\<close>)
qed

lemma link_inv:
  assumes "repo_inv m" and "entry_ok m k a"
  shows "repo_inv (m\<lparr>mPortfolios := (mPortfolios m)(k \<mapsto> a)\<rparr>)"
  using assms by (auto simp: repo_inv_def entry_ok_def split: if_splits)

lemma unlink_holdings_inv:
  assumes "repo_inv m" and "\<And>k a. h k = Some a \<Longrightarrow> mHoldings m k = Some a"
  shows "repo_inv (m\<lparr>mHoldings := h\<rparr>)"
  using assms unfolding repo_inv_def entry_ok_def by force

text \<open>Operations on the parts of the repository that the invariant does not mention.\<close>

lemma repo_inv_cong:
  assumes "repo_inv m" and "mPortfolios m' = mPortfolios m" "mHeap m' = mHeap m" "mHoldings m' = mHoldings m"
    "mArrays m' = mArrays m" "mNext m' = mNext m" "mApiKeys m' = mApiKeys m" "mWebhooks m' = mWebhooks m" "mStatements m' = mStatements m"
  shows "repo_inv m'"
  using assms entry_ok_heap [of m' m] by (simp add: repo_inv_def)

lemma CreatePortfolio_inv [wf_intros]:
  assumes "repo_inv m" shows "repo_inv (snd (CreatePortfolio now p m))"
proof -
  define q where "q = p\<lparr>pfPortfolioID := (if pfPortfolioID p = [] then ''port-'' @ dec_int now else pfPortfolioID p), pfCreatedAt := now, pfUpdatedAt := now\<rparr>"
  obtain a m1 where al: "alloc q m = (a, m1)" by fastforce
  note m1 = alloc_inv [OF assms al]
  have ok: "entry_ok m1 (pfPortfolioID q) a" "entry_ok m1 (pfCustomerID q) a" using m1(2) by (auto simp: entry_ok_def)
  have "repo_inv ((m1\<lparr>mPortfolios := (mPortfolios m1)(pfPortfolioID q \<mapsto> a)\<rparr>)
    \<lparr>mPortfolios := (mPortfolios (m1\<lparr>mPortfolios := (mPortfolios m1)(pfPortfolioID q \<mapsto> a)\<rparr>))(pfCustomerID q \<mapsto> a)\<rparr>)"
    by (rule link_inv [OF link_inv [OF m1(1) ok(1)]]) (use ok(2) in \<open>simp add: entry_ok_def\<close>)
  then show ?thesis
    using al m1(3) by (simp add: CreatePortfolio_def q_def [symmetric] Let_def)
qed

lemma GetPortfolioByCustomerID_inv [wf_intros]:
  assumes "repo_inv m" shows "repo_inv (snd (GetPortfolioByCustomerID ord now c m))"
proof -
  obtain a m1 where al: "alloc (empty_portfolio (''port-'' @ c) c now) m = (a, m1)" by fastforce
  note m1 = alloc_inv [OF assms al]
  have "repo_inv (m1\<lparr>mPortfolios := (mPortfolios m1)(c \<mapsto> a)\<rparr>)"
    by (rule link_inv [OF m1(1)]) (use m1(2) in \<open>simp add: entry_ok_def empty_portfolio_def\<close>)
  then show ?thesis
    using assms al m1(3) by (simp add: GetPortfolioByCustomerID_def split: option.splits)
qed

lemma GetPortfolioByID_inv [wf_intros]:
  assumes "repo_inv m" shows "repo_inv (snd (GetPortfolioByID ord now i m))"
  using assms alloc_inv(1) [OF assms] by (auto simp: GetPortfolioByID_def split: option.splits intro: prod.collapse [symmetric])

text \<open>Whatever portfolio a lookup returns is allocated.\<close>

lemma find_portfolio_ok:
  assumes "repo_inv m" and "find_portfolio P ord m = Some a"
  shows "\<exists>p. mHeap m a = Some p \<and> P p"
  using assms(2) repo_invD(1) [OF assms(1)]
  by (auto simp: find_portfolio_def deref_def find_Some_iff split: option.splits)

lemma GetPortfolioByCustomerID_alloc:
  assumes "repo_inv m" and "GetPortfolioByCustomerID ord now c m = (a, m')"
  shows "\<exists>p. mHeap m' a = Some p \<and> (pfCustomerID p = c \<or> pfPortfolioID p = c)"
proof (cases "mPortfolios m c")
  case (Some b)
  with assms repo_invD(1) [OF assms(1) Some] show ?thesis
    by (auto simp: GetPortfolioByCustomerID_def entry_ok_def)
next
  case None
  show ?thesis
  proof (cases "find_portfolio (\<lambda>p. pfCustomerID p = c \<or> pfPortfolioID p = c) ord m")
    case (Some b)
    with assms None find_portfolio_ok [OF assms(1) Some] show ?thesis by (simp add: GetPortfolioByCustomerID_def)
  next
    case fresh: None
    with None assms(2) show ?thesis
      by (auto simp: GetPortfolioByCustomerID_def alloc_def empty_portfolio_def)
  qed
qed

lemma UpdatePortfolio_inv [wf_intros]:
  assumes "repo_inv m" shows "repo_inv (UpdatePortfolio now a m)"
proof (cases "mHeap m a")
  case (Some p0)
  define p where "p = p0\<lparr>pfUpdatedAt := now\<rparr>"
  define m1 where "m1 = m\<lparr>mHeap := (mHeap m)(a \<mapsto> p)\<rparr>"
  define m2 where "m2 = m1\<lparr>mPortfolios := (mPortfolios m1)(pfPortfolioID p \<mapsto> a)\<rparr>"
  define m3 where "m3 = (if pfCustomerID p \<noteq> [] then m2\<lparr>mPortfolios := (mPortfolios m2)(pfCustomerID p \<mapsto> a)\<rparr> else m2)"
  have 1: "repo_inv m1" unfolding m1_def by (rule write_inv [OF assms Some]) (simp_all add: p_def)
  have 2: "repo_inv m2" unfolding m2_def by (rule link_inv [OF 1]) (simp add: m1_def entry_ok_def)
  have 3: "repo_inv m3" unfolding m3_def
    using 2 link_inv [OF 2, of "pfCustomerID p" a] by (simp add: m1_def m2_def entry_ok_def)
  have "repo_inv (m3\<lparr>mHoldings := h\<rparr>)" if "\<And>k b. h k = Some b \<Longrightarrow> mHoldings m k = Some b" for h
    by (rule unlink_holdings_inv [OF 3]) (use that in \<open>simp add: m3_def m2_def m1_def\<close>)
  moreover have "\<exists>h. UpdatePortfolio now a m = m3\<lparr>mHoldings := h\<rparr> \<and> (\<forall>k b. h k = Some b \<longrightarrow> mHoldings m k = Some b)"
    using Some by (intro exI [of _ "mHoldings (UpdatePortfolio now a m)"])
      (auto simp: UpdatePortfolio_def Let_def p_def [symmetric] m1_def m2_def m3_def split: if_splits)
  ultimately show ?thesis by metis
qed (use assms in \<open>simp add: UpdatePortfolio_def\<close>)

lemma CreateAPIKey_inv [wf_intros]: "repo_inv m \<Longrightarrow> repo_inv (snd (CreateAPIKey now k m))"
  unfolding CreateAPIKey_def Let_def snd_conv repo_inv_def entry_ok_def by (simp add: owned_snoc)

lemma CreateWebhook_inv [wf_intros]: "repo_inv m \<Longrightarrow> repo_inv (snd (CreateWebhook now w m))"
  unfolding CreateWebhook_def Let_def snd_conv repo_inv_def entry_ok_def by (simp add: owned_snoc)

lemma CreateInvestmentStatement_inv [wf_intros]: "repo_inv m \<Longrightarrow> repo_inv (snd (CreateInvestmentStatement now s m))"
  unfolding CreateInvestmentStatement_def Let_def snd_conv repo_inv_def entry_ok_def by (simp add: owned_Cons)

lemma RevokeAPIKey_inv [wf_intros]: "repo_inv m \<Longrightarrow> repo_inv (RevokeAPIKey c i m)"
  unfolding RevokeAPIKey_def repo_inv_def entry_ok_def by (simp add: owned_map)

lemma DeleteWebhook_inv [wf_intros]: "repo_inv m \<Longrightarrow> repo_inv (DeleteWebhook c i m)"
  unfolding DeleteWebhook_def repo_inv_def entry_ok_def by (simp add: owned_map)

lemma replace_symbol_Some: "replace_symbol h xs = Some ys \<Longrightarrow> map phSymbol ys = map phSymbol xs \<and> h \<in> set ys \<and> set ys \<subseteq> insert h (set xs)"
  by (induction xs arbitrary: ys) (auto split: if_splits)

lemma replace_symbol_None: "replace_symbol h xs = None \<longleftrightarrow> phSymbol h \<notin> phSymbol ` set xs"
  by (induction xs) auto

text \<open>\<open>UpsertHolding\<close> writes either into the slice of its portfolio or into a new slice.\<close>

lemma UpsertHolding_cases:
  assumes "UpsertHolding now h0 m = (h, m')"
  obtains (replaced) a xs ys where "mHoldings m (phPortfolioID h0) = Some a" "mArrays m a = Some xs" "replace_symbol h xs = Some ys"
      "m' = m\<lparr>mArrays := (mArrays m)(a \<mapsto> ys)\<rparr>"
  | (appended) xs where "replace_symbol h xs = None" "xs = (case slice_at m (phPortfolioID h0) of None \<Rightarrow> [] | Some xs \<Rightarrow> xs)"
      "m' = m\<lparr>mArrays := (mArrays m)(mNext m \<mapsto> xs @ [h]),
              mHoldings := (mHoldings m)(phPortfolioID h0 \<mapsto> mNext m), mNext := Suc (mNext m)\<rparr>"
proof -
  define g where "g = h0\<lparr>phHoldingID := (if phHoldingID h0 = [] then ''holding-'' @ dec_int now else phHoldingID h0), phUpdatedAt := now,
    phCreatedAt := (if phCreatedAt h0 = zeroTime then now else phCreatedAt h0)\<rparr>"
  have h: "h = g" and pid: "phPortfolioID g = phPortfolioID h0"
    using assms by (auto simp: UpsertHolding_def Let_def g_def)
  define xs where "xs = (case slice_at m (phPortfolioID h0) of None \<Rightarrow> [] | Some xs \<Rightarrow> xs)"
  have m': "m' = (case (mHoldings m (phPortfolioID h0), replace_symbol g xs) of
       (Some a, Some ys) \<Rightarrow> m\<lparr>mArrays := (mArrays m)(a \<mapsto> ys)\<rparr>
     | _ \<Rightarrow> m\<lparr>mArrays := (mArrays m)(mNext m \<mapsto> xs @ [g]), mHoldings := (mHoldings m)(phPortfolioID h0 \<mapsto> mNext m), mNext := Suc (mNext m)\<rparr>)"
    using assms unfolding UpsertHolding_def Let_def g_def [symmetric] pid xs_def [symmetric]
    by (elim Pair_inject) (rule sym)
  show thesis
  proof (cases "mHoldings m (phPortfolioID h0)")
    case None
    then have "xs = []" by (simp add: xs_def slice_at_def)
    with None m' show thesis by (intro appended [of xs]) (simp_all add: h xs_def)
  next
    case (Some a)
    show thesis
    proof (cases "replace_symbol g xs")
      case None
      with Some m' show thesis by (intro appended [of xs]) (simp_all add: h xs_def)
    next
      case ys: (Some ys)
      then have "mArrays m a = Some xs"
        using Some by (cases "mArrays m a") (auto simp: xs_def slice_at_def)
      with ys Some m' show thesis by (intro replaced) (simp_all add: h)
    qed
  qed
qed

lemma slice_distinct: "repo_inv m \<Longrightarrow> slice_at m k = Some xs \<Longrightarrow> distinct (map phSymbol xs)"
  by (auto simp: slice_at_def dest: repo_invD(3) split: option.splits)

lemma UpsertHolding_inv [wf_intros]:
  assumes "repo_inv m" shows "repo_inv (snd (UpsertHolding now h0 m))"
proof -
  obtain h m' where u: "UpsertHolding now h0 m = (h, m')" by fastforce
  from u have "repo_inv m'"
  proof (cases rule: UpsertHolding_cases)
    case (replaced a xs ys)
    have "distinct (map phSymbol ys)"
      using replace_symbol_Some [OF replaced(3)] repo_invD(3) [OF assms replaced(2)] by simp
    with assms replaced(2) show ?thesis
      unfolding replaced(4) repo_inv_def entry_ok_def by (auto split: if_splits)
  next
    case (appended xs)
    have "distinct (map phSymbol xs)"
      using appended(2) slice_distinct [OF assms] by (auto split: option.splits)
    then have "distinct (map phSymbol (xs @ [h]))" using appended(1) by (simp add: replace_symbol_None)
    with assms show ?thesis
      unfolding appended(3) repo_inv_def entry_ok_def by (auto simp: less_Suc_eq split: if_splits)
  qed
  with u show ?thesis by simp
qed

section \<open>What the erasure does\<close>

lemma anonymize_ids [simp]:
  "pfPortfolioID (anonymize h now p) = pfPortfolioID p" "pfCustomerID (anonymize h now p) = pfCustomerID p"
  "concerns c k (anonymize h now p) = concerns c k p" "anonymize h now (anonymize h now p) = anonymize h now p"
  by (simp_all add: anonymize_def concerns_def)

definition erased_keys :: "mockRepository \<Rightarrow> string \<Rightarrow> string list \<Rightarrow> string set" where
  "erased_keys m c ks = {x. \<exists>k \<in> set ks. \<exists>p. deref m k = Some p \<and> concerns c k p \<and> x \<in> {k, pfPortfolioID p, pfCustomerID p}}"

definition erased_at :: "mockRepository \<Rightarrow> string \<Rightarrow> string list \<Rightarrow> addr \<Rightarrow> bool" where
  "erased_at m c ks a \<longleftrightarrow> (\<exists>k \<in> set ks. mPortfolios m k = Some a \<and> (\<exists>p. mHeap m a = Some p \<and> concerns c k p))"

definition erased :: "string \<Rightarrow> time \<Rightarrow> string \<Rightarrow> string list \<Rightarrow> mockRepository \<Rightarrow> mockRepository" where
  "erased h now c ks m = m\<lparr>mHeap := (\<lambda>a. if erased_at m c ks a then map_option (anonymize h now) (mHeap m a) else mHeap m a),
     mHoldings := (\<lambda>x. if x \<in> erased_keys m c ks then None else mHoldings m x),
     mTaxLots := (\<lambda>x. if x \<in> erased_keys m c ks then None else mTaxLots m x)\<rparr>"

lemma erased_snoc:
  "fst (erase_entry h now c k (erased h now c ks m, t)) = erased h now c (ks @ [k]) m"
proof (cases "mPortfolios m k")
  case None
  then have "erased_keys m c (ks @ [k]) = erased_keys m c ks" "erased_at m c (ks @ [k]) = erased_at m c ks"
    by (auto simp: erased_keys_def erased_at_def deref_def fun_eq_iff)
  with None show ?thesis by (simp add: erase_entry_def erased_def)
next
  case (Some a)
  show ?thesis
  proof (cases "\<exists>p. mHeap m a = Some p \<and> concerns c k p")
    case False
    then have "erased_keys m c (ks @ [k]) = erased_keys m c ks" "erased_at m c (ks @ [k]) = erased_at m c ks"
      using Some by (auto simp: erased_keys_def erased_at_def deref_def fun_eq_iff)
    with Some False show ?thesis by (auto simp: erase_entry_def erased_def split: option.splits)
  next
    case True
    then obtain p where p: "mHeap m a = Some p" "concerns c k p" by blast
    have keys: "erased_keys m c (ks @ [k]) = erased_keys m c ks \<union> {k, pfPortfolioID p, pfCustomerID p}"
      using Some p by (auto simp: erased_keys_def deref_def)
    have at: "erased_at m c (ks @ [k]) b \<longleftrightarrow> b = a \<or> erased_at m c ks b" for b
      using Some p by (auto simp: erased_at_def)
    have q: "mHeap (erased h now c ks m) a = Some (if erased_at m c ks a then anonymize h now p else p)"
      using p by (simp add: erased_def)
    show ?thesis
      using Some p q unfolding erase_entry_def erased_def keys
      by (auto simp: at fun_eq_iff)
  qed
qed

lemma erase_fold: "fst (fold (erase_entry h now c) ks (m, t)) = erased h now c ks m"
proof (induction ks rule: rev_induct)
  case Nil
  show ?case by (simp add: erased_def erased_keys_def erased_at_def)
next
  case (snoc k ks)
  then obtain t' where "fold (erase_entry h now c) ks (m, t) = (erased h now c ks m, t')"
    by (metis prod.collapse)
  then show ?case by (simp add: erased_snoc)
qed

lemma erased_inv:
  assumes "repo_inv m" shows "repo_inv (erased h now c ks m)"
proof (rule repo_invI)
  fix k a assume "mPortfolios (erased h now c ks m) k = Some a"
  then obtain p where "mHeap m a = Some p" "k = pfPortfolioID p \<or> k = pfCustomerID p"
    using repo_invD(1) [OF assms] by (auto simp: erased_def entry_ok_def)
  then show "entry_ok (erased h now c ks m) k a" by (auto simp: entry_ok_def erased_def)
next
  fix a assume "a \<in> dom (mHeap (erased h now c ks m)) \<union> dom (mArrays (erased h now c ks m))"
  then have "a \<in> dom (mHeap m) \<union> dom (mArrays m)" by (auto simp: erased_def split: if_splits)
  then show "a < mNext (erased h now c ks m)" using assms by (auto simp: repo_inv_def erased_def)
qed (use repo_invD [OF assms] in \<open>auto simp: erased_def split: if_splits\<close>)

definition forget_customer :: "string \<Rightarrow> mockRepository \<Rightarrow> mockRepository" where
  "forget_customer c m = m\<lparr>mApiKeys := (mApiKeys m)(c := None), mWebhooks := (mWebhooks m)(c := None),
     mDeposits := (\<lambda>i. case mDeposits m i of None \<Rightarrow> None | Some d \<Rightarrow> if rdCustomerID d = c then None else Some d)\<rparr>"

lemma ExecuteGDPRErasure_state:
  "snd (ExecuteGDPRErasure sha dord pord now c m) = erased (EncodeToString (sha c)) now c pord (forget_customer c m)"
proof -
  have "snd (ExecuteGDPRErasure sha dord pord now c m)
      = (let t = snd (case mApiKeys m c of None \<Rightarrow> (0, []) | Some ks \<Rightarrow> (int (length ks), [''core_invest.customer_api_keys'']))
                 @ snd (case mWebhooks m c of None \<Rightarrow> (0, []) | Some ws \<Rightarrow> (int (length ws), [''core_invest.webhook_subscriptions'']))
                 @ (if 0 < int (length (filter (\<lambda>d. rdCustomerID d = c) (map_vals dord (mDeposits m)))) then [''core_invest.recurring_deposits''] else [])
         in fst (fold (erase_entry (EncodeToString (sha c)) now c) pord (forget_customer c m, t)))"
    unfolding ExecuteGDPRErasure_def Let_def forget_customer_def by (simp add: case_prod_beta)
  then show ?thesis by (simp only: Let_def erase_fold)
qed

lemma forget_customer_inv: "repo_inv m \<Longrightarrow> repo_inv (forget_customer c m)"
  unfolding forget_customer_def repo_inv_def entry_ok_def by (simp add: owned_drop)

lemma ExecuteGDPRErasure_inv [wf_intros]: "repo_inv m \<Longrightarrow> repo_inv (snd (ExecuteGDPRErasure sha dord pord now c m))"
  unfolding ExecuteGDPRErasure_state by (intro erased_inv forget_customer_inv)

lemma forget_customer_simps [simp]:
  "mPortfolios (forget_customer c m) = mPortfolios m" "mHeap (forget_customer c m) = mHeap m" "deref (forget_customer c m) k = deref m k"
  by (simp_all add: forget_customer_def deref_def split: option.split)

text \<open>An entry of the portfolio map after the erasure, in terms of the entry before.\<close>

lemma deref_erased:
  assumes "repo_inv m" and "iter_order pord (mPortfolios m)"
  shows "deref (erased h now c pord m) k = (case deref m k of None \<Rightarrow> None
     | Some p \<Rightarrow> Some (if pfCustomerID p = c \<or> pfPortfolioID p = c then anonymize h now p else p))"
proof (cases "mPortfolios m k")
  case None
  then show ?thesis by (simp add: deref_def erased_def)
next
  case (Some a)
  then obtain p where p: "mHeap m a = Some p" using repo_invD(1) [OF assms(1) Some] by (auto simp: entry_ok_def)
  have "erased_at m c pord a \<longleftrightarrow> pfCustomerID p = c \<or> pfPortfolioID p = c"
  proof
    assume "erased_at m c pord a"
    then obtain k' where "mPortfolios m k' = Some a" "concerns c k' p" using p by (auto simp: erased_at_def)
    then show "pfCustomerID p = c \<or> pfPortfolioID p = c"
      using repo_invD(1) [OF assms(1)] p by (fastforce simp: concerns_def entry_ok_def)
  next
    assume "pfCustomerID p = c \<or> pfPortfolioID p = c"
    moreover have "k \<in> set pord" using Some iter_orderD(2) [OF assms(2)] by auto
    ultimately show "erased_at m c pord a" using Some p by (auto simp: erased_at_def concerns_def)
  qed
  with Some p show ?thesis by (simp add: deref_def erased_def)
qed

lemma erased_slices:
  assumes "deref m k = Some p" and "pfCustomerID p = c \<or> pfPortfolioID p = c" and "iter_order pord (mPortfolios m)"
    and "x \<in> {k, pfPortfolioID p, pfCustomerID p}"
  shows "slice_at (erased h now c pord m) x = None" and "mTaxLots (erased h now c pord m) x = None"
proof -
  have "k \<in> set pord" using assms(1) iter_orderD(2) [OF assms(3)] by (auto simp: deref_def split: option.splits)
  then have "x \<in> erased_keys m c pord" using assms by (auto simp: erased_keys_def concerns_def)
  then show "slice_at (erased h now c pord m) x = None" "mTaxLots (erased h now c pord m) x = None"
    by (simp_all add: erased_def slice_at_def)
qed

section \<open>Runs of the repository\<close>

inductive repo_step :: "mockRepository \<Rightarrow> mockRepository \<Rightarrow> bool" where
  stream: "repo_step m (snd (CreateCameraStream now s m))"
| order: "repo_step m (snd (CreateBrokerageOrder now x m))"
| order_status: "repo_step m (snd (UpdateBrokerageOrderStatus now i st t m))"
| run: "repo_step m (snd (CreateBacktestRun now b m))"
| run_results: "repo_step m (snd (UpdateBacktestRunResults now i st res m))"
| deposit: "repo_step m (snd (CreateRecurringDeposit now d m))"
| advance: "repo_step m (snd (AdvanceRecurringDepositSchedule i t m))"
| portfolio_of: "repo_step m (snd (GetPortfolioByCustomerID ord now c m))"
| portfolio_by_id: "repo_step m (snd (GetPortfolioByID ord now i m))"
| create_portfolio: "repo_step m (snd (CreatePortfolio now p m))"
| update_portfolio: "repo_step m (UpdatePortfolio now a m)"
| assign: "mHeap m a = Some p \<Longrightarrow> pfPortfolioID p' = pfPortfolioID p \<Longrightarrow> pfCustomerID p' = pfCustomerID p \<Longrightarrow>
    repo_step m (m\<lparr>mHeap := (mHeap m)(a \<mapsto> p')\<rparr>)"
| api_key: "repo_step m (snd (CreateAPIKey now k m))"
| revoke: "repo_step m (RevokeAPIKey c i m)"
| webhook: "repo_step m (snd (CreateWebhook now w m))"
| unhook: "repo_step m (DeleteWebhook c i m)"
| holding: "repo_step m (snd (UpsertHolding now h m))"
| statement: "repo_step m (snd (CreateInvestmentStatement now s m))"
| lot: "repo_step m (snd (CreateTaxLotSale now l m))"
| certificate: "repo_step m (snd (CreateGDPRErasureCertificate now g m))"
| erasure: "repo_step m (snd (ExecuteGDPRErasure sha dord pord now c m))"

lemma repo_inv_step: "repo_step m m' \<Longrightarrow> repo_inv m \<Longrightarrow> repo_inv m'"
proof (induction rule: repo_step.induct)
  case (assign m a p p')
  then show ?case by (intro write_inv)
qed (auto intro: wf_intros repo_inv_cong simp: CreateCameraStream_def CreateBrokerageOrder_def UpdateBrokerageOrderStatus_def
  CreateBacktestRun_def UpdateBacktestRunResults_def CreateRecurringDeposit_def AdvanceRecurringDepositSchedule_def CreateTaxLotSale_def
  CreateGDPRErasureCertificate_def Let_def split: option.splits)

interpretation repository: transition_system repo_step repo_inv
  by unfold_locales (rule repo_inv_step)

lemma distinct_seed_symbols: "distinct (map phSymbol (arthurHoldings t))" "distinct (map phSymbol (chloeHoldings t))"
  by (simp_all add: arthurHoldings_def chloeHoldings_def seed_holding_def)

lemma seed_inv: "repo_inv (NewMockRepository t)"
proof (rule repo_invI)
  fix k a assume "mPortfolios (NewMockRepository t) k = Some a"
  then have "k = arthur \<and> a = 0 \<or> k = chloe \<and> a = 1" by (auto simp: NewMockRepository_def split: if_splits)
  then show "entry_ok (NewMockRepository t) k a"
    by (auto simp: entry_ok_def NewMockRepository_def arthurPortfolio_def chloePortfolio_def arthur_def chloe_def)
next
  fix k a assume "mHoldings (NewMockRepository t) k = Some a"
  then have "a = 2 \<or> a = 3" by (auto simp: NewMockRepository_def split: if_splits)
  then show "a \<in> dom (mArrays (NewMockRepository t))" by (auto simp: NewMockRepository_def)
next
  fix a xs assume "mArrays (NewMockRepository t) a = Some xs"
  then have "xs = arthurHoldings t \<or> xs = chloeHoldings t" by (auto simp: NewMockRepository_def split: if_splits)
  then show "distinct (map phSymbol xs)" using distinct_seed_symbols by metis
next
  fix a assume "a \<in> dom (mHeap (NewMockRepository t)) \<union> dom (mArrays (NewMockRepository t))"
  then have "a \<in> {0, 1, 2, 3}" by (auto simp: NewMockRepository_def split: if_splits)
  then show "a < mNext (NewMockRepository t)" by (auto simp: NewMockRepository_def)
next
  show "owned stCustomerID (mStatements (NewMockRepository t))"
    by (auto simp: owned_def NewMockRepository_def seed_statements_def seed_statement_def split: if_splits)
qed (auto simp: owned_def NewMockRepository_def split: if_splits)

section \<open>Properties\<close>

text \<open>C36: In every state that the operations of the in-memory repository reach from the seeded one,
  each entry of the portfolio map points to an allocated portfolio that has the key as its own or
  its customer's identifier, so all entries that share a portfolio agree on whom it belongs to; each
  list of holdings has at most one holding per symbol; keys, webhooks and statements are filed
  under their customer.\<close>

theorem repository_invariant:
  assumes "repo_step\<^sup>*\<^sup>* (NewMockRepository t) m"
  shows "repo_inv m"
  by (rule repository.inv_run [OF assms seed_inv])

theorem repository_invariant_witness:
  "repo_inv (RevokeAPIKey chloe ''key-018f-8888'' (snd (GetPortfolioByCustomerID [] 7 ''cust-new'' (NewMockRepository 0))))"
proof -
  have "repo_step (NewMockRepository 0) (snd (GetPortfolioByCustomerID [] 7 ''cust-new'' (NewMockRepository 0)))"
    by (rule repo_step.portfolio_of)
  moreover have "repo_step m (RevokeAPIKey chloe ''key-018f-8888'' m)" for m by (rule repo_step.revoke)
  ultimately have "repo_step\<^sup>*\<^sup>* (NewMockRepository 0)
      (RevokeAPIKey chloe ''key-018f-8888'' (snd (GetPortfolioByCustomerID [] 7 ''cust-new'' (NewMockRepository 0))))"
    by (meson converse_rtranclp_into_rtranclp r_into_rtranclp)
  then show ?thesis by (rule repository_invariant)
qed



text \<open>The erasure leaves all statements and orders in place: in the seeded repository, after the
  erasure of Arthur both of his statements are still listed under his identifier with their
  balances, and his holdings are still found under the portfolio's second identifier.\<close>

theorem gdpr_keeps_statements:
  "mStatements (snd (ExecuteGDPRErasure sha dord pord now c m)) = mStatements m
   \<and> mOrders (snd (ExecuteGDPRErasure sha dord pord now c m)) = mOrders m
   \<and> (let m' = snd (ExecuteGDPRErasure sha [] [arthur, chloe] now arthur (NewMockRepository t))
      in map stCustomerID (ListInvestmentStatements arthur m') = [arthur, arthur]
         \<and> GetHoldingsByPortfolioID [arthur, chloe] arthurUUID m' = arthurHoldings t)"
proof -
  have s: "mStatements (snd (ExecuteGDPRErasure sha dord pord now c m)) = mStatements m" for sha dord pord now c m
    by (simp add: ExecuteGDPRErasure_state erased_def forget_customer_def)
  have ac: "arthur \<noteq> chloe" "arthurUUID \<noteq> chloeUUID" "arthurUUID \<noteq> arthur" "arthurUUID \<noteq> chloe"
    by (simp_all add: arthur_def chloe_def arthurUUID_def chloeUUID_def)
  have k: "erased_keys (NewMockRepository t) arthur [arthur, chloe] = {arthur, ''port-cust-longterm-arthur''}"
    using ac by (auto simp: erased_keys_def deref_def concerns_def NewMockRepository_def arthurPortfolio_def chloePortfolio_def arthur_def chloe_def)
  have "erased_keys (forget_customer arthur (NewMockRepository t)) arthur [arthur, chloe] = {arthur, ''port-cust-longterm-arthur''}"
    using k by (simp add: erased_keys_def)
  then have "slice_at (snd (ExecuteGDPRErasure sha [] [arthur, chloe] now arthur (NewMockRepository t))) arthurUUID = Some (arthurHoldings t)"
    unfolding ExecuteGDPRErasure_state using ac
    by (simp add: slice_at_def erased_def forget_customer_def NewMockRepository_def) (simp add: arthurUUID_def arthur_def chloe_def chloeUUID_def)
  then have h: "GetHoldingsByPortfolioID [arthur, chloe] arthurUUID (snd (ExecuteGDPRErasure sha [] [arthur, chloe] now arthur (NewMockRepository t))) = arthurHoldings t"
    by (simp add: GetHoldingsByPortfolioID_def)
  have "slot (mStatements (NewMockRepository t)) arthur = seed_statements t arthur ''arthur'' 12845075 2845075 6420000 1430000"
    using ac by (simp add: slot_def NewMockRepository_def)
  then have "map stCustomerID (ListInvestmentStatements arthur (snd (ExecuteGDPRErasure sha [] [arthur, chloe] now arthur (NewMockRepository t)))) = [arthur, arthur]"
    by (simp add: ListInvestmentStatements_def s seed_statements_def seed_statement_def)
  with h s show ?thesis
    by (simp add: Let_def) (simp add: ExecuteGDPRErasure_state erased_def forget_customer_def)
qed

text \<open>Storing a holding makes it the one holding of its symbol in its portfolio's list and leaves
  the other symbols as they were; lists that share no slice with this portfolio are unchanged.\<close>

theorem upsert_holding:
  assumes "repo_inv m" and "UpsertHolding now h0 m = (h, m')"
  defines "old \<equiv> GetHoldingsByPortfolioID [] (phPortfolioID h0) m" and "new \<equiv> GetHoldingsByPortfolioID [] (phPortfolioID h0) m'"
  shows "filter (\<lambda>x. phSymbol x = phSymbol h0) new = [h]
    \<and> filter (\<lambda>x. phSymbol x \<noteq> phSymbol h0) new = filter (\<lambda>x. phSymbol x \<noteq> phSymbol h0) old
    \<and> (\<forall>k. k \<noteq> phPortfolioID h0 \<and> mHoldings m k \<noteq> mHoldings m (phPortfolioID h0) \<longrightarrow> slice_at m' k = slice_at m k)"
proof -
  have sym: "phSymbol h = phSymbol h0" using assms(2) by (auto simp: UpsertHolding_def Let_def)
  have old: "old = (case slice_at m (phPortfolioID h0) of None \<Rightarrow> [] | Some xs \<Rightarrow> xs)"
    by (simp add: old_def GetHoldingsByPortfolioID_def map_filter_def split: option.split)
  have fs: "filter (\<lambda>x. phSymbol x = phSymbol h) ys = [h] \<and>
      filter (\<lambda>x. phSymbol x \<noteq> phSymbol h) ys = filter (\<lambda>x. phSymbol x \<noteq> phSymbol h) xs"
    if "replace_symbol h xs = Some ys" "distinct (map phSymbol xs)" for xs ys
    using that by (induction xs arbitrary: ys) (fastforce simp: filter_empty_conv image_iff split: if_splits)+
  from assms(2) show ?thesis
  proof (cases rule: UpsertHolding_cases)
    case (replaced a xs ys)
    have "old = xs" "new = ys"
      using replaced(1,2,4) by (simp_all add: old new_def GetHoldingsByPortfolioID_def slice_at_def)
    moreover have "slice_at m' k = slice_at m k" if "mHoldings m k \<noteq> mHoldings m (phPortfolioID h0)" for k
      using that replaced(1,4) by (auto simp: slice_at_def split: option.split)
    ultimately show ?thesis
      using fs [OF replaced(3) repo_invD(3) [OF assms(1) replaced(2)]] sym by auto
  next
    case (appended xs)
    have "old = xs" "new = xs @ [h]"
      using appended(2,3) by (simp_all add: old new_def GetHoldingsByPortfolioID_def slice_at_def)
    moreover have "filter (\<lambda>x. phSymbol x = phSymbol h) xs = []"
      using appended(1) unfolding replace_symbol_None filter_empty_conv by (metis imageI)
    moreover have "slice_at m' k = slice_at m k" if "k \<noteq> phPortfolioID h0" for k
      using that appended(3) repo_invD(2,5) [OF assms(1)] by (fastforce simp: slice_at_def split: option.split)
    ultimately show ?thesis using sym by auto
  qed
qed

definition demo_holding :: "string \<Rightarrow> PortfolioHolding" where
  "demo_holding portfolioID = (seed_holding 0 ''9'' portfolioID ''AAPL'' (Fin 7) 0 0 0 0 0 0)"

theorem upsert_holding_witness:
  "filter (\<lambda>x. phSymbol x = ''AAPL'')
     (GetHoldingsByPortfolioID [] arthur (snd (UpsertHolding 3 (demo_holding arthur) (NewMockRepository 0))))
   = [fst (UpsertHolding 3 (demo_holding arthur) (NewMockRepository 0))]"
proof -
  have "UpsertHolding 3 (demo_holding arthur) (NewMockRepository 0)
      = (fst (UpsertHolding 3 (demo_holding arthur) (NewMockRepository 0)), snd (UpsertHolding 3 (demo_holding arthur) (NewMockRepository 0)))"
    by (rule prod.collapse [symmetric])
  from upsert_holding [OF seed_inv this] show ?thesis by (simp add: demo_holding_def seed_holding_def)
qed

text \<open>Revoking a key hides, for its customer, exactly the keys with this identifier or prefix from
  the list of active keys, in particular such keys stay hidden when other keys are created later,
  and the keys of other customers are untouched.\<close>

theorem revoked_keys_hidden:
  "ListAPIKeys c (RevokeAPIKey c i m) = filter (\<lambda>k. akKeyID k \<noteq> i \<and> akKeyPrefix k \<noteq> i) (ListAPIKeys c m)
   \<and> (d = c \<or> ListAPIKeys d (RevokeAPIKey c i m) = ListAPIKeys d m)
   \<and> (let k' = fst (CreateAPIKey now k (RevokeAPIKey c i m))
      in ListAPIKeys c (snd (CreateAPIKey now k (RevokeAPIKey c i m)))
         = filter (\<lambda>k. akKeyID k \<noteq> i \<and> akKeyPrefix k \<noteq> i) (ListAPIKeys c m) @ (if akCustomerID k = c then [k'] else []))"
proof -
  have "ListAPIKeys c (RevokeAPIKey c i m) = filter (\<lambda>k. akKeyID k \<noteq> i \<and> akKeyPrefix k \<noteq> i) (ListAPIKeys c m)"
  proof -
    have "filter (\<lambda>k. akStatus k \<noteq> ''revoked'') (map (\<lambda>k. if akKeyID k = i \<or> akKeyPrefix k = i then k\<lparr>akStatus := ''revoked''\<rparr> else k) ks)
        = filter (\<lambda>k. akKeyID k \<noteq> i \<and> akKeyPrefix k \<noteq> i) (filter (\<lambda>k. akStatus k \<noteq> ''revoked'') ks)" for ks
      by (induction ks) auto
    then show ?thesis by (cases "mApiKeys m c") (simp_all add: ListAPIKeys_def RevokeAPIKey_def slot_def)
  qed
  moreover have "ListAPIKeys d (snd (CreateAPIKey now k m')) = ListAPIKeys d m' @ (if akCustomerID k = d then [fst (CreateAPIKey now k m')] else [])" for d m'
    by (auto simp: ListAPIKeys_def CreateAPIKey_def Let_def slot_def)
  ultimately show ?thesis
    by (auto simp: Let_def ListAPIKeys_def RevokeAPIKey_def slot_def)
qed

end
