(* ===== verification/BankLedger.thy ===== *)
theory BankLedger
  imports Float64
begin

text \<open>
  The mock bank's ledger, \<open>cmd/mock-bank/ledger\<close>: accounts, ACH transfers and
  link and access tokens held in memory behind one mutex. Every exported method
  locks the store for its whole body, so each is one state transformer on the
  record \<open>LedgerStore\<close>. Clock readings are arguments. The Go maps of pointers are
  maps to records; where a method mutates two accounts through pointers that may
  be the same account (a transfer on the custody account itself) the updates are
  applied one after the other to the map, as the assignments are.
\<close>

section \<open>Data\<close>

record BankAccount =
  AccountID :: string
  InstitutionID :: string
  InstitutionName :: string
  RoutingNumber :: string
  AccountNumber :: string
  AccountType :: string
  AccountSubtype :: string
  CurrentBalance :: float64
  AvailableBalance :: float64
  Currency :: string
  OwnerID :: string
  AccountName :: string

datatype ACHTransferStatus =
    TransferStatusPending | TransferStatusPosted | TransferStatusSettled
  | TransferStatusFailed | TransferStatusReturned | TransferStatusCancelled

record ACHTransfer =
  TransferID :: string
  TransferAccountID :: string
  Amount :: float64
  Direction :: string
  TransferType :: string
  Status :: ACHTransferStatus
  ReturnCode :: string
  Description :: string
  CreatedAt :: time
  SettledAt :: "time option"
  CustodyAccountID :: string

record LinkToken =
  LinkTokenID :: string
  ClientUserID :: string
  LinkCreatedAt :: time
  LinkExpiresAt :: time

record AccessToken =
  AccessTokenID :: string
  ItemID :: string
  TokenOwnerID :: string
  AccountIDs :: "string list"
  TokenCreatedAt :: time

datatype bank_error =
    ErrAccountNotFound | ErrInsufficientFunds | ErrInvalidAmount
  | ErrTransferNotFound | ErrInvalidToken | ErrCustodyNotFound

record LedgerStore =
  accounts :: "(string, BankAccount) gomap"
  transfers :: "(string, ACHTransfer) gomap"
  linkTokens :: "(string, LinkToken) gomap"
  accessTokens :: "(string, AccessToken) gomap"
  custodyAccountID :: string

definition DefaultCustodyAccountID :: string where
  "DefaultCustodyAccountID = ''acc_oci_custody_001''"

section \<open>Seeding\<close>

definition arthurChk :: BankAccount where
  "arthurChk = \<lparr>AccountID = ''acc_arthur_chase_chk'', InstitutionID = ''ins_chase'',
     InstitutionName = ''JPMorgan Chase'', RoutingNumber = ''021000021'',
     AccountNumber = ''****4821'', AccountType = ''depository'', AccountSubtype = ''checking'',
     CurrentBalance = Fin 48500, AvailableBalance = Fin 48250, Currency = ''USD'',
     OwnerID = ''cust-longterm-arthur'', AccountName = ''Chase Checking (****4821)''\<rparr>"

definition arthurSav :: BankAccount where
  "arthurSav = \<lparr>AccountID = ''acc_arthur_chase_sav'', InstitutionID = ''ins_chase'',
     InstitutionName = ''JPMorgan Chase'', RoutingNumber = ''021000021'',
     AccountNumber = ''****9104'', AccountType = ''depository'', AccountSubtype = ''savings'',
     CurrentBalance = Fin 125000, AvailableBalance = Fin 125000, Currency = ''USD'',
     OwnerID = ''cust-longterm-arthur'', AccountName = ''Chase Sapphire Savings (****9104)''\<rparr>"

definition chloeChk :: BankAccount where
  "chloeChk = \<lparr>AccountID = ''acc_chloe_svcu_chk'', InstitutionID = ''ins_svcu'',
     InstitutionName = ''Silicon Valley Tech CU'', RoutingNumber = ''321171184'',
     AccountNumber = ''****7732'', AccountType = ''depository'', AccountSubtype = ''checking'',
     CurrentBalance = Fin 22800, AvailableBalance = Fin 22400, Currency = ''USD'',
     OwnerID = ''cust-active-chloe'', AccountName = ''High-Yield Tech Checking (****7732)''\<rparr>"

definition ociCustody :: BankAccount where
  "ociCustody = \<lparr>AccountID = DefaultCustodyAccountID, InstitutionID = ''ins_bnymellon'',
     InstitutionName = ''BNY Mellon'', RoutingNumber = ''011000138'',
     AccountNumber = ''****9900'', AccountType = ''depository'', AccountSubtype = ''fbo_omnibus'',
     CurrentBalance = Fin 10000000, AvailableBalance = Fin 10000000, Currency = ''USD'',
     OwnerID = ''org-oci-custody'', AccountName = ''OCI Client Cash Omnibus (****9900)''\<rparr>"

definition Seed :: "time \<Rightarrow> LedgerStore" where
  "Seed now = \<lparr>
     accounts = [AccountID arthurChk \<mapsto> arthurChk, AccountID arthurSav \<mapsto> arthurSav,
                 AccountID chloeChk \<mapsto> chloeChk, AccountID ociCustody \<mapsto> ociCustody],
     transfers = Map.empty,
     linkTokens = Map.empty,
     accessTokens =
       [''access-sandbox-arthur'' \<mapsto>
          \<lparr>AccessTokenID = ''access-sandbox-arthur'', ItemID = ''item-sandbox-arthur'',
           TokenOwnerID = ''cust-longterm-arthur'',
           AccountIDs = [AccountID arthurChk, AccountID arthurSav], TokenCreatedAt = now\<rparr>,
        ''access-sandbox-chloe'' \<mapsto>
          \<lparr>AccessTokenID = ''access-sandbox-chloe'', ItemID = ''item-sandbox-chloe'',
           TokenOwnerID = ''cust-active-chloe'',
           AccountIDs = [AccountID chloeChk], TokenCreatedAt = now\<rparr>],
     custodyAccountID = DefaultCustodyAccountID\<rparr>"

text \<open>\<open>NewLedgerStore\<close> allocates empty maps and calls \<open>Seed\<close>, which overwrites every field.\<close>

definition NewLedgerStore :: "time \<Rightarrow> LedgerStore" where
  "NewLedgerStore now = Seed now"

section \<open>Queries\<close>

definition GetAccount :: "string \<Rightarrow> LedgerStore \<Rightarrow> bank_error + BankAccount" where
  "GetAccount accountID s = (case accounts s accountID of
     None \<Rightarrow> Inl ErrAccountNotFound | Some acc \<Rightarrow> Inr acc)"

definition GetAccountsByIDs :: "string list \<Rightarrow> LedgerStore \<Rightarrow> BankAccount list" where
  "GetAccountsByIDs accountIDs s = map_vals accountIDs (accounts s)"

definition GetAccountsByOwner :: "string list \<Rightarrow> string \<Rightarrow> LedgerStore \<Rightarrow> BankAccount list" where
  "GetAccountsByOwner ord ownerID s =
     filter (\<lambda>acc. OwnerID acc = ownerID) (map_vals ord (accounts s))"

definition GetAccountsByAccessToken ::
    "string \<Rightarrow> LedgerStore \<Rightarrow> bank_error + BankAccount list" where
  "GetAccountsByAccessToken tok s = (case accessTokens s tok of
     None \<Rightarrow> Inl ErrInvalidToken
   | Some t \<Rightarrow> Inr (map_vals (AccountIDs t) (accounts s)))"

definition GetTransfer :: "string \<Rightarrow> LedgerStore \<Rightarrow> bank_error + ACHTransfer" where
  "GetTransfer transferID s = (case transfers s transferID of
     None \<Rightarrow> Inl ErrTransferNotFound | Some t \<Rightarrow> Inr t)"

definition ListTransfers :: "string list \<Rightarrow> string \<Rightarrow> LedgerStore \<Rightarrow> ACHTransfer list" where
  "ListTransfers ord accountID s =
     filter (\<lambda>t. accountID = [] \<or> TransferAccountID t = accountID) (map_vals ord (transfers s))"

definition in_flight :: "ACHTransferStatus \<Rightarrow> bool" where
  "in_flight st \<longleftrightarrow> st = TransferStatusPending \<or> st = TransferStatusPosted"

definition GetPendingTransfers :: "string list \<Rightarrow> LedgerStore \<Rightarrow> ACHTransfer list" where
  "GetPendingTransfers ord s =
     filter (\<lambda>t. Status t = TransferStatusPending \<or> Status t = TransferStatusPosted)
       (map_vals ord (transfers s))"

section \<open>Tokens\<close>

definition CreateLinkToken :: "time \<Rightarrow> time \<Rightarrow> string \<Rightarrow> LedgerStore \<Rightarrow> LinkToken \<times> LedgerStore" where
  "CreateLinkToken idTime now clientUserID s =
     (let tokID = ''link-sandbox-'' @ dec_int idTime;
          tok = \<lparr>LinkTokenID = tokID, ClientUserID = clientUserID, LinkCreatedAt = now,
                 LinkExpiresAt = now + 4 * hour\<rparr>
      in (tok, s\<lparr>linkTokens := (linkTokens s)(tokID \<mapsto> tok)\<rparr>))"

text \<open>The public token is not looked up: the exchange succeeds for any token.\<close>

definition ExchangePublicToken ::
    "string list \<Rightarrow> time \<Rightarrow> time \<Rightarrow> time \<Rightarrow> string \<Rightarrow> string \<Rightarrow> LedgerStore \<Rightarrow> AccessToken \<times> LedgerStore" where
  "ExchangePublicToken ord tokTime itemTime now publicToken clientUserID s =
     (let matched = map AccountID
            (filter (\<lambda>acc. OwnerID acc = clientUserID) (map_vals ord (accounts s)));
          tokenID = ''access-sandbox-'' @ dec_int tokTime;
          tok = \<lparr>AccessTokenID = tokenID, ItemID = ''item-sandbox-'' @ dec_int itemTime,
                 TokenOwnerID = clientUserID, AccountIDs = matched, TokenCreatedAt = now\<rparr>
      in (tok, s\<lparr>accessTokens := (accessTokens s)(tokenID \<mapsto> tok)\<rparr>))"

section \<open>Transfers\<close>

definition upd_account ::
    "string \<Rightarrow> (BankAccount \<Rightarrow> BankAccount) \<Rightarrow> (string, BankAccount) gomap \<Rightarrow> (string, BankAccount) gomap" where
  "upd_account k f m = (case m k of None \<Rightarrow> m | Some a \<Rightarrow> m(k \<mapsto> f a))"

definition new_transfer ::
    "time \<Rightarrow> string \<Rightarrow> float64 \<Rightarrow> string \<Rightarrow> string \<Rightarrow> string \<Rightarrow> ACHTransferStatus \<Rightarrow> string \<Rightarrow> ACHTransfer" where
  "new_transfer now accountID amount direction description custodyID status code =
     \<lparr>TransferID = ''tr_'' @ dec_int now, TransferAccountID = accountID, Amount = amount,
      Direction = direction, TransferType = ''ach'', Status = status, ReturnCode = code,
      Description = description, CreatedAt = now, SettledAt = None,
      CustodyAccountID = custodyID\<rparr>"

text \<open>\<open>CreateTransfer\<close> returns a transfer together with the R01 error, so the result is a pair.\<close>

definition CreateTransfer ::
    "time \<Rightarrow> string \<Rightarrow> float64 \<Rightarrow> string \<Rightarrow> string \<Rightarrow> LedgerStore
      \<Rightarrow> (ACHTransfer option \<times> bank_error option) \<times> LedgerStore" where
  "CreateTransfer now accountID amount direction description s =
     (if fle amount (Fin 0) then ((None, Some ErrInvalidAmount), s)
      else case accounts s accountID of
        None \<Rightarrow> ((None, Some ErrAccountNotFound), s)
      | Some acc \<Rightarrow> (case accounts s (custodyAccountID s) of
          None \<Rightarrow> ((None, Some ErrCustodyNotFound), s)
        | Some custody \<Rightarrow>
            if direction = ''debit'' \<and> flt (AvailableBalance acc) amount
            then let t = new_transfer now accountID amount direction description
                           (AccountID custody) TransferStatusFailed ''R01''
                 in ((Some t, Some ErrInsufficientFunds),
                     s\<lparr>transfers := (transfers s)(TransferID t \<mapsto> t)\<rparr>)
            else let acc' = (if direction = ''debit''
                             then acc\<lparr>AvailableBalance := fsub (AvailableBalance acc) amount\<rparr> else acc);
                     t = new_transfer now accountID amount direction description
                           (AccountID custody) TransferStatusPending []
                 in ((Some t, None),
                     s\<lparr>accounts := (accounts s)(accountID \<mapsto> acc'),
                       transfers := (transfers s)(TransferID t \<mapsto> t)\<rparr>)))"

definition settle_balances ::
    "ACHTransfer \<Rightarrow> string \<Rightarrow> (string, BankAccount) gomap \<Rightarrow> (string, BankAccount) gomap" where
  "settle_balances t custodyID m =
     (if Direction t = ''debit'' then
        upd_account custodyID (\<lambda>c. c\<lparr>CurrentBalance := fadd (CurrentBalance c) (Amount t),
                                      AvailableBalance := fadd (AvailableBalance c) (Amount t)\<rparr>)
          (upd_account (TransferAccountID t)
            (\<lambda>a. a\<lparr>CurrentBalance := fsub (CurrentBalance a) (Amount t)\<rparr>) m)
      else if Direction t = ''credit'' then
        upd_account custodyID (\<lambda>c. c\<lparr>CurrentBalance := fsub (CurrentBalance c) (Amount t),
                                      AvailableBalance := fsub (AvailableBalance c) (Amount t)\<rparr>)
          (upd_account (TransferAccountID t)
            (\<lambda>a. a\<lparr>CurrentBalance := fadd (CurrentBalance a) (Amount t),
                    AvailableBalance := fadd (AvailableBalance a) (Amount t)\<rparr>) m)
      else m)"

definition release_hold ::
    "ACHTransfer \<Rightarrow> (string, BankAccount) gomap \<Rightarrow> (string, BankAccount) gomap" where
  "release_hold t m =
     (if Direction t = ''debit'' \<and> (Status t = TransferStatusPending \<or> Status t = TransferStatusPosted)
      then upd_account (TransferAccountID t)
             (\<lambda>a. a\<lparr>AvailableBalance := fadd (AvailableBalance a) (Amount t)\<rparr>) m
      else m)"

definition UpdateTransferStatus ::
    "time \<Rightarrow> string \<Rightarrow> ACHTransferStatus \<Rightarrow> string \<Rightarrow> LedgerStore
      \<Rightarrow> (bank_error + ACHTransfer) \<times> LedgerStore" where
  "UpdateTransferStatus now transferID targetStatus returnCode s =
     (case transfers s transferID of
        None \<Rightarrow> (Inl ErrTransferNotFound, s)
      | Some t \<Rightarrow> (case accounts s (TransferAccountID t) of
          None \<Rightarrow> (Inl ErrAccountNotFound, s)
        | Some acc \<Rightarrow> (case accounts s (custodyAccountID s) of
            None \<Rightarrow> (Inl ErrCustodyNotFound, s)
          | Some custody \<Rightarrow>
              let (t', m') = (case targetStatus of
                    TransferStatusSettled \<Rightarrow>
                      (t\<lparr>Status := targetStatus, SettledAt := Some now, ReturnCode := []\<rparr>,
                       settle_balances t (custodyAccountID s) (accounts s))
                  | TransferStatusReturned \<Rightarrow>
                      (t\<lparr>Status := targetStatus, ReturnCode := returnCode\<rparr>, release_hold t (accounts s))
                  | TransferStatusFailed \<Rightarrow>
                      (t\<lparr>Status := targetStatus, ReturnCode := returnCode\<rparr>, release_hold t (accounts s))
                  | TransferStatusCancelled \<Rightarrow>
                      (t\<lparr>Status := targetStatus, ReturnCode := returnCode\<rparr>, release_hold t (accounts s))
                  | _ \<Rightarrow> (t\<lparr>Status := targetStatus\<rparr>, accounts s))
              in (Inr t', s\<lparr>accounts := m', transfers := (transfers s)(transferID \<mapsto> t')\<rparr>))))"

section \<open>Well-formed ledgers\<close>

definition ledger_inv :: "LedgerStore \<Rightarrow> bool" where
  "ledger_inv s \<longleftrightarrow> accounts s (custodyAccountID s) \<noteq> None
     \<and> (\<forall>k a. accounts s k = Some a \<longrightarrow> AccountID a = k)
     \<and> (\<forall>k t. transfers s k = Some t \<longrightarrow> TransferID t = k \<and> accounts s (TransferAccountID t) \<noteq> None)
     \<and> finite (dom (transfers s)) \<and> finite (dom (accounts s))"

lemma ledger_inv_custody:
  assumes "ledger_inv s"
  obtains c where "accounts s (custodyAccountID s) = Some c"
  using assms by (auto simp: ledger_inv_def)

lemma ledger_inv_account:
  assumes "ledger_inv s" and "transfers s i = Some t"
  obtains acc where "accounts s (TransferAccountID t) = Some acc"
  using assms by (fastforce simp: ledger_inv_def)

lemma upd_account_apply:
  "upd_account k f m j = (if j = k then map_option f (m k) else m j)"
  by (auto simp: upd_account_def split: option.splits)

lemma dom_upd_account [simp]: "dom (upd_account k f m) = dom m"
  by (auto simp: upd_account_def split: option.splits)

lemma dom_settle_balances [simp]: "dom (settle_balances t c m) = dom m"
  by (simp add: settle_balances_def)

lemma dom_release_hold [simp]: "dom (release_hold t m) = dom m"
  by (simp add: release_hold_def)

lemma settle_balances_id:
  "settle_balances t c m k = Some a \<Longrightarrow> \<exists>a0. m k = Some a0 \<and> AccountID a = AccountID a0"
  by (auto simp: settle_balances_def upd_account_apply split: if_splits)

lemma release_hold_id:
  "release_hold t m k = Some a \<Longrightarrow> \<exists>a0. m k = Some a0 \<and> AccountID a = AccountID a0"
  by (auto simp: release_hold_def upd_account_apply split: if_splits)

lemma ledger_inv_replace:
  assumes "ledger_inv s" and "dom m' = dom (accounts s)"
    and "\<And>k a. m' k = Some a \<Longrightarrow> \<exists>a0. accounts s k = Some a0 \<and> AccountID a = AccountID a0"
    and "TransferID t' = k" and "TransferAccountID t' \<in> dom (accounts s)"
  shows "ledger_inv (s\<lparr>accounts := m', transfers := (transfers s)(k \<mapsto> t')\<rparr>)"
proof -
  have dom: "m' j = None \<longleftrightarrow> accounts s j = None" for j
    using assms(2) by (metis domIff)
  have "AccountID a = j" if "m' j = Some a" for j a
    using assms(1) assms(3) [OF that] by (auto simp: ledger_inv_def)
  moreover have "finite (dom m')" using assms(1,2) by (simp add: ledger_inv_def)
  ultimately show ?thesis using assms(1,4,5) by (auto simp: ledger_inv_def dom domIff)
qed

lemma fst_CreateTransfer_err:
  "fst (CreateTransfer now aid amt dir desc s) = (None, Some e) \<Longrightarrow>
   snd (CreateTransfer now aid amt dir desc s) = s"
  by (auto simp: CreateTransfer_def Let_def split: option.splits if_splits)

lemma new_transfer_sel [simp]:
  "TransferID (new_transfer now aid amt dir desc c st rc) = ''tr_'' @ dec_int now"
  "TransferAccountID (new_transfer now aid amt dir desc c st rc) = aid"
  "Amount (new_transfer now aid amt dir desc c st rc) = amt"
  "Direction (new_transfer now aid amt dir desc c st rc) = dir"
  "Status (new_transfer now aid amt dir desc c st rc) = st"
  "CreatedAt (new_transfer now aid amt dir desc c st rc) = now"
  by (simp_all add: new_transfer_def)

lemma ledger_inv_CreateTransfer [wf_intros]:
  assumes "ledger_inv s"
  shows "ledger_inv (snd (CreateTransfer now aid amt dir desc s))"
proof (cases "fle amt (Fin 0) \<or> accounts s aid = None")
  case True
  with assms show ?thesis by (auto simp: CreateTransfer_def)
next
  case False
  then obtain acc where acc: "accounts s aid = Some acc" and pos: "\<not> fle amt (Fin 0)" by auto
  from assms obtain c where c: "accounts s (custodyAccountID s) = Some c"
    by (auto simp: ledger_inv_def)
  have id: "AccountID acc = aid" using assms acc by (simp add: ledger_inv_def)
  have step: "ledger_inv (s\<lparr>accounts := (accounts s)(aid \<mapsto> acc'),
          transfers := (transfers s)(k \<mapsto> t)\<rparr>)"
    if "TransferID t = k" "TransferAccountID t = aid" "AccountID acc' = aid" for t k acc'
    using assms acc id that by (intro ledger_inv_replace) (auto split: if_splits)
  have fail: "ledger_inv (s\<lparr>transfers := (transfers s)(k \<mapsto> t)\<rparr>)"
    if "TransferID t = k" "TransferAccountID t = aid" for t k
    using step [OF that id] acc by (simp add: fun_upd_idem)
  show ?thesis
    by (simp add: CreateTransfer_def acc c pos Let_def step fail id)
qed

lemma UpdateTransferStatus_cases [consumes 1, case_names settled released moved]:
  assumes "UpdateTransferStatus now k st rc s = (Inr t', s')"
  obtains
    (settled) t where "st = TransferStatusSettled" "transfers s k = Some t"
      "t' = t\<lparr>Status := st, SettledAt := Some now, ReturnCode := []\<rparr>"
      "s' = s\<lparr>accounts := settle_balances t (custodyAccountID s) (accounts s),
              transfers := (transfers s)(k \<mapsto> t')\<rparr>"
  | (released) t where
      "st \<in> {TransferStatusReturned, TransferStatusFailed, TransferStatusCancelled}"
      "transfers s k = Some t" "t' = t\<lparr>Status := st, ReturnCode := rc\<rparr>"
      "s' = s\<lparr>accounts := release_hold t (accounts s), transfers := (transfers s)(k \<mapsto> t')\<rparr>"
  | (moved) t where "st \<in> {TransferStatusPending, TransferStatusPosted}"
      "transfers s k = Some t" "t' = t\<lparr>Status := st\<rparr>"
      "s' = s\<lparr>transfers := (transfers s)(k \<mapsto> t')\<rparr>"
  using assms
  by (cases st) (auto simp: UpdateTransferStatus_def Let_def split: option.splits)

lemma UpdateTransferStatus_Inl:
  "UpdateTransferStatus now k st rc s = (Inl e, s') \<Longrightarrow> s' = s"
  by (auto simp: UpdateTransferStatus_def Let_def split: option.splits prod.splits)

lemma UpdateTransferStatus_defined:
  "ledger_inv s \<Longrightarrow> transfers s k = Some t \<Longrightarrow>
   \<exists>t' s'. UpdateTransferStatus now k st rc s = (Inr t', s')"
  by (cases st) (force simp: UpdateTransferStatus_def Let_def ledger_inv_def split: option.splits)+

lemma ledger_inv_UpdateTransferStatus [wf_intros]:
  assumes "ledger_inv s" and "UpdateTransferStatus now k st rc s = (r, s')"
  shows "ledger_inv s'"
proof (cases r)
  case (Inl e)
  with assms UpdateTransferStatus_Inl show ?thesis by metis
next
  case (Inr t')
  have mem: "TransferID t = k \<and> TransferAccountID t \<in> dom (accounts s)" if "transfers s k = Some t" for t
    using assms(1) that by (auto simp: ledger_inv_def)
  from assms(2)[unfolded Inr] show ?thesis
  proof (cases rule: UpdateTransferStatus_cases)
    case (settled t)
    show ?thesis unfolding settled(4) using mem [OF settled(2)]
      by (intro ledger_inv_replace [OF assms(1)] dom_settle_balances settle_balances_id)
         (simp_all add: settled(3))
  next
    case (released t)
    show ?thesis unfolding released(4) using mem [OF released(2)]
      by (intro ledger_inv_replace [OF assms(1)] dom_release_hold release_hold_id)
         (simp_all add: released(3))
  next
    case (moved t)
    then show ?thesis using assms(1) mem [of t] ledger_inv_replace [of s "accounts s" t' k]
      by auto
  qed
qed

lemma ledger_inv_Seed [wf_intros]: "ledger_inv (Seed now)"
  by (auto simp: ledger_inv_def Seed_def arthurChk_def arthurSav_def chloeChk_def ociCustody_def
      DefaultCustodyAccountID_def split: if_splits)

lemma ledger_inv_tokens [wf_intros]:
  "ledger_inv s \<Longrightarrow> ledger_inv (snd (CreateLinkToken i now u s))"
  "ledger_inv s \<Longrightarrow> ledger_inv (snd (ExchangePublicToken ord a b now p u s))"
  by (simp_all add: ledger_inv_def CreateLinkToken_def ExchangePublicToken_def Let_def)

section \<open>Hold accounting and conservation\<close>

text \<open>
  \<open>held a s\<close> is the money of account \<open>a\<close> promised to debits still in flight. On
  an account whose transfers go through the intended life cycle, the difference
  of the current and the available balance is exactly that amount plus a constant
  (\<open>gap\<close>), and settlement moves money without creating or losing any (\<open>total\<close>).
\<close>

definition hold_of :: "string \<Rightarrow> ACHTransfer \<Rightarrow> rat" where
  "hold_of a t = (if Direction t = ''debit'' \<and> in_flight (Status t) \<and> TransferAccountID t = a
                  then val (Amount t) else 0)"

definition held :: "string \<Rightarrow> LedgerStore \<Rightarrow> rat" where
  "held a s = (\<Sum>k \<in> dom (transfers s). hold_of a (the (transfers s k)))"

definition spread :: "BankAccount \<Rightarrow> rat" where
  "spread acc = val (CurrentBalance acc) - val (AvailableBalance acc)"

definition gap :: "string \<Rightarrow> LedgerStore \<Rightarrow> rat" where
  "gap a s = (case accounts s a of None \<Rightarrow> 0 | Some acc \<Rightarrow> spread acc) - held a s"

definition total :: "LedgerStore \<Rightarrow> rat" where
  "total s = (\<Sum>k \<in> dom (accounts s). val (CurrentBalance (the (accounts s k))))"

definition on_grid :: "nat \<Rightarrow> LedgerStore \<Rightarrow> bool" where
  "on_grid k s \<longleftrightarrow>
     (\<forall>a acc. accounts s a = Some acc \<longrightarrow>
        ongrid k (CurrentBalance acc) \<and> ongrid k (AvailableBalance acc))
     \<and> (\<forall>i t. transfers s i = Some t \<longrightarrow> ongrid k (Amount t))"

lemma sum_map_upd:
  fixes F :: "'v \<Rightarrow> rat"
  assumes "finite (dom m)"
  shows "(\<Sum>j \<in> dom (m(k \<mapsto> v)). F (the ((m(k \<mapsto> v)) j))) =
         (\<Sum>j \<in> dom m. F (the (m j))) - (case m k of None \<Rightarrow> 0 | Some v0 \<Rightarrow> F v0) + F v"
proof -
  have "(\<Sum>j \<in> dom m - {k}. F (the ((m(k \<mapsto> v)) j))) = (\<Sum>j \<in> dom m - {k}. F (the (m j)))"
    by (rule sum.cong) auto
  then show ?thesis
    using assms by (cases "m k") (auto simp: sum.insert_remove sum_diff1 domI)
qed

lemma held_upd:
  "finite (dom (transfers s)) \<Longrightarrow>
   held a (s\<lparr>transfers := (transfers s)(i \<mapsto> t')\<rparr>) =
   held a s - (case transfers s i of None \<Rightarrow> 0 | Some t \<Rightarrow> hold_of a t) + hold_of a t'"
  using sum_map_upd [of "transfers s" "hold_of a" i t'] by (simp add: held_def)

lemma held_accounts [simp]: "held a (s\<lparr>accounts := m\<rparr>) = held a s"
  by (simp add: held_def)

lemma held_both [simp]:
  "held a (s\<lparr>accounts := m, transfers := ts\<rparr>) = held a (s\<lparr>transfers := ts\<rparr>)"
  by (simp add: held_def)

lemma total_transfers [simp]: "total (s\<lparr>transfers := m\<rparr>) = total s"
  by (simp add: total_def)

lemma sum_upd_account:
  fixes F :: "BankAccount \<Rightarrow> rat"
  assumes "finite (dom m)" and "m k = Some a"
  shows "(\<Sum>j \<in> dom m. F (the (upd_account k f m j))) =
         (\<Sum>j \<in> dom m. F (the (m j))) - F a + F (f a)"
  using sum_map_upd [OF assms(1), of F k "f a"] assms(2)
  by (simp add: upd_account_def insert_absorb domI)

text \<open>Amounts stay in lockstep when an account is credited or debited exactly.\<close>

lemma settle_debit_accounts:
  assumes "Direction t = ''debit''" and "TransferAccountID t \<noteq> c"
    and "m (TransferAccountID t) = Some a" and "m c = Some b"
  shows "settle_balances t c m = m(TransferAccountID t \<mapsto> a\<lparr>CurrentBalance := fsub (CurrentBalance a) (Amount t)\<rparr>,
           c \<mapsto> b\<lparr>CurrentBalance := fadd (CurrentBalance b) (Amount t),
                  AvailableBalance := fadd (AvailableBalance b) (Amount t)\<rparr>)"
  using assms by (auto simp: settle_balances_def upd_account_def)

lemma settle_credit_accounts:
  assumes "Direction t = ''credit''" and "TransferAccountID t \<noteq> c"
    and "m (TransferAccountID t) = Some a" and "m c = Some b"
  shows "settle_balances t c m = m(TransferAccountID t \<mapsto> a\<lparr>CurrentBalance := fadd (CurrentBalance a) (Amount t),
                  AvailableBalance := fadd (AvailableBalance a) (Amount t)\<rparr>,
           c \<mapsto> b\<lparr>CurrentBalance := fsub (CurrentBalance b) (Amount t),
                  AvailableBalance := fsub (AvailableBalance b) (Amount t)\<rparr>)"
  using assms by (auto simp: settle_balances_def upd_account_def)

lemma total_two:
  assumes "finite (dom m)" and "i \<noteq> c" and "m i = Some a" and "m c = Some b"
    and "val (CurrentBalance a') + val (CurrentBalance b') =
         val (CurrentBalance a) + val (CurrentBalance b)"
  shows "(\<Sum>j \<in> dom (m(i \<mapsto> a', c \<mapsto> b')). val (CurrentBalance (the ((m(i \<mapsto> a', c \<mapsto> b')) j)))) =
         (\<Sum>j \<in> dom m. val (CurrentBalance (the (m j))))"
  using sum_map_upd [of "m(i \<mapsto> a')" "\<lambda>x. val (CurrentBalance x)" c b']
    sum_map_upd [of m "\<lambda>x. val (CurrentBalance x)" i a'] assms by simp

lemma gap_split:
  "gap a (s\<lparr>accounts := m, transfers := ts\<rparr>) =
   (case m a of None \<Rightarrow> 0 | Some acc \<Rightarrow> spread acc) - held a (s\<lparr>transfers := ts\<rparr>)"
  by (simp add: gap_def)

lemma gap_transfers:
  "gap a (s\<lparr>transfers := ts\<rparr>) =
   (case accounts s a of None \<Rightarrow> 0 | Some acc \<Rightarrow> spread acc) - held a (s\<lparr>transfers := ts\<rparr>)"
  by (simp add: gap_def)

lemma on_gridD:
  assumes "on_grid k s"
  shows "accounts s a = Some acc \<Longrightarrow> ongrid k (CurrentBalance acc)"
    and "accounts s a = Some acc \<Longrightarrow> ongrid k (AvailableBalance acc)"
    and "transfers s i = Some t \<Longrightarrow> ongrid k (Amount t)"
  using assms by (auto simp: on_grid_def)

lemma CreateTransfer_accounting:
  assumes inv: "ledger_inv s" and g: "on_grid k s" "ongrid k amt"
    and fresh: "transfers s (''tr_'' @ dec_int now) = None"
  shows "gap a (snd (CreateTransfer now aid amt dir desc s)) = gap a s"
    and "total (snd (CreateTransfer now aid amt dir desc s)) = total s"
proof -
  have fin: "finite (dom (transfers s))" "finite (dom (accounts s))"
    using inv by (auto simp: ledger_inv_def)
  note held = held_upd [OF fin(1), of a "''tr_'' @ dec_int now"]
  have cur: "total (s\<lparr>accounts := (accounts s)(aid \<mapsto> acc'), transfers := ts\<rparr>) = total s"
    if "accounts s aid = Some acc" "CurrentBalance acc' = CurrentBalance acc" for acc acc' ts
    using sum_map_upd [OF fin(2), of "\<lambda>x. val (CurrentBalance x)" aid acc'] that
    by (simp add: total_def)
  have sub: "spread (acc\<lparr>AvailableBalance := fsub (AvailableBalance acc) amt\<rparr>) = spread acc + val amt"
    if "accounts s aid = Some acc" for acc
    using ongrid_fsub [OF on_gridD(2) [OF g(1) that] g(2)] by (simp add: spread_def)
  show "gap a (snd (CreateTransfer now aid amt dir desc s)) = gap a s"
    using fresh held sub
    by (auto simp: CreateTransfer_def Let_def gap_split gap_transfers hold_of_def in_flight_def
        gap_def split: option.splits)
  show "total (snd (CreateTransfer now aid amt dir desc s)) = total s"
    using cur by (auto simp: CreateTransfer_def Let_def split: option.splits)
qed

lemma settle_accounting:
  assumes inv: "ledger_inv s" and g: "on_grid k s" and t: "transfers s i = Some t"
    and fl: "in_flight (Status t)" and nc: "TransferAccountID t \<noteq> custodyAccountID s"
    and st: "Direction t' = Direction t" "\<not> in_flight (Status t')"
  defines "s' \<equiv> s\<lparr>accounts := settle_balances t (custodyAccountID s) (accounts s),
                  transfers := (transfers s)(i \<mapsto> t')\<rparr>"
  shows "gap a s' = gap a s" and "total s' = total s"
proof -
  let ?c = "custodyAccountID s" and ?i = "TransferAccountID t"
  obtain x where x: "accounts s ?i = Some x" using inv t by (rule ledger_inv_account)
  obtain y where y: "accounts s ?c = Some y" using inv by (rule ledger_inv_custody)
  have fin: "finite (dom (transfers s))" "finite (dom (accounts s))"
    using inv by (auto simp: ledger_inv_def)
  note amt = on_gridD(3) [OF g t] and gx = on_gridD(1,2) [OF g x] and gy = on_gridD(1,2) [OF g y]
  note exact = ongrid_fsub [OF gx(1) amt] ongrid_fadd [OF gx(1) amt] ongrid_fadd [OF gx(2) amt]
    ongrid_fadd [OF gy(1) amt] ongrid_fadd [OF gy(2) amt] ongrid_fsub [OF gy(1) amt] ongrid_fsub [OF gy(2) amt]
  have held: "held a (s\<lparr>transfers := (transfers s)(i \<mapsto> t')\<rparr>) = held a s - hold_of a t"
    using held_upd [OF fin(1), of a i t'] t st by (simp add: hold_of_def)
  consider "Direction t = ''debit''" | "Direction t = ''credit''"
    | "Direction t \<noteq> ''debit''" "Direction t \<noteq> ''credit''" by blast
  note dirs = this
  then show "gap a s' = gap a s"
  proof cases
    case 1
    then show ?thesis using nc x y fl
      by (auto simp: s'_def gap_split gap_def settle_debit_accounts [OF 1 nc x y] held exact spread_def hold_of_def)
  next
    case 2
    then show ?thesis using nc x y
      by (auto simp: s'_def gap_split gap_def settle_credit_accounts [OF 2 nc x y] held exact spread_def hold_of_def)
  next
    case 3
    then show ?thesis by (simp add: s'_def gap_split gap_def settle_balances_def held hold_of_def)
  qed
  from dirs show "total s' = total s"
  proof cases
    case 1
    show ?thesis
      using total_two [OF fin(2) nc x y] by (simp add: total_def s'_def settle_debit_accounts [OF 1 nc x y] exact)
  next
    case 2
    show ?thesis
      using total_two [OF fin(2) nc x y] by (simp add: total_def s'_def settle_credit_accounts [OF 2 nc x y] exact)
  next
    case 3
    then show ?thesis by (simp add: total_def s'_def settle_balances_def)
  qed
qed

lemma release_accounting:
  assumes inv: "ledger_inv s" and g: "on_grid k s" and t: "transfers s i = Some t"
    and fl: "in_flight (Status t)" and st: "\<not> in_flight (Status t')"
  defines "s' \<equiv> s\<lparr>accounts := release_hold t (accounts s), transfers := (transfers s)(i \<mapsto> t')\<rparr>"
  shows "gap a s' = gap a s" and "total s' = total s"
proof -
  obtain x where x: "accounts s (TransferAccountID t) = Some x" using inv t by (rule ledger_inv_account)
  have fin: "finite (dom (transfers s))" "finite (dom (accounts s))"
    using inv by (auto simp: ledger_inv_def)
  have held: "held a (s\<lparr>transfers := (transfers s)(i \<mapsto> t')\<rparr>) = held a s - hold_of a t"
    using held_upd [OF fin(1), of a i t'] t st by (simp add: hold_of_def)
  note exact = ongrid_fadd [OF on_gridD(2) [OF g x] on_gridD(3) [OF g t]]
  show "gap a s' = gap a s"
    using x fl by (auto simp: s'_def gap_split gap_def held release_hold_def upd_account_def
        exact spread_def hold_of_def in_flight_def)
  show "total s' = total s"
    using sum_upd_account [OF fin(2) x, of "\<lambda>b. val (CurrentBalance b)"]
    by (simp add: s'_def total_def release_hold_def)
qed

text \<open>
  One step of a transfer's intended life: a new transfer under a fresh
  identifier, or a status change of a transfer that is still in flight, on a
  customer account, with balances and amounts on a common binary grid.
\<close>

inductive life_step :: "nat \<Rightarrow> LedgerStore \<Rightarrow> LedgerStore \<Rightarrow> bool" for k where
  create: "on_grid k s \<Longrightarrow> ongrid k amt \<Longrightarrow> transfers s (''tr_'' @ dec_int now) = None \<Longrightarrow>
     life_step k s (snd (CreateTransfer now aid amt dir desc s))"
| update: "on_grid k s \<Longrightarrow> transfers s i = Some t \<Longrightarrow> in_flight (Status t) \<Longrightarrow>
     TransferAccountID t \<noteq> custodyAccountID s \<Longrightarrow>
     life_step k s (snd (UpdateTransferStatus now i st rc s))"

lemma update_accounting:
  assumes inv: "ledger_inv s" and g: "on_grid k s" and t: "transfers s i = Some t"
    and fl: "in_flight (Status t)" and nc: "TransferAccountID t \<noteq> custodyAccountID s"
    and u: "UpdateTransferStatus now i st rc s = (Inr t', s')"
  shows "gap a s' = gap a s \<and> total s' = total s"
  using u
proof (cases rule: UpdateTransferStatus_cases)
  case (settled t0)
  with t have [simp]: "t0 = t" by simp
  show ?thesis unfolding settled(4)
    using settle_accounting [OF inv g t fl nc, of t'] settled(1,3) by (simp add: in_flight_def)
next
  case (released t0)
  with t have [simp]: "t0 = t" by simp
  have "\<not> in_flight (Status t')" using released(1,3) by (auto simp: in_flight_def)
  then show ?thesis unfolding released(4)
    using release_accounting [OF inv g t fl, of t'] by simp
next
  case (moved t0)
  have fin: "finite (dom (transfers s))" using inv by (simp add: ledger_inv_def)
  have "held a s' = held a s"
    unfolding moved(4) using held_upd [OF fin, of a i t'] moved(1-3) t fl
    by (auto simp: hold_of_def in_flight_def)
  then show ?thesis unfolding moved(4) by (simp add: gap_def)
qed

lemma life_step_accounting:
  assumes "life_step k s s'" and "ledger_inv s"
  shows "ledger_inv s' \<and> gap a s' = gap a s \<and> total s' = total s"
  using assms
proof (induction rule: life_step.induct)
  case (create s amt now aid dir desc)
  then show ?case by (simp add: CreateTransfer_accounting ledger_inv_CreateTransfer)
next
  case (update s i t now st rc)
  then obtain t' s' where u: "UpdateTransferStatus now i st rc s = (Inr t', s')"
    using UpdateTransferStatus_defined by blast
  with update show ?case
    using update_accounting [OF _ _ _ _ _ u] ledger_inv_UpdateTransferStatus [OF _ u] by simp
qed


lemmas seed_defs = Seed_def arthurChk_def arthurSav_def chloeChk_def ociCustody_def
  DefaultCustodyAccountID_def

lemma dec_int_1 [simp]: "dec_int 1 = ''1''"
  by code_simp

lemma ongrid_0 [simp]: "ongrid 0 (Fin x) \<longleftrightarrow> x \<in> \<int> \<and> \<bar>x\<bar> \<le> 4503599627370496"
  by (simp add: ongrid_def)


text \<open>C29: A balance that starts finite and non-negative stays so: \<open>CreateTransfer\<close> never
  holds more than the available balance, for every finite or infinite requested
  amount and in the rounded arithmetic of the code.\<close>

theorem available_never_negative:
  assumes "\<forall>a acc. accounts s a = Some acc \<longrightarrow> nonneg (AvailableBalance acc)" and "amt \<noteq> NaN"
  shows "\<forall>a acc. accounts (snd (CreateTransfer now aid amt dir desc s)) a = Some acc \<longrightarrow>
           nonneg (AvailableBalance acc)"
proof -
  have "nonneg (fsub (AvailableBalance acc) amt)"
    if "accounts s aid = Some acc" "\<not> fle amt (Fin 0)" "\<not> flt (AvailableBalance acc) amt" for acc
  proof -
    from assms(1) that(1) have n: "nonneg (AvailableBalance acc)" by blast
    then have "AvailableBalance acc \<noteq> NaN" by (auto simp: nonneg_def)
    with that assms(2) have "fle amt (AvailableBalance acc)" "fle (Fin 0) amt"
      by (auto simp: not_flt not_fle flt_imp_fle)
    with n show ?thesis by (intro nonneg_fsub)
  qed
  with assms(1) show ?thesis
    by (auto simp: CreateTransfer_def Let_def split: option.splits if_splits)
qed

theorem available_never_negative_witness:
  "case accounts (snd (CreateTransfer 1 ''acc_chloe_svcu_chk'' (lit (1 / 10)) ''debit'' [] (Seed 0))) ''acc_chloe_svcu_chk'' of
     None \<Rightarrow> True
   | Some acc \<Rightarrow> nonneg (AvailableBalance acc)"
proof -
  have "\<forall>a acc. accounts (snd (CreateTransfer 1 ''acc_chloe_svcu_chk'' (lit (1 / 10)) ''debit'' [] (Seed 0))) a
      = Some acc \<longrightarrow> nonneg (AvailableBalance acc)"
    by (rule available_never_negative) (auto simp: seed_defs lit_def split: if_splits)
  then show ?thesis by (simp split: option.split)
qed



text \<open>The intended life cycle is not enforced. A debit that has already settled is
  accepted for settlement again, and the customer's current balance is debited a
  second time.\<close>

theorem double_settlement:
  assumes "ledger_inv s" and "transfers s i = Some t" and "Direction t = ''debit''"
    and "Status t = TransferStatusSettled" and "TransferAccountID t \<noteq> custodyAccountID s"
    and "accounts s (TransferAccountID t) = Some acc"
  shows "\<exists>t' s'. UpdateTransferStatus now i TransferStatusSettled rc s = (Inr t', s')
     \<and> accounts s' (TransferAccountID t) =
         Some (acc\<lparr>CurrentBalance := fsub (CurrentBalance acc) (Amount t)\<rparr>)"
proof -
  obtain c where "accounts s (custodyAccountID s) = Some c" using assms(1) by (rule ledger_inv_custody)
  with assms show ?thesis
    by (simp add: UpdateTransferStatus_def settle_debit_accounts Let_def)
qed

definition settled_once :: LedgerStore where
  "settled_once = snd (UpdateTransferStatus 2 ''tr_1'' TransferStatusSettled []
     (snd (CreateTransfer 1 ''acc_arthur_chase_chk'' (Fin 100) ''debit'' [] (Seed 0))))"

lemma settled_once_inv: "ledger_inv settled_once"
  unfolding settled_once_def
  by (intro ledger_inv_UpdateTransferStatus [OF _ surjective_pairing] ledger_inv_CreateTransfer ledger_inv_Seed)

theorem double_settlement_witness:
  "\<exists>t' s'. UpdateTransferStatus 3 ''tr_1'' TransferStatusSettled [] settled_once = (Inr t', s')
     \<and> accounts s' ''acc_arthur_chase_chk'' =
        Some (arthurChk\<lparr>AvailableBalance := Fin 48150, CurrentBalance := fsub (Fin 48400) (Fin 100)\<rparr>)"
proof -
  let ?t = "(new_transfer 1 ''acc_arthur_chase_chk'' (Fin 100) ''debit'' [] ''acc_oci_custody_001''
      TransferStatusPending [])\<lparr>Status := TransferStatusSettled, SettledAt := Some 2, ReturnCode := []\<rparr>"
  let ?a = "arthurChk\<lparr>CurrentBalance := Fin 48400, AvailableBalance := Fin 48150\<rparr>"
  have "transfers settled_once ''tr_1'' = Some ?t"
    and "accounts settled_once ''acc_arthur_chase_chk'' = Some ?a"
    and "custodyAccountID settled_once = ''acc_oci_custody_001''"
    by (simp_all add: settled_once_def CreateTransfer_def UpdateTransferStatus_def Let_def
        settle_balances_def upd_account_def seed_defs fsub_def)
  then show ?thesis
    using double_settlement [OF settled_once_inv, of "''tr_1''" ?t ?a 3 "[]"] by simp
qed

text \<open>A transfer amount that is not a number passes every check of \<open>CreateTransfer\<close>
  (the JSON amount may be the string NaN): the debit is accepted, the available
  balance becomes NaN, and from then on a debit of any positive amount is accepted.\<close>

theorem nan_amount_accepted:
  assumes "accounts s aid = Some acc" and "accounts s (custodyAccountID s) = Some c"
    and "flt (Fin 0) amt"
  shows "let (r, s') = CreateTransfer now aid NaN ''debit'' desc s
         in snd r = None \<and> map_option AvailableBalance (accounts s' aid) = Some NaN
            \<and> snd (fst (CreateTransfer now' aid amt ''debit'' desc' s')) = None"
proof -
  have "\<not> fle amt (Fin 0)" using assms(3) by (cases amt) auto
  with assms show ?thesis
    by (cases "AvailableBalance acc") (auto simp: CreateTransfer_def Let_def fsub_def split: option.splits)
qed

theorem nan_amount_accepted_witness:
  "let (r, s') = CreateTransfer 1 ''acc_chloe_svcu_chk'' NaN ''debit'' [] (Seed 0)
   in snd r = None \<and> map_option AvailableBalance (accounts s' ''acc_chloe_svcu_chk'') = Some NaN
      \<and> snd (fst (CreateTransfer 2 ''acc_chloe_svcu_chk'' (Fin 1000000000) ''debit'' [] s')) = None"
  by (rule nan_amount_accepted [where acc = chloeChk and c = ociCustody]) (simp_all add: seed_defs)

end
