(* ===== verification/BrokerLedger.thy ===== *)
theory BrokerLedger
  imports Float64
begin

text \<open>
  The mock broker's ledger, \<open>cmd/mock-broker/ledger\<close>: accounts, positions and
  orders behind one mutex. Orders are shared through pointers: the map from order
  identifiers and the per-account slices hold the same \<open>*Order\<close>, so orders live in
  an explicit heap \<open>oheap\<close> and both structures hold addresses. Accounts and
  positions have a single owner and are stored by value. Each method that holds
  the lock is one state transformer; the trade update that a goroutine later
  broadcasts is returned. Loops over Go maps take the visiting order as a list.
\<close>

section \<open>Data\<close>

record Account =
  AcctID :: string
  AccountNumber :: string
  AcctStatus :: string
  Currency :: string
  Cash :: float64
  PortfolioValue :: float64
  BuyingPower :: float64
  Equity :: float64
  LongMarketValue :: float64
  ShortMarketValue :: float64
  LastEquity :: float64
  AcctCreatedAt :: time
  AccountType :: string
  CustomerName :: string

record Order =
  OrderID :: string
  ClientOrderID :: string
  OrdCreatedAt :: time
  UpdatedAt :: time
  SubmittedAt :: time
  FilledAt :: "time option"
  CanceledAt :: "time option"
  OrdAssetID :: string
  OrdSymbol :: string
  OrdAssetClass :: string
  OrdQty :: float64
  FilledQty :: float64
  OrdType :: string
  OrdSide :: string
  TimeInForce :: string
  LimitPrice :: "float64 option"
  FilledAvgPrice :: "float64 option"
  OrdStatus :: string

record Position =
  AssetID :: string
  Symbol :: string
  Exchange :: string
  AssetClass :: string
  Qty :: float64
  AvgEntryPrice :: float64
  Side :: string
  MarketValue :: float64
  CostBasis :: float64
  UnrealizedPL :: float64
  UnrealizedPLPC :: float64
  CurrentPrice :: float64
  LastdayPrice :: float64
  ChangeToday :: float64

record Quote =
  BidPrice :: float64
  BidSize :: int
  AskPrice :: float64
  AskSize :: int
  QuoteTime :: time

record TradeUpdate =
  UpdEvent :: string
  ExecutionID :: string
  UpdOrder :: Order
  UpdTimestamp :: time
  UpdPrice :: "float64 option"
  UpdQty :: "float64 option"

record CreateOrderRequest =
  ReqSymbol :: string
  ReqQty :: float64
  ReqSide :: string
  ReqType :: string
  ReqTimeInForce :: string
  ReqLimitPrice :: "float64 option"
  ReqClientOrderID :: string

datatype broker_error =
    ErrAccountNotFound | ErrOrderNotFound | ErrPositionNotFound
  | ErrInsufficientCash float64 float64 | ErrInsufficientShares float64 float64
  | ErrInvalidOrderPayload | ErrSide | ErrNoQuote | ErrOrderCannotBeCanceled string

type_synonym address = nat
type_synonym book = "(string, Position) gomap"

record Store =
  accounts :: "(string, Account) gomap"
  positions :: "(string, book) gomap"
  oheap :: "(address, Order) gomap"
  next_addr :: address
  orders :: "(string, address) gomap"
  accountOrders :: "string \<Rightarrow> address list"
  subscribers :: "(nat, TradeUpdate list) gomap"
  autoReplenish :: bool

definition NewStore :: Store where
  "NewStore = \<lparr>accounts = Map.empty, positions = Map.empty, oheap = Map.empty, next_addr = 0,
     orders = Map.empty, accountOrders = (\<lambda>_. []), subscribers = Map.empty, autoReplenish = False\<rparr>"

definition SetAutoReplenish :: "bool \<Rightarrow> Store \<Rightarrow> Store" where
  "SetAutoReplenish enabled s = s\<lparr>autoReplenish := enabled\<rparr>"

section \<open>Valuation\<close>

definition revalue :: "Position \<Rightarrow> Position" where
  "revalue p =
     (let mv = fmul (Qty p) (CurrentPrice p); pl = fsub mv (CostBasis p)
      in p\<lparr>MarketValue := mv, UnrealizedPL := pl,
           UnrealizedPLPC := (if flt (Fin 0) (CostBasis p) then fdiv pl (CostBasis p) else UnrealizedPLPC p)\<rparr>)"

fun revalue_all :: "string list \<Rightarrow> book \<times> float64 \<Rightarrow> book \<times> float64" where
  "revalue_all [] acc = acc"
| "revalue_all (k # ks) (m, lmv) = (case m k of
     None \<Rightarrow> revalue_all ks (m, lmv)
   | Some p \<Rightarrow> revalue_all ks (m(k \<mapsto> revalue p), fadd lmv (MarketValue (revalue p))))"

definition book_of :: "Store \<Rightarrow> string \<Rightarrow> book" where
  "book_of s a = (case positions s a of None \<Rightarrow> Map.empty | Some b \<Rightarrow> b)"

definition set_book :: "string \<Rightarrow> book \<Rightarrow> Store \<Rightarrow> Store" where
  "set_book a b s = s\<lparr>positions := (if positions s a = None then positions s else (positions s)(a \<mapsto> b))\<rparr>"

definition value_account :: "float64 \<Rightarrow> Account \<Rightarrow> Account" where
  "value_account lmv acc =
     (let eq = fadd (Cash acc) lmv
      in acc\<lparr>LongMarketValue := lmv, Equity := eq, PortfolioValue := eq,
             BuyingPower := fmul (Cash acc) (Fin 2)\<rparr>)"

definition recalculateAccountValuation :: "string list \<Rightarrow> string \<Rightarrow> Store \<Rightarrow> Store" where
  "recalculateAccountValuation ord accountID s =
     (let (b, lmv) = revalue_all ord (book_of s accountID, Fin 0)
      in (set_book accountID b s)\<lparr>accounts := (case accounts s accountID of
            None \<Rightarrow> accounts s
          | Some acc \<Rightarrow> (accounts s)(accountID \<mapsto> value_account lmv acc))\<rparr>)"

definition ReplenishCash :: "string list \<Rightarrow> string \<Rightarrow> float64 \<Rightarrow> Store \<Rightarrow> (broker_error + unit) \<times> Store" where
  "ReplenishCash ord accountID amount s = (case accounts s accountID of
     None \<Rightarrow> (Inl ErrAccountNotFound, s)
   | Some acc \<Rightarrow> (Inr (), recalculateAccountValuation ord accountID
        (s\<lparr>accounts := (accounts s)(accountID \<mapsto> acc\<lparr>Cash := fadd (Cash acc) amount\<rparr>)\<rparr>)))"

section \<open>Accounts and positions\<close>

text \<open>\<open>fmt.Sprintf("%06d", n)\<close> for a non-negative count.\<close>

definition pad6 :: "nat \<Rightarrow> string" where
  "pad6 n = (let d = dec_nat n in replicate (6 - length d) (CHR ''0'') @ d)"

text \<open>\<open>ids\<close> lists the keys of \<open>s.accounts\<close>, of which the code takes the length.\<close>

definition CreateAccount :: "string list \<Rightarrow> time \<Rightarrow> time \<Rightarrow> Account \<Rightarrow> Store \<Rightarrow> Account \<times> Store" where
  "CreateAccount ids idTime now acc s =
     (let eq = fsub (fadd (Cash acc) (LongMarketValue acc)) (ShortMarketValue acc);
          acc' = acc\<lparr>
            AcctID := (if AcctID acc = [] then ''acc-'' @ dec_int idTime else AcctID acc),
            AccountNumber := (if AccountNumber acc = [] then ''OCI-'' @ pad6 (length ids + 1)
                              else AccountNumber acc),
            AcctStatus := (if AcctStatus acc = [] then ''ACTIVE'' else AcctStatus acc),
            Currency := (if Currency acc = [] then ''USD'' else Currency acc),
            AcctCreatedAt := now,
            BuyingPower := fmul (Cash acc) (Fin 2),
            Equity := eq,
            PortfolioValue := eq\<rparr>;
          i = AcctID acc'
      in (acc', s\<lparr>accounts := (accounts s)(i \<mapsto> acc'),
                  positions := (if positions s i = None then (positions s)(i \<mapsto> Map.empty) else positions s)\<rparr>))"

definition GetAccount :: "string \<Rightarrow> Store \<Rightarrow> broker_error + Account" where
  "GetAccount i s = (case accounts s i of None \<Rightarrow> Inl ErrAccountNotFound | Some acc \<Rightarrow> Inr acc)"

definition ListAccounts :: "string list \<Rightarrow> Store \<Rightarrow> Account list" where
  "ListAccounts ord s = map_vals ord (accounts s)"

definition SetPosition :: "string \<Rightarrow> Position \<Rightarrow> Store \<Rightarrow> Store" where
  "SetPosition accountID pos s =
     s\<lparr>positions := (positions s)(accountID \<mapsto> (book_of s accountID)(Symbol pos \<mapsto> pos))\<rparr>"

definition GetPosition :: "string \<Rightarrow> string \<Rightarrow> Store \<Rightarrow> broker_error + Position" where
  "GetPosition accountID symbol s = (case positions s accountID of
     None \<Rightarrow> Inl ErrPositionNotFound
   | Some b \<Rightarrow> (case b symbol of None \<Rightarrow> Inl ErrPositionNotFound | Some p \<Rightarrow> Inr p))"

definition ListPositions :: "string list \<Rightarrow> string \<Rightarrow> Store \<Rightarrow> Position list" where
  "ListPositions ord accountID s = (case positions s accountID of
     None \<Rightarrow> [] | Some b \<Rightarrow> map_vals ord b)"

section \<open>Market orders\<close>

definition parseOrderRequest :: "CreateOrderRequest \<Rightarrow> time \<Rightarrow> broker_error + Order" where
  "parseOrderRequest req now =
     (if ReqSymbol req = [] \<or> fle (ReqQty req) (Fin 0) then Inl ErrInvalidOrderPayload
      else if ReqSide req \<noteq> ''buy'' \<and> ReqSide req \<noteq> ''sell'' then Inl ErrSide
      else Inr \<lparr>
        OrderID = ''ord-'' @ dec_int now,
        ClientOrderID = (if ReqClientOrderID req = [] then ''client-'' @ dec_int now else ReqClientOrderID req),
        OrdCreatedAt = now, UpdatedAt = now, SubmittedAt = now, FilledAt = None, CanceledAt = None,
        OrdAssetID = ''ast-'' @ ReqSymbol req, OrdSymbol = ReqSymbol req, OrdAssetClass = ''us_equity'',
        OrdQty = ReqQty req, FilledQty = Fin 0,
        OrdType = (if ReqType req = [] then ''market'' else ReqType req),
        OrdSide = ReqSide req,
        TimeInForce = (if ReqTimeInForce req = [] then ''day'' else ReqTimeInForce req),
        LimitPrice = ReqLimitPrice req, FilledAvgPrice = None, OrdStatus = ''new''\<rparr>)"

definition fill :: "float64 \<Rightarrow> time \<Rightarrow> Order \<Rightarrow> Order" where
  "fill price now o' = o'\<lparr>OrdStatus := ''filled'', FilledQty := OrdQty o',
     FilledAvgPrice := Some price, FilledAt := Some now\<rparr>"

definition new_position :: "Order \<Rightarrow> float64 \<Rightarrow> float64 \<Rightarrow> float64 \<Rightarrow> Position" where
  "new_position ord price cost lastday = \<lparr>AssetID = OrdAssetID ord, Symbol = OrdSymbol ord,
     Exchange = ''NASDAQ'', AssetClass = ''us_equity'', Qty = OrdQty ord, AvgEntryPrice = price,
     Side = ''long'', MarketValue = Fin 0, CostBasis = cost, UnrealizedPL = Fin 0,
     UnrealizedPLPC = Fin 0, CurrentPrice = price, LastdayPrice = lastday, ChangeToday = Fin 0\<rparr>"

definition add_to_position :: "Order \<Rightarrow> float64 \<Rightarrow> float64 \<Rightarrow> Position \<Rightarrow> Position" where
  "add_to_position ord price cost p =
     (let q = fadd (Qty p) (OrdQty ord); b = fadd (CostBasis p) cost
      in p\<lparr>Qty := q, CostBasis := b, AvgEntryPrice := fdiv b q, CurrentPrice := price\<rparr>)"

definition executeMarketBuy ::
    "bool \<Rightarrow> Account \<Rightarrow> book \<Rightarrow> Order \<Rightarrow> Quote \<Rightarrow> time \<Rightarrow> broker_error + Account \<times> book \<times> Order" where
  "executeMarketBuy auto acc b ord quote now =
     (let price = (if fle (AskPrice quote) (Fin 0) then BidPrice quote else AskPrice quote)
      in if fle price (Fin 0) then Inl ErrNoQuote
         else let cost = fmul (OrdQty ord) price in
           if flt (Cash acc) cost \<and> \<not> auto then Inl (ErrInsufficientCash cost (Cash acc))
           else let cash1 = (if flt (Cash acc) cost
                             then fadd (Cash acc) (fadd (fsub cost (Cash acc)) (Fin 50000))
                             else Cash acc);
                    acc' = acc\<lparr>Cash := fsub cash1 cost\<rparr>;
                    pos = (case b (OrdSymbol ord) of
                             None \<Rightarrow> new_position ord price cost (fmul price (lit (99 / 100)))
                           | Some p \<Rightarrow> add_to_position ord price cost p)
                in Inr (acc', b(OrdSymbol ord \<mapsto> pos), fill price now ord))"

definition executeMarketSell ::
    "Account \<Rightarrow> book \<Rightarrow> Order \<Rightarrow> Quote \<Rightarrow> time \<Rightarrow> broker_error + Account \<times> book \<times> Order" where
  "executeMarketSell acc b ord quote now =
     (let price = (if fle (BidPrice quote) (Fin 0) then AskPrice quote else BidPrice quote)
      in if fle price (Fin 0) then Inl ErrNoQuote
         else case b (OrdSymbol ord) of
             None \<Rightarrow> Inl (ErrInsufficientShares (OrdQty ord) (Fin 0))
           | Some p \<Rightarrow>
               if flt (Qty p) (OrdQty ord) then Inl (ErrInsufficientShares (OrdQty ord) (Qty p))
               else let proceeds = fmul (OrdQty ord) price;
                        q = fsub (Qty p) (OrdQty ord);
                        c = fsub (CostBasis p) (fmul (OrdQty ord) (AvgEntryPrice p));
                        p' = p\<lparr>Qty := q, CostBasis := (if flt c (Fin 0) then Fin 0 else c), CurrentPrice := price\<rparr>
                    in Inr (acc\<lparr>Cash := fadd (Cash acc) proceeds\<rparr>,
                            (if fle q (lit (1 / 100000)) then b(OrdSymbol ord := None) else b(OrdSymbol ord \<mapsto> p')),
                            fill price now ord))"

definition executeMarketOrder ::
    "bool \<Rightarrow> Account \<Rightarrow> book \<Rightarrow> Order \<Rightarrow> Quote \<Rightarrow> time \<Rightarrow> broker_error + Account \<times> book \<times> Order" where
  "executeMarketOrder auto acc b ord quote now =
     (if OrdSide ord = ''buy'' then executeMarketBuy auto acc b ord quote now
      else if OrdSide ord = ''sell'' then executeMarketSell acc b ord quote now
      else Inr (acc, b, ord))"

definition trade_update :: "Order \<Rightarrow> time \<Rightarrow> TradeUpdate" where
  "trade_update ord now = \<lparr>UpdEvent = OrdStatus ord, ExecutionID = ''exec-'' @ dec_int now,
     UpdOrder = ord, UpdTimestamp = now, UpdPrice = FilledAvgPrice ord, UpdQty = Some (FilledQty ord)\<rparr>"

text \<open>\<open>pord\<close> is the order in which the final valuation visits the account's positions.\<close>

definition CreateOrder ::
    "string list \<Rightarrow> time \<Rightarrow> string \<Rightarrow> CreateOrderRequest \<Rightarrow> Quote \<Rightarrow> Store
      \<Rightarrow> (broker_error + Order \<times> TradeUpdate) \<times> Store" where
  "CreateOrder pord now accountID req quote s = (case accounts s accountID of
     None \<Rightarrow> (Inl ErrAccountNotFound, s)
   | Some acc \<Rightarrow> (case parseOrderRequest req now of
       Inl e \<Rightarrow> (Inl e, s)
     | Inr ord0 \<Rightarrow>
         let b = book_of s accountID; s1 = s\<lparr>positions := (positions s)(accountID \<mapsto> b)\<rparr>
         in case (if OrdType ord0 = ''market'' then executeMarketOrder (autoReplenish s) acc b ord0 quote now
                  else if OrdType ord0 = ''limit'' then Inr (acc, b, ord0\<lparr>OrdStatus := ''accepted''\<rparr>)
                  else Inr (acc, b, ord0)) of
              Inl e \<Rightarrow> (Inl e, s1)
            | Inr (acc', b', ord) \<Rightarrow>
                let s2 = s1\<lparr>accounts := (accounts s)(accountID \<mapsto> acc'),
                            positions := (positions s)(accountID \<mapsto> b')\<rparr>;
                    s3 = recalculateAccountValuation pord accountID s2;
                    a = next_addr s
                in (Inr (ord, trade_update ord now),
                    s3\<lparr>oheap := (oheap s)(a \<mapsto> ord), next_addr := Suc a,
                       orders := (orders s)(OrderID ord \<mapsto> a),
                       accountOrders := (accountOrders s)(accountID := a # accountOrders s accountID)\<rparr>)))"

section \<open>Reading and cancelling orders\<close>

text \<open>The account argument of \<open>GetOrder\<close> and \<open>CancelOrder\<close> is not looked at, as in the source.\<close>

definition GetOrder :: "string \<Rightarrow> string \<Rightarrow> Store \<Rightarrow> broker_error + Order" where
  "GetOrder accountID orderID s = (case orders s orderID of
     None \<Rightarrow> Inl ErrOrderNotFound
   | Some a \<Rightarrow> (case oheap s a of None \<Rightarrow> Inl ErrOrderNotFound | Some ord \<Rightarrow> Inr ord))"

fun list_orders :: "string \<Rightarrow> nat \<Rightarrow> Order list \<Rightarrow> Order list \<Rightarrow> Order list" where
  "list_orders status limit result [] = result"
| "list_orders status limit result (ord # rest) =
     (if status = [] \<or> status = ''all'' \<or> OrdStatus ord = status
      then let result' = result @ [ord]
           in if limit \<le> length result' then result' else list_orders status limit result' rest
      else list_orders status limit result rest)"

definition ListOrders :: "string \<Rightarrow> string \<Rightarrow> int \<Rightarrow> Store \<Rightarrow> Order list" where
  "ListOrders accountID status limit s =
     list_orders status (nat (if limit \<le> 0 then 50 else limit)) []
       (map_vals (accountOrders s accountID) (oheap s))"

definition cancel_update :: "Order \<Rightarrow> time \<Rightarrow> TradeUpdate" where
  "cancel_update ord now = \<lparr>UpdEvent = ''canceled'', ExecutionID = ''exec-'' @ dec_int now,
     UpdOrder = ord, UpdTimestamp = now, UpdPrice = None, UpdQty = None\<rparr>"

definition CancelOrder ::
    "time \<Rightarrow> string \<Rightarrow> string \<Rightarrow> Store \<Rightarrow> (broker_error + Order \<times> TradeUpdate) \<times> Store" where
  "CancelOrder now accountID orderID s = (case orders s orderID of
     None \<Rightarrow> (Inl ErrOrderNotFound, s)
   | Some a \<Rightarrow> (case oheap s a of
       None \<Rightarrow> (Inl ErrOrderNotFound, s)
     | Some ord \<Rightarrow>
         if OrdStatus ord = ''filled'' \<or> OrdStatus ord = ''canceled''
         then (Inl (ErrOrderCannotBeCanceled (OrdStatus ord)), s)
         else let ord' = ord\<lparr>UpdatedAt := now, CanceledAt := Some now, OrdStatus := ''canceled''\<rparr>
              in (Inr (ord', cancel_update ord' now), s\<lparr>oheap := (oheap s)(a \<mapsto> ord')\<rparr>)))"

section \<open>Market data callbacks\<close>

text \<open>
  \<open>UpdateAccountValuations\<close>: the loop over one account's positions changes each
  position by itself, so it is a pointwise map; the valuation that follows sums
  market values in the order \<open>pord\<close> gives for the account.
\<close>

definition reprice :: "float64 \<Rightarrow> Position \<Rightarrow> Position" where
  "reprice price p =
     (let mv = fmul (Qty p) price; pl = fsub mv (CostBasis p)
      in p\<lparr>MarketValue := mv, UnrealizedPL := pl,
           UnrealizedPLPC := (if flt (Fin 0) (CostBasis p) then fdiv pl (CostBasis p) else UnrealizedPLPC p),
           CurrentPrice := price,
           ChangeToday := (if flt (Fin 0) (LastdayPrice p)
                           then fdiv (fsub price (LastdayPrice p)) (LastdayPrice p) else ChangeToday p)\<rparr>)"

definition reprice_book :: "(string, float64) gomap \<Rightarrow> book \<Rightarrow> book" where
  "reprice_book prices b = (\<lambda>sym. case b sym of
     None \<Rightarrow> None
   | Some p \<Rightarrow> (case prices sym of
       None \<Rightarrow> Some p
     | Some price \<Rightarrow> Some (if flt (Fin 0) price then reprice price p else p)))"

fun update_valuations ::
    "(string \<Rightarrow> string list) \<Rightarrow> (string, float64) gomap \<Rightarrow> string list \<Rightarrow> Store \<Rightarrow> Store" where
  "update_valuations pord prices [] s = s"
| "update_valuations pord prices (i # is) s = (case accounts s i of
     None \<Rightarrow> update_valuations pord prices is s
   | Some acc \<Rightarrow> update_valuations pord prices is
       (recalculateAccountValuation (pord i) i (set_book i (reprice_book prices (book_of s i)) s)))"

definition UpdateAccountValuations ::
    "string list \<Rightarrow> (string \<Rightarrow> string list) \<Rightarrow> (string, float64) gomap \<Rightarrow> Store \<Rightarrow> Store" where
  "UpdateAccountValuations aord pord prices s = update_valuations pord prices aord s"

text \<open>
  \<open>CheckLimitOrders\<close>. \<open>limit_fill_price\<close> is the price at which a pending order
  would be filled now. \<open>fill_limit\<close> is the body of the innermost loop: the
  account that holds the order pays or is paid, or nothing happens when cash or
  shares do not suffice. A nil account or a write to a nil book panics: \<open>None\<close>.
  \<open>pord\<close> gives the order of the valuation loop for an account and its book.
\<close>

definition limit_fill_price :: "Order \<Rightarrow> Quote \<Rightarrow> float64 option" where
  "limit_fill_price ord quote = (case LimitPrice ord of
     None \<Rightarrow> None
   | Some lp \<Rightarrow>
       if OrdSide ord = ''buy'' \<and> fle (AskPrice quote) lp \<and> flt (Fin 0) (AskPrice quote)
       then Some (AskPrice quote)
       else if OrdSide ord = ''sell'' \<and> fle lp (BidPrice quote) \<and> flt (Fin 0) (BidPrice quote)
       then Some (BidPrice quote)
       else None)"

definition limit_buy :: "float64 \<Rightarrow> Order \<Rightarrow> Account \<Rightarrow> book \<Rightarrow> (Account \<times> book) option" where
  "limit_buy price ord acc b =
     (let cost = fmul (OrdQty ord) price
      in if fle cost (Cash acc)
         then Some (acc\<lparr>Cash := fsub (Cash acc) cost\<rparr>,
                b(OrdSymbol ord \<mapsto> (case b (OrdSymbol ord) of
                    None \<Rightarrow> new_position ord price cost (Fin 0)
                  | Some p \<Rightarrow> add_to_position ord price cost p)))
         else None)"

definition limit_sell :: "float64 \<Rightarrow> Order \<Rightarrow> Account \<Rightarrow> book \<Rightarrow> (Account \<times> book) option" where
  "limit_sell price ord acc b = (case b (OrdSymbol ord) of
     None \<Rightarrow> None
   | Some p \<Rightarrow>
       if fle (OrdQty ord) (Qty p)
       then let q = fsub (Qty p) (OrdQty ord);
                c = fsub (CostBasis p) (fmul (OrdQty ord) (AvgEntryPrice p));
                p' = p\<lparr>Qty := q, CostBasis := c, CurrentPrice := price\<rparr>
            in Some (acc\<lparr>Cash := fadd (Cash acc) (fmul (OrdQty ord) price)\<rparr>,
                 (if fle q (lit (1 / 100000)) then b(OrdSymbol ord := None) else b(OrdSymbol ord \<mapsto> p')))
       else None)"

definition fill_limit ::
    "(string \<Rightarrow> book \<Rightarrow> string list) \<Rightarrow> time \<Rightarrow> address \<Rightarrow> float64 \<Rightarrow> string \<Rightarrow> Store \<Rightarrow> Store option" where
  "fill_limit pord now a price accID s = (case oheap s a of
     None \<Rightarrow> None
   | Some ord \<Rightarrow> (case accounts s accID of
       None \<Rightarrow> None
     | Some acc \<Rightarrow>
         let b = book_of s accID;
             res = (if OrdSide ord = ''buy'' then limit_buy price ord acc b
                    else if OrdSide ord = ''sell'' then limit_sell price ord acc b
                    else None)
         in case res of
              None \<Rightarrow> Some s
            | Some (acc', b') \<Rightarrow>
                if positions s accID = None then None
                else let s1 = s\<lparr>accounts := (accounts s)(accID \<mapsto> acc'),
                               positions := (positions s)(accID \<mapsto> b'),
                               oheap := (oheap s)(a \<mapsto> fill price now ord)\<rparr>
                     in Some (recalculateAccountValuation (pord accID b') accID s1)))"

definition holds_order :: "Store \<Rightarrow> string \<Rightarrow> string \<Rightarrow> bool" where
  "holds_order s orderID accID \<longleftrightarrow>
     orderID \<in> set (map OrderID (map_vals (accountOrders s accID) (oheap s)))"

fun fill_in_accounts ::
    "(string \<Rightarrow> book \<Rightarrow> string list) \<Rightarrow> time \<Rightarrow> address \<Rightarrow> string \<Rightarrow> float64 \<Rightarrow> string list
      \<Rightarrow> Store \<Rightarrow> Store option" where
  "fill_in_accounts pord now a orderID price [] s = Some s"
| "fill_in_accounts pord now a orderID price (i # is) s =
     (if holds_order s orderID i
      then (case fill_limit pord now a price i s of
              None \<Rightarrow> None
            | Some s' \<Rightarrow> fill_in_accounts pord now a orderID price is s')
      else fill_in_accounts pord now a orderID price is s)"

definition check_order ::
    "(string \<Rightarrow> book \<Rightarrow> string list) \<Rightarrow> time \<Rightarrow> string list \<Rightarrow> (string, Quote) gomap \<Rightarrow> string
      \<Rightarrow> Store \<Rightarrow> Store option" where
  "check_order pord now aord quotes orderID s =
     (case Option.bind (orders s orderID) (\<lambda>a. Option.bind (oheap s a) (\<lambda>ord. Some (a, ord))) of
       None \<Rightarrow> Some s
     | Some (a, ord) \<Rightarrow>
         if OrdStatus ord \<noteq> ''accepted'' \<or> OrdType ord \<noteq> ''limit'' \<or> LimitPrice ord = None then Some s
         else (case quotes (OrdSymbol ord) of
             None \<Rightarrow> Some s
           | Some quote \<Rightarrow> (case limit_fill_price ord quote of
               None \<Rightarrow> Some s
             | Some price \<Rightarrow> fill_in_accounts pord now a (OrderID ord) price aord s)))"

fun check_limit_orders ::
    "(string \<Rightarrow> book \<Rightarrow> string list) \<Rightarrow> time \<Rightarrow> string list \<Rightarrow> (string, Quote) gomap \<Rightarrow> string list
      \<Rightarrow> Store \<Rightarrow> Store option" where
  "check_limit_orders pord now aord quotes [] s = Some s"
| "check_limit_orders pord now aord quotes (i # is) s = (case check_order pord now aord quotes i s of
     None \<Rightarrow> None
   | Some s' \<Rightarrow> check_limit_orders pord now aord quotes is s')"

definition CheckLimitOrders ::
    "(string \<Rightarrow> book \<Rightarrow> string list) \<Rightarrow> time \<Rightarrow> string list \<Rightarrow> string list \<Rightarrow> (string, Quote) gomap
      \<Rightarrow> Store \<Rightarrow> Store option" where
  "CheckLimitOrders pord now oord aord quotes s = check_limit_orders pord now aord quotes oord s"

section \<open>Trade update subscriptions\<close>

text \<open>A subscriber is a channel with room for 50 updates; a send to a full channel is dropped.\<close>

definition SubscribeTradeUpdates :: "nat \<Rightarrow> Store \<Rightarrow> Store" where
  "SubscribeTradeUpdates ch s = s\<lparr>subscribers := (subscribers s)(ch \<mapsto> [])\<rparr>"

definition unsubscribe :: "nat \<Rightarrow> Store \<Rightarrow> Store" where
  "unsubscribe ch s = s\<lparr>subscribers := (subscribers s)(ch := None)\<rparr>"

definition BroadcastTradeUpdate :: "TradeUpdate \<Rightarrow> Store \<Rightarrow> Store" where
  "BroadcastTradeUpdate update s = s\<lparr>subscribers := (\<lambda>ch. case subscribers s ch of
     None \<Rightarrow> None
   | Some buf \<Rightarrow> Some (if length buf < 50 then buf @ [update] else buf))\<rparr>"

section \<open>Portfolio history and seed data\<close>

record PortfolioHistory =
  HistTimestamp :: "int list"
  HistEquity :: "float64 list"
  ProfitLoss :: "float64 list"
  ProfitLossPct :: "float64 list"
  BaseValue :: float64
  Timeframe :: string

definition history_value :: "float64 \<Rightarrow> float64 \<Rightarrow> nat \<Rightarrow> float64" where
  "history_value startVal currentVal i =
     (let ratio = fdiv (of_i64 (30 - int i)) (Fin 30);
          noise = fmul (fsub (of_i64 (int (i mod 5))) (Fin 2)) (Fin 200)
      in fround (fadd (fadd startVal (fmul (fsub currentVal startVal) ratio)) noise))"

definition history_pct :: "float64 \<Rightarrow> float64 \<Rightarrow> float64" where
  "history_pct startVal pl =
     (if flt (Fin 0) startVal
      then fdiv (fround (fmul (fdiv pl startVal) (Fin 10000))) (Fin 10000) else Fin 0)"

fun history_loop :: "time \<Rightarrow> float64 \<Rightarrow> nat \<Rightarrow> PortfolioHistory \<Rightarrow> PortfolioHistory" where
  "history_loop now currentVal 0 h = h"
| "history_loop now currentVal (Suc i) h =
     (let startVal = BaseValue h;
          t = (now - int i * 24 * hour) div second;
          v = history_value startVal currentVal i;
          pl = fsub v startVal
      in history_loop now currentVal i (h\<lparr>
           HistTimestamp := HistTimestamp h @ [t], HistEquity := HistEquity h @ [v],
           ProfitLoss := ProfitLoss h @ [pl],
           ProfitLossPct := ProfitLossPct h @ [history_pct startVal pl]\<rparr>))"

definition GetPortfolioHistory ::
    "time \<Rightarrow> string \<Rightarrow> string \<Rightarrow> Store \<Rightarrow> broker_error + PortfolioHistory" where
  "GetPortfolioHistory now accountID period s = (case GetAccount accountID s of
     Inl e \<Rightarrow> Inl e
   | Inr acc \<Rightarrow> Inr (history_loop now (Equity acc) 30 \<lparr>
       HistTimestamp = [], HistEquity = [], ProfitLoss = [], ProfitLossPct = [],
       BaseValue = fround (fmul (Equity acc) (lit (85 / 100))), Timeframe = period\<rparr>))"

definition seed_account :: "string \<Rightarrow> string \<Rightarrow> float64 \<Rightarrow> string \<Rightarrow> Account" where
  "seed_account i number cash customer = \<lparr>AcctID = i, AccountNumber = number, AcctStatus = ''ACTIVE'',
     Currency = ''USD'', Cash = cash, PortfolioValue = Fin 0, BuyingPower = Fin 0, Equity = Fin 0,
     LongMarketValue = Fin 0, ShortMarketValue = Fin 0, LastEquity = Fin 0, AcctCreatedAt = 0,
     AccountType = ''individual'', CustomerName = customer\<rparr>"

definition seed_position ::
    "(string, float64) gomap \<Rightarrow> float64 \<Rightarrow> string \<times> float64 \<times> float64 \<Rightarrow> Position" where
  "seed_position prices lastday h = (case h of (symbol, qty, avgPrice) \<Rightarrow>
     let given = (case prices symbol of None \<Rightarrow> Fin 0 | Some p \<Rightarrow> p);
         price = (if fle given (Fin 0) then avgPrice else given);
         cost = fmul qty avgPrice; mv = fmul qty price
     in \<lparr>AssetID = ''ast-'' @ symbol, Symbol = symbol, Exchange = ''NASDAQ'', AssetClass = ''us_equity'',
         Qty = qty, AvgEntryPrice = avgPrice, Side = ''long'', MarketValue = mv, CostBasis = cost,
         UnrealizedPL = fsub mv cost, UnrealizedPLPC = fdiv (fsub mv cost) cost, CurrentPrice = price,
         LastdayPrice = fmul price lastday, ChangeToday = Fin 0\<rparr>)"

definition arthurPortfolioID :: string where
  "arthurPortfolioID = ''018f3a9a-2222-7000-8000-000000000002''"

definition chloePortfolioID :: string where
  "chloePortfolioID = ''018f3a9a-2222-7000-8000-000000000003''"

definition arthurHoldings :: "(string \<times> float64 \<times> float64) list" where
  "arthurHoldings = [(''AAPL'', Fin 120, lit (17850 / 100)), (''NVDA'', Fin 85, lit (11020 / 100)),
     (''MSFT'', Fin 90, Fin 380), (''TSLA'', Fin 70, Fin 190)]"

definition chloeHoldings :: "(string \<times> float64 \<times> float64) list" where
  "chloeHoldings = [(''NVDA'', Fin 250, Fin 124), (''TSLA'', Fin 180, Fin 210)]"

definition SeedDefaultAccounts ::
    "string list \<Rightarrow> string list \<Rightarrow> time \<Rightarrow> time \<Rightarrow> string list \<Rightarrow> (string \<Rightarrow> string list) \<Rightarrow> (string, float64) gomap \<Rightarrow> Store \<Rightarrow> Store" where
  "SeedDefaultAccounts ids1 ids2 now1 now2 aord pord prices s =
     (let s1 = snd (CreateAccount ids1 now1 now1 (seed_account arthurPortfolioID ''OCI-COR-001'' (lit (3210025 / 100)) ''Arthur Pendelton'') s);
          s2 = fold (\<lambda>h. SetPosition arthurPortfolioID (seed_position prices (lit (985 / 1000)) h)) arthurHoldings s1;
          s3 = snd (CreateAccount ids2 now2 now2 (seed_account chloePortfolioID ''OCI-MOM-002'' (Fin 15400) ''Chloe Spark'') s2);
          s4 = fold (\<lambda>h. SetPosition chloePortfolioID (seed_position prices (lit (99 / 100)) h)) chloeHoldings s3
      in UpdateAccountValuations aord pord prices s4)"

section \<open>Valuation and invariants\<close>

definition held :: "Position \<Rightarrow> bool" where
  "held p \<longleftrightarrow> wf_f64 (Qty p) \<and> \<not> fle (Qty p) (Fin 0)"

definition book_ok :: "book \<Rightarrow> bool" where
  "book_ok b \<longleftrightarrow> (\<forall>k p. b k = Some p \<longrightarrow> held p)"

definition limit_respected :: "Order \<Rightarrow> bool" where
  "limit_respected ord \<longleftrightarrow> (OrdType ord = ''limit'' \<and> OrdStatus ord = ''filled'' \<longrightarrow>
     (\<exists>lp fp. LimitPrice ord = Some lp \<and> FilledAvgPrice ord = Some fp \<and> flt (Fin 0) fp
        \<and> (OrdSide ord = ''buy'' \<longrightarrow> fle fp lp) \<and> (OrdSide ord = ''sell'' \<longrightarrow> fle lp fp)))"

definition order_ok :: "Order \<Rightarrow> bool" where
  "order_ok ord \<longleftrightarrow> wf_f64 (OrdQty ord) \<and> \<not> fle (OrdQty ord) (Fin 0)
     \<and> (OrdSide ord = ''buy'' \<or> OrdSide ord = ''sell'') \<and> limit_respected ord"

definition cash_ok :: "Account \<Rightarrow> bool" where
  "cash_ok acc \<longleftrightarrow> \<not> flt (Cash acc) (Fin 0)"

definition store_inv :: "Store \<Rightarrow> bool" where
  "store_inv s \<longleftrightarrow>
     (\<forall>i acc. accounts s i = Some acc \<longrightarrow> cash_ok acc \<and> positions s i \<noteq> None)
   \<and> (\<forall>i b. positions s i = Some b \<longrightarrow> book_ok b)
   \<and> (\<forall>a ord. oheap s a = Some ord \<longrightarrow> order_ok ord \<and> a < next_addr s)
   \<and> (\<forall>i a. orders s i = Some a \<longrightarrow> (\<exists>ord. oheap s a = Some ord \<and> OrderID ord = i))
   \<and> (\<forall>i a. a \<in> set (accountOrders s i) \<longrightarrow> oheap s a \<noteq> None \<and> accounts s i \<noteq> None)"

definition valued :: "string list \<Rightarrow> string \<Rightarrow> Store \<Rightarrow> bool" where
  "valued ord i s \<longleftrightarrow> (case accounts s i of
     None \<Rightarrow> True
   | Some acc \<Rightarrow> list_all (\<lambda>p. MarketValue p = fmul (Qty p) (CurrentPrice p)) (ListPositions ord i s)
       \<and> LongMarketValue acc = foldl fadd (Fin 0) (map MarketValue (ListPositions ord i s))
       \<and> Equity acc = fadd (Cash acc) (LongMarketValue acc)
       \<and> PortfolioValue acc = Equity acc \<and> BuyingPower acc = fmul (Cash acc) (Fin 2))"

lemma revalue_fields [simp]:
  "Qty (revalue p) = Qty p" "CurrentPrice (revalue p) = CurrentPrice p"
  "MarketValue (revalue p) = fmul (Qty p) (CurrentPrice p)" "CostBasis (revalue p) = CostBasis p"
  by (simp_all add: revalue_def Let_def)

lemma value_account_fields [simp]:
  "Cash (value_account l acc) = Cash acc" "LongMarketValue (value_account l acc) = l"
  "Equity (value_account l acc) = fadd (Cash acc) l"
  "PortfolioValue (value_account l acc) = fadd (Cash acc) l"
  "BuyingPower (value_account l acc) = fmul (Cash acc) (Fin 2)"
  by (simp_all add: value_account_def Let_def)

lemma held_revalue [simp]: "held (revalue p) = held p"
  by (simp add: held_def)

lemma cash_ok_value_account [simp]: "cash_ok (value_account l acc) = cash_ok acc"
  by (simp add: cash_ok_def)

lemma book_ok_upd [intro]: "book_ok b \<Longrightarrow> held p \<Longrightarrow> book_ok (b(k \<mapsto> p))"
  by (simp add: book_ok_def)

lemma book_ok_del [intro]: "book_ok b \<Longrightarrow> book_ok (b(k := None))"
  by (simp add: book_ok_def)

lemma book_okD: "book_ok b \<Longrightarrow> b k = Some p \<Longrightarrow> held p"
  by (simp add: book_ok_def)

lemma revalue_all_book_ok: "book_ok b \<Longrightarrow> book_ok (fst (revalue_all ks (b, l)))"
proof (induction ks arbitrary: b l)
  case (Cons k ks)
  then show ?case by (cases "b k") (auto intro!: Cons.IH book_ok_upd dest: book_okD)
qed simp

lemma revalue_all_eq:
  assumes "distinct ks"
  shows "revalue_all ks (b, l) =
    ((\<lambda>k. if k \<in> set ks then map_option revalue (b k) else b k),
     foldl fadd l (map MarketValue (map revalue (map_vals ks b))))"
  using assms
proof (induction ks arbitrary: b l)
  case (Cons k ks)
  show ?case
  proof (cases "b k")
    case (Some p)
    with Cons show ?thesis by (simp add: fun_eq_iff)
  qed (use Cons in \<open>auto simp: fun_eq_iff\<close>)
qed simp

lemma recalculate_frame [simp]:
  "oheap (recalculateAccountValuation ord i s) = oheap s"
  "orders (recalculateAccountValuation ord i s) = orders s"
  "accountOrders (recalculateAccountValuation ord i s) = accountOrders s"
  "next_addr (recalculateAccountValuation ord i s) = next_addr s"
  "subscribers (recalculateAccountValuation ord i s) = subscribers s"
  "autoReplenish (recalculateAccountValuation ord i s) = autoReplenish s"
  by (auto simp: recalculateAccountValuation_def set_book_def split: prod.splits)

lemma book_of_eq: "positions s i = Some b \<Longrightarrow> book_of s i = b"
  by (simp add: book_of_def)

lemma book_of_written: "book_of (s\<lparr>positions := (positions s)(i \<mapsto> book_of s i)\<rparr>) = book_of s"
proof
  fix j show "book_of (s\<lparr>positions := (positions s)(i \<mapsto> book_of s i)\<rparr>) j = book_of s j"
    by (cases "j = i") (simp_all add: book_of_def)
qed

lemma recalculate_eq:
  assumes "positions s i = Some b" and "accounts s i = Some acc"
  shows "accounts (recalculateAccountValuation ord i s)
           = (accounts s)(i \<mapsto> value_account (snd (revalue_all ord (b, Fin 0))) acc)"
    and "positions (recalculateAccountValuation ord i s)
           = (positions s)(i \<mapsto> fst (revalue_all ord (b, Fin 0)))"
  using assms by (simp_all add: recalculateAccountValuation_def set_book_def book_of_eq split: prod.splits)

lemma recalculate_other:
  assumes "accounts s i = None"
  shows "accounts (recalculateAccountValuation ord i s) = accounts s"
  using assms by (simp add: recalculateAccountValuation_def set_book_def split: prod.splits)

lemma valued_cong: "accounts s' = accounts s \<Longrightarrow> positions s' = positions s \<Longrightarrow> valued ord i s' = valued ord i s"
  by (simp add: valued_def ListPositions_def split: option.split)

lemma dom_revalue_all [simp]: "dom (fst (revalue_all ks (m, l))) = dom m"
  by (induction ks arbitrary: m l) (auto split: option.splits)

lemma valued_recalculate:
  assumes o: "iter_order ord b" and p: "positions s i = Some b"
  shows "valued ord i (recalculateAccountValuation ord i s)"
proof (cases "accounts s i")
  case None
  then show ?thesis by (simp add: valued_def recalculate_other)
next
  case (Some acc)
  let ?b = "\<lambda>k. if k \<in> set ord then map_option revalue (b k) else b k"
  have vals: "map_vals ord ?b = map revalue (map_vals ord b)"
    by (subst map_vals_map [symmetric], rule map_vals_cong) simp
  show ?thesis
    using iter_orderD(1) [OF o] p Some
    by (simp add: valued_def recalculate_eq revalue_all_eq ListPositions_def vals list_all_iff)
qed

lemma store_invD:
  assumes "store_inv s"
  shows "accounts s i = Some acc \<Longrightarrow> cash_ok acc" and "accounts s i = Some acc \<Longrightarrow> positions s i \<noteq> None"
    and "positions s i = Some b \<Longrightarrow> book_ok b"
    and "oheap s a = Some ord \<Longrightarrow> order_ok ord" and "oheap s a = Some ord \<Longrightarrow> a < next_addr s"
    and "orders s i = Some a \<Longrightarrow> \<exists>ord. oheap s a = Some ord \<and> OrderID ord = i"
    and "a \<in> set (accountOrders s i) \<Longrightarrow> oheap s a \<noteq> None"
    and "a \<in> set (accountOrders s i) \<Longrightarrow> accounts s i \<noteq> None"
  using assms by (simp_all add: store_inv_def)

lemma book_ok_book_of: "store_inv s \<Longrightarrow> book_ok (book_of s i)"
  by (auto simp: book_of_def book_ok_def [of Map.empty] split: option.splits dest: store_invD)

lemma store_inv_set_account [wf_intros]:
  assumes "store_inv s" and "cash_ok acc" and "book_ok b"
  shows "store_inv (s\<lparr>accounts := (accounts s)(i \<mapsto> acc), positions := (positions s)(i \<mapsto> b)\<rparr>)"
  using assms by (simp add: store_inv_def) blast

lemma store_inv_set_order [wf_intros]:
  assumes "store_inv s" and "oheap s a = Some ord" and "order_ok ord'" and "OrderID ord' = OrderID ord"
  shows "store_inv (s\<lparr>oheap := (oheap s)(a \<mapsto> ord')\<rparr>)"
  using assms by (simp add: store_inv_def) (metis option.inject)

lemma store_inv_add_order [wf_intros]:
  assumes inv: "store_inv s" and "order_ok ord" and "accounts s i \<noteq> None"
  shows "store_inv (s\<lparr>oheap := (oheap s)(next_addr s \<mapsto> ord), next_addr := Suc (next_addr s),
           orders := (orders s)(OrderID ord \<mapsto> next_addr s),
           accountOrders := (accountOrders s)(i := next_addr s # accountOrders s i)\<rparr>)"
proof -
  have "oheap s (next_addr s) = None" using store_invD(5) [OF inv] by (metis less_irrefl not_None_eq)
  moreover have "a \<noteq> next_addr s" if "orders s j = Some a" for j a
    using that store_invD(5,6) [OF inv] by blast
  ultimately show ?thesis
    using assms by (simp add: store_inv_def less_Suc_eq)
qed

lemma store_inv_set_book [wf_intros]:
  assumes "store_inv s" and "book_ok b"
  shows "store_inv (s\<lparr>positions := (positions s)(i \<mapsto> b)\<rparr>)"
  using assms by (simp add: store_inv_def) blast

lemma store_inv_recalculate [wf_intros]:
  assumes inv: "store_inv s"
  shows "store_inv (recalculateAccountValuation ord i s)"
proof (cases "positions s i")
  case None
  with store_invD(2) [OF inv] have "accounts s i = None" by (metis not_None_eq)
  with None inv show ?thesis
    by (simp add: recalculateAccountValuation_def set_book_def split: prod.splits)
next
  case (Some b)
  then have b: "book_ok (fst (revalue_all ord (b, l)))" for l
    using revalue_all_book_ok store_invD(3) [OF inv] by blast
  show ?thesis
  proof (cases "accounts s i")
    case None
    with Some b inv show ?thesis
      by (auto simp: recalculateAccountValuation_def set_book_def book_of_eq intro!: store_inv_set_book
          split: prod.splits) (metis fst_conv)
  next
    case (Some acc)
    have "recalculateAccountValuation ord i s = s\<lparr>
        accounts := (accounts s)(i \<mapsto> value_account (snd (revalue_all ord (b, Fin 0))) acc),
        positions := (positions s)(i \<mapsto> fst (revalue_all ord (b, Fin 0)))\<rparr>"
      using \<open>positions s i = Some b\<close> Some by (simp add: recalculate_eq Store.equality)
    with b Some store_invD(1) [OF inv Some] inv show ?thesis by (auto intro: store_inv_set_account)
  qed
qed

lemma replenish_covers:
  assumes "\<not> flt c (Fin 0)" and "flt c cost" and "\<not> flt (Fin (2 ^ 50)) cost"
  shows "\<not> flt (fsub (fadd c (fadd (fsub cost c) (Fin 50000))) cost) (Fin 0)"
proof -
  from assms obtain x y where xy: "c = Fin x" "cost = Fin y" "0 \<le> x" "x < y" "y \<le> 2 ^ 50"
    by (cases c; cases cost) auto
  have d: "0 \<le> y - x" "y - x \<le> 2 ^ 52" using xy by auto
  obtain u where u: "rnd (y - x) = Fin u" "y - x - 1 \<le> u" "u \<le> y - x + 1"
    using rnd_within_1 [OF d] by metis
  have d: "0 \<le> u + 50000" "u + 50000 \<le> 2 ^ 52" using xy u by auto
  obtain v where v: "rnd (u + 50000) = Fin v" "u + 50000 - 1 \<le> v" "v \<le> u + 50000 + 1"
    using rnd_within_1 [OF d] by metis
  have d: "0 \<le> x + v" "x + v \<le> 2 ^ 52" using xy u v by auto
  obtain w where w: "rnd (x + v) = Fin w" "x + v - 1 \<le> w"
    using rnd_within_1 [OF d] by metis
  have "y \<le> w" using u v w by linarith
  with xy u v w show ?thesis by (simp add: fsub_def not_flt_rnd)
qed

lemma held_new_position [simp]:
  "held (new_position ord price cost lastday) \<longleftrightarrow> wf_f64 (OrdQty ord) \<and> \<not> fle (OrdQty ord) (Fin 0)"
  by (simp add: held_def new_position_def)

lemma held_add_to_position:
  "held p \<Longrightarrow> \<not> fle (OrdQty ord) (Fin 0) \<Longrightarrow> held (add_to_position ord price cost p)"
  by (simp add: held_def add_to_position_def Let_def fadd_pos)

lemma tiny_pos: "fle (Fin 0) (lit (1 / 100000))"
  by (simp add: lit_def rnd_nonneg)

lemma held_remaining: "\<not> fle q (lit (1 / 100000)) \<Longrightarrow> wf_f64 q \<Longrightarrow> Qty p = q \<Longrightarrow> held p"
  using fle_trans [OF _ tiny_pos] by (auto simp: held_def)

definition buy_price :: "Quote \<Rightarrow> float64" where
  "buy_price quote = (if fle (AskPrice quote) (Fin 0) then BidPrice quote else AskPrice quote)"

definition sell_price :: "Quote \<Rightarrow> float64" where
  "sell_price quote = (if fle (BidPrice quote) (Fin 0) then AskPrice quote else BidPrice quote)"

lemma executeMarketBuy_ok:
  assumes e: "executeMarketBuy auto acc b ord quote now = Inr (acc', b', ord')"
    and ok: "cash_ok acc" "book_ok b" "wf_f64 (OrdQty ord)" "\<not> fle (OrdQty ord) (Fin 0)"
    and auto: "auto \<Longrightarrow> \<not> flt (Fin (2 ^ 50)) (fmul (OrdQty ord) (buy_price quote))"
  shows "cash_ok acc'" and "book_ok b'" and "ord' = fill (buy_price quote) now ord"
    and "\<not> fle (buy_price quote) (Fin 0)"
proof -
  let ?p = "buy_price quote" and ?c = "fmul (OrdQty ord) (buy_price quote)"
  show p: "\<not> fle ?p (Fin 0)" and "ord' = fill ?p now ord"
    using e by (auto simp: executeMarketBuy_def buy_price_def Let_def split: if_splits)
  have c: "\<not> flt ?c (Fin 0)" using ok p by (intro fmul_not_neg not_fle_not_neg)
  show "cash_ok acc'"
  proof (cases "flt (Cash acc) ?c")
    case True
    with e have "auto" "Cash acc' = fsub (fadd (Cash acc) (fadd (fsub ?c (Cash acc)) (Fin 50000))) ?c"
      by (auto simp: executeMarketBuy_def buy_price_def Let_def split: if_splits)
    with True ok auto show ?thesis by (simp add: cash_ok_def replenish_covers)
  next
    case False
    with e have "Cash acc' = fsub (Cash acc) ?c"
      by (auto simp: executeMarketBuy_def buy_price_def Let_def split: if_splits)
    with False show ?thesis by (simp add: cash_ok_def fsub_not_neg)
  qed
  have "\<exists>p. b' = b(OrdSymbol ord \<mapsto> p) \<and> held p"
    using e ok
    by (cases "b (OrdSymbol ord)")
      (auto simp: executeMarketBuy_def Let_def held_add_to_position book_okD split: if_splits)
  with ok show "book_ok b'" by blast
qed

lemma executeMarketSell_ok:
  assumes e: "executeMarketSell acc b ord quote now = Inr (acc', b', ord')"
    and ok: "cash_ok acc" "book_ok b" "\<not> fle (OrdQty ord) (Fin 0)"
  shows "cash_ok acc'" and "book_ok b'" and "ord' = fill (sell_price quote) now ord"
    and "\<not> fle (sell_price quote) (Fin 0)"
proof -
  let ?p = "sell_price quote"
  show p: "\<not> fle ?p (Fin 0)" and "ord' = fill ?p now ord"
    using e by (auto simp: executeMarketSell_def sell_price_def Let_def split: if_splits option.splits)
  have "Cash acc' = fadd (Cash acc) (fmul (OrdQty ord) ?p)"
    using e by (auto simp: executeMarketSell_def sell_price_def Let_def split: if_splits option.splits)
  with ok p show "cash_ok acc'"
    by (simp add: cash_ok_def fadd_not_neg fmul_not_neg not_fle_not_neg)
  show "book_ok b'"
    using e ok(2)
    by (auto simp: executeMarketSell_def Let_def intro!: book_ok_upd book_ok_del held_remaining
        split: if_splits option.splits)
qed

lemma fill_fields [simp]:
  "OrdQty (fill p now ord) = OrdQty ord" "OrdSide (fill p now ord) = OrdSide ord"
  "OrdType (fill p now ord) = OrdType ord" "LimitPrice (fill p now ord) = LimitPrice ord"
  "OrderID (fill p now ord) = OrderID ord" "OrdStatus (fill p now ord) = ''filled''"
  "FilledAvgPrice (fill p now ord) = Some p" "OrdSymbol (fill p now ord) = OrdSymbol ord"
  by (simp_all add: fill_def)

lemma parseOrderRequest_ok:
  assumes "parseOrderRequest req now = Inr ord" and "wf_f64 (ReqQty req)"
  shows "order_ok ord" and "OrdStatus ord = ''new''" and "OrdQty ord = ReqQty req"
    and "OrderID ord = ''ord-'' @ dec_int now" and "OrdSymbol ord = ReqSymbol req" and "OrdSide ord = ReqSide req"
  using assms by (auto simp: parseOrderRequest_def order_ok_def limit_respected_def split: if_splits)

section \<open>Order placement\<close>

lemma CreateOrder_failed:
  assumes "CreateOrder pord now i req quote s = (Inl e, s')"
  shows "s' = s \<or> s' = s\<lparr>positions := (positions s)(i \<mapsto> book_of s i)\<rparr>"
  using assms by (auto simp: CreateOrder_def Let_def split: option.splits sum.splits prod.splits if_splits)

lemma CreateOrder_placed:
  assumes "CreateOrder pord now i req quote s = (Inr (ord, upd), s')"
  obtains acc ord0 acc' b' where "accounts s i = Some acc" "parseOrderRequest req now = Inr ord0"
    "upd = trade_update ord now"
    "OrdType ord0 = ''market'' \<and> executeMarketOrder (autoReplenish s) acc (book_of s i) ord0 quote now = Inr (acc', b', ord)
     \<or> OrdType ord0 \<noteq> ''market'' \<and> acc' = acc \<and> b' = book_of s i
         \<and> ord = (if OrdType ord0 = ''limit'' then ord0\<lparr>OrdStatus := ''accepted''\<rparr> else ord0)"
    "s' = (recalculateAccountValuation pord i
             (s\<lparr>accounts := (accounts s)(i \<mapsto> acc'), positions := (positions s)(i \<mapsto> b')\<rparr>))
          \<lparr>oheap := (oheap s)(next_addr s \<mapsto> ord), next_addr := Suc (next_addr s),
           orders := (orders s)(OrderID ord \<mapsto> next_addr s),
           accountOrders := (accountOrders s)(i := next_addr s # accountOrders s i)\<rparr>"
proof -
  from assms obtain acc ord0 where a: "accounts s i = Some acc" and o: "parseOrderRequest req now = Inr ord0"
    by (auto simp: CreateOrder_def split: option.splits sum.splits)
  from assms a o show ?thesis
    by (cases "OrdType ord0 = ''market''")
      (auto simp: CreateOrder_def Let_def a o intro!: that split: sum.splits if_splits)
qed

lemma executeMarketOrder_ok:
  assumes e: "executeMarketOrder auto acc b ord quote now = Inr (acc', b', ord')"
    and ok: "cash_ok acc" "book_ok b" "order_ok ord" "OrdType ord = ''market''"
    and auto: "auto \<Longrightarrow> \<not> flt (Fin (2 ^ 50)) (fmul (OrdQty ord) (buy_price quote))"
  shows "cash_ok acc' \<and> book_ok b' \<and> order_ok ord' \<and> OrderID ord' = OrderID ord"
proof -
  have q: "wf_f64 (OrdQty ord)" "\<not> fle (OrdQty ord) (Fin 0)" "OrdSide ord = ''buy'' \<or> OrdSide ord = ''sell''"
    using ok by (auto simp: order_ok_def)
  have f: "order_ok (fill p now ord)" for p
    using ok by (simp add: order_ok_def limit_respected_def)
  show ?thesis
  proof (cases "OrdSide ord = ''buy''")
    case True
    with e have "executeMarketBuy auto acc b ord quote now = Inr (acc', b', ord')"
      by (simp add: executeMarketOrder_def)
    from executeMarketBuy_ok [OF this ok(1,2) q(1,2) auto] f show ?thesis by auto
  next
    case False
    with e q have "executeMarketSell acc b ord quote now = Inr (acc', b', ord')"
      by (simp add: executeMarketOrder_def)
    from executeMarketSell_ok [OF this ok(1,2) q(2)] f show ?thesis by auto
  qed
qed

lemma store_inv_CreateOrder [wf_intros]:
  assumes inv: "store_inv s" and wf: "wf_f64 (ReqQty req)"
    and auto: "autoReplenish s \<Longrightarrow> \<not> flt (Fin (2 ^ 50)) (fmul (ReqQty req) (buy_price quote))"
  shows "store_inv (snd (CreateOrder pord now i req quote s))"
proof (cases "CreateOrder pord now i req quote s")
  case (Pair r s')
  show ?thesis
  proof (cases r)
    case (Inl e)
    with Pair CreateOrder_failed [of pord now i req quote s e s'] inv show ?thesis
      by (auto intro!: store_inv_set_book book_ok_book_of)
  next
    case (Inr p)
    then obtain ord upd where p: "r = Inr (ord, upd)" by (cases p) auto
    from Pair p have "CreateOrder pord now i req quote s = (Inr (ord, upd), s')" by simp
    then show ?thesis
    proof (cases rule: CreateOrder_placed)
      case (1 acc ord0 acc' b')
      note ord0 = parseOrderRequest_ok [OF 1(2) wf]
      have a: "cash_ok acc" "book_ok (book_of s i)" using 1(1) inv by (auto dest: store_invD book_ok_book_of)
      have "order_ok (ord0\<lparr>OrdStatus := ''accepted''\<rparr>)"
        using ord0(1) by (simp add: order_ok_def limit_respected_def)
      with 1(4) executeMarketOrder_ok [OF _ a ord0(1), of "autoReplenish s" quote now acc' b' ord] auto ord0 a
      have "cash_ok acc' \<and> book_ok b' \<and> order_ok ord" by (auto simp del: One_nat_def)
      then have "store_inv (recalculateAccountValuation pord i
          (s\<lparr>accounts := (accounts s)(i \<mapsto> acc'), positions := (positions s)(i \<mapsto> b')\<rparr>))" (is "store_inv ?r")
        using inv by (intro store_inv_recalculate store_inv_set_account) auto
      from store_inv_add_order [OF this, of ord i] \<open>_ \<and> _ \<and> order_ok ord\<close>
      have "accounts ?r i \<noteq> None \<Longrightarrow> store_inv s'" by (simp add: 1(5))
      moreover have "accounts ?r i \<noteq> None" by (simp add: recalculate_eq)
      ultimately show ?thesis using Pair by simp
    qed
  qed
qed

section \<open>Limit orders\<close>

definition fillable :: "float64 \<Rightarrow> Order \<Rightarrow> bool" where
  "fillable price ord \<longleftrightarrow> flt (Fin 0) price \<and> (\<exists>lp. LimitPrice ord = Some lp
     \<and> (OrdSide ord = ''buy'' \<longrightarrow> fle price lp) \<and> (OrdSide ord = ''sell'' \<longrightarrow> fle lp price))"

lemma fillable_fill [simp]: "fillable price (fill p now ord) = fillable price ord"
  by (simp add: fillable_def)

lemma fill_idem [simp]: "fill p now (fill p now ord) = fill p now ord"
  by (simp add: fill_def)

lemma limit_fill_price_fillable: "limit_fill_price ord quote = Some price \<Longrightarrow> fillable price ord"
  by (auto simp: limit_fill_price_def fillable_def split: option.splits if_splits)

lemma flt_not_fle: "flt a b \<Longrightarrow> \<not> fle b a"
  by (cases a; cases b) auto

lemma fle_not_flt: "fle a b \<Longrightarrow> \<not> flt b a"
  by (cases a; cases b) auto

lemma limit_buy_ok:
  assumes "limit_buy price ord acc b = Some (acc', b')"
    and "book_ok b" "wf_f64 (OrdQty ord)" "\<not> fle (OrdQty ord) (Fin 0)"
  shows "cash_ok acc' \<and> book_ok b'"
  using assms
  by (auto simp: limit_buy_def Let_def cash_ok_def fsub_not_neg fle_not_flt intro!: book_ok_upd held_add_to_position
      split: if_splits option.splits dest: book_okD)

lemma limit_sell_ok:
  assumes "limit_sell price ord acc b = Some (acc', b')"
    and "cash_ok acc" "book_ok b" "\<not> fle (OrdQty ord) (Fin 0)" "flt (Fin 0) price"
  shows "cash_ok acc' \<and> book_ok b'"
  using assms
  by (auto simp: limit_sell_def Let_def cash_ok_def fadd_not_neg fmul_not_neg not_fle_not_neg flt_not_fle
      intro!: book_ok_upd book_ok_del held_remaining split: if_splits option.splits)

lemma fill_limit_ok:
  assumes inv: "store_inv s" and a: "oheap s a = Some ord" and i: "accounts s i \<noteq> None" and f: "fillable price ord"
  shows "\<exists>s'. fill_limit pord now a price i s = Some s' \<and> store_inv s'
    \<and> (oheap s' = oheap s \<or> oheap s' = (oheap s)(a \<mapsto> fill price now ord))"
proof -
  from i obtain acc where acc: "accounts s i = Some acc" by blast
  define res where "res = (if OrdSide ord = ''buy'' then limit_buy price ord acc (book_of s i)
    else if OrdSide ord = ''sell'' then limit_sell price ord acc (book_of s i) else None)"
  have ord: "order_ok ord" using inv a by (rule store_invD)
  show ?thesis
  proof (cases res)
    case None
    with inv a acc show ?thesis by (simp add: fill_limit_def res_def Let_def)
  next
    case (Some r)
    then obtain acc' b' where r: "res = Some (acc', b')" by (cases r) auto
    have "cash_ok acc' \<and> book_ok b'"
      using r ord f book_ok_book_of [OF inv] store_invD(1) [OF inv acc]
      by (auto simp: res_def order_ok_def fillable_def split: if_splits dest: limit_buy_ok limit_sell_ok)
    then have "store_inv (s\<lparr>accounts := (accounts s)(i \<mapsto> acc'), positions := (positions s)(i \<mapsto> b')\<rparr>)"
      using inv by (blast intro: store_inv_set_account)
    moreover have "order_ok (fill price now ord)"
      using ord f by (auto simp: order_ok_def limit_respected_def fillable_def)
    ultimately have "store_inv (recalculateAccountValuation (pord i b') i
        (s\<lparr>accounts := (accounts s)(i \<mapsto> acc'), positions := (positions s)(i \<mapsto> b'),
           oheap := (oheap s)(a \<mapsto> fill price now ord)\<rparr>))"
      using store_inv_set_order [where ord = ord and ord' = "fill price now ord"] a
      by (fastforce intro: store_inv_recalculate)
    moreover have "positions s i \<noteq> None" using inv acc by (rule store_invD)
    ultimately show ?thesis
      using a acc r by (simp add: fill_limit_def res_def [symmetric])
  qed
qed

lemma fill_in_accounts_ok:
  assumes "store_inv s" and "oheap s a = Some ord \<or> oheap s a = Some (fill price now ord)" and "fillable price ord"
  shows "\<exists>s'. fill_in_accounts pord now a orderID price is s = Some s' \<and> store_inv s'
    \<and> (oheap s' = oheap s \<or> oheap s' = (oheap s)(a \<mapsto> fill price now ord))"
  using assms
proof (induction "is" arbitrary: s)
  case (Cons i "is")
  show ?case
  proof (cases "holds_order s orderID i")
    case True
    then have "accounts s i \<noteq> None"
      using store_invD(8) [OF Cons.prems(1)] by (force simp: holds_order_def in_map_vals)
    then obtain s1 where s1: "fill_limit pord now a price i s = Some s1" "store_inv s1"
        "oheap s1 = oheap s \<or> oheap s1 = (oheap s)(a \<mapsto> fill price now ord)"
      using fill_limit_ok [OF Cons.prems(1), of a _ i price pord now] Cons.prems(2,3) by fastforce
    with Cons.prems have "oheap s1 a = Some ord \<or> oheap s1 a = Some (fill price now ord)" by auto
    from Cons.IH [OF s1(2) this Cons.prems(3)] obtain s'
      where s': "fill_in_accounts pord now a orderID price is s1 = Some s'" "store_inv s'"
        "oheap s' = oheap s1 \<or> oheap s' = (oheap s1)(a \<mapsto> fill price now ord)" by blast
    from s1(3) s'(3) have "oheap s' = oheap s \<or> oheap s' = (oheap s)(a \<mapsto> fill price now ord)"
      by (metis fun_upd_upd)
    moreover have "fill_in_accounts pord now a orderID price (i # is) s = Some s'"
      using s1(1) s'(1) True by simp
    ultimately show ?thesis using s'(2) by blast
  qed (use Cons in simp)
qed auto

text \<open>An order that is filled or cancelled is never changed again, and no order is forgotten.\<close>

definition closed_order :: "Order \<Rightarrow> bool" where
  "closed_order ord \<longleftrightarrow> OrdStatus ord = ''filled'' \<or> OrdStatus ord = ''canceled''"

definition evolves :: "Store \<Rightarrow> Store \<Rightarrow> bool" where
  "evolves s s' \<longleftrightarrow> (\<forall>a ord. oheap s a = Some ord \<longrightarrow>
     (\<exists>ord'. oheap s' a = Some ord' \<and> OrderID ord' = OrderID ord \<and> OrdQty ord' = OrdQty ord
        \<and> LimitPrice ord' = LimitPrice ord \<and> (closed_order ord \<longrightarrow> ord' = ord)))"

lemma evolves_refl [simp]: "evolves s s"
  by (simp add: evolves_def)

lemma evolves_trans:
  assumes st: "evolves s t" and tu: "evolves t u"
  shows "evolves s u"
  unfolding evolves_def
proof (intro allI impI)
  fix a ord assume "oheap s a = Some ord"
  with st obtain ord1 where 1: "oheap t a = Some ord1" "OrderID ord1 = OrderID ord" "OrdQty ord1 = OrdQty ord"
      "LimitPrice ord1 = LimitPrice ord" "closed_order ord \<longrightarrow> ord1 = ord"
    unfolding evolves_def by blast
  with tu obtain ord2 where "oheap u a = Some ord2" "OrderID ord2 = OrderID ord1" "OrdQty ord2 = OrdQty ord1"
      "LimitPrice ord2 = LimitPrice ord1" "closed_order ord1 \<longrightarrow> ord2 = ord1"
    unfolding evolves_def by blast
  with 1 show "\<exists>ord'. oheap u a = Some ord' \<and> OrderID ord' = OrderID ord \<and> OrdQty ord' = OrdQty ord
      \<and> LimitPrice ord' = LimitPrice ord \<and> (closed_order ord \<longrightarrow> ord' = ord)" by auto
qed

lemma evolves_same: "oheap s' = oheap s \<Longrightarrow> evolves s s'"
  by (simp add: evolves_def)

lemma evolves_fill:
  "oheap s a = Some ord \<Longrightarrow> \<not> closed_order ord \<Longrightarrow> oheap s' = (oheap s)(a \<mapsto> fill price now ord) \<Longrightarrow> evolves s s'"
  by (simp add: evolves_def)

lemma check_order_ok:
  assumes inv: "store_inv s"
  shows "\<exists>s'. check_order pord now aord quotes i s = Some s' \<and> store_inv s' \<and> evolves s s'"
proof (cases "check_order pord now aord quotes i s = Some s")
  case True
  with inv show ?thesis by simp
next
  case False
  then obtain a ord quote price where c: "oheap s a = Some ord" "OrdStatus ord = ''accepted''"
      "limit_fill_price ord quote = Some price"
      "check_order pord now aord quotes i s = fill_in_accounts pord now a (OrderID ord) price aord s"
    by (auto simp: check_order_def bind_eq_Some_conv split: option.splits if_splits)
  from fill_in_accounts_ok [OF inv _ limit_fill_price_fillable [OF c(3)]] c(1,4)
  obtain s' where "check_order pord now aord quotes i s = Some s'" "store_inv s'"
      "oheap s' = oheap s \<or> oheap s' = (oheap s)(a \<mapsto> fill price now ord)" by metis
  moreover have "\<not> closed_order ord" using c(2) by (simp add: closed_order_def)
  ultimately show ?thesis using c(1) evolves_fill evolves_same by metis
qed

lemma CheckLimitOrders_ok:
  assumes "store_inv s"
  shows "\<exists>s'. CheckLimitOrders pord now oord aord quotes s = Some s' \<and> store_inv s' \<and> evolves s s'"
  unfolding CheckLimitOrders_def using assms
proof (induction oord arbitrary: s)
  case (Cons i "is")
  from check_order_ok [OF Cons.prems] obtain s1 where
    s1: "check_order pord now aord quotes i s = Some s1" "store_inv s1" "evolves s s1" by blast
  from Cons.IH [OF s1(2)] s1 evolves_trans show ?case by fastforce
qed simp

section \<open>Runs of the ledger\<close>

lemma reprice_book_ok: "book_ok b \<Longrightarrow> book_ok (reprice_book prices b)"
  by (auto simp: book_ok_def reprice_book_def reprice_def held_def Let_def split: option.splits)

lemma update_valuations_ok:
  "store_inv s \<Longrightarrow> store_inv (update_valuations pord prices is s)
     \<and> oheap (update_valuations pord prices is s) = oheap s"
proof (induction pord prices "is" s rule: update_valuations.induct)
  case (2 pord prices i "is" s)
  show ?case
  proof (cases "accounts s i")
    case (Some acc)
    then have "positions s i \<noteq> None" using 2(3) by (auto dest: store_invD)
    then have "store_inv (recalculateAccountValuation (pord i) i (set_book i (reprice_book prices (book_of s i)) s))"
      using 2(3) by (simp add: set_book_def store_inv_recalculate store_inv_set_book reprice_book_ok book_ok_book_of)
    with 2(2) [OF Some] Some show ?thesis by (simp add: set_book_def)
  qed (use 2 in simp)
qed simp

inductive broker_step :: "Store \<Rightarrow> Store \<Rightarrow> bool" where
  auto: "broker_step s (SetAutoReplenish e s)"
| replenish: "\<not> flt amount (Fin 0) \<Longrightarrow> broker_step s (snd (ReplenishCash ord i amount s))"
| account: "\<not> flt (Cash acc) (Fin 0) \<Longrightarrow> broker_step s (snd (CreateAccount ids t now acc s))"
| position: "held pos \<Longrightarrow> broker_step s (SetPosition i pos s)"
| order: "wf_f64 (ReqQty req) \<Longrightarrow>
    (autoReplenish s \<longrightarrow> \<not> flt (Fin (2 ^ 50)) (fmul (ReqQty req) (buy_price quote))) \<Longrightarrow>
    broker_step s (snd (CreateOrder pord now i req quote s))"
| cancel: "broker_step s (snd (CancelOrder now i orderID s))"
| prices: "broker_step s (UpdateAccountValuations aord pord' prices s)"
| limits: "CheckLimitOrders pord'' now oord aord quotes s = Some s' \<Longrightarrow> broker_step s s'"
| subscribe: "broker_step s (SubscribeTradeUpdates ch s)"
| unsub: "broker_step s (unsubscribe ch s)"
| broadcast: "broker_step s (BroadcastTradeUpdate update s)"

lemma store_inv_cong:
  assumes "store_inv s" and "accounts s' = accounts s" "positions s' = positions s" "oheap s' = oheap s"
    "next_addr s' = next_addr s" "orders s' = orders s" "accountOrders s' = accountOrders s"
  shows "store_inv s'"
  using assms by (simp add: store_inv_def)

lemma CreateAccount_fst: "Cash (fst (CreateAccount ids t now acc s)) = Cash acc"
  by (simp add: CreateAccount_def Let_def)

lemma CreateAccount_snd:
  "snd (CreateAccount ids t now acc s) = (let acc' = fst (CreateAccount ids t now acc s); i = AcctID acc'
     in s\<lparr>accounts := (accounts s)(i \<mapsto> acc'), positions := (positions s)(i \<mapsto> book_of s i)\<rparr>)"
proof -
  have "(if positions s i = None then (positions s)(i \<mapsto> Map.empty) else positions s)
      = (positions s)(i \<mapsto> book_of s i)" for i
    by (cases "positions s i") (simp_all add: book_of_def fun_upd_idem)
  then show ?thesis by (simp add: CreateAccount_def Let_def)
qed

lemma CancelOrder_ok:
  assumes inv: "store_inv s"
  shows "store_inv (snd (CancelOrder now i orderID s)) \<and> evolves s (snd (CancelOrder now i orderID s))"
proof (cases "snd (CancelOrder now i orderID s) = s")
  case False
  then obtain a ord where c: "oheap s a = Some ord" "\<not> closed_order ord"
      "snd (CancelOrder now i orderID s)
        = s\<lparr>oheap := (oheap s)(a \<mapsto> ord\<lparr>UpdatedAt := now, CanceledAt := Some now, OrdStatus := ''canceled''\<rparr>)\<rparr>"
    by (auto simp: CancelOrder_def closed_order_def Let_def split: option.splits if_splits)
  have "order_ok ord" using inv c(1) by (rule store_invD)
  with c inv show ?thesis
    by (auto simp: evolves_def order_ok_def limit_respected_def intro!: store_inv_set_order)
qed (use inv in simp)

lemma evolves_CreateOrder:
  assumes inv: "store_inv s"
  shows "evolves s (snd (CreateOrder pord now i req quote s))"
proof (cases "CreateOrder pord now i req quote s")
  case (Pair r s')
  show ?thesis
  proof (cases r)
    case (Inl e)
    with Pair CreateOrder_failed [of pord now i req quote s e s'] show ?thesis by (auto intro: evolves_same)
  next
    case (Inr p)
    with Pair obtain ord upd where "CreateOrder pord now i req quote s = (Inr (ord, upd), s')" by (cases p) auto
    then have "oheap s' = (oheap s)(next_addr s \<mapsto> ord)" by (cases rule: CreateOrder_placed) simp
    with Pair show ?thesis using store_invD(5) [OF inv] by (fastforce simp: evolves_def)
  qed
qed

lemma broker_step_ok:
  assumes "broker_step s s'" and inv: "store_inv s"
  shows "store_inv s' \<and> evolves s s'"
  using assms(1)
proof cases
  case (replenish amount ord i)
  show ?thesis
  proof (cases "accounts s i")
    case (Some acc)
    obtain b where b: "positions s i = Some b" using Some inv by (auto dest: store_invD)
    have "store_inv (s\<lparr>accounts := (accounts s)(i \<mapsto> acc\<lparr>Cash := fadd (Cash acc) amount\<rparr>),
        positions := (positions s)(i \<mapsto> b)\<rparr>)"
      using inv replenish Some b
      by (intro store_inv_set_account) (auto simp: cash_ok_def fadd_not_neg dest: store_invD)
    then have "store_inv (s\<lparr>accounts := (accounts s)(i \<mapsto> acc\<lparr>Cash := fadd (Cash acc) amount\<rparr>)\<rparr>)"
      by (rule store_inv_cong) (use b in auto)
    with replenish Some show ?thesis
      by (auto simp: ReplenishCash_def intro: store_inv_recalculate evolves_same)
  qed (use replenish inv in \<open>simp add: ReplenishCash_def\<close>)
next
  case (account acc ids t now)
  have "cash_ok (fst (CreateAccount ids t now acc s))"
    using account by (simp add: cash_ok_def CreateAccount_fst)
  with account inv show ?thesis
    by (auto simp: CreateAccount_snd Let_def book_ok_book_of intro!: store_inv_set_account evolves_same)
next
  case (position pos i)
  with inv show ?thesis
    by (auto simp: SetPosition_def intro!: store_inv_set_book book_ok_upd book_ok_book_of evolves_same)
next
  case (order req quote pord now i)
  with inv show ?thesis by (simp add: store_inv_CreateOrder evolves_CreateOrder)
next
  case (cancel now i orderID)
  with inv show ?thesis by (simp add: CancelOrder_ok)
next
  case (prices aord pord prices)
  with inv show ?thesis by (simp add: UpdateAccountValuations_def update_valuations_ok evolves_same)
next
  case (limits pord now oord aord quotes)
  with CheckLimitOrders_ok [OF inv, of pord now oord aord quotes] show ?thesis by auto
qed (use inv in \<open>auto simp: SetAutoReplenish_def SubscribeTradeUpdates_def unsubscribe_def BroadcastTradeUpdate_def
       intro: store_inv_cong evolves_same\<close>)

interpretation broker: transition_system broker_step store_inv
  by unfold_locales (simp add: broker_step_ok)

lemma store_inv_NewStore: "store_inv NewStore"
  by (simp add: store_inv_def NewStore_def)

lemma market_buy_dom:
  assumes "CreateOrder pord now i req quote s = (Inr (ord, upd), s')"
    and "ReqType req = ''market''" and "ReqSide req = ''buy''"
  shows "\<exists>b. positions s' i = Some b \<and> dom b = insert (ReqSymbol req) (dom (book_of s i))"
  using assms(1)
proof (cases rule: CreateOrder_placed)
  case (1 acc ord0 acc' b')
  have o: "OrdType ord0 = ''market''" "OrdSide ord0 = ''buy''" "OrdSymbol ord0 = ReqSymbol req"
    using 1(2) assms(2,3) by (auto simp: parseOrderRequest_def split: if_splits)
  with 1(4) have "dom b' = insert (ReqSymbol req) (dom (book_of s i))"
    by (auto simp: executeMarketOrder_def executeMarketBuy_def Let_def split: if_splits)
  with 1(5) show ?thesis by (simp add: recalculate_eq)
qed

lemma list_orders_eq:
  "length result < limit \<Longrightarrow> list_orders status limit result ords
     = result @ take (limit - length result)
         (filter (\<lambda>ord. status = [] \<or> status = ''all'' \<or> OrdStatus ord = status) ords)"
proof (induction ords arbitrary: result)
  case (Cons ord ords)
  then show ?case
    by (auto simp: Let_def take_Cons' not_le Suc_diff_Suc dest!: le_antisym)
qed simp

lemma history_loop_eq:
  "HistEquity (history_loop now v n h) = HistEquity h @ map (history_value (BaseValue h) v) (rev [0..<n])"
  "HistTimestamp (history_loop now v n h)
     = HistTimestamp h @ map (\<lambda>i. (now - int i * 24 * hour) div second) (rev [0..<n])"
  "BaseValue (history_loop now v n h) = BaseValue h"
  by (induction n arbitrary: h) (simp_all add: Let_def)

lemma last_map_rev_upt: "last (map f (rev [0..<Suc n])) = f 0"
  by (simp add: last_map last_rev del: upt_Suc)

section \<open>A sample session\<close>

text \<open>An account with 10000 in cash buys three shares, at the market or with a limit of 110.\<close>

definition demo_account :: Account where
  "demo_account = (seed_account ''A'' ''N'' (Fin 10000) ''Ann'')\<lparr>AcctCreatedAt := 1,
     BuyingPower := Fin 20000, Equity := Fin 10000, PortfolioValue := Fin 10000\<rparr>"

definition demo_store :: Store where
  "demo_store = snd (CreateAccount [] 1 1 (seed_account ''A'' ''N'' (Fin 10000) ''Ann'') NewStore)"

definition demo_quote :: Quote where
  "demo_quote = \<lparr>BidPrice = Fin 99, BidSize = 100, AskPrice = Fin 101, AskSize = 100, QuoteTime = 0\<rparr>"

definition demo_request :: "float64 \<Rightarrow> string \<Rightarrow> float64 option \<Rightarrow> CreateOrderRequest" where
  "demo_request qty typ lp = \<lparr>ReqSymbol = ''AAPL'', ReqQty = qty, ReqSide = ''buy'', ReqType = typ,
     ReqTimeInForce = [], ReqLimitPrice = lp, ReqClientOrderID = ''c''\<rparr>"

definition demo_order :: Order where
  "demo_order = \<lparr>OrderID = ''ord-5'', ClientOrderID = ''c'', OrdCreatedAt = 5, UpdatedAt = 5, SubmittedAt = 5,
     FilledAt = None, CanceledAt = None, OrdAssetID = ''ast-AAPL'', OrdSymbol = ''AAPL'',
     OrdAssetClass = ''us_equity'', OrdQty = Fin 3, FilledQty = Fin 0, OrdType = ''limit'', OrdSide = ''buy'',
     TimeInForce = ''day'', LimitPrice = Some (Fin 110), FilledAvgPrice = None, OrdStatus = ''accepted''\<rparr>"

definition demo_placed :: Store where
  "demo_placed = snd (CreateOrder [] 5 ''A'' (demo_request (Fin 3) ''limit'' (Some (Fin 110))) demo_quote demo_store)"

definition demo_filled :: "Store option" where
  "demo_filled = CheckLimitOrders (\<lambda>_ _. [''AAPL'']) 9 [''ord-5''] [''A''] [''AAPL'' \<mapsto> demo_quote] demo_placed"

lemma demo_store_simps:
  "accounts demo_store = [''A'' \<mapsto> demo_account]"
  "positions demo_store = [''A'' \<mapsto> Map.empty]"
  "oheap demo_store = Map.empty" "next_addr demo_store = 0" "orders demo_store = Map.empty"
  "accountOrders demo_store = (\<lambda>_. [])" "autoReplenish demo_store = False"
  by (simp_all add: demo_store_def demo_account_def CreateAccount_def seed_account_def NewStore_def fsub_def Let_def)

lemma dec_int_5: "dec_int 5 = ''5''" by code_simp

lemma demo_placed_simps:
  "orders demo_placed = [''ord-5'' \<mapsto> 0]" "oheap demo_placed = [0 \<mapsto> demo_order]"
  "accountOrders demo_placed = (\<lambda>_. [])(''A'' := [0])" "positions demo_placed = [''A'' \<mapsto> Map.empty]"
  "accounts demo_placed = [''A'' \<mapsto> value_account (Fin 0) demo_account]"
  by (simp_all add: demo_placed_def CreateOrder_def demo_store_simps demo_request_def demo_order_def
      parseOrderRequest_def Let_def dec_int_5 book_of_def recalculate_eq)

lemma demo_filled_order:
  "map_option (GetOrder ''A'' ''ord-5'') demo_filled = Some (Inr (fill (Fin 101) 9 demo_order))"
  by (simp add: demo_filled_def CheckLimitOrders_def check_order_def demo_placed_simps demo_quote_def demo_order_def
      limit_fill_price_def holds_order_def fill_limit_def limit_buy_def Let_def book_of_def fill_def
      demo_account_def seed_account_def GetOrder_def)
definition demo_bought :: "(broker_error + Order \<times> TradeUpdate) \<times> Store" where
  "demo_bought = CreateOrder [''AAPL''] 5 ''A'' (demo_request (Fin 3) ''market'' None) demo_quote demo_store"
lemma demo_bought:
  "\<exists>ord upd. fst demo_bought = Inr (ord, upd)"
  "map_option Cash (accounts (snd demo_bought) ''A'') = Some (Fin 9697)"
  "map_option Equity (accounts (snd demo_bought) ''A'') = Some (Fin 10000)"
  "map_option dom (positions (snd demo_bought) ''A'') = Some {''AAPL''}"
  by (simp_all add: demo_bought_def CreateOrder_def demo_store_simps demo_request_def
      parseOrderRequest_def Let_def dec_int_5 book_of_def recalculate_eq executeMarketOrder_def executeMarketBuy_def
      demo_quote_def demo_account_def seed_account_def fsub_def fill_def revalue_def value_account_def new_position_def)

lemma demo_store_reachable: "broker_step\<^sup>*\<^sup>* NewStore demo_store"
  unfolding demo_store_def
  by (rule r_into_rtranclp, rule broker_step.account) (simp add: seed_account_def)

lemma demo_order_reachable:
  assumes "wf_f64 q"
  shows "broker_step\<^sup>*\<^sup>* NewStore (snd (CreateOrder ks 5 ''A'' (demo_request q t lp) demo_quote demo_store))"
  using demo_store_reachable
  by (rule rtranclp.rtrancl_into_rtrancl, intro broker_step.order)
    (use assms in \<open>simp_all add: demo_request_def demo_store_simps\<close>)

lemma demo_placed_reachable: "broker_step\<^sup>*\<^sup>* NewStore demo_placed"
  unfolding demo_placed_def by (rule demo_order_reachable) simp

lemma demo_filled_reachable:
  obtains s where "demo_filled = Some s" "broker_step\<^sup>*\<^sup>* NewStore s"
    "GetOrder ''A'' ''ord-5'' s = Inr (fill (Fin 101) 9 demo_order)"
proof -
  from demo_filled_order obtain s where s: "demo_filled = Some s"
      "GetOrder ''A'' ''ord-5'' s = Inr (fill (Fin 101) 9 demo_order)" by auto
  moreover have "broker_step demo_placed s"
    using s(1) unfolding demo_filled_def by (rule broker_step.limits)
  ultimately show ?thesis using that demo_placed_reachable by (meson rtranclp.rtrancl_into_rtrancl)
qed

section \<open>Properties\<close>

text \<open>C2: In every state the broker can reach (account creations with a cash balance that is not
  negative, deposits, orders of any representable quantity, cancellations, price updates and limit
  checks in any order and any interleaving), no account has a negative cash balance and no
  position has a quantity of zero or less: the ledger never lends and never sells short. With
  automatic replenishment the order's cost must not exceed \<open>2 ^ 50\<close>, the range in which the
  rounding of the replenishment is covered by its margin of 50000.\<close>

theorem broker_no_debt_no_short:
  assumes "broker_step\<^sup>*\<^sup>* NewStore s"
  shows "(\<forall>i acc. accounts s i = Some acc \<longrightarrow> \<not> flt (Cash acc) (Fin 0))
       \<and> (\<forall>i k p. GetPosition i k s = Inr p \<longrightarrow> \<not> fle (Qty p) (Fin 0))"
  using broker.inv_run [OF assms store_inv_NewStore]
  by (auto simp: store_inv_def cash_ok_def book_ok_def held_def GetPosition_def split: option.splits)

theorem broker_no_debt_no_short_witness:
  "\<not> flt (Cash (the (accounts (snd demo_bought) ''A''))) (Fin 0)"
proof -
  have "broker_step\<^sup>*\<^sup>* NewStore (snd demo_bought)"
    unfolding demo_bought_def by (rule demo_order_reachable) simp
  from broker_no_debt_no_short [OF this] demo_bought(2) show ?thesis by auto
qed

text \<open>C6: In every reachable state, a limit order that is filled was filled at a positive price
  that is no worse than its limit: at most the limit for a purchase, at least the limit for a sale.\<close>

theorem limit_price_respected:
  assumes "broker_step\<^sup>*\<^sup>* NewStore s" and "GetOrder i orderID s = Inr ord"
    and "OrdType ord = ''limit''" and "OrdStatus ord = ''filled''"
  shows "\<exists>lp fp. LimitPrice ord = Some lp \<and> FilledAvgPrice ord = Some fp \<and> flt (Fin 0) fp
    \<and> (OrdSide ord = ''buy'' \<longrightarrow> fle fp lp) \<and> (OrdSide ord = ''sell'' \<longrightarrow> fle lp fp)"
proof -
  from assms(2) obtain a where "oheap s a = Some ord" by (auto simp: GetOrder_def split: option.splits)
  with broker.inv_run [OF assms(1) store_inv_NewStore] have "limit_respected ord"
    by (auto simp: order_ok_def dest: store_invD)
  with assms(3,4) show ?thesis by (simp add: limit_respected_def)
qed

theorem limit_price_respected_witness:
  "\<exists>s ord fp. demo_filled = Some s \<and> GetOrder ''A'' ''ord-5'' s = Inr ord
     \<and> FilledAvgPrice ord = Some fp \<and> fle fp (Fin 110)"
proof -
  obtain s where s: "demo_filled = Some s" "broker_step\<^sup>*\<^sup>* NewStore s"
      "GetOrder ''A'' ''ord-5'' s = Inr (fill (Fin 101) 9 demo_order)" by (rule demo_filled_reachable)
  from limit_price_respected [OF s(2,3)] s(1,3) show ?thesis by (auto simp: demo_order_def)
qed

text \<open>C25: Once an order of a reachable state is filled or cancelled, no further operation of the
  broker, however many and in whatever order, changes any of its fields: a fill cannot be undone,
  repeated at another price, or turned into a cancellation.\<close>

theorem closed_orders_frozen:
  assumes "broker_step\<^sup>*\<^sup>* NewStore s" and "broker_step\<^sup>*\<^sup>* s s'"
    and "oheap s a = Some ord" and "OrdStatus ord = ''filled'' \<or> OrdStatus ord = ''canceled''"
  shows "oheap s' a = Some ord"
proof -
  have "evolves s s'"
    using assms(2) broker.inv_run [OF assms(1) store_inv_NewStore]
    by (rule broker.relation_run) (auto simp: broker_step_ok intro: evolves_trans)
  with assms(3,4) show ?thesis by (auto simp: evolves_def closed_order_def)
qed

theorem closed_orders_frozen_witness:
  "\<exists>s. demo_filled = Some s
     \<and> GetOrder ''A'' ''ord-5'' (snd (CancelOrder 12 ''A'' ''ord-5'' s)) = Inr (fill (Fin 101) 9 demo_order)"
proof -
  obtain s where s: "demo_filled = Some s" "broker_step\<^sup>*\<^sup>* NewStore s"
      "GetOrder ''A'' ''ord-5'' s = Inr (fill (Fin 101) 9 demo_order)" by (rule demo_filled_reachable)
  from s(3) obtain a where a: "orders s ''ord-5'' = Some a" "oheap s a = Some (fill (Fin 101) 9 demo_order)"
    by (auto simp: GetOrder_def split: option.splits)
  have "broker_step\<^sup>*\<^sup>* s (snd (CancelOrder 12 ''A'' ''ord-5'' s))"
    by (intro r_into_rtranclp broker_step.cancel)
  from closed_orders_frozen [OF s(2) this a(2)]
  have "oheap (snd (CancelOrder 12 ''A'' ''ord-5'' s)) a = Some (fill (Fin 101) 9 demo_order)" by simp
  moreover have "orders (snd (CancelOrder 12 ''A'' ''ord-5'' s)) = orders s"
    by (simp add: CancelOrder_def Let_def split: option.splits)
  ultimately show ?thesis using a s(1) by (intro exI [of _ s]) (simp add: GetOrder_def)
qed

text \<open>In every reachable state the limit check returns: whatever the quotes and whatever
  orders the two map loops take, it never dereferences a missing account nor writes to a missing
  position map.\<close>

theorem limit_check_returns:
  assumes "broker_step\<^sup>*\<^sup>* NewStore s"
  shows "\<exists>s'. CheckLimitOrders pord now oord aord quotes s = Some s'"
  using CheckLimitOrders_ok [OF broker.inv_run [OF assms store_inv_NewStore]] by blast

theorem limit_check_returns_witness: "\<exists>s. demo_filled = Some s"
  unfolding demo_filled_def by (rule limit_check_returns [OF demo_placed_reachable])

text \<open>When an order is placed, the account's valuation afterwards agrees with its book: every
  position's market value is quantity times current price, the long market value is their sum in
  the visiting order, equity and portfolio value are cash plus long market value and buying power
  is twice the cash.\<close>

theorem placed_order_valuation:
  assumes "CreateOrder pord now i req quote s = (Inr (ord, upd), s')"
    and "positions s' i = Some b" and "iter_order pord b"
  shows "valued pord i s'"
  using assms(1)
proof (cases rule: CreateOrder_placed)
  case (1 acc ord0 acc' b')
  let ?s = "s\<lparr>accounts := (accounts s)(i \<mapsto> acc'), positions := (positions s)(i \<mapsto> b')\<rparr>"
  have b: "b = fst (revalue_all pord (b', Fin 0))" using 1(5) assms(2) by (simp add: recalculate_eq)
  with assms(3) have "iter_order pord b'" by (simp add: iter_order_def)
  then have "valued pord i (recalculateAccountValuation pord i ?s)" by (rule valued_recalculate) simp
  then show ?thesis by (rule valued_cong [THEN iffD2, rotated 2]) (simp_all add: 1(5))
qed

theorem placed_order_valuation_witness:
  "valued [''AAPL''] ''A'' (snd demo_bought)
     \<and> map_option Equity (accounts (snd demo_bought) ''A'') = Some (Fin 10000)"
proof -
  obtain ord upd where o: "demo_bought = (Inr (ord, upd), snd demo_bought)"
    using demo_bought(1) by (metis prod.collapse)
  obtain b where b: "positions (snd demo_bought) ''A'' = Some b" "dom b = {''AAPL''}"
    using demo_bought(4) by auto
  have "valued [''AAPL''] ''A'' (snd demo_bought)"
    using o b unfolding demo_bought_def
    by (intro placed_order_valuation) (assumption, assumption, simp add: iter_order_def)
  with demo_bought(3) show ?thesis by simp
qed

text \<open>An order that is rejected, for whatever reason, leaves every account, every position,
  every order and every account's order list as they were.\<close>

theorem rejected_order_changes_nothing:
  assumes "CreateOrder pord now i req quote s = (Inl e, s')"
  shows "accounts s' = accounts s \<and> book_of s' = book_of s \<and> oheap s' = oheap s \<and> orders s' = orders s
    \<and> accountOrders s' = accountOrders s \<and> subscribers s' = subscribers s"
  using CreateOrder_failed [OF assms] by (auto simp: book_of_written)

theorem rejected_order_changes_nothing_witness:
  "accounts (snd (CreateOrder [] 5 ''A'' (demo_request (Fin 300) ''market'' None) demo_quote demo_store))
     = accounts demo_store"
proof -
  have "fst (CreateOrder [] 5 ''A'' (demo_request (Fin 300) ''market'' None) demo_quote demo_store)
      = Inl (ErrInsufficientCash (Fin 30300) (Fin 10000))"
    by (simp add: CreateOrder_def demo_store_simps demo_request_def parseOrderRequest_def Let_def dec_int_5
        executeMarketOrder_def executeMarketBuy_def demo_quote_def demo_account_def seed_account_def)
  then show ?thesis using rejected_order_changes_nothing by (metis prod.collapse)
qed

text \<open>Listing orders returns, newest first, the account's orders whose status is the one asked
  for (all of them for an empty status or \<open>all\<close>), cut at the limit, where a limit of zero or less
  means 50.\<close>

theorem ListOrders_spec:
  "ListOrders i status limit s = take (nat (if limit \<le> 0 then 50 else limit))
     (filter (\<lambda>ord. status = [] \<or> status = ''all'' \<or> OrdStatus ord = status)
       (map_vals (accountOrders s i) (oheap s)))"
  unfolding ListOrders_def by (subst list_orders_eq) auto

text \<open>An order can be cancelled through any account: the account in the request is not
  compared with the order's owner, so a pending order of a reachable state found by its identifier
  is cancelled whatever account the caller names.\<close>

theorem any_account_cancels:
  assumes "GetOrder i orderID s = Inr ord" and "\<not> closed_order ord"
  shows "\<exists>ord' upd. fst (CancelOrder now j orderID s) = Inr (ord', upd)
    \<and> GetOrder i orderID (snd (CancelOrder now j orderID s)) = Inr ord'
    \<and> OrdStatus ord' = ''canceled'' \<and> CanceledAt ord' = Some now"
  using assms by (auto simp: GetOrder_def CancelOrder_def closed_order_def Let_def split: option.splits)

theorem any_account_cancels_witness:
  "\<exists>ord'. GetOrder ''A'' ''ord-5'' (snd (CancelOrder 12 ''someone else'' ''ord-5'' demo_placed)) = Inr ord'
     \<and> OrdStatus ord' = ''canceled''"
proof -
  have "GetOrder ''A'' ''ord-5'' demo_placed = Inr demo_order" "\<not> closed_order demo_order"
    by (simp_all add: GetOrder_def demo_placed_simps closed_order_def demo_order_def)
  from any_account_cancels [OF this, of 12 "''someone else''"] show ?thesis by auto
qed

text \<open>A quantity that is not a number passes the payload check, and the cash check too: a
  market purchase of it at a positive price is filled and leaves the account with a cash balance
  that is not a number, in every mode of the ledger.\<close>

theorem nan_order_filled:
  assumes "accounts s i = Some acc" and "ReqSymbol req \<noteq> []" and "ReqQty req = NaN"
    and "ReqSide req = ''buy''" and "ReqType req = ''market''" and "flt (Fin 0) (AskPrice quote)"
  shows "\<exists>ord upd s' acc'. CreateOrder pord now i req quote s = (Inr (ord, upd), s')
    \<and> OrdStatus ord = ''filled'' \<and> accounts s' i = Some acc' \<and> Cash acc' = NaN"
proof -
  have "\<not> fle (AskPrice quote) (Fin 0)" using assms(6) by (rule flt_not_fle)
  then show ?thesis
    using assms
    by (simp add: CreateOrder_def parseOrderRequest_def executeMarketOrder_def executeMarketBuy_def Let_def
        recalculate_eq)
qed

theorem nan_order_filled_witness:
  "\<exists>acc'. accounts (snd (CreateOrder [] 5 ''A'' (demo_request NaN ''market'' None) demo_quote demo_store)) ''A''
     = Some acc' \<and> Cash acc' = NaN"
proof -
  have "accounts demo_store ''A'' = Some demo_account" by (simp add: demo_store_simps)
  from nan_order_filled [OF this, of "demo_request NaN ''market'' None" demo_quote "[]" 5] show ?thesis
    by (auto simp: demo_request_def demo_quote_def)
qed

text \<open>The portfolio history has thirty points, one per day and the last at the time of the
  request, and every equity value is the interpolation formula of its day. The formula's offset on
  the last day is -400: the series does not end at the account's equity.\<close>

theorem portfolio_history_points:
  assumes "GetPortfolioHistory now i period s = Inr h" and "GetAccount i s = Inr acc"
  shows "length (HistEquity h) = 30 \<and> length (HistTimestamp h) = 30 \<and> last (HistTimestamp h) = now div second
    \<and> (\<forall>d < 30. HistEquity h ! (29 - d) = history_value (BaseValue h) (Equity acc) d)
    \<and> last (HistEquity h) = fround (fadd (fadd (BaseValue h) (fmul (fsub (Equity acc) (BaseValue h)) (Fin 1))) (Fin (- 400)))"
proof -
  have h: "HistEquity h = map (history_value (BaseValue h) (Equity acc)) (rev [0..<30])"
      "HistTimestamp h = map (\<lambda>i. (now - int i * 24 * hour) div second) (rev [0..<30])"
    using assms by (auto simp: GetPortfolioHistory_def history_loop_eq simp del: upt_Suc upt_rec_numeral)
  have "HistEquity h ! (29 - d) = history_value (BaseValue h) (Equity acc) d" if "d < 30" for d
    unfolding h(1) using that by (subst nth_map; simp add: rev_nth del: upt_rec_numeral)
  moreover have "history_value b v 0 = fround (fadd (fadd b (fmul (fsub v b) (Fin 1))) (Fin (- 400)))" for b v
    by (simp add: history_value_def Let_def of_i64_def fsub_def)
  ultimately show ?thesis
    by (simp add: h last_map_rev_upt [of _ 29, simplified] del: upt_rec_numeral)
qed

theorem portfolio_history_points_witness:
  "\<exists>h. GetPortfolioHistory 86400000000000 ''A'' ''1M'' demo_store = Inr h \<and> length (HistEquity h) = 30"
proof -
  have "GetAccount ''A'' demo_store = Inr demo_account" by (simp add: GetAccount_def demo_store_simps)
  moreover from this obtain h where "GetPortfolioHistory 86400000000000 ''A'' ''1M'' demo_store = Inr h"
    by (simp add: GetPortfolioHistory_def)
  ultimately show ?thesis using portfolio_history_points by blast
qed

end
