(* ===== verification/CoreInvest.thy ===== *)
theory CoreInvest
  imports CoreRepo BankLedger BrokerLedger
begin

text \<open>
  The service layer of the investment core, \<open>internal/service/core_invest\<close>: orders and deposits,
  portfolios and developer keys, streams and backtests, registration, closing and erasure,
  statements and tax forms. The broker and the bank are the interfaces \<open>BrokerClient\<close> and
  \<open>BankClient\<close> of \<open>service.go\<close>: records of functions over their own states, which return \<open>None\<close>
  for an error. Their data are the records of the broker and bank ledgers, which have the same
  fields. The functions of the brokerage orders are given the order repository as a record
  as well, because it is used with two implementations; the others work on the in-memory
  repository. Operations that only call the repository operation of the same name have no
  definition of their own here. Message texts of results are not modelled.
\<close>

section \<open>Interfaces\<close>

record 'b BrokerClient =
  brCreateOrder :: "string \<Rightarrow> CreateOrderRequest \<Rightarrow> 'b \<Rightarrow> Order option \<times> 'b"
  brListPositions :: "string \<Rightarrow> 'b \<Rightarrow> Position list option"

record TransferAuthorization =
  taDecision :: string
  taDescription :: "string option"

record 'k BankClient =
  bkCreateTransfer :: "string \<Rightarrow> float64 \<Rightarrow> string \<Rightarrow> string \<Rightarrow> 'k \<Rightarrow> ACHTransfer option \<times> 'k"
  bkAuthorizeTransfer :: "string \<Rightarrow> float64 \<Rightarrow> string \<Rightarrow> 'k \<Rightarrow> TransferAuthorization option \<times> 'k"
  bkGetAccounts :: "string \<Rightarrow> 'k \<Rightarrow> BankAccount list option"
  bkExchangePublicToken :: "string \<Rightarrow> string \<Rightarrow> 'k \<Rightarrow> string option \<times> 'k"

text \<open>\<open>orAssignPrice i x\<close> is the effect on the store of assigning \<open>x\<close> to the price of the order that
  an update of \<open>i\<close> returned: the in-memory repository returns the stored object, the database a copy.\<close>

record 's OrderRepository =
  orCreate :: "BrokerageOrder \<Rightarrow> 's \<Rightarrow> BrokerageOrder option \<times> 's"
  orUpdateStatus :: "string \<Rightarrow> string \<Rightarrow> time option \<Rightarrow> 's \<Rightarrow> BrokerageOrder option \<times> 's"
  orAssignPrice :: "string \<Rightarrow> float64 \<Rightarrow> 's \<Rightarrow> 's"

definition mock_orders :: "time \<Rightarrow> mockRepository OrderRepository" where
  "mock_orders now = \<lparr>orCreate = (\<lambda>x m. case CreateBrokerageOrder now x m of (y, m') \<Rightarrow> (Some y, m')),
     orUpdateStatus = (\<lambda>i st t m. case UpdateBrokerageOrderStatus now i st t m of (y, m') \<Rightarrow> (Some y, m')),
     orAssignPrice = (\<lambda>i x m. m\<lparr>mOrders := (mOrders m)(i := map_option (\<lambda>y. y\<lparr>boPrice := x\<rparr>) (mOrders m i))\<rparr>)\<rparr>"

text \<open>
  The order table in PostgreSQL. \<open>uuid\<close> supplies the identifiers that the database generates;
  \<open>up\<close> says whether a statement reaches the database. An update of no row is an error, because
  the statement returns no row to scan.
\<close>

record order_table =
  otRows :: "(string, BrokerageOrder) gomap"
  otCount :: nat

definition pgx_orders :: "(nat \<Rightarrow> string) \<Rightarrow> bool \<Rightarrow> time \<Rightarrow> order_table OrderRepository" where
  "pgx_orders uuid up now = \<lparr>
     orCreate = (\<lambda>x t. if \<not> up then (None, t)
       else let y = x\<lparr>boOrderID := uuid (otCount t), boExecutedAt := None, boCreatedAt := now, boUpdatedAt := now\<rparr>
            in (Some y, t\<lparr>otRows := (otRows t)(boOrderID y \<mapsto> y), otCount := Suc (otCount t)\<rparr>)),
     orUpdateStatus = (\<lambda>i st e t. case otRows t i of
         None \<Rightarrow> (None, t)
       | Some x \<Rightarrow> if \<not> up then (None, t)
           else let y = x\<lparr>boStatus := st, boExecutedAt := e, boUpdatedAt := now\<rparr> in (Some y, t\<lparr>otRows := (otRows t)(i \<mapsto> y)\<rparr>)),
     orAssignPrice = (\<lambda>i x t. t)\<rparr>"

text \<open>
  The repository of recurring deposits, in the same way. \<open>ord\<close> is the order in which the rows are
  listed; the update of a schedule that names no row is an error in memory and none in the database.
\<close>

record 's DepositRepository =
  drCreate :: "RecurringDeposit \<Rightarrow> 's \<Rightarrow> RecurringDeposit option \<times> 's"
  drList :: "string list \<Rightarrow> string \<Rightarrow> 's \<Rightarrow> RecurringDeposit list option"
  drAdvance :: "string \<Rightarrow> time \<Rightarrow> 's \<Rightarrow> bool \<times> 's"

definition mock_deposits :: "time \<Rightarrow> mockRepository DepositRepository" where
  "mock_deposits now = \<lparr>drCreate = (\<lambda>d m. case CoreRepo.CreateRecurringDeposit now d m of (d', m') \<Rightarrow> (Some d', m')),
     drList = (\<lambda>ord c m. Some (ListRecurringDeposits ord c m)),
     drAdvance = (\<lambda>i t m. case AdvanceRecurringDepositSchedule i t m of (Inr _, m') \<Rightarrow> (True, m') | (Inl _, m') \<Rightarrow> (False, m'))\<rparr>"

record deposit_table =
  dtRows :: "(string, RecurringDeposit) gomap"
  dtCount :: nat

definition pgx_deposits :: "(nat \<Rightarrow> string) \<Rightarrow> bool \<Rightarrow> time \<Rightarrow> deposit_table DepositRepository" where
  "pgx_deposits uuid up now = \<lparr>
     drCreate = (\<lambda>d t. if \<not> up then (None, t)
       else let d' = d\<lparr>rdDepositID := uuid (dtCount t), rdCreatedAt := now\<rparr>
            in (Some d', t\<lparr>dtRows := (dtRows t)(rdDepositID d' \<mapsto> d'), dtCount := Suc (dtCount t)\<rparr>)),
     drList = (\<lambda>ord c t. if \<not> up then None
       else Some (filter (\<lambda>d. c = [] \<or> rdCustomerID d = c) (map_vals ord (dtRows t)))),
     drAdvance = (\<lambda>i n t. if \<not> up then (False, t)
       else (True, t\<lparr>dtRows := (\<lambda>j. if j = i then map_option (\<lambda>d. d\<lparr>rdNextChargeAt := n\<rparr>) (dtRows t j) else dtRows t j)\<rparr>))\<rparr>"

section \<open>Orders\<close>

datatype svc_error =
    OrderFieldsRequired | SideInvalid | QuantityOrPriceInvalid | OrderNotCreated | BrokerNotConfigured
  | BrokerOrderFailed | OrderNotUpdated | IdRequired | AmountInvalid | BankAuthorizationFailed | BankDeclined string
  | ProtocolInvalid | DatesInvalid | NameRequired | EmailInvalid | PasswordRefused | PortfolioNotFound
  | DepositNotCreated | YearInvalid | MonthInvalid | DocumentFailed | RepoError repo_error

record ExecuteBrokerageOrderOpts =
  eoPortfolioID :: string
  eoBrokerName :: string
  eoSymbol :: string
  eoSide :: string
  eoQuantity :: float64
  eoPrice :: float64
  eoStrategyID :: "string option"
  eoEventID :: "string option"

definition pending_order :: "ExecuteBrokerageOrderOpts \<Rightarrow> BrokerageOrder" where
  "pending_order opts = \<lparr>boOrderID = [], boPortfolioID = eoPortfolioID opts, boStrategyID = eoStrategyID opts, boEventID = eoEventID opts,
     boBrokerName = eoBrokerName opts, boSymbol = eoSymbol opts, boSide = eoSide opts, boQuantity = eoQuantity opts,
     boPrice = eoPrice opts, boStatus = ''pending'', boExecutedAt = None, boCreatedAt = zeroTime, boUpdatedAt = zeroTime\<rparr>"

definition broker_request :: "ExecuteBrokerageOrderOpts \<Rightarrow> string \<Rightarrow> CreateOrderRequest" where
  "broker_request opts orderID = \<lparr>ReqSymbol = eoSymbol opts, ReqQty = eoQuantity opts, ReqSide = eoSide opts, ReqType = ''market'',
     ReqTimeInForce = [], ReqLimitPrice = None, ReqClientOrderID = orderID\<rparr>"

definition fill_price :: "float64 \<Rightarrow> Order \<Rightarrow> float64" where
  "fill_price requested ord = (case FilledAvgPrice ord of Some x \<Rightarrow> if flt (Fin 0) x then x else requested | None \<Rightarrow> requested)"

definition ExecuteBrokerageOrder ::
    "'s OrderRepository \<Rightarrow> 'b BrokerClient option \<Rightarrow> time \<Rightarrow> ExecuteBrokerageOrderOpts \<Rightarrow> 's \<times> 'b
      \<Rightarrow> (svc_error + BrokerageOrder) \<times> 's \<times> 'b" where
  "ExecuteBrokerageOrder R client now opts st = (case st of (s, b) \<Rightarrow>
     if eoPortfolioID opts = [] \<or> eoBrokerName opts = [] \<or> eoSymbol opts = [] then (Inl OrderFieldsRequired, s, b)
     else if eoSide opts \<noteq> ''buy'' \<and> eoSide opts \<noteq> ''sell'' then (Inl SideInvalid, s, b)
     else if fle (eoQuantity opts) (Fin 0) \<or> fle (eoPrice opts) (Fin 0) then (Inl QuantityOrPriceInvalid, s, b)
     else (case orCreate R (pending_order opts) s of
       (None, s1) \<Rightarrow> (Inl OrderNotCreated, s1, b)
     | (Some created, s1) \<Rightarrow> (case client of
         None \<Rightarrow> (Inl BrokerNotConfigured, s1, b)
       | Some C \<Rightarrow> (case brCreateOrder C (eoPortfolioID opts) (broker_request opts (boOrderID created)) b of
           (None, b1) \<Rightarrow> (Inl BrokerOrderFailed, s1, b1)
         | (Some ord, b1) \<Rightarrow>
             (case orUpdateStatus R (boOrderID created) (if OrdStatus ord \<noteq> [] then OrdStatus ord else ''executed'')
                     (Some (case FilledAt ord of Some t \<Rightarrow> t | None \<Rightarrow> now)) s1 of
                (None, s2) \<Rightarrow> (Inl OrderNotUpdated, s2, b1)
              | (Some res, s2) \<Rightarrow>
                  (Inr (res\<lparr>boPrice := fill_price (eoPrice opts) ord\<rparr>),
                   orAssignPrice R (boOrderID created) (fill_price (eoPrice opts) ord) s2, b1))))))"

definition GetBrokerageOrder :: "time \<Rightarrow> string \<Rightarrow> mockRepository \<Rightarrow> svc_error + BrokerageOrder" where
  "GetBrokerageOrder now i m = (if i = [] then Inl IdRequired else Inr (GetBrokerageOrderByID now i m))"

section \<open>Recurring deposits\<close>

text \<open>
  Civil dates of the proleptic Gregorian calendar, in a location without offset changes.
  \<open>civil\<close> is the date of a day counted from the epoch, \<open>day_number\<close> the day of a date, for any
  day of the month. \<open>AddMonths\<close> is \<open>AddDate(0, n, 0)\<close>: the day of the month is kept, and a day
  that the month does not have runs over into the next one.
\<close>

definition civil :: "int \<Rightarrow> int \<times> int \<times> int" where
  "civil n = (let z = n + 719468; era = z div 146097; doe = z mod 146097;
      yoe = (doe - doe div 1460 + doe div 36524 - doe div 146096) div 365;
      doy = doe - (365 * yoe + yoe div 4 - yoe div 100); mp = (5 * doy + 2) div 153;
      m = (if mp < 10 then mp + 3 else mp - 9)
    in (yoe + era * 400 + (if m \<le> 2 then 1 else 0), m, doy - (153 * mp + 2) div 5 + 1))"

definition day_number :: "int \<Rightarrow> int \<Rightarrow> int \<Rightarrow> int" where
  "day_number y m d = (let y' = (if m \<le> 2 then y - 1 else y); era = y' div 400; yoe = y' mod 400;
      doy = (153 * (if 2 < m then m - 3 else m + 9) + 2) div 5 + d - 1
    in era * 146097 + (yoe * 365 + yoe div 4 - yoe div 100 + doy) - 719468)"

abbreviation (input) day :: duration where "day \<equiv> 86400000000000"

definition AddDays :: "int \<Rightarrow> time \<Rightarrow> time" where
  "AddDays n t = t + n * day"

definition AddMonths :: "int \<Rightarrow> time \<Rightarrow> time" where
  "AddMonths n t = (case civil (t div day) of (y, m, d) \<Rightarrow>
     let k = m - 1 + n in day_number (y + k div 12) (k mod 12 + 1) d * day + t mod day)"

definition next_charge :: "string \<Rightarrow> time \<Rightarrow> time" where
  "next_charge frequency now = (if frequency = ''weekly'' then AddDays 7 now
     else if frequency = ''biweekly'' then AddDays 14 now else AddMonths 1 now)"

record CreateRecurringDepositOpts =
  doCustomerID :: string
  doPortfolioID :: string
  doAmountUSD :: float64
  doFrequency :: string
  doBankAccount :: string
  doAccountID :: string

definition account_label :: "BankAccount \<Rightarrow> string" where
  "account_label a = (let n = BankLedger.BankAccount.AccountNumber a; mask = (if 4 < length n then drop (length n - 4) n else n)
     in if mask \<noteq> [] then AccountName a @ '' (****'' @ mask @ '')'' else AccountName a)"

text \<open>The account to charge and the label of the deposit, from the accounts of the customer.\<close>

definition choose_account :: "BankAccount list \<Rightarrow> CreateRecurringDepositOpts \<Rightarrow> string \<times> string" where
  "choose_account accs opts =
     (let accountID = (if doAccountID opts = [] \<and> accs \<noteq> [] then AccountID (hd accs) else doAccountID opts)
      in (accountID,
          if doBankAccount opts = [] \<and> accs \<noteq> []
          then account_label (case List.find (\<lambda>a. AccountID a = accountID) accs of Some a \<Rightarrow> a | None \<Rightarrow> hd accs)
          else doBankAccount opts))"

definition charge_now ::
    "'k BankClient \<Rightarrow> string \<Rightarrow> float64 \<Rightarrow> string \<Rightarrow> 'k \<Rightarrow> (svc_error + unit) \<times> 'k" where
  "charge_now K accountID amount portfolioID k =
     (case bkAuthorizeTransfer K accountID amount ''debit'' k of
        (None, k1) \<Rightarrow> (Inl BankAuthorizationFailed, k1)
      | (Some auth, k1) \<Rightarrow>
          if taDecision auth = ''declined''
          then (Inl (BankDeclined (case taDescription auth of Some d \<Rightarrow> if d \<noteq> [] then d else ''insufficient funds'' | None \<Rightarrow> ''insufficient funds'')), k1)
          else (Inr (), snd (bkCreateTransfer K accountID amount ''debit'' (''Recurring deposit for portfolio '' @ portfolioID) k1)))"

definition CreateRecurringDeposit ::
    "'s DepositRepository \<Rightarrow> 'k BankClient option \<Rightarrow> time \<Rightarrow> CreateRecurringDepositOpts \<Rightarrow> 's \<times> 'k
      \<Rightarrow> (svc_error + RecurringDeposit) \<times> 's \<times> 'k" where
  "CreateRecurringDeposit D client now opts st = (case st of (m, k) \<Rightarrow>
     if doCustomerID opts = [] \<or> doPortfolioID opts = [] then (Inl IdRequired, m, k)
     else if fle (doAmountUSD opts) (Fin 0) then (Inl AmountInvalid, m, k)
     else
       let frequency = (if doFrequency opts = [] then ''monthly'' else doFrequency opts);
           (label, charged, k1) = (case client of
               None \<Rightarrow> (doBankAccount opts, Inr (), k)
             | Some K \<Rightarrow>
                 let accs = (case bkGetAccounts K (doCustomerID opts) k of None \<Rightarrow> [] | Some xs \<Rightarrow> xs);
                     (accountID, lbl) = choose_account accs opts;
                     (c, k1) = (if accountID \<noteq> [] then charge_now K accountID (doAmountUSD opts) (doPortfolioID opts) k else (Inr (), k))
                 in (lbl, c, k1))
       in case charged of
            Inl e \<Rightarrow> (Inl e, m, k1)
          | Inr _ \<Rightarrow>
              (case drCreate D \<lparr>rdDepositID = [], rdCustomerID = doCustomerID opts, rdPortfolioID = doPortfolioID opts, rdAmountUSD = doAmountUSD opts,
                     rdFrequency = frequency, rdBankAccount = (if label = [] then ''Primary Linked Account'' else label),
                     rdStatus = ''active'', rdNextChargeAt = next_charge frequency now, rdCreatedAt = zeroTime\<rparr> m of
                 (Some d, m') \<Rightarrow> (Inr d, m', k1)
               | (None, m') \<Rightarrow> (Inl DepositNotCreated, m', k1)))"

section \<open>Portfolios, keys and webhooks\<close>

text \<open>
  The lookup by customer of the in-memory repository always finds or makes a portfolio, so the
  lookup by portfolio identifier that follows a failed one is never reached. A portfolio is
  passed on as its address.
\<close>

definition GetPortfolio :: "string list \<Rightarrow> time \<Rightarrow> string \<Rightarrow> mockRepository \<Rightarrow> (svc_error + addr) \<times> mockRepository" where
  "GetPortfolio ord now i m = (if i = [] then (Inl IdRequired, m)
     else (case GetPortfolioByCustomerID ord now i m of (a, m') \<Rightarrow> (Inr a, m')))"

definition CreatePortfolio :: "time \<Rightarrow> Portfolio option \<Rightarrow> mockRepository \<Rightarrow> (svc_error + addr) \<times> mockRepository" where
  "CreatePortfolio now p m = (case p of
     None \<Rightarrow> (Inl IdRequired, m)
   | Some p \<Rightarrow> if pfCustomerID p = [] then (Inl IdRequired, m)
       else (case CoreRepo.CreatePortfolio now p m of (a, m') \<Rightarrow> (Inr a, m')))"

definition CreateCustomerAPIKey :: "time \<Rightarrow> CustomerAPIKey option \<Rightarrow> mockRepository \<Rightarrow> (svc_error + CustomerAPIKey) \<times> mockRepository" where
  "CreateCustomerAPIKey now key m = (case key of
     None \<Rightarrow> (Inl IdRequired, m)
   | Some k \<Rightarrow> if akCustomerID k = [] then (Inl IdRequired, m) else (case CreateAPIKey now k m of (k', m') \<Rightarrow> (Inr k', m')))"

definition ListCustomerAPIKeys :: "string \<Rightarrow> mockRepository \<Rightarrow> svc_error + CustomerAPIKey list" where
  "ListCustomerAPIKeys customerID m = (if customerID = [] then Inl IdRequired else Inr (ListAPIKeys customerID m))"

definition RevokeCustomerAPIKey :: "string \<Rightarrow> string \<Rightarrow> mockRepository \<Rightarrow> (svc_error + unit) \<times> mockRepository" where
  "RevokeCustomerAPIKey customerID keyID m =
     (if customerID = [] \<or> keyID = [] then (Inl IdRequired, m) else (Inr (), RevokeAPIKey customerID keyID m))"

definition CreateWebhookSubscription ::
    "time \<Rightarrow> WebhookSubscription option \<Rightarrow> mockRepository \<Rightarrow> (svc_error + WebhookSubscription) \<times> mockRepository" where
  "CreateWebhookSubscription now sub m = (case sub of
     None \<Rightarrow> (Inl IdRequired, m)
   | Some w \<Rightarrow> if whCustomerID w = [] \<or> whTargetURL w = [] then (Inl IdRequired, m)
       else (case CreateWebhook now w m of (w', m') \<Rightarrow> (Inr w', m')))"

definition ListWebhookSubscriptions :: "string \<Rightarrow> mockRepository \<Rightarrow> svc_error + WebhookSubscription list" where
  "ListWebhookSubscriptions customerID m = (if customerID = [] then Inl IdRequired else Inr (ListWebhooks customerID m))"

definition DeleteWebhookSubscription :: "string \<Rightarrow> string \<Rightarrow> mockRepository \<Rightarrow> (svc_error + unit) \<times> mockRepository" where
  "DeleteWebhookSubscription customerID subscriptionID m =
     (if customerID = [] \<or> subscriptionID = [] then (Inl IdRequired, m) else (Inr (), DeleteWebhook customerID subscriptionID m))"

section \<open>Camera streams and backtests\<close>

definition RegisterCameraStream ::
    "time \<Rightarrow> string \<Rightarrow> string \<Rightarrow> string \<Rightarrow> mockRepository \<Rightarrow> (svc_error + CameraStream) \<times> mockRepository" where
  "RegisterCameraStream now cameraAssetID streamURL protocol m =
     (if cameraAssetID = [] \<or> streamURL = [] then (Inl IdRequired, m)
      else if protocol \<noteq> ''rtsp'' \<and> protocol \<noteq> ''webrtc'' then (Inl ProtocolInvalid, m)
      else (case CreateCameraStream now \<lparr>csStreamID = [], csCameraAssetID = cameraAssetID, csStreamURL = streamURL,
              csProtocol = protocol, csStatus = ''active'', csIngestSettings = ''{}'', csCreatedAt = zeroTime, csUpdatedAt = zeroTime\<rparr> m of
              (s, m') \<Rightarrow> (Inr s, m')))"

definition GetCameraStream :: "time \<Rightarrow> string \<Rightarrow> mockRepository \<Rightarrow> svc_error + CameraStream" where
  "GetCameraStream now i m = (if i = [] then Inl IdRequired else Inr (GetCameraStreamByID now i m))"

text \<open>A publisher, where there is one, receives the identifiers of a started backtest; its error is ignored.\<close>

definition StartBacktestRun ::
    "bool \<Rightarrow> time \<Rightarrow> string \<Rightarrow> time \<Rightarrow> time \<Rightarrow> string \<Rightarrow> mockRepository
      \<Rightarrow> (svc_error + BacktestRun) \<times> (string \<times> string \<times> string) list \<times> mockRepository" where
  "StartBacktestRun publisher now strategyID startDate endDate parameters m =
     (if strategyID = [] then (Inl IdRequired, [], m)
      else if endDate < startDate then (Inl DatesInvalid, [], m)
      else (case CreateBacktestRun now \<lparr>btBacktestID = [], btStrategyID = strategyID, btStartDate = startDate, btEndDate = endDate,
              btParameters = (if parameters = [] then ''{}'' else parameters), btResults = [], btStatus = [],
              btCreatedAt = zeroTime, btUpdatedAt = zeroTime\<rparr> m of
              (r, m') \<Rightarrow> (Inr r, if publisher then [(''events.investment.backtest_requested.v1'', btBacktestID r, btStrategyID r)] else [], m')))"

definition GetBacktestRun :: "time \<Rightarrow> string \<Rightarrow> mockRepository \<Rightarrow> svc_error + BacktestRun" where
  "GetBacktestRun now i m = (if i = [] then Inl IdRequired else Inr (GetBacktestRunByID now i m))"

definition CompleteBacktestRun ::
    "time \<Rightarrow> string \<Rightarrow> string \<Rightarrow> string \<Rightarrow> mockRepository \<Rightarrow> (svc_error + BacktestRun) \<times> mockRepository" where
  "CompleteBacktestRun now i status results m =
     (if i = [] then (Inl IdRequired, m)
      else (case UpdateBacktestRunResults now i (if status = [] then ''completed'' else status) results m of (r, m') \<Rightarrow> (Inr r, m')))"

section \<open>The outcomes of an order\<close>

text \<open>The checks that come before the order is stored.\<close>

definition order_accepted :: "ExecuteBrokerageOrderOpts \<Rightarrow> bool" where
  "order_accepted opts \<longleftrightarrow> eoPortfolioID opts \<noteq> [] \<and> eoBrokerName opts \<noteq> [] \<and> eoSymbol opts \<noteq> []
     \<and> (eoSide opts = ''buy'' \<or> eoSide opts = ''sell'') \<and> \<not> fle (eoQuantity opts) (Fin 0) \<and> \<not> fle (eoPrice opts) (Fin 0)"

lemma ExecuteBrokerageOrder_cases [consumes 1, case_names refused not_created no_broker broker_failed not_updated executed]:
  assumes "ExecuteBrokerageOrder R client now opts (s, b) = (res, s', b')"
  obtains e where "res = Inl e" "s' = s" "b' = b"
  | "orCreate R (pending_order opts) s = (None, s')" "res = Inl OrderNotCreated" "b' = b"
  | x where "order_accepted opts" "orCreate R (pending_order opts) s = (Some x, s')" "client = None" "res = Inl BrokerNotConfigured" "b' = b"
  | x C where "order_accepted opts" "orCreate R (pending_order opts) s = (Some x, s')" "client = Some C"
      "brCreateOrder C (eoPortfolioID opts) (broker_request opts (boOrderID x)) b = (None, b')" "res = Inl BrokerOrderFailed"
  | x s1 C ord st e where "order_accepted opts" "orCreate R (pending_order opts) s = (Some x, s1)" "client = Some C"
      "brCreateOrder C (eoPortfolioID opts) (broker_request opts (boOrderID x)) b = (Some ord, b')"
      "orUpdateStatus R (boOrderID x) st e s1 = (None, s')" "res = Inl OrderNotUpdated"
  | x s1 C ord y s2 where "order_accepted opts" "orCreate R (pending_order opts) s = (Some x, s1)" "client = Some C"
      "brCreateOrder C (eoPortfolioID opts) (broker_request opts (boOrderID x)) b = (Some ord, b')"
      "orUpdateStatus R (boOrderID x) (if OrdStatus ord \<noteq> [] then OrdStatus ord else ''executed'')
         (Some (case FilledAt ord of Some t \<Rightarrow> t | None \<Rightarrow> now)) s1 = (Some y, s2)"
      "res = Inr (y\<lparr>boPrice := fill_price (eoPrice opts) ord\<rparr>)"
      "s' = orAssignPrice R (boOrderID x) (fill_price (eoPrice opts) ord) s2"
proof (cases "order_accepted opts")
  case False
  with assms that(1) show thesis by (auto simp: ExecuteBrokerageOrder_def order_accepted_def split: if_splits)
next
  case True
  then have eq: "ExecuteBrokerageOrder R client now opts (s, b) = (case orCreate R (pending_order opts) s of
       (None, s1) \<Rightarrow> (Inl OrderNotCreated, s1, b)
     | (Some created, s1) \<Rightarrow> (case client of
         None \<Rightarrow> (Inl BrokerNotConfigured, s1, b)
       | Some C \<Rightarrow> (case brCreateOrder C (eoPortfolioID opts) (broker_request opts (boOrderID created)) b of
           (None, b1) \<Rightarrow> (Inl BrokerOrderFailed, s1, b1)
         | (Some ord, b1) \<Rightarrow>
             (case orUpdateStatus R (boOrderID created) (if OrdStatus ord \<noteq> [] then OrdStatus ord else ''executed'')
                     (Some (case FilledAt ord of Some t \<Rightarrow> t | None \<Rightarrow> now)) s1 of
                (None, s2) \<Rightarrow> (Inl OrderNotUpdated, s2, b1)
              | (Some res, s2) \<Rightarrow>
                  (Inr (res\<lparr>boPrice := fill_price (eoPrice opts) ord\<rparr>),
                   orAssignPrice R (boOrderID created) (fill_price (eoPrice opts) ord) s2, b1)))))"
    by (auto simp: ExecuteBrokerageOrder_def order_accepted_def)
  show thesis
  proof (cases "orCreate R (pending_order opts) s")
    case c: (Pair u s1)
    show thesis
    proof (cases u)
      case None
      with c eq assms show thesis by (intro that(2)) auto
    next
      case x: (Some x)
      show thesis
      proof (cases client)
        case None
        with c x eq assms True show thesis by (intro that(3)) auto
      next
        case C: (Some C)
        obtain o' b1 where br: "brCreateOrder C (eoPortfolioID opts) (broker_request opts (boOrderID x)) b = (o', b1)" by fastforce
        show thesis
        proof (cases o')
          case None
          with c x C br eq assms True show thesis by (intro that(4)) auto
        next
          case ord: (Some ord)
          obtain r s2 where u: "orUpdateStatus R (boOrderID x) (if OrdStatus ord \<noteq> [] then OrdStatus ord else ''executed'')
              (Some (case FilledAt ord of Some t \<Rightarrow> t | None \<Rightarrow> now)) s1 = (r, s2)" by fastforce
          show thesis
          proof (cases r)
            case None
            have "res = Inl OrderNotUpdated" "s' = s2" "b' = b1" using eq assms c x C br ord u None by simp_all
            with True c x C br ord u None show thesis by (intro that(5)) simp_all
          next
            case (Some y)
            have "res = Inr (y\<lparr>boPrice := fill_price (eoPrice opts) ord\<rparr>)" "b' = b1"
              "s' = orAssignPrice R (boOrderID x) (fill_price (eoPrice opts) ord) s2" using eq assms c x C br ord u Some by simp_all
            with True c x C br ord u Some show thesis by (intro that(6)) simp_all
          qed
        qed
      qed
    qed
  qed
qed

section \<open>The contract of the order repository\<close>

text \<open>
  What the order operation relies on: a created order can be found under the identifier it was
  given and has the data it was created with, an update changes the status and the time of
  execution of the order it names, and a failed operation changes nothing. \<open>row\<close> is the stored order.
\<close>

definition same_order :: "BrokerageOrder \<Rightarrow> BrokerageOrder \<Rightarrow> bool" where
  "same_order x y \<longleftrightarrow> boPortfolioID y = boPortfolioID x \<and> boBrokerName y = boBrokerName x \<and> boSymbol y = boSymbol x \<and> boSide y = boSide x
     \<and> boQuantity y = boQuantity x \<and> boStrategyID y = boStrategyID x \<and> boEventID y = boEventID x"

locale order_repository =
  fixes R :: "'s OrderRepository" and row :: "'s \<Rightarrow> string \<Rightarrow> BrokerageOrder option"
  assumes create_row: "orCreate R x s = (Some y, s') \<Longrightarrow>
      row s' (boOrderID y) = Some y \<and> same_order x y \<and> boPrice y = boPrice x \<and> boStatus y = boStatus x"
    and create_fails: "orCreate R x s = (None, s') \<Longrightarrow> s' = s"
    and update_row: "orUpdateStatus R i st e s = (Some y, s') \<Longrightarrow> row s i = Some x \<Longrightarrow>
      row s' i = Some y \<and> same_order x y \<and> boOrderID y = boOrderID x \<and> boPrice y = boPrice x \<and> boStatus y = st \<and> boExecutedAt y = e"
    and update_fails: "orUpdateStatus R i st e s = (None, s') \<Longrightarrow> s' = s"
    and assign_row: "row s i = Some x \<Longrightarrow> \<exists>z. row (orAssignPrice R i pr s) i = Some (x\<lparr>boPrice := z\<rparr>)"
begin

text \<open>An order is stored as pending before the broker is asked, and is there whatever the broker answers.\<close>

lemma pending_first:
  assumes "ExecuteBrokerageOrder R client now opts (s, b) = (res, s', b')" and "b' \<noteq> b"
  shows "\<exists>i y C. row s' i = Some y \<and> same_order (pending_order opts) y \<and> client = Some C
     \<and> b' = snd (brCreateOrder C (eoPortfolioID opts) (broker_request opts i) b)"
  using assms(1)
proof (cases rule: ExecuteBrokerageOrder_cases)
  case (broker_failed x C)
  then have "b' = snd (brCreateOrder C (eoPortfolioID opts) (broker_request opts (boOrderID x)) b)" by simp
  with create_row [OF broker_failed(2)] broker_failed(3) show ?thesis by blast
next
  case (not_updated x s1 C ord st e)
  have "s' = s1" by (rule update_fails [OF not_updated(5)])
  moreover have "b' = snd (brCreateOrder C (eoPortfolioID opts) (broker_request opts (boOrderID x)) b)" using not_updated(4) by simp
  ultimately show ?thesis using create_row [OF not_updated(2)] not_updated(3) by blast
next
  case (executed x s1 C ord y s2)
  from update_row [OF executed(5), of x] create_row [OF executed(2)]
  have y: "row s2 (boOrderID x) = Some y" "same_order (pending_order opts) y" by (auto simp: same_order_def)
  from assign_row [OF y(1)] obtain z where "row s' (boOrderID x) = Some (y\<lparr>boPrice := z\<rparr>)" using executed(7) by blast
  moreover have "same_order (pending_order opts) (y\<lparr>boPrice := z\<rparr>)" using y(2) by (simp add: same_order_def)
  moreover have "b' = snd (brCreateOrder C (eoPortfolioID opts) (broker_request opts (boOrderID x)) b)" using executed(4) by simp
  ultimately show ?thesis using executed(3) by blast
qed (use assms(2) in simp_all)

text \<open>A successful order is stored under its identifier with the broker's status and time.\<close>

lemma executed_row:
  assumes "ExecuteBrokerageOrder R client now opts (s, b) = (Inr res, s', b')"
  shows "\<exists>C ord y. client = Some C \<and> brCreateOrder C (eoPortfolioID opts) (broker_request opts (boOrderID res)) b = (Some ord, b')
    \<and> row s' (boOrderID res) = Some y \<and> same_order (pending_order opts) y
    \<and> boStatus y = (if OrdStatus ord \<noteq> [] then OrdStatus ord else ''executed'')
    \<and> boExecutedAt y = Some (case FilledAt ord of Some t \<Rightarrow> t | None \<Rightarrow> now)
    \<and> boPrice res = fill_price (eoPrice opts) ord \<and> y\<lparr>boPrice := boPrice res\<rparr> = res"
  using assms
proof (cases rule: ExecuteBrokerageOrder_cases)
  case (executed x s1 C ord y s2)
  note row = create_row [OF executed(2)]
  note upd = update_row [OF executed(5), of x]
  have y: "row s2 (boOrderID x) = Some y" "boOrderID y = boOrderID x" "same_order (pending_order opts) y"
    using row upd by (auto simp: same_order_def)
  from assign_row [OF y(1)] obtain z where "row s' (boOrderID x) = Some (y\<lparr>boPrice := z\<rparr>)" using executed(7) by blast
  with y upd row executed(3,4,6) show ?thesis
    by (intro exI [of _ C] exI [of _ ord] exI [of _ "y\<lparr>boPrice := z\<rparr>"]) (simp add: same_order_def)
qed simp_all

end

interpretation in_memory: order_repository "mock_orders now" mOrders for now
  by unfold_locales
     (auto simp: mock_orders_def CreateBrokerageOrder_def UpdateBrokerageOrderStatus_def Let_def same_order_def)

interpretation in_database: order_repository "pgx_orders uuid up now" otRows for uuid up now
proof unfold_locales
  fix x s y s' assume "orCreate (pgx_orders uuid up now) x s = (Some y, s')"
  then show "otRows s' (boOrderID y) = Some y \<and> same_order x y \<and> boPrice y = boPrice x \<and> boStatus y = boStatus x"
    by (auto simp: pgx_orders_def Let_def same_order_def split: if_splits)
next
  fix s :: order_table and i x pr assume "otRows s i = Some x"
  then show "\<exists>z. otRows (orAssignPrice (pgx_orders uuid up now) i pr s) i = Some (x\<lparr>boPrice := z\<rparr>)"
    by (intro exI [of _ "boPrice x"]) (simp add: pgx_orders_def)
qed (auto simp: pgx_orders_def Let_def same_order_def split: if_splits option.splits)

section \<open>Properties of orders\<close>


definition demo_opts :: ExecuteBrokerageOrderOpts where
  "demo_opts = \<lparr>eoPortfolioID = ''p'', eoBrokerName = ''b'', eoSymbol = ''AAPL'', eoSide = ''buy'', eoQuantity = Fin 2, eoPrice = Fin 10,
     eoStrategyID = None, eoEventID = None\<rparr>"

definition counting_broker :: "nat BrokerClient" where
  "counting_broker = \<lparr>brCreateOrder = (\<lambda>_ _ n. (None, Suc n)), brListPositions = (\<lambda>_ _. None)\<rparr>"


text \<open>When placing an order succeeds, the order that is returned carries the broker's status, the time of its
  execution and, when the broker reports a positive fill price, this price. The in-memory
  repository then holds exactly this order. The row in the database has the same status and time but keeps the
  price of the request.\<close>

theorem order_execution:
  "(case ExecuteBrokerageOrder (mock_orders now) client now opts (m, b) of
      (Inr res, m', b') \<Rightarrow> mOrders m' (boOrderID res) = Some res
        \<and> (\<exists>C ord. client = Some C \<and> brCreateOrder C (eoPortfolioID opts) (broker_request opts (boOrderID res)) b = (Some ord, b')
            \<and> boPrice res = fill_price (eoPrice opts) ord \<and> boStatus res = (if OrdStatus ord = [] then ''executed'' else OrdStatus ord)
            \<and> boExecutedAt res = Some (case FilledAt ord of Some t \<Rightarrow> t | None \<Rightarrow> now))
    | _ \<Rightarrow> True)
   \<and> (case ExecuteBrokerageOrder (pgx_orders uuid up now) client now opts (t, b) of
      (Inr res, t', b') \<Rightarrow> otRows t' (boOrderID res) = Some (res\<lparr>boPrice := eoPrice opts\<rparr>)
        \<and> (\<exists>C ord. client = Some C \<and> brCreateOrder C (eoPortfolioID opts) (broker_request opts (boOrderID res)) b = (Some ord, b')
            \<and> boPrice res = fill_price (eoPrice opts) ord \<and> boStatus res = (if OrdStatus ord = [] then ''executed'' else OrdStatus ord)
            \<and> boExecutedAt res = Some (case FilledAt ord of Some t \<Rightarrow> t | None \<Rightarrow> now))
    | _ \<Rightarrow> True)"
proof (intro conjI)
  have price: "otRows t' (boOrderID res) = Some (res\<lparr>boPrice := eoPrice opts\<rparr>)"
    if "ExecuteBrokerageOrder (pgx_orders uuid up now) client now opts (t, b) = (Inr res, t', b')" for res t' b'
    using that
  proof (cases rule: ExecuteBrokerageOrder_cases)
    case (executed x s1 C ord y s2)
    then show ?thesis by (auto simp: pgx_orders_def pending_order_def Let_def split: if_splits option.splits)
  qed simp_all
  show "case ExecuteBrokerageOrder (pgx_orders uuid up now) client now opts (t, b) of
      (Inr res, t', b') \<Rightarrow> otRows t' (boOrderID res) = Some (res\<lparr>boPrice := eoPrice opts\<rparr>)
        \<and> (\<exists>C ord. client = Some C \<and> brCreateOrder C (eoPortfolioID opts) (broker_request opts (boOrderID res)) b = (Some ord, b')
            \<and> boPrice res = fill_price (eoPrice opts) ord \<and> boStatus res = (if OrdStatus ord = [] then ''executed'' else OrdStatus ord)
            \<and> boExecutedAt res = Some (case FilledAt ord of Some t \<Rightarrow> t | None \<Rightarrow> now))
    | _ \<Rightarrow> True"
    using price in_database.executed_row [of uuid up now client now opts t b] by (fastforce split: prod.split sum.split)
  have stored: "mOrders m' (boOrderID res) = Some res"
    if "ExecuteBrokerageOrder (mock_orders now) client now opts (m, b) = (Inr res, m', b')" for res m' b'
    using that
  proof (cases rule: ExecuteBrokerageOrder_cases)
    case (executed x s1 C ord y s2)
    then show ?thesis by (auto simp: mock_orders_def CreateBrokerageOrder_def UpdateBrokerageOrderStatus_def Let_def)
  qed simp_all
  show "case ExecuteBrokerageOrder (mock_orders now) client now opts (m, b) of
      (Inr res, m', b') \<Rightarrow> mOrders m' (boOrderID res) = Some res
        \<and> (\<exists>C ord. client = Some C \<and> brCreateOrder C (eoPortfolioID opts) (broker_request opts (boOrderID res)) b = (Some ord, b')
            \<and> boPrice res = fill_price (eoPrice opts) ord \<and> boStatus res = (if OrdStatus ord = [] then ''executed'' else OrdStatus ord)
            \<and> boExecutedAt res = Some (case FilledAt ord of Some t \<Rightarrow> t | None \<Rightarrow> now))
    | _ \<Rightarrow> True"
    using stored in_memory.executed_row [of now client now opts m b] by (fastforce split: prod.split sum.split)
qed

end
