(* ===== verification/CoreLifecycle.thy ===== *)
theory CoreLifecycle
  imports CoreInvest
begin

text \<open>
  The life of a customer account, \<open>lifecycle_gdpr.go\<close>: registration with the password rules,
  closing with liquidation of the positions and payout to the bank, and erasure with its
  certificate. The state is the triple of the repository, the broker and the bank.
\<close>

section \<open>Passwords\<close>

text \<open>
  \<open>runes\<close> is Go's \<open>range\<close> over a string: UTF-8 is decoded, and a byte that does not begin a
  valid sequence counts as the replacement character. \<open>unicode.IsUpper\<close>, \<open>unicode.IsLower\<close> and
  \<open>unicode.IsDigit\<close> are written out for ASCII; \<open>uni\<close> is the Unicode table beyond it, which assigns
  a code point its class or none.
\<close>

datatype rune_class = Upper | Lower | Digit

definition cont :: "char \<Rightarrow> bool" where
  "cont c \<longleftrightarrow> (of_char c :: nat) div 64 = 2"

definition low6 :: "char \<Rightarrow> nat" where
  "low6 c = of_char c mod 64"

text \<open>The second byte of a sequence has a narrower range after \<open>E0\<close>, \<open>ED\<close>, \<open>F0\<close> and \<open>F4\<close>.\<close>

definition second_ok :: "nat \<Rightarrow> char \<Rightarrow> bool" where
  "second_ok b c \<longleftrightarrow> cont c \<and> (b = 0xE0 \<longrightarrow> 0xA0 \<le> (of_char c :: nat)) \<and> (b = 0xED \<longrightarrow> (of_char c :: nat) \<le> 0x9F)
     \<and> (b = 0xF0 \<longrightarrow> 0x90 \<le> (of_char c :: nat)) \<and> (b = 0xF4 \<longrightarrow> (of_char c :: nat) \<le> 0x8F)"

definition decode_rune :: "char \<Rightarrow> string \<Rightarrow> nat \<times> nat" where
  "decode_rune x xs = (let b = of_char x :: nat in
     if b < 0x80 then (b, 0)
     else if 0xC2 \<le> b \<and> b \<le> 0xDF then
       (case xs of y # _ \<Rightarrow> if cont y then ((b - 0xC0) * 64 + low6 y, 1) else (0xFFFD, 0) | _ \<Rightarrow> (0xFFFD, 0))
     else if 0xE0 \<le> b \<and> b \<le> 0xEF then
       (case xs of y # z # _ \<Rightarrow> if second_ok b y \<and> cont z then (((b - 0xE0) * 64 + low6 y) * 64 + low6 z, 2) else (0xFFFD, 0)
        | _ \<Rightarrow> (0xFFFD, 0))
     else if 0xF0 \<le> b \<and> b \<le> 0xF4 then
       (case xs of y # z # w # _ \<Rightarrow>
            if second_ok b y \<and> cont z \<and> cont w then ((((b - 0xF0) * 64 + low6 y) * 64 + low6 z) * 64 + low6 w, 3) else (0xFFFD, 0)
        | _ \<Rightarrow> (0xFFFD, 0))
     else (0xFFFD, 0))"

fun runes :: "string \<Rightarrow> nat list" where
  "runes [] = []"
| "runes (x # xs) = fst (decode_rune x xs) # runes (drop (snd (decode_rune x xs)) xs)"

definition IsUpper :: "(nat \<Rightarrow> rune_class option) \<Rightarrow> nat \<Rightarrow> bool" where
  "IsUpper uni r = (if r < 128 then 65 \<le> r \<and> r \<le> 90 else uni r = Some Upper)"

definition IsLower :: "(nat \<Rightarrow> rune_class option) \<Rightarrow> nat \<Rightarrow> bool" where
  "IsLower uni r = (if r < 128 then 97 \<le> r \<and> r \<le> 122 else uni r = Some Lower)"

definition IsDigit :: "(nat \<Rightarrow> rune_class option) \<Rightarrow> nat \<Rightarrow> bool" where
  "IsDigit uni r = (if r < 128 then 48 \<le> r \<and> r \<le> 57 else uni r = Some Digit)"

definition safeSpecialChars :: string where
  "safeSpecialChars = ''!@#$%^&*()-_=+[]{}|;:,.<>?/~''"

definition IsSpecial :: "nat \<Rightarrow> bool" where
  "IsSpecial r \<longleftrightarrow> r \<in> of_char ` set safeSpecialChars"

datatype password_error = TooShort | UnsafeCharacter | NoUpper | NoLower | NoDigit | NoSpecial

text \<open>The loop over the characters, with the four flags.\<close>

fun scan_password :: "(nat \<Rightarrow> rune_class option) \<Rightarrow> nat list \<Rightarrow> bool \<times> bool \<times> bool \<times> bool \<Rightarrow> (bool \<times> bool \<times> bool \<times> bool) option" where
  "scan_password uni [] flags = Some flags"
| "scan_password uni (ch # chs) (u, l, d, s) =
     (if IsUpper uni ch then scan_password uni chs (True, l, d, s)
      else if IsLower uni ch then scan_password uni chs (u, True, d, s)
      else if IsDigit uni ch then scan_password uni chs (u, l, True, s)
      else if IsSpecial ch then scan_password uni chs (u, l, d, True)
      else None)"

definition ValidatePasswordComplexity :: "(nat \<Rightarrow> rune_class option) \<Rightarrow> string \<Rightarrow> password_error option" where
  "ValidatePasswordComplexity uni pw =
     (if length pw < 8 then Some TooShort
      else (case scan_password uni (runes pw) (False, False, False, False) of
          None \<Rightarrow> Some UnsafeCharacter
        | Some (hasUpper, hasLower, hasDigit, hasSpecial) \<Rightarrow>
            if \<not> hasUpper then Some NoUpper else if \<not> hasLower then Some NoLower
            else if \<not> hasDigit then Some NoDigit else if \<not> hasSpecial then Some NoSpecial else None))"

section \<open>Registration\<close>

record CustomerRegistrationRequest =
  rqFullName :: string
  rqEmail :: string
  rqPassword :: string
  rqBankPublicToken :: string
  rqTargetFund :: string

record CustomerRegistrationResult =
  rrCustomerID :: string
  rrCustomerName :: string
  rrEmail :: string
  rrZitadelUserID :: string
  rrEmailVerified :: bool
  rrPortfolioID :: string
  rrStartingBalance :: float64
  rrLinkedBankAccID :: string

definition slice :: "nat \<Rightarrow> nat \<Rightarrow> 'a list \<Rightarrow> 'a list" where
  "slice i j xs = take (j - i) (drop i xs)"

text \<open>The five groups of \<open>%x\<close> print byte slices whose hexadecimal text already has the asked width.\<close>

definition customer_id :: "string \<Rightarrow> string" where
  "customer_id h = EncodeToString (slice 0 4 h) @ ''-'' @ EncodeToString (slice 4 6 h) @ ''-'' @ EncodeToString (slice 6 8 h)
     @ ''-'' @ EncodeToString (slice 8 10 h) @ ''-'' @ EncodeToString (slice 10 16 h)"

text \<open>\<open>fmt_date\<close> is \<open>Format("2006-01-02")\<close> for years of four digits.\<close>

definition pad2 :: "int \<Rightarrow> string" where
  "pad2 n = (if n < 10 then CHR ''0'' # dec_int n else dec_int n)"

definition fmt_date :: "time \<Rightarrow> string" where
  "fmt_date t = (case civil (t div day) of (y, m, d) \<Rightarrow> dec_int y @ ''-'' @ pad2 m @ ''-'' @ pad2 d)"

definition new_portfolio :: "time \<Rightarrow> string \<Rightarrow> CustomerRegistrationRequest \<Rightarrow> Portfolio" where
  "new_portfolio now custID req = \<lparr>pfPortfolioID = ''port-'' @ custID, pfCustomerID = custID, pfCustomerName = rqFullName req,
     pfAccountName = (if rqTargetFund req = [] then ''OCI Alpha Growth Fund'' else rqTargetFund req),
     pfTotalBalanceUSD = Fin 0, pfCashBalanceUSD = Fin 0, pfStatus = ''active'', pfHoldings = [],
     pfHistoricalPerf = [[''date'' \<mapsto> DString (fmt_date now), ''valuation'' \<mapsto> DFloat64 (Fin 0)]],
     pfCreatedAt = now, pfUpdatedAt = now\<rparr>"

definition link_bank :: "'k BankClient option \<Rightarrow> string \<Rightarrow> string \<Rightarrow> string \<Rightarrow> 'k \<Rightarrow> string \<times> 'k" where
  "link_bank bank token custID slug k =
     (if token = [] then ([], k)
      else (case bank of
          None \<Rightarrow> ([], k)
        | Some K \<Rightarrow> (case bkExchangePublicToken K token custID k of
            (Some t, k') \<Rightarrow> (if t \<noteq> [] then ''bank-acc-'' @ slug else [], k')
          | (None, k') \<Rightarrow> ([], k'))))"

definition RegisterCustomer ::
    "(string \<Rightarrow> string) \<Rightarrow> (nat \<Rightarrow> rune_class option) \<Rightarrow> 'k BankClient option \<Rightarrow> time \<Rightarrow> CustomerRegistrationRequest
      \<Rightarrow> mockRepository \<times> 'k \<Rightarrow> (svc_error + CustomerRegistrationResult) \<times> mockRepository \<times> 'k" where
  "RegisterCustomer sha uni bank now req st = (case st of (m, k) \<Rightarrow>
     if TrimSpace (rqFullName req) = [] then (Inl NameRequired, m, k)
     else if \<not> Contains (rqEmail req) ''@'' \<or> \<not> Contains (rqEmail req) ''.'' then (Inl EmailInvalid, m, k)
     else if ValidatePasswordComplexity uni (rqPassword req) \<noteq> None then (Inl PasswordRefused, m, k)
     else
       let h = sha (rqEmail req @ '':'' @ rqFullName req); custID = customer_id h;
           (a, m') = CoreRepo.CreatePortfolio now (new_portfolio now custID req) m;
           (linked, k') = link_bank bank (rqBankPublicToken req) custID (EncodeToString (slice 0 6 h)) k
       in (Inr \<lparr>rrCustomerID = custID, rrCustomerName = rqFullName req, rrEmail = rqEmail req,
             rrZitadelUserID = ''zitadel-usr-'' @ EncodeToString (slice 6 12 h), rrEmailVerified = True,
             rrPortfolioID = ''port-'' @ custID, rrStartingBalance = Fin 0, rrLinkedBankAccID = linked\<rparr>, m', k'))"

section \<open>Closing an account\<close>

record CloseAccountRequest =
  caCustomerID :: string
  caPortfolioID :: string
  caDestinationAccountID :: string

record LiquidationResult =
  lqCustomerID :: string
  lqPortfolioID :: string
  lqAccountStatus :: string
  lqLiquidatedPositions :: int
  lqGrossProceedsUSD :: float64
  lqTransferredToBankUSD :: float64
  lqTransferID :: string
  lqDestinationAccountID :: string
  lqSettlementDate :: time

definition sell_request :: "Position \<Rightarrow> CreateOrderRequest" where
  "sell_request pos = \<lparr>ReqSymbol = Symbol pos, ReqQty = Qty pos, ReqSide = ''sell'', ReqType = ''market'',
     ReqTimeInForce = ''day'', ReqLimitPrice = None, ReqClientOrderID = []\<rparr>"

text \<open>The answer of the broker to a sell order is not looked at.\<close>

fun liquidate :: "'b BrokerClient \<Rightarrow> string \<Rightarrow> Position list \<Rightarrow> float64 \<times> int \<times> 'b \<Rightarrow> float64 \<times> int \<times> 'b" where
  "liquidate C account [] acc = acc"
| "liquidate C account (pos # ps) (gross, n, b) =
     (if flt (Fin 0) (Qty pos)
      then liquidate C account ps (fadd gross (MarketValue pos), n + 1, snd (brCreateOrder C account (sell_request pos) b))
      else liquidate C account ps (gross, n, b))"

definition liquidate_all :: "'b BrokerClient option \<Rightarrow> string \<Rightarrow> 'b \<Rightarrow> float64 \<times> int \<times> 'b" where
  "liquidate_all broker account b = (case broker of
     None \<Rightarrow> (Fin 0, 0, b)
   | Some C \<Rightarrow> (case brListPositions C account b of
       None \<Rightarrow> (Fin 0, 0, b)
     | Some ps \<Rightarrow> liquidate C account ps (Fin 0, 0, b)))"

fun sum_holdings :: "(string, dyn) gomap list \<Rightarrow> float64 \<times> int \<Rightarrow> float64 \<times> int" where
  "sum_holdings [] acc = acc"
| "sum_holdings (h # hs) (gross, n) = (case h ''market_value'' of
     Some (DFloat64 mv) \<Rightarrow> sum_holdings hs (fadd gross mv, n + 1)
   | _ \<Rightarrow> sum_holdings hs (gross, n))"

definition destination :: "'k BankClient \<Rightarrow> string \<Rightarrow> string \<Rightarrow> 'k \<Rightarrow> string" where
  "destination K dest customerID k =
     (let d = (if dest = []
               then (case bkGetAccounts K customerID k of Some (acc # _) \<Rightarrow> AccountID acc | _ \<Rightarrow> dest) else dest)
      in if d = [] then ''acc_'' @ customerID @ ''_primary'' else d)"

definition pay_out ::
    "'k BankClient option \<Rightarrow> string \<Rightarrow> string \<Rightarrow> float64 \<Rightarrow> 'k \<Rightarrow> string \<times> string \<times> 'k" where
  "pay_out bank dest customerID totalCashTransfer k = (case bank of
     None \<Rightarrow> (dest, [], k)
   | Some K \<Rightarrow>
       let d = destination K dest customerID k
       in if flt (Fin 0) totalCashTransfer
          then (case bkCreateTransfer K d totalCashTransfer ''credit'' ''OCI Portfolio Liquidation & Account Closure Net Settlement'' k of
                  (Some tx, k') \<Rightarrow> (d, TransferID tx, k')
                | (None, k') \<Rightarrow> (d, [], k'))
          else (d, [], k))"

definition close_portfolio :: "Portfolio \<Rightarrow> Portfolio" where
  "close_portfolio p = p\<lparr>pfTotalBalanceUSD := Fin 0, pfCashBalanceUSD := Fin 0, pfStatus := ''closed'', pfHoldings := []\<rparr>"

definition CloseAndLiquidateAccount ::
    "'b BrokerClient option \<Rightarrow> 'k BankClient option \<Rightarrow> string list \<Rightarrow> time \<Rightarrow> CloseAccountRequest
      \<Rightarrow> mockRepository \<times> 'b \<times> 'k \<Rightarrow> (svc_error + LiquidationResult) \<times> mockRepository \<times> 'b \<times> 'k" where
  "CloseAndLiquidateAccount broker bank ord now req st = (case st of (m, b, k) \<Rightarrow>
     if caCustomerID req = [] \<and> caPortfolioID req = [] then (Inl IdRequired, m, b, k)
     else
       let target = (if caPortfolioID req = [] then caCustomerID req else caPortfolioID req)
       in (case GetPortfolio ord now target m of
             (Inl _, m1) \<Rightarrow> (Inl PortfolioNotFound, m1, b, k)
           | (Inr a, m1) \<Rightarrow> (case mHeap m1 a of
               None \<Rightarrow> (Inl PortfolioNotFound, m1, b, k)
             | Some p \<Rightarrow>
                 let (gross0, n0, b') = liquidate_all broker (pfPortfolioID p) b;
                     (gross, n) = (if n0 = 0 then sum_holdings (pfHoldings p) (gross0, n0) else (gross0, n0));
                     totalCashTransfer = fadd (pfCashBalanceUSD p) gross;
                     (dest, tid, k') = pay_out bank (caDestinationAccountID req) (pfCustomerID p) totalCashTransfer k
                 in (Inr \<lparr>lqCustomerID = pfCustomerID p, lqPortfolioID = pfPortfolioID p, lqAccountStatus = ''closed'',
                       lqLiquidatedPositions = n, lqGrossProceedsUSD = gross, lqTransferredToBankUSD = totalCashTransfer,
                       lqTransferID = (if tid = [] then ''ach-disb-'' @ dec_int now else tid),
                       lqDestinationAccountID = (if dest = [] then ''acc_'' @ pfCustomerID p @ ''_primary'' else dest),
                       lqSettlementDate = now + 24 * hour\<rparr>,
                     UpdatePortfolio now a (m1\<lparr>mHeap := (mHeap m1)(a \<mapsto> close_portfolio p)\<rparr>), b', k'))))"

section \<open>Erasure\<close>

record GDPRDeletionCertificate =
  dcCertificateID :: string
  dcCustomerIDHash :: string
  dcCustomerEmailHash :: string
  dcErasureTimestamp :: time
  dcLegalBasis :: string
  dcSupervisoryAuthority :: string
  dcTablesScrubbed :: "string list"
  dcSessionsPurgedCount :: int
  dcRecordsScrubbedCount :: int
  dcDigitalSignature :: string
  dcComplianceStatement :: string

definition unix :: "time \<Rightarrow> int" where
  "unix t = t div second"

definition certificate_record ::
    "(string \<Rightarrow> string) \<Rightarrow> (string \<Rightarrow> string \<Rightarrow> string) \<Rightarrow> time \<Rightarrow> string \<Rightarrow> string \<Rightarrow> GDPRErasureStats \<Rightarrow> GDPRCertificateRecord" where
  "certificate_record sha hmac now customerID email stats =
     (let certID = ''cert-gdpr-'' @ dec_int now;
          custHash = (if geCustomerIDHash stats = [] then EncodeToString (sha customerID) else geCustomerIDHash stats);
          emailHash = (if email \<noteq> [] then EncodeToString (sha email) else custHash)
      in \<lparr>gcCertificateID = certID, gcCustomerIDHash = custHash, gcCustomerEmailHash = emailHash,
          gcLegalBasis = ''GDPR Article 17 - Right to Erasure / Right to be Forgotten'',
          gcSupervisoryAuthority = ''Orange Cat Investments Data Protection Office'',
          gcTablesScrubbed = geTablesScrubbed stats, gcSessionsPurgedCount = 1, gcRecordsScrubbedCount = geRecordsScrubbedCount stats,
          gcDigitalSignature = EncodeToString (hmac ''oci-gdpr-erasure-compliance-key-2026''
            (certID @ '':'' @ custHash @ '':'' @ emailHash @ '':'' @ dec_int (unix now))),
          gcComplianceStatement = ''Permanent and irrecoverable erasure of personal data executed in accordance with GDPR Article 17.'',
          gcCreatedAt = now\<rparr>)"

definition certificate_of :: "GDPRCertificateRecord \<Rightarrow> GDPRDeletionCertificate" where
  "certificate_of r = \<lparr>dcCertificateID = gcCertificateID r, dcCustomerIDHash = gcCustomerIDHash r, dcCustomerEmailHash = gcCustomerEmailHash r,
     dcErasureTimestamp = gcCreatedAt r, dcLegalBasis = gcLegalBasis r, dcSupervisoryAuthority = gcSupervisoryAuthority r,
     dcTablesScrubbed = gcTablesScrubbed r, dcSessionsPurgedCount = gcSessionsPurgedCount r, dcRecordsScrubbedCount = gcRecordsScrubbedCount r,
     dcDigitalSignature = gcDigitalSignature r, dcComplianceStatement = gcComplianceStatement r\<rparr>"

definition ExecuteGDPRErasure ::
    "(string \<Rightarrow> string) \<Rightarrow> (string \<Rightarrow> string \<Rightarrow> string) \<Rightarrow> string list \<Rightarrow> string list \<Rightarrow> time \<Rightarrow> string \<Rightarrow> string
      \<Rightarrow> mockRepository \<Rightarrow> (svc_error + GDPRDeletionCertificate) \<times> mockRepository" where
  "ExecuteGDPRErasure sha hmac dord pord now customerID email m =
     (if customerID = [] then (Inl IdRequired, m)
      else let (stats, m1) = CoreRepo.ExecuteGDPRErasure sha dord pord now customerID m;
               r = certificate_record sha hmac now customerID email stats
           in (Inr (certificate_of r), snd (CreateGDPRErasureCertificate now r m1)))"

definition GetGDPRErasureCertificate :: "string \<Rightarrow> mockRepository \<Rightarrow> svc_error + GDPRCertificateRecord" where
  "GetGDPRErasureCertificate i m = (if i = [] then Inl IdRequired else map_sum RepoError id (GetGDPRErasureCertificateByID i m))"

section \<open>Properties of passwords and registration\<close>

lemma special_class:
  assumes "IsSpecial r"
  shows "\<not> IsUpper uni r" "\<not> IsLower uni r" "\<not> IsDigit uni r"
  using assms by (auto simp: IsSpecial_def safeSpecialChars_def IsUpper_def IsLower_def IsDigit_def)

lemma class_exclusive:
  "IsUpper uni r \<Longrightarrow> \<not> IsLower uni r" "IsUpper uni r \<Longrightarrow> \<not> IsDigit uni r" "IsLower uni r \<Longrightarrow> \<not> IsDigit uni r"
  by (auto simp: IsUpper_def IsLower_def IsDigit_def split: if_splits)

definition allowed_rune :: "(nat \<Rightarrow> rune_class option) \<Rightarrow> nat \<Rightarrow> bool" where
  "allowed_rune uni r \<longleftrightarrow> IsUpper uni r \<or> IsLower uni r \<or> IsDigit uni r \<or> IsSpecial r"

lemma scan_password_eq:
  "scan_password uni rs (u, l, d, s) =
     (if list_all (allowed_rune uni) rs
      then Some (u \<or> list_ex (IsUpper uni) rs, l \<or> list_ex (IsLower uni) rs, d \<or> list_ex (IsDigit uni) rs,
                 s \<or> list_ex IsSpecial rs)
      else None)"
proof (induction rs arbitrary: u l d s)
  case (Cons r rs)
  consider "IsUpper uni r" | "IsLower uni r" | "IsDigit uni r" | "IsSpecial r" | "\<not> allowed_rune uni r"
    unfolding allowed_rune_def by blast
  then show ?case
    by cases (use Cons.IH in \<open>auto simp: allowed_rune_def dest: class_exclusive special_class [of _ uni]\<close>)
qed simp

text \<open>A password is accepted exactly when it has at least eight bytes, every character is an upper-case
  or lower-case letter, a digit or one of the listed special characters, and each of the four
  kinds occurs.\<close>

theorem password_rules:
  "ValidatePasswordComplexity uni pw = None \<longleftrightarrow>
     8 \<le> length pw \<and> list_all (allowed_rune uni) (runes pw) \<and> list_ex (IsUpper uni) (runes pw) \<and> list_ex (IsLower uni) (runes pw)
     \<and> list_ex (IsDigit uni) (runes pw) \<and> list_ex IsSpecial (runes pw)"
  by (simp add: ValidatePasswordComplexity_def scan_password_eq not_less [symmetric])

lemma CreatePortfolio_lookup:
  assumes "CoreRepo.CreatePortfolio now p m = (a, m')" and "pfPortfolioID p \<noteq> []"
  shows "deref m' (pfCustomerID p) = Some (p\<lparr>pfCreatedAt := now, pfUpdatedAt := now\<rparr>)"
    and "deref m' (pfPortfolioID p) = Some (p\<lparr>pfCreatedAt := now, pfUpdatedAt := now\<rparr>)"
    and "k \<noteq> pfCustomerID p \<Longrightarrow> k \<noteq> pfPortfolioID p \<Longrightarrow> repo_inv m \<Longrightarrow> deref m' k = deref m k"
proof -
  have m': "m' = m\<lparr>mHeap := (mHeap m)(mNext m \<mapsto> p\<lparr>pfCreatedAt := now, pfUpdatedAt := now\<rparr>), mNext := Suc (mNext m),
      mPortfolios := (mPortfolios m)(pfPortfolioID p \<mapsto> mNext m, pfCustomerID p \<mapsto> mNext m)\<rparr>"
    using assms by (auto simp: CoreRepo.CreatePortfolio_def alloc_def Let_def)
  show "deref m' (pfCustomerID p) = Some (p\<lparr>pfCreatedAt := now, pfUpdatedAt := now\<rparr>)"
    "deref m' (pfPortfolioID p) = Some (p\<lparr>pfCreatedAt := now, pfUpdatedAt := now\<rparr>)"
    by (simp_all add: m' deref_def)
  show "deref m' k = deref m k" if "k \<noteq> pfCustomerID p" "k \<noteq> pfPortfolioID p" "repo_inv m"
    using that repo_invD(1,4) [OF that(3)] by (fastforce simp: m' deref_def entry_ok_def split: option.split)
qed

lemma GetPortfolio_found:
  assumes "deref m i = Some p" and "i \<noteq> []"
  shows "\<exists>a. GetPortfolio ord now i m = (Inr a, m) \<and> mPortfolios m i = Some a \<and> mHeap m a = Some p"
  using assms by (auto simp: GetPortfolio_def GetPortfolioByCustomerID_def deref_def split: option.splits)

lemma customer_id_nonempty: "customer_id h \<noteq> []"
  by (simp add: customer_id_def)

text \<open>A registration with a name, a plausible address and an acceptable password succeeds, whatever is
  stored: the customer and portfolio identifiers are those computed from the hash of address and
  name, and both now lead to an active portfolio in the customer's name with no money and no holdings,
  in place of any portfolio they led to before; every other key of the repository leads where it did.\<close>

theorem registration:
  fixes sha :: "string \<Rightarrow> string"
  assumes "repo_inv m" and "TrimSpace (rqFullName req) \<noteq> []" and "Contains (rqEmail req) ''@''" "Contains (rqEmail req) ''.''"
    and "ValidatePasswordComplexity uni (rqPassword req) = None"
  defines "c \<equiv> customer_id (sha (rqEmail req @ '':'' @ rqFullName req))"
  shows "\<exists>r m' k' p. RegisterCustomer sha uni bank now req (m, k) = (Inr r, m', k')
    \<and> rrCustomerID r = c \<and> rrPortfolioID r = ''port-'' @ c
    \<and> deref m' c = Some p \<and> deref m' (''port-'' @ c) = Some p
    \<and> pfCustomerID p = c \<and> pfCustomerName p = rqFullName req \<and> pfStatus p = ''active''
    \<and> pfTotalBalanceUSD p = Fin 0 \<and> pfCashBalanceUSD p = Fin 0 \<and> pfHoldings p = []
    \<and> (\<forall>i. i \<noteq> c \<and> i \<noteq> ''port-'' @ c \<longrightarrow> deref m' i = deref m i)"
proof -
  obtain a m' where cp: "CoreRepo.CreatePortfolio now (new_portfolio now c req) m = (a, m')" by fastforce
  obtain l k' where lk: "link_bank bank (rqBankPublicToken req) c (EncodeToString (slice 0 6 (sha (rqEmail req @ '':'' @ rqFullName req)))) k = (l, k')"
    by fastforce
  define p where "p = (new_portfolio now c req)\<lparr>pfCreatedAt := now, pfUpdatedAt := now\<rparr>"
  have reg: "\<exists>r. RegisterCustomer sha uni bank now req (m, k) = (Inr r, m', k') \<and> rrCustomerID r = c \<and> rrPortfolioID r = ''port-'' @ c"
    using assms(2-5) cp lk by (simp add: RegisterCustomer_def c_def Let_def)
  have ids: "pfPortfolioID (new_portfolio now c req) = ''port-'' @ c" "pfCustomerID (new_portfolio now c req) = c"
    by (simp_all add: new_portfolio_def)
  note look = CreatePortfolio_lookup [OF cp, unfolded ids p_def [symmetric]]
  have d: "deref m' c = Some p" "deref m' (''port-'' @ c) = Some p" using look(1,2) by simp_all
  have o: "\<forall>i. i \<noteq> c \<and> i \<noteq> ''port-'' @ c \<longrightarrow> deref m' i = deref m i" using look(3) assms(1) by simp
  have f: "pfCustomerID p = c" "pfCustomerName p = rqFullName req" "pfStatus p = ''active''"
    "pfTotalBalanceUSD p = Fin 0" "pfCashBalanceUSD p = Fin 0" "pfHoldings p = []"
    by (simp_all add: p_def new_portfolio_def)
  from reg obtain r where "RegisterCustomer sha uni bank now req (m, k) = (Inr r, m', k')" "rrCustomerID r = c" "rrPortfolioID r = ''port-'' @ c"
    by blast
  with d f o show ?thesis by blast
qed

definition demo_registration :: CustomerRegistrationRequest where
  "demo_registration = \<lparr>rqFullName = ''Ann'', rqEmail = ''a@b.c'', rqPassword = ''Abcdef1!'', rqBankPublicToken = [], rqTargetFund = []\<rparr>"

lemma demo_registration_ok:
  "TrimSpace (rqFullName demo_registration) \<noteq> []" "Contains (rqEmail demo_registration) ''@''" "Contains (rqEmail demo_registration) ''.''"
  "ValidatePasswordComplexity uni (rqPassword demo_registration) = None"
proof -
  show "TrimSpace (rqFullName demo_registration) \<noteq> []" by (simp add: demo_registration_def TrimSpace_def is_space_def)
  show "Contains (rqEmail demo_registration) ''@''" "Contains (rqEmail demo_registration) ''.''"
    by (simp_all add: demo_registration_def Contains_def sublist_Cons_right)
  have "runes (rqPassword demo_registration) = [65, 98, 99, 100, 101, 102, 49, 33]"
    by (simp add: demo_registration_def decode_rune_def)
  then show "ValidatePasswordComplexity uni (rqPassword demo_registration) = None"
    by (simp add: ValidatePasswordComplexity_def IsUpper_def IsLower_def IsDigit_def IsSpecial_def safeSpecialChars_def) (simp add: demo_registration_def)
qed

theorem registration_witness:
  "\<exists>p. deref (fst (snd (RegisterCustomer id Map.empty None 5 demo_registration (NewMockRepository 0, ()))))
      (customer_id (id (rqEmail demo_registration @ '':'' @ rqFullName demo_registration))) = Some p
    \<and> pfCustomerName p = rqFullName demo_registration \<and> pfCashBalanceUSD p = Fin 0"
proof -
  from registration [OF seed_inv [of 0] demo_registration_ok, where sha = id and uni = Map.empty and bank = None and now = 5 and k = "()"]
  show ?thesis by (elim exE conjE) (intro exI conjI, simp_all only: fst_conv snd_conv)
qed

section \<open>Properties of closing\<close>

definition close_target :: "CloseAccountRequest \<Rightarrow> string" where
  "close_target req = (if caPortfolioID req = [] then caCustomerID req else caPortfolioID req)"

definition proceeds :: "'b BrokerClient option \<Rightarrow> Portfolio \<Rightarrow> 'b \<Rightarrow> float64 \<times> int" where
  "proceeds broker p b = (case liquidate_all broker (pfPortfolioID p) b of (g, n, _) \<Rightarrow>
     if n = 0 then sum_holdings (pfHoldings p) (g, n) else (g, n))"

definition payout :: "'b BrokerClient option \<Rightarrow> Portfolio \<Rightarrow> 'b \<Rightarrow> float64" where
  "payout broker p b = fadd (pfCashBalanceUSD p) (fst (proceeds broker p b))"

text \<open>What a closing does, once the portfolio is found.\<close>

lemma CloseAndLiquidateAccount_eq:
  assumes "close_target req \<noteq> []" and "GetPortfolioByCustomerID ord now (close_target req) m = (a, m1)" and "mHeap m1 a = Some p"
  shows "\<exists>r. CloseAndLiquidateAccount broker bank ord now req (m, b, k)
      = (Inr r, UpdatePortfolio now a (m1\<lparr>mHeap := (mHeap m1)(a \<mapsto> close_portfolio p)\<rparr>),
         snd (snd (liquidate_all broker (pfPortfolioID p) b)),
         snd (snd (pay_out bank (caDestinationAccountID req) (pfCustomerID p) (payout broker p b) k)))
    \<and> lqTransferredToBankUSD r = payout broker p b \<and> lqGrossProceedsUSD r = fst (proceeds broker p b)
    \<and> lqLiquidatedPositions r = snd (proceeds broker p b) \<and> lqCustomerID r = pfCustomerID p"
proof -
  obtain g n b' where l: "liquidate_all broker (pfPortfolioID p) b = (g, n, b')" by (metis prod_cases3)
  obtain g' n' where s: "proceeds broker p b = (g', n')" by fastforce
  obtain d t k' where o: "pay_out bank (caDestinationAccountID req) (pfCustomerID p) (payout broker p b) k = (d, t, k')" by (metis prod_cases3)
  have "\<not> (caCustomerID req = [] \<and> caPortfolioID req = [])" using assms(1) by (auto simp: close_target_def)
  moreover have "GetPortfolio ord now (close_target req) m = (Inr a, m1)" using assms(1,2) by (simp add: GetPortfolio_def)
  moreover have "(if n = 0 then sum_holdings (pfHoldings p) (g, n) else (g, n)) = (g', n')" using s l by (simp add: proceeds_def)
  moreover have "payout broker p b = fadd (pfCashBalanceUSD p) g'" by (simp add: payout_def s)
  ultimately show ?thesis
    using assms(3) l s o by (simp add: CloseAndLiquidateAccount_def close_target_def [symmetric] Let_def)
qed

lemma closed_lookup:
  fixes now :: time
  assumes "mHeap m1 a = Some p" and "pfCustomerID p = i \<or> pfPortfolioID p = i" and "i \<noteq> []"
  defines "m' \<equiv> UpdatePortfolio now a (m1\<lparr>mHeap := (mHeap m1)(a \<mapsto> close_portfolio p)\<rparr>)"
  shows "mPortfolios m' i = Some a" and "mHeap m' a = Some ((close_portfolio p)\<lparr>pfUpdatedAt := now\<rparr>)"
  using assms by (auto simp: UpdatePortfolio_def close_portfolio_def Let_def)

lemma liquidate_none:
  assumes "\<forall>pos \<in> set ps. \<not> flt (Fin 0) (Qty pos)" shows "liquidate C account ps acc = acc"
  using assms by (induction C account ps acc rule: liquidate.induct) auto

definition nothing_held :: "'b BrokerClient option \<Rightarrow> string \<Rightarrow> 'b \<Rightarrow> bool" where
  "nothing_held broker account b = (case broker of None \<Rightarrow> True
     | Some C \<Rightarrow> (case brListPositions C account b of None \<Rightarrow> True | Some ps \<Rightarrow> list_all (\<lambda>pos. \<not> flt (Fin 0) (Qty pos)) ps))"

lemma liquidate_all_none: "nothing_held broker account b \<Longrightarrow> liquidate_all broker account b = (Fin 0, 0, b)"
  by (auto simp: nothing_held_def liquidate_all_def list_all_iff liquidate_none split: option.splits)

lemma closed_pays_nothing:
  assumes "pfCashBalanceUSD p = Fin 0" "pfHoldings p = []" and "nothing_held broker (pfPortfolioID p) b"
  shows "payout broker p b = Fin 0" and "snd (snd (liquidate_all broker (pfPortfolioID p) b)) = b"
    and "snd (snd (pay_out bank dest c (payout broker p b) k)) = k"
  using assms by (simp_all add: payout_def proceeds_def liquidate_all_none pay_out_def Let_def split: option.split)

text \<open>Closing an account by customer or portfolio identifier always succeeds on a consistent repository: every
  position of positive quantity that the broker lists is sold, the sum of the cash and of the market
  value of these positions (of the recorded holdings when the broker lists none) is transferred, and the
  identifier then leads to a closed portfolio with no money and no holdings. When the broker holds
  nothing of this account afterwards, closing again transfers nothing and leaves broker and bank alone.\<close>

theorem close_account:
  assumes "repo_inv m" and "close_target req \<noteq> []"
  shows "\<exists>r m' b' k' a m1 p q. CloseAndLiquidateAccount broker bank ord now req (m, b, k) = (Inr r, m', b', k')
    \<and> GetPortfolio ord now (close_target req) m = (Inr a, m1) \<and> mHeap m1 a = Some p
    \<and> (pfCustomerID p = close_target req \<or> pfPortfolioID p = close_target req)
    \<and> lqTransferredToBankUSD r = payout broker p b
    \<and> b' = snd (snd (liquidate_all broker (pfPortfolioID p) b))
    \<and> k' = snd (snd (pay_out bank (caDestinationAccountID req) (pfCustomerID p) (payout broker p b) k))
    \<and> deref m' (close_target req) = Some q \<and> pfStatus q = ''closed'' \<and> pfCashBalanceUSD q = Fin 0
    \<and> pfTotalBalanceUSD q = Fin 0 \<and> pfHoldings q = []
    \<and> (nothing_held broker (pfPortfolioID p) b' \<longrightarrow>
        (\<exists>r2 m2. CloseAndLiquidateAccount broker bank ord later req (m', b', k') = (Inr r2, m2, b', k')
          \<and> lqTransferredToBankUSD r2 = Fin 0))"
proof -
  let ?i = "close_target req"
  obtain a m1 where g: "GetPortfolioByCustomerID ord now ?i m = (a, m1)" by fastforce
  from GetPortfolioByCustomerID_alloc [OF assms(1) g] obtain p
    where p: "mHeap m1 a = Some p" "pfCustomerID p = ?i \<or> pfPortfolioID p = ?i" by blast
  define m' where "m' = UpdatePortfolio now a (m1\<lparr>mHeap := (mHeap m1)(a \<mapsto> close_portfolio p)\<rparr>)"
  define q where "q = (close_portfolio p)\<lparr>pfUpdatedAt := now\<rparr>"
  define b' where "b' = snd (snd (liquidate_all broker (pfPortfolioID p) b))"
  define k' where "k' = snd (snd (pay_out bank (caDestinationAccountID req) (pfCustomerID p) (payout broker p b) k))"
  from CloseAndLiquidateAccount_eq [OF assms(2) g p(1), of broker bank b k] obtain r
    where r: "CloseAndLiquidateAccount broker bank ord now req (m, b, k) = (Inr r, m', b', k')" "lqTransferredToBankUSD r = payout broker p b"
    unfolding m'_def b'_def k'_def by blast
  have look: "mPortfolios m' ?i = Some a" "mHeap m' a = Some q"
    using closed_lookup [OF p assms(2), of now] by (simp_all add: m'_def q_def)
  have q: "pfStatus q = ''closed''" "pfCashBalanceUSD q = Fin 0" "pfTotalBalanceUSD q = Fin 0" "pfHoldings q = []" "pfPortfolioID q = pfPortfolioID p"
    by (simp_all add: q_def close_portfolio_def)
  have "GetPortfolioByCustomerID ord later ?i m' = (a, m')" using look(1) by (simp add: GetPortfolioByCustomerID_def)
  note again = CloseAndLiquidateAccount_eq [OF assms(2) this look(2), of broker bank b' k']
  have second: "nothing_held broker (pfPortfolioID p) b' \<longrightarrow>
      (\<exists>r2 m2. CloseAndLiquidateAccount broker bank ord later req (m', b', k') = (Inr r2, m2, b', k') \<and> lqTransferredToBankUSD r2 = Fin 0)"
    using again closed_pays_nothing [OF q(2,4), of broker b'] q(5) by (metis)
  have d: "deref m' ?i = Some q" using look by (simp add: deref_def)
  have f: "GetPortfolio ord now ?i m = (Inr a, m1)" using g assms(2) by (simp add: GetPortfolio_def)
  show ?thesis
    by (rule exI [of _ r], rule exI [of _ m'], rule exI [of _ b'], rule exI [of _ k'], rule exI [of _ a], rule exI [of _ m1],
        rule exI [of _ p], rule exI [of _ q]) (intro conjI r f p d q(1-4) second, simp_all only: b'_def k'_def)
qed

definition demo_close :: CloseAccountRequest where
  "demo_close = \<lparr>caCustomerID = arthur, caPortfolioID = [], caDestinationAccountID = []\<rparr>"

lemma demo_close_target: "close_target demo_close = arthur" "arthur \<noteq> []"
  by (simp_all add: demo_close_def close_target_def arthur_def)

theorem close_account_witness:
  "\<exists>r m' b' k' q. CloseAndLiquidateAccount (None :: unit BrokerClient option) (None :: unit BankClient option) [] 5 demo_close (NewMockRepository 0, (), ())
      = (Inr r, m', b', k') \<and> deref m' arthur = Some q \<and> pfStatus q = ''closed'' \<and> pfCashBalanceUSD q = Fin 0"
proof -
  have "close_target demo_close \<noteq> []" by (simp add: demo_close_target)
  from close_account [OF seed_inv [of 0] this, of "None :: unit BrokerClient option" "None :: unit BankClient option" "[]" 5 "()" "()" 6,
      unfolded demo_close_target(1)]
  show ?thesis by (elim exE conjE) (intro exI conjI)
qed

text \<open>Closing does not depend on whether the payout was accepted: with any other bank in any state, in
  particular one that refuses every transfer, the repository ends up the same and the same
  amount is reported as transferred. Nor does it depend on whether the broker accepted the sales: with a
  broker that lists positions and refuses every order, each further closing reports the market value of
  these positions as transferred once more.\<close>

theorem close_unchecked:
  assumes "repo_inv m" and "close_target req \<noteq> []"
    and "CloseAndLiquidateAccount broker bank ord now req (m, b, k) = (Inr r, m', b', k')"
  shows "(\<exists>r2 k2'. CloseAndLiquidateAccount broker bank2 ord now req (m, b, k2) = (Inr r2, m', b', k2')
      \<and> lqTransferredToBankUSD r2 = lqTransferredToBankUSD r)
    \<and> (\<forall>C ps. broker = Some C \<and> (\<forall>account. brListPositions C account b = Some ps) \<and> (\<forall>account rq. brCreateOrder C account rq b = (None, b))
        \<and> list_ex (\<lambda>pos. flt (Fin 0) (Qty pos)) ps \<longrightarrow>
        (\<exists>r2 m2 k2. CloseAndLiquidateAccount broker bank ord later req (m', b', k') = (Inr r2, m2, b', k2)
          \<and> lqTransferredToBankUSD r2 = fadd (Fin 0) (foldl fadd (Fin 0) (map MarketValue (filter (\<lambda>pos. flt (Fin 0) (Qty pos)) ps)))))"
proof -
  let ?i = "close_target req"
  obtain a m1 where g: "GetPortfolioByCustomerID ord now ?i m = (a, m1)" by fastforce
  from GetPortfolioByCustomerID_alloc [OF assms(1) g] obtain p
    where p: "mHeap m1 a = Some p" "pfCustomerID p = ?i \<or> pfPortfolioID p = ?i" by blast
  note eq = CloseAndLiquidateAccount_eq [OF assms(2) g p(1)]
  have m': "m' = UpdatePortfolio now a (m1\<lparr>mHeap := (mHeap m1)(a \<mapsto> close_portfolio p)\<rparr>)"
    and b': "b' = snd (snd (liquidate_all broker (pfPortfolioID p) b))" and r: "lqTransferredToBankUSD r = payout broker p b"
    using eq [of broker bank b k] assms(3) by auto
  have first: "\<exists>r2 k2'. CloseAndLiquidateAccount broker bank2 ord now req (m, b, k2) = (Inr r2, m', b', k2')
      \<and> lqTransferredToBankUSD r2 = lqTransferredToBankUSD r"
    using eq [of broker bank2 b k2] unfolding m' b' r by blast
  have look: "GetPortfolioByCustomerID ord later ?i m' = (a, m')" "mHeap m' a = Some ((close_portfolio p)\<lparr>pfUpdatedAt := now\<rparr>)"
    using closed_lookup [OF p assms(2), of now] by (simp_all add: m' GetPortfolioByCustomerID_def)
  note again = CloseAndLiquidateAccount_eq [OF assms(2) look, of broker bank b' k']
  have liq: "liquidate C account qs (g, n, b) = (foldl fadd g (map MarketValue (filter (\<lambda>pos. flt (Fin 0) (Qty pos)) qs)),
      n + int (length (filter (\<lambda>pos. flt (Fin 0) (Qty pos)) qs)), b)"
    if "\<forall>account rq. brCreateOrder C account rq b = (None, b)" for C :: "'a BrokerClient" and account qs g n
    using that by (induction qs arbitrary: g n) auto
  have second: "\<exists>r2 m2 k2. CloseAndLiquidateAccount broker bank ord later req (m', b', k') = (Inr r2, m2, b', k2)
          \<and> lqTransferredToBankUSD r2 = fadd (Fin 0) (foldl fadd (Fin 0) (map MarketValue (filter (\<lambda>pos. flt (Fin 0) (Qty pos)) ps)))"
    if C: "broker = Some C" "\<forall>account. brListPositions C account b = Some ps" "\<forall>account rq. brCreateOrder C account rq b = (None, b)"
      "list_ex (\<lambda>pos. flt (Fin 0) (Qty pos)) ps" for C ps
  proof -
    let ?l = "filter (\<lambda>pos. flt (Fin 0) (Qty pos)) ps"
    have l: "liquidate_all broker account b = (foldl fadd (Fin 0) (map MarketValue ?l), int (length ?l), b)" for account
      using C(1,2) liq [OF C(3)] by (simp add: liquidate_all_def)
    have "?l \<noteq> []" using C(4) by (auto simp: list_ex_iff filter_empty_conv)
    then have "payout broker ((close_portfolio p)\<lparr>pfUpdatedAt := now\<rparr>) b = fadd (Fin 0) (foldl fadd (Fin 0) (map MarketValue ?l))"
      by (simp add: payout_def proceeds_def l close_portfolio_def)
    moreover have "b' = b" by (simp add: b' l)
    ultimately show ?thesis using again l by (metis snd_conv)
  qed
  show ?thesis using first second by blast
qed

definition demo_position :: Position where
  "demo_position = \<lparr>AssetID = [], Symbol = ''AAPL'', Exchange = [], AssetClass = [], Qty = Fin 1, AvgEntryPrice = Fin 100, Side = ''long'',
     MarketValue = Fin 100, CostBasis = Fin 100, UnrealizedPL = Fin 0, UnrealizedPLPC = Fin 0, CurrentPrice = Fin 100,
     LastdayPrice = Fin 100, ChangeToday = Fin 0\<rparr>"

definition refusing_broker :: "unit BrokerClient" where
  "refusing_broker = \<lparr>brCreateOrder = (\<lambda>_ _ b. (None, b)), brListPositions = (\<lambda>_ _. Some [demo_position])\<rparr>"

theorem close_unchecked_witness:
  "\<exists>r m' b' k' r2 m2 k2.
     CloseAndLiquidateAccount (Some refusing_broker) (None :: unit BankClient option) [] 5 demo_close (NewMockRepository 0, (), ()) = (Inr r, m', b', k')
     \<and> CloseAndLiquidateAccount (Some refusing_broker) None [] 6 demo_close (m', b', k') = (Inr r2, m2, b', k2)
     \<and> lqTransferredToBankUSD r2 = Fin 100"
proof -
  have t: "close_target demo_close \<noteq> []" by (simp add: demo_close_target)
  obtain a m1 where g: "GetPortfolioByCustomerID [] 5 (close_target demo_close) (NewMockRepository 0) = (a, m1)" by fastforce
  from GetPortfolioByCustomerID_alloc [OF seed_inv g] obtain p where "mHeap m1 a = Some p" by blast
  from CloseAndLiquidateAccount_eq [OF t g this, of "Some refusing_broker" "None :: unit BankClient option" "()" "()"]
  obtain r m' b' k' where r:
    "CloseAndLiquidateAccount (Some refusing_broker) (None :: unit BankClient option) [] 5 demo_close (NewMockRepository 0, (), ()) = (Inr r, m', b', k')"
    by blast
  have "\<exists>r2 m2 k2. CloseAndLiquidateAccount (Some refusing_broker) None [] 6 demo_close (m', b', k') = (Inr r2, m2, b', k2)
      \<and> lqTransferredToBankUSD r2
        = fadd (Fin 0) (foldl fadd (Fin 0) (map MarketValue (filter (\<lambda>pos. flt (Fin 0) (Qty pos)) [demo_position])))"
    using close_unchecked [OF seed_inv t r, of None "()" 6]
    by (elim conjE allE [of _ refusing_broker] allE [of _ "[demo_position]"] impE)
       (simp_all add: refusing_broker_def demo_position_def)
  with r show ?thesis by (simp add: demo_position_def)
qed

section \<open>Properties of erasure\<close>

text \<open>An erasure request returns a certificate that can be fetched again under its identifier, with the same
  contents: the identifier is derived from the time, customer and address appear only as hashes, and
  the signature is the keyed hash of identifier, both hashes and time. The data have been erased as
  the repository operation does it.\<close>

theorem erasure_certified:
  fixes sha :: "string \<Rightarrow> string" and hmac :: "string \<Rightarrow> string \<Rightarrow> string"
  assumes "c \<noteq> []" and "\<And>s. sha s \<noteq> []"
  shows "\<exists>cert r m'. ExecuteGDPRErasure sha hmac dord pord now c email m = (Inr cert, m')
    \<and> GetGDPRErasureCertificate (dcCertificateID cert) m' = Inr r \<and> certificate_of r = cert
    \<and> dcCertificateID cert = ''cert-gdpr-'' @ dec_int now
    \<and> dcCustomerIDHash cert = EncodeToString (sha c)
    \<and> dcCustomerEmailHash cert = EncodeToString (sha (if email = [] then c else email))
    \<and> dcDigitalSignature cert = EncodeToString (hmac ''oci-gdpr-erasure-compliance-key-2026''
        (dcCertificateID cert @ '':'' @ dcCustomerIDHash cert @ '':'' @ dcCustomerEmailHash cert @ '':'' @ dec_int (unix now)))
    \<and> m'\<lparr>mCertificates := mCertificates m\<rparr> = snd (CoreRepo.ExecuteGDPRErasure sha dord pord now c m)\<lparr>mCertificates := mCertificates m\<rparr>"
proof -
  obtain stats m1 where e: "CoreRepo.ExecuteGDPRErasure sha dord pord now c m = (stats, m1)" by fastforce
  have h: "geCustomerIDHash stats = EncodeToString (sha c)"
    using e by (auto simp: CoreRepo.ExecuteGDPRErasure_def Let_def split: prod.splits)
  have ne: "EncodeToString (sha c) \<noteq> []" using assms(2) [of c] by (cases "sha c") (auto simp: EncodeToString_def)
  show ?thesis
    using assms(1) e h ne
    by (simp add: ExecuteGDPRErasure_def GetGDPRErasureCertificate_def GetGDPRErasureCertificateByID_def CreateGDPRErasureCertificate_def
        certificate_record_def certificate_of_def Let_def)
qed

theorem erasure_certified_witness:
  "\<exists>cert m'. ExecuteGDPRErasure (\<lambda>s. ''x'') (\<lambda>k s. s) [] [] 5 arthur [] (NewMockRepository 0) = (Inr cert, m')
    \<and> dcCustomerIDHash cert = EncodeToString ''x''"
  using erasure_certified [of arthur "\<lambda>s. ''x''" "\<lambda>k s. s" "[]" "[]" 5 "[]" "NewMockRepository 0"] demo_close_target(2) by blast

end
