(* ===== verification/BankEngine.thy ===== *)
theory BankEngine
  imports BankLedger
begin

text \<open>
  The settlement engine of the mock bank (\<open>cmd/mock-bank/engine\<close>) and its webhook
  dispatcher. The engine only talks to the ledger through
  \<open>GetPendingTransfers\<close> and \<open>UpdateTransferStatus\<close>; the locale \<open>transfer_store\<close> states
  what it relies on, the tick loop is analysed inside it, and the interpretation
  \<open>ledger\<close> discharges the laws for the ledger's own definitions. A webhook is
  represented by the event handed to the HTTP client; delivery is not modelled.
\<close>

section \<open>Engine and dispatcher\<close>

record SettlementEngine =
  webhookURL :: "string option"
  tickInterval :: duration
  postDelay :: duration
  settleDelay :: duration

definition NewSettlementEngine :: "string option \<Rightarrow> duration \<Rightarrow> SettlementEngine" where
  "NewSettlementEngine url interval =
     (let i = (if interval \<le> 0 then 1000000000 else interval)
      in \<lparr>webhookURL = url, tickInterval = i, postDelay = 2 * i, settleDelay = 2 * i\<rparr>)"

definition SetDelays :: "duration \<Rightarrow> duration \<Rightarrow> SettlementEngine \<Rightarrow> SettlementEngine" where
  "SetDelays p d e = e\<lparr>postDelay := p, settleDelay := d\<rparr>"

record WebhookEvent =
  WebhookType :: string
  WebhookCode :: string
  EventTransferID :: string
  EventAccountID :: string
  EventType :: ACHTransferStatus
  EventAmount :: float64
  EventReturnCode :: string
  EventTimestamp :: time

text \<open>\<open>json.Marshal\<close> fails on a float that is not finite; the event is then dropped.\<close>

definition Dispatch :: "time \<Rightarrow> string \<Rightarrow> ACHTransfer \<Rightarrow> WebhookEvent list" where
  "Dispatch now url t =
     (if url = [] then []
      else if \<not> is_fin (Amount t) then []
      else [\<lparr>WebhookType = ''TRANSFER'', WebhookCode = ''TRANSFER_EVENTS_UPDATE'',
             EventTransferID = TransferID t, EventAccountID = TransferAccountID t,
             EventType = Status t, EventAmount = Amount t, EventReturnCode = ReturnCode t,
             EventTimestamp = now\<rparr>])"

definition notify :: "SettlementEngine \<Rightarrow> time \<Rightarrow> ACHTransfer \<Rightarrow> WebhookEvent list" where
  "notify e now t = (case webhookURL e of None \<Rightarrow> [] | Some url \<Rightarrow> Dispatch now url t)"

type_synonym 's updater =
  "time \<Rightarrow> string \<Rightarrow> ACHTransferStatus \<Rightarrow> string \<Rightarrow> 's \<Rightarrow> (bank_error + ACHTransfer) \<times> 's"

text \<open>
  One iteration of the loop in \<open>tick\<close>. The transfer is the snapshot taken before
  the loop; \<open>clk\<close> gives the clock reading at the update of a transfer. The store
  is whatever the engine holds, reached only through \<open>upd\<close>.
\<close>

definition tick_transfer ::
    "'s updater \<Rightarrow> SettlementEngine \<Rightarrow> time \<Rightarrow> (string \<Rightarrow> time) \<Rightarrow> ACHTransfer
      \<Rightarrow> 's \<times> WebhookEvent list \<Rightarrow> 's \<times> WebhookEvent list" where
  "tick_transfer upd e now clk t = (\<lambda>(s, evs).
     let elapsed = now - CreatedAt t; clock = clk (TransferID t);
         move = (\<lambda>st. case upd clock (TransferID t) st [] s of
                   (Inr u, s') \<Rightarrow> (s', evs @ notify e clock u)
                 | (Inl _, s') \<Rightarrow> (s', evs))
     in case Status t of
          TransferStatusPending \<Rightarrow>
            if postDelay e \<le> elapsed then move TransferStatusPosted else (s, evs)
        | TransferStatusPosted \<Rightarrow>
            if postDelay e + settleDelay e \<le> elapsed then move TransferStatusSettled else (s, evs)
        | _ \<Rightarrow> (s, evs))"

fun tick_loop ::
    "'s updater \<Rightarrow> SettlementEngine \<Rightarrow> time \<Rightarrow> (string \<Rightarrow> time) \<Rightarrow> ACHTransfer list
      \<Rightarrow> 's \<times> WebhookEvent list \<Rightarrow> 's \<times> WebhookEvent list" where
  "tick_loop upd e now clk [] acc = acc"
| "tick_loop upd e now clk (t # ts) acc = tick_loop upd e now clk ts (tick_transfer upd e now clk t acc)"

definition tick ::
    "string list \<Rightarrow> SettlementEngine \<Rightarrow> time \<Rightarrow> (string \<Rightarrow> time) \<Rightarrow> LedgerStore
      \<Rightarrow> LedgerStore \<times> WebhookEvent list" where
  "tick ord e now clk s =
     tick_loop UpdateTransferStatus e now clk (GetPendingTransfers ord s) (s, [])"

definition SimulateSettlement ::
    "SettlementEngine \<Rightarrow> time \<Rightarrow> string \<Rightarrow> LedgerStore
      \<Rightarrow> (bank_error + ACHTransfer) \<times> LedgerStore \<times> WebhookEvent list" where
  "SimulateSettlement e now transferID s =
     (case UpdateTransferStatus now transferID TransferStatusSettled [] s of
        (Inl err, s') \<Rightarrow> (Inl err, s', [])
      | (Inr u, s') \<Rightarrow> (Inr u, s', notify e now u))"

definition SimulateReturn ::
    "SettlementEngine \<Rightarrow> time \<Rightarrow> string \<Rightarrow> string \<Rightarrow> LedgerStore
      \<Rightarrow> (bank_error + ACHTransfer) \<times> LedgerStore \<times> WebhookEvent list" where
  "SimulateReturn e now transferID returnCode s =
     (let code = (if returnCode = [] then ''R01'' else returnCode)
      in case UpdateTransferStatus now transferID TransferStatusReturned code s of
           (Inl err, s') \<Rightarrow> (Inl err, s', [])
         | (Inr u, s') \<Rightarrow> (Inr u, s', notify e now u))"

text \<open>The status the engine means a transfer to have after a tick.\<close>

definition next_status :: "SettlementEngine \<Rightarrow> time \<Rightarrow> ACHTransfer \<Rightarrow> ACHTransferStatus" where
  "next_status e now t = (case Status t of
     TransferStatusPending \<Rightarrow>
       if postDelay e \<le> now - CreatedAt t then TransferStatusPosted else TransferStatusPending
   | TransferStatusPosted \<Rightarrow>
       if postDelay e + settleDelay e \<le> now - CreatedAt t then TransferStatusSettled
       else TransferStatusPosted
   | st \<Rightarrow> st)"

section \<open>What the engine relies on\<close>

locale transfer_store =
  fixes update :: "'s updater"
    and find :: "'s \<Rightarrow> string \<Rightarrow> ACHTransfer option"
    and inv :: "'s \<Rightarrow> bool"
  assumes find_id: "inv s \<Longrightarrow> find s i = Some t \<Longrightarrow> TransferID t = i"
    and update_found: "inv s \<Longrightarrow> find s i = Some t \<Longrightarrow>
      \<exists>u s'. update now i st rc s = (Inr u, s') \<and> inv s' \<and> find s' = (find s)(i \<mapsto> u)
        \<and> Status u = st \<and> CreatedAt u = CreatedAt t"
begin

lemma tick_transfer_found:
  assumes "inv s" and "find s (TransferID t) = Some t"
  shows "\<exists>s' u evs'. tick_transfer update e now clk t (s, evs) = (s', evs @ evs') \<and> inv s'
     \<and> find s' = (find s)(TransferID t \<mapsto> u)
     \<and> Status u = next_status e now t \<and> CreatedAt u = CreatedAt t
     \<and> (next_status e now t = Status t \<longrightarrow> u = t)"
proof (cases "next_status e now t = Status t")
  case True
  then have "tick_transfer update e now clk t (s, evs) = (s, evs)"
    by (auto simp: tick_transfer_def next_status_def Let_def
        split: ACHTransferStatus.splits if_splits)
  with assms True show ?thesis by (intro exI [of _ s] exI [of _ t] exI [of _ "[]"]) (simp add: fun_upd_idem)
next
  case False
  let ?c = "clk (TransferID t)"
  obtain u s' where u: "update ?c (TransferID t) (next_status e now t) [] s = (Inr u, s')"
      "inv s'" "find s' = (find s)(TransferID t \<mapsto> u)" "Status u = next_status e now t"
      "CreatedAt u = CreatedAt t"
    using update_found [OF assms] by blast
  have "tick_transfer update e now clk t (s, evs) = (s', evs @ notify e ?c u)"
    using False u(1) by (auto simp: tick_transfer_def next_status_def Let_def
        split: ACHTransferStatus.splits if_splits)
  with u False show ?thesis by blast
qed

lemma tick_loop_found:
  assumes "inv s" and "distinct (map TransferID ts)"
    and "\<And>t. t \<in> set ts \<Longrightarrow> find s (TransferID t) = Some t"
  shows "\<exists>s' evs'. tick_loop update e now clk ts (s, evs) = (s', evs') \<and> inv s'
     \<and> (\<forall>t \<in> set ts. \<exists>u. find s' (TransferID t) = Some u \<and> Status u = next_status e now t
          \<and> CreatedAt u = CreatedAt t)
     \<and> (\<forall>i. i \<notin> TransferID ` set ts \<longrightarrow> find s' i = find s i)"
  using assms
proof (induction ts arbitrary: s evs)
  case Nil
  then show ?case by simp
next
  case (Cons t ts)
  obtain s1 u evs1 where step: "tick_transfer update e now clk t (s, evs) = (s1, evs @ evs1)"
      "inv s1" "find s1 = (find s)(TransferID t \<mapsto> u)" "Status u = next_status e now t"
      "CreatedAt u = CreatedAt t"
    using tick_transfer_found [of s t e now clk evs] Cons.prems by auto
  have found: "find s1 (TransferID x) = Some x" if "x \<in> set ts" for x
    using Cons.prems that step(3) by (force simp: image_iff)
  obtain s' evs' where "tick_loop update e now clk ts (s1, evs @ evs1) = (s', evs')" "inv s'"
      and post: "\<forall>x \<in> set ts. \<exists>v. find s' (TransferID x) = Some v \<and> Status v = next_status e now x
          \<and> CreatedAt v = CreatedAt x"
      and frame: "\<forall>i. i \<notin> TransferID ` set ts \<longrightarrow> find s' i = find s1 i"
    using Cons.IH [of s1 "evs @ evs1"] Cons.prems(2) step(2) found by auto
  moreover have "find s' (TransferID t) = Some u"
    using frame Cons.prems(2) step(3) by auto
  ultimately show ?case using step Cons.prems(2) by (auto simp: image_iff)
qed

end

interpretation ledger: transfer_store UpdateTransferStatus transfers ledger_inv
proof
  fix s i t now st rc
  assume inv: "ledger_inv s" and t: "transfers s i = Some t"
  show "TransferID t = i" using inv t by (simp add: ledger_inv_def)
  from UpdateTransferStatus_defined [OF inv t] obtain u s'
    where u: "UpdateTransferStatus now i st rc s = (Inr u, s')" by blast
  from u have "transfers s' = (transfers s)(i \<mapsto> u) \<and> Status u = st \<and> CreatedAt u = CreatedAt t"
    using t by (cases rule: UpdateTransferStatus_cases) auto
  with u ledger_inv_UpdateTransferStatus [OF inv u]
  show "\<exists>u s'. UpdateTransferStatus now i st rc s = (Inr u, s') \<and> ledger_inv s'
      \<and> transfers s' = (transfers s)(i \<mapsto> u) \<and> Status u = st \<and> CreatedAt u = CreatedAt t"
    by blast
qed

section \<open>The tick on the ledger\<close>

lemma distinct_map_vals:
  assumes "distinct ks" and "\<And>k t. m k = Some t \<Longrightarrow> f t = k"
  shows "distinct (map f (map_vals ks m))"
  using assms(1)
proof (induction ks)
  case (Cons k ks)
  have "f t \<notin> f ` set (map_vals ks m)" if "m k = Some t" for t
    using Cons.prems assms(2) that by (force simp: in_map_vals)
  with Cons show ?case by (auto split: option.splits)
qed simp

lemma pending_distinct:
  assumes "ledger_inv s" and "iter_order ord (transfers s)"
  shows "distinct (map TransferID (GetPendingTransfers ord s))"
proof -
  have "distinct (map TransferID (map_vals ord (transfers s)))"
    using assms by (intro distinct_map_vals) (auto simp: ledger_inv_def iter_order_def)
  then show ?thesis by (simp add: GetPendingTransfers_def distinct_map_filter)
qed

lemma pending_iff:
  assumes "ledger_inv s" and "iter_order ord (transfers s)"
  shows "t \<in> set (GetPendingTransfers ord s) \<longleftrightarrow>
         transfers s (TransferID t) = Some t \<and> in_flight (Status t)"
proof -
  have "t \<in> set (map_vals ord (transfers s)) \<longleftrightarrow> transfers s (TransferID t) = Some t"
    using assms by (auto simp: in_map_vals iter_order_def ledger_inv_def)
  then show ?thesis by (auto simp: GetPendingTransfers_def in_flight_def)
qed

lemma next_status_done: "\<not> in_flight (Status t) \<Longrightarrow> next_status e now t = Status t"
  by (cases "Status t") (auto simp: next_status_def in_flight_def)

lemma tick_transfers:
  assumes inv: "ledger_inv s" and ord: "iter_order ord (transfers s)" and t: "transfers s i = Some t"
  shows "ledger_inv (fst (tick ord e now clk s))"
    and "\<exists>u. transfers (fst (tick ord e now clk s)) i = Some u \<and> Status u = next_status e now t
          \<and> CreatedAt u = CreatedAt t"
    and "dom (transfers (fst (tick ord e now clk s))) = dom (transfers s)"
proof -
  let ?p = "GetPendingTransfers ord s"
  have "\<And>x. x \<in> set ?p \<Longrightarrow> transfers s (TransferID x) = Some x"
    using pending_iff [OF inv ord] by simp
  from ledger.tick_loop_found [OF inv pending_distinct [OF inv ord] this, of e now clk "[]"]
  obtain s' evs' where loop: "tick ord e now clk s = (s', evs')" and inv': "ledger_inv s'"
    and post: "\<forall>x \<in> set ?p. \<exists>v. transfers s' (TransferID x) = Some v \<and> Status v = next_status e now x
        \<and> CreatedAt v = CreatedAt x"
    and frame: "\<forall>j. j \<notin> TransferID ` set ?p \<longrightarrow> transfers s' j = transfers s j"
    by (auto simp: tick_def)
  have id: "TransferID t = i" using inv t by (simp add: ledger_inv_def)
  show "ledger_inv (fst (tick ord e now clk s))" using loop inv' by simp
  show "\<exists>u. transfers (fst (tick ord e now clk s)) i = Some u \<and> Status u = next_status e now t
      \<and> CreatedAt u = CreatedAt t"
  proof (cases "in_flight (Status t)")
    case True
    then have "t \<in> set ?p" using pending_iff [OF inv ord, of t] t id by simp
    with post loop id show ?thesis by auto
  next
    case False
    have "i \<notin> TransferID ` set ?p"
    proof
      assume "i \<in> TransferID ` set ?p"
      then obtain x where "x \<in> set ?p" "i = TransferID x" by blast
      then show False using pending_iff [OF inv ord, of x] t False by simp
    qed
    with frame loop t False show ?thesis by (simp add: next_status_done)
  qed
  have "transfers s' j = None \<longleftrightarrow> transfers s j = None" for j
  proof (cases "j \<in> TransferID ` set ?p")
    case True
    then obtain x where x: "x \<in> set ?p" "j = TransferID x" by blast
    with post obtain v where "transfers s' j = Some v" by blast
    moreover have "transfers s j = Some x" using pending_iff [OF inv ord, of x] x by simp
    ultimately show ?thesis by simp
  qed (simp add: frame)
  then show "dom (transfers (fst (tick ord e now clk s))) = dom (transfers s)"
    using loop by (simp add: dom_def)
qed

text \<open>C21: One settlement tick, in whatever order the transfer map is visited, moves every
  transfer by at most one status: pending becomes posted once the posting delay
  has passed since creation, posted becomes settled once both delays have, and a
  finished transfer is left alone; no transfer appears or disappears.\<close>

theorem tick_advances:
  assumes "ledger_inv s" and "iter_order ord (transfers s)" and "transfers s i = Some t"
  shows "\<exists>u. transfers (fst (tick ord e now clk s)) i = Some u \<and> CreatedAt u = CreatedAt t
     \<and> Status u = (if Status t = TransferStatusPending \<and> postDelay e \<le> now - CreatedAt t
                    then TransferStatusPosted
                    else if Status t = TransferStatusPosted
                            \<and> postDelay e + settleDelay e \<le> now - CreatedAt t
                    then TransferStatusSettled else Status t)
     \<and> dom (transfers (fst (tick ord e now clk s))) = dom (transfers s)"
proof -
  from tick_transfers [OF assms, of e now clk]
  obtain u where u: "transfers (fst (tick ord e now clk s)) i = Some u"
    "Status u = next_status e now t" "CreatedAt u = CreatedAt t"
    "dom (transfers (fst (tick ord e now clk s))) = dom (transfers s)" by blast
  then show ?thesis
    by (intro exI [of _ u]) (auto simp: next_status_def split: ACHTransferStatus.splits)
qed

text \<open>Liveness of settlement: two ticks, the first after the posting delay and the
  second after both delays, settle every transfer that was pending.\<close>

theorem two_ticks_settle:
  assumes "ledger_inv s" and "transfers s i = Some t" and "Status t = TransferStatusPending"
    and "postDelay e \<le> n1 - CreatedAt t" and "postDelay e + settleDelay e \<le> n2 - CreatedAt t"
    and "iter_order o1 (transfers s)"
    and "iter_order o2 (transfers (fst (tick o1 e n1 c1 s)))"
  shows "\<exists>u. transfers (fst (tick o2 e n2 c2 (fst (tick o1 e n1 c1 s)))) i = Some u
     \<and> Status u = TransferStatusSettled"
proof -
  obtain u where u: "transfers (fst (tick o1 e n1 c1 s)) i = Some u"
    "Status u = TransferStatusPosted" "CreatedAt u = CreatedAt t"
    using tick_transfers(2) [OF assms(1,6,2), of e n1 c1] assms(3,4) by (auto simp: next_status_def)
  show ?thesis
    using tick_transfers(2) [OF tick_transfers(1) [OF assms(1,6,2)] assms(7) u(1), of e n2 c2]
      u assms(5) by (auto simp: next_status_def)
qed

text \<open>The tick trusts its snapshot. If a posted debit is returned (its hold released)
  after the snapshot was taken and before the loop reaches it, the loop settles
  the returned transfer and still takes the money from the customer.\<close>

theorem stale_snapshot_settles_returned:
  assumes "ledger_inv s" and "transfers s (TransferID t) = Some t" and "Status t = TransferStatusPosted"
    and "Direction t = ''debit''" and "TransferAccountID t \<noteq> custodyAccountID s"
    and "accounts s (TransferAccountID t) = Some acc"
    and "postDelay e + settleDelay e \<le> now - CreatedAt t"
    and "SimulateReturn e n0 (TransferID t) rc s = (Inr u, s1, ev)"
  shows "\<exists>v s2 ev2. tick_transfer UpdateTransferStatus e now clk t (s1, []) = (s2, ev2)
     \<and> transfers s2 (TransferID t) = Some v \<and> Status v = TransferStatusSettled
     \<and> accounts s2 (TransferAccountID t) = Some (acc\<lparr>
          CurrentBalance := fsub (CurrentBalance acc) (Amount t),
          AvailableBalance := fadd (AvailableBalance acc) (Amount t)\<rparr>)"
proof -
  obtain c where c: "accounts s (custodyAccountID s) = Some c" using assms(1) by (rule ledger_inv_custody)
  show ?thesis
    using assms(2-8) c
    by (auto simp: SimulateReturn_def tick_transfer_def UpdateTransferStatus_def Let_def
        settle_balances_def release_hold_def upd_account_def in_flight_def)
qed

definition posted_debit :: ACHTransfer where
  "posted_debit = new_transfer 0 ''acc_arthur_chase_chk'' (Fin 100) ''debit'' []
     ''acc_oci_custody_001'' TransferStatusPosted []"

definition one_transfer :: "ACHTransfer \<Rightarrow> LedgerStore" where
  "one_transfer t = (Seed 0)\<lparr>transfers := [TransferID t \<mapsto> t]\<rparr>"

lemma ledger_inv_one_transfer:
  "accounts (Seed 0) (TransferAccountID t) \<noteq> None \<Longrightarrow> ledger_inv (one_transfer t)"
  using ledger_inv_Seed [of 0] by (auto simp: one_transfer_def ledger_inv_def)

lemma dec_int_0 [simp]: "dec_int 0 = ''0''"
  by code_simp

lemma posted_debit_sel [simp]:
  "TransferID posted_debit = ''tr_0''" "Status posted_debit = TransferStatusPosted"
  "TransferAccountID posted_debit = ''acc_arthur_chase_chk''" "CreatedAt posted_debit = 0"
  "Direction posted_debit = ''debit''" "Amount posted_debit = Fin 100"
  by (simp_all add: posted_debit_def)

lemma one_transfer_sel [simp]:
  "transfers (one_transfer t) = [TransferID t \<mapsto> t]"
  "accounts (one_transfer t) = accounts (Seed 0)"
  "custodyAccountID (one_transfer t) = ''acc_oci_custody_001''"
  by (simp_all add: one_transfer_def seed_defs)

lemma seed_arthur [simp]: "accounts (Seed 0) ''acc_arthur_chase_chk'' = Some arthurChk"
  "accounts (Seed 0) ''acc_oci_custody_001'' = Some ociCustody"
  by (simp_all add: seed_defs)

theorem tick_advances_witness:
  "\<exists>u. transfers (fst (tick [''tr_0''] (NewSettlementEngine None 5) 20 (\<lambda>_. 20) (one_transfer posted_debit)))
         ''tr_0'' = Some u \<and> Status u = TransferStatusSettled"
  using tick_advances [of "one_transfer posted_debit" "[''tr_0'']" "''tr_0''" posted_debit
      "NewSettlementEngine None 5" 20 "\<lambda>_. 20"]
  by (auto simp: ledger_inv_one_transfer iter_order_def NewSettlementEngine_def)

definition pending_debit :: ACHTransfer where
  "pending_debit = posted_debit\<lparr>Status := TransferStatusPending\<rparr>"

theorem two_ticks_settle_witness:
  "\<exists>u. transfers (fst (tick [''tr_0''] (NewSettlementEngine None 5) 20 (\<lambda>_. 20)
         (fst (tick [''tr_0''] (NewSettlementEngine None 5) 10 (\<lambda>_. 10) (one_transfer pending_debit)))))
       ''tr_0'' = Some u \<and> Status u = TransferStatusSettled"
proof -
  let ?s = "one_transfer pending_debit" and ?e = "NewSettlementEngine None 5"
  have inv: "ledger_inv ?s" by (rule ledger_inv_one_transfer) (simp add: pending_debit_def)
  have t: "transfers ?s ''tr_0'' = Some pending_debit" by (simp add: pending_debit_def)
  have o1: "iter_order [''tr_0''] (transfers ?s)" by (simp add: iter_order_def pending_debit_def)
  have o2: "iter_order [''tr_0''] (transfers (fst (tick [''tr_0''] ?e 10 (\<lambda>_. 10) ?s)))"
    using tick_transfers(3) [OF inv o1 t, of ?e 10 "\<lambda>_. 10"] o1 by (simp add: iter_order_def)
  show ?thesis
    by (rule two_ticks_settle [OF inv t _ _ _ o1 o2])
       (simp_all add: pending_debit_def NewSettlementEngine_def)
qed

theorem stale_snapshot_settles_returned_witness:
  "\<exists>s1 ev v s2 ev2. SimulateReturn (NewSettlementEngine None 5) 15 ''tr_0'' [] (one_transfer posted_debit)
       = (Inr (posted_debit\<lparr>Status := TransferStatusReturned, ReturnCode := ''R01''\<rparr>), s1, ev)
     \<and> tick_transfer UpdateTransferStatus (NewSettlementEngine None 5) 20 (\<lambda>_. 20) posted_debit (s1, []) = (s2, ev2)
     \<and> transfers s2 ''tr_0'' = Some v \<and> Status v = TransferStatusSettled
     \<and> accounts s2 ''acc_arthur_chase_chk'' = Some (arthurChk\<lparr>
          CurrentBalance := fsub (Fin 48500) (Fin 100), AvailableBalance := fadd (Fin 48250) (Fin 100)\<rparr>)"
proof -
  let ?s = "one_transfer posted_debit" and ?e = "NewSettlementEngine None 5"
  let ?u = "posted_debit\<lparr>Status := TransferStatusReturned, ReturnCode := ''R01''\<rparr>"
  let ?s1 = "?s\<lparr>accounts := release_hold posted_debit (accounts ?s), transfers := (transfers ?s)(''tr_0'' \<mapsto> ?u)\<rparr>"
  have ret: "SimulateReturn ?e 15 ''tr_0'' [] ?s = (Inr ?u, ?s1, [])"
    by (simp add: SimulateReturn_def UpdateTransferStatus_def notify_def NewSettlementEngine_def Let_def)
  have bal: "CurrentBalance arthurChk = Fin 48500" "AvailableBalance arthurChk = Fin 48250"
    by (simp_all add: arthurChk_def)
  have inv: "ledger_inv ?s" by (rule ledger_inv_one_transfer) simp
  show ?thesis
    using stale_snapshot_settles_returned [OF inv, of posted_debit arthurChk ?e 20 15 "[]" ?u ?s1 "[]" "\<lambda>_. 20"]
      ret by (simp add: bal NewSettlementEngine_def)
qed

end
