(* ===== verification/BankHandler.thy ===== *)
theory BankHandler
  imports BankEngine
begin

text \<open>
  HTTP surface of the mock bank: the handlers of \<open>cmd/mock-bank/handler/handler.go\<close>
  and the credential check of \<open>cmd/mock-bank/auth.go\<close>. A handler takes the decoded
  request (\<open>None\<close> when the JSON body does not decode and the handler checks that),
  the clock readings and map orders its callees need, and returns the status code
  with the response body. JSON text and header writing are not modelled.
\<close>

section \<open>Responses\<close>

record AccountBalance =
  BalAccountID :: string
  BalName :: string
  Available :: float64
  Current :: float64
  IsoCurrencyCode :: string
  Mask :: string
  BalType :: string

datatype bank_body =
    HealthBody
  | LinkTokenBody string time
  | AccessTokenBody string string
  | AccountsBody "BankAccount list" nat
  | BalancesBody "AccountBalance list"
  | Approved
  | Declined
  | TransferBody ACHTransfer
  | InsufficientFundsBody "ACHTransfer option"
  | TransfersBody "ACHTransfer list" nat
  | SimulatedBody ACHTransfer
  | ResetBody
  | ErrorBody string

type_synonym response = "nat \<times> bank_body"

fun error_message :: "bank_error \<Rightarrow> string" where
  "error_message ErrAccountNotFound = ''bank account not found''"
| "error_message ErrInsufficientFunds = ''insufficient funds (R01)''"
| "error_message ErrInvalidAmount = ''transfer amount must be greater than zero''"
| "error_message ErrTransferNotFound = ''transfer not found''"
| "error_message ErrInvalidToken = ''invalid or expired token''"
| "error_message ErrCustodyNotFound = ''custody account not found''"

definition default_customer :: string where "default_customer = ''cust-longterm-arthur''"

section \<open>Link and account endpoints\<close>

definition handleHealthz :: response where "handleHealthz = (200, HealthBody)"

definition handleCreateLinkToken :: "time \<Rightarrow> time \<Rightarrow> string \<Rightarrow> LedgerStore \<Rightarrow> response \<times> LedgerStore" where
  "handleCreateLinkToken idTime now clientUserID s =
     (let u = (if clientUserID = [] then default_customer else clientUserID);
          (tok, s') = CreateLinkToken idTime now u s
      in ((200, LinkTokenBody (LinkTokenID tok) (LinkExpiresAt tok)), s'))"

definition handleExchangePublicToken ::
    "string list \<Rightarrow> time \<Rightarrow> time \<Rightarrow> time \<Rightarrow> (string \<times> string) option \<Rightarrow> LedgerStore \<Rightarrow> response \<times> LedgerStore" where
  "handleExchangePublicToken ord tokTime itemTime now req s = (case req of
     None \<Rightarrow> ((400, ErrorBody ''invalid request body''), s)
   | Some (publicToken, clientUserID) \<Rightarrow>
       let u = (if clientUserID = [] then default_customer else clientUserID);
           (tok, s') = ExchangePublicToken ord tokTime itemTime now publicToken u s
       in ((200, AccessTokenBody (AccessTokenID tok) (ItemID tok)), s'))"

text \<open>The body of a POST overrides the query parameters; a body that does not decode is ignored.\<close>

definition handleGetAccounts ::
    "string list \<Rightarrow> string \<Rightarrow> string \<Rightarrow> bool \<Rightarrow> (string \<times> string) option \<Rightarrow> LedgerStore \<Rightarrow> response" where
  "handleGetAccounts ord qOwner qToken isPost body s =
     (let (tok, owner) = (case (isPost, body) of
            (True, Some (bToken, bOwner)) \<Rightarrow>
              ((if bToken \<noteq> [] then bToken else qToken), (if bOwner \<noteq> [] then bOwner else qOwner))
          | _ \<Rightarrow> (qToken, qOwner));
          accs = (if tok \<noteq> [] then
                    (case GetAccountsByAccessToken tok s of Inl _ \<Rightarrow> [] | Inr xs \<Rightarrow> xs)
                  else if owner \<noteq> [] then GetAccountsByOwner ord owner s
                  else GetAccountsByOwner ord default_customer s)
      in (200, AccountsBody accs (length accs)))"

definition balance_item :: "BankAccount \<Rightarrow> AccountBalance" where
  "balance_item acc = \<lparr>BalAccountID = AccountID acc, BalName = AccountName acc,
     Available = AvailableBalance acc, Current = CurrentBalance acc,
     IsoCurrencyCode = Currency acc, Mask = AccountNumber acc, BalType = AccountType acc\<rparr>"

definition handleGetBalances ::
    "string list \<Rightarrow> string \<Rightarrow> string list \<Rightarrow> LedgerStore \<Rightarrow> response" where
  "handleGetBalances ord tok accountIDs s =
     (let a1 = (if tok \<noteq> [] then (case GetAccountsByAccessToken tok s of Inl _ \<Rightarrow> [] | Inr xs \<Rightarrow> xs) else []);
          a2 = (if a1 \<noteq> [] then a1
                else if accountIDs \<noteq> [] then GetAccountsByIDs accountIDs s
                else GetAccountsByOwner ord default_customer s)
      in (200, BalancesBody (map balance_item a2)))"

section \<open>Transfer endpoints\<close>

definition handleTransferAuthorization ::
    "(string \<times> float64 \<times> string) option \<Rightarrow> LedgerStore \<Rightarrow> response" where
  "handleTransferAuthorization req s = (case req of
     None \<Rightarrow> (400, ErrorBody ''invalid request body'')
   | Some (accountID, amount, ty) \<Rightarrow> (case GetAccount accountID s of
       Inl _ \<Rightarrow> (404, ErrorBody ''account not found'')
     | Inr acc \<Rightarrow>
         if fle amount (Fin 0) then (400, ErrorBody ''amount must be greater than zero'')
         else if (ty = [] \<or> ty = ''debit'') \<and> flt (AvailableBalance acc) amount then (200, Declined)
         else (200, Approved)))"

definition handleCreateTransfer ::
    "time \<Rightarrow> (string \<times> float64 \<times> string \<times> string) option \<Rightarrow> LedgerStore \<Rightarrow> response \<times> LedgerStore" where
  "handleCreateTransfer now req s = (case req of
     None \<Rightarrow> ((400, ErrorBody ''invalid request body''), s)
   | Some (accountID, amount, direction, description) \<Rightarrow>
       let dir = (if direction = [] then ''debit'' else direction);
           desc = (if description = [] then ''OCI Investment Capital ACH'' else description)
       in (case CreateTransfer now accountID amount dir desc s of
             ((t, Some ErrInsufficientFunds), s') \<Rightarrow> ((400, InsufficientFundsBody t), s')
           | ((t, Some err), s') \<Rightarrow> ((400, ErrorBody (error_message err)), s')
           | ((Some t, None), s') \<Rightarrow> ((201, TransferBody t), s')
           | ((None, None), s') \<Rightarrow> ((201, ErrorBody []), s')))"

definition handleGetTransfer :: "string \<Rightarrow> bool \<Rightarrow> string \<Rightarrow> LedgerStore \<Rightarrow> response" where
  "handleGetTransfer qID isPost bodyID s =
     (let i = (if qID = [] \<and> isPost then bodyID else qID)
      in if i = [] then (400, ErrorBody ''transfer_id is required'')
         else case GetTransfer i s of
             Inl err \<Rightarrow> (404, ErrorBody (error_message err))
           | Inr t \<Rightarrow> (200, TransferBody t))"

definition handleListTransfers :: "string list \<Rightarrow> string \<Rightarrow> LedgerStore \<Rightarrow> response" where
  "handleListTransfers ord accountID s =
     (let ts = ListTransfers ord accountID s in (200, TransfersBody ts (length ts)))"

definition handleSimulateTransfer ::
    "SettlementEngine \<Rightarrow> time \<Rightarrow> (string \<times> string \<times> string) option \<Rightarrow> LedgerStore
      \<Rightarrow> response \<times> LedgerStore \<times> WebhookEvent list" where
  "handleSimulateTransfer e now req s = (case req of
     None \<Rightarrow> ((400, ErrorBody ''invalid request body''), s, [])
   | Some (transferID, eventType, returnCode) \<Rightarrow>
       (case (if eventType = ''returned'' \<or> eventType = ''failed''
              then SimulateReturn e now transferID returnCode s
              else SimulateSettlement e now transferID s) of
          (Inl err, s', evs) \<Rightarrow> ((400, ErrorBody (error_message err)), s', evs)
        | (Inr u, s', evs) \<Rightarrow> ((200, SimulatedBody u), s', evs)))"

definition handleResetAccounts :: "time \<Rightarrow> LedgerStore \<Rightarrow> response \<times> LedgerStore" where
  "handleResetAccounts now s = ((200, ResetBody), Seed now)"

section \<open>Credential check\<close>

datatype auth_outcome = Serve | Unauthorized

text \<open>\<open>header\<close> is \<open>r.Header.Get\<close>: the empty string for an absent header.\<close>

definition RequireBankAuth ::
    "string \<Rightarrow> string \<Rightarrow> string \<Rightarrow> (string \<Rightarrow> string) \<Rightarrow> auth_outcome" where
  "RequireBankAuth expectedClientID expectedSecret path header =
     (if path = ''/healthz'' then Serve
      else if expectedClientID = [] \<or> expectedSecret = [] then Unauthorized
      else let clientID = header ''PLAID-CLIENT-ID''; secret = header ''PLAID-SECRET'';
               auth = header ''Authorization''; apiKey = header ''X-Bank-API-Key''
           in if clientID \<noteq> [] \<and> secret \<noteq> [] \<and> clientID = expectedClientID \<and> secret = expectedSecret
              then Serve
              else if HasPrefix auth ''Bearer '' \<and> TrimPrefix auth ''Bearer '' = expectedSecret then Serve
              else if apiKey \<noteq> [] \<and> apiKey = expectedSecret then Serve
              else Unauthorized)"

section \<open>Properties\<close>

text \<open>C26: Authorization and creation agree: in a well-formed ledger the transfer
  authorization endpoint approves a debit exactly when creating that debit in the
  same state succeeds with 201 and a pending transfer.\<close>

theorem authorization_agrees:
  assumes "ledger_inv s"
  shows "handleTransferAuthorization (Some (aid, amt, ''debit'')) s = (200, Approved) \<longleftrightarrow>
         (\<exists>t s'. handleCreateTransfer now (Some (aid, amt, ''debit'', desc)) s = ((201, TransferBody t), s')
            \<and> Status t = TransferStatusPending)"
proof -
  obtain c where "accounts s (custodyAccountID s) = Some c" using assms by (rule ledger_inv_custody)
  then show ?thesis
    by (auto simp: handleTransferAuthorization_def handleCreateTransfer_def GetAccount_def
        CreateTransfer_def Let_def split: option.splits if_splits)
qed

theorem authorization_agrees_witness:
  "handleTransferAuthorization (Some (''acc_arthur_chase_chk'', Fin 48250, ''debit'')) (Seed 0) = (200, Approved)
   \<and> (\<exists>t s'. handleCreateTransfer 1 (Some (''acc_arthur_chase_chk'', Fin 48250, ''debit'', [])) (Seed 0) =
        ((201, TransferBody t), s') \<and> Status t = TransferStatusPending)"
proof -
  have "handleTransferAuthorization (Some (''acc_arthur_chase_chk'', Fin 48250, ''debit'')) (Seed 0) = (200, Approved)"
    by (simp add: handleTransferAuthorization_def GetAccount_def arthurChk_def)
  then show ?thesis
    using authorization_agrees [OF ledger_inv_Seed, of "''acc_arthur_chase_chk''" "Fin 48250" 0 1 "[]"] by simp
qed

text \<open>A request reaches the bank handlers only as a health probe or with configured
  credentials that match: both Plaid headers, the secret as a bearer token, or the
  secret as the API key header. With no credentials configured nothing but the
  health probe is served.\<close>

theorem bank_auth_sound:
  "RequireBankAuth cid sec path header = Serve \<longleftrightarrow>
     path = ''/healthz'' \<or>
     (cid \<noteq> [] \<and> sec \<noteq> [] \<and>
       (header ''PLAID-CLIENT-ID'' = cid \<and> header ''PLAID-SECRET'' = sec
        \<or> header ''Authorization'' = ''Bearer '' @ sec
        \<or> header ''X-Bank-API-Key'' = sec))"
proof -
  have "HasPrefix a ''Bearer '' \<and> TrimPrefix a ''Bearer '' = sec \<longleftrightarrow> a = ''Bearer '' @ sec" for a
    using HasPrefix_iff [of a "''Bearer ''"] TrimPrefix_append [of "''Bearer ''"] by auto
  then show ?thesis by (auto simp: RequireBankAuth_def Let_def)
qed

end
