(* ===== verification/BrokerMarket.thy ===== *)
theory BrokerMarket
  imports BrokerLedger
begin

text \<open>
  The market simulation of the mock broker, \<open>cmd/mock-broker/engine\<close>: price steps
  and spreads (\<open>gbm.go\<close>), candlestick aggregation in a ring buffer (\<open>bars.go\<close>), the
  asset universe (\<open>assets.go\<close>) and the engine's tick, which drives the ledger
  (\<open>engine.go\<close>). The elementary functions of package \<open>math\<close> are a record argument,
  because their last digits are not specified; the random source is the list of the
  numbers it returns, and running out of numbers is the result \<open>None\<close>.
\<close>

section \<open>Price steps and spreads\<close>

record mathlib =
  Sqrt :: "float64 \<Rightarrow> float64"
  Log :: "float64 \<Rightarrow> float64"
  Cos :: "float64 \<Rightarrow> float64"
  Exp :: "float64 \<Rightarrow> float64"

definition Pi :: float64 where
  "Pi = lit (314159265358979323846264338327950288419716939937510582097494459 / 10 ^ 62)"

fun draw_positive :: "float64 list \<Rightarrow> (float64 \<times> float64 list) option" where
  "draw_positive [] = None"
| "draw_positive (u # us) = (if fle u (Fin 0) then draw_positive us else Some (u, us))"

definition NextStandardNormal :: "mathlib \<Rightarrow> float64 list \<Rightarrow> (float64 \<times> float64 list) option" where
  "NextStandardNormal M us = (case draw_positive us of
     None \<Rightarrow> None
   | Some (u1, us1) \<Rightarrow> (case us1 of
       [] \<Rightarrow> None
     | u2 # us2 \<Rightarrow> Some (fmul (Sqrt M (fmul (Fin (- 2)) (Log M u1)))
                             (Cos M (fmul (fmul (Fin 2) Pi) u2)), us2)))"

definition cents :: "float64 \<Rightarrow> float64" where
  "cents x = fdiv (fround (fmul x (Fin 100))) (Fin 100)"

definition StepPrice ::
    "mathlib \<Rightarrow> float64 \<Rightarrow> float64 \<Rightarrow> float64 \<Rightarrow> float64 \<Rightarrow> float64 list \<Rightarrow> (float64 \<times> float64 list) option" where
  "StepPrice M currentPrice annualDrift annualVol dtSeconds us =
     (let current = (if fle currentPrice (lit (1 / 100)) then lit (1 / 100) else currentPrice);
          dt = fdiv dtSeconds (Fin 5896800)
      in case NextStandardNormal M us of
           None \<Rightarrow> None
         | Some (z, us') \<Rightarrow>
             let exponent = fadd (fmul (fsub annualDrift (fmul (fmul (lit (1 / 2)) annualVol) annualVol)) dt)
                                 (fmul (fmul annualVol (Sqrt M dt)) z)
             in Some (cents (fmul current (Exp M exponent)), us'))"

definition CalculateSpread :: "float64 \<Rightarrow> float64 \<Rightarrow> float64 \<times> float64" where
  "CalculateSpread price spreadBps =
     (let half0 = fmul price (fdiv spreadBps (Fin 2));
          half = (if flt half0 (lit (5 / 1000)) then lit (5 / 1000) else half0);
          bid = cents (fsub price half);
          ask = cents (fadd price half)
      in (bid, if fle ask bid then fadd bid (lit (1 / 100)) else ask))"

text \<open>
  Conversion of a \<open>float64\<close> to \<open>int64\<close>: towards zero; out of range the language
  leaves the result open and amd64 gives the least integer.
\<close>

fun to_i64 :: "float64 \<Rightarrow> int" where
  "to_i64 (Fin x) = (let t = (if 0 \<le> x then \<lfloor>x\<rfloor> else \<lceil>x\<rceil>)
     in if - (2 ^ 63) \<le> t \<and> t < 2 ^ 63 then t else - (2 ^ 63))"
| "to_i64 _ = - (2 ^ 63)"

definition GenerateTickVolume :: "int \<Rightarrow> float64 \<Rightarrow> float64 list \<Rightarrow> (int \<times> float64 list) option" where
  "GenerateTickVolume avgVolumePerSec dtSeconds us = (case us of
     [] \<Rightarrow> None
   | u # us' \<Rightarrow>
       let mean = fmul (of_i64 avgVolumePerSec) dtSeconds;
           noise = fadd (lit (6 / 10)) (fmul u (lit (8 / 10)));
           vol = to_i64 (fround (fmul mean noise))
       in Some (if vol < 1 then 1 else vol, us'))"

section \<open>Candlestick bars\<close>

record Bar =
  BarTime :: time
  Open :: float64
  High :: float64
  Low :: float64
  Close :: float64
  Volume :: int

definition interval_of :: "string \<Rightarrow> duration" where
  "interval_of timeframe =
     (if timeframe = ''5Min'' then 5 * minute
      else if timeframe = ''1Hour'' then hour
      else if timeframe = ''1Day'' then 24 * hour
      else minute)"

definition seed_bar :: "time \<Rightarrow> float64 \<Rightarrow> Bar" where
  "seed_bar t open' =
     (let h = fmul open' (lit (1002 / 1000)); l = fmul open' (lit (998 / 1000))
      in \<lparr>BarTime = t, Open = open', High = h, Low = l, Close = fdiv (fadd h l) (Fin 2), Volume = 50000\<rparr>)"

function historical_bars :: "duration \<Rightarrow> time \<Rightarrow> time \<Rightarrow> float64 \<Rightarrow> Bar list" where
  "historical_bars interval cur endTrunc basePrice =
     (if interval \<le> 0 \<or> endTrunc < cur then []
      else let bar = seed_bar cur basePrice
           in bar # historical_bars interval (cur + interval) endTrunc (Close bar))"
  by auto
termination
  by (relation "measure (\<lambda>(d, c, e, p). nat (e + 1 - c))") auto

declare historical_bars.simps [simp del]

definition GenerateHistoricalBars :: "string \<Rightarrow> time \<Rightarrow> time \<Rightarrow> string \<Rightarrow> Bar list" where
  "GenerateHistoricalBars symbol start end' timeframe =
     (let interval = interval_of timeframe
      in if end' < start then []
         else historical_bars interval (Truncate interval start) (Truncate interval end') (Fin 100))"

record BarAggregator =
  aggSymbol :: string
  capacity :: nat
  minuteBars :: "Bar list"
  head :: nat
  count :: nat
  currentBar :: "Bar option"
  currentMin :: time

definition zero_bar :: Bar where
  "zero_bar = \<lparr>BarTime = 0, Open = Fin 0, High = Fin 0, Low = Fin 0, Close = Fin 0, Volume = 0\<rparr>"

definition flat_bar :: "time \<Rightarrow> float64 \<Rightarrow> int \<Rightarrow> Bar" where
  "flat_bar t price volume =
     \<lparr>BarTime = t, Open = price, High = price, Low = price, Close = price, Volume = volume\<rparr>"

definition push_bar :: "Bar \<Rightarrow> BarAggregator \<Rightarrow> BarAggregator" where
  "push_bar bar ba = ba\<lparr>minuteBars := (minuteBars ba)[head ba := bar],
     head := (head ba + 1) mod capacity ba,
     count := (if count ba < capacity ba then count ba + 1 else count ba)\<rparr>"

fun seed_bars :: "nat \<Rightarrow> time \<Rightarrow> float64 \<Rightarrow> BarAggregator \<Rightarrow> BarAggregator" where
  "seed_bars 0 rounded price ba = ba"
| "seed_bars (Suc i) rounded price ba =
     (let bar = seed_bar (rounded - int (Suc i) * minute) price
      in seed_bars i rounded (Close bar) (push_bar bar ba))"

definition seedHistoricalBars :: "float64 \<Rightarrow> time \<Rightarrow> BarAggregator \<Rightarrow> BarAggregator" where
  "seedHistoricalBars basePrice now ba = seed_bars 60 (Truncate minute now) basePrice ba"

definition NewBarAggregator :: "string \<Rightarrow> int \<Rightarrow> float64 \<Rightarrow> time \<Rightarrow> BarAggregator" where
  "NewBarAggregator symbol cap initialPrice startTime =
     (let c = nat (if cap \<le> 0 then 1440 else cap); rounded = Truncate minute startTime
      in seedHistoricalBars initialPrice startTime \<lparr>aggSymbol = symbol, capacity = c,
           minuteBars = replicate c zero_bar, head = 0, count = 0,
           currentBar = Some (flat_bar rounded initialPrice 0), currentMin = rounded\<rparr>)"

definition extend_bar :: "float64 \<Rightarrow> int \<Rightarrow> Bar \<Rightarrow> Bar" where
  "extend_bar price volume b = b\<lparr>
     High := (if flt (High b) price then price else High b),
     Low := (if flt price (Low b) then price else Low b),
     Close := price, Volume := i64 (Volume b + volume)\<rparr>"

definition Update :: "float64 \<Rightarrow> int \<Rightarrow> time \<Rightarrow> BarAggregator \<Rightarrow> BarAggregator" where
  "Update price volume t ba =
     (let tickMin = Truncate minute t
      in if currentMin ba < tickMin
         then (case currentBar ba of None \<Rightarrow> ba | Some b \<Rightarrow> push_bar b ba)
                \<lparr>currentBar := Some (flat_bar tickMin price volume), currentMin := tickMin\<rparr>
         else ba\<lparr>currentBar := Some (case currentBar ba of
                None \<Rightarrow> flat_bar tickMin price volume
              | Some b \<Rightarrow> extend_bar price volume b)\<rparr>)"

definition agg_GetLatestBar :: "BarAggregator \<Rightarrow> Bar" where
  "agg_GetLatestBar ba = (case currentBar ba of None \<Rightarrow> zero_bar | Some b \<Rightarrow> b)"

definition in_range :: "time option \<Rightarrow> time option \<Rightarrow> Bar \<Rightarrow> bool" where
  "in_range start end' b \<longleftrightarrow> (case start of None \<Rightarrow> True | Some s \<Rightarrow> \<not> BarTime b < s)
     \<and> (case end' of None \<Rightarrow> True | Some e \<Rightarrow> \<not> e < BarTime b)"

fun ring_read :: "nat \<Rightarrow> nat \<Rightarrow> BarAggregator \<Rightarrow> Bar list" where
  "ring_read startIdx 0 ba = []"
| "ring_read startIdx (Suc n) ba = ring_read startIdx n ba @ [minuteBars ba ! ((startIdx + n) mod capacity ba)]"

definition raw_bars :: "time option \<Rightarrow> time option \<Rightarrow> BarAggregator \<Rightarrow> Bar list" where
  "raw_bars start end' ba =
     (let startIdx = nat ((int (head ba) - int (count ba) + int (capacity ba)) mod int (capacity ba))
      in filter (in_range start end') (ring_read startIdx (count ba) ba)
         @ (case currentBar ba of None \<Rightarrow> [] | Some cb \<Rightarrow> if in_range start end' cb then [cb] else []))"

definition merge_bar :: "Bar \<Rightarrow> Bar \<Rightarrow> Bar" where
  "merge_bar agg b = agg\<lparr>
     High := (if flt (High agg) (High b) then High b else High agg),
     Low := (if flt (Low b) (Low agg) then Low b else Low agg),
     Close := Close b, Volume := i64 (Volume agg + Volume b)\<rparr>"

fun aggregate :: "duration \<Rightarrow> Bar list \<Rightarrow> Bar list \<Rightarrow> (Bar \<times> time) option \<Rightarrow> Bar list" where
  "aggregate interval aggregated [] None = aggregated"
| "aggregate interval aggregated [] (Some (agg, bucket)) = aggregated @ [agg]"
| "aggregate interval aggregated (b # bs) None =
     (let bucket = Truncate interval (BarTime b)
      in aggregate interval aggregated bs (Some (b\<lparr>BarTime := bucket\<rparr>, bucket)))"
| "aggregate interval aggregated (b # bs) (Some (agg, aggBucket)) =
     (let bucket = Truncate interval (BarTime b)
      in if bucket \<noteq> aggBucket
         then aggregate interval (aggregated @ [agg]) bs (Some (b\<lparr>BarTime := bucket\<rparr>, bucket))
         else aggregate interval aggregated bs (Some (merge_bar agg b, aggBucket)))"

definition keep_last :: "int \<Rightarrow> 'a list \<Rightarrow> 'a list" where
  "keep_last limit xs = (if 0 < limit \<and> limit < int (length xs) then drop (length xs - nat limit) xs else xs)"

definition agg_GetBars :: "string \<Rightarrow> int \<Rightarrow> time option \<Rightarrow> time option \<Rightarrow> BarAggregator \<Rightarrow> Bar list" where
  "agg_GetBars timeframe limit start end' ba =
     (let raw = raw_bars start end' ba; interval = interval_of timeframe
      in if interval = minute then keep_last limit raw
         else keep_last limit (aggregate interval [] raw None))"

section \<open>Assets and engine\<close>

record AssetConfig =
  CfgSymbol :: string
  CfgName :: string
  CfgAssetID :: string
  CfgExchange :: string
  InitialPrice :: float64
  AnnualDrift :: float64
  Volatility :: float64
  SpreadBps :: float64
  AvgVolumePerSec :: int

definition DefaultAssets :: "AssetConfig list" where
  "DefaultAssets = [
     \<lparr>CfgSymbol = ''AAPL'', CfgName = ''Apple Inc.'', CfgAssetID = ''b0b6dd9d-8b9b-48a9-ba46-b9d54906e401'',
      CfgExchange = ''NASDAQ'', InitialPrice = lit (22430 / 100), AnnualDrift = lit (9 / 100),
      Volatility = lit (24 / 100), SpreadBps = lit (4 / 10000), AvgVolumePerSec = 1500\<rparr>,
     \<lparr>CfgSymbol = ''NVDA'', CfgName = ''NVIDIA Corporation'', CfgAssetID = ''b0b6dd9d-8b9b-48a9-ba46-b9d54906e402'',
      CfgExchange = ''NASDAQ'', InitialPrice = lit (13880 / 100), AnnualDrift = lit (18 / 100),
      Volatility = lit (44 / 100), SpreadBps = lit (5 / 10000), AvgVolumePerSec = 3200\<rparr>,
     \<lparr>CfgSymbol = ''MSFT'', CfgName = ''Microsoft Corporation'', CfgAssetID = ''b0b6dd9d-8b9b-48a9-ba46-b9d54906e403'',
      CfgExchange = ''NASDAQ'', InitialPrice = lit (44820 / 100), AnnualDrift = lit (8 / 100),
      Volatility = lit (21 / 100), SpreadBps = lit (3 / 10000), AvgVolumePerSec = 800\<rparr>,
     \<lparr>CfgSymbol = ''TSLA'', CfgName = ''Tesla Inc.'', CfgAssetID = ''b0b6dd9d-8b9b-48a9-ba46-b9d54906e404'',
      CfgExchange = ''NASDAQ'', InitialPrice = lit (24712 / 100), AnnualDrift = lit (11 / 100),
      Volatility = lit (54 / 100), SpreadBps = lit (8 / 10000), AvgVolumePerSec = 1800\<rparr>,
     \<lparr>CfgSymbol = ''SPY'', CfgName = ''SPDR S&P 500 ETF Trust'', CfgAssetID = ''b0b6dd9d-8b9b-48a9-ba46-b9d54906e405'',
      CfgExchange = ''NYSE'', InitialPrice = Fin 585, AnnualDrift = lit (7 / 100),
      Volatility = lit (15 / 100), SpreadBps = lit (1 / 10000), AvgVolumePerSec = 4000\<rparr>]"

record MarketEngine =
  assets :: "(string, AssetConfig) gomap"
  currentPrice :: "(string, float64) gomap"
  previousClose :: "(string, float64) gomap"
  quotes :: "(string, Quote) gomap"
  aggregators :: "(string, BarAggregator) gomap"
  engTickInterval :: duration

definition add_asset :: "time \<Rightarrow> AssetConfig \<Rightarrow> MarketEngine \<Rightarrow> MarketEngine" where
  "add_asset now a e =
     (let sy = CfgSymbol a; (bid, ask) = CalculateSpread (InitialPrice a) (SpreadBps a)
      in e\<lparr>assets := (assets e)(sy \<mapsto> a),
           currentPrice := (currentPrice e)(sy \<mapsto> InitialPrice a),
           previousClose := (previousClose e)(sy \<mapsto>
             fdiv (fround (fmul (fmul (InitialPrice a) (lit (99 / 100))) (Fin 100))) (Fin 100)),
           quotes := (quotes e)(sy \<mapsto>
             \<lparr>BidPrice = bid, BidSize = 100, AskPrice = ask, AskSize = 100, QuoteTime = now\<rparr>),
           aggregators := (aggregators e)(sy \<mapsto> NewBarAggregator sy 1440 (InitialPrice a) now)\<rparr>)"

definition NewMarketEngine :: "time \<Rightarrow> duration \<Rightarrow> AssetConfig list \<Rightarrow> MarketEngine" where
  "NewMarketEngine now tickInterval cfgs =
     fold (add_asset now) (if cfgs = [] then DefaultAssets else cfgs)
       \<lparr>assets = Map.empty, currentPrice = Map.empty, previousClose = Map.empty, quotes = Map.empty,
        aggregators = Map.empty, engTickInterval = (if tickInterval \<le> 0 then second else tickInterval)\<rparr>"

definition InitialPrices :: "MarketEngine \<Rightarrow> (string, float64) gomap" where
  "InitialPrices e = currentPrice e"

text \<open>One asset of a tick: the engine, the prices and quotes collected for the ledger, and the random numbers left.\<close>

type_synonym tick_state =
  "MarketEngine \<times> (string, float64) gomap \<times> (string, Quote) gomap \<times> float64 list"

definition tick_asset ::
    "mathlib \<Rightarrow> time \<Rightarrow> float64 \<Rightarrow> string \<Rightarrow> AssetConfig \<Rightarrow> tick_state \<Rightarrow> tick_state option" where
  "tick_asset M now dtSeconds symbol cfg st = (case st of (e, prices, qs, us) \<Rightarrow>
     let current = (case currentPrice e symbol of None \<Rightarrow> Fin 0 | Some p \<Rightarrow> p)
     in case StepPrice M current (AnnualDrift cfg) (Volatility cfg) dtSeconds us of
          None \<Rightarrow> None
        | Some (newPrice, us1) \<Rightarrow>
            let (bid, ask) = CalculateSpread newPrice (SpreadBps cfg)
            in case GenerateTickVolume (AvgVolumePerSec cfg) dtSeconds us1 of
                 None \<Rightarrow> None
               | Some (vol, us2) \<Rightarrow>
                   let q = \<lparr>BidPrice = bid, BidSize = vol div 2, AskPrice = ask, AskSize = vol div 2, QuoteTime = now\<rparr>
                   in Some (e\<lparr>currentPrice := (currentPrice e)(symbol \<mapsto> newPrice),
                              quotes := (quotes e)(symbol \<mapsto> q),
                              aggregators := (case aggregators e symbol of
                                  None \<Rightarrow> aggregators e
                                | Some agg \<Rightarrow> (aggregators e)(symbol \<mapsto> Update newPrice vol now agg))\<rparr>,
                            prices(symbol \<mapsto> newPrice), qs(symbol \<mapsto> q), us2))"

fun tick_assets :: "mathlib \<Rightarrow> time \<Rightarrow> float64 \<Rightarrow> string list \<Rightarrow> tick_state \<Rightarrow> tick_state option" where
  "tick_assets M now dtSeconds [] st = Some st"
| "tick_assets M now dtSeconds (sy # syms) st = (case assets (fst st) sy of
     None \<Rightarrow> tick_assets M now dtSeconds syms st
   | Some cfg \<Rightarrow> (case tick_asset M now dtSeconds sy cfg st of
       None \<Rightarrow> None
     | Some st' \<Rightarrow> tick_assets M now dtSeconds syms st'))"

text \<open>The visiting orders of the ledger's loops, and the clock reading of its limit check.\<close>

record ledger_orders =
  ordAccounts :: "string list"
  ordPositions :: "string \<Rightarrow> string list"
  ordOrders :: "string list"
  ordHolders :: "string list"
  ordBooks :: "string \<Rightarrow> book \<Rightarrow> string list"
  limitNow :: time

definition market_tick ::
    "mathlib \<Rightarrow> string list \<Rightarrow> ledger_orders \<Rightarrow> time \<Rightarrow> float64 \<Rightarrow> float64 list \<Rightarrow> MarketEngine \<times> Store
      \<Rightarrow> (MarketEngine \<times> Store) option" where
  "market_tick M syms lo now dtSeconds us es = (case es of (e, s) \<Rightarrow>
     (case tick_assets M now dtSeconds syms (e, Map.empty, Map.empty, us) of
        None \<Rightarrow> None
      | Some (e', prices, qs, us') \<Rightarrow>
          (case CheckLimitOrders (ordBooks lo) (limitNow lo) (ordOrders lo) (ordHolders lo) qs
                  (UpdateAccountValuations (ordAccounts lo) (ordPositions lo) prices s) of
             None \<Rightarrow> None
           | Some s' \<Rightarrow> Some (e', s'))))"

section \<open>Queries\<close>

definition GetQuote :: "string \<Rightarrow> MarketEngine \<Rightarrow> Quote option" where
  "GetQuote symbol e = quotes e symbol"

definition GetAllQuotes :: "MarketEngine \<Rightarrow> (string, Quote) gomap" where
  "GetAllQuotes e = quotes e"

definition GetLatestBar :: "string \<Rightarrow> MarketEngine \<Rightarrow> Bar option" where
  "GetLatestBar symbol e = map_option agg_GetLatestBar (aggregators e symbol)"

definition GetBars :: "string \<Rightarrow> string \<Rightarrow> int \<Rightarrow> time option \<Rightarrow> time option \<Rightarrow> MarketEngine \<Rightarrow> Bar list option" where
  "GetBars symbol timeframe limit start end' e = map_option (agg_GetBars timeframe limit start end') (aggregators e symbol)"

definition GetPriceSummary :: "string \<Rightarrow> MarketEngine \<Rightarrow> (float64 \<times> float64) option" where
  "GetPriceSummary symbol e = (case currentPrice e symbol of
     None \<Rightarrow> None
   | Some p \<Rightarrow>
       let prev = (case previousClose e symbol of None \<Rightarrow> Fin 0 | Some c \<Rightarrow> c)
       in Some (p, if flt (Fin 0) prev
                   then fdiv (fround (fmul (fdiv (fsub p prev) prev) (Fin 10000))) (Fin 100) else Fin 0))"

section \<open>Spreads\<close>

lemma rnd_bounded:
  assumes "\<bar>x\<bar> \<le> of_int n" and "n \<le> 2 ^ 53"
  obtains v where "rnd x = Fin v" and "\<bar>v\<bar> \<le> of_int n"
proof -
  have "0 \<le> n" using assms(1) by (metis abs_ge_zero of_int_0_le_iff order_trans)
  then have n: "rnd (of_int n) = Fin (of_int n)" "rnd (of_int (- n)) = Fin (of_int (- n))"
    using assms(2) by (intro rnd_int; simp)+
  have "fle (rnd (of_int (- n))) (rnd x)" "fle (rnd x) (rnd (of_int n))"
    using assms(1) by (auto intro!: rnd_mono)
  then show ?thesis using n that by (cases "rnd x") auto
qed

lemma fround_bounded:
  assumes "\<bar>x\<bar> \<le> of_int n"
  obtains i where "fround (Fin x) = Fin (of_int i)" and "\<bar>i\<bar> \<le> n"
proof -
  have "\<lfloor>x + 1 / 2\<rfloor> \<le> n" "- n \<le> \<lceil>x - 1 / 2\<rceil>"
    using assms by (simp_all add: floor_le_iff le_ceiling_iff abs_le_iff)
  moreover have "0 \<le> x \<Longrightarrow> 0 \<le> \<lfloor>x + 1 / 2\<rfloor>" "x \<le> 0 \<Longrightarrow> \<lceil>x - 1 / 2\<rceil> \<le> 0" by linarith+
  ultimately show ?thesis by (cases "0 \<le> x") (auto intro: that)
qed

lemma cents_bounded:
  assumes "\<bar>x\<bar> \<le> 2 ^ 45"
  obtains v where "cents (Fin x) = Fin v" and "\<bar>v\<bar> \<le> 2 ^ 45"
proof -
  have "\<bar>x * 100\<bar> \<le> of_int (100 * 2 ^ 45)" using assms by (simp add: abs_mult)
  then obtain y where y: "rnd (x * 100) = Fin y" "\<bar>y\<bar> \<le> of_int (100 * 2 ^ 45)"
    by (rule rnd_bounded) auto
  obtain i where i: "fround (Fin y) = Fin (of_int i)" "\<bar>i\<bar> \<le> 100 * 2 ^ 45"
    using fround_bounded [OF y(2)] .
  have "\<bar>rat_of_int i / 100\<bar> \<le> of_int (2 ^ 45)"
    using i(2) by (simp add: abs_divide divide_le_eq flip: of_int_abs)
  then obtain v where "rnd (of_int i / 100) = Fin v" "\<bar>v\<bar> \<le> of_int (2 ^ 45)"
    by (rule rnd_bounded) auto
  with y i show ?thesis by (intro that) (simp_all add: cents_def)
qed

lemma lit_cent: obtains c where "lit (1 / 100) = Fin c" "1 / 128 \<le> c" "c \<le> 1"
proof -
  have "rnd (1 / 128) = Fin (1 / 128)" by (rule rnd_grid [of 7]) (simp_all add: grid_def)
  then have "fle (Fin (1 / 128)) (rnd (1 / 100))" "fle (rnd (1 / 100)) (Fin 1)"
    using rnd_mono [of "1 / 128" "1 / 100"] rnd_mono [of "1 / 100" 1] by simp_all
  then show ?thesis by (cases "rnd (1 / 100)") (auto simp: lit_def intro: that)
qed

lemma lit_half_cent: obtains c where "lit (5 / 1000) = Fin c" "\<bar>c\<bar> \<le> 1"
  using rnd_bounded [of "5 / 1000" 1] by (auto simp: lit_def)

lemma grid_above:
  assumes "\<bar>b\<bar> \<le> 2 ^ 45"
  obtains g where "b < g" "g \<le> b + 1 / 128" "rnd g = Fin g"
proof -
  define g where "g = (of_int \<lfloor>b * 2 ^ 7\<rfloor> + 1) / (2 ^ 7 :: rat)"
  have "- (2 ^ 52) \<le> \<lfloor>b * 2 ^ 7\<rfloor>" "\<lfloor>b * 2 ^ 7\<rfloor> \<le> 2 ^ 52"
    using assms by (simp_all add: abs_le_iff floor_le_iff le_floor_iff)
  moreover have "\<bar>z + 1\<bar> \<le> 2 ^ 53" if "- (2 ^ 52) \<le> z" "z \<le> 2 ^ 52" for z :: int using that by auto
  ultimately have "\<bar>\<lfloor>b * 2 ^ 7\<rfloor> + 1\<bar> \<le> 2 ^ 53" by blast
  then have "\<bar>rat_of_int (\<lfloor>b * 2 ^ 7\<rfloor> + 1)\<bar> \<le> 2 ^ 53"
    by (metis of_int_abs of_int_le_iff of_int_numeral of_int_power)
  moreover have "g * 2 ^ 7 = of_int (\<lfloor>b * 2 ^ 7\<rfloor> + 1)" by (simp add: g_def)
  ultimately have "grid 7 g" unfolding grid_def Let_def by (metis Ints_of_int)
  then have "rnd g = Fin g" by (rule rnd_grid) simp
  moreover have "b < g" "g \<le> b + 1 / 128"
    unfolding g_def by (simp_all add: less_divide_eq divide_le_eq) linarith+
  ultimately show ?thesis using that by blast
qed

lemma fadd_cent_greater:
  assumes "\<bar>b\<bar> \<le> 2 ^ 45"
  shows "\<exists>v. fadd (Fin b) (lit (1 / 100)) = Fin v \<and> b < v"
proof -
  obtain c where c: "lit (1 / 100) = Fin c" "1 / 128 \<le> c" "c \<le> 1" by (rule lit_cent)
  have "\<bar>b + c\<bar> \<le> of_int (2 ^ 46)" using assms c by (auto simp: abs_le_iff)
  then obtain v where v: "rnd (b + c) = Fin v" by (rule rnd_bounded) auto
  obtain g where g: "b < g" "g \<le> b + 1 / 128" "rnd g = Fin g" using assms by (rule grid_above)
  from g c have "fle (rnd g) (rnd (b + c))" by (intro rnd_mono) simp
  with g v c show ?thesis by simp
qed

text \<open>For a finite price of magnitude at most \<open>2 ^ 44\<close> and a spread between zero and one,
  the synthesised quote is never locked or crossed: the bid is strictly below the ask and both are
  finite, also where rounding to cents would make them equal.\<close>

theorem quote_not_crossed:
  assumes p: "\<bar>p\<bar> \<le> 2 ^ 44" and w: "0 \<le> w" "w \<le> 1"
  shows "\<exists>bid ask. CalculateSpread (Fin p) (Fin w) = (Fin bid, ask) \<and> flt (Fin bid) ask \<and> ask \<noteq> PInf"
proof -
  have "\<bar>w / 2\<bar> \<le> of_int 1" using w by simp
  then obtain h1 where h1: "rnd (w / 2) = Fin h1" "\<bar>h1\<bar> \<le> of_int 1" by (rule rnd_bounded) auto
  have "\<bar>p * h1\<bar> \<le> 2 ^ 44 * 1" unfolding abs_mult using p h1(2) by (intro mult_mono) auto
  then have "\<bar>p * h1\<bar> \<le> of_int (2 ^ 44)" by simp
  then obtain h2 where h2: "rnd (p * h1) = Fin h2" "\<bar>h2\<bar> \<le> of_int (2 ^ 44)" by (rule rnd_bounded) auto
  obtain c where c: "lit (5 / 1000) = Fin c" "\<bar>c\<bar> \<le> 1" by (rule lit_half_cent)
  define h where "h = (if h2 < c then c else h2)"
  have h: "\<bar>h\<bar> \<le> 2 ^ 44" using h2(2) c(2) by (auto simp: h_def)
  have "\<bar>p - h\<bar> \<le> of_int (2 ^ 45)" "\<bar>p + h\<bar> \<le> of_int (2 ^ 45)" using p h by (auto simp: abs_le_iff)
  note d = this
  obtain u where u: "rnd (p - h) = Fin u" "\<bar>u\<bar> \<le> of_int (2 ^ 45)" using d(1) by (rule rnd_bounded) auto
  obtain v where v: "rnd (p + h) = Fin v" "\<bar>v\<bar> \<le> of_int (2 ^ 45)" using d(2) by (rule rnd_bounded) auto
  obtain bid where bid: "cents (Fin u) = Fin bid" "\<bar>bid\<bar> \<le> 2 ^ 45"
    using cents_bounded [of u] u(2) by auto
  obtain ask where ask: "cents (Fin v) = Fin ask" "\<bar>ask\<bar> \<le> 2 ^ 45"
    using cents_bounded [of v] v(2) by auto
  have half: "(if flt (fmul (Fin p) (fdiv (Fin w) (Fin 2))) (lit (5 / 1000)) then lit (5 / 1000)
      else fmul (Fin p) (fdiv (Fin w) (Fin 2))) = Fin h"
    using h1 h2 unfolding c(1) by (simp add: h_def)
  have "CalculateSpread (Fin p) (Fin w)
      = (Fin bid, if ask \<le> bid then fadd (Fin bid) (lit (1 / 100)) else Fin ask)"
    using half u v bid ask by (simp add: CalculateSpread_def Let_def fsub_def del: fmul.simps fdiv.simps)
  then show ?thesis using fadd_cent_greater [OF bid(2)] by auto
qed

theorem quote_not_crossed_witness:
  "\<exists>bid ask. CalculateSpread (Fin 100) (Fin 0) = (Fin bid, ask) \<and> flt (Fin bid) ask"
  using quote_not_crossed [of 100 0] by auto

section \<open>The ring buffer\<close>

text \<open>
  The abstract view of an aggregator: its completed bars in chronological order,
  of which at most \<open>capacity\<close> are kept.
\<close>

definition wf_agg :: "BarAggregator \<Rightarrow> bool" where
  "wf_agg ba \<longleftrightarrow> 0 < capacity ba \<and> length (minuteBars ba) = capacity ba
     \<and> head ba < capacity ba \<and> count ba \<le> capacity ba"

definition ring_index :: "BarAggregator \<Rightarrow> nat \<Rightarrow> nat" where
  "ring_index ba i = (head ba + capacity ba - count ba + i) mod capacity ba"

definition completed :: "BarAggregator \<Rightarrow> Bar list" where
  "completed ba = map (\<lambda>i. minuteBars ba ! ring_index ba i) [0..<count ba]"

definition keep_newest :: "nat \<Rightarrow> 'a list \<Rightarrow> 'a list" where
  "keep_newest n xs = drop (length xs - n) xs"

lemma ring_read_eq: "ring_read k n ba = map (\<lambda>i. minuteBars ba ! ((k + i) mod capacity ba)) [0..<n]"
  by (induction n) simp_all

lemma raw_bars_eq:
  assumes "wf_agg ba"
  shows "raw_bars start end' ba = filter (in_range start end') (completed ba @
    (case currentBar ba of None \<Rightarrow> [] | Some cb \<Rightarrow> [cb]))"
proof -
  have "int (head ba) - int (count ba) + int (capacity ba) = int (head ba + capacity ba - count ba)"
    using assms by (simp add: wf_agg_def of_nat_diff)
  then have "nat ((int (head ba) - int (count ba) + int (capacity ba)) mod int (capacity ba))
      = (head ba + capacity ba - count ba) mod capacity ba"
    by (metis nat_int zmod_int)
  then show ?thesis
    by (simp add: raw_bars_def ring_read_eq completed_def ring_index_def Let_def mod_add_left_eq split: option.split)
qed

lemma wf_push_bar [wf_intros]: "wf_agg ba \<Longrightarrow> wf_agg (push_bar b ba)"
  by (simp add: wf_agg_def push_bar_def)

lemma mod_cong_lt:
  fixes a b c :: nat
  assumes "a mod c = b mod c" and "a < b" and "b < a + c"
  shows False
proof -
  have "c dvd b - a" using assms by (metis less_imp_le mod_eq_dvd_iff_nat)
  with assms show False using nat_dvd_not_less [of "b - a" c] by auto
qed

lemma keep_newest_full: "xs \<noteq> [] \<Longrightarrow> keep_newest (length xs) (xs @ [b]) = tl xs @ [b]"
  by (cases xs) (simp_all add: keep_newest_def)

lemma completed_push_bar:
  assumes wf: "wf_agg ba"
  shows "completed (push_bar b ba) = keep_newest (capacity ba) (completed ba @ [b])"
proof (cases "count ba < capacity ba")
  case True
  define k where "k = head ba + capacity ba - count ba"
  have k: "k + count ba = head ba + capacity ba" "head ba < capacity ba"
    using wf by (auto simp: k_def wf_agg_def)
  have same: "ring_index (push_bar b ba) i = (k + i) mod capacity ba" for i
  proof -
    have "ring_index (push_bar b ba) i
        = ((head ba + 1) mod capacity ba + capacity ba - (count ba + 1) + i) mod capacity ba"
      using True by (simp add: ring_index_def push_bar_def)
    also have "((head ba + 1) mod capacity ba + capacity ba - (count ba + 1) + i) mod capacity ba
        = ((head ba + 1) mod capacity ba + (capacity ba - (count ba + 1) + i)) mod capacity ba"
      using True by (simp add: algebra_simps)
    also have "\<dots> = (head ba + 1 + (capacity ba - (count ba + 1) + i)) mod capacity ba"
      by (rule mod_add_left_eq)
    also have "head ba + 1 + (capacity ba - (count ba + 1) + i) = k + i" using True k by linarith
    finally show ?thesis .
  qed
  have last: "(k + count ba) mod capacity ba = head ba" using k by simp
  have other: "(k + i) mod capacity ba \<noteq> head ba" if "i < count ba" for i
    using mod_cong_lt [of "k + i" "capacity ba" "k + count ba"] that last True by auto
  have "completed (push_bar b ba) = completed ba @ [b]"
    unfolding completed_def same
    using True wf last
    by (auto simp: push_bar_def ring_index_def wf_agg_def other [THEN not_sym] simp flip: k_def)
  with True show ?thesis by (simp add: keep_newest_def completed_def)
next
  case False
  then have c: "count ba = capacity ba" and h: "head ba < capacity ba" and c0: "0 < capacity ba"
    using wf by (auto simp: wf_agg_def)
  have shift: "ring_index (push_bar b ba) i = (head ba + Suc i) mod capacity ba" for i
    using c by (simp add: ring_index_def push_bar_def mod_add_left_eq)
  have other: "(head ba + Suc i) mod capacity ba \<noteq> head ba" if "Suc i < capacity ba" for i
    using mod_cong_lt [of "head ba" "capacity ba" "head ba + Suc i"] that h by auto
  obtain n where n: "capacity ba = Suc n" using c0 gr0_implies_Suc by blast
  have other': "head ba \<noteq> (head ba + Suc i) mod Suc n" if "i < n" for i
    using other [of i] that n by auto
  have last: "(head ba + Suc n) mod capacity ba = head ba" using n h by (metis mod_add_self2 mod_less)
  have "completed (push_bar b ba) = map (\<lambda>i. minuteBars ba ! ((head ba + Suc i) mod capacity ba)) [0..<n] @ [b]"
    unfolding completed_def shift
    using wf c last n by (auto simp: push_bar_def wf_agg_def other' simp del: add_Suc_right)
  also have "map (\<lambda>i. minuteBars ba ! ((head ba + Suc i) mod capacity ba)) [0..<n] = tl (completed ba)"
    unfolding completed_def ring_index_def using c n
    by (simp add: map_tl [symmetric] tl_upt map_Suc_upt [symmetric] comp_def del: upt_Suc)
  also have "tl (completed ba) @ [b] = keep_newest (capacity ba) (completed ba @ [b])"
    using keep_newest_full [of "completed ba" b] c n by (simp add: completed_def)
  finally show ?thesis .
qed

lemma push_bar_fields [simp]:
  "capacity (push_bar b ba) = capacity ba" "currentBar (push_bar b ba) = currentBar ba"
  "currentMin (push_bar b ba) = currentMin ba"
  by (simp_all add: push_bar_def)

lemma agg_other_fields [simp]:
  "completed (ba\<lparr>currentBar := c\<rparr>) = completed ba"
  "completed (ba\<lparr>currentBar := c, currentMin := m\<rparr>) = completed ba"
  "wf_agg (ba\<lparr>currentBar := c\<rparr>) = wf_agg ba" "wf_agg (ba\<lparr>currentBar := c, currentMin := m\<rparr>) = wf_agg ba"
  by (simp_all add: completed_def ring_index_def wf_agg_def)

lemma wf_seed_bars [wf_intros]: "wf_agg ba \<Longrightarrow> wf_agg (seed_bars n rounded price ba)"
  by (induction n rounded price ba rule: seed_bars.induct) (simp_all add: Let_def wf_push_bar)

lemma wf_NewBarAggregator [wf_intros]: "wf_agg (NewBarAggregator symbol cap price t)"
  unfolding NewBarAggregator_def seedHistoricalBars_def Let_def
  by (rule wf_seed_bars) (simp add: wf_agg_def)

lemma wf_Update [wf_intros]: "wf_agg ba \<Longrightarrow> wf_agg (Update price volume t ba)"
  by (simp add: Update_def Let_def wf_push_bar split: option.split)

lemma Update_fields [simp]: "capacity (Update price volume t ba) = capacity ba"
  by (simp add: Update_def Let_def split: option.split)

text \<open>
  The specification: an unbounded history of completed bars, the forming bar and
  its minute. Its operations know nothing of indices.
\<close>

type_synonym tape = "Bar list \<times> Bar option \<times> time"

definition tape_update :: "float64 \<Rightarrow> int \<Rightarrow> time \<Rightarrow> tape \<Rightarrow> tape" where
  "tape_update price volume t tp = (case tp of (done, cur, m) \<Rightarrow>
     if m < Truncate minute t
     then (done @ (case cur of None \<Rightarrow> [] | Some b \<Rightarrow> [b]),
           Some (flat_bar (Truncate minute t) price volume), Truncate minute t)
     else (done, Some (case cur of None \<Rightarrow> flat_bar (Truncate minute t) price volume
                                 | Some b \<Rightarrow> extend_bar price volume b), m))"

definition shows_tape :: "BarAggregator \<Rightarrow> tape \<Rightarrow> bool" where
  "shows_tape ba tp \<longleftrightarrow> wf_agg ba \<and> (case tp of (done, cur, m) \<Rightarrow>
     completed ba = keep_newest (capacity ba) done \<and> currentBar ba = cur \<and> currentMin ba = m)"

lemma keep_newest_snoc: "keep_newest n (keep_newest n xs @ [x]) = keep_newest n (xs @ [x])"
  by (cases "length xs \<le> n") (auto simp: keep_newest_def drop_append drop_drop not_le Suc_diff_le)

lemma keep_newest_all [simp]: "length xs \<le> n \<Longrightarrow> keep_newest n xs = xs"
  by (simp add: keep_newest_def)

lemma shows_tape_Update:
  assumes "shows_tape ba tp"
  shows "shows_tape (Update p v t ba) (tape_update p v t tp)"
proof -
  obtain dn cur m where tp: "tp = (dn, cur, m)" by (cases tp)
  with assms show ?thesis
    by (cases cur) (auto simp: shows_tape_def tape_update_def Update_def Let_def wf_push_bar
        completed_push_bar keep_newest_snoc)
qed

type_synonym price_tick = "float64 \<times> int \<times> time"

definition feed :: "price_tick list \<Rightarrow> BarAggregator \<Rightarrow> BarAggregator" where
  "feed ticks ba = fold (\<lambda>(p, v, t). Update p v t) ticks ba"

definition tape_feed :: "price_tick list \<Rightarrow> tape \<Rightarrow> tape" where
  "tape_feed ticks tp = fold (\<lambda>(p, v, t). tape_update p v t) ticks tp"

lemma shows_tape_feed: "shows_tape ba tp \<Longrightarrow> shows_tape (feed ticks ba) (tape_feed ticks tp)"
  unfolding feed_def tape_feed_def
proof (induction ticks arbitrary: ba tp)
  case (Cons x ticks)
  obtain p v t where "x = (p, v, t)" by (cases x)
  with Cons.IH [OF shows_tape_Update [OF Cons.prems]] show ?case by simp
qed simp

lemma shows_tape_own: "wf_agg ba \<Longrightarrow> shows_tape ba (completed ba, currentBar ba, currentMin ba)"
  by (simp add: shows_tape_def wf_agg_def completed_def)

text \<open>C5: The ring buffer refines an unbounded tape. Feed any ticks to a well-formed aggregator:
  what a one-minute query then returns is the newest \<open>capacity\<close> completed bars of the tape,
  followed by the forming bar, restricted to the requested time range, in chronological order of
  completion and cut to the newest \<open>limit\<close>.\<close>

theorem ring_buffer_refines_tape:
  assumes "wf_agg ba" and "interval_of timeframe = minute"
    and "tape_feed ticks (completed ba, currentBar ba, currentMin ba) = (done, cur, m)"
  shows "agg_GetBars timeframe limit start end' (feed ticks ba)
    = keep_last limit (filter (in_range start end')
        (keep_newest (capacity ba) done @ (case cur of None \<Rightarrow> [] | Some b \<Rightarrow> [b])))"
proof -
  have cap: "capacity (feed ticks ba) = capacity ba"
    unfolding feed_def by (induction ticks arbitrary: ba) auto
  from shows_tape_feed [OF shows_tape_own [OF assms(1)], of ticks] assms(3)
  have "wf_agg (feed ticks ba)" "completed (feed ticks ba) = keep_newest (capacity ba) done"
      "currentBar (feed ticks ba) = cur"
    by (auto simp: shows_tape_def cap)
  with assms(2) show ?thesis by (simp add: agg_GetBars_def Let_def raw_bars_eq)
qed

definition small_agg :: BarAggregator where
  "small_agg = \<lparr>aggSymbol = ''A'', capacity = 2, minuteBars = [zero_bar, zero_bar], head = 0, count = 0,
     currentBar = Some (flat_bar 0 (Fin 10) 1), currentMin = 0\<rparr>"

definition small_ticks :: "price_tick list" where
  "small_ticks = [(Fin 11, 2, minute), (Fin 12, 3, 2 * minute), (Fin 13, 4, 3 * minute)]"

theorem ring_buffer_refines_tape_witness:
  "map Close (agg_GetBars ''1Min'' 0 None None (feed small_ticks small_agg)) = [Fin 11, Fin 12, Fin 13]"
proof -
  have "wf_agg small_agg" "interval_of ''1Min'' = minute"
    by (simp_all add: wf_agg_def small_agg_def interval_of_def)
  moreover have "tape_feed small_ticks (completed small_agg, currentBar small_agg, currentMin small_agg)
      = ([flat_bar 0 (Fin 10) 1, flat_bar minute (Fin 11) 2, flat_bar (2 * minute) (Fin 12) 3],
         Some (flat_bar (3 * minute) (Fin 13) 4), 3 * minute)"
    by (simp add: tape_feed_def small_ticks_def small_agg_def completed_def tape_update_def Truncate_def)
  ultimately show ?thesis
    by (subst ring_buffer_refines_tape)
      (auto simp: small_agg_def keep_newest_def keep_last_def in_range_def flat_bar_def)
qed

section \<open>Well-formed candles and aggregation\<close>

definition candle :: "Bar \<Rightarrow> bool" where
  "candle b \<longleftrightarrow> fle (Low b) (Open b) \<and> fle (Open b) (High b) \<and> fle (Low b) (Close b) \<and> fle (Close b) (High b)"

lemma candle_flat: "p \<noteq> NaN \<Longrightarrow> candle (flat_bar t p v)"
  by (simp add: candle_def flat_bar_def fle_refl)

lemma candle_extend:
  assumes "candle b" and "p \<noteq> NaN"
  shows "candle (extend_bar p v b)"
proof -
  have n: "High b \<noteq> NaN" "Low b \<noteq> NaN" using assms(1) by (auto simp: candle_def)
  have "fle (Open b) p" if "flt (High b) p" using that assms(1) by (meson candle_def fle_trans flt_imp_fle)
  moreover have "fle p (Open b)" if "flt p (Low b)" using that assms(1) by (meson candle_def fle_trans flt_imp_fle)
  moreover have "\<not> (flt (High b) p \<and> flt p (Low b))"
    using assms(1) by (cases "High b"; cases "Low b"; cases p; cases "Open b") (auto simp: candle_def)
  ultimately show ?thesis
    using assms n by (auto simp: candle_def extend_bar_def fle_refl not_flt)
qed

lemma candle_merge:
  assumes "candle a" and "candle b"
  shows "candle (merge_bar a b)"
proof -
  have n: "High a \<noteq> NaN" "Low a \<noteq> NaN" "High b \<noteq> NaN" "Low b \<noteq> NaN" using assms by (auto simp: candle_def)
  have hi: "fle (High a) (High (merge_bar a b))" "fle (High b) (High (merge_bar a b))"
    using n by (auto simp: merge_bar_def fle_refl not_flt dest: flt_imp_fle)
  have lo: "fle (Low (merge_bar a b)) (Low a)" "fle (Low (merge_bar a b)) (Low b)"
    using n by (auto simp: merge_bar_def fle_refl not_flt dest: flt_imp_fle)
  have "Open (merge_bar a b) = Open a" "Close (merge_bar a b) = Close b" by (simp_all add: merge_bar_def)
  with hi lo assms show ?thesis unfolding candle_def by (metis fle_trans)
qed

definition bucket_of :: "duration \<Rightarrow> Bar \<Rightarrow> time" where
  "bucket_of interval b = Truncate interval (BarTime b)"

lemma aggregate_candles:
  assumes "list_all candle out" and "list_all candle bs" and "case cur of None \<Rightarrow> True | Some (a, _) \<Rightarrow> candle a"
  shows "list_all candle (aggregate d out bs cur)"
  using assms
proof (induction d out bs cur rule: aggregate.induct)
  case (3 d out b bs)
  then show ?case by (simp add: Let_def candle_def)
next
  case (4 d out b bs a k)
  then show ?case by (auto simp: Let_def candle_merge) (simp_all add: candle_def)
qed auto

definition total_volume :: "Bar list \<Rightarrow> int" where
  "total_volume bs = i64 (\<Sum>b \<leftarrow> bs. Volume b)"

lemma aggregate_volume:
  "total_volume (aggregate d out bs cur)
     = total_volume (out @ (case cur of None \<Rightarrow> [] | Some (a, _) \<Rightarrow> [a]) @ bs)"
proof (induction d out bs cur rule: aggregate.induct)
  case (4 d out b bs a k)
  have "i64 (x + (i64 (Volume a + Volume b) + y)) = i64 (x + (Volume a + (Volume b + y)))" for x y
    using i64_add_left [of "Volume a + Volume b" "x + y"] by (simp add: algebra_simps)
  then have "total_volume (out @ [merge_bar a b] @ bs) = total_volume (out @ [a, b] @ bs)"
    by (simp add: total_volume_def merge_bar_def)
  with 4 show ?case by (auto simp: Let_def) (simp add: total_volume_def)
qed (auto simp: Let_def total_volume_def)

lemma aggregate_times:
  assumes "case cur of None \<Rightarrow> True | Some (a, k) \<Rightarrow> BarTime a = k"
  shows "map BarTime (aggregate d out bs cur) = map BarTime out
    @ (case cur of None \<Rightarrow> remdups_adj (map (bucket_of d) bs)
       | Some (a, k) \<Rightarrow> remdups_adj (k # map (bucket_of d) bs))"
  using assms
proof (induction d out bs cur rule: aggregate.induct)
  case (4 d out b bs a k)
  then show ?case by (auto simp: Let_def bucket_of_def merge_bar_def)
qed (auto simp: Let_def bucket_of_def)

lemma sorted_remdups_adj_strict:
  "sorted xs \<Longrightarrow> sorted_wrt (<) (remdups_adj xs)" for xs :: "int list"
  by (induction xs rule: remdups_adj.induct) (auto simp: less_le)

text \<open>C27: A query for a longer time frame loses nothing: the aggregated bars have the bucket start
  times of the minute bars, each once, strictly increasing when the minute bars are in time order;
  their total volume (as 64-bit integers) is that of the minute bars; and if every minute bar is a
  candle (low at most open and close, high at least open and close) so is every aggregated one.\<close>

theorem aggregation_preserves:
  assumes "interval_of timeframe \<noteq> minute" and "sorted (map BarTime (raw_bars start end' ba))"
  shows "map BarTime (agg_GetBars timeframe 0 start end' ba)
           = remdups_adj (map (bucket_of (interval_of timeframe)) (raw_bars start end' ba))
    \<and> sorted_wrt (<) (map BarTime (agg_GetBars timeframe 0 start end' ba))
    \<and> total_volume (agg_GetBars timeframe 0 start end' ba) = total_volume (raw_bars start end' ba)
    \<and> (list_all candle (raw_bars start end' ba) \<longrightarrow> list_all candle (agg_GetBars timeframe 0 start end' ba))"
proof -
  let ?d = "interval_of timeframe" and ?raw = "raw_bars start end' ba"
  have g: "agg_GetBars timeframe 0 start end' ba = aggregate ?d [] ?raw None"
    using assms(1) by (simp add: agg_GetBars_def Let_def keep_last_def)
  have t: "map BarTime (aggregate ?d [] ?raw None) = remdups_adj (map (bucket_of ?d) ?raw)"
    using aggregate_times [of None ?d "[]" ?raw] by simp
  have "0 < ?d" by (simp add: interval_of_def)
  with assms(2) have "sorted (map (bucket_of ?d) ?raw)"
    by (simp add: sorted_wrt_map bucket_of_def) (metis (mono_tags, lifting) Truncate_mono sorted_wrt_mono_rel)
  then show ?thesis
    using aggregate_volume [of ?d "[]" ?raw None] aggregate_candles [of "[]" ?raw None ?d]
    by (simp add: g t sorted_remdups_adj_strict)
qed

theorem aggregation_preserves_witness:
  "total_volume (agg_GetBars ''5Min'' 0 None None (feed small_ticks small_agg)) = 9
     \<and> sorted_wrt (<) (map BarTime (agg_GetBars ''5Min'' 0 None None (feed small_ticks small_agg)))"
proof -
  have r: "map (\<lambda>b. (BarTime b, Volume b)) (raw_bars None None (feed small_ticks small_agg))
      = [(minute, 2), (2 * minute, 3), (3 * minute, 4)]" by code_simp
  then have t: "map BarTime (raw_bars None None (feed small_ticks small_agg)) = [minute, 2 * minute, 3 * minute]"
    and v: "map Volume (raw_bars None None (feed small_ticks small_agg)) = [2, 3, 4]"
    by (auto simp: map_eq_Cons_conv)
  have "interval_of ''5Min'' \<noteq> minute" by (simp add: interval_of_def)
  moreover have "sorted (map BarTime (raw_bars None None (feed small_ticks small_agg)))" unfolding t by simp
  ultimately have "total_volume (agg_GetBars ''5Min'' 0 None None (feed small_ticks small_agg))
        = total_volume (raw_bars None None (feed small_ticks small_agg))"
      "sorted_wrt (<) (map BarTime (agg_GetBars ''5Min'' 0 None None (feed small_ticks small_agg)))"
    using aggregation_preserves by blast+
  moreover have "total_volume (raw_bars None None (feed small_ticks small_agg)) = 9"
    by (simp add: total_volume_def v i64_def)
  ultimately show ?thesis by simp
qed

section \<open>Generated history\<close>

lemma historical_bars_times:
  "0 < d \<Longrightarrow> map BarTime (historical_bars d cur stop price)
     = map (\<lambda>k. cur + int k * d) [0..<nat ((stop - cur) div d + 1)]"
proof (induction d cur stop price rule: historical_bars.induct)
  case (1 d cur stop price)
  show ?case
  proof (cases "stop < cur")
    case True
    then have "(stop - cur) div d < 0" using 1(2) by (intro div_neg_pos_less0) auto
    then have "(stop - cur) div d + 1 \<le> 0" by linarith
    with True show ?thesis by (simp add: historical_bars.simps [of d cur])
  next
    case False
    let ?n = "nat ((stop - (cur + d)) div d + 1)"
    have "(stop - cur) div d = (stop - (cur + d)) div d + 1"
      using 1(2) by (simp add: div_add_self2 flip: diff_diff_eq) (smt (verit) div_add_self2)
    moreover have "0 \<le> (stop - cur) div d" using False 1(2) by (simp add: pos_imp_zdiv_nonneg_iff)
    ultimately have n: "nat ((stop - cur) div d + 1) = Suc ?n" by linarith
    have "map BarTime (historical_bars d cur stop price)
        = cur # map (\<lambda>k. cur + d + int k * d) [0..<?n]"
      using 1 False by (subst historical_bars.simps) (simp add: Let_def seed_bar_def)
    also have "\<dots> = map (\<lambda>k. cur + int k * d) [0..<Suc ?n]"
      by (subst upt_conv_Cons) (simp_all add: map_Suc_upt [symmetric] comp_def algebra_simps del: upt_Suc)
    finally show ?thesis by (simp only: n)
  qed
qed

text \<open>Historical data covers the requested range completely: for a start not after the end
  there is exactly one bar for every multiple of the time frame's interval between the truncated
  start and the truncated end, in increasing order without gaps, and every bar has the fixed volume.\<close>

theorem historical_bars_cover:
  assumes "start \<le> stop"
  shows "map BarTime (GenerateHistoricalBars symbol start stop timeframe)
    = map (\<lambda>k. Truncate (interval_of timeframe) start + int k * interval_of timeframe)
        [0..<nat ((Truncate (interval_of timeframe) stop - Truncate (interval_of timeframe) start)
                    div interval_of timeframe + 1)]"
proof -
  have "0 < interval_of timeframe" by (simp add: interval_of_def)
  then show ?thesis
    using assms by (simp add: GenerateHistoricalBars_def Let_def historical_bars_times)
qed

theorem historical_bars_cover_witness:
  "map BarTime (GenerateHistoricalBars ''AAPL'' (minute + 7) (3 * minute + 5) ''1Min'')
     = [minute, 2 * minute, 3 * minute]"
  using historical_bars_cover [of "minute + 7" "3 * minute + 5" "''AAPL''" "''1Min''"]
  by (simp add: interval_of_def Truncate_def upt_rec)

section \<open>The engine's tick\<close>

lemma draw_positive_pos: "list_all (\<lambda>u. \<not> fle u (Fin 0)) us \<Longrightarrow> us \<noteq> [] \<Longrightarrow> draw_positive us = Some (hd us, tl us)"
  by (cases us) auto

lemma tick_asset_returns:
  assumes "list_all (\<lambda>u. \<not> fle u (Fin 0)) us" and "3 \<le> length us"
  shows "\<exists>e' ps' qs'. tick_asset M now dt sy cfg (e, ps, qs, us) = Some (e', ps', qs', drop 3 us)
    \<and> assets e' = assets e"
proof -
  obtain a b c us' where us: "us = a # b # c # us'" using assms(2)
    by (metis Suc_le_length_iff numeral_3_eq_3)
  with assms(1) show ?thesis
    by (auto simp: tick_asset_def StepPrice_def NextStandardNormal_def GenerateTickVolume_def Let_def
        split: prod.splits option.splits)
qed

lemma tick_assets_returns:
  assumes "list_all (\<lambda>u. \<not> fle u (Fin 0)) us" and "3 * length syms \<le> length us"
  shows "\<exists>st. tick_assets M now dt syms (e, ps, qs, us) = Some st"
  using assms
proof (induction syms arbitrary: e ps qs us)
  case (Cons sy syms)
  show ?case
  proof (cases "assets e sy")
    case None
    with Cons show ?thesis by simp
  next
    case (Some cfg)
    obtain e' ps' qs' where t: "tick_asset M now dt sy cfg (e, ps, qs, us) = Some (e', ps', qs', drop 3 us)"
      using tick_asset_returns [of us M now dt sy cfg e ps qs] Cons.prems by auto
    have "list_all (\<lambda>u. \<not> fle u (Fin 0)) (drop 3 us)"
      using Cons.prems(1) by (auto simp: list_all_iff dest: in_set_dropD)
    from Cons.IH [OF this, of e' ps' qs'] Cons.prems(2) t Some show ?thesis by auto
  qed
qed simp

lemma assets_fold: "assets (fold (add_asset now) cfgs e) = fold (\<lambda>a m. m(CfgSymbol a \<mapsto> a)) cfgs (assets e)"
  by (induction cfgs arbitrary: e) (simp_all add: add_asset_def Let_def split: prod.split)

definition quoted :: "time \<Rightarrow> MarketEngine \<Rightarrow> string \<Rightarrow> AssetConfig \<Rightarrow> bool" where
  "quoted now e sy cfg \<longleftrightarrow> (\<exists>p q. currentPrice e sy = Some p \<and> quotes e sy = Some q \<and> QuoteTime q = now
     \<and> (BidPrice q, AskPrice q) = CalculateSpread p (SpreadBps cfg) \<and> BidSize q = AskSize q)"

lemma tick_asset_quoted:
  assumes "tick_asset M now dt sy cfg st = Some st'"
  shows "quoted now (fst st') sy cfg" and "assets (fst st') = assets (fst st)"
    and "sy' \<noteq> sy \<Longrightarrow> quoted now (fst st') sy' cfg' = quoted now (fst st) sy' cfg'"
  using assms unfolding tick_asset_def Let_def quoted_def
  by (fastforce split: prod.splits option.splits)+

lemma tick_assets_quoted:
  assumes "tick_assets M now dt syms st = Some st'"
  shows "assets (fst st') = assets (fst st)"
    and "assets (fst st) sy = Some cfg \<Longrightarrow> sy \<in> set syms \<or> quoted now (fst st) sy cfg \<Longrightarrow> quoted now (fst st') sy cfg"
  using assms
proof (induction syms arbitrary: st)
  case (Cons x syms)
  {
    case 1
    with Cons.IH(1) show ?case by (auto simp: tick_asset_quoted(2) split: option.splits)
  next
    case 2
    show ?case
    proof (cases "assets (fst st) x")
      case None
      with 2(3) have "tick_assets M now dt syms st = Some st'" by simp
      moreover have "sy \<in> set syms \<or> quoted now (fst st) sy cfg" using 2(1,2) None by auto
      ultimately show ?thesis using Cons.IH(2) [of st] 2(1) by blast
    next
      case (Some c)
      then obtain st1 where st1: "tick_asset M now dt x c st = Some st1" "tick_assets M now dt syms st1 = Some st'"
        using 2(3) by (auto split: option.splits)
      have "sy \<in> set syms \<or> quoted now (fst st1) sy cfg"
        using tick_asset_quoted(1,3) [OF st1(1)] 2(1,2) Some by (cases "sy = x") auto
      with Cons.IH(2) [OF _ _ st1(2)] 2(1) tick_asset_quoted(2) [OF st1(1)] show ?thesis by simp
    qed
  }
qed simp_all

lemma market_tick_run:
  assumes "market_tick M syms lo now dt us (e, s) = Some (e', s')"
  shows "broker_step\<^sup>*\<^sup>* s s'"
proof -
  from assms obtain prices qs where
    "CheckLimitOrders (ordBooks lo) (limitNow lo) (ordOrders lo) (ordHolders lo) qs
       (UpdateAccountValuations (ordAccounts lo) (ordPositions lo) prices s) = Some s'"
    by (auto simp: market_tick_def split: option.splits)
  then have "broker_step (UpdateAccountValuations (ordAccounts lo) (ordPositions lo) prices s) s'"
    by (rule broker_step.limits)
  then show ?thesis by (meson broker_step.prices r_into_rtranclp rtranclp.rtrancl_into_rtrancl)
qed

lemma market_tick_returns:
  assumes "store_inv s" and "list_all (\<lambda>u. \<not> fle u (Fin 0)) us" and "3 * length syms \<le> length us"
  shows "\<exists>e' s'. market_tick M syms lo now dt us (e, s) = Some (e', s')"
proof -
  from tick_assets_returns [OF assms(2,3)] obtain e' prices qs us'
    where t: "tick_assets M now dt syms (e, Map.empty, Map.empty, us) = Some (e', prices, qs, us')"
    by (metis prod.collapse)
  have "store_inv (UpdateAccountValuations (ordAccounts lo) (ordPositions lo) prices s)"
    using update_valuations_ok [OF assms(1)]
    by (simp add: UpdateAccountValuations_def)
  from CheckLimitOrders_ok [OF this, of "ordBooks lo" "limitNow lo" "ordOrders lo" "ordHolders lo" qs]
  obtain s' where "CheckLimitOrders (ordBooks lo) (limitNow lo) (ordOrders lo) (ordHolders lo) qs
      (UpdateAccountValuations (ordAccounts lo) (ordPositions lo) prices s) = Some s'" by blast
  then show ?thesis by (simp add: market_tick_def t)
qed

text \<open>A market tick on a reachable ledger completes whenever the random source supplies three
  positive numbers per asset, whatever the elementary functions compute, and leaves a ledger that
  is again reachable, so that all guarantees of reachable ledgers (no negative cash, no short
  positions, limits respected) survive the background price simulation.\<close>

theorem market_tick_safe:
  assumes "broker_step\<^sup>*\<^sup>* NewStore s" and "list_all (\<lambda>u. \<not> fle u (Fin 0)) us" and "3 * length syms \<le> length us"
  shows "\<exists>e' s'. market_tick M syms lo now dt us (e, s) = Some (e', s') \<and> broker_step\<^sup>*\<^sup>* NewStore s'"
proof -
  from market_tick_returns [OF broker.inv_run [OF assms(1) store_inv_NewStore] assms(2,3)]
  obtain e' s' where "market_tick M syms lo now dt us (e, s) = Some (e', s')" by blast
  with market_tick_run [OF this] assms(1) show ?thesis by (meson rtranclp_trans)
qed

definition demo_orders :: ledger_orders where
  "demo_orders = \<lparr>ordAccounts = [''A''], ordPositions = (\<lambda>_. []), ordOrders = [''ord-5''], ordHolders = [''A''],
     ordBooks = (\<lambda>_ _. [''AAPL'']), limitNow = 9\<rparr>"

definition demo_math :: mathlib where
  "demo_math = \<lparr>Sqrt = (\<lambda>x. x), Log = (\<lambda>x. Fin 0), Cos = (\<lambda>x. Fin 1), Exp = (\<lambda>x. Fin 1)\<rparr>"

theorem market_tick_safe_witness:
  "\<exists>e' s'. market_tick demo_math [''AAPL''] demo_orders 9 (Fin 1) [Fin 1, Fin 1, Fin 1]
      (NewMarketEngine 0 second [], demo_placed) = Some (e', s') \<and> broker_step\<^sup>*\<^sup>* NewStore s'"
  by (rule market_tick_safe [OF demo_placed_reachable]) simp_all

text \<open>After a tick every asset the loop visited has a fresh, consistent quote: it carries the
  tick's time, its bid and ask are the spread of the asset's current price, and both sizes are equal.\<close>

theorem tick_quotes_consistent:
  assumes "market_tick M syms lo now dt us (e, s) = Some (e', s')" and "assets e sy = Some cfg" and "sy \<in> set syms"
  shows "\<exists>p q. currentPrice e' sy = Some p \<and> GetQuote sy e' = Some q \<and> QuoteTime q = now
    \<and> (BidPrice q, AskPrice q) = CalculateSpread p (SpreadBps cfg) \<and> BidSize q = AskSize q"
proof -
  from assms(1) obtain prices qs us' where
    "tick_assets M now dt syms (e, Map.empty, Map.empty, us) = Some (e', prices, qs, us')"
    by (auto simp: market_tick_def split: option.splits)
  from tick_assets_quoted(2) [OF this, of sy cfg] assms(2,3) show ?thesis
    by (simp add: quoted_def GetQuote_def)
qed

theorem tick_quotes_consistent_witness:
  "\<exists>e' s' p q. market_tick demo_math [''AAPL''] demo_orders 9 (Fin 1) [Fin 1, Fin 1, Fin 1]
      (NewMarketEngine 0 second [], NewStore) = Some (e', s') \<and> currentPrice e' ''AAPL'' = Some p
    \<and> GetQuote ''AAPL'' e' = Some q \<and> (BidPrice q, AskPrice q) = CalculateSpread p (lit (4 / 10000))"
proof -
  obtain e' s' where t: "market_tick demo_math [''AAPL''] demo_orders 9 (Fin 1) [Fin 1, Fin 1, Fin 1]
      (NewMarketEngine 0 second [], NewStore) = Some (e', s')"
    using market_tick_returns [OF store_inv_NewStore, of "[Fin 1, Fin 1, Fin 1]" "[''AAPL'']"] by auto blast
  have "\<exists>cfg. assets (NewMarketEngine 0 second []) ''AAPL'' = Some cfg \<and> SpreadBps cfg = lit (4 / 10000)"
    by (simp add: NewMarketEngine_def assets_fold) (simp add: DefaultAssets_def)
  with tick_quotes_consistent [OF t, of "''AAPL''"] t show ?thesis by auto
qed

end
