(* ===== verification/BrokerHandler.thy ===== *)
theory BrokerHandler
  imports BrokerMarket GoText
begin

text \<open>
  HTTP surface of the mock broker: the handlers of \<open>cmd/mock-broker/handler/handler.go\<close>
  and the credential check of \<open>cmd/mock-broker/auth.go\<close>. A handler takes the decoded
  request (\<open>None\<close> when the JSON body does not decode), the clock readings and map
  orders its callees need, and returns the status code with the response body.
  JSON text, headers and the route table are not modelled.
\<close>

section \<open>Responses\<close>

record Snapshot =
  latestQuote :: Quote
  latestTradePrice :: float64
  latestTradeTime :: time
  minuteBar :: Bar
  dailyBar :: Bar
  prevDailyClose :: float64

datatype broker_body =
    HealthBody
  | AccountBody Account
  | AccountsBody "Account list"
  | OrderBody Order
  | OrdersBody "Order list"
  | PositionBody Position
  | PositionsBody "Position list"
  | HistoryBody PortfolioHistory
  | BarsMapBody "(string, Bar) gomap"
  | QuotesMapBody "(string, Quote) gomap"
  | QuoteBody string Quote
  | BarsBody string "Bar list"
  | SnapshotsBody "(string, Snapshot) gomap"
  | MessageBody string
  | LedgerErrorBody broker_error

type_synonym response = "nat \<times> broker_body"

definition zero_quote :: Quote where
  "zero_quote = \<lparr>BidPrice = Fin 0, BidSize = 0, AskPrice = Fin 0, AskSize = 0, QuoteTime = 0\<rparr>"

definition handleHealthz :: response where
  "handleHealthz = (200, HealthBody)"

section \<open>Accounts\<close>

text \<open>The decoded body: given name, family name and initial cash (zero when absent).\<close>

definition handleCreateAccount ::
    "string list \<Rightarrow> time \<Rightarrow> time \<Rightarrow> (string \<times> string \<times> float64) option \<Rightarrow> Store \<Rightarrow> response \<times> Store" where
  "handleCreateAccount ids idTime now req s = (case req of
     None \<Rightarrow> ((400, MessageBody ''invalid account creation payload''), s)
   | Some (given, family, initialCash) \<Rightarrow>
       let cash = (if fle initialCash (Fin 0) then Fin 10000 else initialCash);
           (acc, s') = CreateAccount ids idTime now \<lparr>AcctID = [], AccountNumber = [], AcctStatus = [],
             Currency = [], Cash = cash, PortfolioValue = Fin 0, BuyingPower = Fin 0, Equity = Fin 0,
             LongMarketValue = Fin 0, ShortMarketValue = Fin 0, LastEquity = Fin 0, AcctCreatedAt = 0,
             AccountType = [], CustomerName = given @ CHR '' '' # family\<rparr> s
       in ((201, AccountBody acc), s'))"

definition handleListAccounts :: "string list \<Rightarrow> Store \<Rightarrow> response" where
  "handleListAccounts ord s = (200, AccountsBody (ListAccounts ord s))"

definition handleGetAccount :: "string \<Rightarrow> Store \<Rightarrow> response" where
  "handleGetAccount accountID s = (case GetAccount accountID s of
     Inl _ \<Rightarrow> (404, MessageBody ''account not found'')
   | Inr acc \<Rightarrow> (200, AccountBody acc))"

section \<open>Orders\<close>

definition normalise_symbol :: "string \<Rightarrow> string" where
  "normalise_symbol s = ToUpper (TrimSpace s)"

definition handleCreateOrder ::
    "string list \<Rightarrow> time \<Rightarrow> string \<Rightarrow> CreateOrderRequest option \<Rightarrow> MarketEngine \<Rightarrow> Store
      \<Rightarrow> response \<times> TradeUpdate option \<times> Store" where
  "handleCreateOrder pord now accountID body e s = (case body of
     None \<Rightarrow> ((400, MessageBody ''malformed order payload''), None, s)
   | Some req0 \<Rightarrow>
       let req = req0\<lparr>ReqSymbol := normalise_symbol (ReqSymbol req0)\<rparr>
       in case GetQuote (ReqSymbol req) e of
            None \<Rightarrow> ((422, MessageBody (''asset '' @ ReqSymbol req @ '' not found in universe'')), None, s)
          | Some quote \<Rightarrow> (case CreateOrder pord now accountID req quote s of
              (Inl err, s') \<Rightarrow> ((400, LedgerErrorBody err), None, s')
            | (Inr (ord, upd), s') \<Rightarrow> ((200, OrderBody ord), Some upd, s')))"

text \<open>\<open>header\<close> is \<open>r.Header.Get\<close>: the empty string for an absent header.\<close>

definition v2_account :: "(string \<Rightarrow> string) \<Rightarrow> string" where
  "v2_account header = (if header ''X-Account-ID'' \<noteq> [] then header ''X-Account-ID''
     else ''018f3a9a-2222-7000-8000-000000000002'')"

definition handleCreateOrderV2 ::
    "string list \<Rightarrow> time \<Rightarrow> (string \<Rightarrow> string) \<Rightarrow> CreateOrderRequest option \<Rightarrow> MarketEngine \<Rightarrow> Store
      \<Rightarrow> response \<times> TradeUpdate option \<times> Store" where
  "handleCreateOrderV2 pord now header body e s = handleCreateOrder pord now (v2_account header) body e s"

definition query_limit :: "int \<Rightarrow> string \<Rightarrow> int" where
  "query_limit dflt l = (if l = [] then dflt
     else (case Atoi l of None \<Rightarrow> dflt | Some n \<Rightarrow> if 0 < n then n else dflt))"

definition handleListOrders :: "string \<Rightarrow> string \<Rightarrow> string \<Rightarrow> Store \<Rightarrow> response" where
  "handleListOrders accountID status limitStr s =
     (200, OrdersBody (ListOrders accountID status (query_limit 50 limitStr) s))"

definition handleListOrdersV2 :: "(string \<Rightarrow> string) \<Rightarrow> string \<Rightarrow> string \<Rightarrow> Store \<Rightarrow> response" where
  "handleListOrdersV2 header status limitStr s = handleListOrders (v2_account header) status limitStr s"

definition handleGetOrder :: "string \<Rightarrow> string \<Rightarrow> Store \<Rightarrow> response" where
  "handleGetOrder accountID orderID s = (case GetOrder accountID orderID s of
     Inl _ \<Rightarrow> (404, MessageBody ''order not found'')
   | Inr ord \<Rightarrow> (200, OrderBody ord))"

definition handleCancelOrder ::
    "time \<Rightarrow> string \<Rightarrow> string \<Rightarrow> Store \<Rightarrow> response \<times> TradeUpdate option \<times> Store" where
  "handleCancelOrder now accountID orderID s = (case CancelOrder now accountID orderID s of
     (Inl err, s') \<Rightarrow> ((400, LedgerErrorBody err), None, s')
   | (Inr (ord, upd), s') \<Rightarrow> ((200, OrderBody ord), Some upd, s'))"

section \<open>Positions and history\<close>

definition handleListPositions :: "string list \<Rightarrow> string \<Rightarrow> Store \<Rightarrow> response" where
  "handleListPositions ord accountID s = (200, PositionsBody (ListPositions ord accountID s))"

definition handleGetPosition :: "string \<Rightarrow> string \<Rightarrow> Store \<Rightarrow> response" where
  "handleGetPosition accountID symbol s = (case GetPosition accountID (ToUpper symbol) s of
     Inl _ \<Rightarrow> (404, MessageBody ''position not found'')
   | Inr pos \<Rightarrow> (200, PositionBody pos))"

definition handleGetPortfolioHistory :: "time \<Rightarrow> string \<Rightarrow> string \<Rightarrow> Store \<Rightarrow> response" where
  "handleGetPortfolioHistory now accountID period s =
     (case GetPortfolioHistory now accountID (if period = [] then ''1M'' else period) s of
        Inl _ \<Rightarrow> (404, MessageBody ''portfolio history unavailable'')
      | Inr h \<Rightarrow> (200, HistoryBody h))"

section \<open>Market data\<close>

definition collect :: "(string \<Rightarrow> 'v option) \<Rightarrow> string list \<Rightarrow> (string, 'v) gomap" where
  "collect get syms = fold (\<lambda>t m. let sy = normalise_symbol t in
     if sy = [] then m else (case get sy of None \<Rightarrow> m | Some v \<Rightarrow> m(sy \<mapsto> v))) syms Map.empty"

definition handleGetLatestBars :: "string \<Rightarrow> MarketEngine \<Rightarrow> response" where
  "handleGetLatestBars symbolsParam e =
     (200, BarsMapBody (collect (\<lambda>sy. GetLatestBar sy e) (Split (CHR '','') symbolsParam)))"

definition handleGetLatestQuotes :: "string \<Rightarrow> MarketEngine \<Rightarrow> response" where
  "handleGetLatestQuotes symbolsParam e =
     (200, QuotesMapBody (collect (\<lambda>sy. GetQuote sy e) (Split (CHR '','') symbolsParam)))"

definition handleGetLatestQuote :: "string \<Rightarrow> MarketEngine \<Rightarrow> response" where
  "handleGetLatestQuote symbol e = (case GetQuote (ToUpper symbol) e of
     None \<Rightarrow> (404, MessageBody ''symbol not found'')
   | Some q \<Rightarrow> (200, QuoteBody (ToUpper symbol) q))"

definition handleGetBars :: "string \<Rightarrow> string \<Rightarrow> string \<Rightarrow> MarketEngine \<Rightarrow> response" where
  "handleGetBars symbol timeframe limitStr e =
     (case GetBars (ToUpper symbol) (if timeframe = [] then ''1Min'' else timeframe)
             (query_limit 100 limitStr) None None e of
        None \<Rightarrow> (404, MessageBody ''symbol not found'')
      | Some bars \<Rightarrow> (200, BarsBody (ToUpper symbol) bars))"

definition snapshot :: "string \<Rightarrow> MarketEngine \<Rightarrow> Snapshot option" where
  "snapshot sy e =
     (let quote = GetQuote sy e; bar = GetLatestBar sy e; summary = GetPriceSummary sy e;
          q = (case quote of None \<Rightarrow> zero_quote | Some q \<Rightarrow> q);
          b = (case bar of None \<Rightarrow> zero_bar | Some b \<Rightarrow> b);
          (price, changePct) = (case summary of None \<Rightarrow> (Fin 0, Fin 0) | Some pc \<Rightarrow> pc)
      in if quote = None \<and> bar = None \<and> summary = None then None
         else Some \<lparr>latestQuote = q, latestTradePrice = price, latestTradeTime = QuoteTime q,
                    minuteBar = b, dailyBar = b,
                    prevDailyClose = fdiv price (fadd (Fin 1) (fdiv changePct (Fin 100)))\<rparr>)"

definition handleGetSnapshots :: "string \<Rightarrow> MarketEngine \<Rightarrow> response" where
  "handleGetSnapshots symbolsParam e =
     (200, SnapshotsBody (collect (\<lambda>sy. snapshot sy e) (Split (CHR '','') symbolsParam)))"

section \<open>Trade update stream\<close>

text \<open>
  \<open>handleTradeUpdatesSSE\<close>: connecting subscribes a fresh channel, each turn of the
  loop takes the oldest update from it, and disconnecting unsubscribes. An update
  that \<open>json.Marshal\<close> rejects, one with a number that is not finite, is taken and
  not written.
\<close>

definition finite64 :: "float64 \<Rightarrow> bool" where
  "finite64 x = (case x of Fin _ \<Rightarrow> True | _ \<Rightarrow> False)"

definition marshals :: "TradeUpdate \<Rightarrow> bool" where
  "marshals u = (let opt = case_option True finite64 in
     opt (UpdPrice u) \<and> opt (UpdQty u) \<and> finite64 (OrdQty (UpdOrder u)) \<and> finite64 (FilledQty (UpdOrder u))
     \<and> opt (LimitPrice (UpdOrder u)) \<and> opt (FilledAvgPrice (UpdOrder u)))"

definition sse_connect :: "nat \<Rightarrow> Store \<Rightarrow> Store" where
  "sse_connect ch s = SubscribeTradeUpdates ch s"

definition sse_receive :: "nat \<Rightarrow> Store \<Rightarrow> TradeUpdate option \<times> Store" where
  "sse_receive ch s = (case subscribers s ch of
     Some (u # us) \<Rightarrow> (Some u, s\<lparr>subscribers := (subscribers s)(ch \<mapsto> us)\<rparr>)
   | _ \<Rightarrow> (None, s))"

definition sse_disconnect :: "nat \<Rightarrow> Store \<Rightarrow> Store" where
  "sse_disconnect ch s = unsubscribe ch s"

datatype stream_event = Broadcast TradeUpdate | Receive

fun stream_step :: "nat \<Rightarrow> stream_event \<Rightarrow> TradeUpdate list \<times> Store \<Rightarrow> TradeUpdate list \<times> Store" where
  "stream_step ch (Broadcast u) (out, s) = (out, BroadcastTradeUpdate u s)"
| "stream_step ch Receive (out, s) = (case sse_receive ch s of
     (None, s') \<Rightarrow> (out, s')
   | (Some u, s') \<Rightarrow> (if marshals u then out @ [u] else out, s'))"

definition stream :: "nat \<Rightarrow> stream_event list \<Rightarrow> Store \<Rightarrow> TradeUpdate list \<times> Store" where
  "stream ch evs s = fold (stream_step ch) evs ([], s)"

fun broadcasts :: "stream_event list \<Rightarrow> TradeUpdate list" where
  "broadcasts [] = []"
| "broadcasts (Broadcast u # evs) = u # broadcasts evs"
| "broadcasts (Receive # evs) = broadcasts evs"

section \<open>Authentication\<close>

datatype auth_outcome = Serve | Unauthorized

definition credentials :: "(string \<Rightarrow> string) \<Rightarrow> string \<times> string" where
  "credentials header =
     (let keyID = header ''APCA-API-KEY-ID''; secretKey = header ''APCA-API-SECRET-KEY'';
          auth = header ''Authorization''
      in if keyID = [] \<and> secretKey = [] \<and> HasPrefix auth ''Basic ''
         then (case DecodeString (TrimPrefix auth ''Basic '') of
                 None \<Rightarrow> (keyID, secretKey)
               | Some decoded \<Rightarrow> (case SplitN2 (CHR '':'') decoded of
                   None \<Rightarrow> (keyID, secretKey)
                 | Some parts \<Rightarrow> parts))
         else (keyID, secretKey))"

definition AuthMiddleware :: "string \<Rightarrow> string \<Rightarrow> string \<Rightarrow> (string \<Rightarrow> string) \<Rightarrow> auth_outcome" where
  "AuthMiddleware expectedKey expectedSecret path header =
     (if path = ''/healthz'' \<or> path = ''/health'' then Serve
      else let (keyID, secretKey) = credentials header
           in if keyID \<noteq> expectedKey \<or> secretKey \<noteq> expectedSecret then Unauthorized else Serve)"

lemma AuthMiddleware_iff:
  "AuthMiddleware key sec path header = Serve
     \<longleftrightarrow> path = ''/healthz'' \<or> path = ''/health'' \<or> credentials header = (key, sec)"
  by (auto simp: AuthMiddleware_def split: prod.split)

lemma credentials_basic:
  assumes "header ''APCA-API-KEY-ID'' = []" and "header ''APCA-API-SECRET-KEY'' = []"
    and "header ''Authorization'' = ''Basic '' @ t" and "key \<noteq> []"
  shows "credentials header = (key, sec)
    \<longleftrightarrow> DecodeString t = Some (key @ CHR '':'' # sec) \<and> CHR '':'' \<notin> set key"
proof -
  have "credentials header = (case DecodeString t of None \<Rightarrow> ([], [])
      | Some d \<Rightarrow> (case SplitN2 (CHR '':'') d of None \<Rightarrow> ([], []) | Some parts \<Rightarrow> parts))"
    unfolding credentials_def Let_def assms(1-3) TrimPrefix_append by (simp add: HasPrefix_def)
  note c = this
  show ?thesis
  proof (cases "DecodeString t")
    case None
    with c assms(4) show ?thesis by simp
  next
    case (Some d)
    have "credentials header = (key, sec) \<longleftrightarrow> SplitN2 (CHR '':'') d = Some (key, sec)"
      unfolding c Some using assms(4) by (cases "SplitN2 (CHR '':'') d") simp_all
    then show ?thesis unfolding SplitN2_Some Some by simp
  qed
qed

section \<open>Properties\<close>



fun keeps_up :: "nat \<Rightarrow> stream_event list \<Rightarrow> bool" where
  "keeps_up n [] = True"
| "keeps_up n (Broadcast u # evs) = (n < 50 \<and> keeps_up (n + 1) evs)"
| "keeps_up n (Receive # evs) = keeps_up (n - 1) evs"

lemma stream_run:
  assumes "subscribers s ch = Some buf" and "length buf \<le> 50" and "fold (stream_step ch) evs (out, s) = (out', s')"
  shows "\<exists>buf'. subscribers s' ch = Some buf' \<and> length buf' \<le> 50
    \<and> subseq (out' @ filter marshals buf') (out @ filter marshals (buf @ broadcasts evs))
    \<and> (keeps_up (length buf) evs \<longrightarrow> out' @ filter marshals buf' = out @ filter marshals (buf @ broadcasts evs))"
  using assms
proof (induction evs arbitrary: out s buf)
  case Nil
  then show ?case by auto
next
  case (Cons ev evs)
  show ?case
  proof (cases ev)
    case (Broadcast u)
    let ?b = "if length buf < 50 then buf @ [u] else buf"
    have s: "subscribers (BroadcastTradeUpdate u s) ch = Some ?b" "length ?b \<le> 50"
      using Cons.prems by (simp_all add: BroadcastTradeUpdate_def)
    from Cons.IH [OF s, of out] Cons.prems(3) Broadcast obtain buf' where
      b: "subscribers s' ch = Some buf'" "length buf' \<le> 50" "subseq (out' @ filter marshals buf') (out @ filter marshals (?b @ broadcasts evs))"
         "keeps_up (length ?b) evs \<longrightarrow> out' @ filter marshals buf' = out @ filter marshals (?b @ broadcasts evs)"
      by fastforce
    have "subseq (out @ filter marshals (?b @ broadcasts evs)) (out @ filter marshals (buf @ u # broadcasts evs))"
      by (simp add: subseq_append' list_emb_Cons)
    with b(3) have "subseq (out' @ filter marshals buf') (out @ filter marshals (buf @ u # broadcasts evs))"
      by (rule subseq_order.order_trans)
    with b(1,2,4) Broadcast show ?thesis by (cases "length buf < 50") auto
  next
    case Receive
    show ?thesis
    proof (cases buf)
      case Nil
      with Cons.prems Receive Cons.IH [OF Cons.prems(1,2), of out] show ?thesis by (simp add: sse_receive_def)
    next
      case buf: (Cons u us)
      let ?s = "s\<lparr>subscribers := (subscribers s)(ch \<mapsto> us)\<rparr>"
      let ?out = "if marshals u then out @ [u] else out"
      have f: "fold (stream_step ch) evs (?out, ?s) = (out', s')"
        using Cons.prems Receive buf by (simp add: sse_receive_def)
      have "subscribers ?s ch = Some us" "length us \<le> 50" using Cons.prems(2) buf by simp_all
      from Cons.IH [OF this f] buf Receive show ?thesis by (cases "marshals u") auto
    qed
  qed
qed

text \<open>Trade update streams: whatever the interleaving of broadcasts and reads, what a subscriber
  has received, followed by what waits in its channel, is a subsequence of what was broadcast since
  it connected (in order, nothing duplicated or invented), and the channel never holds more than 50
  updates. If the channel has room at every broadcast, nothing is lost. Updates that have no JSON
  form, with a number that is not finite, are left out on both sides.\<close>

theorem stream_in_order:
  assumes "stream ch evs (sse_connect ch s) = (received, s')"
  shows "\<exists>waiting. subscribers s' ch = Some waiting \<and> length waiting \<le> 50
    \<and> subseq (received @ filter marshals waiting) (filter marshals (broadcasts evs))
    \<and> (keeps_up 0 evs \<longrightarrow> received @ filter marshals waiting = filter marshals (broadcasts evs))"
proof -
  have "subscribers (sse_connect ch s) ch = Some []" by (simp add: sse_connect_def SubscribeTradeUpdates_def)
  from stream_run [OF this, of evs "[]"] assms show ?thesis by (simp add: stream_def)
qed

theorem stream_in_order_witness:
  "\<exists>waiting. subscribers (snd (stream 0 [Broadcast (cancel_update demo_order 1), Receive] (sse_connect 0 demo_store))) 0
      = Some waiting
    \<and> fst (stream 0 [Broadcast (cancel_update demo_order 1), Receive] (sse_connect 0 demo_store)) @ filter marshals waiting
      = [cancel_update demo_order 1]"
proof -
  have "marshals (cancel_update demo_order 1)"
    by (simp add: marshals_def cancel_update_def demo_order_def finite64_def)
  then show ?thesis
    using stream_in_order [of 0 "[Broadcast (cancel_update demo_order 1), Receive]" demo_store, OF surjective_pairing]
    by (auto simp: numeral_eq_Suc)
qed

text \<open>With a non-empty expected key, a request to the broker is served exactly for a health
  probe, for the two expected key headers, or, when both key headers are absent, for a Basic
  authorization whose decoded text is the expected key, a colon and the expected secret, the key
  being free of colons.\<close>

theorem broker_auth_sound:
  assumes "key \<noteq> []"
  shows "AuthMiddleware key sec path header = Serve \<longleftrightarrow>
     path = ''/healthz'' \<or> path = ''/health''
   \<or> (header ''APCA-API-KEY-ID'', header ''APCA-API-SECRET-KEY'') = (key, sec)
   \<or> (header ''APCA-API-KEY-ID'', header ''APCA-API-SECRET-KEY'') = ([], []) \<and> CHR '':'' \<notin> set key
       \<and> (\<exists>t. header ''Authorization'' = ''Basic '' @ t \<and> DecodeString t = Some (key @ CHR '':'' # sec))"
proof (cases "\<exists>t. header ''Authorization'' = ''Basic '' @ t
    \<and> header ''APCA-API-KEY-ID'' = [] \<and> header ''APCA-API-SECRET-KEY'' = []")
  case True
  then obtain t where t: "header ''APCA-API-KEY-ID'' = []" "header ''APCA-API-SECRET-KEY'' = []"
    "header ''Authorization'' = ''Basic '' @ t" by blast
  show ?thesis
    unfolding AuthMiddleware_iff credentials_basic [OF t assms] using t assms by auto
next
  case False
  then have c: "credentials header = (header ''APCA-API-KEY-ID'', header ''APCA-API-SECRET-KEY'')"
    unfolding credentials_def Let_def HasPrefix_iff by metis
  from False show ?thesis unfolding AuthMiddleware_iff c prod.inject by blast
qed

theorem broker_auth_sound_witness:
  "AuthMiddleware ''CK'' ''s'' ''/v1/accounts'' (\<lambda>_. []) \<noteq> Serve"
  using broker_auth_sound [of "''CK''" "''s''" "''/v1/accounts''" "\<lambda>_. []"] by simp

text \<open>Basic authorization as a client builds it works: the base64 text of key, colon and secret
  is accepted for every key without a colon and every secret.\<close>

theorem basic_auth_accepts:
  assumes "CHR '':'' \<notin> set key" and "header ''APCA-API-KEY-ID'' = []" and "header ''APCA-API-SECRET-KEY'' = []"
    and "header ''Authorization'' = ''Basic '' @ b64_encode (key @ CHR '':'' # sec)"
  shows "AuthMiddleware key sec path header = Serve"
proof -
  have "credentials header = (key, sec)"
    unfolding credentials_def Let_def assms(2-4) TrimPrefix_append
    by (simp add: HasPrefix_def DecodeString_encode SplitN2_append assms(1))
  then show ?thesis by (simp add: AuthMiddleware_iff)
qed

theorem basic_auth_accepts_witness:
  "AuthMiddleware ''CK'' ''s:x'' ''/v1/accounts''
     ((\<lambda>_. [])(''Authorization'' := ''Basic '' @ b64_encode ''CK:s:x'')) = Serve"
  using basic_auth_accepts [of "''CK''" "(\<lambda>_. [])(''Authorization'' := ''Basic '' @ b64_encode ''CK:s:x'')" "''s:x''"]
  by simp

end
