(* ===== verification/Clients.thy ===== *)
theory Clients
  imports CoreInvest BankHandler BrokerHandler
begin

text \<open>
  The HTTP clients of the platform for its broker and its bank, \<open>pkg/broker/alpaca\<close> and
  \<open>pkg/bank/plaid\<close>, connected to the mock services: a call is marshalled, passes the credential
  check, runs the handler of the service and is answered by the decoded body when the status
  code is between 200 and 299, and by an error otherwise. Client and service use the same JSON field
  names, so finite numbers and texts arrive as they were sent; a number that is not finite
  cannot be marshalled. Account identifiers are taken to be plain path segments.
\<close>

section \<open>The broker client\<close>

text \<open>The configuration of client and service, and the clock and map orders of the service during a call.\<close>

record broker_env =
  beKey :: string
  beSecret :: string
  beExpectedKey :: string
  beExpectedSecret :: string
  beNow :: time
  beAccounts :: "string list"
  bePositions :: "string list"

type_synonym broker_state = "MarketEngine \<times> Store"

record 'b AlpacaClient = "'b BrokerClient" +
  acListAccounts :: "'b \<Rightarrow> Account list option"
  acGetAccount :: "string \<Rightarrow> 'b \<Rightarrow> Account option"
  acGetPortfolioHistory :: "string \<Rightarrow> string \<Rightarrow> 'b \<Rightarrow> PortfolioHistory option"
  acGetLatestBars :: "string list \<Rightarrow> 'b \<Rightarrow> (string, Bar) gomap option"
  acGetLatestQuotes :: "string list \<Rightarrow> 'b \<Rightarrow> (string, Quote) gomap option"

definition alpaca_header :: "broker_env \<Rightarrow> string \<Rightarrow> string" where
  "alpaca_header w h = (if h = ''APCA-API-KEY-ID'' then beKey w else if h = ''APCA-API-SECRET-KEY'' then beSecret w else [])"

definition broker_serves :: "broker_env \<Rightarrow> bool" where
  "broker_serves w \<longleftrightarrow> AuthMiddleware (beExpectedKey w) (beExpectedSecret w) ''/v1'' (alpaca_header w) = BrokerHandler.Serve"

text \<open>\<open>alpaca_do\<close>: the answer of a request that reached the service.\<close>

definition alpaca_do :: "broker_env \<Rightarrow> BrokerHandler.response \<Rightarrow> broker_body option" where
  "alpaca_do w resp = (if \<not> broker_serves w then None
     else if 200 \<le> fst resp \<and> fst resp < 300 then Some (snd resp) else None)"

definition finite_request :: "CreateOrderRequest \<Rightarrow> bool" where
  "finite_request req \<longleftrightarrow> finite64 (ReqQty req) \<and> case_option True finite64 (ReqLimitPrice req)"

definition finite_order :: "Order \<Rightarrow> bool" where
  "finite_order x \<longleftrightarrow> finite64 (OrdQty x) \<and> finite64 (FilledQty x) \<and> case_option True finite64 (LimitPrice x)
     \<and> case_option True finite64 (FilledAvgPrice x)"

definition finite_position :: "Position \<Rightarrow> bool" where
  "finite_position p \<longleftrightarrow> list_all finite64 [Qty p, AvgEntryPrice p, MarketValue p, CostBasis p, UnrealizedPL p, UnrealizedPLPC p,
     CurrentPrice p, LastdayPrice p, ChangeToday p]"

definition finite_account :: "Account \<Rightarrow> bool" where
  "finite_account a \<longleftrightarrow> list_all finite64 [Cash a, PortfolioValue a, BuyingPower a, Equity a, LongMarketValue a, ShortMarketValue a, LastEquity a]"

definition alpaca_CreateOrder ::
    "broker_env \<Rightarrow> string \<Rightarrow> CreateOrderRequest \<Rightarrow> broker_state \<Rightarrow> Order option \<times> broker_state" where
  "alpaca_CreateOrder w accountID req st = (case st of (e, s) \<Rightarrow>
     if \<not> finite_request req \<or> \<not> broker_serves w then (None, e, s)
     else (case handleCreateOrder (bePositions w) (beNow w) accountID (Some req) e s of
         (resp, _, s') \<Rightarrow> (case alpaca_do w resp of Some (OrderBody x) \<Rightarrow> if finite_order x then Some x else None | _ \<Rightarrow> None, e, s')))"

definition alpaca_ListPositions :: "broker_env \<Rightarrow> string \<Rightarrow> broker_state \<Rightarrow> Position list option" where
  "alpaca_ListPositions w accountID st = (case alpaca_do w (handleListPositions (bePositions w) accountID (snd st)) of
     Some (PositionsBody ps) \<Rightarrow> if list_all finite_position ps then Some ps else None
   | _ \<Rightarrow> None)"

definition alpaca_GetAccount :: "broker_env \<Rightarrow> string \<Rightarrow> broker_state \<Rightarrow> Account option" where
  "alpaca_GetAccount w accountID st = (case alpaca_do w (handleGetAccount accountID (snd st)) of
     Some (AccountBody a) \<Rightarrow> if finite_account a then Some a else None
   | _ \<Rightarrow> None)"

definition alpaca_ListAccounts :: "broker_env \<Rightarrow> broker_state \<Rightarrow> Account list option" where
  "alpaca_ListAccounts w st = (case alpaca_do w (handleListAccounts (beAccounts w) (snd st)) of
     Some (broker_body.AccountsBody as) \<Rightarrow> if list_all finite_account as then Some as else None
   | _ \<Rightarrow> None)"

definition alpaca_GetPortfolioHistory :: "broker_env \<Rightarrow> string \<Rightarrow> string \<Rightarrow> broker_state \<Rightarrow> PortfolioHistory option" where
  "alpaca_GetPortfolioHistory w accountID period st =
     (case alpaca_do w (handleGetPortfolioHistory (beNow w) accountID period (snd st)) of Some (HistoryBody h) \<Rightarrow> Some h | _ \<Rightarrow> None)"

definition alpaca_GetLatestBars :: "broker_env \<Rightarrow> string list \<Rightarrow> broker_state \<Rightarrow> (string, Bar) gomap option" where
  "alpaca_GetLatestBars w symbols st =
     (case alpaca_do w (handleGetLatestBars (join (CHR '','') symbols) (fst st)) of Some (BarsMapBody m) \<Rightarrow> Some m | _ \<Rightarrow> None)"

definition alpaca_GetLatestQuotes :: "broker_env \<Rightarrow> string list \<Rightarrow> broker_state \<Rightarrow> (string, Quote) gomap option" where
  "alpaca_GetLatestQuotes w symbols st =
     (case alpaca_do w (handleGetLatestQuotes (join (CHR '','') symbols) (fst st)) of Some (QuotesMapBody m) \<Rightarrow> Some m | _ \<Rightarrow> None)"

definition alpaca_client :: "broker_env \<Rightarrow> broker_state AlpacaClient" where
  "alpaca_client w = \<lparr>brCreateOrder = alpaca_CreateOrder w, brListPositions = alpaca_ListPositions w,
     acListAccounts = alpaca_ListAccounts w, acGetAccount = alpaca_GetAccount w, acGetPortfolioHistory = alpaca_GetPortfolioHistory w,
     acGetLatestBars = alpaca_GetLatestBars w, acGetLatestQuotes = alpaca_GetLatestQuotes w\<rparr>"

section \<open>The bank client\<close>

record bank_env =
  keClientID :: string
  keSecret :: string
  keExpectedClientID :: string
  keExpectedSecret :: string
  keNow :: time
  keAccounts :: "string list"

definition plaid_header :: "bank_env \<Rightarrow> string \<Rightarrow> string" where
  "plaid_header w h = (if h = ''PLAID-CLIENT-ID'' then keClientID w else if h = ''PLAID-SECRET'' then keSecret w else [])"

definition bank_serves :: "bank_env \<Rightarrow> bool" where
  "bank_serves w \<longleftrightarrow> RequireBankAuth (keExpectedClientID w) (keExpectedSecret w) ''/transfer'' (plaid_header w) = BankHandler.Serve"

definition plaid_do :: "bank_env \<Rightarrow> BankHandler.response \<Rightarrow> bank_body option" where
  "plaid_do w resp = (if \<not> bank_serves w then None
     else if 200 \<le> fst resp \<and> fst resp < 300 then Some (snd resp) else None)"

definition plaid_CreateTransfer ::
    "bank_env \<Rightarrow> string \<Rightarrow> float64 \<Rightarrow> string \<Rightarrow> string \<Rightarrow> LedgerStore \<Rightarrow> ACHTransfer option \<times> LedgerStore" where
  "plaid_CreateTransfer w accountID amount direction description s =
     (if \<not> finite64 amount \<or> \<not> bank_serves w then (None, s)
      else (case handleCreateTransfer (keNow w) (Some (accountID, amount, direction, description)) s of
          (resp, s') \<Rightarrow> (case plaid_do w resp of Some (TransferBody t) \<Rightarrow> Some t | _ \<Rightarrow> None, s')))"

definition plaid_AuthorizeTransfer ::
    "bank_env \<Rightarrow> string \<Rightarrow> float64 \<Rightarrow> string \<Rightarrow> LedgerStore \<Rightarrow> TransferAuthorization option \<times> LedgerStore" where
  "plaid_AuthorizeTransfer w accountID amount ty s =
     (if \<not> finite64 amount then (None, s)
      else (case plaid_do w (handleTransferAuthorization (Some (accountID, amount, ty)) s) of
          Some Approved \<Rightarrow> Some \<lparr>taDecision = ''approved'', taDescription = None\<rparr>
        | Some Declined \<Rightarrow> Some \<lparr>taDecision = ''declined'', taDescription = Some ''Insufficient funds in bank account''\<rparr>
        | _ \<Rightarrow> None, s))"

definition finite_bank_account :: "BankAccount \<Rightarrow> bool" where
  "finite_bank_account a \<longleftrightarrow> finite64 (CurrentBalance a) \<and> finite64 (AvailableBalance a)"

definition plaid_GetAccounts :: "bank_env \<Rightarrow> string \<Rightarrow> LedgerStore \<Rightarrow> BankAccount list option" where
  "plaid_GetAccounts w ownerID s = (case plaid_do w (handleGetAccounts (keAccounts w) ownerID [] False None s) of
     Some (bank_body.AccountsBody as _) \<Rightarrow> if list_all finite_bank_account as then Some as else None
   | _ \<Rightarrow> None)"

definition plaid_ExchangePublicToken :: "bank_env \<Rightarrow> string \<Rightarrow> string \<Rightarrow> LedgerStore \<Rightarrow> string option \<times> LedgerStore" where
  "plaid_ExchangePublicToken w publicToken clientUserID s =
     (if \<not> bank_serves w then (None, s)
      else (case handleExchangePublicToken (keAccounts w) (keNow w) (keNow w) (keNow w) (Some (publicToken, clientUserID)) s of
          (resp, s') \<Rightarrow> (case plaid_do w resp of Some (AccessTokenBody t _) \<Rightarrow> Some t | _ \<Rightarrow> None, s')))"

definition plaid_client :: "bank_env \<Rightarrow> LedgerStore BankClient" where
  "plaid_client w = \<lparr>bkCreateTransfer = plaid_CreateTransfer w, bkAuthorizeTransfer = plaid_AuthorizeTransfer w,
     bkGetAccounts = plaid_GetAccounts w, bkExchangePublicToken = plaid_ExchangePublicToken w\<rparr>"

section \<open>What an answer of the bank means\<close>

lemma plaid_CreateTransfer_accepted:
  assumes "plaid_CreateTransfer w a amt dir desc s = (Some t, s')" and "dir = ''debit'' \<or> dir = ''credit''"
  shows "bank_serves w" and "TransferAccountID t = a" "Amount t = amt" "Direction t = dir" "Status t = TransferStatusPending"
    and "transfers s' = (transfers s)(TransferID t \<mapsto> t)"
    and "\<exists>acc. BankLedger.accounts s a = Some acc \<and> (dir = ''debit'' \<longrightarrow> \<not> flt (AvailableBalance acc) amt)
          \<and> BankLedger.accounts s' = (BankLedger.accounts s)(a \<mapsto> if dir = ''debit''
              then acc\<lparr>AvailableBalance := fsub (AvailableBalance acc) amt\<rparr> else acc)"
proof -
  have d: "dir \<noteq> []" using assms(2) by auto
  have acc: "bank_serves w" "finite64 amt" using assms(1) by (auto simp: plaid_CreateTransfer_def split: if_splits)
  obtain resp s1 where h: "handleCreateTransfer (keNow w) (Some (a, amt, dir, desc)) s = (resp, s1)" by fastforce
  have r: "s1 = s'" "plaid_do w resp = Some (TransferBody t)"
    using assms(1) acc h by (auto simp: plaid_CreateTransfer_def split: option.splits bank_body.splits)
  then have resp: "resp = (201, TransferBody t)"
    using h d by (auto simp: plaid_do_def handleCreateTransfer_def Let_def split: prod.splits option.splits bank_error.splits if_splits)
  define desc' where "desc' = (if desc = [] then ''OCI Investment Capital ACH'' else desc)"
  have c: "CreateTransfer (keNow w) a amt dir desc' s = ((Some t, None), s')"
    using h d unfolding resp r(1) by (auto simp: handleCreateTransfer_def desc'_def Let_def split: prod.splits option.splits bank_error.splits)
  then show "TransferAccountID t = a" "Amount t = amt" "Direction t = dir" "Status t = TransferStatusPending"
    "transfers s' = (transfers s)(TransferID t \<mapsto> t)"
    "\<exists>acc. BankLedger.accounts s a = Some acc \<and> (dir = ''debit'' \<longrightarrow> \<not> flt (AvailableBalance acc) amt)
          \<and> BankLedger.accounts s' = (BankLedger.accounts s)(a \<mapsto> if dir = ''debit''
              then acc\<lparr>AvailableBalance := fsub (AvailableBalance acc) amt\<rparr> else acc)"
    by (auto simp: CreateTransfer_def Let_def split: option.splits if_splits)
  show "bank_serves w" by (rule acc(1))
qed

lemma plaid_CreateTransfer_refused:
  assumes "plaid_CreateTransfer w a amt dir desc s = (None, s')" and "dir = ''debit'' \<or> dir = ''credit''"
  shows "BankLedger.accounts s' = BankLedger.accounts s"
proof -
  have d: "dir \<noteq> []" using assms(2) by auto
  define desc' where "desc' = (if desc = [] then ''OCI Investment Capital ACH'' else desc)"
  obtain t e s1 where c: "CreateTransfer (keNow w) a amt dir desc' s = ((t, e), s1)" by (metis prod.collapse)
  have "BankLedger.accounts s1 = BankLedger.accounts s \<or> (\<exists>t'. t = Some t' \<and> e = None)"
    using c by (auto simp: CreateTransfer_def Let_def split: option.splits if_splits)
  moreover have "s' = s \<or> (s' = s1 \<and> \<not> (\<exists>t'. t = Some t' \<and> e = None))"
    using assms(1) c d
    by (auto simp: plaid_CreateTransfer_def handleCreateTransfer_def desc'_def plaid_do_def Let_def split: if_splits option.splits bank_error.splits)
  ultimately show ?thesis by auto
qed

end
