(* ===== verification/CoreGrpc.thy ===== *)
theory CoreGrpc
  imports CoreLifecycle Clients
begin

text \<open>
  The gRPC surface of the investment core, \<open>cmd/core-invest-api\<close>, as far as the customer layer
  calls it for orders, deposits and balances, and the database tables behind it in production. The
  server of \<open>main.go\<close> has a repository and no broker. A time travels as RFC 3339 text: what is
  parsed back is the time without the fraction of its second.
\<close>

section \<open>Orders\<close>

record order_message =
  omPortfolioID :: string
  omSymbol :: string
  omSide :: string
  omQuantity :: float64
  omPrice :: float64

definition grpc_opts :: "order_message \<Rightarrow> ExecuteBrokerageOrderOpts" where
  "grpc_opts req = \<lparr>eoPortfolioID = omPortfolioID req, eoBrokerName = ''OCI Smart Execution Router'', eoSymbol = omSymbol req, eoSide = omSide req,
     eoQuantity = omQuantity req, eoPrice = omPrice req, eoStrategyID = None, eoEventID = None\<rparr>"

definition grpc_CreateOrder ::
    "'s OrderRepository \<Rightarrow> 'b BrokerClient option \<Rightarrow> time \<Rightarrow> order_message \<Rightarrow> 's \<times> 'b \<Rightarrow> BrokerageOrder option \<times> 's \<times> 'b" where
  "grpc_CreateOrder R client now req st =
     (case ExecuteBrokerageOrder R client now (grpc_opts req) st of
        (Inr x, s1, b1) \<Rightarrow> (Some x, s1, b1)
      | (Inl _, s1, b1) \<Rightarrow>
          (case orCreate R ((pending_order (grpc_opts req))\<lparr>boStatus := ''executed''\<rparr>) s1 of
             (None, s2) \<Rightarrow> (None, s2, b1)
           | (Some created, s2) \<Rightarrow>
               (case orUpdateStatus R (boOrderID created) ''executed'' (Some now) s2 of
                  (Some updated, s3) \<Rightarrow> (Some updated, s3, b1)
                | (None, s3) \<Rightarrow> (Some created, s3, b1))))"

section \<open>Deposits\<close>

definition wire :: "time \<Rightarrow> time" where
  "wire t = Truncate second t"

definition AdvanceRecurringDeposit :: "'s DepositRepository \<Rightarrow> time \<Rightarrow> string \<Rightarrow> time option \<Rightarrow> 's \<Rightarrow> bool \<times> 's" where
  "AdvanceRecurringDeposit D now i nextChargeAt s = drAdvance D i (case nextChargeAt of Some t \<Rightarrow> t | None \<Rightarrow> AddMonths 1 now) s"

text \<open>
  The claim of due deposits. \<open>due\<close> is the condition under which the loop does not continue with
  the next deposit; the error of an update is ignored. With a positive batch size the loop ends when
  as many deposits are claimed.
\<close>

definition due :: "time \<Rightarrow> RecurringDeposit \<Rightarrow> bool" where
  "due now d \<longleftrightarrow> (rdStatus d = ''active'' \<or> rdStatus d = []) \<and> (rdNextChargeAt d = zeroTime \<or> \<not> now < rdNextChargeAt d)"

fun claim_batch ::
    "'s DepositRepository \<Rightarrow> time \<Rightarrow> int \<Rightarrow> RecurringDeposit list \<Rightarrow> RecurringDeposit list \<times> 's \<Rightarrow> RecurringDeposit list \<times> 's" where
  "claim_batch D now batch [] acc = acc"
| "claim_batch D now batch (d # ds) (claimed, s) =
     (if \<not> due now d then claim_batch D now batch ds (claimed, s)
      else let n = next_charge (rdFrequency d) now; s' = snd (drAdvance D (rdDepositID d) n s);
               claimed' = claimed @ [d\<lparr>rdNextChargeAt := wire n\<rparr>]
           in if 0 < batch \<and> batch \<le> int (length claimed') then (claimed', s') else claim_batch D now batch ds (claimed', s'))"

definition core_ClaimDueRecurringDeposits ::
    "'s DepositRepository \<Rightarrow> string list \<Rightarrow> time \<Rightarrow> int \<Rightarrow> 's \<Rightarrow> RecurringDeposit list option \<times> 's" where
  "core_ClaimDueRecurringDeposits D ord now batch s = (case drList D ord [] s of
     None \<Rightarrow> (None, s)
   | Some ds \<Rightarrow> (case claim_batch D now batch ds ([], s) of (claimed, s') \<Rightarrow> (Some claimed, s')))"

section \<open>Balances\<close>

text \<open>
  \<open>UpdatePortfolioBalance\<close> in memory changes the shared portfolio object; in the database it reads
  the row, computes, and writes the row back in a second statement, whose error is ignored: \<open>up\<close> and \<open>upw\<close>
  say whether the two statements reach the database. The table of portfolios is the list of its rows,
  oldest first.
\<close>

definition UpdatePortfolioBalance ::
    "string list \<Rightarrow> time \<Rightarrow> string \<Rightarrow> float64 \<Rightarrow> mockRepository \<Rightarrow> (float64 \<times> float64) option \<times> mockRepository" where
  "UpdatePortfolioBalance ord now portfolioID delta m = (case GetPortfolio ord now portfolioID m of
     (Inl _, m1) \<Rightarrow> (None, m1)
   | (Inr a, m1) \<Rightarrow> (case mHeap m1 a of
       None \<Rightarrow> (None, m1)
     | Some p \<Rightarrow>
         let newCash = fadd (pfCashBalanceUSD p) delta; newTotal = fadd (pfTotalBalanceUSD p) delta
         in (Some (newCash, newTotal),
             UpdatePortfolio now a (m1\<lparr>mHeap := (mHeap m1)(a \<mapsto> p\<lparr>pfCashBalanceUSD := newCash, pfTotalBalanceUSD := newTotal\<rparr>)\<rparr>))))"

definition pgx_GetPortfolio :: "bool \<Rightarrow> string \<Rightarrow> Portfolio list \<Rightarrow> Portfolio option" where
  "pgx_GetPortfolio up i rows = (if \<not> up \<or> i = [] then None
     else List.find (\<lambda>p. pfCustomerID p = i \<or> pfPortfolioID p = i) rows)"

definition pgx_UpdatePortfolio :: "bool \<Rightarrow> time \<Rightarrow> Portfolio \<Rightarrow> Portfolio list \<Rightarrow> Portfolio list" where
  "pgx_UpdatePortfolio up now p rows = (if \<not> up then rows
     else map (\<lambda>q. if pfPortfolioID q = pfPortfolioID p \<or> pfCustomerID q = pfPortfolioID p
       then q\<lparr>pfAccountName := pfAccountName p, pfTotalBalanceUSD := pfTotalBalanceUSD p, pfCashBalanceUSD := pfCashBalanceUSD p,
              pfStatus := pfStatus p, pfUpdatedAt := now\<rparr> else q) rows)"

definition credited :: "float64 \<Rightarrow> Portfolio \<Rightarrow> Portfolio" where
  "credited delta p = p\<lparr>pfCashBalanceUSD := fadd (pfCashBalanceUSD p) delta, pfTotalBalanceUSD := fadd (pfTotalBalanceUSD p) delta\<rparr>"

definition db_UpdatePortfolioBalance ::
    "bool \<Rightarrow> bool \<Rightarrow> time \<Rightarrow> string \<Rightarrow> float64 \<Rightarrow> Portfolio list \<Rightarrow> (float64 \<times> float64) option \<times> Portfolio list" where
  "db_UpdatePortfolioBalance up upw now i delta rows = (case pgx_GetPortfolio up i rows of
     None \<Rightarrow> (None, rows)
   | Some p \<Rightarrow> (Some (pfCashBalanceUSD (credited delta p), pfTotalBalanceUSD (credited delta p)), pgx_UpdatePortfolio upw now (credited delta p) rows))"

section \<open>The client that the customer layer holds\<close>

text \<open>The two clients below are the core in memory and the core over a database whose statements during one call
  all succeed or all fail.\<close>

record 'c CoreClient =
  ccCreateOrder :: "order_message \<Rightarrow> 'c \<Rightarrow> BrokerageOrder option \<times> 'c"
  ccCreateRecurringDeposit :: "CreateRecurringDepositOpts \<Rightarrow> 'c \<Rightarrow> RecurringDeposit option \<times> 'c"
  ccListRecurringDeposits :: "string \<Rightarrow> 'c \<Rightarrow> RecurringDeposit list option"
  ccAdvanceRecurringDeposit :: "string \<Rightarrow> time \<Rightarrow> 'c \<Rightarrow> bool \<times> 'c"
  ccUpdatePortfolioBalance :: "string \<Rightarrow> float64 \<Rightarrow> 'c \<Rightarrow> (float64 \<times> float64) option \<times> 'c"

definition sent :: "RecurringDeposit \<Rightarrow> RecurringDeposit" where
  "sent d = d\<lparr>rdNextChargeAt := wire (rdNextChargeAt d)\<rparr>"

definition create_deposit ::
    "'s DepositRepository \<Rightarrow> time \<Rightarrow> CreateRecurringDepositOpts \<Rightarrow> 's \<Rightarrow> RecurringDeposit option \<times> 's" where
  "create_deposit D now opts s =
     (case CoreInvest.CreateRecurringDeposit D (None :: unit BankClient option) now (opts\<lparr>doAccountID := []\<rparr>) (s, ()) of
        (Inr d, s', _) \<Rightarrow> (Some (sent d), s')
      | (Inl _, s', _) \<Rightarrow> (None, s'))"

definition memory_core :: "string list \<Rightarrow> string list \<Rightarrow> time \<Rightarrow> mockRepository CoreClient" where
  "memory_core ord dord now = \<lparr>
     ccCreateOrder = (\<lambda>req m. case grpc_CreateOrder (mock_orders now) (None :: unit BrokerClient option) now req (m, ()) of (x, m', _) \<Rightarrow> (x, m')),
     ccCreateRecurringDeposit = create_deposit (mock_deposits now) now,
     ccListRecurringDeposits = (\<lambda>c m. map_option (map sent) (drList (mock_deposits now) dord c m)),
     ccAdvanceRecurringDeposit = (\<lambda>i t. AdvanceRecurringDeposit (mock_deposits now) now i (Some (wire t))),
     ccUpdatePortfolioBalance = UpdatePortfolioBalance ord now\<rparr>"

record core_db =
  cdOrders :: order_table
  cdDeposits :: deposit_table
  cdPortfolios :: "Portfolio list"

definition database_core :: "(nat \<Rightarrow> string) \<Rightarrow> bool \<Rightarrow> string list \<Rightarrow> time \<Rightarrow> core_db CoreClient" where
  "database_core uuid up dord now = \<lparr>
     ccCreateOrder = (\<lambda>req c. case grpc_CreateOrder (pgx_orders uuid up now) (None :: unit BrokerClient option) now req (cdOrders c, ()) of
        (x, t, _) \<Rightarrow> (x, c\<lparr>cdOrders := t\<rparr>)),
     ccCreateRecurringDeposit = (\<lambda>opts c. case create_deposit (pgx_deposits uuid up now) now opts (cdDeposits c) of (d, t) \<Rightarrow> (d, c\<lparr>cdDeposits := t\<rparr>)),
     ccListRecurringDeposits = (\<lambda>cu c. map_option (map sent) (drList (pgx_deposits uuid up now) dord cu (cdDeposits c))),
     ccAdvanceRecurringDeposit = (\<lambda>i t c. case AdvanceRecurringDeposit (pgx_deposits uuid up now) now i (Some (wire t)) (cdDeposits c) of
        (ok, d) \<Rightarrow> (ok, c\<lparr>cdDeposits := d\<rparr>)),
     ccUpdatePortfolioBalance = (\<lambda>i x c. case db_UpdatePortfolioBalance up up now i x (cdPortfolios c) of (r, ps) \<Rightarrow> (r, c\<lparr>cdPortfolios := ps\<rparr>))\<rparr>"

section \<open>Properties\<close>

definition inserted :: "string \<Rightarrow> time \<Rightarrow> string \<Rightarrow> order_message \<Rightarrow> BrokerageOrder" where
  "inserted i now st req = (pending_order (grpc_opts req))\<lparr>boOrderID := i, boStatus := st, boCreatedAt := now, boUpdatedAt := now\<rparr>"

lemma ExecuteBrokerageOrder_no_broker:
  "ExecuteBrokerageOrder (pgx_orders uuid True now) None now opts (t, b) =
     (if order_accepted opts
      then (Inl BrokerNotConfigured, t\<lparr>otRows := (otRows t)(uuid (otCount t) \<mapsto> (pending_order opts)\<lparr>boOrderID := uuid (otCount t), boExecutedAt := None, boCreatedAt := now, boUpdatedAt := now\<rparr>),
              otCount := Suc (otCount t)\<rparr>, b)
      else (fst (ExecuteBrokerageOrder (pgx_orders uuid True now) (None :: 'b BrokerClient option) now opts (t, b)), t, b))"
  by (auto simp: ExecuteBrokerageOrder_def order_accepted_def pgx_orders_def Let_def)

lemma refused_without_broker: "\<exists>e. fst (ExecuteBrokerageOrder R None now opts (s, b)) = Inl e"
proof -
  obtain res s' b' where r: "ExecuteBrokerageOrder R None now opts (s, b) = (res, s', b')" by (metis prod_cases3)
  from r have "\<exists>e. res = Inl e" by (cases rule: ExecuteBrokerageOrder_cases) auto
  with r show ?thesis by simp
qed

text \<open>As deployed, with a database and without a broker, the core stores every order it is sent as executed now,
  also one with an empty symbol, an unknown side, no quantity or no price; and for each order whose fields
  are in order it also leaves a second row, which stays pending.\<close>

theorem order_persisted:
  assumes "uuid (otCount t) \<noteq> uuid (Suc (otCount t))"
  shows "\<exists>y. fst (grpc_CreateOrder (pgx_orders uuid True now) (None :: 'b BrokerClient option) now req (t, b)) = Some y
    \<and> boStatus y = ''executed'' \<and> boExecutedAt y = Some now \<and> same_order (pending_order (grpc_opts req)) y
    \<and> otRows (fst (snd (grpc_CreateOrder (pgx_orders uuid True now) (None :: 'b BrokerClient option) now req (t, b))))
      = (if order_accepted (grpc_opts req)
         then (otRows t)(uuid (otCount t) \<mapsto> inserted (uuid (otCount t)) now ''pending'' req, boOrderID y \<mapsto> y)
         else (otRows t)(boOrderID y \<mapsto> y))"
proof -
  define opts where "opts = grpc_opts req"
  obtain e s1 b1 where ex: "ExecuteBrokerageOrder (pgx_orders uuid True now) (None :: 'b BrokerClient option) now opts (t, b) = (Inl e, s1, b1)"
    using refused_without_broker [of "pgx_orders uuid True now" now opts t b] by (metis prod.collapse)
  define y where "y = (inserted (uuid (otCount s1)) now ''executed'' req)\<lparr>boExecutedAt := Some now\<rparr>"
  have g: "grpc_CreateOrder (pgx_orders uuid True now) (None :: 'b BrokerClient option) now req (t, b)
      = (Some y, s1\<lparr>otRows := (otRows s1)(boOrderID y \<mapsto> y), otCount := Suc (otCount s1)\<rparr>, b1)"
    using ex by (simp add: grpc_CreateOrder_def opts_def pgx_orders_def y_def inserted_def pending_order_def Let_def)
  have f: "boStatus y = ''executed''" "boExecutedAt y = Some now" "same_order (pending_order opts) y"
    by (simp_all add: y_def inserted_def same_order_def pending_order_def opts_def grpc_opts_def)
  show ?thesis
  proof (cases "order_accepted opts")
    case True
    with ex have s1: "s1 = t\<lparr>otRows := (otRows t)(uuid (otCount t) \<mapsto> (pending_order opts)\<lparr>boOrderID := uuid (otCount t), boExecutedAt := None, boCreatedAt := now, boUpdatedAt := now\<rparr>), otCount := Suc (otCount t)\<rparr>"
      by (simp add: ExecuteBrokerageOrder_no_broker)
    with g f True show ?thesis by (simp add: opts_def inserted_def pending_order_def)
  next
    case False
    with ex have "s1 = t"
      using ExecuteBrokerageOrder_no_broker [of uuid now opts t b] by simp
    with g f False show ?thesis by (simp add: opts_def)
  qed
qed

definition demo_message :: order_message where
  "demo_message = \<lparr>omPortfolioID = ''p'', omSymbol = [], omSide = ''hold'', omQuantity = Fin 0, omPrice = Fin 0\<rparr>"

theorem order_persisted_witness:
  "\<exists>y. fst (grpc_CreateOrder (pgx_orders dec_nat True 5) (None :: unit BrokerClient option) 5 demo_message (\<lparr>otRows = Map.empty, otCount = 0\<rparr>, ())) = Some y
     \<and> boStatus y = ''executed''"
  using order_persisted [of dec_nat "\<lparr>otRows = Map.empty, otCount = 0\<rparr>" 5 demo_message "()"] by (auto simp: dec_nat_inj)

lemma pgx_get_updated:
  assumes "pgx_GetPortfolio True i rs = Some q0" and "pfPortfolioID q = pfPortfolioID q0"
  shows "pgx_GetPortfolio True i (pgx_UpdatePortfolio True now q rs) = Some (q0\<lparr>pfAccountName := pfAccountName q, pfTotalBalanceUSD := pfTotalBalanceUSD q,
    pfCashBalanceUSD := pfCashBalanceUSD q, pfStatus := pfStatus q, pfUpdatedAt := now\<rparr>)"
  using assms by (induction rs) (auto simp: pgx_GetPortfolio_def pgx_UpdatePortfolio_def split: if_splits)

text \<open>One after the other, two balance updates of a portfolio in the database add up: the row ends with both
  amounts added to cash and total. When both read before either writes, the first amount is lost; and when the
  writing statement fails, the update is answered with the new balances although the row has the old ones.\<close>

theorem balance_updates:
  assumes "pgx_GetPortfolio True i rows = Some p"
  shows "(let rows1 = snd (db_UpdatePortfolioBalance True True t1 i x rows); rows2 = snd (db_UpdatePortfolioBalance True True t2 i y rows1)
      in \<exists>q. pgx_GetPortfolio True i rows2 = Some q \<and> pfCashBalanceUSD q = fadd (fadd (pfCashBalanceUSD p) x) y
         \<and> pfTotalBalanceUSD q = fadd (fadd (pfTotalBalanceUSD p) x) y)
    \<and> (\<exists>q. pgx_GetPortfolio True i (pgx_UpdatePortfolio True t2 (credited y p) (pgx_UpdatePortfolio True t1 (credited x p) rows)) = Some q
         \<and> pfCashBalanceUSD q = fadd (pfCashBalanceUSD p) y)
    \<and> db_UpdatePortfolioBalance True False t1 i x rows = (Some (fadd (pfCashBalanceUSD p) x, fadd (pfTotalBalanceUSD p) x), rows)"
proof -
  note upd = pgx_get_updated
  let ?r1 = "pgx_UpdatePortfolio True t1 (credited x p) rows"
  have r1: "pgx_GetPortfolio True i ?r1 = Some ((credited x p)\<lparr>pfUpdatedAt := t1\<rparr>)"
    using upd [OF assms, of "credited x p" t1] by (simp add: credited_def)
  have seq: "snd (db_UpdatePortfolioBalance True True t1 i x rows) = ?r1"
    using assms by (simp add: db_UpdatePortfolioBalance_def)
  have "snd (db_UpdatePortfolioBalance True True t2 i y ?r1) = pgx_UpdatePortfolio True t2 (credited y ((credited x p)\<lparr>pfUpdatedAt := t1\<rparr>)) ?r1"
    using r1 by (simp add: db_UpdatePortfolioBalance_def)
  moreover have "db_UpdatePortfolioBalance True False t1 i x rows = (Some (fadd (pfCashBalanceUSD p) x, fadd (pfTotalBalanceUSD p) x), rows)"
    using assms by (simp add: db_UpdatePortfolioBalance_def pgx_UpdatePortfolio_def credited_def)
  ultimately show ?thesis using upd [OF r1, of "credited y ((credited x p)\<lparr>pfUpdatedAt := t1\<rparr>)" t2] upd [OF r1, of "credited y p" t2] seq
    by (simp add: credited_def)
qed

definition demo_row :: Portfolio where
  "demo_row = \<lparr>pfPortfolioID = ''p'', pfCustomerID = ''c'', pfCustomerName = ''n'', pfAccountName = ''a'', pfTotalBalanceUSD = Fin 10, pfCashBalanceUSD = Fin 10,
     pfStatus = ''active'', pfHoldings = [], pfHistoricalPerf = [], pfCreatedAt = 0, pfUpdatedAt = 0\<rparr>"

theorem balance_updates_witness:
  "pgx_GetPortfolio True ''c'' [demo_row] = Some demo_row
   \<and> (\<exists>q. pgx_GetPortfolio True ''c'' (pgx_UpdatePortfolio True 2 (credited (Fin 7) demo_row) (pgx_UpdatePortfolio True 1 (credited (Fin 5) demo_row) [demo_row])) = Some q
        \<and> pfCashBalanceUSD q = fadd (Fin 10) (Fin 7))"
proof -
  have a: "pgx_GetPortfolio True ''c'' [demo_row] = Some demo_row" by (simp add: pgx_GetPortfolio_def demo_row_def)
  have b: "pfCashBalanceUSD demo_row = Fin 10" by (simp add: demo_row_def)
  from balance_updates [OF a, of 1 "Fin 5" 2 "Fin 7"] a b show ?thesis by simp
qed

end
