(* ===== verification/CustomerBLL.thy ===== *)
theory CustomerBLL
  imports CoreGrpc
begin

text \<open>
  The business layer of the customers, \<open>internal/app/customerbll\<close>: orders with the medical hold check,
  deposits, their settlement and the claim of due deposits. A server holds optional clients
  of the broker, the bank, the workforce service and the investment core, and an optional
  publisher. The state of a call is the state of these services and the messages published so far.
  An error is the gRPC code it is returned with. Identifiers that \<open>watermill\<close> generates are arguments.
\<close>

section \<open>Server and state\<close>

datatype code = InvalidArgument | Unavailable | FailedPrecondition | Internal

text \<open>\<open>wfGetCareSchedule\<close> returns no answer for an error; an answer is the hold flag of the schedule, or
  nothing when the response has no schedule. \<open>wfActiveFelines\<close> lists the identifiers of the active
  feline employees.\<close>

record 'w WorkforceClient =
  wfGetCareSchedule :: "string \<Rightarrow> 'w \<Rightarrow> bool option option"
  wfActiveFelines :: "'w \<Rightarrow> string list option"

record ValidateAndExecuteOrderRequest =
  vqCustomerID :: string
  vqPortfolioID :: string
  vqSymbol :: string
  vqSide :: string
  vqQuantity :: float64
  vqOrderType :: string
  vqLimitPrice :: float64
  vqStopLoss :: float64
  vqTakeProfit :: float64
  vqFelineID :: string

record ValidateAndExecuteOrderResponse =
  vrOrderID :: string
  vrCustomerID :: string
  vrPortfolioID :: string
  vrBrokerName :: string
  vrSymbol :: string
  vrSide :: string
  vrQuantity :: float64
  vrPrice :: float64
  vrStatus :: string
  vrExecutedAt :: "time option"

record ACHTransferRequestedPayload =
  apTransferID :: string
  apCustomerID :: string
  apPortfolioID :: string
  apBankAccount :: string
  apAmountUSD :: float64
  apTransferType :: string

text \<open>A message: its identifier, the correlation identifier and the payload of its envelope. The body is
  missing when the payload could not be marshalled, because a number of it is not finite.\<close>

datatype payload = OrderPlaced ValidateAndExecuteOrderResponse | ACHTransferRequested ACHTransferRequestedPayload

record message =
  msgUUID :: string
  msgCorrelationID :: string
  msgBody :: "payload option"

fun marshal :: "payload \<Rightarrow> payload option" where
  "marshal (OrderPlaced r) = (if finite64 (vrQuantity r) \<and> finite64 (vrPrice r) then Some (OrderPlaced r) else None)"
| "marshal (ACHTransferRequested p) = (if finite64 (apAmountUSD p) then Some (ACHTransferRequested p) else None)"

record ('b, 'k, 'w, 'c) Server =
  svBroker :: "'b AlpacaClient option"
  svBank :: "'k BankClient option"
  svWorkforce :: "'w WorkforceClient option"
  svCore :: "'c CoreClient option"
  svPublisher :: "(message list \<Rightarrow> bool) option"
  svDefaultFelineID :: string

record ('b, 'k, 'w, 'c) world =
  wBroker :: 'b
  wBank :: 'k
  wWorkforce :: 'w
  wCore :: 'c
  wMessages :: "message list"

text \<open>\<open>publish\<close>: a publisher takes the message or reports an error; without one nothing happens.\<close>

definition publish :: "(message list \<Rightarrow> bool) option \<Rightarrow> message \<Rightarrow> message list \<Rightarrow> bool \<times> message list" where
  "publish P x ms = (case P of None \<Rightarrow> (True, ms) | Some acc \<Rightarrow> if acc ms then (True, ms @ [x]) else (False, ms))"

section \<open>Orders\<close>

definition fetchFirstActiveFeline :: "('b, 'k, 'w, 'c) Server \<Rightarrow> 'w \<Rightarrow> string option" where
  "fetchFirstActiveFeline S w = (case svWorkforce S of
     None \<Rightarrow> None
   | Some W \<Rightarrow> (case wfActiveFelines W w of Some (f # _) \<Rightarrow> if f \<noteq> [] then Some f else None | _ \<Rightarrow> None))"

definition resolveTargetFeline :: "('b, 'k, 'w, 'c) Server \<Rightarrow> string \<Rightarrow> 'w \<Rightarrow> string option" where
  "resolveTargetFeline S requestedID w = (if requestedID \<noteq> [] then Some requestedID
     else if svDefaultFelineID S \<noteq> [] then Some (svDefaultFelineID S) else fetchFirstActiveFeline S w)"

definition checkFelineMedicalHold :: "('b, 'k, 'w, 'c) Server \<Rightarrow> string \<Rightarrow> 'w \<Rightarrow> bool option" where
  "checkFelineMedicalHold S felineID w = (case svWorkforce S of
     None \<Rightarrow> None
   | Some W \<Rightarrow> (case wfGetCareSchedule W felineID w of
       None \<Rightarrow> None | Some (Some hold) \<Rightarrow> Some hold | Some None \<Rightarrow> Some False))"

definition order_type :: "ValidateAndExecuteOrderRequest \<Rightarrow> string" where
  "order_type req = (if vqOrderType req = [] then ''market'' else vqOrderType req)"

definition invalid_order :: "ValidateAndExecuteOrderRequest \<Rightarrow> bool" where
  "invalid_order req \<longleftrightarrow> vqPortfolioID req = [] \<or> vqSymbol req = [] \<or> fle (vqQuantity req) (Fin 0)
     \<or> (vqSide req \<noteq> ''buy'' \<and> vqSide req \<noteq> ''sell'') \<or> (order_type req \<noteq> ''market'' \<and> order_type req \<noteq> ''limit'')
     \<or> (order_type req = ''limit'' \<and> fle (vqLimitPrice req) (Fin 0))
     \<or> flt (Fin 0) (vqStopLoss req) \<or> flt (Fin 0) (vqTakeProfit req)"

definition core_order :: "ValidateAndExecuteOrderRequest \<Rightarrow> float64 \<Rightarrow> order_message" where
  "core_order req price = \<lparr>omPortfolioID = vqPortfolioID req, omSymbol = vqSymbol req, omSide = vqSide req, omQuantity = vqQuantity req, omPrice = price\<rparr>"

definition alpaca_order :: "ValidateAndExecuteOrderRequest \<Rightarrow> string \<Rightarrow> CreateOrderRequest" where
  "alpaca_order req clientOrderID = \<lparr>ReqSymbol = vqSymbol req, ReqQty = vqQuantity req, ReqSide = vqSide req, ReqType = order_type req,
     ReqTimeInForce = ''day'', ReqLimitPrice = (if order_type req = ''limit'' then Some (vqLimitPrice req) else None), ReqClientOrderID = clientOrderID\<rparr>"

definition executed_price :: "ValidateAndExecuteOrderRequest \<Rightarrow> Order \<Rightarrow> float64" where
  "executed_price req ord = (case FilledAvgPrice ord of Some p \<Rightarrow> p
     | None \<Rightarrow> if flt (Fin 0) (vqLimitPrice req) then vqLimitPrice req else Fin 0)"

definition order_response :: "time \<Rightarrow> ValidateAndExecuteOrderRequest \<Rightarrow> string \<Rightarrow> Order \<Rightarrow> ValidateAndExecuteOrderResponse" where
  "order_response now req clientOrderID ord = \<lparr>
     vrOrderID = (if OrderID ord = [] then clientOrderID else OrderID ord), vrCustomerID = vqCustomerID req, vrPortfolioID = vqPortfolioID req,
     vrBrokerName = ''OCI Smart Execution Router'', vrSymbol = vqSymbol req, vrSide = vqSide req, vrQuantity = vqQuantity req,
     vrPrice = executed_price req ord, vrStatus = (if OrdStatus ord = [] then ''submitted'' else OrdStatus ord), vrExecutedAt = Some (wire now)\<rparr>"

text \<open>Without a broker the core executes the order.\<close>

definition execute_in_core ::
    "('b, 'k, 'w, 'c) Server \<Rightarrow> ValidateAndExecuteOrderRequest \<Rightarrow> ('b, 'k, 'w, 'c) world
      \<Rightarrow> (code + ValidateAndExecuteOrderResponse) \<times> ('b, 'k, 'w, 'c) world" where
  "execute_in_core S req w = (case svCore S of
     None \<Rightarrow> (Inl Unavailable, w)
   | Some C \<Rightarrow>
       (case ccCreateOrder C (core_order req (if fle (vqLimitPrice req) (Fin 0) then lit 224.30 else vqLimitPrice req)) (wCore w) of
          (None, c) \<Rightarrow> (Inl Unavailable, w\<lparr>wCore := c\<rparr>)
        | (Some x, c) \<Rightarrow> (Inr \<lparr>vrOrderID = boOrderID x, vrCustomerID = vqCustomerID req, vrPortfolioID = boPortfolioID x, vrBrokerName = boBrokerName x,
              vrSymbol = boSymbol x, vrSide = boSide x, vrQuantity = boQuantity x, vrPrice = boPrice x, vrStatus = boStatus x,
              vrExecutedAt = map_option wire (boExecutedAt x)\<rparr>, w\<lparr>wCore := c\<rparr>)))"

text \<open>What follows an order that the broker took: it is persisted in the core and announced; an error of
  either is ignored.\<close>

definition record_order ::
    "('b, 'k, 'w, 'c) Server \<Rightarrow> time \<Rightarrow> string \<Rightarrow> ValidateAndExecuteOrderRequest \<Rightarrow> ValidateAndExecuteOrderResponse
      \<Rightarrow> ('b, 'k, 'w, 'c) world \<Rightarrow> ('b, 'k, 'w, 'c) world" where
  "record_order S now eventID req result w =
     (let c = (case svCore S of None \<Rightarrow> wCore w | Some C \<Rightarrow> snd (ccCreateOrder C (core_order req (vrPrice result)) (wCore w)));
          x = \<lparr>msgUUID = eventID, msgCorrelationID = vrOrderID result, msgBody = marshal (OrderPlaced result)\<rparr>
      in w\<lparr>wCore := c, wMessages := snd (publish (svPublisher S) x (wMessages w))\<rparr>)"

definition ValidateAndExecuteOrder ::
    "('b, 'k, 'w, 'c) Server \<Rightarrow> time \<Rightarrow> string \<Rightarrow> string \<Rightarrow> ValidateAndExecuteOrderRequest \<Rightarrow> ('b, 'k, 'w, 'c) world
      \<Rightarrow> (code + ValidateAndExecuteOrderResponse) \<times> ('b, 'k, 'w, 'c) world" where
  "ValidateAndExecuteOrder S now uuid eventID req w =
     (if invalid_order req then (Inl InvalidArgument, w)
      else (case resolveTargetFeline S (vqFelineID req) (wWorkforce w) of
          None \<Rightarrow> (Inl Unavailable, w)
        | Some targetFeline \<Rightarrow>
            (case checkFelineMedicalHold S targetFeline (wWorkforce w) of
               None \<Rightarrow> (Inl Unavailable, w)
             | Some True \<Rightarrow> (Inl FailedPrecondition, w)
             | Some False \<Rightarrow>
                 (case svBroker S of
                    None \<Rightarrow> execute_in_core S req w
                  | Some B \<Rightarrow>
                      let clientOrderID = ''ord-'' @ take 8 uuid in
                      (case brCreateOrder B (vqPortfolioID req) (alpaca_order req clientOrderID) (wBroker w) of
                         (None, b) \<Rightarrow> (Inl Unavailable, w\<lparr>wBroker := b\<rparr>)
                       | (Some ord, b) \<Rightarrow>
                           let result = order_response now req clientOrderID ord
                           in (Inr result, record_order S now eventID req result (w\<lparr>wBroker := b\<rparr>)))))))"

section \<open>Deposits\<close>

text \<open>The account that stands for a customer who gave no portfolio: the first account whose identifier or
  number is the customer identifier or whose customer name contains it, and otherwise the first of
  all accounts.\<close>

definition account_of :: "string \<Rightarrow> Account list \<Rightarrow> string" where
  "account_of customerID accs =
     (case List.find (\<lambda>a. AcctID a = customerID \<or> BrokerLedger.Account.AccountNumber a = customerID
          \<or> (customerID \<noteq> [] \<and> Contains (ToLower (CustomerName a)) (ToLower customerID))) accs of
        Some a \<Rightarrow> if AcctID a = [] \<and> accs \<noteq> [] then AcctID (hd accs) else AcctID a
      | None \<Rightarrow> if accs \<noteq> [] then AcctID (hd accs) else [])"

definition deposit_portfolio :: "('b, 'k, 'w, 'c) Server \<Rightarrow> string \<Rightarrow> string \<Rightarrow> 'b \<Rightarrow> string" where
  "deposit_portfolio S customerID portfolioID b =
     (let p = (if portfolioID = [] then (case svBroker S of
                  None \<Rightarrow> []
                | Some B \<Rightarrow> (case acListAccounts B b of None \<Rightarrow> [] | Some accs \<Rightarrow> account_of customerID accs))
               else portfolioID)
      in if p = [] then ''port-'' @ customerID else p)"

record InitiateACHDepositRequest =
  iqCustomerID :: string
  iqPortfolioID :: string
  iqAccountID :: string
  iqBankAccount :: string
  iqAmountUSD :: float64
  iqFrequency :: string

record InitiateACHDepositResponse =
  irTransferID :: string
  irCustomerID :: string
  irPortfolioID :: string
  irAmountUSD :: float64
  irFrequency :: string
  irDeposit :: RecurringDeposit

definition deposit_opts :: "InitiateACHDepositRequest \<Rightarrow> string \<Rightarrow> string \<Rightarrow> CreateRecurringDepositOpts" where
  "deposit_opts req portfolioID freq = \<lparr>doCustomerID = iqCustomerID req, doPortfolioID = portfolioID, doAmountUSD = iqAmountUSD req,
     doFrequency = freq, doBankAccount = iqBankAccount req, doAccountID = []\<rparr>"

definition local_deposit :: "time \<Rightarrow> InitiateACHDepositRequest \<Rightarrow> string \<Rightarrow> string \<Rightarrow> RecurringDeposit" where
  "local_deposit now req portfolioID freq = \<lparr>rdDepositID = ''dep-'' @ dec_int now, rdCustomerID = iqCustomerID req, rdPortfolioID = portfolioID,
     rdAmountUSD = iqAmountUSD req, rdFrequency = freq, rdBankAccount = iqBankAccount req, rdStatus = ''active'',
     rdNextChargeAt = wire (AddMonths 1 now), rdCreatedAt = zeroTime\<rparr>"

text \<open>The bank account that the code looks up for a request without one is used nowhere afterwards; the
  lookup changes nothing and is left out.\<close>

definition InitiateACHDeposit ::
    "('b, 'k, 'w, 'c) Server \<Rightarrow> time \<Rightarrow> string \<Rightarrow> string \<Rightarrow> InitiateACHDepositRequest \<Rightarrow> ('b, 'k, 'w, 'c) world
      \<Rightarrow> (code + InitiateACHDepositResponse) \<times> ('b, 'k, 'w, 'c) world" where
  "InitiateACHDeposit S now uuid eventID req w =
     (if iqCustomerID req = [] \<or> fle (iqAmountUSD req) (Fin 0) then (Inl InvalidArgument, w)
      else
        let portfolioID = deposit_portfolio S (iqCustomerID req) (iqPortfolioID req) (wBroker w);
            freq = (if iqFrequency req = [] then ''one_time'' else iqFrequency req);
            (created, c) = (case svCore S of
                None \<Rightarrow> (Some (local_deposit now req portfolioID freq), wCore w)
              | Some C \<Rightarrow> ccCreateRecurringDeposit C (deposit_opts req portfolioID freq) (wCore w))
        in case created of
             None \<Rightarrow> (Inl InvalidArgument, w\<lparr>wCore := c\<rparr>)
           | Some d \<Rightarrow>
               let transferID = ''ach-'' @ take 8 uuid;
                   p = \<lparr>apTransferID = transferID, apCustomerID = iqCustomerID req, apPortfolioID = portfolioID, apBankAccount = iqBankAccount req,
                        apAmountUSD = iqAmountUSD req, apTransferType = ''deposit''\<rparr>;
                   (ok, ms) = publish (svPublisher S) \<lparr>msgUUID = eventID, msgCorrelationID = transferID, msgBody = marshal (ACHTransferRequested p)\<rparr> (wMessages w);
                   w' = w\<lparr>wCore := c, wMessages := ms\<rparr>
               in if \<not> ok then (Inl Internal, w')
                  else (Inr \<lparr>irTransferID = transferID, irCustomerID = iqCustomerID req, irPortfolioID = portfolioID, irAmountUSD = iqAmountUSD req,
                          irFrequency = freq, irDeposit = d\<rparr>, w'))"

record LinkedBankAccount =
  laAccountID :: string
  laInstitutionName :: string
  laAccountNumber :: string
  laName :: string
  laType :: string
  laSubtype :: string
  laAvailableBalance :: float64
  laCurrentBalance :: float64

definition linked :: "BankAccount \<Rightarrow> LinkedBankAccount" where
  "linked a = \<lparr>laAccountID = AccountID a, laInstitutionName = InstitutionName a, laAccountNumber = BankLedger.BankAccount.AccountNumber a,
     laName = AccountName a, laType = BankLedger.BankAccount.AccountType a, laSubtype = AccountSubtype a,
     laAvailableBalance = AvailableBalance a, laCurrentBalance = CurrentBalance a\<rparr>"

definition ListBankAccounts :: "('b, 'k, 'w, 'c) Server \<Rightarrow> string \<Rightarrow> ('b, 'k, 'w, 'c) world \<Rightarrow> code + LinkedBankAccount list" where
  "ListBankAccounts S customerID w = (if customerID = [] then Inl InvalidArgument
     else (case (case svBank S of None \<Rightarrow> None | Some K \<Rightarrow> bkGetAccounts K customerID (wBank w)) of
         Some (a # as) \<Rightarrow> Inr (map linked (a # as))
       | _ \<Rightarrow> Inr [\<lparr>laAccountID = ''acc_'' @ customerID @ ''_primary'', laInstitutionName = ''Primary Linked Institution'', laAccountNumber = ''****1001'',
                laName = ''Primary Checking Account'', laType = [], laSubtype = [], laAvailableBalance = Fin 10000, laCurrentBalance = Fin 10000\<rparr>]))"

text \<open>Settlement of a transfer; the response is the time of the settlement.\<close>

definition clearing_direction :: "ACHTransferRequestedPayload \<Rightarrow> string" where
  "clearing_direction p = (if apTransferType p = ''withdrawal'' then ''credit'' else ''debit'')"

definition balance_delta :: "ACHTransferRequestedPayload \<Rightarrow> float64" where
  "balance_delta p = (if apTransferType p = ''withdrawal'' then fneg (apAmountUSD p) else apAmountUSD p)"

definition SettleACHTransfer ::
    "('b, 'k, 'w, 'c) Server \<Rightarrow> time \<Rightarrow> ACHTransferRequestedPayload \<Rightarrow> ('b, 'k, 'w, 'c) world \<Rightarrow> (code + time) \<times> ('b, 'k, 'w, 'c) world" where
  "SettleACHTransfer S now p w =
     (if apTransferID p = [] then (Inl InvalidArgument, w)
      else
        let (cleared, k) = (case svBank S of
              None \<Rightarrow> (True, wBank w)
            | Some K \<Rightarrow> (case bkCreateTransfer K (apBankAccount p) (apAmountUSD p) (clearing_direction p)
                  (''OCI Investment Capital ACH '' @ apTransferType p @ '' ('' @ apTransferID p @ '')'') (wBank w) of
                (t, k) \<Rightarrow> (t \<noteq> None, k)));
            w1 = w\<lparr>wBank := k\<rparr>
        in if \<not> cleared then (Inl Unavailable, w1)
           else (case svCore S of
               None \<Rightarrow> (Inr (wire now), w1)
             | Some C \<Rightarrow>
                 if apPortfolioID p = [] then (Inr (wire now), w1)
                 else (case ccUpdatePortfolioBalance C (apPortfolioID p) (balance_delta p) (wCore w1) of
                     (None, c) \<Rightarrow> (Inl Internal, w1\<lparr>wCore := c\<rparr>)
                   | (Some _, c) \<Rightarrow> (Inr (wire now), w1\<lparr>wCore := c\<rparr>))))"

section \<open>Claims of due deposits\<close>

record RecurringDepositSummary =
  dsDepositID :: string
  dsCustomerID :: string
  dsPortfolioID :: string
  dsAmountUSD :: float64
  dsFrequency :: string
  dsBankAccount :: string
  dsStatus :: string
  dsNextChargeAt :: time

definition bll_next_charge :: "string \<Rightarrow> time \<Rightarrow> time" where
  "bll_next_charge frequency now = (if frequency = ''weekly'' then AddDays 7 now
     else if frequency = ''biweekly'' \<or> frequency = ''bi_weekly'' then AddDays 14 now else AddMonths 1 now)"

definition due_deposit :: "time \<Rightarrow> RecurringDeposit \<Rightarrow> bool" where
  "due_deposit now d \<longleftrightarrow> rdStatus d = ''active'' \<and> \<not> (rdNextChargeAt d \<noteq> zeroTime \<and> now < rdNextChargeAt d)"

definition summary :: "time \<Rightarrow> RecurringDeposit \<Rightarrow> RecurringDepositSummary" where
  "summary now d = \<lparr>dsDepositID = rdDepositID d, dsCustomerID = rdCustomerID d, dsPortfolioID = rdPortfolioID d, dsAmountUSD = rdAmountUSD d,
     dsFrequency = rdFrequency d, dsBankAccount = rdBankAccount d, dsStatus = rdStatus d, dsNextChargeAt = wire (bll_next_charge (rdFrequency d) now)\<rparr>"

fun claim_deposits ::
    "'c CoreClient \<Rightarrow> time \<Rightarrow> RecurringDeposit list \<Rightarrow> RecurringDepositSummary list \<times> 'c \<Rightarrow> RecurringDepositSummary list \<times> 'c" where
  "claim_deposits C now [] acc = acc"
| "claim_deposits C now (d # ds) (claimed, c) =
     (if \<not> due_deposit now d then claim_deposits C now ds (claimed, c)
      else claim_deposits C now ds (claimed @ [summary now d], snd (ccAdvanceRecurringDeposit C (rdDepositID d) (wire (bll_next_charge (rdFrequency d) now)) c)))"

definition ClaimDueRecurringDeposits ::
    "('b, 'k, 'w, 'c) Server \<Rightarrow> time \<Rightarrow> ('b, 'k, 'w, 'c) world \<Rightarrow> (code + RecurringDepositSummary list) \<times> ('b, 'k, 'w, 'c) world" where
  "ClaimDueRecurringDeposits S now w = (case svCore S of
     None \<Rightarrow> (Inl Unavailable, w)
   | Some C \<Rightarrow> (case ccListRecurringDeposits C [] (wCore w) of
       None \<Rightarrow> (Inl Internal, w)
     | Some ds \<Rightarrow> (case claim_deposits C now ds ([], wCore w) of (claimed, c) \<Rightarrow> (Inr claimed, w\<lparr>wCore := c\<rparr>))))"

section \<open>Properties of orders\<close>

text \<open>An order is cleared when a feline is resolved and the workforce service answers without a hold for it.\<close>

definition cleared :: "('b, 'k, 'w, 'c) Server \<Rightarrow> ValidateAndExecuteOrderRequest \<Rightarrow> 'w \<Rightarrow> bool" where
  "cleared S req v \<longleftrightarrow> (\<exists>f. resolveTargetFeline S (vqFelineID req) v = Some f \<and> checkFelineMedicalHold S f v = Some False)"

lemma ValidateAndExecuteOrder_cases [consumes 1, case_names invalid not_cleared in_core refused placed]:
  assumes "ValidateAndExecuteOrder S now uuid eventID req w = (r, w')"
  obtains "invalid_order req" "r = Inl InvalidArgument" "w' = w"
  | "\<not> invalid_order req" "\<not> cleared S req (wWorkforce w)" "r = Inl Unavailable \<or> r = Inl FailedPrecondition" "w' = w"
  | "\<not> invalid_order req" "cleared S req (wWorkforce w)" "svBroker S = None" "execute_in_core S req w = (r, w')"
  | B b where "\<not> invalid_order req" "cleared S req (wWorkforce w)" "svBroker S = Some B"
      "brCreateOrder B (vqPortfolioID req) (alpaca_order req (''ord-'' @ take 8 uuid)) (wBroker w) = (None, b)"
      "r = Inl Unavailable" "w' = w\<lparr>wBroker := b\<rparr>"
  | B ord b where "\<not> invalid_order req" "cleared S req (wWorkforce w)" "svBroker S = Some B"
      "brCreateOrder B (vqPortfolioID req) (alpaca_order req (''ord-'' @ take 8 uuid)) (wBroker w) = (Some ord, b)"
      "r = Inr (order_response now req (''ord-'' @ take 8 uuid) ord)"
      "w' = record_order S now eventID req (order_response now req (''ord-'' @ take 8 uuid) ord) (w\<lparr>wBroker := b\<rparr>)"
proof -
  show thesis
  proof (cases "invalid_order req")
    case True
    with assms show thesis by (auto intro: that(1) simp: ValidateAndExecuteOrder_def)
  next
    case valid: False
    show thesis
    proof (cases "cleared S req (wWorkforce w)")
      case False
      with assms valid have "r = Inl Unavailable \<or> r = Inl FailedPrecondition" "w' = w"
        by (auto simp: ValidateAndExecuteOrder_def cleared_def split: option.splits bool.splits)
      with valid False show thesis by (rule that(2))
    next
      case True
      then obtain f where "resolveTargetFeline S (vqFelineID req) (wWorkforce w) = Some f" "checkFelineMedicalHold S f (wWorkforce w) = Some False"
        by (auto simp: cleared_def)
      with assms valid have c: "(case svBroker S of
                    None \<Rightarrow> execute_in_core S req w
                  | Some B \<Rightarrow>
                      let clientOrderID = ''ord-'' @ take 8 uuid in
                      (case brCreateOrder B (vqPortfolioID req) (alpaca_order req clientOrderID) (wBroker w) of
                         (None, b) \<Rightarrow> (Inl Unavailable, w\<lparr>wBroker := b\<rparr>)
                       | (Some ord, b) \<Rightarrow>
                           let result = order_response now req clientOrderID ord
                           in (Inr result, record_order S now eventID req result (w\<lparr>wBroker := b\<rparr>)))) = (r, w')"
        by (simp add: ValidateAndExecuteOrder_def)
      show thesis
      proof (cases "svBroker S")
        case None
        with c valid True show thesis by (auto intro: that(3))
      next
        case (Some B)
        with c valid True show thesis
          by (auto simp: Let_def split: prod.splits option.splits intro: that(4) that(5))
      qed
    qed
  qed
qed

lemma resolved_nonempty: "resolveTargetFeline S i v = Some f \<Longrightarrow> f \<noteq> []"
  by (auto simp: resolveTargetFeline_def fetchFirstActiveFeline_def split: if_splits option.splits list.splits)

lemma hold_answered:
  assumes "checkFelineMedicalHold S f v = Some False"
  shows "\<exists>W h. svWorkforce S = Some W \<and> wfGetCareSchedule W f v = Some h \<and> h \<noteq> Some True"
  using assms by (auto simp: checkFelineMedicalHold_def split: option.splits)

text \<open>C7: The medical hold fails closed: unless the workforce service was reached and answered for the feline of the
  order that there is no hold, the order is refused and neither the broker nor the core nor the message log
  changes. Invalid orders change nothing either, and no order changes the bank.\<close>

theorem medical_hold_fails_closed:
  "(if \<not> invalid_order req \<and> cleared S req (wWorkforce w)
    then wBank (snd (ValidateAndExecuteOrder S now uuid eventID req w)) = wBank w
       \<and> (\<exists>W f h. svWorkforce S = Some W \<and> f \<noteq> [] \<and> wfGetCareSchedule W f (wWorkforce w) = Some h \<and> h \<noteq> Some True)
    else (\<exists>e. ValidateAndExecuteOrder S now uuid eventID req w = (Inl e, w)))"
proof -
  obtain r w' where v: "ValidateAndExecuteOrder S now uuid eventID req w = (r, w')" by fastforce
  have chk: "\<exists>W f h. svWorkforce S = Some W \<and> f \<noteq> [] \<and> wfGetCareSchedule W f (wWorkforce w) = Some h \<and> h \<noteq> Some True"
    if "cleared S req (wWorkforce w)"
    using that resolved_nonempty [of S "vqFelineID req" "wWorkforce w"] hold_answered [of S _ "wWorkforce w"] by (fastforce simp: cleared_def)
  have core: "wBank w' = wBank w" if "execute_in_core S req w = (r, w')"
    using that by (auto simp: execute_in_core_def split: option.splits prod.splits)
  from v show ?thesis
    by (cases rule: ValidateAndExecuteOrder_cases)
      (use v chk core in \<open>auto simp: record_order_def Let_def\<close>)
qed


definition demo_order :: ValidateAndExecuteOrderRequest where
  "demo_order = \<lparr>vqCustomerID = ''c'', vqPortfolioID = ''p'', vqSymbol = ''AAPL'', vqSide = ''buy'', vqQuantity = Fin 2, vqOrderType = [],
     vqLimitPrice = Fin 0, vqStopLoss = Fin 0, vqTakeProfit = Fin 0, vqFelineID = ''cat''\<rparr>"

definition refusing_broker :: "nat AlpacaClient" where
  "refusing_broker = \<lparr>brCreateOrder = (\<lambda>a req n. (None, Suc n)), brListPositions = (\<lambda>_ _. None), acListAccounts = (\<lambda>_. None), acGetAccount = (\<lambda>_ _. None),
     acGetPortfolioHistory = (\<lambda>_ _ _. None), acGetLatestBars = (\<lambda>_ _. None), acGetLatestQuotes = (\<lambda>_ _. None)\<rparr>"

definition demo_server :: "(nat, unit, unit, unit) Server" where
  "demo_server = \<lparr>svBroker = Some refusing_broker, svBank = None, svWorkforce = Some \<lparr>wfGetCareSchedule = (\<lambda>f _. if f = ''cat'' then Some (Some False) else None),
     wfActiveFelines = (\<lambda>_. None)\<rparr>, svCore = None, svPublisher = None, svDefaultFelineID = []\<rparr>"

lemma demo_order_cleared: "\<not> invalid_order demo_order" "cleared demo_server demo_order v"
  by (simp_all add: demo_order_def invalid_order_def order_type_def cleared_def demo_server_def resolveTargetFeline_def checkFelineMedicalHold_def)


section \<open>Properties of deposits\<close>

text \<open>
  The contract of the core for schedules: the list is the rows in some order, as they travel, and an
  advance writes the date of one row. From it the claim is computed: exactly the due deposits are claimed,
  each once, and exactly their rows are moved on.
\<close>

definition keyed :: "(string, RecurringDeposit) gomap \<Rightarrow> bool" where
  "keyed m \<longleftrightarrow> (\<forall>i d. m i = Some d \<longrightarrow> rdDepositID d = i)"

definition moved_on :: "time \<Rightarrow> RecurringDeposit \<Rightarrow> RecurringDeposit" where
  "moved_on now d = (if due_deposit now (sent d) then d\<lparr>rdNextChargeAt := wire (bll_next_charge (rdFrequency d) now)\<rparr> else d)"

definition due_summaries :: "time \<Rightarrow> RecurringDeposit list \<Rightarrow> RecurringDepositSummary list" where
  "due_summaries now ds = map (summary now) (filter (due_deposit now) (map sent ds))"

lemma sent_sel [simp]:
  "rdDepositID (sent d) = rdDepositID d" "rdFrequency (sent d) = rdFrequency d" "rdStatus (sent d) = rdStatus d"
  "rdNextChargeAt (sent d) = wire (rdNextChargeAt d)"
  by (simp_all add: sent_def)

lemma summary_sent [simp]: "summary now (sent d) = summary now d"
  by (simp add: summary_def sent_def)

lemma map_vals_map_on:
  "map_vals ks (\<lambda>i. map_option f (m i)) = map f (map_vals ks m)"
  by (induction ks) (auto split: option.splits)

locale deposit_schedule =
  fixes C :: "'c CoreClient" and rows :: "'c \<Rightarrow> (string, RecurringDeposit) gomap" and order :: "string list"
  assumes listed: "ccListRecurringDeposits C [] c = Some (map sent (map_vals order (rows c)))"
    and advanced: "rows (snd (ccAdvanceRecurringDeposit C i t c)) = (rows c)(i := map_option (\<lambda>d. d\<lparr>rdNextChargeAt := wire t\<rparr>) (rows c i))"
begin

lemma claim_loop:
  assumes "distinct ks" and "keyed (rows c)" and "claim_deposits C now (map sent (map_vals ks (rows c))) (acc, c) = (r, c')"
  shows "r = acc @ due_summaries now (map_vals ks (rows c))"
    and "rows c' = (\<lambda>i. if i \<in> set ks then map_option (moved_on now) (rows c i) else rows c i)"
proof -
  have "r = acc @ due_summaries now (map_vals ks (rows c))
      \<and> rows c' = (\<lambda>i. if i \<in> set ks then map_option (moved_on now) (rows c i) else rows c i)"
    using assms
  proof (induction ks arbitrary: acc c)
    case Nil
    then show ?case by (auto simp: due_summaries_def)
  next
    case (Cons k ks)
    show ?case
    proof (cases "rows c k")
      case None
      with Cons show ?thesis by (auto simp: fun_eq_iff)
    next
      case (Some d)
      have key: "rdDepositID d = k" using Cons.prems(2) Some by (simp add: keyed_def)
      show ?thesis
      proof (cases "due_deposit now (sent d)")
        case False
        with Cons Some have "r = acc @ due_summaries now (map_vals ks (rows c))"
          "rows c' = (\<lambda>i. if i \<in> set ks then map_option (moved_on now) (rows c i) else rows c i)" by auto
        with False Some Cons.prems(1) show ?thesis by (auto simp: due_summaries_def moved_on_def fun_eq_iff)
      next
        case True
        let ?t = "wire (bll_next_charge (rdFrequency d) now)"
        define c1 where "c1 = snd (ccAdvanceRecurringDeposit C k ?t c)"
        have r1: "rows c1 = (rows c)(k \<mapsto> moved_on now d)"
          using advanced [of k ?t c] Some True by (simp add: c1_def moved_on_def wire_def)
        have "keyed (rows c1)" using Cons.prems(2) key by (auto simp: keyed_def r1 moved_on_def)
        moreover have same: "map_vals ks (rows c1) = map_vals ks (rows c)"
          using Cons.prems(1) by (intro map_vals_cong) (auto simp: r1)
        moreover have "claim_deposits C now (map sent (map_vals ks (rows c1))) (acc @ [summary now d], c1) = (r, c')"
          using Cons.prems(3) Some True key same by (simp add: c1_def)
        ultimately have "r = (acc @ [summary now d]) @ due_summaries now (map_vals ks (rows c1))"
          "rows c' = (\<lambda>i. if i \<in> set ks then map_option (moved_on now) (rows c1 i) else rows c1 i)"
          using Cons.IH [of c1 "acc @ [summary now d]"] Cons.prems(1) by auto
        with same True Some Cons.prems(1) show ?thesis by (auto simp: due_summaries_def r1 fun_eq_iff)
      qed
    qed
  qed
  then show "r = acc @ due_summaries now (map_vals ks (rows c))"
    and "rows c' = (\<lambda>i. if i \<in> set ks then map_option (moved_on now) (rows c i) else rows c i)" by auto
qed

lemma claim_exact:
  assumes "iter_order order (rows (wCore w))" and "keyed (rows (wCore w))" and "svCore S = Some C"
    and "ClaimDueRecurringDeposits S now w = (res, w')"
  shows "res = Inr (due_summaries now (map_vals order (rows (wCore w))))"
    and "rows (wCore w') = (\<lambda>i. map_option (moved_on now) (rows (wCore w) i))" and "w' = w\<lparr>wCore := wCore w'\<rparr>"
proof -
  obtain r c' where l: "claim_deposits C now (map sent (map_vals order (rows (wCore w)))) ([], wCore w) = (r, c')" by fastforce
  with assms(3,4) have rw: "res = Inr r" "w' = w\<lparr>wCore := c'\<rparr>" by (auto simp: ClaimDueRecurringDeposits_def listed)
  note cl = claim_loop [OF iter_orderD(1) [OF assms(1)] assms(2) l]
  show "res = Inr (due_summaries now (map_vals order (rows (wCore w))))" using cl(1) rw by simp
  show "rows (wCore w') = (\<lambda>i. map_option (moved_on now) (rows (wCore w) i))"
    using cl(2) rw iter_orderD(2) [OF assms(1)] by (auto simp: fun_eq_iff domIff)
  show "w' = w\<lparr>wCore := wCore w'\<rparr>" using rw by simp
qed

end

interpretation schedules_in_memory: deposit_schedule "memory_core ord dord t" mDeposits dord for ord dord t
  by unfold_locales (auto simp: memory_core_def mock_deposits_def ListRecurringDeposits_def AdvanceRecurringDeposit_def
      AdvanceRecurringDepositSchedule_def split: option.splits)

interpretation schedules_in_database: deposit_schedule "database_core uuid True dord t" "\<lambda>c. dtRows (cdDeposits c)" dord for uuid dord t
  by unfold_locales (auto simp: database_core_def pgx_deposits_def AdvanceRecurringDeposit_def fun_eq_iff)

lemma wire_wire [simp]: "wire (wire t) = wire t"
  by (simp add: wire_def)

lemma in_due_summaries:
  assumes "y \<in> set (due_summaries now (map_vals ks m))"
  obtains i d where "m i = Some d" "due_deposit now (sent d)" "y = summary now d"
  using assms by (auto simp: due_summaries_def in_map_vals)

lemma claimed_again:
  assumes "keyed m" and "x \<in> set (due_summaries now (map_vals ks m))"
    and "y \<in> set (due_summaries now' (map_vals ks (\<lambda>i. map_option (moved_on now) (m i))))" and "dsDepositID x = dsDepositID y"
  shows "dsNextChargeAt x = zeroTime \<or> dsNextChargeAt x \<le> now'"
proof -
  obtain i d where d: "m i = Some d" "due_deposit now (sent d)" "x = summary now d" using assms(2) by (rule in_due_summaries)
  obtain j e where e: "m j = Some e" "due_deposit now' (sent (moved_on now e))" "y = summary now' (moved_on now e)"
    using assms(3) by (rule in_due_summaries) auto
  have "rdDepositID (moved_on now e) = rdDepositID e" by (simp add: moved_on_def)
  with assms(1,4) d e have "i = j" by (auto simp: keyed_def summary_def)
  with d e have "due_deposit now' (sent (d\<lparr>rdNextChargeAt := dsNextChargeAt x\<rparr>))" by (simp add: moved_on_def summary_def)
  then have "\<not> (wire (dsNextChargeAt x) \<noteq> zeroTime \<and> now' < wire (dsNextChargeAt x))" by (auto simp: due_deposit_def)
  moreover have "wire (dsNextChargeAt x) = dsNextChargeAt x" using d(3) by (simp add: summary_def)
  ultimately show ?thesis by auto
qed


definition demo_deposit :: RecurringDeposit where
  "demo_deposit = \<lparr>rdDepositID = ''d'', rdCustomerID = ''c'', rdPortfolioID = ''p'', rdAmountUSD = Fin 50, rdFrequency = ''one_time'',
     rdBankAccount = ''a'', rdStatus = ''active'', rdNextChargeAt = 0, rdCreatedAt = 0\<rparr>"

definition demo_core :: core_db where
  "demo_core = \<lparr>cdOrders = \<lparr>otRows = Map.empty, otCount = 0\<rparr>, cdDeposits = \<lparr>dtRows = [''d'' \<mapsto> demo_deposit], dtCount = 1\<rparr>, cdPortfolios = [demo_row]\<rparr>"

definition demo_services :: "(nat, unit, unit, core_db) Server" where
  "demo_services = \<lparr>svBroker = None, svBank = None, svWorkforce = None, svCore = None, svPublisher = None, svDefaultFelineID = []\<rparr>"

abbreviation (input) demo_world :: "(nat, unit, unit, core_db) world" where
  "demo_world \<equiv> \<lparr>wBroker = 0, wBank = (), wWorkforce = (), wCore = demo_core, wMessages = []\<rparr>"


lemma due_summaries_alt: "due_summaries now ds = map (summary now) (filter (\<lambda>d. due_deposit now (sent d)) ds)"
  by (simp add: due_summaries_def filter_map comp_def)

lemma deposit_created:
  assumes "InitiateACHDeposit S now uuid eventID req w = (Inr resp, w')" and "svCore S = Some C"
  shows "\<exists>pid. ccCreateRecurringDeposit C (deposit_opts req pid (if iqFrequency req = [] then ''one_time'' else iqFrequency req)) (wCore w) = (Some (irDeposit resp), wCore w')"
  using assms unfolding InitiateACHDeposit_def Let_def
  by (auto split: if_split_asm option.split_asm prod.split_asm)

lemma database_deposit:
  assumes "ccCreateRecurringDeposit (database_core uuid True ord t) opts c = (Some x, c')" and "doFrequency opts \<noteq> []"
  shows "\<exists>d. dtRows (cdDeposits c') = (dtRows (cdDeposits c))(rdDepositID d \<mapsto> d) \<and> rdCustomerID d = doCustomerID opts
    \<and> rdAmountUSD d = doAmountUSD opts \<and> rdStatus d = ''active'' \<and> rdFrequency d = doFrequency opts \<and> rdNextChargeAt d = next_charge (doFrequency opts) t"
proof -
  define d where "d = \<lparr>rdDepositID = uuid (dtCount (cdDeposits c)), rdCustomerID = doCustomerID opts, rdPortfolioID = doPortfolioID opts, rdAmountUSD = doAmountUSD opts,
     rdFrequency = doFrequency opts, rdBankAccount = (if doBankAccount opts = [] then ''Primary Linked Account'' else doBankAccount opts), rdStatus = ''active'',
     rdNextChargeAt = next_charge (doFrequency opts) t, rdCreatedAt = t\<rparr>"
  have "dtRows (cdDeposits c') = (dtRows (cdDeposits c))(rdDepositID d \<mapsto> d)"
    using assms by (simp add: database_core_def create_deposit_def CoreInvest.CreateRecurringDeposit_def pgx_deposits_def Let_def d_def
        split: if_split_asm) auto
  moreover have "rdCustomerID d = doCustomerID opts" "rdAmountUSD d = doAmountUSD opts" "rdStatus d = ''active''" "rdFrequency d = doFrequency opts"
    "rdNextChargeAt d = next_charge (doFrequency opts) t" by (simp_all add: d_def)
  ultimately show ?thesis by blast
qed

lemma one_time_stored:
  assumes "InitiateACHDeposit (S\<lparr>svCore := Some (database_core uuid True ord t)\<rparr>) t u e req w = (Inr resp, w')" and "iqFrequency req = []"
  shows "\<exists>d. dtRows (cdDeposits (wCore w')) = (dtRows (cdDeposits (wCore w)))(rdDepositID d \<mapsto> d)
    \<and> rdCustomerID d = iqCustomerID req \<and> rdAmountUSD d = iqAmountUSD req \<and> rdStatus d = ''active''
    \<and> rdFrequency d = ''one_time'' \<and> rdNextChargeAt d = AddMonths 1 t"
proof -
  obtain pid where "ccCreateRecurringDeposit (database_core uuid True ord t) (deposit_opts req pid ''one_time'') (wCore w) = (Some (irDeposit resp), wCore w')"
    using deposit_created [OF assms(1), of "database_core uuid True ord t"] assms(2) by auto
  from database_deposit [OF this] show ?thesis by (simp add: deposit_opts_def next_charge_def)
qed

text \<open>A deposit that is asked for without a frequency is stored as an active schedule with the frequency
  one-time, and it is claimed again when its date has come: a month after the request it is charged a second
  time, and it gets a new date a month later.\<close>

theorem one_time_deposit_recurs:
  assumes "InitiateACHDeposit (S\<lparr>svCore := Some (database_core uuid True ord t)\<rparr>) t u e req w0 = (Inr resp, w)" and "iqFrequency req = []"
    and "keyed (dtRows (cdDeposits (wCore w)))" and "iter_order ord' (dtRows (cdDeposits (wCore w)))" and "AddMonths 1 t \<le> now"
    and "ClaimDueRecurringDeposits (S\<lparr>svCore := Some (database_core uuid True ord' now)\<rparr>) now w = (res, w')"
  shows "\<exists>d. rdCustomerID d = iqCustomerID req \<and> rdAmountUSD d = iqAmountUSD req \<and> summary now d \<in> set (projr res)
    \<and> dtRows (cdDeposits (wCore w')) (rdDepositID d) = Some (d\<lparr>rdNextChargeAt := wire (AddMonths 1 now)\<rparr>)"
proof -
  obtain d where d: "dtRows (cdDeposits (wCore w)) = (dtRows (cdDeposits (wCore w0)))(rdDepositID d \<mapsto> d)" "rdCustomerID d = iqCustomerID req"
    "rdAmountUSD d = iqAmountUSD req" "rdStatus d = ''active''" "rdFrequency d = ''one_time''" "rdNextChargeAt d = AddMonths 1 t"
    using one_time_stored [OF assms(1,2)] by blast
  then have row: "dtRows (cdDeposits (wCore w)) (rdDepositID d) = Some d" by simp
  have core: "svCore (S\<lparr>svCore := Some (database_core uuid True ord' now)\<rparr>) = Some (database_core uuid True ord' now)" by simp
  note c = schedules_in_database.claim_exact [OF assms(4,3) core assms(6)]
  have "wire (rdNextChargeAt d) \<le> now" using assms(5) d(6) Truncate_le [of second "rdNextChargeAt d"] by (simp add: wire_def)
  then have due: "due_deposit now (sent d)" using d(4) by (simp add: due_deposit_def)
  have "rdDepositID d \<in> set ord'" using iter_orderD(2) [OF assms(4)] row by auto
  with row have "d \<in> set (map_vals ord' (dtRows (cdDeposits (wCore w))))" by (auto simp: in_map_vals)
  with due c(1) have "summary now d \<in> set (projr res)" by (simp add: due_summaries_alt)
  moreover have "dtRows (cdDeposits (wCore w')) (rdDepositID d) = Some (d\<lparr>rdNextChargeAt := wire (AddMonths 1 now)\<rparr>)"
    using c(2) row due d(5) by (simp add: moved_on_def bll_next_charge_def)
  ultimately show ?thesis using d(2,3) by blast
qed

definition demo_request :: InitiateACHDepositRequest where
  "demo_request = \<lparr>iqCustomerID = ''c'', iqPortfolioID = ''p'', iqAccountID = [], iqBankAccount = ''a'', iqAmountUSD = Fin 50, iqFrequency = []\<rparr>"

lemma demo_deposit_stored:
  "\<exists>resp w. InitiateACHDeposit (demo_services\<lparr>svCore := Some (database_core dec_nat True [] 0)\<rparr>) 0 ''u'' ''e'' demo_request
      (demo_world\<lparr>wCore := demo_core\<lparr>cdDeposits := \<lparr>dtRows = Map.empty, dtCount = 0\<rparr>\<rparr>\<rparr>) = (Inr resp, w)
    \<and> dom (dtRows (cdDeposits (wCore w))) = {dec_nat 0} \<and> keyed (dtRows (cdDeposits (wCore w)))"
  by (simp add: InitiateACHDeposit_def demo_request_def demo_services_def deposit_portfolio_def database_core_def create_deposit_def
      CoreInvest.CreateRecurringDeposit_def pgx_deposits_def deposit_opts_def publish_def keyed_def Let_def)

theorem one_time_deposit_recurs_witness:
  "\<exists>w res w' d. ClaimDueRecurringDeposits (demo_services\<lparr>svCore := Some (database_core dec_nat True [dec_nat 0] (AddMonths 1 0))\<rparr>) (AddMonths 1 0) w = (res, w')
     \<and> rdCustomerID d = ''c'' \<and> rdAmountUSD d = Fin 50 \<and> summary (AddMonths 1 0) d \<in> set (projr res)"
proof -
  obtain resp w where i: "InitiateACHDeposit (demo_services\<lparr>svCore := Some (database_core dec_nat True [] 0)\<rparr>) 0 ''u'' ''e'' demo_request
      (demo_world\<lparr>wCore := demo_core\<lparr>cdDeposits := \<lparr>dtRows = Map.empty, dtCount = 0\<rparr>\<rparr>\<rparr>) = (Inr resp, w)"
    "dom (dtRows (cdDeposits (wCore w))) = {dec_nat 0}" "keyed (dtRows (cdDeposits (wCore w)))"
    using demo_deposit_stored by blast
  have ord: "iter_order [dec_nat 0] (dtRows (cdDeposits (wCore w)))" using i(2) by (simp add: iter_order_def)
  obtain res w' where c: "ClaimDueRecurringDeposits (demo_services\<lparr>svCore := Some (database_core dec_nat True [dec_nat 0] (AddMonths 1 0))\<rparr>) (AddMonths 1 0) w = (res, w')"
    by fastforce
  have f: "iqFrequency demo_request = []" "iqCustomerID demo_request = ''c''" "iqAmountUSD demo_request = Fin 50" by (simp_all add: demo_request_def)
  from one_time_deposit_recurs [OF i(1) f(1) i(3) ord order_refl c] c f show ?thesis by auto
qed

end
