(* ===== verification/Worker.thy ===== *)
theory Worker
  imports CustomerBLL
begin

text \<open>
  The background worker, \<open>internal/app/worker\<close>, for the money that moves by itself: the batch that turns due
  deposits into transfer requests and the consumer that settles a request. The business layer is called
  through gRPC; \<open>None\<close> is a client that is not configured. The consumer is run by the message router, which
  delivers a message again when the handler returns an error.
\<close>

section \<open>The batch of recurring deposits\<close>

text \<open>The time of the batch to the hour, with a year of four digits.\<close>

definition hour_stamp :: "time \<Rightarrow> string" where
  "hour_stamp now = (case civil (now div day) of (y, m, d) \<Rightarrow> dec_int y @ pad2 m @ pad2 d @ pad2 (now mod day div hour))"

definition recurring_payload :: "time \<Rightarrow> RecurringDepositSummary \<Rightarrow> ACHTransferRequestedPayload" where
  "recurring_payload now d = \<lparr>apTransferID = ''ach-rec-'' @ dsDepositID d @ ''-'' @ hour_stamp now, apCustomerID = dsCustomerID d,
     apPortfolioID = dsPortfolioID d, apBankAccount = dsBankAccount d, apAmountUSD = dsAmountUSD d, apTransferType = ''deposit''\<rparr>"

definition recurring_message :: "time \<Rightarrow> string \<Rightarrow> RecurringDepositSummary \<Rightarrow> message" where
  "recurring_message now eventID d = \<lparr>msgUUID = eventID, msgCorrelationID = ''cron-recurring-ach-'' @ dsDepositID d,
     msgBody = Some (ACHTransferRequested (recurring_payload now d))\<rparr>"

text \<open>\<open>uuids\<close> supplies the event identifier for the deposit at a position. A payload that cannot be marshalled and
  a publication that fails are logged and skipped.\<close>

fun dispatch :: "(message list \<Rightarrow> bool) option \<Rightarrow> time \<Rightarrow> (nat \<Rightarrow> string) \<Rightarrow> nat \<Rightarrow> RecurringDepositSummary list \<Rightarrow> message list \<Rightarrow> message list" where
  "dispatch ps now uuids n [] ms = ms"
| "dispatch ps now uuids n (d # ds) ms =
     (if marshal (ACHTransferRequested (recurring_payload now d)) = None then dispatch ps now uuids (Suc n) ds ms
      else dispatch ps now uuids (Suc n) ds (snd (publish ps (recurring_message now (uuids n) d) ms)))"

definition RunACHRecurringBatch ::
    "('b, 'k, 'w, 'c) Server option \<Rightarrow> (message list \<Rightarrow> bool) option \<Rightarrow> time \<Rightarrow> (nat \<Rightarrow> string) \<Rightarrow> ('b, 'k, 'w, 'c) world \<Rightarrow> bool \<times> ('b, 'k, 'w, 'c) world" where
  "RunACHRecurringBatch customerBLL ps now uuids w = (case customerBLL of
     None \<Rightarrow> (False, w)
   | Some S \<Rightarrow> (case ClaimDueRecurringDeposits S now w of
       (Inl _, w1) \<Rightarrow> (False, w1)
     | (Inr ds, w1) \<Rightarrow> (True, w1\<lparr>wMessages := dispatch ps now uuids 0 ds (wMessages w1)\<rparr>)))"

section \<open>The settlement consumer\<close>

record ACHSettledPayload =
  spTransferID :: string
  spCustomerID :: string
  spPortfolioID :: string
  spAmountUSD :: float64
  spStatus :: string
  spSettledAt :: time

definition HandleACHTransferRequested ::
    "('b, 'k, 'w, 'c) Server option \<Rightarrow> time \<Rightarrow> message \<Rightarrow> ('b, 'k, 'w, 'c) world \<Rightarrow> ACHSettledPayload option \<times> ('b, 'k, 'w, 'c) world" where
  "HandleACHTransferRequested customerBLL now msg w = (case customerBLL of
     None \<Rightarrow> (None, w)
   | Some S \<Rightarrow> (case msgBody msg of
       Some (ACHTransferRequested p) \<Rightarrow>
         (case SettleACHTransfer S now p w of
            (Inl _, w1) \<Rightarrow> (None, w1)
          | (Inr settledAt, w1) \<Rightarrow>
              (if finite64 (apAmountUSD p)
               then Some \<lparr>spTransferID = apTransferID p, spCustomerID = apCustomerID p, spPortfolioID = apPortfolioID p, spAmountUSD = apAmountUSD p,
                      spStatus = ''settled'', spSettledAt = settledAt\<rparr>
               else None, w1))
     | _ \<Rightarrow> (None, w)))"

text \<open>The router: a delivery runs the handler; an error leaves the message in the queue for another delivery, and a
  success may be followed by another delivery as well, when the acknowledgement is lost.\<close>

inductive delivery :: "('b, 'k, 'w, 'c) Server \<Rightarrow> message \<Rightarrow> ('b, 'k, 'w, 'c) world \<Rightarrow> nat \<Rightarrow> nat \<Rightarrow> ('b, 'k, 'w, 'c) world \<Rightarrow> bool" for S msg w where
  start: "delivery S msg w 0 0 w"
| failed: "delivery S msg w n k v \<Longrightarrow> HandleACHTransferRequested (Some S) now msg v = (None, v') \<Longrightarrow> delivery S msg w (Suc n) k v'"
| succeeded: "delivery S msg w n k v \<Longrightarrow> HandleACHTransferRequested (Some S) now msg v = (Some x, v') \<Longrightarrow> delivery S msg w (Suc n) (Suc k) v'"



section \<open>Settlement\<close>

lemma clearing_direction_cases: "clearing_direction p = ''debit'' \<or> clearing_direction p = ''credit''"
  by (simp add: clearing_direction_def)

text \<open>What the bank and the database hold after one settlement of a deposit, in the three ways it can end.\<close>

lemma SettleACHTransfer_deposit [consumes 6, case_names refused not_credited settled]:
  assumes "SettleACHTransfer S now p w = (r, w')" and "svBank S = Some (plaid_client kw)" and "svCore S = Some (database_core uuid True ord t)"
    and "apTransferID p \<noteq> []" and "apPortfolioID p \<noteq> []" and "apTransferType p = ''deposit''"
  obtains "r = Inl Unavailable" "BankLedger.accounts (wBank w') = BankLedger.accounts (wBank w)" "wCore w' = wCore w"
  | acc where "r = Inl Internal" "pgx_GetPortfolio True (apPortfolioID p) (cdPortfolios (wCore w)) = None" "wCore w' = wCore w"
      "BankLedger.accounts (wBank w) (apBankAccount p) = Some acc"
      "BankLedger.accounts (wBank w') = (BankLedger.accounts (wBank w))(apBankAccount p \<mapsto> acc\<lparr>AvailableBalance := fsub (AvailableBalance acc) (apAmountUSD p)\<rparr>)"
  | acc row where "r = Inr (wire now)" "pgx_GetPortfolio True (apPortfolioID p) (cdPortfolios (wCore w)) = Some row"
      "cdPortfolios (wCore w') = pgx_UpdatePortfolio True t (credited (apAmountUSD p) row) (cdPortfolios (wCore w))"
      "BankLedger.accounts (wBank w) (apBankAccount p) = Some acc" "\<not> flt (AvailableBalance acc) (apAmountUSD p)"
      "BankLedger.accounts (wBank w') = (BankLedger.accounts (wBank w))(apBankAccount p \<mapsto> acc\<lparr>AvailableBalance := fsub (AvailableBalance acc) (apAmountUSD p)\<rparr>)"
proof -
  define desc where "desc = ''OCI Investment Capital ACH '' @ apTransferType p @ '' ('' @ apTransferID p @ '')''"
  have dir: "clearing_direction p = ''debit''" "balance_delta p = apAmountUSD p" using assms(6) by (simp_all add: clearing_direction_def balance_delta_def)
  obtain x k where x: "plaid_CreateTransfer kw (apBankAccount p) (apAmountUSD p) ''debit'' desc (wBank w) = (x, k)" by fastforce
  have s: "SettleACHTransfer S now p w = (if x = None then (Inl Unavailable, w\<lparr>wBank := k\<rparr>)
      else case db_UpdatePortfolioBalance True True t (apPortfolioID p) (apAmountUSD p) (cdPortfolios (wCore w)) of
          (None, ps) \<Rightarrow> (Inl Internal, w\<lparr>wBank := k, wCore := (wCore w)\<lparr>cdPortfolios := ps\<rparr>\<rparr>)
        | (Some _, ps) \<Rightarrow> (Inr (wire now), w\<lparr>wBank := k, wCore := (wCore w)\<lparr>cdPortfolios := ps\<rparr>\<rparr>))"
    using assms(2-5) dir x [unfolded desc_def] by (simp add: SettleACHTransfer_def plaid_client_def database_core_def Let_def split: prod.splits option.splits)
  show thesis
  proof (cases x)
    case None
    with x plaid_CreateTransfer_refused [of kw "apBankAccount p" "apAmountUSD p" "''debit''" desc "wBank w" k] s assms(1) show thesis
      by (intro that(1)) auto
  next
    case (Some tr)
    from plaid_CreateTransfer_accepted(7) [OF x [unfolded Some]] obtain acc where acc: "BankLedger.accounts (wBank w) (apBankAccount p) = Some acc"
      "\<not> flt (AvailableBalance acc) (apAmountUSD p)"
      "BankLedger.accounts k = (BankLedger.accounts (wBank w))(apBankAccount p \<mapsto> acc\<lparr>AvailableBalance := fsub (AvailableBalance acc) (apAmountUSD p)\<rparr>)"
      by auto
    show thesis
    proof (cases "pgx_GetPortfolio True (apPortfolioID p) (cdPortfolios (wCore w))")
      case None
      with s Some assms(1) acc show thesis by (intro that(2)) (auto simp: db_UpdatePortfolioBalance_def)
    next
      case (Some row)
      with s \<open>x = Some tr\<close> assms(1) acc show thesis by (intro that(3)) (auto simp: db_UpdatePortfolioBalance_def)
    qed
  qed
qed


text \<open>A deposit message whose account and portfolio exist and whose amount is covered does settle.\<close>

lemma deposit_settles:
  assumes "svBank S = Some (plaid_client kw)" and "svCore S = Some (database_core uuid True ord t)" and "bank_serves kw"
    and "msgBody msg = Some (ACHTransferRequested p)" and "apTransferID p \<noteq> []" and "apTransferType p = ''deposit''" and "finite64 (apAmountUSD p)"
    and "\<not> fle (apAmountUSD p) (Fin 0)" and "BankLedger.accounts (wBank w) (apBankAccount p) = Some acc" and "\<not> flt (AvailableBalance acc) (apAmountUSD p)"
    and "BankLedger.accounts (wBank w) (custodyAccountID (wBank w)) = Some cust"
    and "pgx_GetPortfolio True (apPortfolioID p) (cdPortfolios (wCore w)) = Some row"
  shows "\<exists>x w'. HandleACHTransferRequested (Some S) now msg w = (Some x, w')"
proof -
  have pid: "apPortfolioID p \<noteq> []" using assms(12) by (auto simp: pgx_GetPortfolio_def)
  have b: "\<exists>tr k. plaid_CreateTransfer kw (apBankAccount p) (apAmountUSD p) ''debit'' desc (wBank w) = (Some tr, k)" for desc
    using assms(3,7-11) by (simp add: plaid_CreateTransfer_def handleCreateTransfer_def CreateTransfer_def plaid_do_def Let_def)
  obtain tr k where tr: "plaid_CreateTransfer kw (apBankAccount p) (apAmountUSD p) ''debit''
      (''OCI Investment Capital ACH '' @ apTransferType p @ '' ('' @ apTransferID p @ '')'') (wBank w) = (Some tr, k)"
    using b by blast
  have "\<exists>w'. SettleACHTransfer S now p w = (Inr (wire now), w')"
    using assms(1,2,5,6,12) pid tr
    by (simp add: SettleACHTransfer_def plaid_client_def database_core_def db_UpdatePortfolioBalance_def clearing_direction_def balance_delta_def Let_def)
  with assms(4,7) show ?thesis by (auto simp: HandleACHTransferRequested_def)
qed

definition demo_transfer :: ACHTransferRequestedPayload where
  "demo_transfer = \<lparr>apTransferID = ''ach-1'', apCustomerID = ''c'', apPortfolioID = ''p'', apBankAccount = ''acc_arthur_chase_chk'', apAmountUSD = Fin 100,
     apTransferType = ''deposit''\<rparr>"

definition demo_msg :: message where
  "demo_msg = \<lparr>msgUUID = ''m'', msgCorrelationID = ''ach-1'', msgBody = Some (ACHTransferRequested demo_transfer)\<rparr>"

definition demo_bank :: bank_env where
  "demo_bank = \<lparr>keClientID = ''i'', keSecret = ''s'', keExpectedClientID = ''i'', keExpectedSecret = ''s'', keNow = 1, keAccounts = []\<rparr>"

definition demo_platform :: "(unit, LedgerStore, unit, core_db) Server" where
  "demo_platform = \<lparr>svBroker = None, svBank = Some (plaid_client demo_bank), svWorkforce = None, svCore = Some (database_core dec_nat True [] 1),
     svPublisher = None, svDefaultFelineID = []\<rparr>"

abbreviation (input) seeded :: "(unit, LedgerStore, unit, core_db) world" where
  "seeded \<equiv> \<lparr>wBroker = (), wBank = Seed 0, wWorkforce = (), wCore = demo_core, wMessages = []\<rparr>"


section \<open>The batch\<close>

definition requested :: "time \<Rightarrow> RecurringDepositSummary list \<Rightarrow> payload option list" where
  "requested now ds = map (\<lambda>d. Some (ACHTransferRequested (recurring_payload now d))) (filter (\<lambda>d. finite64 (dsAmountUSD d)) ds)"

lemma dispatch_accepting: "map msgBody (dispatch (Some (\<lambda>_. True)) now uuids n ds ms) = map msgBody ms @ requested now ds"
  by (induction ds arbitrary: n ms) (auto simp: publish_def requested_def recurring_message_def recurring_payload_def)

lemma dispatch_refusing: "dispatch (Some (\<lambda>_. False)) now uuids n ds ms = ms"
  by (induction ds arbitrary: n) (auto simp: publish_def)



end
