(* ===== verification/CoreStatements.thy ===== *)
theory CoreStatements
  imports CoreLifecycle
begin

text \<open>
  Account statements and tax forms, \<open>statements_tax.go\<close> and \<open>tax_form_1099b.go\<close>. A statement is
  computed from the portfolio, its holdings and its closed lots, rendered as a PDF and recorded
  in the repository. The renderer of \<open>pkg/reporting\<close> is an argument, a function from the
  report to the document or \<open>None\<close>. \<open>ord\<close> is the order of a range over the map of portfolios.
\<close>

section \<open>Reports\<close>

record StatementHolding =
  shSymbol :: string
  shQuantity :: float64
  shCostBasisUSD :: float64
  shCurrentPriceUSD :: float64
  shMarketValueUSD :: float64
  shUnrealizedGainUSD :: float64
  shUnrealizedGainPct :: float64

record CustomerMonthlyStatement =
  msStatementID :: string
  msPortfolioID :: string
  msCustomerID :: string
  msCustomerName :: string
  msAccountName :: string
  msPeriod :: string
  msTaxYear :: int
  msOpeningBalanceUSD :: float64
  msEndingBalanceUSD :: float64
  msCashBalanceUSD :: float64
  msNetContributionsUSD :: float64
  msTotalRealizedGainUSD :: float64
  msTotalUnrealizedGainUSD :: float64
  msGrossReturnPct :: float64
  msSharpeRatio :: float64
  msSortinoRatio :: float64
  msZoomieAlphaAttributionUSD :: float64
  msHoldings :: "StatementHolding list"
  msCreatedAt :: time

record Form1099BTransaction =
  fxDescription :: string
  fxSymbol :: string
  fxQuantity :: float64
  fxDateAcquired :: string
  fxDateSold :: string
  fxGrossProceedsUSD :: float64
  fxCostBasisUSD :: float64
  fxWashSaleLossDisallowed :: float64
  fxRealizedGainLossUSD :: float64
  fxIsShortTerm :: bool

record Form1099BStatement =
  fsStatementID :: string
  fsPortfolioID :: string
  fsCustomerID :: string
  fsCustomerName :: string
  fsTaxYear :: int
  fsPayerName :: string
  fsPayerTIN :: string
  fsRecipientTIN :: string
  fsTotalGrossProceedsUSD :: float64
  fsTotalCostBasisUSD :: float64
  fsTotalRealizedGainUSD :: float64
  fsShortTermGainUSD :: float64
  fsLongTermGainUSD :: float64
  fsTransactions :: "Form1099BTransaction list"
  fsCreatedAt :: time

section \<open>The annual summary\<close>

text \<open>\<open>rfc3339\<close> formats a time in UTC, for years of four digits.\<close>

definition rfc3339 :: "time \<Rightarrow> string" where
  "rfc3339 t = (let s = (t mod day) div second
     in fmt_date t @ ''T'' @ pad2 (s div 3600) @ '':'' @ pad2 (s div 60 mod 60) @ '':'' @ pad2 (s mod 60) @ ''Z'')"

definition GenerateStatement :: "time \<Rightarrow> string \<Rightarrow> int \<Rightarrow> svc_error + (string, dyn) gomap" where
  "GenerateStatement now portfolioID year =
     (if portfolioID = [] then Inl IdRequired
      else if year < 2000 \<or> 2100 < year then Inl YearInvalid
      else
        let fileName = ''form1099b-'' @ portfolioID @ ''-'' @ dec_int year @ ''.pdf''
        in Inr [''statement_id'' \<mapsto> DString (''stmt-'' @ portfolioID @ ''-'' @ dec_int year), ''portfolio_id'' \<mapsto> DString portfolioID,
             ''account_name'' \<mapsto> DString ''OCI Alpha Growth Portfolio'', ''year'' \<mapsto> DInt year, ''tax_year'' \<mapsto> DInt year,
             ''document_name'' \<mapsto> DString fileName,
             ''form_1099b_url'' \<mapsto> DString (''https://statements.oci.local/documents/'' @ portfolioID @ ''/'' @ dec_int year @ ''/'' @ fileName),
             ''total_proceeds_usd'' \<mapsto> DFloat64 (cents 12845075), ''sharpe_ratio'' \<mapsto> DFloat64 (cents 214), ''sortino_ratio'' \<mapsto> DFloat64 (cents 308),
             ''performance_summary'' \<mapsto> DString (''Feline behavioral alpha tax statement for portfolio '' @ portfolioID @ '', tax year '' @ dec_int year),
             ''generated_at'' \<mapsto> DString (rfc3339 now)])"

definition ListStatements :: "string \<Rightarrow> mockRepository \<Rightarrow> svc_error + InvestmentStatement list" where
  "ListStatements customerID m = (if customerID = [] then Inl IdRequired else Inr (ListInvestmentStatements customerID m))"

definition GetStatement :: "string list \<Rightarrow> string \<Rightarrow> mockRepository \<Rightarrow> svc_error + InvestmentStatement" where
  "GetStatement sord i m = (if i = [] then Inl IdRequired else map_sum RepoError id (GetInvestmentStatementByID sord i m))"

section \<open>Monthly statements\<close>

record portfolioAccountInfo =
  aiPortfolioID :: string
  aiCustomerName :: string
  aiAccountName :: string
  aiTotalBal :: float64
  aiCashBal :: float64
  aiPortfolio :: "Portfolio option"

definition resolvePortfolioAndAccountInfo ::
    "string list \<Rightarrow> time \<Rightarrow> string \<Rightarrow> string \<Rightarrow> mockRepository \<Rightarrow> portfolioAccountInfo \<times> mockRepository" where
  "resolvePortfolioAndAccountInfo ord now customerID portfolioID m =
     (let pid = (if portfolioID = [] then ''port-'' @ customerID else portfolioID);
          (a, m') = (case GetPortfolio ord now customerID m of
              (Inr a, m1) \<Rightarrow> (a, m1)
            | (Inl _, m1) \<Rightarrow> GetPortfolioByID ord now pid m1)
      in (case mHeap m' a of
            None \<Rightarrow> \<lparr>aiPortfolioID = pid, aiCustomerName = customerID, aiAccountName = ''OCI Investment Portfolio'',
                     aiTotalBal = Fin 0, aiCashBal = Fin 0, aiPortfolio = None\<rparr>
          | Some p \<Rightarrow> \<lparr>aiPortfolioID = (if pfPortfolioID p \<noteq> [] then pfPortfolioID p else pid),
                     aiCustomerName = (if pfCustomerName p \<noteq> [] then pfCustomerName p else customerID),
                     aiAccountName = (if pfAccountName p \<noteq> [] then pfAccountName p else ''OCI Investment Portfolio''),
                     aiTotalBal = pfTotalBalanceUSD p, aiCashBal = pfCashBalanceUSD p, aiPortfolio = Some p\<rparr>, m'))"

definition parseNumeric :: "dyn option \<Rightarrow> float64" where
  "parseNumeric v = (case v of
     Some (DFloat64 x) \<Rightarrow> x | Some (DFloat32 x) \<Rightarrow> x | Some (DInt i) \<Rightarrow> of_i64 i | Some (DInt32 i) \<Rightarrow> of_i64 i
   | Some (DInt64 i) \<Rightarrow> of_i64 i | _ \<Rightarrow> Fin 0)"

definition or_zero :: "float64 \<Rightarrow> bool \<Rightarrow> float64 \<Rightarrow> float64" where
  "or_zero x c y = (if feq x (Fin 0) \<and> c then y else x)"

text \<open>The line of a holding: a value that is recorded as zero is derived from the others where that is possible.\<close>

definition holding_line :: "string \<Rightarrow> float64 \<Rightarrow> float64 \<Rightarrow> float64 \<Rightarrow> float64 \<Rightarrow> float64 \<Rightarrow> float64 \<Rightarrow> float64 \<Rightarrow> StatementHolding" where
  "holding_line symbol qty avgPrice currPrice cost0 mv0 gain0 pct0 =
     (let costBasis = or_zero cost0 (flt (Fin 0) avgPrice) (fmul qty avgPrice);
          mv = or_zero mv0 (flt (Fin 0) currPrice) (fmul qty currPrice);
          gain = or_zero gain0 (flt (Fin 0) mv \<and> flt (Fin 0) costBasis) (fsub mv costBasis);
          gainPct = or_zero pct0 (flt (Fin 0) costBasis) (fmul (fdiv gain costBasis) (Fin 100))
      in \<lparr>shSymbol = symbol, shQuantity = qty, shCostBasisUSD = costBasis, shCurrentPriceUSD = currPrice,
          shMarketValueUSD = mv, shUnrealizedGainUSD = gain, shUnrealizedGainPct = gainPct\<rparr>)"

definition db_line :: "PortfolioHolding \<Rightarrow> StatementHolding" where
  "db_line h = holding_line (phSymbol h) (phQuantity h) (phAvgPriceUSD h) (phCurrentPriceUSD h) (phCostBasisUSD h)
     (phMarketValueUSD h) (phUnrealizedGainUSD h) (phUnrealizedGainPct h)"

definition map_symbol :: "(string, dyn) gomap \<Rightarrow> string" where
  "map_symbol h = (case h ''symbol'' of Some (DString s) \<Rightarrow> s | _ \<Rightarrow> [])"

definition map_line :: "(string, dyn) gomap \<Rightarrow> StatementHolding" where
  "map_line h = holding_line (map_symbol h) (parseNumeric (h ''quantity'')) (parseNumeric (h ''avg_price'')) (parseNumeric (h ''current_price''))
     (parseNumeric (h ''cost_basis'')) (parseNumeric (h ''market_value'')) (parseNumeric (h ''unrealized_gain'')) (parseNumeric (h ''unrealized_gain_pct''))"

record statementHoldingsSummary =
  smHoldings :: "StatementHolding list"
  smTotalMarketValue :: float64
  smTotalCostBasis :: float64
  smTotalUnrealizedGain :: float64

definition empty_summary :: statementHoldingsSummary where
  "empty_summary = \<lparr>smHoldings = [], smTotalMarketValue = Fin 0, smTotalCostBasis = Fin 0, smTotalUnrealizedGain = Fin 0\<rparr>"

definition add_line :: "StatementHolding \<Rightarrow> statementHoldingsSummary \<Rightarrow> statementHoldingsSummary" where
  "add_line l s = \<lparr>smHoldings = smHoldings s @ [l], smTotalMarketValue = fadd (smTotalMarketValue s) (shMarketValueUSD l),
     smTotalCostBasis = fadd (smTotalCostBasis s) (shCostBasisUSD l), smTotalUnrealizedGain = fadd (smTotalUnrealizedGain s) (shUnrealizedGainUSD l)\<rparr>"

fun sum_db :: "PortfolioHolding list \<Rightarrow> statementHoldingsSummary \<Rightarrow> statementHoldingsSummary" where
  "sum_db [] s = s"
| "sum_db (h # hs) s = sum_db hs (add_line (db_line h) s)"

fun sum_maps :: "(string, dyn) gomap list \<Rightarrow> statementHoldingsSummary \<Rightarrow> statementHoldingsSummary" where
  "sum_maps [] s = s"
| "sum_maps (h # hs) s = (if map_symbol h = [] then sum_maps hs s else sum_maps hs (add_line (map_line h) s))"

definition db_holdings :: "string list \<Rightarrow> string \<Rightarrow> Portfolio option \<Rightarrow> mockRepository \<Rightarrow> PortfolioHolding list" where
  "db_holdings ord portfolioID p m =
     (let hs = GetHoldingsByPortfolioID ord portfolioID m
      in case p of
           Some q \<Rightarrow> if hs = [] \<and> pfCustomerID q \<noteq> [] \<and> pfCustomerID q \<noteq> portfolioID
                     then GetHoldingsByPortfolioID ord (pfCustomerID q) m else hs
         | None \<Rightarrow> hs)"

definition fetchAndBuildStatementHoldings ::
    "string list \<Rightarrow> string \<Rightarrow> Portfolio option \<Rightarrow> mockRepository \<Rightarrow> statementHoldingsSummary" where
  "fetchAndBuildStatementHoldings ord portfolioID p m =
     (let hs = db_holdings ord portfolioID p m
      in if hs \<noteq> [] then sum_db hs empty_summary
         else (case p of Some q \<Rightarrow> sum_maps (pfHoldings q) empty_summary | None \<Rightarrow> empty_summary))"

text \<open>Opening balance, unrealized gain and return in percent.\<close>

definition calculateMonthlyMetrics :: "float64 \<Rightarrow> float64 \<Rightarrow> float64 \<Rightarrow> float64 \<times> float64 \<times> float64" where
  "calculateMonthlyMetrics totalBal gain cost =
     (let openingBal = (if flt gain totalBal \<and> flt (Fin 0) gain then fsub totalBal gain else fmul totalBal (lit (85 / 100)));
          unrealizedGain = (if feq gain (Fin 0) \<and> flt (Fin 0) totalBal then fmul totalBal (lit (15 / 100)) else gain);
          grossReturnPct = (if flt (Fin 0) cost then fmul (fdiv gain cost) (Fin 100)
            else if flt (Fin 0) openingBal then fmul (fdiv (fsub totalBal openingBal) openingBal) (Fin 100) else lit (2845 / 100))
      in (openingBal, unrealizedGain, grossReturnPct))"

definition monthNames :: "string list" where
  "monthNames = [[], ''January'', ''February'', ''March'', ''April'', ''May'', ''June'', ''July'', ''August'', ''September'', ''October'',
     ''November'', ''December'']"

definition monthly_report ::
    "time \<Rightarrow> string \<Rightarrow> portfolioAccountInfo \<Rightarrow> statementHoldingsSummary \<Rightarrow> int \<Rightarrow> int \<Rightarrow> CustomerMonthlyStatement" where
  "monthly_report now customerID info sm year month =
     (let pid = aiPortfolioID info; cashBal = aiCashBal info;
          totalBal = (if feq (aiTotalBal info) (Fin 0) \<and> (flt (Fin 0) (smTotalMarketValue sm) \<or> flt (Fin 0) cashBal)
                      then fadd (smTotalMarketValue sm) cashBal else aiTotalBal info);
          (openingBal, gain, pct) = calculateMonthlyMetrics totalBal (smTotalUnrealizedGain sm) (smTotalCostBasis sm)
      in \<lparr>msStatementID = ''stmt-'' @ pid @ ''-'' @ dec_int year @ ''-'' @ pad2 month, msPortfolioID = pid, msCustomerID = customerID,
          msCustomerName = aiCustomerName info, msAccountName = aiAccountName info,
          msPeriod = monthNames ! nat month @ '' '' @ dec_int year, msTaxYear = year, msOpeningBalanceUSD = openingBal,
          msEndingBalanceUSD = totalBal, msCashBalanceUSD = cashBal, msNetContributionsUSD = Fin 5000, msTotalRealizedGainUSD = Fin 12450,
          msTotalUnrealizedGainUSD = gain, msGrossReturnPct = pct, msSharpeRatio = lit (214 / 100), msSortinoRatio = lit (308 / 100),
          msZoomieAlphaAttributionUSD = lit (842050 / 100), msHoldings = smHoldings sm, msCreatedAt = now\<rparr>)"

definition monthly_record :: "CustomerMonthlyStatement \<Rightarrow> int \<Rightarrow> InvestmentStatement" where
  "monthly_record r month = \<lparr>stStatementID = msStatementID r, stPortfolioID = msPortfolioID r, stCustomerID = msCustomerID r,
     stStatementType = ''monthly_summary'', stPeriod = msPeriod r, stTaxYear = msTaxYear r,
     stTitle = ''Monthly Portfolio Summary - '' @ msPeriod r,
     stFileName = ''monthly-statement-'' @ msPortfolioID r @ ''-'' @ dec_int (msTaxYear r) @ ''-'' @ pad2 month @ ''.pdf'',
     stTotalProceedsUSD = msEndingBalanceUSD r, stNetGainUSD = msTotalRealizedGainUSD r, stStatus = ''available'',
     stMetadata = Map.empty, stCreatedAt = msCreatedAt r\<rparr>"

definition GenerateMonthlyStatement ::
    "(CustomerMonthlyStatement \<Rightarrow> string option) \<Rightarrow> string list \<Rightarrow> time \<Rightarrow> string \<Rightarrow> string \<Rightarrow> int \<Rightarrow> int \<Rightarrow> mockRepository
      \<Rightarrow> (svc_error + InvestmentStatement \<times> string) \<times> mockRepository" where
  "GenerateMonthlyStatement pdf ord now customerID portfolioID year month m =
     (if customerID = [] then (Inl IdRequired, m)
      else if year < 2000 \<or> 2100 < year then (Inl YearInvalid, m)
      else if month < 1 \<or> 12 < month then (Inl MonthInvalid, m)
      else
        let (info, m1) = resolvePortfolioAndAccountInfo ord now customerID portfolioID m;
            sm = fetchAndBuildStatementHoldings ord (aiPortfolioID info) (aiPortfolio info) m1;
            r = monthly_report now customerID info sm year month
        in (case pdf r of
              None \<Rightarrow> (Inl DocumentFailed, m1)
            | Some doc \<Rightarrow> (case CreateInvestmentStatement now (monthly_record r month) m1 of
                (created, m2) \<Rightarrow> (Inr (created, doc), m2))))"

section \<open>Form 1099-B\<close>

text \<open>\<open>fmt_f0\<close> is the verb \<open>%.0f\<close>.\<close>

definition fmt_f0 :: "float64 \<Rightarrow> string" where
  "fmt_f0 x = (case x of
     Fin r \<Rightarrow> if r < 0 \<and> rhe r = 0 then ''-0'' else dec_int (rhe r)
   | PInf \<Rightarrow> ''+Inf'' | NInf \<Rightarrow> ''-Inf'' | NaN \<Rightarrow> ''NaN'')"

definition lot_transaction :: "TaxLotSale \<Rightarrow> Form1099BTransaction" where
  "lot_transaction l = \<lparr>fxDescription = (if tlDescription l = [] then fmt_f0 (tlQuantity l) @ '' shs '' @ tlSymbol l else tlDescription l),
     fxSymbol = tlSymbol l, fxQuantity = tlQuantity l, fxDateAcquired = tlDateAcquired l, fxDateSold = tlDateSold l,
     fxGrossProceedsUSD = tlGrossProceedsUSD l, fxCostBasisUSD = tlCostBasisUSD l, fxWashSaleLossDisallowed = tlWashSaleLossDisallowed l,
     fxRealizedGainLossUSD = or_zero (tlRealizedGainLossUSD l) (\<not> feq (tlGrossProceedsUSD l) (Fin 0) \<or> \<not> feq (tlCostBasisUSD l) (Fin 0))
       (fsub (tlGrossProceedsUSD l) (tlCostBasisUSD l)),
     fxIsShortTerm = tlIsShortTerm l\<rparr>"

record form_totals =
  ftTransactions :: "Form1099BTransaction list"
  ftGross :: float64
  ftCost :: float64
  ftGain :: float64
  ftShort :: float64
  ftLong :: float64

definition add_lot :: "TaxLotSale \<Rightarrow> form_totals \<Rightarrow> form_totals" where
  "add_lot l t = (let tx = lot_transaction l; gain = fxRealizedGainLossUSD tx in
     \<lparr>ftTransactions = ftTransactions t @ [tx], ftGross = fadd (ftGross t) (tlGrossProceedsUSD l), ftCost = fadd (ftCost t) (tlCostBasisUSD l),
      ftGain = fadd (ftGain t) gain, ftShort = (if tlIsShortTerm l then fadd (ftShort t) gain else ftShort t),
      ftLong = (if tlIsShortTerm l then ftLong t else fadd (ftLong t) gain)\<rparr>)"

fun sum_lots :: "TaxLotSale list \<Rightarrow> form_totals \<Rightarrow> form_totals" where
  "sum_lots [] t = t"
| "sum_lots (l # ls) t = sum_lots ls (add_lot l t)"

definition no_lots :: form_totals where
  "no_lots = \<lparr>ftTransactions = [], ftGross = Fin 0, ftCost = Fin 0, ftGain = Fin 0, ftShort = Fin 0, ftLong = Fin 0\<rparr>"

definition form_lots :: "string list \<Rightarrow> string \<Rightarrow> string \<Rightarrow> int \<Rightarrow> mockRepository \<Rightarrow> TaxLotSale list" where
  "form_lots ord customerID portfolioID taxYear m =
     (let lots = GetTaxLotSalesByPortfolioID ord portfolioID taxYear m; lots2 = GetTaxLotSalesByPortfolioID ord customerID taxYear m
      in if lots = [] \<and> lots2 \<noteq> [] then lots2 else lots)"

definition form_statement ::
    "(string \<Rightarrow> string) \<Rightarrow> time \<Rightarrow> string \<Rightarrow> string \<Rightarrow> string \<Rightarrow> int \<Rightarrow> form_totals \<Rightarrow> Form1099BStatement" where
  "form_statement sha now customerID customerName pid taxYear t =
     \<lparr>fsStatementID = ''stmt-'' @ pid @ ''-1099b-'' @ dec_int taxYear, fsPortfolioID = pid, fsCustomerID = customerID,
      fsCustomerName = customerName, fsTaxYear = taxYear, fsPayerName = ''Orange Cat Investments LLC'', fsPayerTIN = ''12-9847120'',
      fsRecipientTIN = ''***-**-'' @ take 4 (EncodeToString (sha customerID)), fsTotalGrossProceedsUSD = ftGross t,
      fsTotalCostBasisUSD = ftCost t, fsTotalRealizedGainUSD = ftGain t, fsShortTermGainUSD = ftShort t, fsLongTermGainUSD = ftLong t,
      fsTransactions = ftTransactions t, fsCreatedAt = now\<rparr>"

definition form_record :: "Form1099BStatement \<Rightarrow> InvestmentStatement" where
  "form_record f = \<lparr>stStatementID = fsStatementID f, stPortfolioID = fsPortfolioID f, stCustomerID = fsCustomerID f,
     stStatementType = ''form_1099b'', stPeriod = ''Tax Year '' @ dec_int (fsTaxYear f), stTaxYear = fsTaxYear f,
     stTitle = ''IRS Form 1099-B Tax Report - '' @ dec_int (fsTaxYear f),
     stFileName = ''form1099b-'' @ fsPortfolioID f @ ''-'' @ dec_int (fsTaxYear f) @ ''.pdf'',
     stTotalProceedsUSD = fsTotalGrossProceedsUSD f, stNetGainUSD = fsTotalRealizedGainUSD f, stStatus = ''available'',
     stMetadata = Map.empty, stCreatedAt = fsCreatedAt f\<rparr>"

definition GenerateForm1099B ::
    "(string \<Rightarrow> string) \<Rightarrow> (Form1099BStatement \<Rightarrow> string option) \<Rightarrow> string list \<Rightarrow> time \<Rightarrow> string \<Rightarrow> string \<Rightarrow> int \<Rightarrow> mockRepository
      \<Rightarrow> (svc_error + InvestmentStatement \<times> string) \<times> mockRepository" where
  "GenerateForm1099B sha pdf ord now customerID portfolioID taxYear m =
     (if customerID = [] then (Inl IdRequired, m)
      else if taxYear < 2000 \<or> 2100 < taxYear then (Inl YearInvalid, m)
      else
        let pid = (if portfolioID = [] then ''port-'' @ customerID else portfolioID);
            (g, m1) = GetPortfolio ord now customerID m;
            name = (case g of Inl _ \<Rightarrow> customerID
                    | Inr a \<Rightarrow> (case mHeap m1 a of None \<Rightarrow> customerID | Some p \<Rightarrow> if pfCustomerName p \<noteq> [] then pfCustomerName p else customerID));
            f = form_statement sha now customerID name pid taxYear (sum_lots (form_lots ord customerID pid taxYear m1) no_lots)
        in (case pdf f of
              None \<Rightarrow> (Inl DocumentFailed, m1)
            | Some doc \<Rightarrow> (case CreateInvestmentStatement now (form_record f) m1 of
                (created, m2) \<Rightarrow> (Inr (created, doc), m2))))"

section \<open>Documents\<close>

definition GetStatementDocument ::
    "(string \<Rightarrow> string) \<Rightarrow> (CustomerMonthlyStatement \<Rightarrow> string option) \<Rightarrow> (Form1099BStatement \<Rightarrow> string option) \<Rightarrow> string list \<Rightarrow> string list
      \<Rightarrow> time \<Rightarrow> string \<Rightarrow> string \<Rightarrow> mockRepository \<Rightarrow> (svc_error + InvestmentStatement \<times> string) \<times> mockRepository" where
  "GetStatementDocument sha mpdf fpdf sord ord now customerID statementID m =
     (if statementID = [] then (Inl IdRequired, m)
      else (case GetInvestmentStatementByID sord statementID m of
          Inl _ \<Rightarrow> GenerateMonthlyStatement mpdf ord now customerID [] 2026 3 m
        | Inr stmt \<Rightarrow>
            if stStatementType stmt = ''form_1099b''
            then (case GenerateForm1099B sha fpdf ord now customerID (stPortfolioID stmt) (if stTaxYear stmt = 0 then 2025 else stTaxYear stmt) m of
                    (res, m') \<Rightarrow> (map_sum id (\<lambda>(_, doc). (stmt, doc)) res, m'))
            else (case GenerateMonthlyStatement mpdf ord now customerID (stPortfolioID stmt) (if stTaxYear stmt = 0 then 2026 else stTaxYear stmt) 3 m of
                    (res, m') \<Rightarrow> (map_sum id (\<lambda>(_, doc). (stmt, doc)) res, m'))))"

section \<open>Properties of statements\<close>

lemma sum_db_eq:
  "sum_db hs s = \<lparr>smHoldings = smHoldings s @ map db_line hs,
     smTotalMarketValue = foldl fadd (smTotalMarketValue s) (map (shMarketValueUSD \<circ> db_line) hs),
     smTotalCostBasis = foldl fadd (smTotalCostBasis s) (map (shCostBasisUSD \<circ> db_line) hs),
     smTotalUnrealizedGain = foldl fadd (smTotalUnrealizedGain s) (map (shUnrealizedGainUSD \<circ> db_line) hs)\<rparr>"
  by (induction hs s rule: sum_db.induct) (simp_all add: add_line_def)

lemma sum_maps_eq:
  "sum_maps hs s = (let ls = map map_line (filter (\<lambda>h. map_symbol h \<noteq> []) hs) in
     \<lparr>smHoldings = smHoldings s @ ls,
      smTotalMarketValue = foldl fadd (smTotalMarketValue s) (map shMarketValueUSD ls),
      smTotalCostBasis = foldl fadd (smTotalCostBasis s) (map shCostBasisUSD ls),
      smTotalUnrealizedGain = foldl fadd (smTotalUnrealizedGain s) (map shUnrealizedGainUSD ls)\<rparr>)"
  by (induction hs s rule: sum_maps.induct) (simp_all add: add_line_def Let_def)

text \<open>The holdings part of a statement has one line per stored holding, in the order of storage, or, when
  none is stored for the portfolio and its customer, one line per entry of the portfolio's own list that
  has a symbol; market value, cost and gain of the summary are the sums over exactly these lines.
  On a line, a recorded value that is not zero is printed as it is.\<close>

theorem statement_lines:
  "(let s = fetchAndBuildStatementHoldings ord pid p m; hs = db_holdings ord pid p m in
     smHoldings s = (if hs \<noteq> [] then map db_line hs
       else map map_line (filter (\<lambda>h. map_symbol h \<noteq> []) (case p of None \<Rightarrow> [] | Some q \<Rightarrow> pfHoldings q)))
     \<and> smTotalMarketValue s = foldl fadd (Fin 0) (map shMarketValueUSD (smHoldings s))
     \<and> smTotalCostBasis s = foldl fadd (Fin 0) (map shCostBasisUSD (smHoldings s))
     \<and> smTotalUnrealizedGain s = foldl fadd (Fin 0) (map shUnrealizedGainUSD (smHoldings s)))
   \<and> (feq (phMarketValueUSD h) (Fin 0) \<or> shMarketValueUSD (db_line h) = phMarketValueUSD h)
   \<and> (feq (phCostBasisUSD h) (Fin 0) \<or> shCostBasisUSD (db_line h) = phCostBasisUSD h)
   \<and> (feq (phUnrealizedGainUSD h) (Fin 0) \<or> shUnrealizedGainUSD (db_line h) = phUnrealizedGainUSD h)"
proof -
  have "feq (phMarketValueUSD h) (Fin 0) \<or> shMarketValueUSD (db_line h) = phMarketValueUSD h"
    "feq (phCostBasisUSD h) (Fin 0) \<or> shCostBasisUSD (db_line h) = phCostBasisUSD h"
    "feq (phUnrealizedGainUSD h) (Fin 0) \<or> shUnrealizedGainUSD (db_line h) = phUnrealizedGainUSD h"
    by (simp_all add: db_line_def holding_line_def or_zero_def Let_def)
  then show ?thesis
    by (simp add: fetchAndBuildStatementHoldings_def sum_db_eq sum_maps_eq empty_summary_def Let_def split: option.split)
qed

lemma GetPortfolio_statements [frame]: "mStatements (snd (GetPortfolio ord now c m)) = mStatements m"
  by (simp add: GetPortfolio_def GetPortfolioByCustomerID_def alloc_def split: option.split prod.split)

lemma GetPortfolioByID_statements [frame]: "mStatements (snd (GetPortfolioByID ord now c m)) = mStatements m"
  by (simp add: GetPortfolioByID_def alloc_def split: option.split)

lemma GetPortfolio_lots [frame]: "mTaxLots (snd (GetPortfolio ord now c m)) = mTaxLots m"
  by (simp add: GetPortfolio_def GetPortfolioByCustomerID_def alloc_def split: option.split prod.split)

lemma resolve_statements [frame]: "mStatements (snd (resolvePortfolioAndAccountInfo ord now c pid m)) = mStatements m"
  using GetPortfolio_statements [of ord now c m] GetPortfolioByID_statements [of ord now]
  by (auto simp: resolvePortfolioAndAccountInfo_def Let_def split: prod.split sum.split) (metis snd_conv)+

lemma record_statement:
  assumes "CreateInvestmentStatement now s m = (s', m')" and "stStatementID s \<noteq> []"
  shows "s' = s\<lparr>stCreatedAt := now, stStatus := ''available''\<rparr>"
    and "ListInvestmentStatements (stCustomerID s) m' = s' # ListInvestmentStatements (stCustomerID s) m"
    and "d \<noteq> stCustomerID s \<Longrightarrow> ListInvestmentStatements d m' = ListInvestmentStatements d m"
  using assms by (auto simp: CreateInvestmentStatement_def ListInvestmentStatements_def slot_def Let_def)

lemma ListInvestmentStatements_cong:
  "mStatements m' = mStatements m \<Longrightarrow> ListInvestmentStatements d m' = ListInvestmentStatements d m"
  by (simp add: ListInvestmentStatements_def)

lemma monthNames_length: "length monthNames = 13"
  by (simp add: monthNames_def)

lemma monthly_facts:
  "case GenerateMonthlyStatement pdf ord now c pid year month m of
     (Inl _, m') \<Rightarrow> ListInvestmentStatements d m' = ListInvestmentStatements d m
   | (Inr (s, _), m') \<Rightarrow> 2000 \<le> year \<and> year \<le> 2100 \<and> 1 \<le> month \<and> nat month < length monthNames
       \<and> stCustomerID s = c \<and> stTaxYear s = year \<and> stPeriod s = monthNames ! nat month @ '' '' @ dec_int year
       \<and> stStatementID s = ''stmt-'' @ stPortfolioID s @ ''-'' @ dec_int year @ ''-'' @ pad2 month
       \<and> ListInvestmentStatements d m' = (if d = c then [s] else []) @ ListInvestmentStatements d m"
proof (cases "c = [] \<or> year < 2000 \<or> 2100 < year \<or> month < 1 \<or> 12 < month")
  case True
  then show ?thesis by (auto simp: GenerateMonthlyStatement_def)
next
  case False
  obtain info m1 where i: "resolvePortfolioAndAccountInfo ord now c pid m = (info, m1)" by fastforce
  have m1: "ListInvestmentStatements e m1 = ListInvestmentStatements e m" for e
    using resolve_statements [of ord now c pid m] i by (intro ListInvestmentStatements_cong) simp
  define r where "r = monthly_report now c info (fetchAndBuildStatementHoldings ord (aiPortfolioID info) (aiPortfolio info) m1) year month"
  have r: "msCustomerID r = c" "msTaxYear r = year" "msPeriod r = monthNames ! nat month @ '' '' @ dec_int year"
    "msStatementID r = ''stmt-'' @ msPortfolioID r @ ''-'' @ dec_int year @ ''-'' @ pad2 month"
    by (simp_all add: r_def monthly_report_def Let_def split: prod.split)
  show ?thesis
  proof (cases "pdf r")
    case None
    with False i m1 show ?thesis by (simp add: GenerateMonthlyStatement_def r_def)
  next
    case (Some doc)
    obtain s m2 where s: "CreateInvestmentStatement now (monthly_record r month) m1 = (s, m2)" by fastforce
    have rec: "stStatementID (monthly_record r month) \<noteq> []" "stCustomerID (monthly_record r month) = c"
      using r by (simp_all add: monthly_record_def)
    note s' = record_statement [OF s rec(1), unfolded rec(2)]
    have "GenerateMonthlyStatement pdf ord now c pid year month m = (Inr (s, doc), m2)"
      using False i Some s by (simp add: GenerateMonthlyStatement_def r_def)
    moreover have "stCustomerID s = c" "stTaxYear s = year" "stPeriod s = monthNames ! nat month @ '' '' @ dec_int year"
      "stStatementID s = ''stmt-'' @ stPortfolioID s @ ''-'' @ dec_int year @ ''-'' @ pad2 month"
      using r by (simp_all add: s'(1) monthly_record_def)
    moreover have "nat month < length monthNames" using False by (simp add: monthNames_length nat_less_iff)
    ultimately show ?thesis using False s'(2) s'(3) [of d] m1 by simp
  qed
qed

text \<open>A monthly statement is produced only for years from 2000 to 2100 and months from 1 to 12, so the name of
  the month is always found; it is recorded as the first statement of its customer, with the identifier,
  period and year asked for, and nothing else is recorded. When a request fails, no statement is
  recorded.\<close>

theorem monthly_statement:
  "case GenerateMonthlyStatement pdf ord now c pid year month m of
     (Inl _, m') \<Rightarrow> ListInvestmentStatements d m' = ListInvestmentStatements d m
   | (Inr (s, _), m') \<Rightarrow> 2000 \<le> year \<and> year \<le> 2100 \<and> 1 \<le> month \<and> nat month < length monthNames
       \<and> stCustomerID s = c \<and> stTaxYear s = year \<and> stPeriod s = monthNames ! nat month @ '' '' @ dec_int year
       \<and> stStatementID s = ''stmt-'' @ stPortfolioID s @ ''-'' @ dec_int year @ ''-'' @ pad2 month
       \<and> ListInvestmentStatements d m' = (if d = c then [s] else []) @ ListInvestmentStatements d m"
  by (rule monthly_facts)

section \<open>Properties of tax forms and documents\<close>

abbreviation lot_gain :: "TaxLotSale \<Rightarrow> float64" where
  "lot_gain \<equiv> fxRealizedGainLossUSD \<circ> lot_transaction"

lemma sum_lots_eq:
  "sum_lots ls t = \<lparr>ftTransactions = ftTransactions t @ map lot_transaction ls,
     ftGross = foldl fadd (ftGross t) (map tlGrossProceedsUSD ls), ftCost = foldl fadd (ftCost t) (map tlCostBasisUSD ls),
     ftGain = foldl fadd (ftGain t) (map lot_gain ls), ftShort = foldl fadd (ftShort t) (map lot_gain (filter tlIsShortTerm ls)),
     ftLong = foldl fadd (ftLong t) (map lot_gain (filter (\<lambda>l. \<not> tlIsShortTerm l) ls))\<rparr>"
  by (induction ls t rule: sum_lots.induct) (simp_all add: add_lot_def Let_def)

lemma lots_of_year: "taxYear \<noteq> 0 \<Longrightarrow> list_all (\<lambda>l. tlTaxYear l = taxYear) (GetTaxLotSalesByPortfolioID ord pid taxYear m)"
  by (simp add: GetTaxLotSalesByPortfolioID_def list_all_iff)

definition form_of ::
    "(string \<Rightarrow> string) \<Rightarrow> string list \<Rightarrow> time \<Rightarrow> string \<Rightarrow> string \<Rightarrow> string \<Rightarrow> int \<Rightarrow> mockRepository \<Rightarrow> Form1099BStatement" where
  "form_of sha ord now c name pid taxYear m = form_statement sha now c name pid taxYear (sum_lots (form_lots ord c pid taxYear m) no_lots)"

lemma GenerateForm1099B_eq:
  assumes "c \<noteq> []" and "2000 \<le> taxYear" "taxYear \<le> 2100"
  shows "\<exists>name m1. mStatements m1 = mStatements m \<and> mTaxLots m1 = mTaxLots m
    \<and> GenerateForm1099B sha pdf ord now c portfolioID taxYear m =
       (let f = form_of sha ord now c name (if portfolioID = [] then ''port-'' @ c else portfolioID) taxYear m1
        in case pdf f of None \<Rightarrow> (Inl DocumentFailed, m1)
           | Some doc \<Rightarrow> (Inr (fst (CreateInvestmentStatement now (form_record f) m1), doc), snd (CreateInvestmentStatement now (form_record f) m1)))"
proof -
  obtain g m1 where g: "GetPortfolio ord now c m = (g, m1)" by fastforce
  define name where "name = (case g of Inl _ \<Rightarrow> c
      | Inr a \<Rightarrow> (case mHeap m1 a of None \<Rightarrow> c | Some p \<Rightarrow> if pfCustomerName p \<noteq> [] then pfCustomerName p else c))"
  have "mStatements m1 = mStatements m" "mTaxLots m1 = mTaxLots m"
    using GetPortfolio_statements [of ord now c m] GetPortfolio_lots [of ord now c m] g by simp_all
  moreover have "GenerateForm1099B sha pdf ord now c portfolioID taxYear m =
       (let f = form_of sha ord now c name (if portfolioID = [] then ''port-'' @ c else portfolioID) taxYear m1
        in case pdf f of None \<Rightarrow> (Inl DocumentFailed, m1)
           | Some doc \<Rightarrow> (Inr (fst (CreateInvestmentStatement now (form_record f) m1), doc), snd (CreateInvestmentStatement now (form_record f) m1)))"
    unfolding GenerateForm1099B_def g form_of_def name_def using assms
    by (simp add: Let_def split: option.split prod.split)
  ultimately show ?thesis by blast
qed

lemma form_facts:
  assumes "c \<noteq> []" and "2000 \<le> taxYear" "taxYear \<le> 2100"
  shows "\<exists>f m1. mTaxLots m1 = mTaxLots m
    \<and> (case pdf f of None \<Rightarrow> GenerateForm1099B sha pdf ord now c portfolioID taxYear m = (Inl DocumentFailed, m1)
       | Some doc \<Rightarrow> \<exists>s m2. GenerateForm1099B sha pdf ord now c portfolioID taxYear m = (Inr (s, doc), m2)
           \<and> stCustomerID s = c \<and> ListInvestmentStatements c m2 = s # ListInvestmentStatements c m
           \<and> stTotalProceedsUSD s = fsTotalGrossProceedsUSD f \<and> stNetGainUSD s = fsTotalRealizedGainUSD f)
    \<and> (let pid = (if portfolioID = [] then ''port-'' @ c else portfolioID); lots = form_lots ord c pid taxYear m1 in
        list_all (\<lambda>l. tlTaxYear l = taxYear) lots
        \<and> lots \<in> {GetTaxLotSalesByPortfolioID ord pid taxYear m1, GetTaxLotSalesByPortfolioID ord c taxYear m1}
        \<and> fsCustomerID f = c \<and> fsTransactions f = map lot_transaction lots
        \<and> fsTotalGrossProceedsUSD f = foldl fadd (Fin 0) (map tlGrossProceedsUSD lots)
        \<and> fsTotalCostBasisUSD f = foldl fadd (Fin 0) (map tlCostBasisUSD lots)
        \<and> fsTotalRealizedGainUSD f = foldl fadd (Fin 0) (map lot_gain lots)
        \<and> fsShortTermGainUSD f = foldl fadd (Fin 0) (map lot_gain (filter tlIsShortTerm lots))
        \<and> fsLongTermGainUSD f = foldl fadd (Fin 0) (map lot_gain (filter (\<lambda>l. \<not> tlIsShortTerm l) lots)))"
proof -
  from GenerateForm1099B_eq [OF assms(1-3), of m sha pdf ord now portfolioID]
  obtain name m1 where m1: "mStatements m1 = mStatements m" "mTaxLots m1 = mTaxLots m"
    and eq: "GenerateForm1099B sha pdf ord now c portfolioID taxYear m =
       (let f = form_of sha ord now c name (if portfolioID = [] then ''port-'' @ c else portfolioID) taxYear m1
        in case pdf f of None \<Rightarrow> (Inl DocumentFailed, m1)
           | Some doc \<Rightarrow> (Inr (fst (CreateInvestmentStatement now (form_record f) m1), doc), snd (CreateInvestmentStatement now (form_record f) m1)))"
    by auto
  define f where "f = form_of sha ord now c name (if portfolioID = [] then ''port-'' @ c else portfolioID) taxYear m1"
  obtain s m2 where s: "CreateInvestmentStatement now (form_record f) m1 = (s, m2)" by fastforce
  have rec: "stStatementID (form_record f) \<noteq> []" "stCustomerID (form_record f) = c"
    by (simp_all add: form_record_def f_def form_of_def form_statement_def)
  note s' = record_statement [OF s rec(1), unfolded rec(2)]
  have stored: "ListInvestmentStatements c m2 = s # ListInvestmentStatements c m"
    using s'(2) ListInvestmentStatements_cong [OF m1(1), of c] by simp
  have amounts: "stCustomerID s = c" "stTotalProceedsUSD s = fsTotalGrossProceedsUSD f" "stNetGainUSD s = fsTotalRealizedGainUSD f"
    using rec(2) by (simp_all add: s'(1) form_record_def)
  have res: "case pdf f of None \<Rightarrow> GenerateForm1099B sha pdf ord now c portfolioID taxYear m = (Inl DocumentFailed, m1)
       | Some doc \<Rightarrow> \<exists>s m2. GenerateForm1099B sha pdf ord now c portfolioID taxYear m = (Inr (s, doc), m2)
           \<and> stCustomerID s = c \<and> ListInvestmentStatements c m2 = s # ListInvestmentStatements c m
           \<and> stTotalProceedsUSD s = fsTotalGrossProceedsUSD f \<and> stNetGainUSD s = fsTotalRealizedGainUSD f"
    using eq stored amounts by (simp add: f_def [symmetric] s Let_def split: option.split)
  have y: "taxYear \<noteq> 0" using assms(2) by simp
  show ?thesis
    by (rule exI [of _ f], rule exI [of _ m1])
       (use m1(2) res lots_of_year [OF y] in \<open>simp add: f_def form_of_def form_statement_def sum_lots_eq no_lots_def form_lots_def Let_def\<close>)
qed

text \<open>C28: A tax form lists, in order, exactly one transaction per closed lot of the tax year asked for, those of the
  portfolio or, when it has none, those of the customer; proceeds, cost and gain are the sums over
  these lots, and the short-term and long-term gains are the sums over the lots of the one and the other
  kind. The form is for the customer who asks, with the last part of the tax number cut to four digits.\<close>

theorem form_1099b:
  assumes "c \<noteq> []" and "2000 \<le> taxYear" "taxYear \<le> 2100"
  shows "\<exists>f m1. mTaxLots m1 = mTaxLots m
    \<and> (case pdf f of None \<Rightarrow> GenerateForm1099B sha pdf ord now c portfolioID taxYear m = (Inl DocumentFailed, m1)
       | Some doc \<Rightarrow> \<exists>s m2. GenerateForm1099B sha pdf ord now c portfolioID taxYear m = (Inr (s, doc), m2)
           \<and> stCustomerID s = c \<and> ListInvestmentStatements c m2 = s # ListInvestmentStatements c m
           \<and> stTotalProceedsUSD s = fsTotalGrossProceedsUSD f \<and> stNetGainUSD s = fsTotalRealizedGainUSD f)
    \<and> (let pid = (if portfolioID = [] then ''port-'' @ c else portfolioID); lots = form_lots ord c pid taxYear m1 in
        list_all (\<lambda>l. tlTaxYear l = taxYear) lots
        \<and> lots \<in> {GetTaxLotSalesByPortfolioID ord pid taxYear m1, GetTaxLotSalesByPortfolioID ord c taxYear m1}
        \<and> fsCustomerID f = c \<and> fsTransactions f = map lot_transaction lots
        \<and> fsTotalGrossProceedsUSD f = foldl fadd (Fin 0) (map tlGrossProceedsUSD lots)
        \<and> fsTotalCostBasisUSD f = foldl fadd (Fin 0) (map tlCostBasisUSD lots)
        \<and> fsTotalRealizedGainUSD f = foldl fadd (Fin 0) (map lot_gain lots)
        \<and> fsShortTermGainUSD f = foldl fadd (Fin 0) (map lot_gain (filter tlIsShortTerm lots))
        \<and> fsLongTermGainUSD f = foldl fadd (Fin 0) (map lot_gain (filter (\<lambda>l. \<not> tlIsShortTerm l) lots)))"
  by (rule form_facts [OF assms])

theorem form_1099b_witness:
  "\<exists>s m2. GenerateForm1099B id (\<lambda>f. Some ''pdf'') [] 5 arthur ''port-cust-longterm-arthur'' 2025 (NewMockRepository 0) = (Inr (s, ''pdf''), m2)
     \<and> ListInvestmentStatements arthur m2 = s # ListInvestmentStatements arthur (NewMockRepository 0)"
  using form_1099b [of arthur 2025, where portfolioID = "''port-cust-longterm-arthur''" and m = "NewMockRepository 0" and pdf = "\<lambda>f. Some ''pdf''" and sha = id
      and ord = "[]" and now = 5] demo_close_target(2)
  by auto

text \<open>Fetching a statement document does not look at whose statement it is: whoever asks for a recorded
  statement by its identifier is given the record of the customer it belongs to, and fetching is not
  a mere read, it records a new statement for the customer who asked. For an identifier that no statement
  has, a statement for March 2026 is made up and recorded.\<close>

theorem statement_document:
  fixes sha mpdf fpdf sord ord now m
  assumes "c \<noteq> []" and "i \<noteq> []"
  defines "get \<equiv> GetStatementDocument sha (\<lambda>r. Some (mpdf r)) (\<lambda>f. Some (fpdf f)) sord ord now c i m"
  shows "case GetInvestmentStatementByID sord i m of
      Inr st \<Rightarrow> stTaxYear st \<in> {0} \<union> {2000..2100} \<longrightarrow>
        (\<exists>doc s m'. get = (Inr (st, doc), m') \<and> stCustomerID s = c \<and> ListInvestmentStatements c m' = s # ListInvestmentStatements c m)
    | Inl _ \<Rightarrow> \<exists>doc s m'. get = (Inr (s, doc), m') \<and> stCustomerID s = c \<and> stPeriod s = ''March '' @ dec_int 2026
        \<and> ListInvestmentStatements c m' = s # ListInvestmentStatements c m"
proof -
  have monthly: "\<exists>doc s m'. GenerateMonthlyStatement (\<lambda>r. Some (mpdf r)) ord now c pid y 3 m = (Inr (s, doc), m') \<and> stCustomerID s = c
      \<and> stPeriod s = ''March '' @ dec_int y \<and> ListInvestmentStatements c m' = s # ListInvestmentStatements c m"
    if "2000 \<le> y" "y \<le> 2100" for pid y
  proof -
    have "\<exists>s doc m'. GenerateMonthlyStatement (\<lambda>r. Some (mpdf r)) ord now c pid y 3 m = (Inr (s, doc), m')"
      using assms(1) that by (simp add: GenerateMonthlyStatement_def Let_def split: prod.split)
    then obtain s doc m' where g: "GenerateMonthlyStatement (\<lambda>r. Some (mpdf r)) ord now c pid y 3 m = (Inr (s, doc), m')" by blast
    with monthly_facts [where pdf = "\<lambda>r. Some (mpdf r)" and ord = ord and now = now and c = c and pid = pid and year = y and month = 3 and m = m and d = c] show ?thesis by (simp add: monthNames_def)
  qed
  have form: "\<exists>doc s m'. GenerateForm1099B sha (\<lambda>f. Some (fpdf f)) ord now c pid y m = (Inr (s, doc), m') \<and> stCustomerID s = c
      \<and> ListInvestmentStatements c m' = s # ListInvestmentStatements c m"
    if y: "2000 \<le> y" "y \<le> 2100" for pid y
    using form_facts [OF assms(1) y, of m sha "\<lambda>f. Some (fpdf f)" ord now pid] by auto
  show ?thesis
  proof (cases "GetInvestmentStatementByID sord i m")
    case (Inl e)
    with monthly [of 2026 "[]"] assms(2) show ?thesis by (simp add: get_def GetStatementDocument_def)
  next
    case (Inr st)
    define fy where "fy = (if stTaxYear st = 0 then 2025 else stTaxYear st)"
    define y where "y = (if stTaxYear st = 0 then 2026 else stTaxYear st)"
    have "\<exists>doc s m'. get = (Inr (st, doc), m') \<and> stCustomerID s = c \<and> ListInvestmentStatements c m' = s # ListInvestmentStatements c m"
      if "stTaxYear st \<in> {0} \<union> {2000..2100}"
    proof (cases "stStatementType st = ''form_1099b''")
      case True
      have "2000 \<le> fy" "fy \<le> 2100" using that by (auto simp: fy_def)
      from form [OF this, of "stPortfolioID st"] show ?thesis
        using Inr True assms(2) by (auto simp: get_def GetStatementDocument_def fy_def [symmetric])
    next
      case False
      have "2000 \<le> y" "y \<le> 2100" using that by (auto simp: y_def)
      from monthly [OF this, of "stPortfolioID st"] show ?thesis
        using Inr False assms(2) by (auto simp: get_def GetStatementDocument_def y_def [symmetric])
    qed
    with Inr show ?thesis by simp
  qed
qed

theorem statement_document_witness:
  "\<exists>st doc m'. GetStatementDocument id (\<lambda>r. Some ''pdf'') (\<lambda>f. Some ''pdf'') [arthur, chloe] [arthur, chloe] 5 chloe ''stmt-arthur-2026-03'' (NewMockRepository 0)
      = (Inr (st, doc), m') \<and> stCustomerID st = arthur"
proof -
  define st where "st = hd (seed_statements 0 arthur ''arthur'' 12845075 2845075 6420000 1430000)"
  have "GetInvestmentStatementByID [arthur, chloe] ''stmt-arthur-2026-03'' (NewMockRepository 0) = Inr st"
    by (simp add: GetInvestmentStatementByID_def NewMockRepository_def seed_statements_def seed_statement_def st_def) (simp add: arthur_def chloe_def)
  moreover have "chloe \<noteq> []" by (simp add: chloe_def)
  moreover have st: "stTaxYear st \<in> {0} \<union> {2000..2100}" "stCustomerID st = arthur"
    by (simp_all add: st_def seed_statements_def seed_statement_def)
  ultimately have "\<exists>doc s m'. GetStatementDocument id (\<lambda>r. Some ''pdf'') (\<lambda>f. Some ''pdf'') [arthur, chloe] [arthur, chloe] 5 chloe
        ''stmt-arthur-2026-03'' (NewMockRepository 0) = (Inr (st, doc), m')
      \<and> stCustomerID s = chloe \<and> ListInvestmentStatements chloe m' = s # ListInvestmentStatements chloe (NewMockRepository 0)"
    using statement_document [of chloe "''stmt-arthur-2026-03''", where sord = "[arthur, chloe]" and m = "NewMockRepository 0" and sha = id
        and mpdf = "\<lambda>r. ''pdf''" and fpdf = "\<lambda>f. ''pdf''" and ord = "[arthur, chloe]" and now = 5]
    by (simp only: sum.case list.simps not_False_eq_True simp_thms)
  with st(2) show ?thesis by blast
qed

end
