(* ===== verification/WorkforceRepo.thy ===== *)
theory WorkforceRepo
  imports CoreLifecycle
begin

text \<open>
  The data model of the workforce service and its in-memory repository,
  \<open>internal/repository/workforce\<close>. A map of pointers to structs is a map of records: an operation that
  changes a stored object updates its entry. Each operation takes the time it runs at, which also gives the
  generated identifiers; an operation that walks over a map takes the order of its keys.
\<close>

section \<open>Data\<close>

record Employee =
  emEmployeeID :: string
  emEmployeeType :: string
  emFirstName :: string
  emLastName :: "string option"
  emEmail :: "string option"
  emRoleTitle :: string
  emDepartment :: string
  emStatus :: string
  emHiredAt :: time
  emCreatedAt :: time
  emUpdatedAt :: time

record OnboardingTask =
  tkChecklistID :: string
  tkEmployeeID :: string
  tkTaskName :: string
  tkCategory :: string
  tkIsCompleted :: bool
  tkCompletedAt :: "time option"
  tkAssignedTo :: "string option"
  tkCreatedAt :: time
  tkUpdatedAt :: time

record CareSchedule =
  csScheduleID :: string
  csFelineID :: string
  csDietaryPlan :: string
  csFeedingTimes :: "string list"
  csSpecialMedicalNeeds :: "string option"
  csPreferredPerchZone :: "string option"
  csEmergencyMedicalHold :: bool
  csCaretakerID :: "string option"
  csCreatedAt :: time
  csUpdatedAt :: time

record LeaveRequest =
  lvLeaveID :: string
  lvEmployeeID :: string
  lvLeaveType :: string
  lvStartDate :: string
  lvEndDate :: string
  lvStatus :: string
  lvReason :: "string option"
  lvCreatedAt :: time
  lvUpdatedAt :: time

record ReviewCycle =
  rvReviewID :: string
  rvEmployeeID :: string
  rvReviewType :: string
  rvReviewPeriod :: string
  rvPhase :: string
  rvScheduledFor :: string
  rvStatus :: string
  rvReviewerID :: "string option"
  rvScore :: "float64 option"
  rvNotes :: "string option"
  rvSelfAppraisal :: "string option"
  rvSelfScore :: "float64 option"
  rvPeerFeedback :: "string option"
  rvPeerScore :: "float64 option"
  rvPeerReviewerID :: "string option"
  rvManagerAssessment :: "string option"
  rvManagerScore :: "float64 option"
  rvKPIRatings :: "string option"
  rvWellnessAuditScore :: "float64 option"
  rvHabitatRecommendations :: "string option"
  rvClinicalAuditorID :: "string option"
  rvVHRRecordID :: "string option"
  rvCompletedAt :: "time option"
  rvCreatedAt :: time
  rvUpdatedAt :: time

record VHRRecord =
  vhRecordID :: string
  vhFelineID :: string
  vhVeterinarianID :: "string option"
  vhVisitDate :: string
  vhWeightKG :: float64
  vhDentalScore :: int
  vhVaccinationStatus :: string
  vhPrescriptions :: "string option"
  vhClinicalNotes :: string
  vhCreatedAt :: time
  vhUpdatedAt :: time

record WorkplaceIncident =
  inIncidentID :: string
  inTitle :: string
  inCategory :: string
  inInvolvedFelineID :: "string option"
  inInvolvedHumanID :: "string option"
  inSeverity :: string
  inStatus :: string
  inDescription :: string
  inResolutionNotes :: "string option"
  inReportedAt :: time
  inResolvedAt :: "time option"

record ExecutiveReport =
  exReportID :: string
  exPeriod :: string
  exTitle :: string
  exStatus :: string
  exTotalRevenue :: float64
  exOperatingExpenses :: float64
  exPayrollExpenses :: float64
  exNetProfit :: float64
  exOperationalBurn :: float64
  exCashReserves :: float64
  exRunwayMonths :: float64
  exTotalHeadcount :: int
  exHumanHeadcount :: int
  exFelineHeadcount :: int
  exAttendanceRate :: float64
  exOvertimeHours :: float64
  exTimesheetsApproved :: int
  exWebDAVPathPDF :: "string option"
  exWebDAVPathCSV :: "string option"
  exCSVContent :: "string option"
  exPDFContent :: string
  exGeneratedBy :: string
  exCreatedAt :: time
  exUpdatedAt :: time

record wfRepository =
  employees :: "(string, Employee) gomap"
  checklists :: "(string, OnboardingTask) gomap"
  careSchedules :: "(string, CareSchedule) gomap"
  leaveRequests :: "(string, LeaveRequest) gomap"
  reviewCycles :: "(string, ReviewCycle) gomap"
  vhrRecords :: "(string, VHRRecord) gomap"
  incidents :: "(string, WorkplaceIncident) gomap"
  executiveReports :: "(string, ExecutiveReport) gomap"

datatype wf_error = NotFound | InvalidStatus

section \<open>Order of strings, sorting\<close>

text \<open>
  Go compares strings by their bytes. \<open>sort_by\<close> is \<open>sort.Slice\<close>: insertion by the given order.
  \<open>sort.Slice\<close> may exchange elements of which neither is smaller; here they keep their order, and because the
  order of the argument comes from a map walk, which is arbitrary, this loses no result.
\<close>

fun str_less :: "string \<Rightarrow> string \<Rightarrow> bool" where
  "str_less xs [] = False"
| "str_less [] (y # ys) = True"
| "str_less (x # xs) (y # ys) = ((of_char x :: nat) < of_char y \<or> (x = y \<and> str_less xs ys))"

fun insert_by :: "('a \<Rightarrow> 'a \<Rightarrow> bool) \<Rightarrow> 'a \<Rightarrow> 'a list \<Rightarrow> 'a list" where
  "insert_by lt x [] = [x]"
| "insert_by lt x (y # ys) = (if lt y x then y # insert_by lt x ys else x # y # ys)"

fun sort_by :: "('a \<Rightarrow> 'a \<Rightarrow> bool) \<Rightarrow> 'a list \<Rightarrow> 'a list" where
  "sort_by lt [] = []"
| "sort_by lt (x # xs) = insert_by lt x (sort_by lt xs)"

section \<open>Employees and checklists\<close>

definition GetEmployeeByID :: "string \<Rightarrow> wfRepository \<Rightarrow> wf_error + Employee" where
  "GetEmployeeByID i r = (case employees r i of Some e \<Rightarrow> Inr e | None \<Rightarrow> Inl NotFound)"

definition ListEmployees :: "string list \<Rightarrow> string \<Rightarrow> string \<Rightarrow> wfRepository \<Rightarrow> Employee list" where
  "ListEmployees ord employeeType status r =
     filter (\<lambda>e. (employeeType = [] \<or> emEmployeeType e = employeeType) \<and> (status = [] \<or> emStatus e = status)) (map_vals ord (employees r))"

definition CreateEmployee :: "time \<Rightarrow> Employee \<Rightarrow> wfRepository \<Rightarrow> Employee \<times> wfRepository" where
  "CreateEmployee now e r =
     (let e' = e\<lparr>emEmployeeID := (if emEmployeeID e = [] then ''emp-gen-'' @ dec_int now else emEmployeeID e),
                emStatus := (if emStatus e = [] then ''onboarding'' else emStatus e),
                emCreatedAt := now, emUpdatedAt := now, emHiredAt := (if emHiredAt e = zeroTime then now else emHiredAt e)\<rparr>
      in (e', r\<lparr>employees := (employees r)(emEmployeeID e' \<mapsto> e')\<rparr>))"

definition UpdateEmployeeStatus :: "time \<Rightarrow> string \<Rightarrow> string \<Rightarrow> wfRepository \<Rightarrow> (wf_error + Employee) \<times> wfRepository" where
  "UpdateEmployeeStatus now i status r = (case employees r i of
     None \<Rightarrow> (Inl NotFound, r)
   | Some e \<Rightarrow> let e' = e\<lparr>emStatus := status, emUpdatedAt := now\<rparr> in (Inr e', r\<lparr>employees := (employees r)(i \<mapsto> e')\<rparr>))"

definition CreateOnboardingTask :: "time \<Rightarrow> OnboardingTask \<Rightarrow> wfRepository \<Rightarrow> OnboardingTask \<times> wfRepository" where
  "CreateOnboardingTask now t r =
     (let t' = t\<lparr>tkChecklistID := (if tkChecklistID t = [] then ''chk-'' @ dec_int now else tkChecklistID t), tkCreatedAt := now, tkUpdatedAt := now\<rparr>
      in (t', r\<lparr>checklists := (checklists r)(tkChecklistID t' \<mapsto> t')\<rparr>))"

definition ListOnboardingChecklist :: "string list \<Rightarrow> string \<Rightarrow> wfRepository \<Rightarrow> OnboardingTask list" where
  "ListOnboardingChecklist ord employeeID r = filter (\<lambda>t. tkEmployeeID t = employeeID) (map_vals ord (checklists r))"

definition UpdateOnboardingTask :: "time \<Rightarrow> string \<Rightarrow> bool \<Rightarrow> wfRepository \<Rightarrow> (wf_error + OnboardingTask) \<times> wfRepository" where
  "UpdateOnboardingTask now i isCompleted r = (case checklists r i of
     None \<Rightarrow> (Inl NotFound, r)
   | Some t \<Rightarrow>
       let t' = t\<lparr>tkIsCompleted := isCompleted, tkCompletedAt := (if isCompleted then Some now else None), tkUpdatedAt := now\<rparr>
       in (Inr t', r\<lparr>checklists := (checklists r)(i \<mapsto> t')\<rparr>))"

section \<open>Care schedules\<close>

definition GetCareScheduleByFelineID :: "string \<Rightarrow> wfRepository \<Rightarrow> wf_error + CareSchedule" where
  "GetCareScheduleByFelineID f r = (case careSchedules r f of Some c \<Rightarrow> Inr c | None \<Rightarrow> Inl NotFound)"

definition UpsertCareSchedule :: "time \<Rightarrow> CareSchedule \<Rightarrow> wfRepository \<Rightarrow> CareSchedule \<times> wfRepository" where
  "UpsertCareSchedule now c r =
     (let c' = (case careSchedules r (csFelineID c) of
            Some x \<Rightarrow> c\<lparr>csScheduleID := csScheduleID x, csCreatedAt := csCreatedAt x, csUpdatedAt := now\<rparr>
          | None \<Rightarrow> c\<lparr>csScheduleID := (if csScheduleID c = [] then ''cs-'' @ dec_int now else csScheduleID c), csCreatedAt := now, csUpdatedAt := now\<rparr>)
      in (c', r\<lparr>careSchedules := (careSchedules r)(csFelineID c \<mapsto> c')\<rparr>))"

definition SetEmergencyMedicalHold :: "time \<Rightarrow> string \<Rightarrow> bool \<Rightarrow> wfRepository \<Rightarrow> CareSchedule \<times> wfRepository" where
  "SetEmergencyMedicalHold now f hold r =
     (let c' = (case careSchedules r f of
            Some c \<Rightarrow> c\<lparr>csEmergencyMedicalHold := hold, csUpdatedAt := now\<rparr>
          | None \<Rightarrow> \<lparr>csScheduleID = ''cs-'' @ dec_int now, csFelineID = f, csDietaryPlan = ''Standard feline nutritional plan'',
                     csFeedingTimes = [''09:00 AM'', ''05:00 PM''], csSpecialMedicalNeeds = None, csPreferredPerchZone = None,
                     csEmergencyMedicalHold = hold, csCaretakerID = None, csCreatedAt = now, csUpdatedAt = now\<rparr>)
      in (c', r\<lparr>careSchedules := (careSchedules r)(f \<mapsto> c')\<rparr>))"

section \<open>Leave requests\<close>

definition CreateLeaveRequest :: "time \<Rightarrow> LeaveRequest \<Rightarrow> wfRepository \<Rightarrow> LeaveRequest \<times> wfRepository" where
  "CreateLeaveRequest now q r =
     (let q' = q\<lparr>lvLeaveID := (if lvLeaveID q = [] then ''leave-'' @ dec_int now else lvLeaveID q),
                lvStatus := (if lvStatus q = [] then ''pending'' else lvStatus q), lvCreatedAt := now, lvUpdatedAt := now\<rparr>
      in (q', r\<lparr>leaveRequests := (leaveRequests r)(lvLeaveID q' \<mapsto> q')\<rparr>))"

definition GetLeaveRequestByID :: "string \<Rightarrow> wfRepository \<Rightarrow> wf_error + LeaveRequest" where
  "GetLeaveRequestByID i r = (case leaveRequests r i of Some q \<Rightarrow> Inr q | None \<Rightarrow> Inl NotFound)"

definition ListLeaveRequests :: "string list \<Rightarrow> string \<Rightarrow> string \<Rightarrow> wfRepository \<Rightarrow> LeaveRequest list" where
  "ListLeaveRequests ord employeeID status r = sort_by (\<lambda>x y. lvCreatedAt y < lvCreatedAt x)
     (filter (\<lambda>q. (employeeID = [] \<or> lvEmployeeID q = employeeID) \<and> (status = [] \<or> lvStatus q = status)) (map_vals ord (leaveRequests r)))"

definition UpdateLeaveRequestStatus :: "time \<Rightarrow> string \<Rightarrow> string \<Rightarrow> wfRepository \<Rightarrow> (wf_error + LeaveRequest) \<times> wfRepository" where
  "UpdateLeaveRequestStatus now i status r = (case leaveRequests r i of
     None \<Rightarrow> (Inl NotFound, r)
   | Some q \<Rightarrow> let q' = q\<lparr>lvStatus := status, lvUpdatedAt := now\<rparr> in (Inr q', r\<lparr>leaveRequests := (leaveRequests r)(i \<mapsto> q')\<rparr>))"

section \<open>Review cycles\<close>

text \<open>The generated identifier of a review is the number of reviews plus one, with twelve digits.\<close>

definition pad12 :: "nat \<Rightarrow> string" where
  "pad12 n = replicate (12 - length (dec_nat n)) (CHR ''0'') @ dec_nat n"

definition CreateReviewCycle :: "time \<Rightarrow> ReviewCycle \<Rightarrow> wfRepository \<Rightarrow> ReviewCycle \<times> wfRepository" where
  "CreateReviewCycle now c r =
     (let c' = c\<lparr>rvReviewID := (if rvReviewID c = [] then ''018e0000-0000-7000-8000-'' @ pad12 (card (dom (reviewCycles r)) + 1) else rvReviewID c),
                rvReviewPeriod := (if rvReviewPeriod c = [] then ''2026-Q3'' else rvReviewPeriod c),
                rvPhase := (if rvPhase c = [] then ''self_appraisal'' else rvPhase c),
                rvStatus := (if rvStatus c = [] then ''scheduled'' else rvStatus c), rvCreatedAt := now, rvUpdatedAt := now\<rparr>
      in (c', r\<lparr>reviewCycles := (reviewCycles r)(rvReviewID c' \<mapsto> c')\<rparr>))"

definition GetReviewCycleByID :: "string \<Rightarrow> wfRepository \<Rightarrow> wf_error + ReviewCycle" where
  "GetReviewCycleByID i r = (case reviewCycles r i of Some c \<Rightarrow> Inr c | None \<Rightarrow> Inl NotFound)"

definition review_before :: "ReviewCycle \<Rightarrow> ReviewCycle \<Rightarrow> bool" where
  "review_before x y = (if rvScheduledFor x = rvScheduledFor y then rvCreatedAt y < rvCreatedAt x else str_less (rvScheduledFor y) (rvScheduledFor x))"

definition ListReviewCycles :: "string list \<Rightarrow> string \<Rightarrow> string \<Rightarrow> string \<Rightarrow> wfRepository \<Rightarrow> ReviewCycle list" where
  "ListReviewCycles ord employeeID status reviewType r = sort_by review_before
     (filter (\<lambda>c. (employeeID = [] \<or> rvEmployeeID c = employeeID) \<and> (status = [] \<or> rvStatus c = status)
        \<and> (reviewType = [] \<or> rvReviewType c = reviewType)) (map_vals ord (reviewCycles r)))"

text \<open>The update copies the fields that are set from its argument to the stored cycle.\<close>

fun keep_if_unset :: "'a option \<Rightarrow> 'a option \<Rightarrow> 'a option" where
  "keep_if_unset (Some v) old = Some v"
| "keep_if_unset None old = old"

definition merge_review :: "time \<Rightarrow> ReviewCycle \<Rightarrow> ReviewCycle \<Rightarrow> ReviewCycle" where
  "merge_review now c x = x\<lparr>
     rvReviewPeriod := (if rvReviewPeriod c \<noteq> [] then rvReviewPeriod c else rvReviewPeriod x),
     rvPhase := (if rvPhase c \<noteq> [] then rvPhase c else rvPhase x), rvStatus := (if rvStatus c \<noteq> [] then rvStatus c else rvStatus x),
     rvReviewerID := keep_if_unset (rvReviewerID c) (rvReviewerID x), rvScore := keep_if_unset (rvScore c) (rvScore x),
     rvNotes := keep_if_unset (rvNotes c) (rvNotes x), rvSelfAppraisal := keep_if_unset (rvSelfAppraisal c) (rvSelfAppraisal x),
     rvSelfScore := keep_if_unset (rvSelfScore c) (rvSelfScore x), rvPeerFeedback := keep_if_unset (rvPeerFeedback c) (rvPeerFeedback x),
     rvPeerScore := keep_if_unset (rvPeerScore c) (rvPeerScore x), rvPeerReviewerID := keep_if_unset (rvPeerReviewerID c) (rvPeerReviewerID x),
     rvManagerAssessment := keep_if_unset (rvManagerAssessment c) (rvManagerAssessment x),
     rvManagerScore := keep_if_unset (rvManagerScore c) (rvManagerScore x), rvKPIRatings := keep_if_unset (rvKPIRatings c) (rvKPIRatings x),
     rvWellnessAuditScore := keep_if_unset (rvWellnessAuditScore c) (rvWellnessAuditScore x),
     rvHabitatRecommendations := keep_if_unset (rvHabitatRecommendations c) (rvHabitatRecommendations x),
     rvClinicalAuditorID := keep_if_unset (rvClinicalAuditorID c) (rvClinicalAuditorID x),
     rvVHRRecordID := keep_if_unset (rvVHRRecordID c) (rvVHRRecordID x), rvCompletedAt := keep_if_unset (rvCompletedAt c) (rvCompletedAt x),
     rvUpdatedAt := now\<rparr>"

definition UpdateReviewCycle :: "time \<Rightarrow> ReviewCycle \<Rightarrow> wfRepository \<Rightarrow> (wf_error + ReviewCycle) \<times> wfRepository" where
  "UpdateReviewCycle now c r = (case reviewCycles r (rvReviewID c) of
     None \<Rightarrow> (Inl NotFound, r)
   | Some x \<Rightarrow> let x' = merge_review now c x in (Inr x', r\<lparr>reviewCycles := (reviewCycles r)(rvReviewID c \<mapsto> x')\<rparr>))"

section \<open>Health records and incidents\<close>

definition CreateVHRRecord :: "time \<Rightarrow> VHRRecord \<Rightarrow> wfRepository \<Rightarrow> VHRRecord \<times> wfRepository" where
  "CreateVHRRecord now v r =
     (let v' = v\<lparr>vhRecordID := (if vhRecordID v = [] then ''vhr-'' @ dec_int now else vhRecordID v), vhCreatedAt := now, vhUpdatedAt := now\<rparr>
      in (v', r\<lparr>vhrRecords := (vhrRecords r)(vhRecordID v' \<mapsto> v')\<rparr>))"

definition ListVHRRecords :: "string list \<Rightarrow> string \<Rightarrow> wfRepository \<Rightarrow> VHRRecord list" where
  "ListVHRRecords ord felineID r = sort_by (\<lambda>x y. str_less (vhVisitDate y) (vhVisitDate x))
     (filter (\<lambda>v. felineID = [] \<or> vhFelineID v = felineID) (map_vals ord (vhrRecords r)))"

definition CreateWorkplaceIncident :: "time \<Rightarrow> WorkplaceIncident \<Rightarrow> wfRepository \<Rightarrow> WorkplaceIncident \<times> wfRepository" where
  "CreateWorkplaceIncident now i r =
     (let i' = i\<lparr>inIncidentID := (if inIncidentID i = [] then ''inc-'' @ dec_int now else inIncidentID i),
                inStatus := (if inStatus i = [] then ''open'' else inStatus i), inSeverity := (if inSeverity i = [] then ''low'' else inSeverity i),
                inReportedAt := now\<rparr>
      in (i', r\<lparr>incidents := (incidents r)(inIncidentID i' \<mapsto> i')\<rparr>))"

definition ListWorkplaceIncidents :: "string list \<Rightarrow> string \<Rightarrow> wfRepository \<Rightarrow> WorkplaceIncident list" where
  "ListWorkplaceIncidents ord status r = sort_by (\<lambda>x y. inReportedAt y < inReportedAt x)
     (filter (\<lambda>i. status = [] \<or> inStatus i = status) (map_vals ord (incidents r)))"

definition UpdateWorkplaceIncidentStatus ::
    "time \<Rightarrow> string \<Rightarrow> string \<Rightarrow> string \<Rightarrow> wfRepository \<Rightarrow> (wf_error + WorkplaceIncident) \<times> wfRepository" where
  "UpdateWorkplaceIncidentStatus now i status notes r = (case incidents r i of
     None \<Rightarrow> (Inl NotFound, r)
   | Some x \<Rightarrow>
       if status \<notin> {''open'', ''under_review'', ''resolved''} then (Inl InvalidStatus, r)
       else let x' = x\<lparr>inStatus := status, inResolutionNotes := (if notes \<noteq> [] then Some notes else inResolutionNotes x),
                      inResolvedAt := (if status = ''resolved'' then Some now else inResolvedAt x)\<rparr>
            in (Inr x', r\<lparr>incidents := (incidents r)(i \<mapsto> x')\<rparr>))"

section \<open>Executive reports\<close>

definition CreateExecutiveReport :: "time \<Rightarrow> ExecutiveReport \<Rightarrow> wfRepository \<Rightarrow> ExecutiveReport \<times> wfRepository" where
  "CreateExecutiveReport now x r =
     (let x' = x\<lparr>exReportID := (if exReportID x = [] then ''rep-'' @ exPeriod x else exReportID x),
                exCreatedAt := (if exCreatedAt x = zeroTime then now else exCreatedAt x), exUpdatedAt := (if exUpdatedAt x = zeroTime then now else exUpdatedAt x),
                exStatus := (if exStatus x = [] then ''archived'' else exStatus x),
                exGeneratedBy := (if exGeneratedBy x = [] then ''system-reporting-worker'' else exGeneratedBy x)\<rparr>
      in (x', r\<lparr>executiveReports := (executiveReports r)(exReportID x' \<mapsto> x')\<rparr>))"

definition GetExecutiveReportByID :: "string \<Rightarrow> wfRepository \<Rightarrow> wf_error + ExecutiveReport" where
  "GetExecutiveReportByID i r = (case executiveReports r i of Some x \<Rightarrow> Inr x | None \<Rightarrow> Inl NotFound)"

fun newest_of_period :: "string \<Rightarrow> ExecutiveReport list \<Rightarrow> ExecutiveReport option \<Rightarrow> ExecutiveReport option" where
  "newest_of_period period [] matched = matched"
| "newest_of_period period (x # xs) matched =
     newest_of_period period xs
       (if exPeriod x = period \<and> (case matched of None \<Rightarrow> True | Some m \<Rightarrow> exCreatedAt m < exCreatedAt x) then Some x else matched)"

definition GetExecutiveReportByPeriod :: "string list \<Rightarrow> string \<Rightarrow> wfRepository \<Rightarrow> wf_error + ExecutiveReport" where
  "GetExecutiveReportByPeriod ord period r =
     (case newest_of_period period (map_vals ord (executiveReports r)) None of Some x \<Rightarrow> Inr x | None \<Rightarrow> Inl NotFound)"

definition report_before :: "ExecutiveReport \<Rightarrow> ExecutiveReport \<Rightarrow> bool" where
  "report_before x y = (if exPeriod x \<noteq> exPeriod y then str_less (exPeriod y) (exPeriod x) else exCreatedAt y < exCreatedAt x)"

text \<open>A negative offset makes the slice expression of the listing panic.\<close>

definition ListExecutiveReports :: "string list \<Rightarrow> int \<Rightarrow> int \<Rightarrow> wfRepository \<Rightarrow> ExecutiveReport list option" where
  "ListExecutiveReports ord limit offset r =
     (let xs = sort_by report_before (map_vals ord (executiveReports r)); n = int (length xs);
          e = (if limit \<le> 0 \<or> n < i64 (offset + limit) then n else i64 (offset + limit))
      in if n \<le> offset then Some [] else if offset < 0 \<or> e < offset then None else Some (take (nat (e - offset)) (drop (nat offset) xs)))"

definition UpdateExecutiveReportStatus ::
    "time \<Rightarrow> string \<Rightarrow> string \<Rightarrow> string option \<Rightarrow> string option \<Rightarrow> wfRepository \<Rightarrow> (wf_error + ExecutiveReport) \<times> wfRepository" where
  "UpdateExecutiveReportStatus now i status pdf csv r = (case executiveReports r i of
     None \<Rightarrow> (Inl NotFound, r)
   | Some x \<Rightarrow>
       let x' = x\<lparr>exStatus := status, exWebDAVPathPDF := keep_if_unset pdf (exWebDAVPathPDF x), exWebDAVPathCSV := keep_if_unset csv (exWebDAVPathCSV x), exUpdatedAt := now\<rparr>
       in (Inr x', r\<lparr>executiveReports := (executiveReports r)(i \<mapsto> x')\<rparr>))"

section \<open>Seed data\<close>

definition seed_employees :: "time \<Rightarrow> Employee list" where
  \<open>seed_employees now = [
     \<lparr>emEmployeeID = ''emp-feline-garfield'', emEmployeeType = ''feline'', emFirstName = ''Garfield'', emLastName = None, emEmail = None,
       emRoleTitle = ''Chief Observation Officer'', emDepartment = ''Executive Feline Suite'', emStatus = ''active'', emHiredAt = now,
       emCreatedAt = now, emUpdatedAt = now\<rparr>,
     \<lparr>emEmployeeID = ''emp-feline-barneby'', emEmployeeType = ''feline'', emFirstName = ''Barneby'', emLastName = None, emEmail = None,
       emRoleTitle = ''Senior Alpha Perch Analyst'', emDepartment = ''Alpha Perch Research'', emStatus = ''active'', emHiredAt = now,
       emCreatedAt = now, emUpdatedAt = now\<rparr>,
     \<lparr>emEmployeeID = ''emp-human-alice'', emEmployeeType = ''human'', emFirstName = ''Alice'', emLastName = Some ''Vance'',
       emEmail = Some ''alice.vance@oci.local'', emRoleTitle = ''Head of Human & Feline Resources'', emDepartment = ''Workforce Operations'',
       emStatus = ''active'', emHiredAt = now, emCreatedAt = now, emUpdatedAt = now\<rparr>,
     \<lparr>emEmployeeID = ''emp-human-elena'', emEmployeeType = ''human'', emFirstName = ''Elena'', emLastName = Some ''Rostova'',
       emEmail = Some ''elena.rostova@oci.local'', emRoleTitle = ''Chief Veterinary Officer'', emDepartment = ''Feline Health & Welfare'',
       emStatus = ''active'', emHiredAt = now, emCreatedAt = now, emUpdatedAt = now\<rparr>,
     \<lparr>emEmployeeID = ''emp-human-rick'', emEmployeeType = ''human'', emFirstName = ''Rick'', emLastName = Some ''Newhire'',
       emEmail = Some ''rick.newhire@oci.local'', emRoleTitle = ''Junior Operations Associate'', emDepartment = ''Workforce Operations'',
       emStatus = ''onboarding'', emHiredAt = now, emCreatedAt = now, emUpdatedAt = now\<rparr>,
     \<lparr>emEmployeeID = ''emp-human-elise'', emEmployeeType = ''human'', emFirstName = ''Elise'', emLastName = Some ''Dev'',
       emEmail = Some ''elise.dev@oci.local'', emRoleTitle = ''Software Developer'', emDepartment = ''Engineering & Platform Development'',
       emStatus = ''active'', emHiredAt = now, emCreatedAt = now, emUpdatedAt = now\<rparr>,
     \<lparr>emEmployeeID = ''emp-human-frank'', emEmployeeType = ''human'', emFirstName = ''Frank'', emLastName = Some ''Operations'',
       emEmail = Some ''frank.ops@oci.local'', emRoleTitle = ''Platform Security & K8s Infrastructure Lead'',
       emDepartment = ''Platform Security & Infrastructure'', emStatus = ''active'', emHiredAt = now, emCreatedAt = now, emUpdatedAt = now\<rparr>,
     \<lparr>emEmployeeID = ''emp-human-bob'', emEmployeeType = ''human'', emFirstName = ''Bob'', emLastName = Some ''Builder'',
       emEmail = Some ''bob.builder@oci.local'', emRoleTitle = ''Lead Facilities & Edge Telemetry Engineer'',
       emDepartment = ''Habitat Facilities & Infrastructure'', emStatus = ''active'', emHiredAt = now, emCreatedAt = now, emUpdatedAt = now\<rparr>]\<close>

definition seed_careSchedules :: "time \<Rightarrow> CareSchedule list" where
  \<open>seed_careSchedules now = [
     \<lparr>csScheduleID = ''cs-garfield-01'', csFelineID = ''emp-feline-garfield'',
       csDietaryPlan = ''High-protein salmon pate & prescription kibble'', csFeedingTimes = [''08:00 AM'', ''12:00 PM'', ''06:00 PM''],
       csSpecialMedicalNeeds = None, csPreferredPerchZone = None, csEmergencyMedicalHold = False, csCaretakerID = None, csCreatedAt = now,
       csUpdatedAt = now\<rparr>,
     \<lparr>csScheduleID = ''cs-barneby-01'', csFelineID = ''emp-feline-barneby'', csDietaryPlan = ''Grain-free organic turkey pate'',
       csFeedingTimes = [''07:30 AM'', ''05:30 PM''], csSpecialMedicalNeeds = None, csPreferredPerchZone = None, csEmergencyMedicalHold = False,
       csCaretakerID = None, csCreatedAt = now, csUpdatedAt = now\<rparr>]\<close>

definition seed_checklists :: "time \<Rightarrow> OnboardingTask list" where
  \<open>seed_checklists now = [
     \<lparr>tkChecklistID = ''chk-rick-01'', tkEmployeeID = ''emp-human-rick'',
       tkTaskName = ''Forgejo Account Provisioning & SPIFFE ID Issuance'', tkCategory = ''access'', tkIsCompleted = False, tkCompletedAt = None,
       tkAssignedTo = Some ''emp-human-alice'', tkCreatedAt = now, tkUpdatedAt = now\<rparr>,
     \<lparr>tkChecklistID = ''chk-rick-02'', tkEmployeeID = ''emp-human-rick'', tkTaskName = ''Catnip Safety Orientation & Workstation Setup'',
       tkCategory = ''training'', tkIsCompleted = False, tkCompletedAt = None, tkAssignedTo = Some ''emp-human-alice'', tkCreatedAt = now,
       tkUpdatedAt = now\<rparr>]\<close>

definition seed_leaveRequests :: "time \<Rightarrow> LeaveRequest list" where
  \<open>seed_leaveRequests now = [
     \<lparr>lvLeaveID = ''018e0000-0000-7000-8000-000000000010'', lvEmployeeID = ''emp-feline-garfield'', lvLeaveType = ''catnip_break'',
       lvStartDate = ''2026-10-01'', lvEndDate = ''2026-10-03'', lvStatus = ''approved'',
       lvReason = Some ''Mandatory post-alpha observation rest & organic catnip relaxation'', lvCreatedAt = now - 24 * hour,
       lvUpdatedAt = now - 24 * hour\<rparr>,
     \<lparr>lvLeaveID = ''018e0000-0000-7000-8000-000000000011'', lvEmployeeID = ''emp-feline-barneby'', lvLeaveType = ''catnip_break'',
       lvStartDate = ''2026-10-05'', lvEndDate = ''2026-10-06'', lvStatus = ''pending'',
       lvReason = Some ''Alpha perch rotation decompression and premium catnip session'', lvCreatedAt = now - 2 * hour,
       lvUpdatedAt = now - 2 * hour\<rparr>,
     \<lparr>lvLeaveID = ''018e0000-0000-7000-8000-000000000012'', lvEmployeeID = ''emp-human-elena'', lvLeaveType = ''vacation'',
       lvStartDate = ''2026-10-15'', lvEndDate = ''2026-10-20'', lvStatus = ''approved'',
       lvReason = Some ''Annual veterinary feline habitat conference'', lvCreatedAt = now - 48 * hour, lvUpdatedAt = now - 48 * hour\<rparr>]\<close>

definition seed_reviewCycles :: "time \<Rightarrow> ReviewCycle list" where
  \<open>seed_reviewCycles now = [
     \<lparr>rvReviewID = ''018e0000-0000-7000-8000-000000000020'', rvEmployeeID = ''emp-feline-garfield'',
       rvReviewType = ''feline_health_assessment'', rvReviewPeriod = ''2026-Q3'', rvPhase = ''completed'',
       rvScheduledFor = fmt_date (now - 72 * hour), rvStatus = ''completed'', rvReviewerID = Some ''emp-human-elena'', rvScore = Some (lit 4.95),
       rvNotes = Some ''Superb whisker symmetry, resting purr acoustics 92dB, optimal alpha sunbeam positioning. Lasagna tolerance remains peak.'',
       rvSelfAppraisal = Some ''Maintained executive posture on alpha perch; nap duration exceeded target by 12%.'', rvSelfScore = Some (lit 5.00),
       rvPeerFeedback = None, rvPeerScore = None, rvPeerReviewerID = None,
       rvManagerAssessment = Some ''Executive feline leadership has stabilized market confidence across retail portfolios.'',
       rvManagerScore = Some (lit 4.95), rvKPIRatings = Some ''{"purr_acoustics": 4.95, "sunbeam_coverage": 5.0, "observation_fidelity": 4.9}'',
       rvWellnessAuditScore = Some (lit 4.95),
       rvHabitatRecommendations = Some ''Increase sunlight perch access in Habitat Alpha; maintain lasagna moderation protocol.'',
       rvClinicalAuditorID = Some ''emp-human-elena'', rvVHRRecordID = None, rvCompletedAt = Some (now - 72 * hour),
       rvCreatedAt = now - 7 * 24 * hour, rvUpdatedAt = now - 72 * hour\<rparr>,
     \<lparr>rvReviewID = ''018e0000-0000-7000-8000-000000000021'', rvEmployeeID = ''emp-feline-barneby'',
       rvReviewType = ''feline_health_assessment'', rvReviewPeriod = ''2026-Q3'', rvPhase = ''manager_review'',
       rvScheduledFor = fmt_date (now + 48 * hour), rvStatus = ''in_progress'', rvReviewerID = Some ''emp-human-elena'', rvScore = None,
       rvNotes = Some ''Quarterly weight check and alpha perch mobility audit'',
       rvSelfAppraisal = Some ''Climbed perch 42 times this week; verified perimeter integrity.'', rvSelfScore = Some (lit 4.80),
       rvPeerFeedback = Some ''Great team perch rotation coordination.'', rvPeerScore = Some (lit 4.75),
       rvPeerReviewerID = Some ''emp-feline-garfield'', rvManagerAssessment = None, rvManagerScore = None,
       rvKPIRatings = Some ''{"perch_agility": 4.85, "catnip_temperance": 4.75}'', rvWellnessAuditScore = None, rvHabitatRecommendations = None,
       rvClinicalAuditorID = Some ''emp-human-elena'', rvVHRRecordID = None, rvCompletedAt = None, rvCreatedAt = now - 24 * hour,
       rvUpdatedAt = now - 24 * hour\<rparr>,
     \<lparr>rvReviewID = ''018e0000-0000-7000-8000-000000000022'', rvEmployeeID = ''emp-human-alice'', rvReviewType = ''performance'',
       rvReviewPeriod = ''2026-Q3'', rvPhase = ''self_appraisal'', rvScheduledFor = fmt_date (now + 7 * 24 * hour), rvStatus = ''scheduled'',
       rvReviewerID = None, rvScore = None, rvNotes = Some ''Joint human-feline HR operations & catnip compliance review'',
       rvSelfAppraisal = Some ''Automated developer provisioning across Forgejo, Nextcloud, and Snipe-IT.'', rvSelfScore = Some (lit 4.85),
       rvPeerFeedback = None, rvPeerScore = None, rvPeerReviewerID = None, rvManagerAssessment = None, rvManagerScore = None,
       rvKPIRatings = Some ''{"onboarding_efficiency": 4.9, "compliance_adherence": 4.8}'', rvWellnessAuditScore = None,
       rvHabitatRecommendations = None, rvClinicalAuditorID = None, rvVHRRecordID = None, rvCompletedAt = None, rvCreatedAt = now - 48 * hour,
       rvUpdatedAt = now - 48 * hour\<rparr>]\<close>

definition seed_executiveReports :: "time \<Rightarrow> ExecutiveReport list" where
  \<open>seed_executiveReports now = [
     \<lparr>exReportID = ''rep-2026-08'', exPeriod = ''2026-08'', exTitle = ''OCI Executive Management Report - August 2026'',
       exStatus = ''archived'', exTotalRevenue = lit 1180000.00, exOperatingExpenses = lit 310000.00, exPayrollExpenses = lit 395000.00,
       exNetProfit = lit 475000.00, exOperationalBurn = lit 705000.00, exCashReserves = lit 9200000.00, exRunwayMonths = lit 13.05,
       exTotalHeadcount = 11, exHumanHeadcount = 9, exFelineHeadcount = 2, exAttendanceRate = lit 98.80, exOvertimeHours = lit 38.00,
       exTimesheetsApproved = 16,
       exWebDAVPathPDF = Some ''/remote.php/dav/files/admin/Executive/Reports/2026-08/executive_summary_report_2026-08.pdf'',
       exWebDAVPathCSV = Some ''/remote.php/dav/files/admin/Executive/Reports/2026-08/executive_summary_report_2026-08.csv'', exCSVContent = None,
       exPDFContent = [], exGeneratedBy = ''system-reporting-worker'', exCreatedAt = now - 60 * 24 * hour,
       exUpdatedAt = now - 60 * 24 * hour\<rparr>,
     \<lparr>exReportID = ''rep-2026-09'', exPeriod = ''2026-09'', exTitle = ''OCI Executive Management Report - September 2026'',
       exStatus = ''archived'', exTotalRevenue = lit 1240000.00, exOperatingExpenses = lit 335000.00, exPayrollExpenses = lit 410000.00,
       exNetProfit = lit 495000.00, exOperationalBurn = lit 745000.00, exCashReserves = lit 9650000.00, exRunwayMonths = lit 12.95,
       exTotalHeadcount = 12, exHumanHeadcount = 10, exFelineHeadcount = 2, exAttendanceRate = lit 99.10, exOvertimeHours = lit 41.50,
       exTimesheetsApproved = 18,
       exWebDAVPathPDF = Some ''/remote.php/dav/files/admin/Executive/Reports/2026-09/executive_summary_report_2026-09.pdf'',
       exWebDAVPathCSV = Some ''/remote.php/dav/files/admin/Executive/Reports/2026-09/executive_summary_report_2026-09.csv'', exCSVContent = None,
       exPDFContent = [], exGeneratedBy = ''system-reporting-worker'', exCreatedAt = now - 30 * 24 * hour,
       exUpdatedAt = now - 30 * 24 * hour\<rparr>]\<close>

definition keyed_by :: "('a \<Rightarrow> string) \<Rightarrow> 'a list \<Rightarrow> (string, 'a) gomap" where
  "keyed_by k xs = map_of (map (\<lambda>x. (k x, x)) xs)"

definition NewMockRepository :: "time \<Rightarrow> wfRepository" where
  "NewMockRepository now = \<lparr>employees = keyed_by emEmployeeID (seed_employees now), checklists = keyed_by tkChecklistID (seed_checklists now),
     careSchedules = keyed_by csFelineID (seed_careSchedules now), leaveRequests = keyed_by lvLeaveID (seed_leaveRequests now),
     reviewCycles = keyed_by rvReviewID (seed_reviewCycles now), vhrRecords = Map.empty, incidents = Map.empty,
     executiveReports = keyed_by exReportID (seed_executiveReports now)\<rparr>"

end
