(* ===== verification/WorkforceService.thy ===== *)
theory WorkforceService
  imports WorkforceRepo CustomerBLL
begin

text \<open>
  The workforce service over the in-memory repository: employees and care schedules, leave and incidents,
  performance reviews (\<open>employees_care.go\<close>, \<open>leave_incidents.go\<close>, \<open>reviews.go\<close> of \<open>internal/service/workforce\<close>), and the
  part of its gRPC server that the customer layer calls for the medical hold. Operations that only pass their
  arguments to the repository operation of the same name have no definition of their own.
\<close>

datatype wfs_error = Missing string | Invalid string | Repo wf_error

fun from_repo :: "(wf_error + 'a) \<times> wfRepository \<Rightarrow> (wfs_error + 'a) \<times> wfRepository" where
  "from_repo (Inl e, r) = (Inl (Repo e), r)"
| "from_repo (Inr x, r) = (Inr x, r)"

section \<open>Dates\<close>

text \<open>\<open>ParseDate\<close> is \<open>time.Parse("2006-01-02", s)\<close> as the number of the day.\<close>

definition days_in :: "int \<Rightarrow> int \<Rightarrow> int" where
  "days_in y m = (if m = 2 then (if y mod 4 = 0 \<and> (y mod 100 \<noteq> 0 \<or> y mod 400 = 0) then 29 else 28)
     else if m \<in> {4, 6, 9, 11} then 30 else 31)"

definition digits :: "string \<Rightarrow> int option" where
  "digits s = (if s \<noteq> [] \<and> list_all is_digit s then Some (int (undec 0 s)) else None)"

definition ParseDate :: "string \<Rightarrow> int option" where
  "ParseDate s = (if length s \<noteq> 10 \<or> s ! 4 \<noteq> CHR ''-'' \<or> s ! 7 \<noteq> CHR ''-'' then None
     else case (digits (take 4 s), digits (take 2 (drop 5 s)), digits (drop 8 s)) of
        (Some y, Some m, Some d) \<Rightarrow> if 1 \<le> m \<and> m \<le> 12 \<and> 1 \<le> d \<and> d \<le> days_in y m then Some (day_number y m d) else None
      | _ \<Rightarrow> None)"

section \<open>Employees and care\<close>

text \<open>\<open>clk\<close> gives the times of the successive clock readings of a call.\<close>

definition default_tasks :: "string \<Rightarrow> (string \<times> string) list" where
  "default_tasks employeeType = [(''Badge & Access Provisioning'', ''access''), (''Workplace Safety & Compliance'', ''training'')]
     @ (if employeeType = ''feline'' then [(''Preferred Perch Inspection'', ''hardware''), (''Dietary & Care Schedule Setup'', ''dietary'')] else [])"

definition new_task :: "string \<Rightarrow> string \<times> string \<Rightarrow> OnboardingTask" where
  "new_task employeeID t = \<lparr>tkChecklistID = [], tkEmployeeID = employeeID, tkTaskName = fst t, tkCategory = snd t, tkIsCompleted = False,
     tkCompletedAt = None, tkAssignedTo = None, tkCreatedAt = zeroTime, tkUpdatedAt = zeroTime\<rparr>"

fun create_tasks :: "(nat \<Rightarrow> time) \<Rightarrow> nat \<Rightarrow> string \<Rightarrow> (string \<times> string) list \<Rightarrow> wfRepository \<Rightarrow> wfRepository" where
  "create_tasks clk n employeeID [] r = r"
| "create_tasks clk n employeeID (t # ts) r = create_tasks clk (Suc n) employeeID ts (snd (CreateOnboardingTask (clk n) (new_task employeeID t) r))"

definition OnboardEmployee ::
    "(nat \<Rightarrow> time) \<Rightarrow> Employee \<Rightarrow> CareSchedule option \<Rightarrow> wfRepository \<Rightarrow> (wfs_error + Employee) \<times> wfRepository" where
  "OnboardEmployee clk e cs r =
     (if emFirstName e = [] then (Inl (Missing ''first_name''), r)
      else if emEmployeeType e \<noteq> ''human'' \<and> emEmployeeType e \<noteq> ''feline'' then (Inl (Invalid ''employee_type''), r)
      else let (created, r1) = CreateEmployee (clk 0) e r;
               r2 = create_tasks clk 1 (emEmployeeID created) (default_tasks (emEmployeeType e)) r1;
               r3 = (case cs of
                   Some c \<Rightarrow> if emEmployeeType e = ''feline'' then snd (UpsertCareSchedule (clk 5) (c\<lparr>csFelineID := emEmployeeID created\<rparr>) r2) else r2
                 | None \<Rightarrow> r2)
           in (Inr created, r3))"

definition GetEmployee :: "string \<Rightarrow> wfRepository \<Rightarrow> wfs_error + Employee" where
  "GetEmployee i r = (if i = [] then Inl (Missing ''employee_id'') else map_sum Repo id (GetEmployeeByID i r))"

definition svc_UpdateEmployeeStatus :: "time \<Rightarrow> string \<Rightarrow> string \<Rightarrow> wfRepository \<Rightarrow> (wfs_error + Employee) \<times> wfRepository" where
  "svc_UpdateEmployeeStatus now i status r = (if i = [] \<or> status = [] then (Inl (Missing ''employee_id''), r)
     else from_repo (UpdateEmployeeStatus now i status r))"

definition GetCareSchedule :: "string \<Rightarrow> wfRepository \<Rightarrow> wfs_error + CareSchedule" where
  "GetCareSchedule f r = (if f = [] then Inl (Missing ''feline_id'') else map_sum Repo id (GetCareScheduleByFelineID f r))"

definition UpdateCareSchedule :: "time \<Rightarrow> CareSchedule \<Rightarrow> wfRepository \<Rightarrow> (wfs_error + CareSchedule) \<times> wfRepository" where
  "UpdateCareSchedule now c r = (if csFelineID c = [] then (Inl (Missing ''feline_id''), r)
     else (case UpsertCareSchedule now c r of (c', r') \<Rightarrow> (Inr c', r')))"

definition svc_SetEmergencyMedicalHold :: "time \<Rightarrow> string \<Rightarrow> bool \<Rightarrow> wfRepository \<Rightarrow> (wfs_error + CareSchedule) \<times> wfRepository" where
  "svc_SetEmergencyMedicalHold now f hold r = (if f = [] then (Inl (Missing ''feline_id''), r)
     else (case SetEmergencyMedicalHold now f hold r of (c', r') \<Rightarrow> (Inr c', r')))"

definition svc_UpdateOnboardingTask :: "time \<Rightarrow> string \<Rightarrow> bool \<Rightarrow> wfRepository \<Rightarrow> (wfs_error + OnboardingTask) \<times> wfRepository" where
  "svc_UpdateOnboardingTask now i b r = (if i = [] then (Inl (Missing ''task_id''), r) else from_repo (UpdateOnboardingTask now i b r))"

definition svc_CreateVHRRecord :: "time \<Rightarrow> VHRRecord \<Rightarrow> wfRepository \<Rightarrow> (wfs_error + VHRRecord) \<times> wfRepository" where
  "svc_CreateVHRRecord now v r =
     (if vhFelineID v = [] then (Inl (Missing ''feline_id''), r)
      else if vhDentalScore v < 1 \<or> 5 < vhDentalScore v then (Inl (Invalid ''dental_score''), r)
      else (case CreateVHRRecord now (v\<lparr>vhVisitDate := (if vhVisitDate v = [] then fmt_date now else vhVisitDate v)\<rparr>) r of (v', r') \<Rightarrow> (Inr v', r')))"

section \<open>Leave and incidents\<close>

record CreateLeaveRequestParams =
  lpEmployeeID :: string
  lpLeaveType :: string
  lpStartDate :: string
  lpEndDate :: string
  lpReason :: "string option"

definition leave_request :: "CreateLeaveRequestParams \<Rightarrow> LeaveRequest" where
  "leave_request p = \<lparr>lvLeaveID = [], lvEmployeeID = lpEmployeeID p, lvLeaveType = lpLeaveType p, lvStartDate = lpStartDate p, lvEndDate = lpEndDate p,
     lvStatus = ''pending'', lvReason = lpReason p, lvCreatedAt = zeroTime, lvUpdatedAt = zeroTime\<rparr>"

definition svc_CreateLeaveRequest ::
    "time \<Rightarrow> CreateLeaveRequestParams \<Rightarrow> wfRepository \<Rightarrow> (wfs_error + LeaveRequest) \<times> wfRepository" where
  "svc_CreateLeaveRequest now p r =
     (if lpEmployeeID p = [] then (Inl (Missing ''employee_id''), r)
      else if lpLeaveType p \<notin> {''vacation'', ''sick'', ''catnip_break'', ''sabbatical''} then (Inl (Invalid ''leave_type''), r)
      else if lpStartDate p = [] \<or> lpEndDate p = [] then (Inl (Missing ''dates''), r)
      else (case ParseDate (lpStartDate p) of
          None \<Rightarrow> (Inl (Invalid ''start_date''), r)
        | Some s \<Rightarrow> (case ParseDate (lpEndDate p) of
            None \<Rightarrow> (Inl (Invalid ''end_date''), r)
          | Some e \<Rightarrow> if e < s then (Inl (Invalid ''date_order''), r)
              else (case CreateLeaveRequest now (leave_request p) r of (q, r') \<Rightarrow> (Inr q, r')))))"

definition leave_statuses :: "string set" where
  "leave_statuses = {''pending'', ''approved'', ''rejected'', ''cancelled''}"

definition svc_ListLeaveRequests :: "string list \<Rightarrow> string \<Rightarrow> string \<Rightarrow> wfRepository \<Rightarrow> wfs_error + LeaveRequest list" where
  "svc_ListLeaveRequests ord employeeID status r = (if status \<noteq> [] \<and> status \<notin> leave_statuses then Inl (Invalid ''status'')
     else Inr (ListLeaveRequests ord employeeID status r))"

definition svc_UpdateLeaveRequestStatus :: "time \<Rightarrow> string \<Rightarrow> string \<Rightarrow> wfRepository \<Rightarrow> (wfs_error + LeaveRequest) \<times> wfRepository" where
  "svc_UpdateLeaveRequestStatus now i status r = (if i = [] then (Inl (Missing ''leave_id''), r)
     else if status \<notin> leave_statuses then (Inl (Invalid ''status''), r) else from_repo (UpdateLeaveRequestStatus now i status r))"

definition svc_CreateWorkplaceIncident :: "time \<Rightarrow> WorkplaceIncident \<Rightarrow> wfRepository \<Rightarrow> (wfs_error + WorkplaceIncident) \<times> wfRepository" where
  "svc_CreateWorkplaceIncident now i r = (if inTitle i = [] \<or> inDescription i = [] then (Inl (Missing ''title''), r)
     else (case CreateWorkplaceIncident now (i\<lparr>inCategory := (if inCategory i = [] then ''habitat_disruption'' else inCategory i)\<rparr>) r of (x, r') \<Rightarrow> (Inr x, r')))"

definition svc_UpdateWorkplaceIncidentStatus ::
    "time \<Rightarrow> string \<Rightarrow> string \<Rightarrow> string \<Rightarrow> wfRepository \<Rightarrow> (wfs_error + WorkplaceIncident) \<times> wfRepository" where
  "svc_UpdateWorkplaceIncidentStatus now i status notes r = (if i = [] \<or> status = [] then (Inl (Missing ''incident_id''), r)
     else if status \<notin> {''open'', ''under_review'', ''resolved''} then (Inl (Invalid ''status''), r)
     else from_repo (UpdateWorkplaceIncidentStatus now i status notes r))"

section \<open>Reviews\<close>

definition bad_score :: "float64 \<Rightarrow> bool" where
  "bad_score x \<longleftrightarrow> flt x (Fin 0) \<or> flt (Fin 5) x"

definition bad_score_option :: "float64 option \<Rightarrow> bool" where
  "bad_score_option x = (case x of None \<Rightarrow> False | Some v \<Rightarrow> bad_score v)"

definition phases :: "string set" where
  "phases = {''self_appraisal'', ''peer_feedback'', ''manager_review'', ''completed''}"

definition review_statuses :: "string set" where
  "review_statuses = {''scheduled'', ''in_progress'', ''completed'', ''overdue''}"

definition review_types :: "string set" where
  "review_types = {''performance'', ''feline_health_assessment''}"

text \<open>The parameters of a creation are the fields of the cycle they become; what the caller cannot set is ignored.\<close>

definition new_review :: "ReviewCycle \<Rightarrow> ReviewCycle" where
  "new_review p = p\<lparr>rvReviewID := [], rvReviewPeriod := (if rvReviewPeriod p = [] then ''2026-Q3'' else rvReviewPeriod p),
     rvPhase := (if rvPhase p = [] then ''self_appraisal'' else rvPhase p), rvStatus := ''scheduled'', rvScore := None, rvCompletedAt := None\<rparr>"

definition svc_CreateReviewCycle :: "time \<Rightarrow> ReviewCycle \<Rightarrow> wfRepository \<Rightarrow> (wfs_error + ReviewCycle) \<times> wfRepository" where
  "svc_CreateReviewCycle now p r =
     (if rvEmployeeID p = [] then (Inl (Missing ''employee_id''), r)
      else if rvReviewType p \<notin> review_types then (Inl (Invalid ''review_type''), r)
      else if rvScheduledFor p = [] then (Inl (Missing ''scheduled_for''), r)
      else if ParseDate (rvScheduledFor p) = None then (Inl (Invalid ''scheduled_for''), r)
      else if rvPhase p \<noteq> [] \<and> rvPhase p \<notin> phases then (Inl (Invalid ''phase''), r)
      else if bad_score_option (rvSelfScore p) then (Inl (Invalid ''self_score''), r)
      else if bad_score_option (rvPeerScore p) then (Inl (Invalid ''peer_score''), r)
      else if bad_score_option (rvManagerScore p) then (Inl (Invalid ''manager_score''), r)
      else if bad_score_option (rvWellnessAuditScore p) then (Inl (Invalid ''wellness_audit_score''), r)
      else (case CreateReviewCycle now (new_review p) r of (c, r') \<Rightarrow> (Inr c, r')))"

definition svc_ListReviewCycles :: "string list \<Rightarrow> string \<Rightarrow> string \<Rightarrow> string \<Rightarrow> wfRepository \<Rightarrow> wfs_error + ReviewCycle list" where
  "svc_ListReviewCycles ord employeeID status reviewType r =
     (if status \<noteq> [] \<and> status \<notin> review_statuses then Inl (Invalid ''status'')
      else if reviewType \<noteq> [] \<and> reviewType \<notin> review_types then Inl (Invalid ''review_type'')
      else Inr (ListReviewCycles ord employeeID status reviewType r))"

record UpdateReviewCycleParams =
  upID :: string
  upReviewPeriod :: "string option"
  upPhase :: "string option"
  upStatus :: "string option"
  upReviewerID :: "string option"
  upScore :: "float64 option"
  upNotes :: "string option"
  upSelfAppraisal :: "string option"
  upSelfScore :: "float64 option"
  upPeerFeedback :: "string option"
  upPeerScore :: "float64 option"
  upPeerReviewerID :: "string option"
  upManagerAssessment :: "string option"
  upManagerScore :: "float64 option"
  upKPIRatings :: "string option"
  upWellnessAuditScore :: "float64 option"
  upHabitatRecommendations :: "string option"
  upClinicalAuditorID :: "string option"
  upVHRRecordID :: "string option"
  upCompletedAt :: "time option"

definition no_params :: "string \<Rightarrow> UpdateReviewCycleParams" where
  "no_params i = \<lparr>upID = i, upReviewPeriod = None, upPhase = None, upStatus = None, upReviewerID = None, upScore = None, upNotes = None, upSelfAppraisal = None,
     upSelfScore = None, upPeerFeedback = None, upPeerScore = None, upPeerReviewerID = None, upManagerAssessment = None, upManagerScore = None,
     upKPIRatings = None, upWellnessAuditScore = None, upHabitatRecommendations = None, upClinicalAuditorID = None, upVHRRecordID = None, upCompletedAt = None\<rparr>"

text \<open>
  The update works through its parameters in order and assigns each to the cycle it was given by the
  repository, which in memory is the stored object. A step checks the value it is about to assign; the first
  step that fails ends the call, and what the earlier ones assigned stays.
\<close>

type_synonym review_step = "ReviewCycle \<Rightarrow> wfs_error + ReviewCycle"

fun run_steps :: "review_step list \<Rightarrow> ReviewCycle \<Rightarrow> wfs_error option \<times> ReviewCycle" where
  "run_steps [] c = (None, c)"
| "run_steps (f # fs) c = (case f c of Inl e \<Rightarrow> (Some e, c) | Inr c' \<Rightarrow> run_steps fs c')"

definition set_step :: "'a option \<Rightarrow> ('a \<Rightarrow> ReviewCycle \<Rightarrow> ReviewCycle) \<Rightarrow> review_step" where
  "set_step v f c = Inr (case v of None \<Rightarrow> c | Some x \<Rightarrow> f x c)"

definition check_step :: "string \<Rightarrow> ('a \<Rightarrow> bool) \<Rightarrow> 'a option \<Rightarrow> ('a \<Rightarrow> ReviewCycle \<Rightarrow> ReviewCycle) \<Rightarrow> review_step" where
  "check_step field ok v f c = (case v of None \<Rightarrow> Inr c | Some x \<Rightarrow> if ok x then Inr (f x c) else Inl (Invalid field))"

definition completion_step :: "time \<Rightarrow> time option \<Rightarrow> review_step" where
  "completion_step now tm c = Inr (if rvStatus c = ''completed'' \<or> rvPhase c = ''completed''
     then (case tm of Some t \<Rightarrow> c\<lparr>rvCompletedAt := Some t\<rparr> | None \<Rightarrow> if rvCompletedAt c = None then c\<lparr>rvCompletedAt := Some now\<rparr> else c)
     else (case tm of Some t \<Rightarrow> c\<lparr>rvCompletedAt := Some t\<rparr> | None \<Rightarrow> c))"

definition update_steps :: "time \<Rightarrow> UpdateReviewCycleParams \<Rightarrow> review_step list" where
  "update_steps now p = [
     check_step ''status'' (\<lambda>x. x \<in> review_statuses) (upStatus p) (\<lambda>x c. c\<lparr>rvStatus := x\<rparr>),
     check_step ''phase'' (\<lambda>x. x \<in> phases) (upPhase p) (\<lambda>x c. c\<lparr>rvPhase := x\<rparr>),
     set_step (upReviewPeriod p) (\<lambda>x c. c\<lparr>rvReviewPeriod := x\<rparr>),
     set_step (upReviewerID p) (\<lambda>x c. c\<lparr>rvReviewerID := Some x\<rparr>),
     check_step ''score'' (\<lambda>x. \<not> bad_score x) (upScore p) (\<lambda>x c. c\<lparr>rvScore := Some x\<rparr>),
     set_step (upNotes p) (\<lambda>x c. c\<lparr>rvNotes := Some x\<rparr>),
     set_step (upSelfAppraisal p) (\<lambda>x c. c\<lparr>rvSelfAppraisal := Some x\<rparr>),
     check_step ''self_score'' (\<lambda>x. \<not> bad_score x) (upSelfScore p) (\<lambda>x c. c\<lparr>rvSelfScore := Some x\<rparr>),
     set_step (upPeerFeedback p) (\<lambda>x c. c\<lparr>rvPeerFeedback := Some x\<rparr>),
     check_step ''peer_score'' (\<lambda>x. \<not> bad_score x) (upPeerScore p) (\<lambda>x c. c\<lparr>rvPeerScore := Some x\<rparr>),
     set_step (upPeerReviewerID p) (\<lambda>x c. c\<lparr>rvPeerReviewerID := Some x\<rparr>),
     set_step (upManagerAssessment p) (\<lambda>x c. c\<lparr>rvManagerAssessment := Some x\<rparr>),
     check_step ''manager_score'' (\<lambda>x. \<not> bad_score x) (upManagerScore p)
       (\<lambda>x c. c\<lparr>rvManagerScore := Some x, rvScore := (if rvScore c = None then Some x else rvScore c)\<rparr>),
     set_step (upKPIRatings p) (\<lambda>x c. c\<lparr>rvKPIRatings := Some x\<rparr>),
     check_step ''wellness_audit_score'' (\<lambda>x. \<not> bad_score x) (upWellnessAuditScore p)
       (\<lambda>x c. c\<lparr>rvWellnessAuditScore := Some x,
          rvScore := (if rvScore c = None \<and> rvReviewType c = ''feline_health_assessment'' then Some x else rvScore c)\<rparr>),
     set_step (upHabitatRecommendations p) (\<lambda>x c. c\<lparr>rvHabitatRecommendations := Some x\<rparr>),
     set_step (upClinicalAuditorID p) (\<lambda>x c. c\<lparr>rvClinicalAuditorID := Some x\<rparr>),
     set_step (upVHRRecordID p) (\<lambda>x c. c\<lparr>rvVHRRecordID := Some x\<rparr>),
     completion_step now (upCompletedAt p)]"

definition svc_UpdateReviewCycle :: "time \<Rightarrow> UpdateReviewCycleParams \<Rightarrow> wfRepository \<Rightarrow> (wfs_error + ReviewCycle) \<times> wfRepository" where
  "svc_UpdateReviewCycle now p r =
     (if upID p = [] then (Inl (Missing ''review_id''), r)
      else (case reviewCycles r (upID p) of
          None \<Rightarrow> (Inl (Repo NotFound), r)
        | Some c \<Rightarrow> (case run_steps (update_steps now p) c of
            (e, c') \<Rightarrow> let r' = r\<lparr>reviewCycles := (reviewCycles r)(upID p \<mapsto> c')\<rparr>
              in (case e of Some err \<Rightarrow> (Inl err, r') | None \<Rightarrow> from_repo (UpdateReviewCycle now c' r')))))"

definition SubmitSelfAppraisal :: "time \<Rightarrow> string \<Rightarrow> string \<Rightarrow> float64 \<Rightarrow> wfRepository \<Rightarrow> (wfs_error + ReviewCycle) \<times> wfRepository" where
  "SubmitSelfAppraisal now i appraisal score r =
     (if i = [] then (Inl (Missing ''review_id''), r) else if appraisal = [] then (Inl (Missing ''self_appraisal''), r)
      else if bad_score score then (Inl (Invalid ''self_score''), r)
      else svc_UpdateReviewCycle now ((no_params i)\<lparr>upSelfAppraisal := Some appraisal, upSelfScore := Some score,
             upPhase := Some ''peer_feedback'', upStatus := Some ''in_progress''\<rparr>) r)"

definition SubmitPeerFeedback :: "time \<Rightarrow> string \<Rightarrow> string \<Rightarrow> string \<Rightarrow> float64 \<Rightarrow> wfRepository \<Rightarrow> (wfs_error + ReviewCycle) \<times> wfRepository" where
  "SubmitPeerFeedback now i peer feedback score r =
     (if i = [] then (Inl (Missing ''review_id''), r) else if peer = [] then (Inl (Missing ''peer_reviewer_id''), r)
      else if feedback = [] then (Inl (Missing ''peer_feedback''), r) else if bad_score score then (Inl (Invalid ''peer_score''), r)
      else svc_UpdateReviewCycle now ((no_params i)\<lparr>upPeerReviewerID := Some peer, upPeerFeedback := Some feedback, upPeerScore := Some score,
             upPhase := Some ''manager_review'', upStatus := Some ''in_progress''\<rparr>) r)"

definition SubmitManagerAssessment ::
    "time \<Rightarrow> string \<Rightarrow> string \<Rightarrow> string \<Rightarrow> float64 \<Rightarrow> string \<Rightarrow> wfRepository \<Rightarrow> (wfs_error + ReviewCycle) \<times> wfRepository" where
  "SubmitManagerAssessment now i manager assessment score kpi r =
     (if i = [] then (Inl (Missing ''review_id''), r) else if manager = [] then (Inl (Missing ''manager_id''), r)
      else if assessment = [] then (Inl (Missing ''manager_assessment''), r) else if bad_score score then (Inl (Invalid ''manager_score''), r)
      else svc_UpdateReviewCycle now ((no_params i)\<lparr>upReviewerID := Some manager, upManagerAssessment := Some assessment, upManagerScore := Some score,
             upScore := Some score, upKPIRatings := (if kpi \<noteq> [] then Some kpi else None), upPhase := Some ''completed'', upStatus := Some ''completed'',
             upCompletedAt := Some now\<rparr>) r)"

definition SubmitVeterinaryAudit ::
    "time \<Rightarrow> string \<Rightarrow> string \<Rightarrow> float64 \<Rightarrow> string \<Rightarrow> string option \<Rightarrow> wfRepository \<Rightarrow> (wfs_error + ReviewCycle) \<times> wfRepository" where
  "SubmitVeterinaryAudit now i auditor score recommendations vhr r =
     (if i = [] then (Inl (Missing ''review_id''), r) else if auditor = [] then (Inl (Missing ''clinical_auditor_id''), r)
      else if bad_score score then (Inl (Invalid ''wellness_audit_score''), r)
      else svc_UpdateReviewCycle now ((no_params i)\<lparr>upClinicalAuditorID := Some auditor, upWellnessAuditScore := Some score,
             upHabitatRecommendations := Some recommendations, upVHRRecordID := vhr\<rparr>) r)"

section \<open>The gRPC surface for the medical hold\<close>

definition workforce_client :: "bool \<Rightarrow> string list \<Rightarrow> wfRepository WorkforceClient" where
  "workforce_client enableFeline ord = \<lparr>
     wfGetCareSchedule = (\<lambda>f r. if \<not> enableFeline then None
       else (case GetCareSchedule f r of Inl _ \<Rightarrow> None | Inr c \<Rightarrow> Some (Some (csEmergencyMedicalHold c)))),
     wfActiveFelines = (\<lambda>r. Some (map emEmployeeID (ListEmployees ord ''feline'' ''active'' r)))\<rparr>"

text \<open>The operations that change the repository, as a caller can send them in any order.\<close>

datatype wf_op =
    Onboard "nat \<Rightarrow> time" Employee "CareSchedule option" | SetStatus time string string | SetTask time string bool
  | UpdateCare time CareSchedule | SetHold time string bool | AddVHR time VHRRecord
  | AddLeave time CreateLeaveRequestParams | SetLeave time string string
  | AddIncident time WorkplaceIncident | SetIncident time string string string
  | AddReview time ReviewCycle | UpdateReview time UpdateReviewCycleParams
  | SelfAppraisal time string string float64 | PeerFeedback time string string string float64
  | ManagerAssessment time string string string float64 string | VeterinaryAudit time string string float64 string "string option"

fun run_op :: "wf_op \<Rightarrow> wfRepository \<Rightarrow> wfRepository" where
  "run_op (Onboard clk e cs) r = snd (OnboardEmployee clk e cs r)"
| "run_op (SetStatus now i st) r = snd (svc_UpdateEmployeeStatus now i st r)"
| "run_op (SetTask now i b) r = snd (svc_UpdateOnboardingTask now i b r)"
| "run_op (UpdateCare now c) r = snd (UpdateCareSchedule now c r)"
| "run_op (SetHold now f h) r = snd (svc_SetEmergencyMedicalHold now f h r)"
| "run_op (AddVHR now v) r = snd (svc_CreateVHRRecord now v r)"
| "run_op (AddLeave now p) r = snd (svc_CreateLeaveRequest now p r)"
| "run_op (SetLeave now i st) r = snd (svc_UpdateLeaveRequestStatus now i st r)"
| "run_op (AddIncident now x) r = snd (svc_CreateWorkplaceIncident now x r)"
| "run_op (SetIncident now i st n) r = snd (svc_UpdateWorkplaceIncidentStatus now i st n r)"
| "run_op (AddReview now p) r = snd (svc_CreateReviewCycle now p r)"
| "run_op (UpdateReview now p) r = snd (svc_UpdateReviewCycle now p r)"
| "run_op (SelfAppraisal now i a s) r = snd (SubmitSelfAppraisal now i a s r)"
| "run_op (PeerFeedback now i p f s) r = snd (SubmitPeerFeedback now i p f s r)"
| "run_op (ManagerAssessment now i m a s k) r = snd (SubmitManagerAssessment now i m a s k r)"
| "run_op (VeterinaryAudit now i a s rec v) r = snd (SubmitVeterinaryAudit now i a s rec v r)"

section \<open>Reviews are well typed\<close>

text \<open>The type of a stored review: its kind, phase and status are among the values the service knows, every score is
  in range (or not a number, which passes the checks), and it is filed under its identifier.\<close>

definition review_ok :: "ReviewCycle \<Rightarrow> bool" where
  "review_ok c \<longleftrightarrow> rvReviewType c \<in> review_types \<and> rvPhase c \<in> phases \<and> rvStatus c \<in> review_statuses
     \<and> \<not> bad_score_option (rvScore c) \<and> \<not> bad_score_option (rvSelfScore c) \<and> \<not> bad_score_option (rvPeerScore c)
     \<and> \<not> bad_score_option (rvManagerScore c) \<and> \<not> bad_score_option (rvWellnessAuditScore c)"

definition reviews_ok :: "wfRepository \<Rightarrow> bool" where
  "reviews_ok r \<longleftrightarrow> (\<forall>i c. reviewCycles r i = Some c \<longrightarrow> review_ok c \<and> rvReviewID c = i)"

definition step_ok :: "review_step \<Rightarrow> bool" where
  "step_ok f \<longleftrightarrow> (\<forall>c c'. f c = Inr c' \<longrightarrow> rvReviewID c' = rvReviewID c \<and> (review_ok c \<longrightarrow> review_ok c'))"

lemma step_ok_set:
  assumes "\<And>x c. rvReviewID (f x c) = rvReviewID c" and "\<And>x c. review_ok c \<Longrightarrow> review_ok (f x c)"
  shows "step_ok (set_step v f)"
  using assms by (auto simp: step_ok_def set_step_def split: option.splits)

lemma step_ok_check:
  assumes "\<And>x c. rvReviewID (f x c) = rvReviewID c" and "\<And>x c. ok x \<Longrightarrow> review_ok c \<Longrightarrow> review_ok (f x c)"
  shows "step_ok (check_step field ok v f)"
  using assms by (auto simp: step_ok_def check_step_def split: option.splits if_splits)

lemma step_ok_completion: "step_ok (completion_step now tm)"
  by (auto simp: step_ok_def completion_step_def review_ok_def split: option.splits)

lemma run_steps_ok:
  assumes "list_all step_ok fs" and "run_steps fs c = (e, c')"
  shows "rvReviewID c' = rvReviewID c" and "review_ok c \<Longrightarrow> review_ok c'"
proof -
  have "rvReviewID c' = rvReviewID c \<and> (review_ok c \<longrightarrow> review_ok c')"
    using assms
  proof (induction fs arbitrary: c)
    case (Cons f fs)
    then show ?case
      by (cases "f c") (auto simp: step_ok_def)
  qed simp
  then show "rvReviewID c' = rvReviewID c" and "review_ok c \<Longrightarrow> review_ok c'" by auto
qed

lemma update_steps_ok: "list_all step_ok (update_steps now p)"
  by (auto simp: update_steps_def review_ok_def bad_score_option_def intro!: step_ok_set step_ok_check step_ok_completion split: if_splits)

lemma merge_review_self: "merge_review now c c = c\<lparr>rvUpdatedAt := now\<rparr>"
proof -
  have k: "keep_if_unset x x = x" for x :: "'a option" by (cases x) auto
  show ?thesis by (simp add: merge_review_def k)
qed

lemma svc_UpdateReviewCycle_cases [consumes 1, case_names untouched failed updated]:
  assumes "svc_UpdateReviewCycle now p r = (res, r')"
  obtains "r' = r" "\<exists>e. res = Inl e"
  | c c' err where "reviewCycles r (upID p) = Some c" "run_steps (update_steps now p) c = (Some err, c')" "res = Inl err"
      "r' = r\<lparr>reviewCycles := (reviewCycles r)(upID p \<mapsto> c')\<rparr>"
  | c c' where "reviewCycles r (upID p) = Some c" "run_steps (update_steps now p) c = (None, c')"
      "rvReviewID c' = upID p \<Longrightarrow> res = Inr (c'\<lparr>rvUpdatedAt := now\<rparr>)"
      "rvReviewID c' = upID p \<Longrightarrow> r' = r\<lparr>reviewCycles := (reviewCycles r)(upID p \<mapsto> c'\<lparr>rvUpdatedAt := now\<rparr>)\<rparr>"
proof (cases "upID p = [] \<or> reviewCycles r (upID p) = None")
  case True
  with assms show thesis by (intro that(1)) (auto simp: svc_UpdateReviewCycle_def split: if_splits)
next
  case False
  then obtain c where c0: "upID p \<noteq> []" "reviewCycles r (upID p) = Some c" by auto
  obtain e c' where c1: "run_steps (update_steps now p) c = (e, c')" by (metis prod.collapse)
  note c = c0 c1
  show thesis
  proof (cases e)
    case None
    with c assms show thesis
      by (intro that(3)) (auto simp: svc_UpdateReviewCycle_def UpdateReviewCycle_def merge_review_self Let_def)
  next
    case (Some err)
    with c assms show thesis by (intro that(2)) (auto simp: svc_UpdateReviewCycle_def Let_def)
  qed
qed

lemma reviews_ok_update:
  assumes "reviews_ok r"
  shows "reviews_ok (snd (svc_UpdateReviewCycle now p r))"
proof -
  obtain res r' where u: "svc_UpdateReviewCycle now p r = (res, r')" by fastforce
  then show ?thesis
  proof (cases rule: svc_UpdateReviewCycle_cases)
    case untouched
    with u assms show ?thesis by simp
  next
    case (failed c c' err)
    with run_steps_ok [OF update_steps_ok failed(2)] u assms show ?thesis by (auto simp: reviews_ok_def)
  next
    case (updated c c')
    have ok: "rvReviewID c' = upID p" "review_ok c'"
      using run_steps_ok [OF update_steps_ok updated(2)] updated(1) assms by (auto simp: reviews_ok_def)
    then have "review_ok (c'\<lparr>rvUpdatedAt := now\<rparr>)" by (simp add: review_ok_def)
    with updated ok u assms show ?thesis by (auto simp: reviews_ok_def)
  qed
qed

lemma reviews_ok_create:
  assumes "reviews_ok r"
  shows "reviews_ok (snd (svc_CreateReviewCycle now p r))"
  using assms
  by (auto simp: reviews_ok_def svc_CreateReviewCycle_def CreateReviewCycle_def new_review_def review_ok_def bad_score_option_def phases_def review_statuses_def
      Let_def split: option.splits)

lemma create_tasks_frame [simp]:
  "reviewCycles (create_tasks clk n i ts r) = reviewCycles r" "careSchedules (create_tasks clk n i ts r) = careSchedules r"
  "employees (create_tasks clk n i ts r) = employees r"
  by (induction ts arbitrary: n r) (simp_all add: CreateOnboardingTask_def Let_def)

lemmas service_defs = OnboardEmployee_def CreateEmployee_def svc_UpdateEmployeeStatus_def UpdateEmployeeStatus_def svc_UpdateOnboardingTask_def
  UpdateOnboardingTask_def UpdateCareSchedule_def UpsertCareSchedule_def svc_SetEmergencyMedicalHold_def SetEmergencyMedicalHold_def
  svc_CreateVHRRecord_def CreateVHRRecord_def svc_CreateLeaveRequest_def CreateLeaveRequest_def svc_UpdateLeaveRequestStatus_def
  UpdateLeaveRequestStatus_def svc_CreateWorkplaceIncident_def CreateWorkplaceIncident_def svc_UpdateWorkplaceIncidentStatus_def
  UpdateWorkplaceIncidentStatus_def

lemmas submit_defs = SubmitSelfAppraisal_def SubmitPeerFeedback_def SubmitManagerAssessment_def SubmitVeterinaryAudit_def

lemma reviews_ok_cong: "reviewCycles r' = reviewCycles r \<Longrightarrow> reviews_ok r' = reviews_ok r"
  by (simp add: reviews_ok_def)

lemma reviews_untouched:
  "reviewCycles (snd (OnboardEmployee clk e cs r)) = reviewCycles r" "reviewCycles (snd (svc_UpdateEmployeeStatus now i st r)) = reviewCycles r"
  "reviewCycles (snd (svc_UpdateOnboardingTask now i b r)) = reviewCycles r" "reviewCycles (snd (UpdateCareSchedule now c r)) = reviewCycles r"
  "reviewCycles (snd (svc_SetEmergencyMedicalHold now i b r)) = reviewCycles r" "reviewCycles (snd (svc_CreateVHRRecord now v r)) = reviewCycles r"
  "reviewCycles (snd (svc_CreateLeaveRequest now p r)) = reviewCycles r" "reviewCycles (snd (svc_UpdateLeaveRequestStatus now i st r)) = reviewCycles r"
  "reviewCycles (snd (svc_CreateWorkplaceIncident now x r)) = reviewCycles r" "reviewCycles (snd (svc_UpdateWorkplaceIncidentStatus now i st n r)) = reviewCycles r"
  by (simp_all add: service_defs Let_def split: option.splits prod.splits)

lemma reviews_ok_op: "reviews_ok r \<Longrightarrow> reviews_ok (run_op x r)"
proof (cases x)
  case (SelfAppraisal now i a s)
  assume "reviews_ok r" with SelfAppraisal show ?thesis by (simp add: SubmitSelfAppraisal_def reviews_ok_update)
next
  case (PeerFeedback now i p f s)
  assume "reviews_ok r" with PeerFeedback show ?thesis by (simp add: SubmitPeerFeedback_def reviews_ok_update)
next
  case (ManagerAssessment now i m a s k)
  assume "reviews_ok r" with ManagerAssessment show ?thesis by (simp add: SubmitManagerAssessment_def reviews_ok_update)
next
  case (VeterinaryAudit now i a s rc v)
  assume "reviews_ok r" with VeterinaryAudit show ?thesis by (simp add: SubmitVeterinaryAudit_def reviews_ok_update)
qed (simp_all add: reviews_untouched reviews_ok_create reviews_ok_update cong: reviews_ok_cong)

lemma literal_score:
  assumes "0 \<le> x" and "x \<le> 5"
  shows "\<not> bad_score (lit x)"
proof -
  have "fle (rnd x) (Fin 5)" using rnd_mono [OF assms(2)] by simp
  then have "\<not> flt (Fin 5) (rnd x)" by (cases "rnd x") auto
  with not_flt_rnd [OF assms(1)] show ?thesis by (simp add: bad_score_def lit_def)
qed

lemma seeded_reviews_ok: "reviews_ok (NewMockRepository now)"
proof -
  have "list_all (\<lambda>c. review_ok c) (seed_reviewCycles now)"
    by (simp add: seed_reviewCycles_def review_ok_def bad_score_option_def literal_score review_types_def phases_def review_statuses_def)
  then show ?thesis
    by (auto simp: reviews_ok_def NewMockRepository_def keyed_by_def list_all_iff dest!: map_of_SomeD)
qed

text \<open>C16: Starting from the seeded repository and through any sequence of requests to the workforce service, successful and
  failing ones, every stored review has a known kind, phase and status, all its scores are in range or not
  numbers, and it is filed under its identifier.\<close>

theorem reviews_well_typed: "reviews_ok (fold run_op ops (NewMockRepository now))"
proof -
  have "reviews_ok (fold run_op ops r)" if "reviews_ok r" for r
    using that by (induction ops arbitrary: r) (simp_all add: reviews_ok_op)
  then show ?thesis using seeded_reviews_ok by blast
qed

text \<open>An update that fails because of one of its parameters has already stored the ones before it: with a valid status and
  a score out of range it reports an error and the review has the new status.\<close>

theorem failed_update_persists:
  assumes "reviewCycles r i = Some c" and "i \<noteq> []" and "st \<in> review_statuses" and "bad_score x"
  shows "svc_UpdateReviewCycle now ((no_params i)\<lparr>upStatus := Some st, upScore := Some x\<rparr>) r
    = (Inl (Invalid ''score''), r\<lparr>reviewCycles := (reviewCycles r)(i \<mapsto> c\<lparr>rvStatus := st\<rparr>)\<rparr>)"
  using assms by (simp add: svc_UpdateReviewCycle_def update_steps_def no_params_def check_step_def set_step_def Let_def)

theorem failed_update_persists_witness:
  "\<exists>c. svc_UpdateReviewCycle 5 ((no_params ''018e0000-0000-7000-8000-000000000022'')\<lparr>upStatus := Some ''completed'', upScore := Some (Fin 6)\<rparr>) (NewMockRepository 0)
     = (Inl (Invalid ''score''), (NewMockRepository 0)\<lparr>reviewCycles := (reviewCycles (NewMockRepository 0))(''018e0000-0000-7000-8000-000000000022'' \<mapsto> c\<lparr>rvStatus := ''completed''\<rparr>)\<rparr>)"
proof -
  obtain c where c: "reviewCycles (NewMockRepository 0) ''018e0000-0000-7000-8000-000000000022'' = Some c"
    by (simp add: NewMockRepository_def keyed_by_def seed_reviewCycles_def)
  have "bad_score (Fin 6)" "''completed'' \<in> review_statuses" by (simp_all add: bad_score_def review_statuses_def)
  with failed_update_persists [OF c] show ?thesis by blast
qed

text \<open>Once the number of stored reviews plus one is the number of an existing review, every further review replaces that one: the number
  of reviews no longer grows, so the same identifier is given again and again.\<close>

theorem review_ids_collide:
  assumes "finite (dom (reviewCycles r))" and "rvReviewID p = []" and "rvReviewID q = []"
    and "reviewCycles r (''018e0000-0000-7000-8000-'' @ pad12 (card (dom (reviewCycles r)) + 1)) = Some old"
  shows "case CreateReviewCycle t1 p r of (c1, r1) \<Rightarrow> case CreateReviewCycle t2 q r1 of (c2, r2) \<Rightarrow>
    rvReviewID c1 = rvReviewID c2 \<and> reviewCycles r1 (rvReviewID c1) = Some c1 \<and> reviewCycles r2 (rvReviewID c1) = Some c2
    \<and> dom (reviewCycles r2) = dom (reviewCycles r) \<and> reviewCycles r (rvReviewID c1) = Some old"
proof -
  let ?k = "''018e0000-0000-7000-8000-'' @ pad12 (card (dom (reviewCycles r)) + 1)"
  have k: "?k \<in> dom (reviewCycles r)" using assms(4) by auto
  then have "insert ?k (dom (reviewCycles r)) = dom (reviewCycles r)" by (rule insert_absorb)
  with assms show ?thesis by (auto simp: CreateReviewCycle_def Let_def)
qed

definition demo_review :: ReviewCycle where
  "demo_review = \<lparr>rvReviewID = [], rvEmployeeID = ''e'', rvReviewType = ''performance'', rvReviewPeriod = [], rvPhase = [], rvScheduledFor = ''2026-10-01'',
     rvStatus = [], rvReviewerID = None, rvScore = None, rvNotes = None, rvSelfAppraisal = None, rvSelfScore = None, rvPeerFeedback = None, rvPeerScore = None,
     rvPeerReviewerID = None, rvManagerAssessment = None, rvManagerScore = None, rvKPIRatings = None, rvWellnessAuditScore = None,
     rvHabitatRecommendations = None, rvClinicalAuditorID = None, rvVHRRecordID = None, rvCompletedAt = None, rvCreatedAt = 0, rvUpdatedAt = 0\<rparr>"

definition one_review :: wfRepository where
  "one_review = (NewMockRepository 0)\<lparr>reviewCycles := [''018e0000-0000-7000-8000-000000000002'' \<mapsto> demo_review]\<rparr>"

lemma pad12_2: "pad12 2 = ''000000000002''"
  by code_simp

theorem review_ids_collide_witness:
  "case CreateReviewCycle 1 demo_review one_review of (c1, r1) \<Rightarrow> case CreateReviewCycle 2 demo_review r1 of (c2, r2) \<Rightarrow>
     rvReviewID c1 = rvReviewID c2 \<and> reviewCycles r2 (rvReviewID c1) = Some c2"
proof -
  have p: "rvReviewID demo_review = []" by (simp add: demo_review_def)
  have c: "card (dom (reviewCycles one_review)) + 1 = 2" "finite (dom (reviewCycles one_review))" by (simp_all add: one_review_def)
  have "reviewCycles one_review (''018e0000-0000-7000-8000-'' @ pad12 (card (dom (reviewCycles one_review)) + 1)) = Some demo_review"
    unfolding c(1) by (simp add: pad12_2 one_review_def)
  from review_ids_collide [OF c(2) p p this, of 2 1] show ?thesis by (auto split: prod.splits)
qed

section \<open>The medical hold\<close>

text \<open>A hold stands until an operation lifts it: a hold request that says so, or any write of the whole care schedule in which the
  flag is not set.\<close>

definition on_hold :: "string \<Rightarrow> wfRepository \<Rightarrow> bool" where
  "on_hold f r \<longleftrightarrow> (\<exists>c. careSchedules r f = Some c \<and> csEmergencyMedicalHold c)"

fun lifts :: "string \<Rightarrow> wf_op \<Rightarrow> bool" where
  "lifts f (SetHold now g h) = (g = f \<and> \<not> h)"
| "lifts f (UpdateCare now c) = (csFelineID c = f \<and> \<not> csEmergencyMedicalHold c)"
| "lifts f (Onboard clk e (Some c)) = ((if emEmployeeID e = [] then ''emp-gen-'' @ dec_int (clk 0) else emEmployeeID e) = f \<and> \<not> csEmergencyMedicalHold c)"
| "lifts f x = False"

lemma care_untouched:
  "careSchedules (snd (svc_UpdateReviewCycle now p r)) = careSchedules r" "careSchedules (snd (svc_CreateReviewCycle now c r)) = careSchedules r"
  "careSchedules (snd (svc_UpdateEmployeeStatus now i st r)) = careSchedules r"
  "careSchedules (snd (svc_UpdateOnboardingTask now i b r)) = careSchedules r" "careSchedules (snd (svc_CreateVHRRecord now v r)) = careSchedules r"
  "careSchedules (snd (svc_CreateLeaveRequest now lp r)) = careSchedules r" "careSchedules (snd (svc_UpdateLeaveRequestStatus now i st r)) = careSchedules r"
  "careSchedules (snd (svc_CreateWorkplaceIncident now x r)) = careSchedules r"
  "careSchedules (snd (svc_UpdateWorkplaceIncidentStatus now i st n r)) = careSchedules r"
  by (simp_all add: service_defs svc_UpdateReviewCycle_def UpdateReviewCycle_def svc_CreateReviewCycle_def CreateReviewCycle_def Let_def
      split: option.splits prod.splits)

lemma on_hold_upsert: "on_hold f r \<Longrightarrow> csFelineID c \<noteq> f \<or> csEmergencyMedicalHold c \<Longrightarrow> on_hold f (snd (UpsertCareSchedule now c r))"
  by (auto simp: on_hold_def UpsertCareSchedule_def Let_def split: option.splits)

lemma on_hold_cong: "careSchedules r' = careSchedules r \<Longrightarrow> on_hold f r' = on_hold f r"
  by (simp add: on_hold_def)

lemma on_hold_op:
  assumes "on_hold f r" and "\<not> lifts f x"
  shows "on_hold f (run_op x r)"
proof (cases x)
  case (Onboard clk e cs)
  obtain created r1 where cr: "CreateEmployee (clk 0) e r = (created, r1)" by fastforce
  then have i: "emEmployeeID created = (if emEmployeeID e = [] then ''emp-gen-'' @ dec_int (clk 0) else emEmployeeID e)"
    and c1: "careSchedules r1 = careSchedules r"
    by (auto simp: CreateEmployee_def Let_def)
  define r2 where "r2 = create_tasks clk 1 (emEmployeeID created) (default_tasks (emEmployeeType e)) r1"
  have h: "on_hold f r2" using assms(1) c1 by (simp add: r2_def on_hold_def)
  have "on_hold f (snd (UpsertCareSchedule (clk 5) (c\<lparr>csFelineID := emEmployeeID created\<rparr>) r2))" if "cs = Some c" for c
    using assms(2) Onboard that i by (intro on_hold_upsert h) auto
  with Onboard h assms(1) show ?thesis by (auto simp: OnboardEmployee_def cr r2_def Let_def split: option.splits)
next
  case (UpdateCare now c)
  with assms show ?thesis
    using on_hold_upsert [of f r c now] by (auto simp: UpdateCareSchedule_def split: prod.splits)
next
  case (SetHold now g h)
  with assms show ?thesis
    by (auto simp: on_hold_def svc_SetEmergencyMedicalHold_def SetEmergencyMedicalHold_def Let_def split: option.splits)
qed (use assms in \<open>simp_all add: on_hold_def care_untouched submit_defs\<close>)

lemma on_hold_ops:
  assumes "on_hold f r" and "list_all (\<lambda>x. \<not> lifts f x) ops"
  shows "on_hold f (fold run_op ops r)"
  using assms by (induction ops arbitrary: r) (simp_all add: on_hold_op)

lemma not_cleared_while_held:
  assumes "on_hold (vqFelineID req) r" and "vqFelineID req \<noteq> []" and "svWorkforce S = Some (workforce_client en ord)"
  shows "\<not> cleared S req r"
  using assms by (auto simp: cleared_def resolveTargetFeline_def checkFelineMedicalHold_def workforce_client_def on_hold_def
      GetCareSchedule_def GetCareScheduleByFelineID_def split: if_splits)

text \<open>C15: Once a medical hold is set for a feline, every order placed for that feline is refused and changes nothing at the broker, in
  the core or in the message log, through any sequence of workforce operations that does not lift the hold. An update of the
  care schedule lifts it unless it repeats the flag.\<close>

theorem hold_stops_orders:
  assumes "f \<noteq> []" and "list_all (\<lambda>x. \<not> lifts f x) ops" and "vqFelineID req = f" and "svWorkforce S = Some (workforce_client en ord)"
    and "wWorkforce w = fold run_op ops (snd (svc_SetEmergencyMedicalHold t f True r))"
  shows "(\<exists>e. ValidateAndExecuteOrder S now uuid eventID req w = (Inl e, w))
    \<and> (csFelineID c = f \<and> \<not> csEmergencyMedicalHold c \<and> en \<longrightarrow> cleared S req (snd (UpdateCareSchedule t' c (wWorkforce w))))"
proof
  have "on_hold f (snd (svc_SetEmergencyMedicalHold t f True r))"
    using assms(1) by (auto simp: on_hold_def svc_SetEmergencyMedicalHold_def SetEmergencyMedicalHold_def Let_def split: option.splits)
  with assms have "on_hold (vqFelineID req) (wWorkforce w)" by (simp add: on_hold_ops)
  then have nc: "\<not> cleared S req (wWorkforce w)" using assms by (intro not_cleared_while_held) auto
  obtain res w' where v: "ValidateAndExecuteOrder S now uuid eventID req w = (res, w')" by fastforce
  then show "\<exists>e. ValidateAndExecuteOrder S now uuid eventID req w = (Inl e, w)"
    by (cases rule: ValidateAndExecuteOrder_cases) (use v nc in auto)
  show "csFelineID c = f \<and> \<not> csEmergencyMedicalHold c \<and> en \<longrightarrow> cleared S req (snd (UpdateCareSchedule t' c (wWorkforce w)))"
    using assms by (auto simp: cleared_def resolveTargetFeline_def checkFelineMedicalHold_def workforce_client_def UpdateCareSchedule_def UpsertCareSchedule_def
        GetCareSchedule_def GetCareScheduleByFelineID_def Let_def split: option.splits)
qed

definition held_server :: "(nat, unit, wfRepository, unit) Server" where
  "held_server = \<lparr>svBroker = Some refusing_broker, svBank = None, svWorkforce = Some (workforce_client True []), svCore = None, svPublisher = None,
     svDefaultFelineID = []\<rparr>"

definition held_world :: "(nat, unit, wfRepository, unit) world" where
  "held_world = \<lparr>wBroker = 7, wBank = (), wWorkforce = fold run_op [SetStatus 2 ''cat'' ''on_leave''] (snd (svc_SetEmergencyMedicalHold 1 ''cat'' True (NewMockRepository 0))),
     wCore = (), wMessages = []\<rparr>"

theorem hold_stops_orders_witness: "\<exists>e. ValidateAndExecuteOrder held_server 9 ''u'' ''e'' demo_order held_world = (Inl e, held_world)"
proof -
  have f: "vqFelineID demo_order = ''cat''" "svWorkforce held_server = Some (workforce_client True [])"
    "wWorkforce held_world = fold run_op [SetStatus 2 ''cat'' ''on_leave''] (snd (svc_SetEmergencyMedicalHold 1 ''cat'' True (NewMockRepository 0)))"
    by (simp_all add: demo_order_def held_server_def held_world_def)
  have "list_all (\<lambda>x. \<not> lifts ''cat'' x) [SetStatus 2 ''cat'' ''on_leave'']" by simp
  from hold_stops_orders [OF _ this f, of 9 "''u''" "''e''"] show ?thesis by blast
qed

end
