(* ===== verification/Saga.thy ===== *)
theory Saga
  imports WorkforceService
begin

text \<open>
  Onboarding and offboarding of employees, \<open>internal/saga\<close>: the saga creates the employee in the workforce service and
  provisions accounts in the systems around it; offboarding revokes them. The systems are the interfaces of
  \<open>saga.go\<close>, records of functions over their own states which return nothing for an error; \<open>adapters.go\<close>
  implements them over clients of the third-party systems, which are records of the calls it makes.
\<close>

section \<open>Interfaces\<close>

record VCSAccount =
  vaUsername :: string
  vaEmail :: string
  vaFullName :: string
  vaSSHKeyIDs :: "int list"
  vaStatus :: string

record Workspace =
  woUsername :: string
  woQuota :: string
  woGroupFolders :: "string list"
  woStatus :: string

record AssetAllocation =
  aaAssetTag :: string
  aaName :: string
  aaCategory :: string
  aaStatusLabel :: string

record AssetRecoverySummary =
  arTicketID :: string
  arTotalItems :: int
  arStatus :: string
  arAssets :: "AssetAllocation list"

record 'v VCSClient =
  vcProvisionAccount :: "string \<Rightarrow> string \<Rightarrow> string \<Rightarrow> string \<Rightarrow> 'v \<Rightarrow> VCSAccount option \<times> 'v"
  vcRevokeAccess :: "string \<Rightarrow> 'v \<Rightarrow> bool \<times> 'v"

record 's WorkspaceClient =
  wcProvisionWorkspace :: "string \<Rightarrow> string \<Rightarrow> string \<Rightarrow> string \<Rightarrow> 's \<Rightarrow> Workspace option \<times> 's"
  wcLockAndArchiveStorage :: "string \<Rightarrow> string \<Rightarrow> 's \<Rightarrow> bool \<times> 's"

record 'h HardwareClient =
  hcAssignInitialHardware :: "string \<Rightarrow> string \<Rightarrow> string \<Rightarrow> 'h \<Rightarrow> AssetAllocation list option \<times> 'h"
  hcCreateAssetRecoveryTickets :: "string \<Rightarrow> string \<Rightarrow> 'h \<Rightarrow> AssetRecoverySummary option \<times> 'h"

record 'a AuthRevoker =
  arRevokeEmployeeSessions :: "string \<Rightarrow> 'a \<Rightarrow> bool \<times> 'a"
  arRevokeOAuthTokens :: "string \<Rightarrow> 'a \<Rightarrow> bool \<times> 'a"

record 'q HRClient =
  hrLogSeparation :: "string \<Rightarrow> string \<Rightarrow> string \<Rightarrow> 'q \<Rightarrow> bool \<times> 'q"

section \<open>Adapters\<close>

text \<open>The calls that the adapters make of the clients of Forgejo, Nextcloud and Snipe-IT. \<open>seed\<close> is the 16 random bytes of the initial
  password, missing when the random source fails.\<close>

record 'v forgejo_client =
  fjCreateUser :: "string \<Rightarrow> string \<Rightarrow> string \<Rightarrow> string \<Rightarrow> 'v \<Rightarrow> VCSAccount option \<times> 'v"
  fjGetUser :: "string \<Rightarrow> 'v \<Rightarrow> VCSAccount option"
  fjAddUserPublicKey :: "string \<Rightarrow> string \<Rightarrow> 'v \<Rightarrow> int option \<times> 'v"
  fjDeleteUser :: "string \<Rightarrow> 'v \<Rightarrow> bool \<times> 'v"

definition generateSecureInitialPassword :: "string option \<Rightarrow> string option" where
  "generateSecureInitialPassword seed = map_option (\<lambda>b. ''InitPass!'' @ EncodeToString b) seed"

definition add_key :: "'v forgejo_client \<Rightarrow> string \<Rightarrow> string \<Rightarrow> VCSAccount \<Rightarrow> 'v \<Rightarrow> VCSAccount \<times> 'v" where
  "add_key C username sshKey u v = (if sshKey = [] then (u\<lparr>vaSSHKeyIDs := [], vaStatus := ''Active''\<rparr>, v)
     else (case fjAddUserPublicKey C username sshKey v of
         (Some k, v') \<Rightarrow> (u\<lparr>vaSSHKeyIDs := [k], vaStatus := ''Active''\<rparr>, v')
       | (None, v') \<Rightarrow> (u\<lparr>vaSSHKeyIDs := [], vaStatus := ''Active''\<rparr>, v')))"

definition ProvisionAccount ::
    "string option \<Rightarrow> 'v forgejo_client option \<Rightarrow> string \<Rightarrow> string \<Rightarrow> string \<Rightarrow> string \<Rightarrow> 'v \<Rightarrow> VCSAccount option \<times> 'v" where
  "ProvisionAccount seed client username email fullName sshKey v = (case client of
     None \<Rightarrow> (Some \<lparr>vaUsername = username, vaEmail = email, vaFullName = fullName, vaSSHKeyIDs = [], vaStatus = ''Active''\<rparr>, v)
   | Some C \<Rightarrow> (case generateSecureInitialPassword seed of
       None \<Rightarrow> (None, v)
     | Some pw \<Rightarrow> (case fjCreateUser C username email fullName pw v of
         (Some u, v1) \<Rightarrow> (case add_key C username sshKey u v1 of (a, v2) \<Rightarrow> (Some a, v2))
       | (None, v1) \<Rightarrow> (case fjGetUser C username v1 of
           Some u \<Rightarrow> (case add_key C username sshKey u v1 of (a, v2) \<Rightarrow> (Some a, v2))
         | None \<Rightarrow> (None, v1)))))"

definition RevokeAccess :: "'v forgejo_client option \<Rightarrow> string \<Rightarrow> 'v \<Rightarrow> bool \<times> 'v" where
  "RevokeAccess client username v = (case client of None \<Rightarrow> (True, v) | Some C \<Rightarrow> fjDeleteUser C username v)"

definition forgejo_adapter :: "string option \<Rightarrow> 'v forgejo_client option \<Rightarrow> 'v VCSClient" where
  "forgejo_adapter seed client = \<lparr>vcProvisionAccount = ProvisionAccount seed client, vcRevokeAccess = RevokeAccess client\<rparr>"

record 's nextcloud_client =
  ncCreateUser :: "string \<Rightarrow> string \<Rightarrow> string \<Rightarrow> string \<Rightarrow> string list \<Rightarrow> 's \<Rightarrow> bool \<times> 's"
  ncLockAndArchiveUser :: "string \<Rightarrow> string \<Rightarrow> 's \<Rightarrow> bool \<times> 's"

definition dashes :: "string \<Rightarrow> string" where
  "dashes s = map (\<lambda>c. if c = CHR '' '' then CHR ''-'' else c) s"

definition workspace_quota :: "string \<Rightarrow> string \<Rightarrow> string" where
  "workspace_quota department quota = (if quota \<noteq> [] then quota
     else if Contains (ToLower department) ''engineering'' \<or> Contains (ToLower department) ''facilities'' then ''50 GB'' else ''25 GB'')"

definition ProvisionWorkspace ::
    "string option \<Rightarrow> 's nextcloud_client option \<Rightarrow> string \<Rightarrow> string \<Rightarrow> string \<Rightarrow> string \<Rightarrow> 's \<Rightarrow> Workspace option \<times> 's" where
  "ProvisionWorkspace seed client username email department quota s =
     (let q = workspace_quota department quota;
          groups = ''all-staff'' # (if department \<noteq> [] then [ToLower (dashes department)] else []);
          w = \<lparr>woUsername = username, woQuota = q, woGroupFolders = groups, woStatus = ''Active''\<rparr>
      in case client of
           None \<Rightarrow> (Some w, s)
         | Some C \<Rightarrow> (case generateSecureInitialPassword seed of
             None \<Rightarrow> (None, s)
           | Some pw \<Rightarrow> (case ncCreateUser C username pw email q groups s of (ok, s') \<Rightarrow> (if ok then Some w else None, s'))))"

definition LockAndArchiveStorage :: "'s nextcloud_client option \<Rightarrow> string \<Rightarrow> string \<Rightarrow> 's \<Rightarrow> bool \<times> 's" where
  "LockAndArchiveStorage client username vaultPath s = (case client of None \<Rightarrow> (True, s) | Some C \<Rightarrow> ncLockAndArchiveUser C username vaultPath s)"

definition nextcloud_adapter :: "string option \<Rightarrow> 's nextcloud_client option \<Rightarrow> 's WorkspaceClient" where
  "nextcloud_adapter seed client = \<lparr>wcProvisionWorkspace = ProvisionWorkspace seed client, wcLockAndArchiveStorage = LockAndArchiveStorage client\<rparr>"

record 'h snipeit_client =
  siCheckoutAsset :: "int \<Rightarrow> string \<Rightarrow> string \<Rightarrow> 'h \<Rightarrow> 'h"
  siCreateAssetRecoveryTicket :: "string \<Rightarrow> string \<Rightarrow> 'h \<Rightarrow> (string \<times> AssetAllocation list) option \<times> 'h"

definition asset :: "string \<Rightarrow> string \<Rightarrow> string \<Rightarrow> string \<Rightarrow> AssetAllocation" where
  "asset tag name category status = \<lparr>aaAssetTag = tag, aaName = name, aaCategory = category, aaStatusLabel = status\<rparr>"

definition initial_assets :: "string \<Rightarrow> string \<Rightarrow> string \<Rightarrow> AssetAllocation list" where
  \<open>initial_assets employeeID roleTitle department =
     [asset (''BADGE-'' @ employeeID) ''Encrypted RFID Security Badge'' ''Access Badge'' ''Deployed'',
      asset (''MBP-'' @ employeeID) ''Apple MacBook Pro 16" (M3 Max)'' ''Laptop'' ''Deployed'',
      asset (''DESK-'' @ employeeID) ''Ergonomic Sit/Stand Workstation'' ''Workstation'' ''Deployed'']
     @ (if Contains (ToLower department) ''facilities'' \<or> Contains (ToLower roleTitle) ''engineer''
        then [asset (''WATCH-'' @ employeeID) ''Pebble Time Steel On-Call Wearable'' ''Wearable'' ''Deployed''] else [])\<close>

definition AssignInitialHardware ::
    "'h snipeit_client option \<Rightarrow> string \<Rightarrow> string \<Rightarrow> string \<Rightarrow> 'h \<Rightarrow> AssetAllocation list option \<times> 'h" where
  "AssignInitialHardware client employeeID roleTitle department h =
     (Some (initial_assets employeeID roleTitle department),
      case client of None \<Rightarrow> h
      | Some C \<Rightarrow> siCheckoutAsset C 101 employeeID (''Initial hardware deployment for '' @ roleTitle @ '' ('' @ department @ '')'') h)"

definition default_recovery :: "time \<Rightarrow> string \<Rightarrow> AssetRecoverySummary" where
  \<open>default_recovery now employeeID = \<lparr>arTicketID = ''RECOVERY-'' @ employeeID @ ''-'' @ dec_int (now div second), arTotalItems = 2, arStatus = ''Pending Recovery'',
     arAssets = [asset (''BADGE-'' @ employeeID) ''Encrypted RFID Security Badge'' ''Access Badge'' ''Pending Recovery'',
       asset (''MBP-'' @ employeeID) ''Apple MacBook Pro 16" (M3 Max)'' ''Laptop'' ''Pending Recovery'']\<rparr>\<close>

definition CreateAssetRecoveryTickets ::
    "time \<Rightarrow> 'h snipeit_client option \<Rightarrow> string \<Rightarrow> string \<Rightarrow> 'h \<Rightarrow> AssetRecoverySummary option \<times> 'h" where
  "CreateAssetRecoveryTickets now client employeeID reason h = (case client of
     None \<Rightarrow> (Some (default_recovery now employeeID), h)
   | Some C \<Rightarrow> (case siCreateAssetRecoveryTicket C employeeID reason h of
       (Some (ticket, items), h') \<Rightarrow> (Some \<lparr>arTicketID = ticket, arTotalItems = int (length items), arStatus = ''Pending Recovery'',
           arAssets = map (\<lambda>a. a\<lparr>aaStatusLabel := ''Pending Recovery''\<rparr>) items\<rparr>, h')
     | (None, h') \<Rightarrow> (Some (default_recovery now employeeID), h')))"

definition snipeit_adapter :: "time \<Rightarrow> 'h snipeit_client option \<Rightarrow> 'h HardwareClient" where
  "snipeit_adapter now client = \<lparr>hcAssignInitialHardware = AssignInitialHardware client, hcCreateAssetRecoveryTickets = CreateAssetRecoveryTickets now client\<rparr>"

definition LogSeparation :: "string \<Rightarrow> string \<Rightarrow> string \<Rightarrow> 'q \<Rightarrow> bool \<times> 'q" where
  "LogSeparation employeeID departureDate reason q = (True, q)"

definition frappe_adapter :: "'q HRClient" where
  "frappe_adapter = \<lparr>hrLogSeparation = LogSeparation\<rparr>"

section \<open>Requests, results and state\<close>

record OnboardingRequest =
  oqEmployeeID :: string
  oqEmployeeType :: string
  oqFirstName :: string
  oqLastName :: string
  oqEmail :: string
  oqRoleTitle :: string
  oqDepartment :: string
  oqDietaryPlan :: string
  oqFeedingTimes :: "string list"
  oqCaretakerID :: string
  oqSSHKey :: string
  oqStorageQuota :: string

record OnboardingResult =
  orEmployeeID :: string
  orIdpIdentityID :: string
  orStatus :: string
  orChecklistTasks :: "string list"
  orCareSchedule :: "CareSchedule option"
  orVCSAccount :: "VCSAccount option"
  orWorkspace :: "Workspace option"
  orHardwareAssets :: "AssetAllocation list"

record OffboardingRequest =
  fqEmployeeID :: string
  fqReason :: string
  fqTargetStatus :: string

record OffboardingResult =
  frEmployeeID :: string
  frStatus :: string
  frIdentityRevoked :: bool
  frSessionsRevoked :: bool
  frStorageArchived :: bool
  frArchiveVaultPath :: string
  frHardwareTickets :: "AssetRecoverySummary option"
  frTradingHoldState :: bool
  frCareTransition :: string

text \<open>The events published, newest last.\<close>

datatype saga_event = EmployeeOnboarded OnboardingResult | OffboardingCompleted OffboardingResult

record ('v, 's, 'h, 'a, 'q) saga_world =
  swRepo :: wfRepository
  swVCS :: 'v
  swWorkspace :: 's
  swHardware :: 'h
  swAuth :: 'a
  swHR :: 'q
  swEvents :: "saga_event list"

definition publish :: "bool \<Rightarrow> saga_event \<Rightarrow> ('v, 's, 'h, 'a, 'q) saga_world \<Rightarrow> ('v, 's, 'h, 'a, 'q) saga_world" where
  "publish publisher ev w = (if publisher then w\<lparr>swEvents := swEvents w @ [ev]\<rparr> else w)"

section \<open>Onboarding\<close>

record ('v, 's, 'h) OnboardingSaga =
  onVCS :: "'v VCSClient option"
  onWorkspace :: "'s WorkspaceClient option"
  onHardware :: "'h HardwareClient option"
  onPublisher :: bool

text \<open>The constructor puts an adapter without a client where no integration is given.\<close>

definition NewOnboardingSagaWithIntegrations ::
    "bool \<Rightarrow> time \<Rightarrow> 'v VCSClient option \<Rightarrow> 's WorkspaceClient option \<Rightarrow> 'h HardwareClient option \<Rightarrow> ('v, 's, 'h) OnboardingSaga" where
  "NewOnboardingSagaWithIntegrations publisher now vcs ws hw =
     \<lparr>onVCS = Some (case vcs of None \<Rightarrow> forgejo_adapter None None | Some C \<Rightarrow> C),
      onWorkspace = Some (case ws of None \<Rightarrow> nextcloud_adapter None None | Some C \<Rightarrow> C),
      onHardware = Some (case hw of None \<Rightarrow> snipeit_adapter now None | Some C \<Rightarrow> C),
      onPublisher = publisher\<rparr>"

definition deriveUserCredentials :: "OnboardingRequest \<Rightarrow> string \<times> string \<times> string" where
  "deriveUserCredentials req =
     (let username = (if oqLastName req \<noteq> [] then ToLower (oqFirstName req @ ''.'' @ oqLastName req)
            else if oqEmail req \<noteq> [] then hd (Split (CHR ''@'') (oqEmail req)) else ToLower (oqFirstName req));
          fullName = (if oqLastName req \<noteq> [] then oqFirstName req @ '' '' @ oqLastName req else oqFirstName req)
      in (username, fullName, if oqEmail req = [] then username @ ''@oci.local'' else oqEmail req))"

definition buildCareSchedule :: "string list \<Rightarrow> OnboardingRequest \<Rightarrow> wfRepository \<Rightarrow> CareSchedule option" where
  "buildCareSchedule ord req r = (if oqEmployeeType req \<noteq> ''feline'' then None
     else Some \<lparr>csScheduleID = [], csFelineID = [],
       csDietaryPlan = (if oqDietaryPlan req = [] then ''Standard balanced feline diet'' else oqDietaryPlan req),
       csFeedingTimes = (if oqFeedingTimes req = [] then [''08:00 AM'', ''05:00 PM''] else oqFeedingTimes req),
       csSpecialMedicalNeeds = None, csPreferredPerchZone = None, csEmergencyMedicalHold = False,
       csCaretakerID = (if oqCaretakerID req \<noteq> [] then Some (oqCaretakerID req)
         else (case ListEmployees ord ''human'' ''active'' r of e # _ \<Rightarrow> Some (emEmployeeID e) | [] \<Rightarrow> None)),
       csCreatedAt = zeroTime, csUpdatedAt = zeroTime\<rparr>)"

definition provisionITResources ::
    "('v, 's, 'h) OnboardingSaga \<Rightarrow> OnboardingRequest \<Rightarrow> string \<Rightarrow> string \<Rightarrow> string \<Rightarrow> string \<Rightarrow> 'v \<times> 's \<times> 'h
      \<Rightarrow> (VCSAccount option \<times> Workspace option \<times> AssetAllocation list) \<times> 'v \<times> 's \<times> 'h" where
  "provisionITResources G req employeeID username email fullName st = (case st of (v, s, h) \<Rightarrow>
     if oqEmployeeType req = ''feline'' then ((None, None, []), v, s, h)
     else let (a, v') = (case onVCS G of None \<Rightarrow> (None, v) | Some C \<Rightarrow> vcProvisionAccount C username email fullName (oqSSHKey req) v);
              (w, s') = (case onWorkspace G of None \<Rightarrow> (None, s) | Some C \<Rightarrow> wcProvisionWorkspace C username email (oqDepartment req) (oqStorageQuota req) s);
              (hw, h') = (case onHardware G of None \<Rightarrow> ([], h)
                 | Some C \<Rightarrow> (case hcAssignInitialHardware C employeeID (oqRoleTitle req) (oqDepartment req) h of
                     (Some xs, h') \<Rightarrow> (xs, h') | (None, h') \<Rightarrow> ([], h')))
          in ((a, w, hw), v', s', h'))"

definition getChecklistTasks :: "string list \<Rightarrow> OnboardingRequest \<Rightarrow> string \<Rightarrow> wfRepository \<Rightarrow> string list" where
  "getChecklistTasks ord req employeeID r =
     (let names = (if employeeID = [] then [] else map tkTaskName (ListOnboardingChecklist ord employeeID r))
      in if oqEmployeeType req \<noteq> ''feline'' \<and> \<not> list_ex (\<lambda>n. Contains n ''Forgejo'') names
         then names @ [''Forgejo Account Provisioning & SPIFFE ID Issuance''] else names)"

definition new_employee :: "OnboardingRequest \<Rightarrow> Employee" where
  "new_employee req = \<lparr>emEmployeeID = oqEmployeeID req, emEmployeeType = oqEmployeeType req, emFirstName = oqFirstName req,
     emLastName = (if oqLastName req \<noteq> [] then Some (oqLastName req) else None), emEmail = (if oqEmail req \<noteq> [] then Some (oqEmail req) else None),
     emRoleTitle = oqRoleTitle req, emDepartment = oqDepartment req, emStatus = ''onboarding'',
     emHiredAt = zeroTime, emCreatedAt = zeroTime, emUpdatedAt = zeroTime\<rparr>"

text \<open>\<open>oe\<close> and \<open>ok\<close> are the orders in which the maps of employees and checklists are walked.\<close>

definition onboard ::
    "('v, 's, 'h) OnboardingSaga \<Rightarrow> string list \<Rightarrow> string list \<Rightarrow> (nat \<Rightarrow> time) \<Rightarrow> OnboardingRequest \<Rightarrow> ('v, 's, 'h, 'a, 'q) saga_world
      \<Rightarrow> (wfs_error + OnboardingResult) \<times> ('v, 's, 'h, 'a, 'q) saga_world" where
  "onboard G oe ok clk req w =
     (case OnboardEmployee clk (new_employee req) (buildCareSchedule oe req (swRepo w)) (swRepo w) of
        (Inl e, r) \<Rightarrow> (Inl e, w\<lparr>swRepo := r\<rparr>)
      | (Inr created, r) \<Rightarrow>
          (case deriveUserCredentials req of (username, fullName, email) \<Rightarrow>
           (case provisionITResources G req (emEmployeeID created) username email fullName (swVCS w, swWorkspace w, swHardware w) of
              ((a, ws, hw), v, s, h) \<Rightarrow>
                let res = \<lparr>orEmployeeID = emEmployeeID created, orIdpIdentityID = ''idp-forgejo-'' @ emEmployeeID created, orStatus = emStatus created,
                      orChecklistTasks = getChecklistTasks ok req (emEmployeeID created) r,
                      orCareSchedule = (case GetCareSchedule (emEmployeeID created) r of Inl _ \<Rightarrow> None | Inr c \<Rightarrow> Some c),
                      orVCSAccount = a, orWorkspace = ws, orHardwareAssets = hw\<rparr>
                in (Inr res, publish (onPublisher G) (EmployeeOnboarded res) (w\<lparr>swRepo := r, swVCS := v, swWorkspace := s, swHardware := h\<rparr>)))))"

section \<open>Offboarding\<close>

record ('v, 's, 'h, 'a, 'q) OffboardingEngine =
  ofVCS :: "'v VCSClient option"
  ofWorkspace :: "'s WorkspaceClient option"
  ofHardware :: "'h HardwareClient option"
  ofAuth :: "'a AuthRevoker option"
  ofHR :: "'q HRClient option"
  ofPublisher :: bool

definition NewOffboardingEngineWithIntegrations ::
    "bool \<Rightarrow> time \<Rightarrow> 'v VCSClient option \<Rightarrow> 's WorkspaceClient option \<Rightarrow> 'h HardwareClient option \<Rightarrow> 'a AuthRevoker option
      \<Rightarrow> 'q HRClient option \<Rightarrow> ('v, 's, 'h, 'a, 'q) OffboardingEngine" where
  "NewOffboardingEngineWithIntegrations publisher now vcs ws hw auth hr =
     \<lparr>ofVCS = Some (case vcs of None \<Rightarrow> forgejo_adapter None None | Some C \<Rightarrow> C),
      ofWorkspace = Some (case ws of None \<Rightarrow> nextcloud_adapter None None | Some C \<Rightarrow> C),
      ofHardware = Some (case hw of None \<Rightarrow> snipeit_adapter now None | Some C \<Rightarrow> C),
      ofAuth = auth, ofHR = Some (case hr of None \<Rightarrow> frappe_adapter | Some C \<Rightarrow> C), ofPublisher = publisher\<rparr>"

definition offboard_username :: "Employee \<Rightarrow> string" where
  "offboard_username e = (case emLastName e of
     Some l \<Rightarrow> if l \<noteq> [] then ToLower (emFirstName e @ ''.'' @ l) else ToLower (emFirstName e)
   | None \<Rightarrow> ToLower (emFirstName e))"

definition vault_path :: "time \<Rightarrow> string \<Rightarrow> string" where
  "vault_path now employeeID = ''/compliance/vault/archives/'' @ employeeID @ ''-'' @ dec_int (now div second) @ ''.tar.gz''"

definition care_transition :: "string \<Rightarrow> string" where
  "care_transition employeeType = (if employeeType = ''feline'' then ''Feline transitioned to senior veterinary medical hold''
     else ''Active feline care responsibilities transferred to designated veterinary medical staff'')"

definition offboard ::
    "('v, 's, 'h, 'a, 'q) OffboardingEngine \<Rightarrow> time \<Rightarrow> OffboardingRequest \<Rightarrow> ('v, 's, 'h, 'a, 'q) saga_world
      \<Rightarrow> (wfs_error + OffboardingResult) \<times> ('v, 's, 'h, 'a, 'q) saga_world" where
  "offboard E now req w = (case GetEmployee (fqEmployeeID req) (swRepo w) of
     Inl e \<Rightarrow> (Inl e, w)
   | Inr emp \<Rightarrow>
       (case svc_UpdateEmployeeStatus now (fqEmployeeID req) (if fqTargetStatus req = [] then ''separated'' else fqTargetStatus req) (swRepo w) of
          (Inl e, r) \<Rightarrow> (Inl e, w\<lparr>swRepo := r\<rparr>)
        | (Inr updated, r) \<Rightarrow>
            let a = (case ofAuth E of None \<Rightarrow> swAuth w
                   | Some A \<Rightarrow> snd (arRevokeOAuthTokens A (fqEmployeeID req) (snd (arRevokeEmployeeSessions A (fqEmployeeID req) (swAuth w)))));
                username = offboard_username emp;
                v = (case ofVCS E of None \<Rightarrow> swVCS w | Some C \<Rightarrow> snd (vcRevokeAccess C username (swVCS w)));
                path = vault_path now (fqEmployeeID req);
                (archived, s) = (case ofWorkspace E of None \<Rightarrow> (True, swWorkspace w) | Some C \<Rightarrow> wcLockAndArchiveStorage C username path (swWorkspace w));
                (tickets, h) = (case ofHardware E of None \<Rightarrow> (None, swHardware w) | Some C \<Rightarrow> hcCreateAssetRecoveryTickets C (fqEmployeeID req) (fqReason req) (swHardware w));
                (hold, r') = (if emEmployeeType emp = ''feline''
                   then (case svc_SetEmergencyMedicalHold now (fqEmployeeID req) True r of
                       (Inr c, r') \<Rightarrow> (csEmergencyMedicalHold c, r') | (Inl _, r') \<Rightarrow> (False, r'))
                   else (False, r));
                q = (case ofHR E of None \<Rightarrow> swHR w | Some C \<Rightarrow> snd (hrLogSeparation C (fqEmployeeID req) (fmt_date now) (fqReason req) (swHR w)));
                res = \<lparr>frEmployeeID = emEmployeeID updated, frStatus = emStatus updated, frIdentityRevoked = True, frSessionsRevoked = True,
                  frStorageArchived = archived, frArchiveVaultPath = path, frHardwareTickets = tickets, frTradingHoldState = hold, frCareTransition = care_transition (emEmployeeType emp)\<rparr>
            in (Inr res, publish (ofPublisher E) (OffboardingCompleted res)
                  (w\<lparr>swRepo := r', swVCS := v, swWorkspace := s, swHardware := h, swAuth := a, swHR := q\<rparr>))))"

section \<open>What offboarding does\<close>

lemma publish_frame [simp]:
  "swRepo (publish b ev w) = swRepo w" "swVCS (publish b ev w) = swVCS w" "swAuth (publish b ev w) = swAuth w"
  by (simp_all add: publish_def)

lemma onboard_cases [consumes 1, case_names failed onboarded]:
  assumes "onboard G oe ok clk req w = (out, w')"
  obtains e where "out = Inl e"
  | created r res where "out = Inr res" "OnboardEmployee clk (new_employee req) (buildCareSchedule oe req (swRepo w)) (swRepo w) = (Inr created, r)"
      "orEmployeeID res = emEmployeeID created" "swRepo w' = r"
      "oqEmployeeType req \<noteq> ''feline'' \<longrightarrow> swVCS w' = (case onVCS G of None \<Rightarrow> swVCS w
         | Some C \<Rightarrow> snd (vcProvisionAccount C (fst (deriveUserCredentials req)) (snd (snd (deriveUserCredentials req)))
             (fst (snd (deriveUserCredentials req))) (oqSSHKey req) (swVCS w)))"
proof -
  obtain x r where o: "OnboardEmployee clk (new_employee req) (buildCareSchedule oe req (swRepo w)) (swRepo w) = (x, r)" by fastforce
  show thesis
  proof (cases x)
    case (Inl e)
    with o assms that(1) show thesis by (auto simp: onboard_def)
  next
    case (Inr created)
    obtain username fullName email where d: "deriveUserCredentials req = (username, fullName, email)" by (metis prod_cases3)
    obtain a ws hw v s h where p: "provisionITResources G req (emEmployeeID created) username email fullName (swVCS w, swWorkspace w, swHardware w) = ((a, ws, hw), v, s, h)"
      by (metis prod.collapse)
    then have "oqEmployeeType req \<noteq> ''feline'' \<longrightarrow> v = (case onVCS G of None \<Rightarrow> swVCS w | Some C \<Rightarrow> snd (vcProvisionAccount C username email fullName (oqSSHKey req) (swVCS w)))"
      by (auto simp: provisionITResources_def Let_def split: prod.splits option.splits)
    note v = this
    have "\<exists>res. onboard G oe ok clk req w = (Inr res, publish (onPublisher G) (EmployeeOnboarded res) (w\<lparr>swRepo := r, swVCS := v, swWorkspace := s, swHardware := h\<rparr>))
        \<and> orEmployeeID res = emEmployeeID created"
      by (simp add: onboard_def o Inr d p Let_def)
    then obtain res where "out = Inr res" "w' = publish (onPublisher G) (EmployeeOnboarded res) (w\<lparr>swRepo := r, swVCS := v, swWorkspace := s, swHardware := h\<rparr>)"
      "orEmployeeID res = emEmployeeID created" using assms by auto
    with v d o Inr show thesis by (intro that(2) [of res created r]) (simp_all split: option.split)
  qed
qed

lemma onboarded_employee:
  assumes "OnboardEmployee clk e cs r = (Inr created, r')"
  shows "employees r' (emEmployeeID created) = Some created" and "emEmployeeID created \<noteq> []" and "emFirstName created = emFirstName e"
    and "emLastName created = emLastName e" and "emEmployeeType created = emEmployeeType e"
proof -
  have "created = fst (CreateEmployee (clk 0) e r)" and "employees r' = employees (snd (CreateEmployee (clk 0) e r))"
    using assms by (auto simp: OnboardEmployee_def UpsertCareSchedule_def Let_def split: if_splits prod.splits option.splits)
  then show "employees r' (emEmployeeID created) = Some created" and "emEmployeeID created \<noteq> []" and "emFirstName created = emFirstName e"
    and "emLastName created = emLastName e" and "emEmployeeType created = emEmployeeType e"
    by (simp_all add: CreateEmployee_def Let_def)
qed

lemma offboard_found:
  assumes "employees (swRepo w) (fqEmployeeID req) = Some emp" and "fqEmployeeID req \<noteq> []"
  defines "st \<equiv> (if fqTargetStatus req = [] then ''separated'' else fqTargetStatus req)"
  shows "\<exists>res w'. offboard E now req w = (Inr res, w') \<and> frEmployeeID res = emEmployeeID emp \<and> frStatus res = st
     \<and> frIdentityRevoked res \<and> frSessionsRevoked res \<and> frTradingHoldState res = (emEmployeeType emp = ''feline'')
     \<and> employees (swRepo w') = (employees (swRepo w))(fqEmployeeID req \<mapsto> emp\<lparr>emStatus := st, emUpdatedAt := now\<rparr>)
     \<and> swRepo w' = (if emEmployeeType emp = ''feline''
         then snd (svc_SetEmergencyMedicalHold now (fqEmployeeID req) True (snd (svc_UpdateEmployeeStatus now (fqEmployeeID req) st (swRepo w))))
         else snd (svc_UpdateEmployeeStatus now (fqEmployeeID req) st (swRepo w)))
     \<and> swVCS w' = (case ofVCS E of None \<Rightarrow> swVCS w | Some C \<Rightarrow> snd (vcRevokeAccess C (offboard_username emp) (swVCS w)))
     \<and> (ofAuth E = None \<longrightarrow> swAuth w' = swAuth w)"
proof -
  have st: "st \<noteq> []" by (simp add: st_def)
  define r where "r = snd (svc_UpdateEmployeeStatus now (fqEmployeeID req) st (swRepo w))"
  have u: "svc_UpdateEmployeeStatus now (fqEmployeeID req) st (swRepo w) = (Inr (emp\<lparr>emStatus := st, emUpdatedAt := now\<rparr>), r)"
    using assms(1,2) st by (simp add: r_def svc_UpdateEmployeeStatus_def UpdateEmployeeStatus_def Let_def)
  obtain c r2 where c: "svc_SetEmergencyMedicalHold now (fqEmployeeID req) True r = (Inr c, r2)" "csEmergencyMedicalHold c" "employees r2 = employees r"
    using assms(2) by (auto simp: svc_SetEmergencyMedicalHold_def SetEmergencyMedicalHold_def Let_def split: option.splits)
  have e: "employees r = (employees (swRepo w))(fqEmployeeID req \<mapsto> emp\<lparr>emStatus := st, emUpdatedAt := now\<rparr>)"
    using assms(1,2) st by (simp add: r_def svc_UpdateEmployeeStatus_def UpdateEmployeeStatus_def Let_def)
  have g: "GetEmployee (fqEmployeeID req) (swRepo w) = Inr emp" using assms(1,2) by (simp add: GetEmployee_def GetEmployeeByID_def)
  have u': "svc_UpdateEmployeeStatus now (fqEmployeeID req) (if fqTargetStatus req = [] then ''separated'' else fqTargetStatus req) (swRepo w)
      = (Inr (emp\<lparr>emStatus := st, emUpdatedAt := now\<rparr>), r)" using u by (simp only: st_def)
  show ?thesis
    unfolding offboard_def g u' r_def [symmetric]
    by (cases "emEmployeeType emp = ''feline''") (simp_all add: Let_def c e case_prod_unfold)
qed

lemma derive_username:
  assumes "emFirstName e = oqFirstName req" and "emLastName e = (if oqLastName req \<noteq> [] then Some (oqLastName req) else None)"
  shows "offboard_username e = fst (deriveUserCredentials req) \<longleftrightarrow>
    oqLastName req \<noteq> [] \<or> oqEmail req = [] \<or> hd (Split (CHR ''@'') (oqEmail req)) = ToLower (oqFirstName req)"
  using assms by (auto simp: offboard_username_def deriveUserCredentials_def Let_def)

text \<open>A human employee is onboarded by the saga and later offboarded, against a source control system that keeps a set of accounts.
  The offboarding reports that the identity is revoked; the account that the onboarding created is gone if and only if the employee has a
  last name, or has no e-mail address, or the local part of the address is the first name in lower case. In the remaining case the
  onboarding named the account after the address and the offboarding revokes another name.\<close>

theorem revokes_provisioned_account:
  assumes "onVCS G = Some C" and "ofVCS E = Some C" and "oqEmployeeType req = ''human''"
    and "\<And>u m n k v. snd (vcProvisionAccount C u m n k v) = insert u v" and "\<And>u v. snd (vcRevokeAccess C u v) = v - {u}"
    and "onboard G oe ok clk req w = (Inr res, w1)"
    and "swVCS w2 = swVCS w1" and "employees (swRepo w2) (orEmployeeID res) = employees (swRepo w1) (orEmployeeID res)"
  shows "\<exists>out w3. offboard E now \<lparr>fqEmployeeID = orEmployeeID res, fqReason = reason, fqTargetStatus = st\<rparr> w2 = (Inr out, w3) \<and> frIdentityRevoked out
    \<and> (fst (deriveUserCredentials req) \<notin> swVCS w3
         \<longleftrightarrow> oqLastName req \<noteq> [] \<or> oqEmail req = [] \<or> hd (Split (CHR ''@'') (oqEmail req)) = ToLower (oqFirstName req))"
  using assms(6)
proof (cases rule: onboard_cases)
  case (onboarded created r res')
  then have res: "orEmployeeID res = emEmployeeID created" by simp
  note e = onboarded_employee [OF onboarded(2)]
  have v: "swVCS w1 = insert (fst (deriveUserCredentials req)) (swVCS w)" using onboarded(5) assms(1,3,4) by simp
  let ?q = "\<lparr>fqEmployeeID = orEmployeeID res, fqReason = reason, fqTargetStatus = st\<rparr>"
  have "employees (swRepo w2) (fqEmployeeID ?q) = Some created" "fqEmployeeID ?q \<noteq> []" using e res assms(8) onboarded(4) by simp_all
  from offboard_found [OF this, of E now] obtain out w3 where o: "offboard E now ?q w2 = (Inr out, w3)" "frIdentityRevoked out"
    "swVCS w3 = swVCS w2 - {offboard_username created}" using assms(2,5) by auto
  have "offboard_username created = fst (deriveUserCredentials req) \<longleftrightarrow>
      oqLastName req \<noteq> [] \<or> oqEmail req = [] \<or> hd (Split (CHR ''@'') (oqEmail req)) = ToLower (oqFirstName req)"
    using e by (intro derive_username) (simp_all add: new_employee_def)
  moreover have "fst (deriveUserCredentials req) \<notin> swVCS w3 \<longleftrightarrow> offboard_username created = fst (deriveUserCredentials req)"
    unfolding o(3) assms(7) v by (simp add: eq_commute)
  ultimately have "fst (deriveUserCredentials req) \<notin> swVCS w3 \<longleftrightarrow>
      oqLastName req \<noteq> [] \<or> oqEmail req = [] \<or> hd (Split (CHR ''@'') (oqEmail req)) = ToLower (oqFirstName req)" by (rule trans [rotated])
  with o(1,2) show ?thesis by (intro exI conjI)
qed simp

definition account_set :: "string set VCSClient" where
  "account_set = \<lparr>vcProvisionAccount = (\<lambda>u m n k v. (None, insert u v)), vcRevokeAccess = (\<lambda>u v. (True, v - {u}))\<rparr>"

definition demo_saga :: "(string set, unit, unit) OnboardingSaga" where
  "demo_saga = \<lparr>onVCS = Some account_set, onWorkspace = None, onHardware = None, onPublisher = False\<rparr>"

definition demo_engine :: "(string set, unit, unit, unit, unit) OffboardingEngine" where
  "demo_engine = \<lparr>ofVCS = Some account_set, ofWorkspace = None, ofHardware = None, ofAuth = None, ofHR = None, ofPublisher = False\<rparr>"

definition demo_hire :: OnboardingRequest where
  "demo_hire = \<lparr>oqEmployeeID = ''e1'', oqEmployeeType = ''human'', oqFirstName = ''Dana'', oqLastName = [], oqEmail = ''d@x'', oqRoleTitle = ''r'', oqDepartment = ''d'',
     oqDietaryPlan = [], oqFeedingTimes = [], oqCaretakerID = [], oqSSHKey = [], oqStorageQuota = []\<rparr>"

definition demo_saga_world :: "(string set, unit, unit, unit, unit) saga_world" where
  "demo_saga_world = \<lparr>swRepo = NewMockRepository 0, swVCS = {}, swWorkspace = (), swHardware = (), swAuth = (), swHR = (), swEvents = []\<rparr>"

theorem revokes_provisioned_account_witness:
  "\<exists>res w1 out w3. onboard demo_saga [] [] (\<lambda>n. int n) demo_hire demo_saga_world = (Inr res, w1)
    \<and> offboard demo_engine 9 \<lparr>fqEmployeeID = orEmployeeID res, fqReason = [], fqTargetStatus = []\<rparr> w1 = (Inr out, w3)
    \<and> frIdentityRevoked out \<and> ''d'' \<in> swVCS w3"
proof -
  have ok: "\<exists>c r. OnboardEmployee (\<lambda>n. int n) (new_employee demo_hire) cs r0 = (Inr c, r)" for cs r0
    by (cases "CreateEmployee 0 (new_employee demo_hire) r0")
      (simp add: OnboardEmployee_def new_employee_def demo_hire_def Let_def split: option.split)
  obtain out w1 where o: "onboard demo_saga [] [] (\<lambda>n. int n) demo_hire demo_saga_world = (out, w1)" by fastforce
  from o obtain res where r: "out = Inr res"
  proof (cases rule: onboard_cases)
    case (failed e)
    then show ?thesis using o ok [of "buildCareSchedule [] demo_hire (swRepo demo_saga_world)" "swRepo demo_saga_world"]
      by (auto simp: onboard_def Let_def split: prod.splits)
  qed
  have d: "fst (deriveUserCredentials demo_hire) = ''d''" "hd (Split (CHR ''@'') (oqEmail demo_hire)) \<noteq> ToLower (oqFirstName demo_hire)"
    by code_simp+
  have "onVCS demo_saga = Some account_set" "ofVCS demo_engine = Some account_set" "oqEmployeeType demo_hire = ''human''"
    by (simp_all add: demo_saga_def demo_engine_def demo_hire_def)
  from revokes_provisioned_account [OF this _ _ o [unfolded r], of w1 9 "[]" "[]"] d o r show ?thesis
    by (auto simp: account_set_def demo_hire_def)
qed

end
