(* ===== verification/WorkforceGrpc.thy ===== *)
theory WorkforceGrpc
  imports Saga CoreStatements "HOL-Library.Word"
begin

text \<open>
  The gRPC server of the workforce service, \<open>cmd/workforce-api\<close>: messages of plain values, the
  conversions between them and the structs of the repository, and one handler per call. A string pointer
  travels as a string that is empty for nil; a score that is a pointer travels with a flag in a request and
  as zero for nil in a response.
\<close>

section \<open>Pointers\<close>

definition strPtr :: "string \<Rightarrow> string option" where
  "strPtr s = (if s = [] then None else Some s)"

definition strVal :: "string option \<Rightarrow> string" where
  "strVal p = (case p of None \<Rightarrow> [] | Some s \<Rightarrow> s)"

definition floatVal :: "float64 option \<Rightarrow> float64" where
  "floatVal p = (case p of None \<Rightarrow> Fin 0 | Some v \<Rightarrow> v)"

definition time_text :: "time \<Rightarrow> string" where
  "time_text t = (if t = zeroTime then [] else rfc3339 t)"

definition time_ptr_text :: "time option \<Rightarrow> string" where
  "time_ptr_text p = (case p of None \<Rightarrow> [] | Some t \<Rightarrow> rfc3339 t)"

section \<open>Messages\<close>

record employee_message =
  peEmployeeID :: string
  peEmployeeType :: string
  peFirstName :: string
  peLastName :: string
  peEmail :: string
  peRoleTitle :: string
  peDepartment :: string
  peStatus :: string
  peHiredAt :: string
  peCreatedAt :: string
  peUpdatedAt :: string

record task_message =
  ptChecklistID :: string
  ptEmployeeID :: string
  ptTaskName :: string
  ptCategory :: string
  ptIsCompleted :: bool
  ptCompletedAt :: string
  ptAssignedTo :: string
  ptCreatedAt :: string
  ptUpdatedAt :: string

record care_message =
  pcScheduleID :: string
  pcFelineID :: string
  pcDietaryPlan :: string
  pcFeedingTimes :: "string list"
  pcSpecialMedicalNeeds :: string
  pcPreferredPerchZone :: string
  pcEmergencyMedicalHold :: bool
  pcCaretakerID :: string
  pcCreatedAt :: string
  pcUpdatedAt :: string

record leave_message =
  plLeaveID :: string
  plEmployeeID :: string
  plLeaveType :: string
  plStartDate :: string
  plEndDate :: string
  plStatus :: string
  plReason :: string
  plCreatedAt :: string

record review_message =
  prReviewID :: string
  prEmployeeID :: string
  prReviewType :: string
  prReviewPeriod :: string
  prPhase :: string
  prScheduledFor :: string
  prStatus :: string
  prReviewerID :: string
  prScore :: float64
  prNotes :: string
  prSelfAppraisal :: string
  prSelfScore :: float64
  prPeerFeedback :: string
  prPeerScore :: float64
  prPeerReviewerID :: string
  prManagerAssessment :: string
  prManagerScore :: float64
  prKPIRatings :: string
  prWellnessAuditScore :: float64
  prHabitatRecommendations :: string
  prClinicalAuditorID :: string
  prVHRRecordID :: string
  prCompletedAt :: string
  prCreatedAt :: string
  prUpdatedAt :: string

text \<open>A request to create or update a review holds the fields of the message and the flags of the scores that are set.\<close>

record review_request = review_message +
  pqHasScore :: bool
  pqHasSelfScore :: bool
  pqHasPeerScore :: bool
  pqHasManagerScore :: bool
  pqHasWellnessScore :: bool

record vhr_message =
  pvRecordID :: string
  pvFelineID :: string
  pvVeterinarianID :: string
  pvVisitDate :: string
  pvWeightKG :: float64
  pvDentalScore :: "32 word"
  pvVaccinationStatus :: string
  pvPrescriptions :: string
  pvClinicalNotes :: string
  pvCreatedAt :: string

record incident_message =
  piIncidentID :: string
  piTitle :: string
  piCategory :: string
  piInvolvedFelineID :: string
  piInvolvedHumanID :: string
  piSeverity :: string
  piStatus :: string
  piDescription :: string
  piResolutionNotes :: string
  piReportedAt :: string
  piResolvedAt :: string

section \<open>Conversions\<close>

definition toProtoEmployee :: "Employee \<Rightarrow> employee_message" where
  "toProtoEmployee e = \<lparr>peEmployeeID = emEmployeeID e, peEmployeeType = emEmployeeType e, peFirstName = emFirstName e,
     peLastName = strVal (emLastName e), peEmail = strVal (emEmail e), peRoleTitle = emRoleTitle e, peDepartment = emDepartment e,
     peStatus = emStatus e, peHiredAt = time_text (emHiredAt e), peCreatedAt = time_text (emCreatedAt e), peUpdatedAt = time_text (emUpdatedAt e)\<rparr>"

definition toProtoOnboardingTask :: "OnboardingTask \<Rightarrow> task_message" where
  "toProtoOnboardingTask t = \<lparr>ptChecklistID = tkChecklistID t, ptEmployeeID = tkEmployeeID t, ptTaskName = tkTaskName t, ptCategory = tkCategory t,
     ptIsCompleted = tkIsCompleted t, ptCompletedAt = time_ptr_text (tkCompletedAt t), ptAssignedTo = strVal (tkAssignedTo t),
     ptCreatedAt = time_text (tkCreatedAt t), ptUpdatedAt = time_text (tkUpdatedAt t)\<rparr>"

definition toProtoCareSchedule :: "CareSchedule \<Rightarrow> care_message" where
  "toProtoCareSchedule c = \<lparr>pcScheduleID = csScheduleID c, pcFelineID = csFelineID c, pcDietaryPlan = csDietaryPlan c,
     pcFeedingTimes = csFeedingTimes c, pcSpecialMedicalNeeds = strVal (csSpecialMedicalNeeds c), pcPreferredPerchZone = strVal (csPreferredPerchZone c),
     pcEmergencyMedicalHold = csEmergencyMedicalHold c, pcCaretakerID = strVal (csCaretakerID c),
     pcCreatedAt = time_text (csCreatedAt c), pcUpdatedAt = time_text (csUpdatedAt c)\<rparr>"

definition toProtoLeaveRequest :: "LeaveRequest \<Rightarrow> leave_message" where
  "toProtoLeaveRequest q = \<lparr>plLeaveID = lvLeaveID q, plEmployeeID = lvEmployeeID q, plLeaveType = lvLeaveType q, plStartDate = lvStartDate q,
     plEndDate = lvEndDate q, plStatus = lvStatus q, plReason = strVal (lvReason q), plCreatedAt = time_text (lvCreatedAt q)\<rparr>"

definition toProtoReviewCycle :: "ReviewCycle \<Rightarrow> review_message" where
  "toProtoReviewCycle c = \<lparr>prReviewID = rvReviewID c, prEmployeeID = rvEmployeeID c, prReviewType = rvReviewType c, prReviewPeriod = rvReviewPeriod c,
     prPhase = rvPhase c, prScheduledFor = rvScheduledFor c, prStatus = rvStatus c, prReviewerID = strVal (rvReviewerID c),
     prScore = floatVal (rvScore c), prNotes = strVal (rvNotes c), prSelfAppraisal = strVal (rvSelfAppraisal c), prSelfScore = floatVal (rvSelfScore c),
     prPeerFeedback = strVal (rvPeerFeedback c), prPeerScore = floatVal (rvPeerScore c), prPeerReviewerID = strVal (rvPeerReviewerID c),
     prManagerAssessment = strVal (rvManagerAssessment c), prManagerScore = floatVal (rvManagerScore c), prKPIRatings = strVal (rvKPIRatings c),
     prWellnessAuditScore = floatVal (rvWellnessAuditScore c), prHabitatRecommendations = strVal (rvHabitatRecommendations c),
     prClinicalAuditorID = strVal (rvClinicalAuditorID c), prVHRRecordID = strVal (rvVHRRecordID c),
     prCompletedAt = time_ptr_text (rvCompletedAt c), prCreatedAt = time_text (rvCreatedAt c), prUpdatedAt = time_text (rvUpdatedAt c)\<rparr>"

definition toProtoVHR :: "VHRRecord \<Rightarrow> vhr_message" where
  "toProtoVHR v = \<lparr>pvRecordID = vhRecordID v, pvFelineID = vhFelineID v, pvVeterinarianID = strVal (vhVeterinarianID v), pvVisitDate = vhVisitDate v,
     pvWeightKG = vhWeightKG v, pvDentalScore = word_of_int (vhDentalScore v), pvVaccinationStatus = vhVaccinationStatus v,
     pvPrescriptions = strVal (vhPrescriptions v), pvClinicalNotes = vhClinicalNotes v, pvCreatedAt = rfc3339 (vhCreatedAt v)\<rparr>"

definition toProtoIncident :: "WorkplaceIncident \<Rightarrow> incident_message" where
  "toProtoIncident i = \<lparr>piIncidentID = inIncidentID i, piTitle = inTitle i, piCategory = inCategory i, piInvolvedFelineID = strVal (inInvolvedFelineID i),
     piInvolvedHumanID = strVal (inInvolvedHumanID i), piSeverity = inSeverity i, piStatus = inStatus i, piDescription = inDescription i,
     piResolutionNotes = strVal (inResolutionNotes i), piReportedAt = time_text (inReportedAt i), piResolvedAt = time_ptr_text (inResolvedAt i)\<rparr>"

section \<open>Handlers\<close>

text \<open>An error is a status of the handler, an error that the service returned, or the unknown error of another service.\<close>

datatype rpc_error = Status code | Service wfs_error | Unknown

fun reply :: "('a \<Rightarrow> 'b) \<Rightarrow> (wfs_error + 'a) \<times> wfRepository \<Rightarrow> (rpc_error + 'b) \<times> wfRepository" where
  "reply f (Inl e, r) = (Inl (Service e), r)"
| "reply f (Inr x, r) = (Inr (f x), r)"

fun reply_get :: "('a \<Rightarrow> 'b) \<Rightarrow> wfs_error + 'a \<Rightarrow> rpc_error + 'b" where
  "reply_get f (Inl e) = Inl (Service e)"
| "reply_get f (Inr x) = Inr (f x)"

subsection \<open>Employees and care\<close>

definition grpc_GetEmployee :: "string \<Rightarrow> wfRepository \<Rightarrow> rpc_error + employee_message" where
  "grpc_GetEmployee i r = reply_get toProtoEmployee (GetEmployee i r)"

definition grpc_ListEmployees :: "string list \<Rightarrow> string \<Rightarrow> string \<Rightarrow> wfRepository \<Rightarrow> employee_message list" where
  "grpc_ListEmployees ord employeeType status r = map toProtoEmployee (ListEmployees ord employeeType status r)"

definition employee_of :: "employee_message \<Rightarrow> Employee" where
  "employee_of m = \<lparr>emEmployeeID = peEmployeeID m, emEmployeeType = peEmployeeType m, emFirstName = peFirstName m, emLastName = strPtr (peLastName m),
     emEmail = strPtr (peEmail m), emRoleTitle = peRoleTitle m, emDepartment = peDepartment m, emStatus = peStatus m,
     emHiredAt = zeroTime, emCreatedAt = zeroTime, emUpdatedAt = zeroTime\<rparr>"

definition grpc_CreateEmployee :: "(nat \<Rightarrow> time) \<Rightarrow> employee_message \<Rightarrow> wfRepository \<Rightarrow> (rpc_error + employee_message) \<times> wfRepository" where
  "grpc_CreateEmployee clk m r = reply toProtoEmployee (OnboardEmployee clk (employee_of (m\<lparr>peEmployeeID := [], peStatus := []\<rparr>)) None r)"

definition care_of :: "care_message \<Rightarrow> CareSchedule" where
  "care_of m = \<lparr>csScheduleID = [], csFelineID = pcFelineID m, csDietaryPlan = pcDietaryPlan m, csFeedingTimes = pcFeedingTimes m,
     csSpecialMedicalNeeds = strPtr (pcSpecialMedicalNeeds m), csPreferredPerchZone = strPtr (pcPreferredPerchZone m),
     csEmergencyMedicalHold = pcEmergencyMedicalHold m, csCaretakerID = strPtr (pcCaretakerID m), csCreatedAt = zeroTime, csUpdatedAt = zeroTime\<rparr>"

definition grpc_OnboardEmployee ::
    "(nat \<Rightarrow> time) \<Rightarrow> employee_message option \<Rightarrow> care_message option \<Rightarrow> wfRepository \<Rightarrow> (rpc_error + employee_message) \<times> wfRepository" where
  "grpc_OnboardEmployee clk emp care r = (case emp of
     None \<Rightarrow> (Inl (Status InvalidArgument), r)
   | Some m \<Rightarrow> reply toProtoEmployee (OnboardEmployee clk (employee_of m) (map_option care_of care) r))"

definition grpc_UpdateEmployeeStatus :: "time \<Rightarrow> string \<Rightarrow> string \<Rightarrow> wfRepository \<Rightarrow> (rpc_error + employee_message) \<times> wfRepository" where
  "grpc_UpdateEmployeeStatus now i status r = reply toProtoEmployee (svc_UpdateEmployeeStatus now i status r)"

definition svc_ListOnboardingChecklist :: "string list \<Rightarrow> string \<Rightarrow> wfRepository \<Rightarrow> wfs_error + OnboardingTask list" where
  "svc_ListOnboardingChecklist ord employeeID r = (if employeeID = [] then Inl (Missing ''employee_id'') else Inr (ListOnboardingChecklist ord employeeID r))"

definition grpc_ListOnboardingChecklist :: "string list \<Rightarrow> string \<Rightarrow> wfRepository \<Rightarrow> rpc_error + task_message list" where
  "grpc_ListOnboardingChecklist ord employeeID r = reply_get (map toProtoOnboardingTask) (svc_ListOnboardingChecklist ord employeeID r)"

definition grpc_UpdateOnboardingTask :: "time \<Rightarrow> string \<Rightarrow> bool \<Rightarrow> wfRepository \<Rightarrow> (rpc_error + task_message) \<times> wfRepository" where
  "grpc_UpdateOnboardingTask now i isCompleted r = reply toProtoOnboardingTask (svc_UpdateOnboardingTask now i isCompleted r)"

definition grpc_GetCareSchedule :: "bool \<Rightarrow> string \<Rightarrow> wfRepository \<Rightarrow> rpc_error + care_message" where
  "grpc_GetCareSchedule enableFeline f r = (if \<not> enableFeline then Inl (Status FailedPrecondition) else reply_get toProtoCareSchedule (GetCareSchedule f r))"

definition grpc_UpdateCareSchedule :: "bool \<Rightarrow> time \<Rightarrow> care_message \<Rightarrow> wfRepository \<Rightarrow> (rpc_error + care_message) \<times> wfRepository" where
  "grpc_UpdateCareSchedule enableFeline now m r = (if \<not> enableFeline then (Inl (Status FailedPrecondition), r)
     else reply toProtoCareSchedule (UpdateCareSchedule now (care_of m) r))"

definition grpc_SetMedicalHold :: "bool \<Rightarrow> time \<Rightarrow> string \<Rightarrow> bool \<Rightarrow> wfRepository \<Rightarrow> (rpc_error + care_message) \<times> wfRepository" where
  "grpc_SetMedicalHold enableFeline now f hold r = (if \<not> enableFeline then (Inl (Status FailedPrecondition), r)
     else reply toProtoCareSchedule (svc_SetEmergencyMedicalHold now f hold r))"

subsection \<open>Leave, reviews, health records and incidents\<close>

definition grpc_SubmitLeaveRequest :: "time \<Rightarrow> leave_message \<Rightarrow> wfRepository \<Rightarrow> (rpc_error + leave_message) \<times> wfRepository" where
  "grpc_SubmitLeaveRequest now m r = reply toProtoLeaveRequest (svc_CreateLeaveRequest now
     \<lparr>lpEmployeeID = plEmployeeID m, lpLeaveType = plLeaveType m, lpStartDate = plStartDate m, lpEndDate = plEndDate m, lpReason = strPtr (plReason m)\<rparr> r)"

definition svc_GetLeaveRequest :: "string \<Rightarrow> wfRepository \<Rightarrow> wfs_error + LeaveRequest" where
  "svc_GetLeaveRequest i r = (if i = [] then Inl (Missing ''leave_id'') else map_sum Repo id (GetLeaveRequestByID i r))"

definition grpc_GetLeaveRequest :: "string \<Rightarrow> wfRepository \<Rightarrow> rpc_error + leave_message" where
  "grpc_GetLeaveRequest i r = reply_get toProtoLeaveRequest (svc_GetLeaveRequest i r)"

definition grpc_ListLeaveRequests :: "string list \<Rightarrow> string \<Rightarrow> string \<Rightarrow> wfRepository \<Rightarrow> rpc_error + leave_message list" where
  "grpc_ListLeaveRequests ord employeeID status r = reply_get (map toProtoLeaveRequest) (svc_ListLeaveRequests ord employeeID status r)"

definition grpc_UpdateLeaveStatus :: "time \<Rightarrow> string \<Rightarrow> string \<Rightarrow> wfRepository \<Rightarrow> (rpc_error + leave_message) \<times> wfRepository" where
  "grpc_UpdateLeaveStatus now i status r = reply toProtoLeaveRequest (svc_UpdateLeaveRequestStatus now i status r)"

definition flagged :: "bool \<Rightarrow> float64 \<Rightarrow> float64 option" where
  "flagged has v = (if has then Some v else None)"

definition create_params :: "review_request \<Rightarrow> ReviewCycle" where
  "create_params m = \<lparr>rvReviewID = [], rvEmployeeID = prEmployeeID m, rvReviewType = prReviewType m, rvReviewPeriod = prReviewPeriod m, rvPhase = prPhase m,
     rvScheduledFor = prScheduledFor m, rvStatus = [], rvReviewerID = strPtr (prReviewerID m), rvScore = None, rvNotes = strPtr (prNotes m),
     rvSelfAppraisal = strPtr (prSelfAppraisal m), rvSelfScore = flagged (pqHasSelfScore m) (prSelfScore m),
     rvPeerFeedback = strPtr (prPeerFeedback m), rvPeerScore = flagged (pqHasPeerScore m) (prPeerScore m), rvPeerReviewerID = strPtr (prPeerReviewerID m),
     rvManagerAssessment = strPtr (prManagerAssessment m), rvManagerScore = flagged (pqHasManagerScore m) (prManagerScore m), rvKPIRatings = strPtr (prKPIRatings m),
     rvWellnessAuditScore = flagged (pqHasWellnessScore m) (prWellnessAuditScore m), rvHabitatRecommendations = strPtr (prHabitatRecommendations m),
     rvClinicalAuditorID = strPtr (prClinicalAuditorID m), rvVHRRecordID = strPtr (prVHRRecordID m), rvCompletedAt = None,
     rvCreatedAt = zeroTime, rvUpdatedAt = zeroTime\<rparr>"

definition grpc_CreateReviewCycle :: "time \<Rightarrow> review_request \<Rightarrow> wfRepository \<Rightarrow> (rpc_error + review_message) \<times> wfRepository" where
  "grpc_CreateReviewCycle now m r = reply toProtoReviewCycle (svc_CreateReviewCycle now (create_params m) r)"

definition svc_GetReviewCycle :: "string \<Rightarrow> wfRepository \<Rightarrow> wfs_error + ReviewCycle" where
  "svc_GetReviewCycle i r = (if i = [] then Inl (Missing ''review_id'') else map_sum Repo id (GetReviewCycleByID i r))"

definition grpc_GetReviewCycle :: "string \<Rightarrow> wfRepository \<Rightarrow> rpc_error + review_message" where
  "grpc_GetReviewCycle i r = reply_get toProtoReviewCycle (svc_GetReviewCycle i r)"

definition grpc_ListReviewCycles :: "string list \<Rightarrow> string \<Rightarrow> string \<Rightarrow> string \<Rightarrow> wfRepository \<Rightarrow> rpc_error + review_message list" where
  "grpc_ListReviewCycles ord employeeID status reviewType r = reply_get (map toProtoReviewCycle) (svc_ListReviewCycles ord employeeID status reviewType r)"

definition update_params :: "review_request \<Rightarrow> UpdateReviewCycleParams" where
  "update_params m = \<lparr>upID = prReviewID m, upReviewPeriod = strPtr (prReviewPeriod m), upPhase = strPtr (prPhase m), upStatus = strPtr (prStatus m),
     upReviewerID = strPtr (prReviewerID m), upScore = flagged (pqHasScore m) (prScore m), upNotes = strPtr (prNotes m),
     upSelfAppraisal = strPtr (prSelfAppraisal m), upSelfScore = flagged (pqHasSelfScore m) (prSelfScore m), upPeerFeedback = strPtr (prPeerFeedback m),
     upPeerScore = flagged (pqHasPeerScore m) (prPeerScore m), upPeerReviewerID = strPtr (prPeerReviewerID m),
     upManagerAssessment = strPtr (prManagerAssessment m), upManagerScore = flagged (pqHasManagerScore m) (prManagerScore m), upKPIRatings = strPtr (prKPIRatings m),
     upWellnessAuditScore = flagged (pqHasWellnessScore m) (prWellnessAuditScore m), upHabitatRecommendations = strPtr (prHabitatRecommendations m),
     upClinicalAuditorID = strPtr (prClinicalAuditorID m), upVHRRecordID = strPtr (prVHRRecordID m), upCompletedAt = None\<rparr>"

definition grpc_UpdateReviewCycle :: "time \<Rightarrow> review_request \<Rightarrow> wfRepository \<Rightarrow> (rpc_error + review_message) \<times> wfRepository" where
  "grpc_UpdateReviewCycle now m r = reply toProtoReviewCycle (svc_UpdateReviewCycle now (update_params m) r)"

definition grpc_SubmitSelfAppraisal :: "time \<Rightarrow> string \<Rightarrow> string \<Rightarrow> float64 \<Rightarrow> wfRepository \<Rightarrow> (rpc_error + review_message) \<times> wfRepository" where
  "grpc_SubmitSelfAppraisal now i appraisal score r = reply toProtoReviewCycle (SubmitSelfAppraisal now i appraisal score r)"

definition grpc_SubmitPeerFeedback :: "time \<Rightarrow> string \<Rightarrow> string \<Rightarrow> string \<Rightarrow> float64 \<Rightarrow> wfRepository \<Rightarrow> (rpc_error + review_message) \<times> wfRepository" where
  "grpc_SubmitPeerFeedback now i peer feedback score r = reply toProtoReviewCycle (SubmitPeerFeedback now i peer feedback score r)"

definition grpc_SubmitManagerAssessment ::
    "time \<Rightarrow> string \<Rightarrow> string \<Rightarrow> string \<Rightarrow> float64 \<Rightarrow> string \<Rightarrow> wfRepository \<Rightarrow> (rpc_error + review_message) \<times> wfRepository" where
  "grpc_SubmitManagerAssessment now i manager assessment score kpi r = reply toProtoReviewCycle (SubmitManagerAssessment now i manager assessment score kpi r)"

definition grpc_SubmitVeterinaryAudit ::
    "time \<Rightarrow> string \<Rightarrow> string \<Rightarrow> float64 \<Rightarrow> string \<Rightarrow> string \<Rightarrow> wfRepository \<Rightarrow> (rpc_error + review_message) \<times> wfRepository" where
  "grpc_SubmitVeterinaryAudit now i auditor score recommendations vhr r =
     reply toProtoReviewCycle (SubmitVeterinaryAudit now i auditor score recommendations (strPtr vhr) r)"

definition vhr_of :: "vhr_message \<Rightarrow> VHRRecord" where
  "vhr_of m = \<lparr>vhRecordID = [], vhFelineID = pvFelineID m, vhVeterinarianID = strPtr (pvVeterinarianID m), vhVisitDate = pvVisitDate m, vhWeightKG = pvWeightKG m,
     vhDentalScore = sint (pvDentalScore m), vhVaccinationStatus = pvVaccinationStatus m, vhPrescriptions = strPtr (pvPrescriptions m),
     vhClinicalNotes = pvClinicalNotes m, vhCreatedAt = zeroTime, vhUpdatedAt = zeroTime\<rparr>"

definition grpc_CreateVHRRecord :: "bool \<Rightarrow> time \<Rightarrow> vhr_message \<Rightarrow> wfRepository \<Rightarrow> (rpc_error + vhr_message) \<times> wfRepository" where
  "grpc_CreateVHRRecord enableFeline now m r = (if \<not> enableFeline then (Inl (Status FailedPrecondition), r)
     else reply toProtoVHR (svc_CreateVHRRecord now (vhr_of m) r))"

definition grpc_ListVHRRecords :: "bool \<Rightarrow> string list \<Rightarrow> string \<Rightarrow> wfRepository \<Rightarrow> rpc_error + vhr_message list" where
  "grpc_ListVHRRecords enableFeline ord f r = (if \<not> enableFeline then Inl (Status FailedPrecondition) else Inr (map toProtoVHR (ListVHRRecords ord f r)))"

definition incident_of :: "incident_message \<Rightarrow> WorkplaceIncident" where
  "incident_of m = \<lparr>inIncidentID = [], inTitle = piTitle m, inCategory = piCategory m, inInvolvedFelineID = strPtr (piInvolvedFelineID m),
     inInvolvedHumanID = strPtr (piInvolvedHumanID m), inSeverity = piSeverity m, inStatus = [], inDescription = piDescription m,
     inResolutionNotes = None, inReportedAt = zeroTime, inResolvedAt = None\<rparr>"

definition grpc_CreateIncident :: "time \<Rightarrow> incident_message \<Rightarrow> wfRepository \<Rightarrow> (rpc_error + incident_message) \<times> wfRepository" where
  "grpc_CreateIncident now m r = reply toProtoIncident (svc_CreateWorkplaceIncident now (incident_of m) r)"

definition grpc_ListIncidents :: "string list \<Rightarrow> string \<Rightarrow> string \<Rightarrow> wfRepository \<Rightarrow> incident_message list" where
  "grpc_ListIncidents ord severity status r =
     map toProtoIncident (filter (\<lambda>i. severity = [] \<or> inSeverity i = severity) (ListWorkplaceIncidents ord status r))"

definition grpc_UpdateIncidentStatus :: "time \<Rightarrow> string \<Rightarrow> string \<Rightarrow> string \<Rightarrow> wfRepository \<Rightarrow> (rpc_error + incident_message) \<times> wfRepository" where
  "grpc_UpdateIncidentStatus now i status notes r = reply toProtoIncident (svc_UpdateWorkplaceIncidentStatus now i status notes r)"

section \<open>What a client reads back\<close>

lemma strVal_strPtr [simp]: "strVal (strPtr s) = s"
  by (simp add: strVal_def strPtr_def)

lemma floatVal_flagged [simp]: "floatVal (flagged b x) = (if b then x else Fin 0)"
  by (simp add: floatVal_def flagged_def)

lemma strVal_None [simp]: "strVal None = []"
  by (simp add: strVal_def)

lemma floatVal_None [simp]: "floatVal None = Fin 0"
  by (simp add: floatVal_def)

lemma reply_Inr: "reply f p = (Inr y, r') \<longleftrightarrow> (\<exists>x. p = (Inr x, r') \<and> y = f x)"
  by (cases p; cases "fst p") auto

lemma svc_CreateReviewCycle_ok:
  assumes "svc_CreateReviewCycle now p r = (Inr c, r')"
  shows "c = fst (CreateReviewCycle now (new_review p) r)" and "reviewCycles r' (rvReviewID c) = Some c" and "rvReviewID c \<noteq> []"
proof -
  have "CreateReviewCycle now (new_review p) r = (c, r')"
    using assms by (auto simp: svc_CreateReviewCycle_def split: if_splits prod.splits)
  then show "c = fst (CreateReviewCycle now (new_review p) r)" "reviewCycles r' (rvReviewID c) = Some c" "rvReviewID c \<noteq> []"
    by (auto simp: CreateReviewCycle_def Let_def new_review_def)
qed

definition sent_review :: "time \<Rightarrow> string \<Rightarrow> review_request \<Rightarrow> review_message" where
  "sent_review now i m = \<lparr>prReviewID = i, prEmployeeID = prEmployeeID m, prReviewType = prReviewType m,
     prReviewPeriod = (if prReviewPeriod m = [] then ''2026-Q3'' else prReviewPeriod m), prPhase = (if prPhase m = [] then ''self_appraisal'' else prPhase m),
     prScheduledFor = prScheduledFor m, prStatus = ''scheduled'', prReviewerID = prReviewerID m, prScore = Fin 0, prNotes = prNotes m,
     prSelfAppraisal = prSelfAppraisal m, prSelfScore = (if pqHasSelfScore m then prSelfScore m else Fin 0), prPeerFeedback = prPeerFeedback m,
     prPeerScore = (if pqHasPeerScore m then prPeerScore m else Fin 0), prPeerReviewerID = prPeerReviewerID m, prManagerAssessment = prManagerAssessment m,
     prManagerScore = (if pqHasManagerScore m then prManagerScore m else Fin 0), prKPIRatings = prKPIRatings m,
     prWellnessAuditScore = (if pqHasWellnessScore m then prWellnessAuditScore m else Fin 0), prHabitatRecommendations = prHabitatRecommendations m,
     prClinicalAuditorID = prClinicalAuditorID m, prVHRRecordID = prVHRRecordID m, prCompletedAt = [], prCreatedAt = time_text now, prUpdatedAt = time_text now\<rparr>"

text \<open>C39: What a client sends when it creates a review is what it reads back. After a creation through the gRPC server succeeded, the
  call to read the review by the identifier in the answer returns the message of the answer, and that message has every field as sent:
  period, phase and status with their defaults, a score that was not sent as zero, and the identifier and times from the server.\<close>

theorem review_roundtrip:
  assumes "grpc_CreateReviewCycle now m r = (Inr msg, r')"
  shows "grpc_GetReviewCycle (prReviewID msg) r' = Inr msg \<and> msg = sent_review now (prReviewID msg) m"
proof -
  from assms obtain c where c: "svc_CreateReviewCycle now (create_params m) r = (Inr c, r')" and msg: "msg = toProtoReviewCycle c"
    by (auto simp: grpc_CreateReviewCycle_def reply_Inr)
  note ok = svc_CreateReviewCycle_ok [OF c]
  have i: "prReviewID msg = rvReviewID c" by (simp add: msg toProtoReviewCycle_def)
  have "grpc_GetReviewCycle (prReviewID msg) r' = Inr msg"
    unfolding i using ok(2,3) by (simp add: grpc_GetReviewCycle_def svc_GetReviewCycle_def GetReviewCycleByID_def msg)
  moreover have "msg = sent_review now (prReviewID msg) m"
    unfolding i unfolding msg ok(1) sent_review_def
    by (simp add: toProtoReviewCycle_def CreateReviewCycle_def new_review_def create_params_def time_ptr_text_def Let_def)
  ultimately show ?thesis by blast
qed

definition demo_review_request :: review_request where
  "demo_review_request = \<lparr>prReviewID = [], prEmployeeID = ''e'', prReviewType = ''performance'', prReviewPeriod = [], prPhase = [], prScheduledFor = ''2026-08-01'',
     prStatus = [], prReviewerID = ''r'', prScore = Fin 0, prNotes = [], prSelfAppraisal = [], prSelfScore = Fin 4, prPeerFeedback = [], prPeerScore = Fin 0,
     prPeerReviewerID = [], prManagerAssessment = [], prManagerScore = Fin 0, prKPIRatings = [], prWellnessAuditScore = Fin 0, prHabitatRecommendations = [],
     prClinicalAuditorID = [], prVHRRecordID = [], prCompletedAt = [], prCreatedAt = [], prUpdatedAt = [],
     pqHasScore = False, pqHasSelfScore = True, pqHasPeerScore = False, pqHasManagerScore = False, pqHasWellnessScore = False\<rparr>"

lemma demo_review_accepted: "\<exists>msg r'. grpc_CreateReviewCycle 5 demo_review_request r = (Inr msg, r')"
proof -
  have d: "ParseDate ''2026-08-01'' \<noteq> None" by code_simp
  obtain c r' where "CreateReviewCycle 5 (new_review (create_params demo_review_request)) r = (c, r')" by fastforce
  then have "svc_CreateReviewCycle 5 (create_params demo_review_request) r = (Inr c, r')"
    using d by (simp add: svc_CreateReviewCycle_def create_params_def demo_review_request_def flagged_def bad_score_option_def bad_score_def review_types_def)
  then show ?thesis by (simp add: grpc_CreateReviewCycle_def)
qed

theorem review_roundtrip_witness:
  "\<exists>msg r'. grpc_CreateReviewCycle 5 demo_review_request (NewMockRepository 0) = (Inr msg, r')
     \<and> grpc_GetReviewCycle (prReviewID msg) r' = Inr msg \<and> prSelfScore msg = Fin 4 \<and> prPeerScore msg = Fin 0"
proof -
  obtain msg r' where m: "grpc_CreateReviewCycle 5 demo_review_request (NewMockRepository 0) = (Inr msg, r')" using demo_review_accepted by blast
  from review_roundtrip [OF m] have "grpc_GetReviewCycle (prReviewID msg) r' = Inr msg" and "msg = sent_review 5 (prReviewID msg) demo_review_request" by auto
  moreover from this(2) have "prSelfScore msg = Fin 4" "prPeerScore msg = Fin 0"
    by (simp_all add: sent_review_def demo_review_request_def, metis review_message.select_convs(12), metis review_message.select_convs(14))
  ultimately show ?thesis using m by blast
qed

end
