(* ===== verification/Ops.thy ===== *)
theory Ops
  imports WorkforceGrpc
begin

text \<open>
  IT tickets and on-call alerts: the data model and the two repositories of \<open>internal/repository/ops\<close> (in memory
  and PostgreSQL, with the constraints of \<open>scripts/init.sql\<close>), the service of \<open>internal/service/ops\<close> and the gRPC
  server of \<open>cmd/ops-api\<close>. The repository is a record of operations and the service is written over it. The issue
  tracker and the notification server are outside the repository: they are functions on a state of their own,
  arguments of the service.
\<close>

section \<open>Data\<close>

record ITTicket =
  itTicketID :: string
  itForgejoIssueID :: "int option"
  itForgejoRepo :: string
  itTitle :: string
  itBody :: "string option"
  itState :: string
  itSeverity :: string
  itCategory :: string
  itSource :: string
  itCustomerID :: "string option"
  itAssigneeUsername :: "string option"
  itAuthorUsername :: string
  itResolutionNotes :: "string option"
  itIsUrgent :: bool
  itAcknowledgedAt :: "time option"
  itAcknowledgedBy :: "string option"
  itCreatedAt :: time
  itUpdatedAt :: time

record TicketComment =
  cmCommentID :: string
  cmTicketID :: string
  cmAuthorUsername :: string
  cmComment :: string
  cmIsInternal :: bool
  cmCreatedAt :: time

datatype ops_error =
    DbError | TicketMissing | TicketIDEmpty | TitleAuthorRequired | CommentRequired | AuthorRequired | CustomerTitleRequired
  | AckTicketRequired | AckByRequired | AckFailed ops_error | ListFailed ops_error
  | TopicRequired | MessageRequired | RequestFailed | DispatchFailed | ProviderStatus int

record 's OpsRepository =
  opGet :: "string \<Rightarrow> 's \<Rightarrow> ops_error + ITTicket"
  opListOpen :: "int \<Rightarrow> int \<Rightarrow> 's \<Rightarrow> ops_error + ITTicket list"
  opList :: "int \<Rightarrow> int \<Rightarrow> 's \<Rightarrow> ops_error + ITTicket list"
  opListBySource :: "string \<Rightarrow> int \<Rightarrow> int \<Rightarrow> 's \<Rightarrow> ops_error + ITTicket list"
  opListByCustomer :: "string \<Rightarrow> int \<Rightarrow> int \<Rightarrow> 's \<Rightarrow> ops_error + ITTicket list"
  opCreate :: "ITTicket \<Rightarrow> 's \<Rightarrow> (ops_error + ITTicket) \<times> 's"
  opUpdate :: "ITTicket \<Rightarrow> 's \<Rightarrow> (ops_error + ITTicket) \<times> 's"
  opAcknowledge :: "string \<Rightarrow> string \<Rightarrow> 's \<Rightarrow> (ops_error + ITTicket) \<times> 's"
  opClose :: "string \<Rightarrow> 's \<Rightarrow> (ops_error + ITTicket) \<times> 's"
  opCreateComment :: "TicketComment \<Rightarrow> 's \<Rightarrow> (ops_error + TicketComment) \<times> 's"
  opComments :: "string \<Rightarrow> bool \<Rightarrow> 's \<Rightarrow> ops_error + TicketComment list"

section \<open>The repository in memory\<close>

record mock_tickets =
  mtTickets :: "(string, ITTicket) gomap"
  mtComments :: "(string, TicketComment list) gomap"

definition mock_GetITTicketByID :: "string \<Rightarrow> mock_tickets \<Rightarrow> ops_error + ITTicket" where
  "mock_GetITTicketByID i m = (case mtTickets m i of None \<Rightarrow> Inl TicketMissing | Some t \<Rightarrow> Inr t)"

text \<open>The listings ignore the limit and the offset and walk over the map; \<open>ord\<close> is the order of its keys.\<close>

definition mock_ListOpenITTickets :: "string list \<Rightarrow> mock_tickets \<Rightarrow> ITTicket list" where
  "mock_ListOpenITTickets ord m = filter (\<lambda>t. itState t = ''open'') (map_vals ord (mtTickets m))"

definition mock_ListITTickets :: "string list \<Rightarrow> mock_tickets \<Rightarrow> ITTicket list" where
  "mock_ListITTickets ord m = map_vals ord (mtTickets m)"

definition mock_ListITTicketsBySource :: "string list \<Rightarrow> string \<Rightarrow> mock_tickets \<Rightarrow> ITTicket list" where
  "mock_ListITTicketsBySource ord source m = filter (\<lambda>t. itSource t = source) (map_vals ord (mtTickets m))"

definition mock_ListITTicketsByCustomer :: "string list \<Rightarrow> string \<Rightarrow> mock_tickets \<Rightarrow> ITTicket list" where
  "mock_ListITTicketsByCustomer ord c m = filter (\<lambda>t. itCustomerID t = Some c) (map_vals ord (mtTickets m))"

text \<open>The defaults that both repositories set on a new ticket.\<close>

definition ticket_defaults :: "ITTicket \<Rightarrow> ITTicket" where
  "ticket_defaults t =
     (let t1 = t\<lparr>itSeverity := (if itSeverity t = [] then ''medium'' else itSeverity t),
                itCategory := (if itCategory t = [] then ''software'' else itCategory t),
                itSource := (if itSource t = [] then ''internal'' else itSource t)\<rparr>
      in t1\<lparr>itForgejoRepo := (if itForgejoRepo t1 \<noteq> [] then itForgejoRepo t1
                             else if itSource t1 = ''customer'' then ''oci-internal/customer-support'' else ''oci-internal/helpdesk'')\<rparr>)"

definition mock_CreateITTicket :: "time \<Rightarrow> ITTicket \<Rightarrow> mock_tickets \<Rightarrow> ITTicket \<times> mock_tickets" where
  "mock_CreateITTicket now t m =
     (let t1 = ticket_defaults (t\<lparr>itTicketID := (if itTicketID t = [] then ''ticket-'' @ dec_int now else itTicketID t),
                                  itState := (if itState t = [] then ''open'' else itState t)\<rparr>);
          t2 = t1\<lparr>itIsUrgent := (itIsUrgent t1 \<or> itSeverity t1 = ''urgent'' \<or> itSeverity t1 = ''critical''),
                  itCreatedAt := now, itUpdatedAt := now\<rparr>
      in (t2, m\<lparr>mtTickets := (mtTickets m)(itTicketID t2 \<mapsto> t2)\<rparr>))"

definition mock_change :: "string \<Rightarrow> (ITTicket \<Rightarrow> ITTicket) \<Rightarrow> mock_tickets \<Rightarrow> (ops_error + ITTicket) \<times> mock_tickets" where
  "mock_change i f m = (case mtTickets m i of
     None \<Rightarrow> (Inl TicketMissing, m)
   | Some t \<Rightarrow> (Inr (f t), m\<lparr>mtTickets := (mtTickets m)(i \<mapsto> f t)\<rparr>))"

definition mock_UpdateITTicket :: "time \<Rightarrow> ITTicket \<Rightarrow> mock_tickets \<Rightarrow> (ops_error + ITTicket) \<times> mock_tickets" where
  "mock_UpdateITTicket now u = mock_change (itTicketID u) (\<lambda>t.
     t\<lparr>itState := (if itState u \<noteq> [] then itState u else itState t),
       itAssigneeUsername := keep_if_unset (itAssigneeUsername u) (itAssigneeUsername t),
       itResolutionNotes := keep_if_unset (itResolutionNotes u) (itResolutionNotes t), itUpdatedAt := now\<rparr>)"

definition mock_AcknowledgeITTicket :: "time \<Rightarrow> string \<Rightarrow> string \<Rightarrow> mock_tickets \<Rightarrow> (ops_error + ITTicket) \<times> mock_tickets" where
  "mock_AcknowledgeITTicket now i who = mock_change i (\<lambda>t.
     t\<lparr>itState := ''acknowledged'', itAcknowledgedAt := Some now, itAcknowledgedBy := Some who, itUpdatedAt := now\<rparr>)"

definition mock_CloseITTicket :: "time \<Rightarrow> string \<Rightarrow> mock_tickets \<Rightarrow> (ops_error + ITTicket) \<times> mock_tickets" where
  "mock_CloseITTicket now i = mock_change i (\<lambda>t. t\<lparr>itState := ''closed'', itUpdatedAt := now\<rparr>)"

definition comments_of :: "string \<Rightarrow> mock_tickets \<Rightarrow> TicketComment list" where
  "comments_of i m = (case mtComments m i of None \<Rightarrow> [] | Some cs \<Rightarrow> cs)"

definition mock_CreateTicketComment :: "time \<Rightarrow> TicketComment \<Rightarrow> mock_tickets \<Rightarrow> TicketComment \<times> mock_tickets" where
  "mock_CreateTicketComment now c m =
     (let c' = c\<lparr>cmCommentID := (if cmCommentID c = [] then ''comm-'' @ dec_int now else cmCommentID c), cmCreatedAt := now\<rparr>
      in (c', m\<lparr>mtComments := (mtComments m)(cmTicketID c \<mapsto> comments_of (cmTicketID c) m @ [c'])\<rparr>))"

definition mock_ListTicketComments :: "string \<Rightarrow> bool \<Rightarrow> mock_tickets \<Rightarrow> TicketComment list" where
  "mock_ListTicketComments i includeInternal m = filter (\<lambda>c. includeInternal \<or> \<not> cmIsInternal c) (comments_of i m)"

definition mock_ops :: "string list \<Rightarrow> time \<Rightarrow> mock_tickets OpsRepository" where
  "mock_ops ord now = \<lparr>opGet = mock_GetITTicketByID, opListOpen = (\<lambda>limit offset m. Inr (mock_ListOpenITTickets ord m)),
     opList = (\<lambda>limit offset m. Inr (mock_ListITTickets ord m)), opListBySource = (\<lambda>so limit offset m. Inr (mock_ListITTicketsBySource ord so m)),
     opListByCustomer = (\<lambda>c limit offset m. Inr (mock_ListITTicketsByCustomer ord c m)), opCreate = (\<lambda>t m. map_prod Inr id (mock_CreateITTicket now t m)),
     opUpdate = mock_UpdateITTicket now, opAcknowledge = mock_AcknowledgeITTicket now, opClose = mock_CloseITTicket now,
     opCreateComment = (\<lambda>c m. map_prod Inr id (mock_CreateTicketComment now c m)), opComments = (\<lambda>i b m. Inr (mock_ListTicketComments i b m))\<rparr>"

definition seed_tickets :: "time \<Rightarrow> ITTicket list" where
  "seed_tickets now = [
     \<lparr>itTicketID = ''ticket-001'', itForgejoIssueID = None, itForgejoRepo = ''infra/microk8s-cluster'', itTitle = ''MicroK8s Node High Memory Warning'',
       itBody = Some ''Sample IT ticket body'', itState = ''open'', itSeverity = ''high'', itCategory = ''hardware'', itSource = ''internal'',
       itCustomerID = None, itAssigneeUsername = None, itAuthorUsername = ''emp-human-frank'', itResolutionNotes = None, itIsUrgent = True,
       itAcknowledgedAt = None, itAcknowledgedBy = None, itCreatedAt = now, itUpdatedAt = now\<rparr>,
     \<lparr>itTicketID = ''ticket-uuid-open-001'', itForgejoIssueID = None, itForgejoRepo = ''infra/microk8s-cluster'', itTitle = ''High Memory Usage Alert'',
       itBody = Some ''High priority memory alert on microk8s worker node 2'', itState = ''open'', itSeverity = ''critical'', itCategory = ''hardware'',
       itSource = ''internal'', itCustomerID = None, itAssigneeUsername = None, itAuthorUsername = ''emp-human-frank'', itResolutionNotes = None,
       itIsUrgent = True, itAcknowledgedAt = None, itAcknowledgedBy = None, itCreatedAt = now, itUpdatedAt = now\<rparr>,
     \<lparr>itTicketID = ''018e0000-0000-7000-8000-000000000005'', itForgejoIssueID = None, itForgejoRepo = ''oci-internal/customer-support'',
       itTitle = ''Inquiry on Portfolio Trade Settlement Batch #412'',
       itBody = Some ''Can support verify the settlement status of my latest NVDA recurring allocation order?'', itState = ''in_progress'',
       itSeverity = ''medium'', itCategory = ''trading'', itSource = ''customer'', itCustomerID = Some ''cust-longterm-arthur'',
       itAssigneeUsername = Some ''emp-human-elise'', itAuthorUsername = ''cust-longterm-arthur'', itResolutionNotes = None, itIsUrgent = False,
       itAcknowledgedAt = None, itAcknowledgedBy = None, itCreatedAt = now, itUpdatedAt = now\<rparr>]"

definition seed_comments :: "time \<Rightarrow> TicketComment list" where
  "seed_comments now = [
     \<lparr>cmCommentID = ''018e0000-0000-7000-8000-000000000050'', cmTicketID = ''018e0000-0000-7000-8000-000000000005'', cmAuthorUsername = ''emp-human-elise'',
       cmComment = ''INTERNAL ONLY: Reconciled clearing ledger with Mock Broker. Settlement batch matched successfully.'', cmIsInternal = True,
       cmCreatedAt = now - 10 * minute\<rparr>,
     \<lparr>cmCommentID = ''018e0000-0000-7000-8000-000000000051'', cmTicketID = ''018e0000-0000-7000-8000-000000000005'', cmAuthorUsername = ''emp-human-elise'',
       cmComment = ''Hello Arthur! Your NVDA order settlement has been verified and fully credited to your OCI Alpha Growth Fund portfolio.'',
       cmIsInternal = False, cmCreatedAt = now - 5 * minute\<rparr>]"

definition NewMockTickets :: "time \<Rightarrow> mock_tickets" where
  "NewMockTickets now = \<lparr>mtTickets = map_of (map (\<lambda>t. (itTicketID t, t)) (seed_tickets now)),
     mtComments = [''018e0000-0000-7000-8000-000000000005'' \<mapsto> seed_comments now]\<rparr>"

section \<open>The repository in PostgreSQL\<close>

text \<open>
  The tables \<open>ops.it_tickets\<close> and \<open>ops.ticket_comments\<close>, with rows in the order of their insertion and a counter for
  \<open>uuid\<close>, the identifiers that the database generates. \<open>up\<close> says whether a statement reaches the database. A row must
  satisfy the constraints of the table: a statement that would store another one fails. Rows with the same
  time are listed in the order of the table.
\<close>

record ticket_db =
  dbTickets :: "ITTicket list"
  dbComments :: "TicketComment list"
  dbCount :: nat

definition ticket_row_ok :: "ITTicket \<Rightarrow> bool" where
  "ticket_row_ok t \<longleftrightarrow> itState t \<in> {''open'', ''closed'', ''acknowledged'', ''in_progress'', ''resolved''}
     \<and> itSeverity t \<in> {''low'', ''medium'', ''high'', ''urgent'', ''critical''}
     \<and> itCategory t \<in> {''hardware'', ''software'', ''habitat'', ''trading'', ''general''}
     \<and> itSource t \<in> {''internal'', ''customer'', ''system''}
     \<and> length (itForgejoRepo t) \<le> 200 \<and> length (itTitle t) \<le> 255 \<and> length (itAuthorUsername t) \<le> 100
     \<and> length (strVal (itCustomerID t)) \<le> 100 \<and> length (strVal (itAssigneeUsername t)) \<le> 100 \<and> length (strVal (itAcknowledgedBy t)) \<le> 100"

definition issue_free :: "int option \<Rightarrow> ITTicket list \<Rightarrow> bool" where
  "issue_free i ts \<longleftrightarrow> (case i of None \<Rightarrow> True | Some _ \<Rightarrow> i \<notin> set (map itForgejoIssueID ts))"

definition find_ticket :: "string \<Rightarrow> ticket_db \<Rightarrow> ITTicket option" where
  "find_ticket i d = find (\<lambda>t. itTicketID t = i) (dbTickets d)"

definition pgx_GetITTicketByID :: "bool \<Rightarrow> string \<Rightarrow> ticket_db \<Rightarrow> ops_error + ITTicket" where
  "pgx_GetITTicketByID up i d =
     (if \<not> up then Inl DbError else case find_ticket i d of None \<Rightarrow> Inl TicketMissing | Some t \<Rightarrow> Inr t)"

text \<open>\<open>ORDER BY created_at DESC LIMIT limit OFFSET offset\<close>: a negative limit or offset is an error.\<close>

definition page :: "int \<Rightarrow> int \<Rightarrow> ITTicket list \<Rightarrow> ITTicket list" where
  "page limit offset ts = take (nat limit) (drop (nat offset) (sort_key (\<lambda>t. - itCreatedAt t) ts))"

definition pgx_query :: "bool \<Rightarrow> (ITTicket \<Rightarrow> bool) \<Rightarrow> int \<Rightarrow> int \<Rightarrow> ticket_db \<Rightarrow> ops_error + ITTicket list" where
  "pgx_query up P limit offset d =
     (if \<not> up \<or> limit < 0 \<or> offset < 0 then Inl DbError else Inr (page limit offset (filter P (dbTickets d))))"

definition pgx_ListOpenITTickets :: "bool \<Rightarrow> int \<Rightarrow> int \<Rightarrow> ticket_db \<Rightarrow> ops_error + ITTicket list" where
  "pgx_ListOpenITTickets up = pgx_query up (\<lambda>t. itState t = ''open'')"

definition pgx_ListITTickets :: "bool \<Rightarrow> int \<Rightarrow> int \<Rightarrow> ticket_db \<Rightarrow> ops_error + ITTicket list" where
  "pgx_ListITTickets up = pgx_query up (\<lambda>t. True)"

definition pgx_ListITTicketsBySource :: "bool \<Rightarrow> string \<Rightarrow> int \<Rightarrow> int \<Rightarrow> ticket_db \<Rightarrow> ops_error + ITTicket list" where
  "pgx_ListITTicketsBySource up source = pgx_query up (\<lambda>t. itSource t = source)"

definition pgx_ListITTicketsByCustomer :: "bool \<Rightarrow> string \<Rightarrow> int \<Rightarrow> int \<Rightarrow> ticket_db \<Rightarrow> ops_error + ITTicket list" where
  "pgx_ListITTicketsByCustomer up c = pgx_query up (\<lambda>t. itCustomerID t = Some c)"

definition pgx_CreateITTicket :: "(nat \<Rightarrow> string) \<Rightarrow> bool \<Rightarrow> time \<Rightarrow> ITTicket \<Rightarrow> ticket_db \<Rightarrow> (ops_error + ITTicket) \<times> ticket_db" where
  "pgx_CreateITTicket uuid up now t d =
     (let t1 = (ticket_defaults t)\<lparr>itTicketID := uuid (dbCount d), itState := ''open'', itAcknowledgedAt := None, itAcknowledgedBy := None,
                                   itCreatedAt := now, itUpdatedAt := now\<rparr>
      in if up \<and> ticket_row_ok t1 \<and> issue_free (itForgejoIssueID t1) (dbTickets d)
         then (Inr t1, d\<lparr>dbTickets := dbTickets d @ [t1], dbCount := Suc (dbCount d)\<rparr>) else (Inl DbError, d))"

definition pgx_change :: "bool \<Rightarrow> string \<Rightarrow> (ITTicket \<Rightarrow> ITTicket) \<Rightarrow> ticket_db \<Rightarrow> (ops_error + ITTicket) \<times> ticket_db" where
  "pgx_change up i f d =
     (if \<not> up then (Inl DbError, d)
      else case find_ticket i d of
        None \<Rightarrow> (Inl TicketMissing, d)
      | Some t \<Rightarrow> if ticket_row_ok (f t)
          then (Inr (f t), d\<lparr>dbTickets := map (\<lambda>u. if itTicketID u = i then f u else u) (dbTickets d)\<rparr>)
          else (Inl DbError, d))"

text \<open>The state of an update is a string and never null, so \<open>COALESCE($2, state)\<close> is that string.\<close>

definition pgx_UpdateITTicket :: "bool \<Rightarrow> time \<Rightarrow> ITTicket \<Rightarrow> ticket_db \<Rightarrow> (ops_error + ITTicket) \<times> ticket_db" where
  "pgx_UpdateITTicket up now u = pgx_change up (itTicketID u) (\<lambda>t.
     t\<lparr>itState := itState u, itAssigneeUsername := keep_if_unset (itAssigneeUsername u) (itAssigneeUsername t),
       itResolutionNotes := keep_if_unset (itResolutionNotes u) (itResolutionNotes t), itUpdatedAt := now\<rparr>)"

definition pgx_AcknowledgeITTicket :: "bool \<Rightarrow> time \<Rightarrow> string \<Rightarrow> string \<Rightarrow> ticket_db \<Rightarrow> (ops_error + ITTicket) \<times> ticket_db" where
  "pgx_AcknowledgeITTicket up now i who = pgx_change up i (\<lambda>t.
     t\<lparr>itState := ''acknowledged'', itAcknowledgedAt := Some now, itAcknowledgedBy := Some who, itUpdatedAt := now\<rparr>)"

definition pgx_CloseITTicket :: "bool \<Rightarrow> time \<Rightarrow> string \<Rightarrow> ticket_db \<Rightarrow> (ops_error + ITTicket) \<times> ticket_db" where
  "pgx_CloseITTicket up now i = pgx_change up i (\<lambda>t. t\<lparr>itState := ''closed'', itUpdatedAt := now\<rparr>)"

definition pgx_CreateTicketComment ::
    "(nat \<Rightarrow> string) \<Rightarrow> bool \<Rightarrow> time \<Rightarrow> TicketComment \<Rightarrow> ticket_db \<Rightarrow> (ops_error + TicketComment) \<times> ticket_db" where
  "pgx_CreateTicketComment uuid up now c d =
     (if up \<and> find_ticket (cmTicketID c) d \<noteq> None \<and> length (cmAuthorUsername c) \<le> 100
      then let c' = c\<lparr>cmCommentID := uuid (dbCount d), cmCreatedAt := now\<rparr>
           in (Inr c', d\<lparr>dbComments := dbComments d @ [c'], dbCount := Suc (dbCount d)\<rparr>)
      else (Inl DbError, d))"

definition pgx_ListTicketComments :: "bool \<Rightarrow> string \<Rightarrow> bool \<Rightarrow> ticket_db \<Rightarrow> ops_error + TicketComment list" where
  "pgx_ListTicketComments up i includeInternal d =
     (if \<not> up then Inl DbError
      else Inr (sort_key cmCreatedAt (filter (\<lambda>c. cmTicketID c = i \<and> (includeInternal \<or> \<not> cmIsInternal c)) (dbComments d))))"

definition pgx_ops :: "(nat \<Rightarrow> string) \<Rightarrow> bool \<Rightarrow> time \<Rightarrow> ticket_db OpsRepository" where
  "pgx_ops uuid up now = \<lparr>opGet = pgx_GetITTicketByID up, opListOpen = pgx_ListOpenITTickets up, opList = pgx_ListITTickets up,
     opListBySource = pgx_ListITTicketsBySource up, opListByCustomer = pgx_ListITTicketsByCustomer up,
     opCreate = pgx_CreateITTicket uuid up now, opUpdate = pgx_UpdateITTicket up now, opAcknowledge = pgx_AcknowledgeITTicket up now,
     opClose = pgx_CloseITTicket up now, opCreateComment = pgx_CreateTicketComment uuid up now, opComments = pgx_ListTicketComments up\<rparr>"

section \<open>The service\<close>

text \<open>
  What the service reaches outside the repository. \<open>tkCreateIssue\<close> returns the index of the new issue, or nothing
  when the call fails; the results of the other two calls are not used. \<open>oePost\<close> sends a message to a
  notification address with the title and priority headers.
\<close>

datatype post_result = BadURL | NoAnswer | Answer int

record 'x IssueTracker =
  tkCreateIssue :: "string \<Rightarrow> string \<Rightarrow> string \<Rightarrow> string \<Rightarrow> 'x \<Rightarrow> int option \<times> 'x"
  tkCreateIssueComment :: "string \<Rightarrow> string \<Rightarrow> int \<Rightarrow> string \<Rightarrow> 'x \<Rightarrow> 'x"
  tkCloseIssue :: "string \<Rightarrow> string \<Rightarrow> int \<Rightarrow> 'x \<Rightarrow> 'x"

record 'x OpsEnv =
  oeTracker :: "'x IssueTracker option"
  oePost :: "string \<Rightarrow> string \<Rightarrow> string \<Rightarrow> string \<Rightarrow> 'x \<Rightarrow> post_result \<times> 'x"
  oeNtfyURL :: string
  oeMockPush :: bool
  oeOnCall :: string
  oeDevAuth :: bool

record CreateITTicketRequest =
  cqForgejoRepo :: string
  cqTitle :: string
  cqBody :: string
  cqAuthorUsername :: string
  cqForgejoIssueID :: "int option"
  cqSeverity :: string
  cqCategory :: string
  cqSource :: string
  cqCustomerID :: string
  cqIsUrgent :: bool

record PushNotificationRequest =
  pnTopic :: string
  pnTitle :: string
  pnMessage :: string
  pnPriority :: string

record PushNotificationResponse =
  psStatus :: string
  psProvider :: string
  psTopic :: string
  psTitle :: string
  psMessage :: string
  psDispatchedAt :: time

definition TrimRight :: "char \<Rightarrow> string \<Rightarrow> string" where
  "TrimRight c s = rev (dropWhile (\<lambda>d. d = c) (rev s))"

definition push_response :: "string \<Rightarrow> time \<Rightarrow> PushNotificationRequest \<Rightarrow> PushNotificationResponse" where
  "push_response provider now q = \<lparr>psStatus = ''dispatched'', psProvider = provider, psTopic = pnTopic q, psTitle = pnTitle q,
     psMessage = pnMessage q, psDispatchedAt = now\<rparr>"

definition ops_SendPushNotification ::
    "'x OpsEnv \<Rightarrow> time \<Rightarrow> PushNotificationRequest \<Rightarrow> 'x \<Rightarrow> (ops_error + PushNotificationResponse) \<times> 'x" where
  "ops_SendPushNotification E now q x =
     (if pnTopic q = [] then (Inl TopicRequired, x)
      else if pnMessage q = [] then (Inl MessageRequired, x)
      else let url = (if oeNtfyURL E = [] then ''http://ntfy.apps.svc.cluster.local'' else oeNtfyURL E)
           in case oePost E (TrimRight (CHR ''/'') url @ ''/'' @ pnTopic q) (pnTitle q) (pnPriority q) (pnMessage q) x of
                (BadURL, x') \<Rightarrow> (Inl RequestFailed, x')
              | (NoAnswer, x') \<Rightarrow> (if oeMockPush E then Inr (push_response ''mock-ntfy'' now q) else Inl DispatchFailed, x')
              | (Answer st, x') \<Rightarrow> (if 400 \<le> st then Inl (ProviderStatus st) else Inr (push_response ''ntfy'' now q), x'))"

definition owner_repo :: "string \<Rightarrow> string \<times> string" where
  "owner_repo name = (case Split (CHR ''/'') name of [o1, r] \<Rightarrow> (o1, r) | _ \<Rightarrow> (''oci-internal'', name))"

definition sync_issue :: "'x OpsEnv \<Rightarrow> string \<Rightarrow> CreateITTicketRequest \<Rightarrow> 'x \<Rightarrow> int option \<times> 'x" where
  "sync_issue E name q x = (case (oeTracker E, cqForgejoIssueID q) of
     (Some T, None) \<Rightarrow> tkCreateIssue T (fst (owner_repo name)) (snd (owner_repo name)) (cqTitle q) (cqBody q) x
   | (_, i) \<Rightarrow> (i, x))"

definition request_urgent :: "CreateITTicketRequest \<Rightarrow> bool" where
  "request_urgent q \<longleftrightarrow> cqIsUrgent q \<or> cqSeverity q = ''urgent'' \<or> cqSeverity q = ''critical''"

definition new_ticket :: "CreateITTicketRequest \<Rightarrow> ITTicket" where
  "new_ticket q = \<lparr>itTicketID = [], itForgejoIssueID = None,
     itForgejoRepo = (if cqForgejoRepo q \<noteq> [] then cqForgejoRepo q
                      else if cqSource q = ''customer'' then ''oci-internal/customer-support'' else ''oci-internal/helpdesk''),
     itTitle = cqTitle q, itBody = strPtr (cqBody q), itState = ''open'',
     itSeverity = (if cqSeverity q = [] then ''medium'' else cqSeverity q),
     itCategory = (let c = ToLower (TrimSpace (cqCategory q)) in if c = [] then ''software'' else c),
     itSource = (if cqSource q = [] then ''internal'' else cqSource q), itCustomerID = strPtr (cqCustomerID q), itAssigneeUsername = None,
     itAuthorUsername = cqAuthorUsername q, itResolutionNotes = None, itIsUrgent = request_urgent q, itAcknowledgedAt = None,
     itAcknowledgedBy = None, itCreatedAt = zeroTime, itUpdatedAt = zeroTime\<rparr>"

definition urgent_push :: "ITTicket \<Rightarrow> CreateITTicketRequest \<Rightarrow> PushNotificationRequest" where
  "urgent_push t q = \<lparr>pnTopic = ''oncall-alerts'', pnTitle = ''URGENT TICKET ['' @ ToUpper (itCategory t) @ '']: '' @ cqTitle q,
     pnMessage = cqBody q, pnPriority = ''urgent''\<rparr>"

definition ops_CreateITTicket ::
    "'x OpsEnv \<Rightarrow> 's OpsRepository \<Rightarrow> time \<Rightarrow> CreateITTicketRequest \<Rightarrow> 's \<times> 'x \<Rightarrow> (ops_error + ITTicket) \<times> 's \<times> 'x" where
  "ops_CreateITTicket E R now q = (\<lambda>(s, x).
     if cqTitle q = [] \<or> cqAuthorUsername q = [] then (Inl TitleAuthorRequired, s, x)
     else let t = new_ticket q; (issue, x1) = sync_issue E (itForgejoRepo t) q x
          in case opCreate R (t\<lparr>itForgejoIssueID := issue\<rparr>) s of
               (Inl e, s') \<Rightarrow> (Inl e, s', x1)
             | (Inr created, s') \<Rightarrow>
                 (Inr created, s', if itIsUrgent t then snd (ops_SendPushNotification E now (urgent_push t q) x1) else x1))"

definition ops_GetITTicket :: "'s OpsRepository \<Rightarrow> string \<Rightarrow> 's \<Rightarrow> ops_error + ITTicket" where
  "ops_GetITTicket R i s = (if i = [] then Inl TicketIDEmpty else opGet R i s)"

text \<open>The three listings of the service are those of the repository.\<close>

record UpdateTicketRequest =
  uqState :: string
  uqAssigneeUsername :: string
  uqResolutionNotes :: string

definition ticket_update :: "string \<Rightarrow> UpdateTicketRequest \<Rightarrow> ITTicket" where
  "ticket_update i q = \<lparr>itTicketID = i, itForgejoIssueID = None, itForgejoRepo = [], itTitle = [], itBody = None, itState = uqState q,
     itSeverity = [], itCategory = [], itSource = [], itCustomerID = None, itAssigneeUsername = strPtr (uqAssigneeUsername q),
     itAuthorUsername = [], itResolutionNotes = strPtr (uqResolutionNotes q), itIsUrgent = False, itAcknowledgedAt = None,
     itAcknowledgedBy = None, itCreatedAt = zeroTime, itUpdatedAt = zeroTime\<rparr>"

definition ops_UpdateITTicket ::
    "'x OpsEnv \<Rightarrow> 's OpsRepository \<Rightarrow> string \<Rightarrow> UpdateTicketRequest \<Rightarrow> 's \<times> 'x \<Rightarrow> (ops_error + ITTicket) \<times> 's \<times> 'x" where
  "ops_UpdateITTicket E R i q = (\<lambda>(s, x).
     if i = [] then (Inl TicketIDEmpty, s, x)
     else case opUpdate R (ticket_update i q) s of
            (Inl e, s') \<Rightarrow> (Inl e, s', x)
          | (Inr t, s') \<Rightarrow> (Inr t, s', case (oeTracker E, itForgejoIssueID t) of
                (Some T, Some n) \<Rightarrow> if uqState q = ''closed'' then tkCloseIssue T (fst (owner_repo (itForgejoRepo t))) (snd (owner_repo (itForgejoRepo t))) n x else x
              | _ \<Rightarrow> x))"

record AddCommentRequest =
  aqAuthorUsername :: string
  aqComment :: string
  aqIsInternal :: bool

definition ops_AddTicketComment ::
    "'x OpsEnv \<Rightarrow> 's OpsRepository \<Rightarrow> string \<Rightarrow> AddCommentRequest \<Rightarrow> 's \<times> 'x \<Rightarrow> (ops_error + TicketComment) \<times> 's \<times> 'x" where
  "ops_AddTicketComment E R i q = (\<lambda>(s, x).
     if i = [] then (Inl TicketIDEmpty, s, x)
     else if aqComment q = [] then (Inl CommentRequired, s, x)
     else if aqAuthorUsername q = [] then (Inl AuthorRequired, s, x)
     else case opGet R i s of
       Inl e \<Rightarrow> (Inl e, s, x)
     | Inr t \<Rightarrow>
         let x' = (case (oeTracker E, itForgejoIssueID t) of
                (Some T, Some n) \<Rightarrow> if \<not> aqIsInternal q
                   then tkCreateIssueComment T (fst (owner_repo (itForgejoRepo t))) (snd (owner_repo (itForgejoRepo t))) n (aqComment q) x else x
              | _ \<Rightarrow> x);
             (res, s') = opCreateComment R \<lparr>cmCommentID = [], cmTicketID = i, cmAuthorUsername = aqAuthorUsername q, cmComment = aqComment q,
                                            cmIsInternal = aqIsInternal q, cmCreatedAt = zeroTime\<rparr> s
         in (res, s', x'))"

definition ops_ListTicketComments :: "'s OpsRepository \<Rightarrow> string \<Rightarrow> bool \<Rightarrow> 's \<Rightarrow> ops_error + TicketComment list" where
  "ops_ListTicketComments R i includeInternal s = (if i = [] then Inl TicketIDEmpty else opComments R i includeInternal s)"

record CreateCustomerTicketRequest =
  ctCustomerID :: string
  ctCategory :: string
  ctTitle :: string
  ctBody :: string

definition customer_request :: "CreateCustomerTicketRequest \<Rightarrow> CreateITTicketRequest" where
  "customer_request q = \<lparr>cqForgejoRepo = ''oci-internal/customer-support'', cqTitle = ctTitle q, cqBody = ctBody q, cqAuthorUsername = ctCustomerID q,
     cqForgejoIssueID = None, cqSeverity = ''medium'', cqCategory = (let c = ToLower (TrimSpace (ctCategory q)) in if c = [] then ''general'' else c),
     cqSource = ''customer'', cqCustomerID = ctCustomerID q, cqIsUrgent = False\<rparr>"

definition ops_CreateCustomerTicket ::
    "'x OpsEnv \<Rightarrow> 's OpsRepository \<Rightarrow> time \<Rightarrow> CreateCustomerTicketRequest \<Rightarrow> 's \<times> 'x \<Rightarrow> (ops_error + ITTicket) \<times> 's \<times> 'x" where
  "ops_CreateCustomerTicket E R now q sx =
     (if ctCustomerID q = [] \<or> ctTitle q = [] then (Inl CustomerTitleRequired, sx) else ops_CreateITTicket E R now (customer_request q) sx)"

subsection \<open>Alerts for the watch\<close>

record PebbleAlertPayload =
  paTicketID :: string
  paTitle :: string
  paPriority :: string
  paBody :: string
  paAuthor :: string
  paCreatedAt :: time
  paAppMessageDict :: "(nat, string) gomap"

definition alert_priority :: "ITTicket \<Rightarrow> string" where
  "alert_priority t = (if itIsUrgent t \<or> itSeverity t = ''urgent'' \<or> itSeverity t = ''critical'' then ''CRITICAL''
                       else if itSeverity t = ''low'' then ''LOW'' else ''HIGH'')"

definition alert_payload :: "ITTicket \<Rightarrow> PebbleAlertPayload" where
  "alert_payload t = \<lparr>paTicketID = itTicketID t, paTitle = itTitle t, paPriority = alert_priority t, paBody = strVal (itBody t),
     paAuthor = itAuthorUsername t, paCreatedAt = itCreatedAt t,
     paAppMessageDict = [0 \<mapsto> ''1'', 1 \<mapsto> itTicketID t, 2 \<mapsto> itTitle t, 3 \<mapsto> strVal (itBody t), 4 \<mapsto> alert_priority t,
                         5 \<mapsto> itAuthorUsername t, 6 \<mapsto> rfc3339 (itCreatedAt t)]\<rparr>"

definition ops_GetPendingAlerts :: "'s OpsRepository \<Rightarrow> 's \<Rightarrow> ops_error + PebbleAlertPayload list" where
  "ops_GetPendingAlerts R s = (case opListOpen R 50 0 s of Inl e \<Rightarrow> Inl (ListFailed e) | Inr ts \<Rightarrow> Inr (map alert_payload ts))"

record PebbleAckRequest =
  akTicketID :: string
  akAcknowledgedBy :: string
  akWatchID :: string
  akDeviceID :: string
  akButtonID :: int

record PebbleAckResponse =
  arTicketID :: string
  arState :: string
  arAcknowledgedAt :: time
  arAcknowledgedBy :: string
  arStatusMessage :: string

text \<open>\<open>emp\<close> is the employee identifier in the context of the call.\<close>

definition acknowledger :: "'x OpsEnv \<Rightarrow> string option \<Rightarrow> PebbleAckRequest \<Rightarrow> string option" where
  "acknowledger E emp q =
     (if akAcknowledgedBy q \<noteq> [] then Some (akAcknowledgedBy q)
      else if strVal emp \<noteq> [] then Some (strVal emp)
      else if akWatchID q \<noteq> [] then Some (akWatchID q)
      else if akDeviceID q \<noteq> [] then Some (akDeviceID q)
      else if oeOnCall E \<noteq> [] then Some (oeOnCall E)
      else if oeDevAuth E then Some ''emp-oncall-engineer''
      else None)"

definition ops_ProcessPebbleAck ::
    "'x OpsEnv \<Rightarrow> 's OpsRepository \<Rightarrow> time \<Rightarrow> string option \<Rightarrow> PebbleAckRequest \<Rightarrow> 's \<Rightarrow> (ops_error + PebbleAckResponse) \<times> 's" where
  "ops_ProcessPebbleAck E R now emp q s =
     (if akTicketID q = [] then (Inl AckTicketRequired, s)
      else case acknowledger E emp q of
        None \<Rightarrow> (Inl AckByRequired, s)
      | Some who \<Rightarrow> (case opAcknowledge R (akTicketID q) who s of
          (Inl e, s') \<Rightarrow> (Inl (AckFailed e), s')
        | (Inr t, s') \<Rightarrow> (Inr \<lparr>arTicketID = itTicketID t, arState = itState t,
            arAcknowledgedAt = (case itAcknowledgedAt t of None \<Rightarrow> now | Some a \<Rightarrow> a), arAcknowledgedBy = who,
            arStatusMessage = ''Ticket '' @ akTicketID q @ '' acknowledged by '' @ who @ '' via Pebble Watch companion app''\<rparr>, s')))"

section \<open>The gRPC server\<close>

record ticket_message =
  gtTicketID :: string
  gtTitle :: string
  gtBody :: string
  gtState :: string
  gtSeverity :: string
  gtCategory :: string
  gtSource :: string
  gtCustomerID :: string
  gtAuthorUsername :: string
  gtAssigneeUsername :: string
  gtIsUrgent :: bool
  gtAcknowledgedBy :: string
  gtAcknowledgedAt :: string
  gtCreatedAt :: string
  gtUpdatedAt :: string
  gtResolutionNotes :: string
  gtForgejoRepo :: string
  gtForgejoIssueID :: int

record comment_message =
  gcCommentID :: string
  gcTicketID :: string
  gcAuthorUsername :: string
  gcComment :: string
  gcIsInternal :: bool
  gcCreatedAt :: string

definition toProtoTicket :: "ITTicket \<Rightarrow> ticket_message" where
  "toProtoTicket t = \<lparr>gtTicketID = itTicketID t, gtTitle = itTitle t, gtBody = strVal (itBody t), gtState = itState t, gtSeverity = itSeverity t,
     gtCategory = itCategory t, gtSource = itSource t, gtCustomerID = strVal (itCustomerID t), gtAuthorUsername = itAuthorUsername t,
     gtAssigneeUsername = strVal (itAssigneeUsername t), gtIsUrgent = itIsUrgent t, gtAcknowledgedBy = strVal (itAcknowledgedBy t),
     gtAcknowledgedAt = time_ptr_text (itAcknowledgedAt t), gtCreatedAt = time_text (itCreatedAt t), gtUpdatedAt = time_text (itUpdatedAt t),
     gtResolutionNotes = strVal (itResolutionNotes t), gtForgejoRepo = itForgejoRepo t,
     gtForgejoIssueID = (case itForgejoIssueID t of None \<Rightarrow> 0 | Some n \<Rightarrow> n)\<rparr>"

definition toProtoComment :: "TicketComment \<Rightarrow> comment_message" where
  "toProtoComment c = \<lparr>gcCommentID = cmCommentID c, gcTicketID = cmTicketID c, gcAuthorUsername = cmAuthorUsername c, gcComment = cmComment c,
     gcIsInternal = cmIsInternal c, gcCreatedAt = time_text (cmCreatedAt c)\<rparr>"

text \<open>A request to create a ticket is the message of its fields; those of the message that it lacks are not read.\<close>

definition grpc_CreateTicket ::
    "'x OpsEnv \<Rightarrow> 's OpsRepository \<Rightarrow> time \<Rightarrow> ticket_message \<Rightarrow> 's \<times> 'x \<Rightarrow> (ops_error + ticket_message) \<times> 's \<times> 'x" where
  "grpc_CreateTicket E R now m sx = map_prod (map_sum id toProtoTicket) id (ops_CreateITTicket E R now
     \<lparr>cqForgejoRepo = gtForgejoRepo m, cqTitle = gtTitle m, cqBody = gtBody m, cqAuthorUsername = gtAuthorUsername m,
      cqForgejoIssueID = (if 0 < gtForgejoIssueID m then Some (gtForgejoIssueID m) else None), cqSeverity = gtSeverity m, cqCategory = gtCategory m,
      cqSource = gtSource m, cqCustomerID = gtCustomerID m, cqIsUrgent = gtIsUrgent m\<rparr> sx)"

definition grpc_GetTicket :: "'s OpsRepository \<Rightarrow> string \<Rightarrow> 's \<Rightarrow> ops_error + ticket_message" where
  "grpc_GetTicket R i s = map_sum id toProtoTicket (ops_GetITTicket R i s)"

definition limit_or_50 :: "int \<Rightarrow> int" where
  "limit_or_50 limit = (if limit \<le> 0 then 50 else limit)"

definition grpc_ListTickets ::
    "'s OpsRepository \<Rightarrow> string \<Rightarrow> string \<Rightarrow> string \<Rightarrow> int \<Rightarrow> int \<Rightarrow> 's \<Rightarrow> ops_error + ticket_message list" where
  "grpc_ListTickets R source state category limit offset s =
     map_sum id (\<lambda>ts. map toProtoTicket (filter (\<lambda>t. (state = [] \<or> itState t = state) \<and> (category = [] \<or> itCategory t = category)) ts))
       (if source \<noteq> [] then opListBySource R source (limit_or_50 limit) offset s else opList R (limit_or_50 limit) offset s)"

definition grpc_UpdateTicket ::
    "'x OpsEnv \<Rightarrow> 's OpsRepository \<Rightarrow> string \<Rightarrow> UpdateTicketRequest \<Rightarrow> 's \<times> 'x \<Rightarrow> (ops_error + ticket_message) \<times> 's \<times> 'x" where
  "grpc_UpdateTicket E R i q sx = map_prod (map_sum id toProtoTicket) id (ops_UpdateITTicket E R i q sx)"

definition grpc_AcknowledgeTicket ::
    "'x OpsEnv \<Rightarrow> 's OpsRepository \<Rightarrow> time \<Rightarrow> string option \<Rightarrow> string \<Rightarrow> string \<Rightarrow> 's \<Rightarrow> (ops_error + ticket_message) \<times> 's" where
  "grpc_AcknowledgeTicket E R now emp i who s =
     (case ops_ProcessPebbleAck E R now emp \<lparr>akTicketID = i, akAcknowledgedBy = who, akWatchID = [], akDeviceID = [], akButtonID = 0\<rparr> s of
        (Inl e, s') \<Rightarrow> (Inl e, s')
      | (Inr res, s') \<Rightarrow> (Inr (toProtoTicket (case ops_GetITTicket R i s' of
            Inr t \<Rightarrow> t
          | Inl _ \<Rightarrow> (ticket_update (arTicketID res) \<lparr>uqState = arState res, uqAssigneeUsername = [], uqResolutionNotes = []\<rparr>)
              \<lparr>itAcknowledgedBy := Some (arAcknowledgedBy res), itAcknowledgedAt := Some (arAcknowledgedAt res)\<rparr>)), s'))"

definition grpc_CloseTicket ::
    "'x OpsEnv \<Rightarrow> 's OpsRepository \<Rightarrow> string \<Rightarrow> string \<Rightarrow> 's \<times> 'x \<Rightarrow> (ops_error + ticket_message) \<times> 's \<times> 'x" where
  "grpc_CloseTicket E R i notes sx =
     map_prod (map_sum id toProtoTicket) id (ops_UpdateITTicket E R i \<lparr>uqState = ''closed'', uqAssigneeUsername = [], uqResolutionNotes = notes\<rparr> sx)"

definition grpc_CreateCustomerTicket ::
    "'x OpsEnv \<Rightarrow> 's OpsRepository \<Rightarrow> time \<Rightarrow> CreateCustomerTicketRequest \<Rightarrow> 's \<times> 'x \<Rightarrow> (ops_error + ticket_message) \<times> 's \<times> 'x" where
  "grpc_CreateCustomerTicket E R now q sx = map_prod (map_sum id toProtoTicket) id (ops_CreateCustomerTicket E R now q sx)"

definition grpc_ListCustomerTickets :: "'s OpsRepository \<Rightarrow> string \<Rightarrow> int \<Rightarrow> int \<Rightarrow> 's \<Rightarrow> ops_error + ticket_message list" where
  "grpc_ListCustomerTickets R c limit offset s = map_sum id (map toProtoTicket) (opListByCustomer R c (limit_or_50 limit) offset s)"

definition grpc_AddTicketComment ::
    "'x OpsEnv \<Rightarrow> 's OpsRepository \<Rightarrow> string \<Rightarrow> AddCommentRequest \<Rightarrow> 's \<times> 'x \<Rightarrow> (ops_error + comment_message) \<times> 's \<times> 'x" where
  "grpc_AddTicketComment E R i q sx = map_prod (map_sum id toProtoComment) id (ops_AddTicketComment E R i q sx)"

definition grpc_ListTicketComments :: "'s OpsRepository \<Rightarrow> string \<Rightarrow> bool \<Rightarrow> 's \<Rightarrow> ops_error + comment_message list" where
  "grpc_ListTicketComments R i includeInternal s = map_sum id (map toProtoComment) (ops_ListTicketComments R i includeInternal s)"

record alert_message =
  gaAlertID :: string
  gaTicketID :: string
  gaTitle :: string
  gaSeverity :: string
  gaRoomZone :: string
  gaBody :: string
  gaAuthor :: string
  gaAcknowledged :: bool
  gaCreatedAt :: string

definition grpc_ListAlerts :: "'s OpsRepository \<Rightarrow> 's \<Rightarrow> ops_error + alert_message list" where
  "grpc_ListAlerts R s = map_sum id (map (\<lambda>a. \<lparr>gaAlertID = paTicketID a, gaTicketID = paTicketID a, gaTitle = paTitle a, gaSeverity = paPriority a,
     gaRoomZone = [], gaBody = paBody a, gaAuthor = paAuthor a, gaAcknowledged = False, gaCreatedAt = rfc3339 (paCreatedAt a)\<rparr>)) (ops_GetPendingAlerts R s)"

definition grpc_CreateAlert ::
    "'x OpsEnv \<Rightarrow> 's OpsRepository \<Rightarrow> time \<Rightarrow> alert_message \<Rightarrow> 's \<times> 'x \<Rightarrow> (ops_error + alert_message) \<times> 's \<times> 'x" where
  "grpc_CreateAlert E R now m sx =
     (let (found, sx') = (if gaTicketID m \<noteq> [] then (Inr (gaTicketID m), sx)
        else map_prod (map_sum id itTicketID) id (ops_CreateITTicket E R now
          \<lparr>cqForgejoRepo = [], cqTitle = gaTitle m, cqBody = gaTitle m, cqAuthorUsername = ''system-alert'', cqForgejoIssueID = None,
           cqSeverity = gaSeverity m, cqCategory = [], cqSource = [], cqCustomerID = [], cqIsUrgent = True\<rparr> sx))
      in (map_sum id (\<lambda>i. \<lparr>gaAlertID = i, gaTicketID = i, gaTitle = gaTitle m, gaSeverity = gaSeverity m, gaRoomZone = gaRoomZone m,
            gaBody = [], gaAuthor = [], gaAcknowledged = False, gaCreatedAt = rfc3339 now\<rparr>) found, sx'))"

record ack_message =
  gkAlertID :: string
  gkStatus :: string
  gkState :: string
  gkAcknowledgedBy :: string
  gkAcknowledgedAt :: string
  gkStatusMessage :: string

definition grpc_AcknowledgeAlert ::
    "'x OpsEnv \<Rightarrow> 's OpsRepository \<Rightarrow> time \<Rightarrow> string option \<Rightarrow> PebbleAckRequest \<Rightarrow> 's \<Rightarrow> (ops_error + ack_message) \<times> 's" where
  "grpc_AcknowledgeAlert E R now emp q s = map_prod (map_sum id (\<lambda>a. \<lparr>gkAlertID = arTicketID a,
     gkStatus = ''acknowledged ('' @ arStatusMessage a @ '')'', gkState = arState a, gkAcknowledgedBy = arAcknowledgedBy a,
     gkAcknowledgedAt = rfc3339 (arAcknowledgedAt a), gkStatusMessage = arStatusMessage a\<rparr>)) id
     (ops_ProcessPebbleAck E R now emp (q\<lparr>akButtonID := akButtonID q mod 256\<rparr>) s)"

record push_message =
  gpStatus :: string
  gpProvider :: string
  gpTopic :: string
  gpTitle :: string
  gpMessage :: string
  gpDispatchedAt :: string

definition grpc_SendPushNotification ::
    "'x OpsEnv \<Rightarrow> time \<Rightarrow> PushNotificationRequest \<Rightarrow> 'x \<Rightarrow> (ops_error + push_message) \<times> 'x" where
  "grpc_SendPushNotification E now q x = map_prod (map_sum id (\<lambda>r. \<lparr>gpStatus = psStatus r, gpProvider = psProvider r, gpTopic = psTopic r,
     gpTitle = psTitle r, gpMessage = psMessage r, gpDispatchedAt = rfc3339 (psDispatchedAt r)\<rparr>)) id (ops_SendPushNotification E now q x)"

section \<open>The tables over time\<close>

text \<open>Every row satisfies the constraints, identifiers and linked issues are unique, and every comment belongs to a ticket.\<close>

definition tickets_inv :: "(nat \<Rightarrow> string) \<Rightarrow> ticket_db \<Rightarrow> bool" where
  "tickets_inv uuid d \<longleftrightarrow> list_all ticket_row_ok (dbTickets d) \<and> distinct (map itTicketID (dbTickets d))
     \<and> distinct (filter (\<lambda>i. i \<noteq> None) (map itForgejoIssueID (dbTickets d))) \<and> distinct (map cmCommentID (dbComments d))
     \<and> (\<forall>t \<in> set (dbTickets d). itTicketID t \<in> uuid ` {..<dbCount d})
     \<and> (\<forall>c \<in> set (dbComments d). cmCommentID c \<in> uuid ` {..<dbCount d} \<and> find_ticket (cmTicketID c) d \<noteq> None)"

text \<open>What a ticket keeps for ever; its state, assignee, notes and acknowledgement may change.\<close>

definition lasting :: "ITTicket \<Rightarrow> ITTicket" where
  "lasting t = t\<lparr>itState := [], itAssigneeUsername := None, itResolutionNotes := None, itAcknowledgedAt := None, itAcknowledgedBy := None,
     itUpdatedAt := zeroTime\<rparr>"

definition extends :: "ticket_db \<Rightarrow> ticket_db \<Rightarrow> bool" where
  "extends d d' \<longleftrightarrow> (\<exists>ts. map lasting (dbTickets d') = map lasting (dbTickets d) @ ts) \<and> (\<exists>cs. dbComments d' = dbComments d @ cs)"

definition sound_change :: "(nat \<Rightarrow> string) \<Rightarrow> ticket_db \<Rightarrow> ticket_db \<Rightarrow> bool" where
  "sound_change uuid d d' \<longleftrightarrow> (inj uuid \<and> tickets_inv uuid d \<longrightarrow> tickets_inv uuid d') \<and> extends d d'"

lemma extends_refl [simp]: "extends d d"
  by (simp add: extends_def)

lemma extends_trans: "extends d e \<Longrightarrow> extends e f \<Longrightarrow> extends d f"
  unfolding extends_def by (elim conjE exE) simp

lemma sound_change_refl [simp]: "sound_change uuid d d"
  by (simp add: sound_change_def)

lemma find_appended: "find P (xs @ ys) = (case find P xs of None \<Rightarrow> find P ys | Some x \<Rightarrow> Some x)"
  by (induction xs) simp_all

lemma find_ticket_iff: "find_ticket i d \<noteq> None \<longleftrightarrow> i \<in> itTicketID ` set (dbTickets d)"
  by (auto simp: find_ticket_def find_None_iff)

lemma find_ticket_SomeD: "find_ticket i d = Some t \<Longrightarrow> t \<in> set (dbTickets d) \<and> itTicketID t = i"
  by (auto simp: find_ticket_def find_Some_iff)

lemma uuid_fresh: "inj uuid \<Longrightarrow> i \<in> uuid ` {..<(n :: nat)} \<Longrightarrow> i \<noteq> uuid n"
  by (auto simp: inj_eq)

lemma pgx_Create_sound: "sound_change uuid d (snd (pgx_CreateITTicket uuid up now t d))"
proof -
  define t1 where "t1 = (ticket_defaults t)\<lparr>itTicketID := uuid (dbCount d), itState := ''open'', itAcknowledgedAt := None, itAcknowledgedBy := None,
                                   itCreatedAt := now, itUpdatedAt := now\<rparr>"
  have i: "itTicketID t1 = uuid (dbCount d)" by (simp add: t1_def)
  let ?d = "d\<lparr>dbTickets := dbTickets d @ [t1], dbCount := Suc (dbCount d)\<rparr>"
  have "tickets_inv uuid ?d" if u: "inj uuid" and inv: "tickets_inv uuid d" and r: "ticket_row_ok t1" "issue_free (itForgejoIssueID t1) (dbTickets d)"
  proof -
    have "uuid (dbCount d) \<notin> set (map itTicketID (dbTickets d))"
      using inv uuid_fresh [OF u] by (fastforce simp: tickets_inv_def)
    moreover have "find_ticket j ?d \<noteq> None" if "find_ticket j d \<noteq> None" for j
      using that unfolding find_ticket_iff by auto
    moreover have "distinct (filter (\<lambda>i. i \<noteq> None) (map itForgejoIssueID (dbTickets d @ [t1])))"
      using inv r(2) by (cases "itForgejoIssueID t1") (auto simp: tickets_inv_def issue_free_def)
    ultimately show ?thesis
      using inv r(1) i unfolding tickets_inv_def by (simp add: lessThan_Suc)
  qed
  moreover have "extends d ?d" by (simp add: extends_def)
  ultimately show ?thesis
    unfolding pgx_CreateITTicket_def t1_def [symmetric] Let_def by (simp add: sound_change_def)
qed

lemma pgx_change_sound:
  assumes f: "\<And>t. lasting (f t) = lasting t" and o: "\<And>t u. ticket_row_ok t \<Longrightarrow> ticket_row_ok (f u) \<Longrightarrow> ticket_row_ok (f t)"
  shows "sound_change uuid d (snd (pgx_change up i f d))"
proof -
  define g where "g u = (if itTicketID u = i then f u else u)" for u
  let ?d = "d\<lparr>dbTickets := map g (dbTickets d)\<rparr>"
  have "itTicketID (lasting (f t)) = itTicketID (lasting t)" "itForgejoIssueID (lasting (f t)) = itForgejoIssueID (lasting t)" for t
    by (simp_all only: f)
  then have k: "itTicketID (g t) = itTicketID t" "itForgejoIssueID (g t) = itForgejoIssueID t" for t
    by (simp_all add: lasting_def g_def)
  have m: "itTicketID \<circ> g = itTicketID" "itForgejoIssueID \<circ> g = itForgejoIssueID" "lasting \<circ> g = lasting"
    by (simp_all add: fun_eq_iff k) (simp add: g_def f)
  have n: "find_ticket j ?d = None \<longleftrightarrow> find_ticket j d = None" for j
    by (auto simp: find_ticket_def find_None_iff k)
  have "tickets_inv uuid ?d" if inv: "tickets_inv uuid d" and r: "ticket_row_ok (f t)" for t
  proof -
    have "list_all ticket_row_ok (map g (dbTickets d))"
      using inv o [OF _ r] by (auto simp: tickets_inv_def list_all_iff g_def)
    then show ?thesis
      using inv unfolding tickets_inv_def by (simp add: m n) (simp add: k)
  qed
  moreover have "extends d ?d" by (simp add: extends_def m)
  ultimately show ?thesis
    by (simp add: pgx_change_def sound_change_def g_def [abs_def] split: option.split)
qed

lemma pgx_Update_sound: "sound_change uuid d (snd (pgx_UpdateITTicket up now u d))"
  unfolding pgx_UpdateITTicket_def
  by (rule pgx_change_sound) (cases "itAssigneeUsername u"; auto simp: lasting_def ticket_row_ok_def)+

lemma pgx_Acknowledge_sound: "sound_change uuid d (snd (pgx_AcknowledgeITTicket up now i who d))"
  unfolding pgx_AcknowledgeITTicket_def
  by (rule pgx_change_sound) (auto simp: lasting_def ticket_row_ok_def)

lemma pgx_Comment_sound: "sound_change uuid d (snd (pgx_CreateTicketComment uuid up now c d))"
proof -
  define c1 where "c1 = c\<lparr>cmCommentID := uuid (dbCount d), cmCreatedAt := now\<rparr>"
  have i: "cmCommentID c1 = uuid (dbCount d)" "cmTicketID c1 = cmTicketID c" by (simp_all add: c1_def)
  let ?d = "d\<lparr>dbComments := dbComments d @ [c1], dbCount := Suc (dbCount d)\<rparr>"
  have n: "find_ticket j ?d = find_ticket j d" for j by (simp add: find_ticket_def)
  have "tickets_inv uuid ?d" if u: "inj uuid" and inv: "tickets_inv uuid d" and t: "find_ticket (cmTicketID c) d \<noteq> None"
  proof -
    have "uuid (dbCount d) \<notin> set (map cmCommentID (dbComments d))"
      using inv uuid_fresh [OF u] by (fastforce simp: tickets_inv_def)
    then show ?thesis using inv t i unfolding tickets_inv_def by (simp add: n lessThan_Suc)
  qed
  moreover have "extends d ?d" by (simp add: extends_def)
  ultimately show ?thesis
    unfolding pgx_CreateTicketComment_def c1_def [symmetric] Let_def by (simp add: sound_change_def)
qed

lemmas repository_sound = pgx_Create_sound pgx_Update_sound pgx_Acknowledge_sound pgx_Comment_sound

text \<open>A call of the service changes the tables through at most one statement of the repository.\<close>

lemma pgx_ops_simps [simp]:
  "opGet (pgx_ops uuid up now) = pgx_GetITTicketByID up" "opListOpen (pgx_ops uuid up now) = pgx_ListOpenITTickets up"
  "opList (pgx_ops uuid up now) = pgx_ListITTickets up" "opListBySource (pgx_ops uuid up now) = pgx_ListITTicketsBySource up"
  "opListByCustomer (pgx_ops uuid up now) = pgx_ListITTicketsByCustomer up" "opCreate (pgx_ops uuid up now) = pgx_CreateITTicket uuid up now"
  "opUpdate (pgx_ops uuid up now) = pgx_UpdateITTicket up now" "opAcknowledge (pgx_ops uuid up now) = pgx_AcknowledgeITTicket up now"
  "opCreateComment (pgx_ops uuid up now) = pgx_CreateTicketComment uuid up now" "opComments (pgx_ops uuid up now) = pgx_ListTicketComments up"
  by (simp_all add: pgx_ops_def)

lemma ops_CreateITTicket_state:
  "fst (snd (ops_CreateITTicket E R now q (s, x))) = s \<or> (\<exists>t. fst (snd (ops_CreateITTicket E R now q (s, x))) = snd (opCreate R t s))"
  by (auto simp: ops_CreateITTicket_def Let_def split: prod.splits sum.splits if_splits) (metis snd_conv)+

lemma ops_UpdateITTicket_state:
  "fst (snd (ops_UpdateITTicket E R i q (s, x))) = s \<or> fst (snd (ops_UpdateITTicket E R i q (s, x))) = snd (opUpdate R (ticket_update i q) s)"
  by (auto simp: ops_UpdateITTicket_def split: prod.splits sum.splits)

lemma ops_AddTicketComment_state:
  "fst (snd (ops_AddTicketComment E R i q (s, x))) = s \<or> (\<exists>c. fst (snd (ops_AddTicketComment E R i q (s, x))) = snd (opCreateComment R c s))"
  by (auto simp: ops_AddTicketComment_def Let_def split: prod.splits sum.splits) (metis snd_conv)+

lemma ops_ProcessPebbleAck_state:
  "snd (ops_ProcessPebbleAck E R now emp q s) = s \<or> (\<exists>who. snd (ops_ProcessPebbleAck E R now emp q s) = snd (opAcknowledge R (akTicketID q) who s))"
  by (auto simp: ops_ProcessPebbleAck_def split: prod.splits sum.splits option.splits) (metis snd_conv)+

lemmas service_state = ops_CreateITTicket_state ops_UpdateITTicket_state ops_AddTicketComment_state ops_ProcessPebbleAck_state

text \<open>The calls of the ticket server that change something, each at any time, with the database reachable or not and for any issue tracker.\<close>

inductive ops_step :: "(nat \<Rightarrow> string) \<Rightarrow> ticket_db \<times> 'x \<Rightarrow> ticket_db \<times> 'x \<Rightarrow> bool" for uuid where
  create: "ops_step uuid sx (snd (grpc_CreateTicket E (pgx_ops uuid up now) now m sx))"
| customer: "ops_step uuid sx (snd (grpc_CreateCustomerTicket E (pgx_ops uuid up now) now cq sx))"
| update: "ops_step uuid sx (snd (grpc_UpdateTicket E (pgx_ops uuid up now) i uq sx))"
| closing: "ops_step uuid sx (snd (grpc_CloseTicket E (pgx_ops uuid up now) i notes sx))"
| comment: "ops_step uuid sx (snd (grpc_AddTicketComment E (pgx_ops uuid up now) i aq sx))"
| alert: "ops_step uuid sx (snd (grpc_CreateAlert E (pgx_ops uuid up now) now am sx))"
| ack: "ops_step uuid (s, x) (snd (grpc_AcknowledgeTicket (E :: 'x OpsEnv) (pgx_ops uuid up now) now emp i who s), x)"
| ack_alert: "ops_step uuid (s, x) (snd (grpc_AcknowledgeAlert (E :: 'x OpsEnv) (pgx_ops uuid up now) now emp kq s), x)"
| push: "ops_step uuid (s, x) (s, snd (grpc_SendPushNotification E now pq x))"

lemma create_sound: "sound_change uuid (fst sx) (fst (snd (ops_CreateITTicket E (pgx_ops uuid up now) now q sx)))"
  using ops_CreateITTicket_state [of E "pgx_ops uuid up now" now q "fst sx" "snd sx"] by (auto simp: pgx_Create_sound)

lemma update_sound: "sound_change uuid (fst sx) (fst (snd (ops_UpdateITTicket E (pgx_ops uuid up now) i q sx)))"
  using ops_UpdateITTicket_state [of E "pgx_ops uuid up now" i q "fst sx" "snd sx"] by (auto simp: pgx_Update_sound)

lemma comment_sound: "sound_change uuid (fst sx) (fst (snd (ops_AddTicketComment E (pgx_ops uuid up now) i q sx)))"
  using ops_AddTicketComment_state [of E "pgx_ops uuid up now" i q "fst sx" "snd sx"] by (auto simp: pgx_Comment_sound)

lemma ack_sound: "sound_change uuid s (snd (ops_ProcessPebbleAck E (pgx_ops uuid up now) now emp q s))"
  using ops_ProcessPebbleAck_state [of E "pgx_ops uuid up now" now emp q s] by (auto simp: pgx_Acknowledge_sound)

lemma ops_step_sound: "ops_step uuid sx sx' \<Longrightarrow> sound_change uuid (fst sx) (fst sx')"
proof (induction rule: ops_step.induct)
  case (ack s x E up now emp i who)
  have "snd (grpc_AcknowledgeTicket E (pgx_ops uuid up now) now emp i who s) = snd (ops_ProcessPebbleAck E (pgx_ops uuid up now) now emp
      \<lparr>akTicketID = i, akAcknowledgedBy = who, akWatchID = [], akDeviceID = [], akButtonID = 0\<rparr> s)"
    by (simp add: grpc_AcknowledgeTicket_def split: prod.split sum.split)
  then show ?case by (simp add: ack_sound)
qed (simp_all add: grpc_CreateTicket_def grpc_CreateCustomerTicket_def ops_CreateCustomerTicket_def grpc_UpdateTicket_def grpc_CloseTicket_def
    grpc_AddTicketComment_def grpc_CreateAlert_def grpc_AcknowledgeAlert_def create_sound update_sound comment_sound ack_sound Let_def case_prod_unfold)

interpretation tickets: transition_system "ops_step uuid" "\<lambda>sx :: ticket_db \<times> 'x. inj uuid \<and> tickets_inv uuid (fst sx)" for uuid
  by unfold_locales (auto dest: ops_step_sound simp: sound_change_def)

section \<open>The two repositories\<close>

definition agree :: "mock_tickets \<Rightarrow> ticket_db \<Rightarrow> bool" where
  "agree m d \<longleftrightarrow> (\<forall>i. mtTickets m i = find_ticket i d) \<and> (\<forall>i. comments_of i m = filter (\<lambda>c. cmTicketID c = i) (dbComments d))"

lemma find_map_other:
  assumes "\<And>u. itTicketID (g u) = itTicketID u"
  shows "find (\<lambda>t. itTicketID t = j) (map g ts) = map_option g (find (\<lambda>t. itTicketID t = j) ts)"
  by (induction ts) (simp_all add: assms)

lemma change_agrees:
  assumes "agree m d" and f: "\<And>t. itTicketID (f t) = itTicketID t"
  shows "pgx_change True i f d = (Inr t, d') \<Longrightarrow> \<exists>m'. mock_change i f m = (Inr t, m') \<and> agree m' d'"
    and "pgx_change True i f d = (Inl e, d') \<Longrightarrow> d' = d \<and> (if e = DbError then \<exists>t m'. mock_change i f m = (Inr t, m') \<and> \<not> ticket_row_ok t
           else mock_change i f m = (Inl e, m))"
proof -
  have m: "mtTickets m i = find_ticket i d" using assms(1) by (simp add: agree_def)
  assume p: "pgx_change True i f d = (Inr t, d')"
  obtain u where u: "find_ticket i d = Some u" using p by (cases "find_ticket i d") (simp_all add: pgx_change_def)
  then have t: "t = f u" and d': "d' = d\<lparr>dbTickets := map (\<lambda>u. if itTicketID u = i then f u else u) (dbTickets d)\<rparr>"
    using p by (auto simp: pgx_change_def split: if_splits)
  have "find_ticket j d' = (if j = i then Some t else find_ticket j d)" for j
  proof -
    have "find_ticket j d' = map_option (\<lambda>u. if itTicketID u = i then f u else u) (find_ticket j d)"
      unfolding find_ticket_def d' by (simp add: find_map_other f)
    moreover have "map_option (\<lambda>u. if itTicketID u = i then f u else u) (find_ticket j d) = (if j = i then Some t else find_ticket j d)"
      using u find_ticket_SomeD [of j d] by (cases "j = i"; cases "find_ticket j d") (simp_all add: t)
    ultimately show ?thesis by simp
  qed
  then show "\<exists>m'. mock_change i f m = (Inr t, m') \<and> agree m' d'"
    using assms(1) u m by (auto simp: mock_change_def agree_def t d' comments_of_def)
next
  have m: "mtTickets m i = find_ticket i d" using assms(1) by (simp add: agree_def)
  assume "pgx_change True i f d = (Inl e, d')"
  then show "d' = d \<and> (if e = DbError then \<exists>t m'. mock_change i f m = (Inr t, m') \<and> \<not> ticket_row_ok t else mock_change i f m = (Inl e, m))"
    using m by (auto simp: pgx_change_def mock_change_def split: option.splits if_splits)
qed

lemma page_all: "int (length ts) \<le> n \<Longrightarrow> set (page n 0 ts) = set ts"
  by (simp add: page_def)

lemma page_newest: "t \<in> set (page n 0 ts) \<Longrightarrow> u \<in> set ts \<Longrightarrow> u \<notin> set (page n 0 ts) \<Longrightarrow> itCreatedAt u \<le> itCreatedAt t"
proof -
  assume t: "t \<in> set (page n 0 ts)" and u: "u \<in> set ts" "u \<notin> set (page n 0 ts)"
  define ys where "ys = sort_key (\<lambda>t. - itCreatedAt t) ts"
  have "u \<in> set ys" using u by (simp add: ys_def)
  moreover have "set ys = set (take (nat n) ys) \<union> set (drop (nat n) ys)" by (metis append_take_drop_id set_append)
  ultimately have "u \<in> set (drop (nat n) ys)" using u(2) by (auto simp: page_def ys_def)
  moreover have "sorted (map (\<lambda>t. - itCreatedAt t) (take (nat n) ys @ drop (nat n) ys))" by (simp add: ys_def)
  moreover have "t \<in> set (take (nat n) ys)" using t by (simp add: page_def ys_def)
  ultimately have "- itCreatedAt t \<le> - itCreatedAt u"
    unfolding map_append sorted_append set_map by blast
  then show "itCreatedAt u \<le> itCreatedAt t" by simp
qed

section \<open>Properties\<close>

text \<open>C18: A ticket is never lost or rewritten: along every run of calls of the ticket server over the database, whatever the issue tracker
  does and whenever the database is unreachable, the constraints of the tables hold, every ticket stays where it is with its title, body,
  severity, category, source, customer and author, and the comments are only appended to.
\<close>

theorem ticket_history:
  assumes "(ops_step uuid)\<^sup>*\<^sup>* (d, x) (d', x')" and "inj uuid" and "tickets_inv uuid d"
  shows "tickets_inv uuid d' \<and> extends d d'"
proof
  show "tickets_inv uuid d'" using tickets.inv_run [OF assms(1)] assms(2,3) by simp
  show "extends d d'"
    using tickets.relation_run [OF assms(1), where R = "\<lambda>s s'. extends (fst s) (fst s')"] assms(2,3) ops_step_sound extends_trans
    by (fastforce simp: sound_change_def)
qed

definition quiet_env :: "unit OpsEnv" where
  "quiet_env = \<lparr>oeTracker = None, oePost = (\<lambda>_ _ _ _ x. (Answer 200, x)), oeNtfyURL = [], oeMockPush = False, oeOnCall = [], oeDevAuth = False\<rparr>"

definition empty_db :: ticket_db where
  "empty_db = \<lparr>dbTickets = [], dbComments = [], dbCount = 0\<rparr>"

definition demo_request :: CreateCustomerTicketRequest where
  "demo_request = \<lparr>ctCustomerID = ''c1'', ctCategory = ''Trading'', ctTitle = ''Order stuck'', ctBody = ''Please check''\<rparr>"

lemma empty_db_inv: "tickets_inv uuid empty_db"
  by (simp add: tickets_inv_def empty_db_def)

theorem ticket_history_witness:
  "\<exists>d'. (ops_step dec_nat)\<^sup>*\<^sup>* (empty_db, ()) (d', ()) \<and> length (dbTickets d') = 1 \<and> tickets_inv dec_nat d' \<and> extends empty_db d'"
proof -
  define d' where "d' = fst (snd (grpc_CreateCustomerTicket quiet_env (pgx_ops dec_nat True 5) 5 demo_request (empty_db, ())))"
  have n: "length (dbTickets d') = 1" unfolding d'_def by code_simp
  have "snd (grpc_CreateCustomerTicket quiet_env (pgx_ops dec_nat True 5) 5 demo_request (empty_db, ())) = (d', ())"
    unfolding d'_def by (simp add: prod_eq_iff)
  then have "ops_step dec_nat (empty_db, ()) (d', ())"
    by (metis ops_step.customer)
  then have r: "(ops_step dec_nat)\<^sup>*\<^sup>* (empty_db, ()) (d', ())" by blast
  have "inj dec_nat" by (simp add: inj_def dec_nat_inj)
  from ticket_history [OF r this empty_db_inv] r n show ?thesis by blast
qed

text \<open>C40: The repository in memory stands in for the database only as far as the constraints go: from states that hold the same tickets and
  comments, an update or an acknowledgement that the database accepts gives the same ticket and states that agree again; one that the
  database refuses changes nothing there, and fails in memory too if the ticket does not exist, but succeeds in memory if a constraint is
  broken. Every update without a new state, such as one that only names an assignee, is of the last kind.
\<close>

theorem repositories_agree:
  assumes "agree m d" and "tickets_inv uuid d"
  shows "(case pgx_UpdateITTicket True now u d of
      (Inr t, d') \<Rightarrow> itState u \<noteq> [] \<and> (\<exists>m'. mock_UpdateITTicket now u m = (Inr t, m') \<and> agree m' d')
    | (Inl e, d') \<Rightarrow> d' = d \<and> (if e = DbError then \<exists>t m'. mock_UpdateITTicket now u m = (Inr t, m') \<and> (itState u = [] \<or> \<not> ticket_row_ok t)
        else mock_UpdateITTicket now u m = (Inl e, m)))
    \<and> (case pgx_AcknowledgeITTicket True now i who d of
      (Inr t, d') \<Rightarrow> \<exists>m'. mock_AcknowledgeITTicket now i who m = (Inr t, m') \<and> agree m' d'
    | (Inl e, d') \<Rightarrow> d' = d \<and> (if e = DbError then 100 < length who \<and> isl (fst (mock_AcknowledgeITTicket now i who m)) = False
        else mock_AcknowledgeITTicket now i who m = (Inl e, m)))"
    (is "?update \<and> ?ack")
proof
  define f where "f st t = t\<lparr>itState := st, itAssigneeUsername := keep_if_unset (itAssigneeUsername u) (itAssigneeUsername t),
       itResolutionNotes := keep_if_unset (itResolutionNotes u) (itResolutionNotes t), itUpdatedAt := now\<rparr>" for st and t :: ITTicket
  have p: "pgx_UpdateITTicket True now u d = pgx_change True (itTicketID u) (f (itState u)) d"
    by (simp add: pgx_UpdateITTicket_def f_def [abs_def])
  have q: "mock_UpdateITTicket now u m = mock_change (itTicketID u) (f (itState u)) m" if "itState u \<noteq> []"
    using that by (simp add: mock_UpdateITTicket_def f_def [abs_def])
  have n: "\<not> ticket_row_ok (f [] t)" for t by (simp add: f_def ticket_row_ok_def)
  have k: "itTicketID (f (itState u) t) = itTicketID t" for t by (simp add: f_def)
  show ?update
  proof (cases "itState u = []")
    case True
    then show ?thesis using assms(1) n
      by (simp add: p pgx_change_def agree_def mock_UpdateITTicket_def mock_change_def split: option.split)
  next
    case False
    obtain out d' where o: "pgx_change True (itTicketID u) (f (itState u)) d = (out, d')" by fastforce
    then show ?thesis
      using False change_agrees(1) [OF assms(1) k, of "itTicketID u" _ d'] change_agrees(2) [OF assms(1) k, of "itTicketID u" _ d']
      unfolding p q [OF False] by (cases out) auto
  qed
  define g where "g t = t\<lparr>itState := ''acknowledged'', itAcknowledgedAt := Some now, itAcknowledgedBy := Some who, itUpdatedAt := now\<rparr>" for t :: ITTicket
  have k': "itTicketID (g t) = itTicketID t" for t by (simp add: g_def)
  have p': "pgx_AcknowledgeITTicket True now i who d = pgx_change True i g d" "mock_AcknowledgeITTicket now i who m = mock_change i g m"
    by (simp_all add: pgx_AcknowledgeITTicket_def mock_AcknowledgeITTicket_def g_def [abs_def])
  have r: "ticket_row_ok (g t)" if "t \<in> set (dbTickets d)" and "length who \<le> 100" for t
    using assms(2) that by (auto simp: tickets_inv_def list_all_iff ticket_row_ok_def g_def strVal_def)
  obtain out d' where o: "pgx_change True i g d = (out, d')" by fastforce
  show ?ack
  proof (cases out)
    case (Inr t)
    then show ?thesis using change_agrees(1) [OF assms(1) k'] o unfolding p' by simp
  next
    case (Inl e)
    have "100 < length who" if "e = DbError"
      using o Inl that r find_ticket_SomeD [of i d] by (fastforce simp: pgx_change_def split: option.splits if_splits)
    then show ?thesis using change_agrees(2) [OF assms(1) k', of i e d'] o Inl unfolding p' by (auto split: if_splits)
  qed
qed

definition demo_ticket :: ITTicket where
  "demo_ticket = (new_ticket (customer_request demo_request))\<lparr>itTicketID := ''1''\<rparr>"

definition demo_db :: ticket_db where
  "demo_db = \<lparr>dbTickets = [demo_ticket], dbComments = [], dbCount = 2\<rparr>"

definition demo_mock :: mock_tickets where
  "demo_mock = \<lparr>mtTickets = [''1'' \<mapsto> demo_ticket], mtComments = Map.empty\<rparr>"

lemma demo_agree: "agree demo_mock demo_db"
  by (auto simp: agree_def demo_mock_def demo_db_def demo_ticket_def find_ticket_def comments_of_def)

lemma demo_inv: "tickets_inv dec_nat demo_db"
proof -
  have "ticket_row_ok demo_ticket" by code_simp
  moreover have "itTicketID demo_ticket = dec_nat 1" by code_simp
  ultimately show ?thesis
    unfolding tickets_inv_def demo_db_def by (simp del: One_nat_def)
qed

theorem repositories_agree_witness:
  "agree demo_mock demo_db \<and> tickets_inv dec_nat demo_db
   \<and> fst (pgx_UpdateITTicket True 9 (ticket_update ''1'' \<lparr>uqState = [], uqAssigneeUsername = ''elise'', uqResolutionNotes = []\<rparr>) demo_db) = Inl DbError
   \<and> (\<exists>t m'. mock_UpdateITTicket 9 (ticket_update ''1'' \<lparr>uqState = [], uqAssigneeUsername = ''elise'', uqResolutionNotes = []\<rparr>) demo_mock = (Inr t, m'))"
proof -
  let ?u = "ticket_update ''1'' \<lparr>uqState = [], uqAssigneeUsername = ''elise'', uqResolutionNotes = []\<rparr>"
  have e: "fst (pgx_UpdateITTicket True 9 ?u demo_db) = Inl DbError" by code_simp
  obtain d' where o: "pgx_UpdateITTicket True 9 ?u demo_db = (Inl DbError, d')" using e by (metis prod.collapse)
  from repositories_agree [OF demo_agree demo_inv, of 9 ?u "''1''" "''elise''"] have "\<exists>t m'. mock_UpdateITTicket 9 ?u demo_mock = (Inr t, m')"
    unfolding o by auto
  then show ?thesis using demo_agree demo_inv e by blast
qed

text \<open>An urgent ticket pages the engineer on call: a request with a title and an author that the database accepts stores an open ticket, found
  under its identifier, and if the request is urgent (by flag or by severity) the notification server gets exactly one message, the body of
  the ticket, under the topic of the on-call channel. But an urgent ticket with an empty body pages nobody, and the caller is not told.
\<close>

theorem urgent_ticket_pages:
  fixes E uuid now q d x
  defines "res \<equiv> ops_CreateITTicket E (pgx_ops uuid True now) now q (d, x)"
  assumes "cqTitle q \<noteq> []" and "cqAuthorUsername q \<noteq> []" and "oeTracker E = None"
    and "ticket_row_ok (new_ticket q)" and "issue_free (cqForgejoIssueID q) (dbTickets d)" and "inj uuid" and "tickets_inv uuid d"
  shows "\<exists>t d'. fst res = Inr t \<and> fst (snd res) = d' \<and> find_ticket (itTicketID t) d' = Some t \<and> itState t = ''open''
    \<and> (itIsUrgent t \<longleftrightarrow> request_urgent q)
    \<and> snd (snd res) = (if request_urgent q \<and> cqBody q \<noteq> []
         then snd (oePost E (TrimRight (CHR ''/'') (if oeNtfyURL E = [] then ''http://ntfy.apps.svc.cluster.local'' else oeNtfyURL E) @ ''/oncall-alerts'')
                (''URGENT TICKET ['' @ ToUpper (itCategory t) @ '']: '' @ cqTitle q) ''urgent'' (cqBody q) x)
         else x)"
proof -
  define t where "t = (new_ticket q)\<lparr>itForgejoIssueID := cqForgejoIssueID q, itTicketID := uuid (dbCount d), itCreatedAt := now, itUpdatedAt := now\<rparr>"
  let ?d = "d\<lparr>dbTickets := dbTickets d @ [t], dbCount := Suc (dbCount d)\<rparr>"
  have s: "sync_issue E r q x = (cqForgejoIssueID q, x)" for r using assms(4) by (simp add: sync_issue_def)
  have n: "itSeverity (new_ticket q) \<noteq> []" "itCategory (new_ticket q) \<noteq> []" "itSource (new_ticket q) \<noteq> []" "itForgejoRepo (new_ticket q) \<noteq> []"
    by (simp_all add: new_ticket_def Let_def)
  have "ticket_row_ok t" using assms(5) by (simp add: t_def ticket_row_ok_def)
  moreover have "(ticket_defaults ((new_ticket q)\<lparr>itForgejoIssueID := cqForgejoIssueID q\<rparr>))\<lparr>itTicketID := uuid (dbCount d), itState := ''open'',
      itAcknowledgedAt := None, itAcknowledgedBy := None, itCreatedAt := now, itUpdatedAt := now\<rparr> = t"
    using n by (simp add: ticket_defaults_def t_def Let_def) (simp add: new_ticket_def)
  moreover have i: "itForgejoIssueID t = cqForgejoIssueID q" by (simp add: t_def)
  ultimately have c: "pgx_CreateITTicket uuid True now ((new_ticket q)\<lparr>itForgejoIssueID := cqForgejoIssueID q\<rparr>) d = (Inr t, ?d)"
    using assms(6) by (simp add: pgx_CreateITTicket_def)
  have u: "itIsUrgent (new_ticket q) = request_urgent q" "itCategory (new_ticket q) = itCategory t" by (simp_all add: new_ticket_def t_def)
  have r: "res = (Inr t, ?d, if request_urgent q then snd (ops_SendPushNotification E now (urgent_push (new_ticket q) q) x) else x)"
    unfolding res_def ops_CreateITTicket_def using assms(2,3) c u by (simp add: s)
  have f: "find_ticket (uuid (dbCount d)) d = None"
    using find_ticket_iff [of "uuid (dbCount d)" d] assms(7,8) uuid_fresh [OF assms(7)] by (fastforce simp: tickets_inv_def)
  have g: "find_ticket (itTicketID t) ?d = Some t"
    using f by (simp add: find_ticket_def t_def find_appended)
  have p: "snd (ops_SendPushNotification E now (urgent_push (new_ticket q) q) x) = (if cqBody q \<noteq> []
         then snd (oePost E (TrimRight (CHR ''/'') (if oeNtfyURL E = [] then ''http://ntfy.apps.svc.cluster.local'' else oeNtfyURL E) @ ''/oncall-alerts'')
                (''URGENT TICKET ['' @ ToUpper (itCategory t) @ '']: '' @ cqTitle q) ''urgent'' (cqBody q) x)
         else x)"
    by (simp add: ops_SendPushNotification_def urgent_push_def Let_def u split: prod.split post_result.split)
  have st: "itState t = ''open''" "itIsUrgent t = request_urgent q" by (simp_all add: t_def new_ticket_def)
  show ?thesis
    unfolding r using g p st by (intro exI [of _ t] exI [of _ ?d]) simp
qed

definition log_env :: "(string \<times> string) list OpsEnv" where
  "log_env = \<lparr>oeTracker = None, oePost = (\<lambda>url _ _ text x. (Answer 200, x @ [(url, text)])), oeNtfyURL = ''http://ntfy/'', oeMockPush = False,
     oeOnCall = [], oeDevAuth = False\<rparr>"

definition outage :: CreateITTicketRequest where
  "outage = \<lparr>cqForgejoRepo = [], cqTitle = ''Broker down'', cqBody = ''No quotes'', cqAuthorUsername = ''frank'', cqForgejoIssueID = None,
     cqSeverity = ''critical'', cqCategory = ''Trading'', cqSource = [], cqCustomerID = [], cqIsUrgent = False\<rparr>"

theorem urgent_ticket_pages_witness:
  "\<exists>t. fst (ops_CreateITTicket log_env (pgx_ops dec_nat True 7) 7 outage (empty_db, [])) = Inr t
     \<and> find_ticket (itTicketID t) (fst (snd (ops_CreateITTicket log_env (pgx_ops dec_nat True 7) 7 outage (empty_db, [])))) = Some t
     \<and> snd (snd (ops_CreateITTicket log_env (pgx_ops dec_nat True 7) 7 outage (empty_db, []))) = [(''http://ntfy/oncall-alerts'', ''No quotes'')]"
proof -
  have r: "ticket_row_ok (new_ticket outage)" by code_simp
  have u: "request_urgent outage" "cqBody outage = ''No quotes''" by (simp_all add: request_urgent_def outage_def)
  have p: "snd (oePost log_env (TrimRight (CHR ''/'') (if oeNtfyURL log_env = [] then ''http://ntfy.apps.svc.cluster.local'' else oeNtfyURL log_env) @ ''/oncall-alerts'') a b
      (cqBody outage) []) = [(''http://ntfy/oncall-alerts'', ''No quotes'')]" for a b
    by (simp add: log_env_def outage_def TrimRight_def)
  have j: "inj dec_nat" by (simp add: inj_def dec_nat_inj)
  have "issue_free (cqForgejoIssueID outage) (dbTickets empty_db)" "oeTracker log_env = None" "cqTitle outage \<noteq> []" "cqAuthorUsername outage \<noteq> []"
    by (simp_all add: issue_free_def outage_def log_env_def)
  from urgent_ticket_pages [where E = log_env and x = "[]" and now = 7, OF this(3,4,2) r this(1) j empty_db_inv] p u show ?thesis by auto
qed

text \<open>The alerts of the watch are the newest fifty open tickets: no closed or acknowledged ticket is among them, every open ticket is while
  there are at most fifty, and beyond that an open ticket that is left out is never newer than one that is shown, however urgent it is.
\<close>

theorem pending_alerts_newest:
  "\<exists>ts. ops_GetPendingAlerts (pgx_ops uuid True now) d = Inr (map alert_payload ts) \<and> length ts \<le> 50
    \<and> set ts \<subseteq> {t \<in> set (dbTickets d). itState t = ''open''}
    \<and> (length (filter (\<lambda>t. itState t = ''open'') (dbTickets d)) \<le> 50 \<longrightarrow> set ts = {t \<in> set (dbTickets d). itState t = ''open''})
    \<and> (\<forall>t \<in> set ts. \<forall>u \<in> set (dbTickets d). itState u = ''open'' \<longrightarrow> u \<notin> set ts \<longrightarrow> itCreatedAt u \<le> itCreatedAt t)"
proof -
  define os where "os = filter (\<lambda>t. itState t = ''open'') (dbTickets d)"
  have o: "set os = {t \<in> set (dbTickets d). itState t = ''open''}" by (auto simp: os_def)
  have "ops_GetPendingAlerts (pgx_ops uuid True now) d = Inr (map alert_payload (page 50 0 os))"
    by (simp add: ops_GetPendingAlerts_def pgx_ListOpenITTickets_def pgx_query_def os_def)
  moreover have "length (page 50 0 os) \<le> 50" by (simp add: page_def)
  moreover have "set (page 50 0 os) \<subseteq> set os" by (auto simp: page_def dest: in_set_takeD)
  moreover have "length os \<le> 50 \<longrightarrow> set (page 50 0 os) = set os" using page_all [of os 50] by simp
  moreover have "\<forall>t \<in> set (page 50 0 os). \<forall>u \<in> set os. u \<notin> set (page 50 0 os) \<longrightarrow> itCreatedAt u \<le> itCreatedAt t"
    using page_newest by blast
  ultimately show ?thesis unfolding o os_def [symmetric] by blast
qed

theorem pending_alerts_newest_witness:
  "\<exists>ts. ops_GetPendingAlerts (pgx_ops dec_nat True 9) demo_db = Inr (map alert_payload ts) \<and> set ts = {demo_ticket}"
proof -
  have "itState demo_ticket = ''open''" by (simp add: demo_ticket_def new_ticket_def)
  then have "length (filter (\<lambda>t. itState t = ''open'') (dbTickets demo_db)) \<le> 50" "{t \<in> set (dbTickets demo_db). itState t = ''open''} = {demo_ticket}"
    by (auto simp: demo_db_def)
  then show ?thesis using pending_alerts_newest [of dec_nat 9 demo_db] by auto
qed

end
