(* ===== verification/InternalBLL.thy ===== *)
theory InternalBLL
  imports WorkforceGrpc
begin

text \<open>
  The internal business logic layer, \<open>internal/app/internalbll\<close>: the employee sagas, the HR webhook, incidents and firmware rollouts.
  The server holds clients of the workforce, operations and facilities services, of the source control and hardware systems and of the
  search index; each is a record of the calls it makes, over a state of its own. \<open>workforce_grpc\<close> is the workforce client that reaches
  the server of \<open>WorkforceGrpc\<close>.
\<close>

section \<open>Clients and state\<close>

record 'w wf_client =
  clGetEmployee :: "string \<Rightarrow> 'w \<Rightarrow> rpc_error + employee_message option"
  clListEmployees :: "string \<Rightarrow> string \<Rightarrow> 'w \<Rightarrow> rpc_error + employee_message list"
  clOnboardEmployee :: "employee_message \<Rightarrow> care_message option \<Rightarrow> 'w \<Rightarrow> (rpc_error + employee_message option) \<times> 'w"
  clUpdateEmployeeStatus :: "string \<Rightarrow> string \<Rightarrow> 'w \<Rightarrow> (rpc_error + employee_message option) \<times> 'w"
  clListOnboardingChecklist :: "string \<Rightarrow> 'w \<Rightarrow> rpc_error + task_message list"
  clGetCareSchedule :: "string \<Rightarrow> 'w \<Rightarrow> rpc_error + care_message option"
  clSetMedicalHold :: "string \<Rightarrow> bool \<Rightarrow> 'w \<Rightarrow> (rpc_error + care_message option) \<times> 'w"
  clCreateIncident :: "incident_message \<Rightarrow> 'w \<Rightarrow> (rpc_error + incident_message option) \<times> 'w"
  clUpdateIncidentStatus :: "string \<Rightarrow> string \<Rightarrow> string \<Rightarrow> 'w \<Rightarrow> (rpc_error + incident_message option) \<times> 'w"

text \<open>The workforce server as a client sees it: \<open>clk\<close> gives the times of the call, \<open>oe\<close> and \<open>ok\<close> the orders of the maps it walks over.\<close>

definition workforce_grpc :: "bool \<Rightarrow> (nat \<Rightarrow> time) \<Rightarrow> string list \<Rightarrow> string list \<Rightarrow> wfRepository wf_client" where
  "workforce_grpc enableFeline clk oe ok = \<lparr>
     clGetEmployee = (\<lambda>i r. map_sum id Some (grpc_GetEmployee i r)),
     clListEmployees = (\<lambda>t st r. Inr (grpc_ListEmployees oe t st r)),
     clOnboardEmployee = (\<lambda>m c r. map_prod (map_sum id Some) id (grpc_OnboardEmployee clk (Some m) c r)),
     clUpdateEmployeeStatus = (\<lambda>i st r. map_prod (map_sum id Some) id (grpc_UpdateEmployeeStatus (clk 0) i st r)),
     clListOnboardingChecklist = (\<lambda>i r. grpc_ListOnboardingChecklist ok i r),
     clGetCareSchedule = (\<lambda>f r. map_sum id Some (grpc_GetCareSchedule enableFeline f r)),
     clSetMedicalHold = (\<lambda>f h r. map_prod (map_sum id Some) id (grpc_SetMedicalHold enableFeline (clk 0) f h r)),
     clCreateIncident = (\<lambda>m r. map_prod (map_sum id Some) id (grpc_CreateIncident (clk 0) m r)),
     clUpdateIncidentStatus = (\<lambda>i st n r. map_prod (map_sum id Some) id (grpc_UpdateIncidentStatus (clk 0) i st n r))\<rparr>"

record CreateTicketRequest =
  tqTitle :: string
  tqBody :: string
  tqSeverity :: string
  tqCategory :: string
  tqSource :: string
  tqAuthorUsername :: string
  tqIsUrgent :: bool

record document =
  dcID :: string
  dcCategory :: string
  dcTitle :: string
  dcSnippet :: string

record DeviceOTAJob =
  ojJobID :: string
  ojAssetID :: string
  ojReleaseID :: string
  ojStatus :: string
  ojScheduledAt :: string

record EmployeeOnboardedPayload =
  epEmployeeID :: string
  epEmployeeType :: string
  epFirstName :: string
  epLastName :: string
  epEmail :: string
  epRoleTitle :: string
  epDepartment :: string

datatype bll_event = OnboardedEvent EmployeeOnboardedPayload | IncidentCreated incident_message time | OTATriggered string string string

record ('w, 'v, 'h, 'o, 'f, 'x) bll_server =
  blWorkforce :: "'w wf_client option"
  blVCS :: "'v VCSClient option"
  blHardware :: "'h HardwareClient option"
  blOps :: "(CreateTicketRequest \<Rightarrow> 'o \<Rightarrow> (rpc_error + string option) \<times> 'o) option"
  blFacilities :: "(string list \<Rightarrow> string \<Rightarrow> 'f \<Rightarrow> (rpc_error + DeviceOTAJob list) \<times> 'f) option"
  blSearch :: "(document \<Rightarrow> 'x \<Rightarrow> 'x) option"
  blPublisher :: bool

record ('w, 'v, 'h, 'o, 'f, 'x) bll_world =
  bwWorkforce :: 'w
  bwVCS :: 'v
  bwHardware :: 'h
  bwOps :: 'o
  bwFacilities :: 'f
  bwSearch :: 'x
  bwEvents :: "bll_event list"

datatype bll_error = BllStatus code | Rpc rpc_error | FetchFailed "rpc_error option"

definition emit :: "('w, 'v, 'h, 'o, 'f, 'x) bll_server \<Rightarrow> bll_event \<Rightarrow> ('w, 'v, 'h, 'o, 'f, 'x) bll_world \<Rightarrow> ('w, 'v, 'h, 'o, 'f, 'x) bll_world" where
  "emit B ev w = (if blPublisher B then w\<lparr>bwEvents := bwEvents w @ [ev]\<rparr> else w)"

definition index_document :: "('w, 'v, 'h, 'o, 'f, 'x) bll_server \<Rightarrow> document \<Rightarrow> ('w, 'v, 'h, 'o, 'f, 'x) bll_world \<Rightarrow> ('w, 'v, 'h, 'o, 'f, 'x) bll_world" where
  "index_document B d w = (case blSearch B of None \<Rightarrow> w | Some ix \<Rightarrow> w\<lparr>bwSearch := ix d (bwSearch w)\<rparr>)"

section \<open>Onboarding\<close>

record bll_onboard_request = OnboardingRequest +
  oqCareSchedule :: "care_message option"

record bll_onboarding_result =
  boEmployeeID :: string
  boIdpIdentityID :: string
  boStatus :: string
  boChecklistTasks :: "string list"
  boCareSchedule :: "care_message option"
  boVCSAccount :: "VCSAccount option"
  boWorkspace :: "Workspace option"
  boHardwareAssets :: "AssetAllocation list"

definition employee_type :: "bll_onboard_request \<Rightarrow> string" where
  "employee_type q = (if oqEmployeeType q = [] then ''human'' else oqEmployeeType q)"

definition default_care :: "bll_onboard_request \<Rightarrow> care_message" where
  "default_care q = \<lparr>pcScheduleID = [], pcFelineID = [],
     pcDietaryPlan = (if oqDietaryPlan q = [] then ''Standard balanced feline diet'' else oqDietaryPlan q),
     pcFeedingTimes = (if oqFeedingTimes q = [] then [''08:00 AM'', ''05:00 PM''] else oqFeedingTimes q),
     pcSpecialMedicalNeeds = [], pcPreferredPerchZone = [], pcEmergencyMedicalHold = False, pcCaretakerID = oqCaretakerID q, pcCreatedAt = [], pcUpdatedAt = []\<rparr>"

definition requested_care :: "bll_onboard_request \<Rightarrow> care_message option" where
  "requested_care q = (if employee_type q = ''feline'' \<and> oqCareSchedule q = None then Some (default_care q) else oqCareSchedule q)"

definition hired :: "bll_onboard_request \<Rightarrow> employee_message" where
  "hired q = \<lparr>peEmployeeID = oqEmployeeID q, peEmployeeType = employee_type q, peFirstName = oqFirstName q, peLastName = oqLastName q, peEmail = oqEmail q,
     peRoleTitle = oqRoleTitle q, peDepartment = oqDepartment q, peStatus = ''onboarding'', peHiredAt = [], peCreatedAt = [], peUpdatedAt = []\<rparr>"

definition user_name :: "string \<Rightarrow> string \<Rightarrow> string" where
  "user_name firstName lastName = (if lastName \<noteq> [] then ToLower (firstName @ ''.'' @ lastName) else ToLower firstName)"

definition full_name :: "bll_onboard_request \<Rightarrow> string" where
  "full_name q = (if oqLastName q \<noteq> [] then oqFirstName q @ '' '' @ oqLastName q else oqFirstName q)"

definition user_email :: "bll_onboard_request \<Rightarrow> string" where
  "user_email q = (if oqEmail q = [] then user_name (oqFirstName q) (oqLastName q) @ ''@oci.local'' else oqEmail q)"

definition provision ::
    "('w, 'v, 'h, 'o, 'f, 'x) bll_server \<Rightarrow> bll_onboard_request \<Rightarrow> string \<Rightarrow> ('w, 'v, 'h, 'o, 'f, 'x) bll_world
      \<Rightarrow> (VCSAccount option \<times> Workspace option \<times> AssetAllocation list) \<times> ('w, 'v, 'h, 'o, 'f, 'x) bll_world" where
  "provision B q employeeID w = (if employee_type q = ''feline'' then ((None, None, []), w)
     else let username = user_name (oqFirstName q) (oqLastName q);
              (a, v) = (case blVCS B of None \<Rightarrow> (None, bwVCS w) | Some C \<Rightarrow> vcProvisionAccount C username (user_email q) (full_name q) (oqSSHKey q) (bwVCS w));
              ws = \<lparr>woUsername = username, woQuota = (if oqStorageQuota q = [] then ''25 GB'' else oqStorageQuota q),
                woGroupFolders = [''Company Shared'', if oqDepartment q = [] then ''General'' else oqDepartment q], woStatus = ''Active''\<rparr>;
              (hw, h) = (case blHardware B of None \<Rightarrow> ([], bwHardware w)
                 | Some C \<Rightarrow> (case hcAssignInitialHardware C employeeID (oqRoleTitle q) (oqDepartment q) (bwHardware w) of
                     (Some xs, h) \<Rightarrow> (xs, h) | (None, h) \<Rightarrow> ([], h)))
          in ((a, Some ws, hw), w\<lparr>bwVCS := v, bwHardware := h\<rparr>))"

definition task_names :: "'w wf_client \<Rightarrow> bll_onboard_request \<Rightarrow> string \<Rightarrow> 'w \<Rightarrow> string list" where
  "task_names W q employeeID r =
     (let names = (case clListOnboardingChecklist W employeeID r of Inr ts \<Rightarrow> map ptTaskName ts | Inl _ \<Rightarrow> [])
      in if names = [] then [''Badge & Access Provisioning'', ''Workplace Safety & Compliance'']
           @ (if employee_type q = ''feline'' then [''Preferred Perch Inspection'', ''Dietary & Care Schedule Setup'']
              else [''Forgejo Account Provisioning & SPIFFE ID Issuance'']) else names)"

definition stored_care :: "'w wf_client \<Rightarrow> bll_onboard_request \<Rightarrow> string \<Rightarrow> 'w \<Rightarrow> care_message option" where
  "stored_care W q employeeID r = (if employee_type q \<noteq> ''feline'' then None
     else (case clGetCareSchedule W employeeID r of Inr (Some c) \<Rightarrow> Some c | _ \<Rightarrow> requested_care q))"

definition bll_OnboardEmployee ::
    "('w, 'v, 'h, 'o, 'f, 'x) bll_server \<Rightarrow> bll_onboard_request \<Rightarrow> ('w, 'v, 'h, 'o, 'f, 'x) bll_world
      \<Rightarrow> (bll_error + employee_message \<times> bll_onboarding_result) \<times> ('w, 'v, 'h, 'o, 'f, 'x) bll_world" where
  "bll_OnboardEmployee B q w =
     (if oqFirstName q = [] \<or> (employee_type q \<noteq> ''human'' \<and> employee_type q \<noteq> ''feline'') then (Inl (BllStatus InvalidArgument), w)
      else (case blWorkforce B of
          None \<Rightarrow> (Inl (BllStatus Unavailable), w)
        | Some W \<Rightarrow> (case clOnboardEmployee W (hired q) (requested_care q) (bwWorkforce w) of
            (Inl e, r) \<Rightarrow> (Inl (Rpc e), w\<lparr>bwWorkforce := r\<rparr>)
          | (Inr None, r) \<Rightarrow> (Inl (BllStatus Internal), w\<lparr>bwWorkforce := r\<rparr>)
          | (Inr (Some created), r) \<Rightarrow>
              let i = peEmployeeID created;
                  ((a, ws, hw), w') = provision B q i (w\<lparr>bwWorkforce := r\<rparr>);
                  res = \<lparr>boEmployeeID = i, boIdpIdentityID = ''idp-forgejo-'' @ i, boStatus = peStatus created, boChecklistTasks = task_names W q i r,
                    boCareSchedule = stored_care W q i r, boVCSAccount = a, boWorkspace = ws, boHardwareAssets = hw\<rparr>
              in (Inr (created, res), emit B (OnboardedEvent \<lparr>epEmployeeID = i, epEmployeeType = employee_type q, epFirstName = oqFirstName q,
                    epLastName = oqLastName q, epEmail = oqEmail q, epRoleTitle = oqRoleTitle q, epDepartment = oqDepartment q\<rparr>) w'))))"

section \<open>Offboarding and lifecycle\<close>

definition bll_OffboardEmployee ::
    "('w, 'v, 'h, 'o, 'f, 'x) bll_server \<Rightarrow> time \<Rightarrow> OffboardingRequest \<Rightarrow> ('w, 'v, 'h, 'o, 'f, 'x) bll_world
      \<Rightarrow> (bll_error + OffboardingResult) \<times> ('w, 'v, 'h, 'o, 'f, 'x) bll_world" where
  "bll_OffboardEmployee B now q w =
     (if fqEmployeeID q = [] then (Inl (BllStatus InvalidArgument), w)
      else (case blWorkforce B of
          None \<Rightarrow> (Inl (BllStatus Unavailable), w)
        | Some W \<Rightarrow> (case clGetEmployee W (fqEmployeeID q) (bwWorkforce w) of
            Inl e \<Rightarrow> (Inl (FetchFailed (Some e)), w)
          | Inr None \<Rightarrow> (Inl (FetchFailed None), w)
          | Inr (Some emp) \<Rightarrow>
              (case clUpdateEmployeeStatus W (fqEmployeeID q) (if fqTargetStatus q = [] then ''separated'' else fqTargetStatus q) (bwWorkforce w) of
                (Inl e, r) \<Rightarrow> (Inl (Rpc e), w\<lparr>bwWorkforce := r\<rparr>)
              | (Inr upd, r) \<Rightarrow>
                  let updated = (case upd of Some u \<Rightarrow> u | None \<Rightarrow> emp);
                      v = (case blVCS B of None \<Rightarrow> bwVCS w | Some C \<Rightarrow> snd (vcRevokeAccess C (user_name (peFirstName emp) (peLastName emp)) (bwVCS w)));
                      (tickets, h) = (case blHardware B of None \<Rightarrow> (None, bwHardware w)
                         | Some C \<Rightarrow> hcCreateAssetRecoveryTickets C (fqEmployeeID q) (fqReason q) (bwHardware w));
                      (hold, r') = (if peEmployeeType emp = ''feline''
                         then (case clSetMedicalHold W (fqEmployeeID q) True r of
                             (Inr (Some c), r') \<Rightarrow> (pcEmergencyMedicalHold c, r') | (_, r') \<Rightarrow> (False, r'))
                         else (False, r))
                  in (Inr \<lparr>frEmployeeID = peEmployeeID updated, frStatus = peStatus updated, frIdentityRevoked = True, frSessionsRevoked = True,
                        frStorageArchived = True, frArchiveVaultPath = vault_path now (fqEmployeeID q), frHardwareTickets = tickets,
                        frTradingHoldState = hold, frCareTransition = care_transition (peEmployeeType emp)\<rparr>,
                      w\<lparr>bwWorkforce := r', bwVCS := v, bwHardware := h\<rparr>)))))"

record lifecycle =
  lcEmployee :: employee_message
  lcStatus :: string
  lcCareSchedule :: "care_message option"
  lcChecklist :: "task_message list"
  lcVCSUsername :: string
  lcWorkspaceQuota :: string
  lcHardwareSummary :: string

text \<open>The read of a lifecycle answers nothing, and no error, when the service answered without an employee.\<close>

definition GetEmployeeLifecycle :: "('w, 'v, 'h, 'o, 'f, 'x) bll_server \<Rightarrow> string \<Rightarrow> ('w, 'v, 'h, 'o, 'f, 'x) bll_world \<Rightarrow> bll_error + lifecycle option" where
  "GetEmployeeLifecycle B i w =
     (if i = [] then Inl (BllStatus InvalidArgument)
      else (case blWorkforce B of
          None \<Rightarrow> Inl (BllStatus Unavailable)
        | Some W \<Rightarrow> (case clGetEmployee W i (bwWorkforce w) of
            Inl e \<Rightarrow> Inl (Rpc e)
          | Inr None \<Rightarrow> Inr None
          | Inr (Some emp) \<Rightarrow> Inr (Some \<lparr>lcEmployee = emp, lcStatus = peStatus emp,
              lcCareSchedule = (case clGetCareSchedule W i (bwWorkforce w) of Inr c \<Rightarrow> c | Inl _ \<Rightarrow> None),
              lcChecklist = (case clListOnboardingChecklist W i (bwWorkforce w) of Inr ts \<Rightarrow> ts | Inl _ \<Rightarrow> []),
              lcVCSUsername = user_name (peFirstName emp) (peLastName emp), lcWorkspaceQuota = ''25 GB'',
              lcHardwareSummary = ''Standard IT asset allocation for '' @ peRoleTitle emp\<rparr>))))"

section \<open>HR webhook\<close>

record HandleHRWebhookRequest =
  hqEvent :: string
  hqStatus :: string
  hqEmployeeID :: string
  hqEmployeeType :: string
  hqFirstName :: string
  hqLastName :: string
  hqEmail :: string
  hqRoleTitle :: string
  hqDepartment :: string
  hqDietaryPlan :: string
  hqFeedingTimes :: "string list"

datatype webhook_response =
    OnboardingExecuted bll_onboarding_result | OffboardingExecuted OffboardingResult | StatusUpdated string "employee_message option" | Ignored

definition webhook_hire :: "HandleHRWebhookRequest \<Rightarrow> bll_onboard_request" where
  "webhook_hire q = \<lparr>oqEmployeeID = hqEmployeeID q, oqEmployeeType = (if hqEmployeeType q = [] then ''human'' else hqEmployeeType q),
     oqFirstName = (if hqFirstName q = [] then ''Employee'' else hqFirstName q), oqLastName = hqLastName q, oqEmail = hqEmail q,
     oqRoleTitle = hqRoleTitle q, oqDepartment = hqDepartment q, oqDietaryPlan = hqDietaryPlan q, oqFeedingTimes = hqFeedingTimes q,
     oqCaretakerID = [], oqSSHKey = [], oqStorageQuota = [], oqCareSchedule = None\<rparr>"

definition HandleHRWebhook ::
    "('w, 'v, 'h, 'o, 'f, 'x) bll_server \<Rightarrow> time \<Rightarrow> HandleHRWebhookRequest \<Rightarrow> ('w, 'v, 'h, 'o, 'f, 'x) bll_world
      \<Rightarrow> (bll_error + webhook_response) \<times> ('w, 'v, 'h, 'o, 'f, 'x) bll_world" where
  "HandleHRWebhook B now q w =
     (let event = ToLower (hqEvent q); st = ToLower (hqStatus q)
      in if event = ''employee_created'' \<or> st = ''onboarding'' then
           (case bll_OnboardEmployee B (webhook_hire q) w of
              (Inl e, w') \<Rightarrow> (Inl e, w') | (Inr (m, res), w') \<Rightarrow> (Inr (OnboardingExecuted res), w'))
         else if event = ''employee_separated'' \<or> st = ''separated'' \<or> st = ''retired'' then
           (case bll_OffboardEmployee B now \<lparr>fqEmployeeID = hqEmployeeID q, fqReason = ''Frappe HR webhook trigger'', fqTargetStatus = st\<rparr> w of
              (Inl e, w') \<Rightarrow> (Inl e, w') | (Inr res, w') \<Rightarrow> (Inr (OffboardingExecuted res), w'))
         else (case blWorkforce B of
             Some W \<Rightarrow> if hqEmployeeID q \<noteq> [] \<and> hqStatus q \<noteq> []
               then (case clUpdateEmployeeStatus W (hqEmployeeID q) (hqStatus q) (bwWorkforce w) of
                   (Inl e, r) \<Rightarrow> (Inl (Rpc e), w\<lparr>bwWorkforce := r\<rparr>)
                 | (Inr m, r) \<Rightarrow> (Inr (StatusUpdated (hqEmployeeID q) m), w\<lparr>bwWorkforce := r\<rparr>))
               else (Inr Ignored, w)
           | None \<Rightarrow> (Inr Ignored, w)))"

definition GetFelineTarget :: "('w, 'v, 'h, 'o, 'f, 'x) bll_server \<Rightarrow> ('w, 'v, 'h, 'o, 'f, 'x) bll_world \<Rightarrow> string" where
  "GetFelineTarget B w = (case blWorkforce B of
     None \<Rightarrow> ''feline-observation-target''
   | Some W \<Rightarrow> (case clListEmployees W ''feline'' ''active'' (bwWorkforce w) of
       Inr (e # _) \<Rightarrow> peEmployeeID e | _ \<Rightarrow> ''feline-observation-target''))"

section \<open>Incidents\<close>

definition validIncidentCategories :: "string set" where
  "validIncidentCategories = {''scratching'', ''unauthorized_perch'', ''hairball_emergency'', ''habitat_disruption'', ''medical_hold_breach''}"

definition incident_document :: "string \<Rightarrow> string \<Rightarrow> string \<Rightarrow> string \<Rightarrow> document" where
  "incident_document i title severity description =
     \<lparr>dcID = i, dcCategory = ''incident'', dcTitle = title, dcSnippet = ''Severity: '' @ severity @ '' | '' @ description\<rparr>"

definition bll_CreateIncident ::
    "('w, 'v, 'h, 'o, 'f, 'x) bll_server \<Rightarrow> time \<Rightarrow> incident_message \<Rightarrow> ('w, 'v, 'h, 'o, 'f, 'x) bll_world
      \<Rightarrow> (bll_error + incident_message option) \<times> ('w, 'v, 'h, 'o, 'f, 'x) bll_world" where
  "bll_CreateIncident B now m w =
     (if piTitle m = [] \<or> piDescription m = [] then (Inl (BllStatus InvalidArgument), w)
      else if piCategory m \<noteq> [] \<and> piCategory m \<notin> validIncidentCategories then (Inl (BllStatus InvalidArgument), w)
      else (case blWorkforce B of
          None \<Rightarrow> (Inl (BllStatus Unavailable), w)
        | Some W \<Rightarrow> (case clCreateIncident W (m\<lparr>piCategory := (if piCategory m = [] then ''habitat_disruption'' else piCategory m),
                          piSeverity := (if piSeverity m = [] then ''medium'' else piSeverity m)\<rparr>) (bwWorkforce w) of
            (Inl e, r) \<Rightarrow> (Inl (Rpc e), w\<lparr>bwWorkforce := r\<rparr>)
          | (Inr None, r) \<Rightarrow> (Inr None, w\<lparr>bwWorkforce := r\<rparr>)
          | (Inr (Some i), r) \<Rightarrow>
              (Inr (Some i), emit B (IncidentCreated i now)
                 (index_document B (incident_document (piIncidentID i) (piTitle i) (piSeverity i) (piDescription i)) (w\<lparr>bwWorkforce := r\<rparr>))))))"

definition bll_UpdateIncidentStatus ::
    "('w, 'v, 'h, 'o, 'f, 'x) bll_server \<Rightarrow> string \<Rightarrow> string \<Rightarrow> string \<Rightarrow> ('w, 'v, 'h, 'o, 'f, 'x) bll_world
      \<Rightarrow> (bll_error + incident_message option) \<times> ('w, 'v, 'h, 'o, 'f, 'x) bll_world" where
  "bll_UpdateIncidentStatus B i status notes w =
     (if i = [] \<or> status = [] then (Inl (BllStatus InvalidArgument), w)
      else (case blWorkforce B of
          None \<Rightarrow> (Inl (BllStatus Unavailable), w)
        | Some W \<Rightarrow> (case clUpdateIncidentStatus W i status notes (bwWorkforce w) of (res, r) \<Rightarrow> (map_sum Rpc id res, w\<lparr>bwWorkforce := r\<rparr>))))"

text \<open>The answer is the status and the identifier of the ticket.\<close>

definition BroadcastPebbleIncidentAlert ::
    "('w, 'v, 'h, 'o, 'f, 'x) bll_server \<Rightarrow> string \<Rightarrow> string \<Rightarrow> string \<Rightarrow> string \<Rightarrow> string \<Rightarrow> ('w, 'v, 'h, 'o, 'f, 'x) bll_world
      \<Rightarrow> (bll_error + string \<times> string) \<times> ('w, 'v, 'h, 'o, 'f, 'x) bll_world" where
  "BroadcastPebbleIncidentAlert B incidentID title category severity description w = (case blOps B of
     None \<Rightarrow> (Inr (''skipped'', []), w)
   | Some create \<Rightarrow>
       let sev = (if ToLower severity = [] then ''high'' else ToLower severity)
       in (case create \<lparr>tqTitle = ''[Feline Incident] '' @ title, tqBody = ''Category: '' @ category @ '' | Description: '' @ description,
              tqSeverity = sev, tqCategory = ''feline_safety'', tqSource = ''workforce_incident'', tqAuthorUsername = ''safety-monitor'', tqIsUrgent = True\<rparr> (bwOps w) of
            (Inl e, o') \<Rightarrow> (Inl (Rpc e), w\<lparr>bwOps := o'\<rparr>)
          | (Inr ticket, o') \<Rightarrow> (Inr (''broadcasted'', case ticket of Some t \<Rightarrow> t | None \<Rightarrow> []),
              index_document B (incident_document incidentID title sev description) (w\<lparr>bwOps := o'\<rparr>))))"

section \<open>Firmware rollouts\<close>

text \<open>Without a facilities client the server makes up the jobs itself; \<open>clk\<close> gives the time of each step of the loop.\<close>

definition local_job :: "(nat \<Rightarrow> time) \<Rightarrow> string \<Rightarrow> nat \<times> string \<Rightarrow> DeviceOTAJob" where
  "local_job clk releaseID p = (case p of (i, aid) \<Rightarrow>
     \<lparr>ojJobID = ''ota-job-'' @ dec_int (clk i) @ ''-'' @ dec_nat i, ojAssetID = aid, ojReleaseID = releaseID, ojStatus = ''queued'', ojScheduledAt = rfc3339 (clk i)\<rparr>)"

definition emit_jobs :: "('w, 'v, 'h, 'o, 'f, 'x) bll_server \<Rightarrow> DeviceOTAJob list \<Rightarrow> ('w, 'v, 'h, 'o, 'f, 'x) bll_world \<Rightarrow> ('w, 'v, 'h, 'o, 'f, 'x) bll_world" where
  "emit_jobs B jobs w = fold (\<lambda>j. emit B (OTATriggered (ojJobID j) (ojAssetID j) (ojReleaseID j))) jobs w"

definition TriggerOTARollout ::
    "('w, 'v, 'h, 'o, 'f, 'x) bll_server \<Rightarrow> (nat \<Rightarrow> time) \<Rightarrow> string list \<Rightarrow> string \<Rightarrow> ('w, 'v, 'h, 'o, 'f, 'x) bll_world
      \<Rightarrow> (bll_error + DeviceOTAJob list) \<times> ('w, 'v, 'h, 'o, 'f, 'x) bll_world" where
  "TriggerOTARollout B clk assetIDs releaseID w =
     (if assetIDs = [] \<or> releaseID = [] then (Inl (BllStatus InvalidArgument), w)
      else (case blFacilities B of
          None \<Rightarrow> let jobs = map (local_job clk releaseID) (enumerate 0 assetIDs) in (Inr jobs, emit_jobs B jobs w)
        | Some create \<Rightarrow> (case create assetIDs releaseID (bwFacilities w) of
            (Inl e, f) \<Rightarrow> (Inl (Rpc e), w\<lparr>bwFacilities := f\<rparr>)
          | (Inr jobs, f) \<Rightarrow> (Inr jobs, emit_jobs B jobs (w\<lparr>bwFacilities := f\<rparr>)))))"

section \<open>What the workforce service promises the sagas\<close>

lemma bll_OffboardEmployee_ok:
  assumes "bll_OffboardEmployee B now q w = (Inr res, w')"
  obtains W emp m r where "blWorkforce B = Some W" "fqEmployeeID q \<noteq> []" "clGetEmployee W (fqEmployeeID q) (bwWorkforce w) = Inr (Some emp)"
    "clUpdateEmployeeStatus W (fqEmployeeID q) (if fqTargetStatus q = [] then ''separated'' else fqTargetStatus q) (bwWorkforce w) = (Inr m, r)"
    "frTradingHoldState res \<longleftrightarrow> peEmployeeType emp = ''feline'' \<and> (\<exists>c. fst (clSetMedicalHold W (fqEmployeeID q) True r) = Inr (Some c) \<and> pcEmergencyMedicalHold c)"
    "bwWorkforce w' = (if peEmployeeType emp = ''feline'' then snd (clSetMedicalHold W (fqEmployeeID q) True r) else r)"
    "bwVCS w' = (case blVCS B of None \<Rightarrow> bwVCS w | Some C \<Rightarrow> snd (vcRevokeAccess C (user_name (peFirstName emp) (peLastName emp)) (bwVCS w)))"
    "bwEvents w' = bwEvents w" "frIdentityRevoked res" "frSessionsRevoked res" "frStorageArchived res"
    "frStatus res = peStatus (case m of Some u \<Rightarrow> u | None \<Rightarrow> emp)"
proof -
  have i: "fqEmployeeID q \<noteq> []" using assms by (auto simp: bll_OffboardEmployee_def)
  obtain W where W: "blWorkforce B = Some W" using assms i by (cases "blWorkforce B") (simp_all add: bll_OffboardEmployee_def)
  obtain emp where emp: "clGetEmployee W (fqEmployeeID q) (bwWorkforce w) = Inr (Some emp)"
    using assms i W by (auto simp: bll_OffboardEmployee_def split: sum.splits option.splits)
  obtain m r where m: "clUpdateEmployeeStatus W (fqEmployeeID q) (if fqTargetStatus q = [] then ''separated'' else fqTargetStatus q) (bwWorkforce w) = (Inr m, r)"
    using assms i W emp unfolding bll_OffboardEmployee_def by (simp split: prod.splits sum.splits)
  obtain x r' where h: "clSetMedicalHold W (fqEmployeeID q) True r = (x, r')" by fastforce
  note u = assms [unfolded bll_OffboardEmployee_def, simplified i W emp if_False option.case sum.case m prod.case Let_def h]
  show thesis
    using u that [OF W i emp m] h
    by (cases "peEmployeeType emp = ''feline''") (auto simp: case_prod_unfold split: sum.splits option.splits)
qed

locale workforce_contract =
  fixes C :: "'w wf_client" and holds :: "string \<Rightarrow> 'w \<Rightarrow> bool" and status_of :: "string \<Rightarrow> 'w \<Rightarrow> string option"
  assumes set_hold: "clSetMedicalHold C f True w = (Inr (Some c), w') \<Longrightarrow> pcEmergencyMedicalHold c \<Longrightarrow> holds f w'"
    and set_hold_status: "status_of i (snd (clSetMedicalHold C f h w)) = status_of i w"
    and update_status: "clUpdateEmployeeStatus C i st w = (Inr m, w') \<Longrightarrow> status_of i w' = Some st"
begin

lemma offboarded:
  assumes "blWorkforce B = Some C" and "bll_OffboardEmployee B now q w = (Inr res, w')"
  shows "status_of (fqEmployeeID q) (bwWorkforce w') = Some (if fqTargetStatus q = [] then ''separated'' else fqTargetStatus q)"
    and "frTradingHoldState res \<Longrightarrow> holds (fqEmployeeID q) (bwWorkforce w')"
  using assms(2)
proof (atomize (full), cases rule: bll_OffboardEmployee_ok)
  case (1 W emp m r)
  with assms(1) have W: "W = C" by simp
  have "status_of (fqEmployeeID q) (bwWorkforce w') = Some (if fqTargetStatus q = [] then ''separated'' else fqTargetStatus q)"
    using 1(4,6) W update_status set_hold_status by (cases "peEmployeeType emp = ''feline''") simp_all
  moreover have "frTradingHoldState res \<longrightarrow> holds (fqEmployeeID q) (bwWorkforce w')"
    using 1(5,6) W set_hold by (metis prod.collapse)
  ultimately show "status_of (fqEmployeeID q) (bwWorkforce w') = Some (if fqTargetStatus q = [] then ''separated'' else fqTargetStatus q)
      \<and> (frTradingHoldState res \<longrightarrow> holds (fqEmployeeID q) (bwWorkforce w'))" by blast
qed

lemma separation_webhook:
  assumes "blWorkforce B = Some C" and "HandleHRWebhook B now q w = (Inr (OffboardingExecuted res), w')"
  shows "status_of (hqEmployeeID q) (bwWorkforce w') = Some (if hqStatus q = [] then ''separated'' else ToLower (hqStatus q))"
    and "frTradingHoldState res \<Longrightarrow> holds (hqEmployeeID q) (bwWorkforce w')"
proof -
  have e: "ToLower s = [] \<longleftrightarrow> s = []" for s by (simp add: ToLower_def)
  have "bll_OffboardEmployee B now \<lparr>fqEmployeeID = hqEmployeeID q, fqReason = ''Frappe HR webhook trigger'', fqTargetStatus = ToLower (hqStatus q)\<rparr> w = (Inr res, w')"
    using assms(2) by (auto simp: HandleHRWebhook_def Let_def split: if_splits prod.splits sum.splits option.splits)
  from offboarded [OF assms(1) this] show "status_of (hqEmployeeID q) (bwWorkforce w') = Some (if hqStatus q = [] then ''separated'' else ToLower (hqStatus q))"
    and "frTradingHoldState res \<Longrightarrow> holds (hqEmployeeID q) (bwWorkforce w')" by (simp_all add: e)
qed

end

text \<open>The workforce server keeps these promises: the hold is the flag of the stored care schedule, the status that of the stored employee.\<close>

lemma reply_SetHold:
  "map_prod (map_sum id Some) id (grpc_SetMedicalHold en now f h r) = (Inr (Some c), r') \<Longrightarrow> pcEmergencyMedicalHold c \<Longrightarrow> h \<Longrightarrow> on_hold f r'"
  by (auto simp: grpc_SetMedicalHold_def svc_SetEmergencyMedicalHold_def SetEmergencyMedicalHold_def on_hold_def Let_def
      split: if_splits option.splits)

lemma grpc_SetMedicalHold_employees: "employees (snd (grpc_SetMedicalHold en now f h r)) = employees r"
  by (simp add: grpc_SetMedicalHold_def svc_SetEmergencyMedicalHold_def SetEmergencyMedicalHold_def Let_def)

lemma grpc_UpdateEmployeeStatus_ok:
  "map_prod (map_sum id Some) id (grpc_UpdateEmployeeStatus now i st r) = (Inr m, r') \<Longrightarrow> \<exists>e. employees r' i = Some e \<and> emStatus e = st"
  by (auto simp: grpc_UpdateEmployeeStatus_def svc_UpdateEmployeeStatus_def UpdateEmployeeStatus_def Let_def split: if_splits option.splits)

interpretation wg: workforce_contract "workforce_grpc en clk oe ok" on_hold "\<lambda>i r. map_option emStatus (employees r i)" for en clk oe ok
proof unfold_locales
  fix f w c w' assume "clSetMedicalHold (workforce_grpc en clk oe ok) f True w = (Inr (Some c), w')" "pcEmergencyMedicalHold c"
  then show "on_hold f w'" using reply_SetHold [of en "clk 0" f True w c w'] by (simp add: workforce_grpc_def)
next
  fix i f h w
  show "map_option emStatus (employees (snd (clSetMedicalHold (workforce_grpc en clk oe ok) f h w)) i) = map_option emStatus (employees w i)"
    by (simp add: workforce_grpc_def grpc_SetMedicalHold_employees)
next
  fix i st w m w' assume "clUpdateEmployeeStatus (workforce_grpc en clk oe ok) i st w = (Inr m, w')"
  then show "map_option emStatus (employees w' i) = Some st"
    using grpc_UpdateEmployeeStatus_ok [of "clk 0" i st w m w'] by (auto simp: workforce_grpc_def)
qed

lemma user_name_stored: "user_name (peFirstName (toProtoEmployee e)) (peLastName (toProtoEmployee e)) = offboard_username e"
  by (simp add: user_name_def offboard_username_def toProtoEmployee_def strVal_def split: option.split)

lemma offboard_succeeds:
  assumes "blWorkforce B = Some (workforce_grpc en clk oe ok)" and "employees (bwWorkforce w) i = Some e" and "i \<noteq> []" and "fqEmployeeID q = i"
  shows "\<exists>res w'. bll_OffboardEmployee B now q w = (Inr res, w') \<and> (frTradingHoldState res \<longleftrightarrow> emEmployeeType e = ''feline'' \<and> en)
    \<and> bwVCS w' = (case blVCS B of None \<Rightarrow> bwVCS w | Some C \<Rightarrow> snd (vcRevokeAccess C (offboard_username e) (bwVCS w)))"
proof -
  define st where "st = (if fqTargetStatus q = [] then ''separated'' else fqTargetStatus q)"
  have st: "st \<noteq> []" by (simp add: st_def)
  define W where "W = workforce_grpc en clk oe ok"
  have g: "clGetEmployee W i (bwWorkforce w) = Inr (Some (toProtoEmployee e))"
    using assms(2,3) by (simp add: W_def workforce_grpc_def grpc_GetEmployee_def GetEmployee_def GetEmployeeByID_def)
  obtain m r where u: "clUpdateEmployeeStatus W i st (bwWorkforce w) = (Inr m, r)"
    using assms(2,3) st by (simp add: W_def workforce_grpc_def grpc_UpdateEmployeeStatus_def svc_UpdateEmployeeStatus_def UpdateEmployeeStatus_def Let_def)
  obtain x r' where h: "clSetMedicalHold W i True r = (x, r')" by fastforce
  have x: "(\<exists>c. x = Inr (Some c) \<and> pcEmergencyMedicalHold c) \<longleftrightarrow> en"
    using h assms(3) by (auto simp: W_def workforce_grpc_def grpc_SetMedicalHold_def svc_SetEmergencyMedicalHold_def SetEmergencyMedicalHold_def
        toProtoCareSchedule_def Let_def split: if_splits option.splits)
  have t: "peEmployeeType (toProtoEmployee e) = emEmployeeType e" by (simp add: toProtoEmployee_def)
  obtain out w' where b: "bll_OffboardEmployee B now q w = (out, w')" by fastforce
  then have "\<exists>res. out = Inr res"
    using assms(1,3,4) g u [unfolded st_def] unfolding bll_OffboardEmployee_def W_def [symmetric]
    by (auto simp: Let_def case_prod_unfold)
  then obtain res where res: "out = Inr res" by blast
  from b [unfolded res] have "(frTradingHoldState res \<longleftrightarrow> emEmployeeType e = ''feline'' \<and> en)
      \<and> bwVCS w' = (case blVCS B of None \<Rightarrow> bwVCS w | Some C \<Rightarrow> snd (vcRevokeAccess C (offboard_username e) (bwVCS w)))"
  proof (cases rule: bll_OffboardEmployee_ok)
    case (1 W' emp m' r1)
    then have "W' = W" using assms(1) by (simp add: W_def)
    with 1 g u assms(4) have "emp = toProtoEmployee e" "r1 = r" by (auto simp: st_def)
    with 1 \<open>W' = W\<close> h x assms(4) t show ?thesis by (simp add: user_name_stored split: option.split)
  qed
  with b res show ?thesis by blast
qed

section \<open>Properties\<close>

text \<open>C13: A feline employee that is offboarded does not trade any more. The offboarding of a stored feline, with the feline domain
  enabled, succeeds, reports the trading hold and stores the target status; from then on every order for that feline is
  refused without effect, through any workforce operations that do not lift the hold.\<close>

theorem offboarded_feline_stops_trading:
  assumes "blWorkforce B = Some (workforce_grpc True clk oe ok)" and "employees (bwWorkforce w) i = Some e" and "i \<noteq> []" and "emEmployeeType e = ''feline''"
    and "fqEmployeeID q = i"
    and "list_all (\<lambda>x. \<not> lifts i x) ops" and "vqFelineID ord = i" and "svWorkforce S = Some (workforce_client en fs)"
  shows "\<exists>res w'. bll_OffboardEmployee B now q w = (Inr res, w') \<and> frTradingHoldState res
    \<and> map_option emStatus (employees (bwWorkforce w') i) = Some (if fqTargetStatus q = [] then ''separated'' else fqTargetStatus q)
    \<and> (\<forall>cw. wWorkforce cw = fold run_op ops (bwWorkforce w') \<longrightarrow> (\<exists>err. ValidateAndExecuteOrder S t uuid eventID ord cw = (Inl err, cw)))"
proof -
  from offboard_succeeds [OF assms(1,2,3,5), of now] assms(4) obtain res w' where b: "bll_OffboardEmployee B now q w = (Inr res, w')" and h: "frTradingHoldState res" by auto
  note o = wg.offboarded [OF assms(1) b]
  have "\<exists>err. ValidateAndExecuteOrder S t uuid eventID ord cw = (Inl err, cw)" if "wWorkforce cw = fold run_op ops (bwWorkforce w')" for cw
  proof -
    have "on_hold (vqFelineID ord) (wWorkforce cw)" using o(2) [OF h] assms(5-7) that by (simp add: on_hold_ops)
    then have nc: "\<not> cleared S ord (wWorkforce cw)" using assms(3,7,8) by (intro not_cleared_while_held) auto
    obtain x cw' where v: "ValidateAndExecuteOrder S t uuid eventID ord cw = (x, cw')" by fastforce
    then show ?thesis by (cases rule: ValidateAndExecuteOrder_cases) (use v nc in auto)
  qed
  with b h o(1) assms(5) show ?thesis by auto
qed

definition cat :: Employee where
  "cat = \<lparr>emEmployeeID = ''cat'', emEmployeeType = ''feline'', emFirstName = ''Tom'', emLastName = None, emEmail = None, emRoleTitle = ''r'', emDepartment = ''d'',
     emStatus = ''active'', emHiredAt = 0, emCreatedAt = 0, emUpdatedAt = 0\<rparr>"

definition demo_bll :: "(wfRepository, string set, unit, unit, unit, unit) bll_server" where
  "demo_bll = \<lparr>blWorkforce = Some (workforce_grpc True (\<lambda>n. int n) [] []), blVCS = Some account_set, blHardware = None, blOps = None, blFacilities = None, blSearch = None,
     blPublisher = True\<rparr>"

definition demo_bll_world :: "(wfRepository, string set, unit, unit, unit, unit) bll_world" where
  "demo_bll_world = \<lparr>bwWorkforce = (NewMockRepository 0)\<lparr>employees := [''cat'' \<mapsto> cat]\<rparr>, bwVCS = {}, bwHardware = (), bwOps = (), bwFacilities = (), bwSearch = (), bwEvents = []\<rparr>"

theorem offboarded_feline_stops_trading_witness:
  "\<exists>res w' err cw. bll_OffboardEmployee demo_bll 9 \<lparr>fqEmployeeID = ''cat'', fqReason = [], fqTargetStatus = ''retired''\<rparr> demo_bll_world = (Inr res, w')
    \<and> frTradingHoldState res \<and> wWorkforce cw = fold run_op [SetStatus 2 ''cat'' ''active''] (bwWorkforce w')
    \<and> ValidateAndExecuteOrder held_server 9 ''u'' ''e'' demo_order cw = (Inl err, cw)"
proof -
  have p: "blWorkforce demo_bll = Some (workforce_grpc True (\<lambda>n. int n) [] [])" "employees (bwWorkforce demo_bll_world) ''cat'' = Some cat"
    "emEmployeeType cat = ''feline''" by (simp_all add: demo_bll_def demo_bll_world_def cat_def)
  have q: "vqFelineID demo_order = ''cat''" "svWorkforce held_server = Some (workforce_client True [])"
    by (simp_all add: demo_order_def held_server_def)
  obtain res w' where b: "bll_OffboardEmployee demo_bll 9 \<lparr>fqEmployeeID = ''cat'', fqReason = [], fqTargetStatus = ''retired''\<rparr> demo_bll_world = (Inr res, w')"
      "frTradingHoldState res"
    and c: "\<forall>cw. wWorkforce cw = fold run_op [SetStatus 2 ''cat'' ''active''] (bwWorkforce w') \<longrightarrow> (\<exists>err. ValidateAndExecuteOrder held_server 9 ''u'' ''e'' demo_order cw = (Inl err, cw))"
    using offboarded_feline_stops_trading [OF p(1,2) _ p(3), of "\<lparr>fqEmployeeID = ''cat'', fqReason = [], fqTargetStatus = ''retired''\<rparr>" "[SetStatus 2 ''cat'' ''active'']"
        demo_order held_server True "[]" 9 9 "''u''" "''e''"] q by auto
  then show ?thesis using c [rule_format, of "held_world\<lparr>wWorkforce := fold run_op [SetStatus 2 ''cat'' ''active''] (bwWorkforce w')\<rparr>"]
    by (metis world.select_convs(3) world.surjective world.update_convs(3))
qed

lemma emit_frame [simp]: "bwWorkforce (emit B ev w) = bwWorkforce w" "bwVCS (emit B ev w) = bwVCS w"
  by (simp_all add: emit_def)

lemma bll_OnboardEmployee_ok:
  assumes "bll_OnboardEmployee B q w = (Inr (created, res), w1)" and "blWorkforce B = Some W"
  obtains r t w' where "clOnboardEmployee W (hired q) (requested_care q) (bwWorkforce w) = (Inr (Some created), r)"
    "provision B q (peEmployeeID created) (w\<lparr>bwWorkforce := r\<rparr>) = (t, w')"
    "boEmployeeID res = peEmployeeID created" "bwWorkforce w1 = bwWorkforce w'" "bwVCS w1 = bwVCS w'"
proof -
  obtain x r where c: "clOnboardEmployee W (hired q) (requested_care q) (bwWorkforce w) = (x, r)" by fastforce
  obtain m where x: "x = Inr (Some m)"
    using assms c by (auto simp: bll_OnboardEmployee_def split: if_splits sum.splits option.splits)
  obtain a ws hw w' where p: "provision B q (peEmployeeID m) (w\<lparr>bwWorkforce := r\<rparr>) = ((a, ws, hw), w')" by (metis prod.collapse)
  have "created = m \<and> boEmployeeID res = peEmployeeID m \<and> bwWorkforce w1 = bwWorkforce w' \<and> bwVCS w1 = bwVCS w'"
    using assms c x p by (auto simp: bll_OnboardEmployee_def Let_def split: if_splits)
  with c x p show thesis by (intro that) auto
qed

lemma provision_human:
  assumes "employee_type q \<noteq> ''feline''" and "provision B q i w = (t, w')"
  shows "bwWorkforce w' = bwWorkforce w"
    and "blVCS B = Some C \<Longrightarrow> bwVCS w' = snd (vcProvisionAccount C (user_name (oqFirstName q) (oqLastName q)) (user_email q) (full_name q) (oqSSHKey q) (bwVCS w))"
  using assms unfolding provision_def by (auto simp: Let_def case_prod_unfold)

lemma grpc_OnboardEmployee_ok:
  assumes "clOnboardEmployee (workforce_grpc en clk oe ok) m c r = (Inr (Some x), r')"
  obtains y where "OnboardEmployee clk (employee_of m) (map_option care_of c) r = (Inr y, r')" "x = toProtoEmployee y"
proof -
  obtain z r2 where z: "OnboardEmployee clk (employee_of m) (map_option care_of c) r = (z, r2)" by fastforce
  with assms that show thesis by (cases z) (auto simp: workforce_grpc_def grpc_OnboardEmployee_def)
qed

text \<open>The employee whom the internal layer onboards with an account is the one whose account it revokes: after the onboarding of a human
  through the layer and, with nothing else changed, the offboarding of the created employee, the account it provisioned is revoked, whatever names and address
  the request has. The result reports the identity and the sessions as revoked and the storage as archived, although the
  layer calls neither a session store nor the workspace system, and no event is published.\<close>

theorem bll_revokes_provisioned_account:
  assumes "blWorkforce B = Some (workforce_grpc en clk oe ok)" and "blVCS B = Some C" and "employee_type q = ''human''"
    and "\<And>u m n k v. snd (vcProvisionAccount C u m n k v) = insert u v" and "\<And>u v. snd (vcRevokeAccess C u v) = v - {u}"
    and "bll_OnboardEmployee B q w = (Inr (created, res), w1)"
  shows "user_name (oqFirstName q) (oqLastName q) \<in> bwVCS w1
    \<and> (\<exists>out w2. bll_OffboardEmployee B now \<lparr>fqEmployeeID = boEmployeeID res, fqReason = reason, fqTargetStatus = st\<rparr> w1 = (Inr out, w2)
         \<and> bwVCS w2 = bwVCS w1 - {user_name (oqFirstName q) (oqLastName q)} \<and> frIdentityRevoked out \<and> frSessionsRevoked out \<and> frStorageArchived out
         \<and> bwEvents w2 = bwEvents w1)"
proof -
  obtain r t w' where c: "clOnboardEmployee (workforce_grpc en clk oe ok) (hired q) (requested_care q) (bwWorkforce w) = (Inr (Some created), r)"
    and p: "provision B q (peEmployeeID created) (w\<lparr>bwWorkforce := r\<rparr>) = (t, w')"
    and i: "boEmployeeID res = peEmployeeID created" and w': "bwWorkforce w1 = bwWorkforce w'" "bwVCS w1 = bwVCS w'"
    using bll_OnboardEmployee_ok [OF assms(6,1)] by blast
  have t: "employee_type q \<noteq> ''feline''" by (simp add: assms(3))
  have w1: "bwWorkforce w1 = r" "bwVCS w1 = insert (user_name (oqFirstName q) (oqLastName q)) (bwVCS w)"
    using provision_human [OF t p] assms(2,4) w' by auto
  obtain y where y: "OnboardEmployee clk (employee_of (hired q)) (map_option care_of (requested_care q)) (bwWorkforce w) = (Inr y, r)" and x: "created = toProtoEmployee y"
    using c by (rule grpc_OnboardEmployee_ok)
  note e = onboarded_employee [OF y]
  have "offboard_username y = user_name (oqFirstName q) (oqLastName q)"
    using e(3,4) by (simp add: offboard_username_def user_name_def employee_of_def hired_def strPtr_def)
  moreover have "boEmployeeID res = emEmployeeID y" by (simp add: i x toProtoEmployee_def)
  ultimately obtain out w2 where o: "bll_OffboardEmployee B now \<lparr>fqEmployeeID = boEmployeeID res, fqReason = reason, fqTargetStatus = st\<rparr> w1 = (Inr out, w2)"
    and v: "bwVCS w2 = bwVCS w1 - {user_name (oqFirstName q) (oqLastName q)}"
    using offboard_succeeds [OF assms(1), of w1 "emEmployeeID y" y "\<lparr>fqEmployeeID = boEmployeeID res, fqReason = reason, fqTargetStatus = st\<rparr>" now]
      e(1,2) w1(1) assms(2,5) by auto
  from o have "frIdentityRevoked out \<and> frSessionsRevoked out \<and> frStorageArchived out \<and> bwEvents w2 = bwEvents w1"
    by (cases rule: bll_OffboardEmployee_ok) simp
  with o v w1 show ?thesis by blast
qed

definition demo_bll_hire :: bll_onboard_request where
  "demo_bll_hire = \<lparr>oqEmployeeID = ''e1'', oqEmployeeType = [], oqFirstName = ''Dana'', oqLastName = [], oqEmail = ''d@x'', oqRoleTitle = ''r'', oqDepartment = [],
     oqDietaryPlan = [], oqFeedingTimes = [], oqCaretakerID = [], oqSSHKey = [], oqStorageQuota = [], oqCareSchedule = None\<rparr>"

lemma demo_bll_onboards: "\<exists>created res w1. bll_OnboardEmployee demo_bll demo_bll_hire w = (Inr (created, res), w1)"
proof -
  have "\<exists>y r. OnboardEmployee (\<lambda>n. int n) (employee_of (hired demo_bll_hire)) None (bwWorkforce w) = (Inr y, r)"
    by (cases "CreateEmployee 0 (employee_of (hired demo_bll_hire)) (bwWorkforce w)")
      (simp add: OnboardEmployee_def employee_of_def hired_def employee_type_def demo_bll_hire_def Let_def)
  then obtain y r where "OnboardEmployee (\<lambda>n. int n) (employee_of (hired demo_bll_hire)) None (bwWorkforce w) = (Inr y, r)" by blast
  moreover have "requested_care demo_bll_hire = None" "oqFirstName demo_bll_hire \<noteq> []" "employee_type demo_bll_hire = ''human''"
    by (simp_all add: requested_care_def employee_type_def demo_bll_hire_def)
  ultimately show ?thesis
    by (simp add: bll_OnboardEmployee_def demo_bll_def workforce_grpc_def grpc_OnboardEmployee_def Let_def case_prod_unfold)
qed

theorem bll_revokes_provisioned_account_witness:
  "\<exists>created res w1 out w2. bll_OnboardEmployee demo_bll demo_bll_hire demo_bll_world = (Inr (created, res), w1) \<and> ''dana'' \<in> bwVCS w1
    \<and> bll_OffboardEmployee demo_bll 9 \<lparr>fqEmployeeID = boEmployeeID res, fqReason = [], fqTargetStatus = []\<rparr> w1 = (Inr out, w2)
    \<and> ''dana'' \<notin> bwVCS w2 \<and> frSessionsRevoked out"
proof -
  obtain created res w1 where o: "bll_OnboardEmployee demo_bll demo_bll_hire demo_bll_world = (Inr (created, res), w1)" using demo_bll_onboards by blast
  have b: "blWorkforce demo_bll = Some (workforce_grpc True (\<lambda>n. int n) [] [])" "blVCS demo_bll = Some account_set" by (simp_all add: demo_bll_def)
  have u: "user_name (oqFirstName demo_bll_hire) (oqLastName demo_bll_hire) = ''dana''" by code_simp
  from bll_revokes_provisioned_account [OF b _ _ _ o, of 9 "[]" "[]"] o u show ?thesis
    by (auto simp: account_set_def employee_type_def demo_bll_hire_def)
qed

text \<open>An HR webhook that starts the offboarding stores the status it carries, in lower case, and not always a departure. When the event is
  the separation and the status is present but neither of the departures, as \<open>Active\<close>, the employee ends with that status
  while the answer reports an executed offboarding with revoked accounts; only an empty status gives the separated one.\<close>

theorem separation_webhook_status:
  assumes "blWorkforce B = Some (workforce_grpc en clk oe ok)" and "employees (bwWorkforce w) (hqEmployeeID q) = Some e" and "hqEmployeeID q \<noteq> []"
    and "ToLower (hqEvent q) = ''employee_separated''" and "ToLower (hqStatus q) \<noteq> ''onboarding''"
  shows "\<exists>res w'. HandleHRWebhook B now q w = (Inr (OffboardingExecuted res), w') \<and> frIdentityRevoked res
    \<and> map_option emStatus (employees (bwWorkforce w') (hqEmployeeID q)) = Some (if hqStatus q = [] then ''separated'' else ToLower (hqStatus q))"
proof -
  let ?q = "\<lparr>fqEmployeeID = hqEmployeeID q, fqReason = ''Frappe HR webhook trigger'', fqTargetStatus = ToLower (hqStatus q)\<rparr>"
  obtain res w' where b: "bll_OffboardEmployee B now ?q w = (Inr res, w')"
    using offboard_succeeds [OF assms(1,2,3), of ?q now] by auto
  then have h: "HandleHRWebhook B now q w = (Inr (OffboardingExecuted res), w')"
    using assms(4,5) by (simp add: HandleHRWebhook_def)
  moreover from b have "frIdentityRevoked res" by (cases rule: bll_OffboardEmployee_ok)
  ultimately show ?thesis using wg.separation_webhook(1) [OF assms(1) h] by blast
qed

definition demo_hook :: HandleHRWebhookRequest where
  "demo_hook = \<lparr>hqEvent = ''Employee_Separated'', hqStatus = ''Active'', hqEmployeeID = ''cat'', hqEmployeeType = [], hqFirstName = [], hqLastName = [], hqEmail = [],
     hqRoleTitle = [], hqDepartment = [], hqDietaryPlan = [], hqFeedingTimes = []\<rparr>"

theorem separation_webhook_status_witness:
  "\<exists>res w'. HandleHRWebhook demo_bll 9 demo_hook demo_bll_world = (Inr (OffboardingExecuted res), w') \<and> frIdentityRevoked res
    \<and> map_option emStatus (employees (bwWorkforce w') ''cat'') = Some ''active''"
proof -
  have b: "blWorkforce demo_bll = Some (workforce_grpc True (\<lambda>n. int n) [] [])" "employees (bwWorkforce demo_bll_world) (hqEmployeeID demo_hook) = Some cat"
    "hqEmployeeID demo_hook \<noteq> []" by (simp_all add: demo_bll_def demo_bll_world_def demo_hook_def)
  have t: "ToLower (hqEvent demo_hook) = ''employee_separated''" "ToLower (hqStatus demo_hook) \<noteq> ''onboarding''" "ToLower (hqStatus demo_hook) = ''active''" by code_simp+
  have n: "hqStatus demo_hook \<noteq> []" "hqEmployeeID demo_hook = ''cat''" by (simp_all add: demo_hook_def)
  from separation_webhook_status [OF b t(1,2), of 9] show ?thesis by (simp add: n t(3))
qed

lemma emit_jobs_events: "bwEvents (emit_jobs B jobs w) =
   bwEvents w @ (if blPublisher B then map (\<lambda>j. OTATriggered (ojJobID j) (ojAssetID j) (ojReleaseID j)) jobs else [])"
  by (induction jobs arbitrary: w) (simp_all add: emit_jobs_def emit_def)

lemma local_jobs_distinct: "distinct (map ojJobID (map (local_job clk releaseID) (enumerate n xs)))"
proof -
  have "p = q" if "p \<in> set (enumerate n xs)" "q \<in> set (enumerate n xs)" "ojJobID (local_job clk releaseID p) = ojJobID (local_job clk releaseID q)" for p q
  proof -
    have "fst p = fst q"
      using that(3) numbered_suffix_inj [of "''ota-job-'' @ dec_int (clk (fst p))" "fst p" "''ota-job-'' @ dec_int (clk (fst q))" "fst q"]
      by (simp add: local_job_def case_prod_unfold)
    with that(1,2) show ?thesis by (auto simp: in_set_enumerate_eq prod_eq_iff)
  qed
  then show ?thesis by (auto simp: distinct_map inj_on_def)
qed

text \<open>A firmware rollout without a facilities service creates one queued job per asset, in the order of the request and for its release, and publishes
  one event per job when a publisher is set. The jobs have distinct identifiers whatever the clock says, because each ends in its position.\<close>

theorem local_rollout:
  assumes "blFacilities B = None" and "assetIDs \<noteq> []" and "releaseID \<noteq> []"
  shows "\<exists>jobs w'. TriggerOTARollout B clk assetIDs releaseID w = (Inr jobs, w') \<and> map ojAssetID jobs = assetIDs \<and> distinct (map ojJobID jobs)
    \<and> list_all (\<lambda>j. ojReleaseID j = releaseID \<and> ojStatus j = ''queued'') jobs
    \<and> bwEvents w' = bwEvents w @ (if blPublisher B then map (\<lambda>j. OTATriggered (ojJobID j) (ojAssetID j) releaseID) jobs else [])"
proof -
  let ?jobs = "map (local_job clk releaseID) (enumerate 0 assetIDs)"
  have r: "list_all (\<lambda>j. ojReleaseID j = releaseID \<and> ojStatus j = ''queued'') ?jobs" by (simp add: list_all_iff local_job_def case_prod_unfold)
  have a: "map ojAssetID ?jobs = assetIDs" by (simp add: local_job_def case_prod_unfold comp_def)
  have e: "bwEvents (emit_jobs B ?jobs w) = bwEvents w @ (if blPublisher B then map (\<lambda>j. OTATriggered (ojJobID j) (ojAssetID j) releaseID) ?jobs else [])"
    using r by (simp add: emit_jobs_events list_all_iff)
  have "TriggerOTARollout B clk assetIDs releaseID w = (Inr ?jobs, emit_jobs B ?jobs w)"
    using assms by (simp add: TriggerOTARollout_def Let_def)
  then show ?thesis using a r e local_jobs_distinct [of clk releaseID 0 assetIDs] by blast
qed

theorem local_rollout_witness:
  "\<exists>jobs w'. TriggerOTARollout demo_bll (\<lambda>_. 7) [''a'', ''a''] ''r'' demo_bll_world = (Inr jobs, w') \<and> distinct (map ojJobID jobs) \<and> length (bwEvents w') = 2"
proof -
  obtain jobs w' where j: "TriggerOTARollout demo_bll (\<lambda>_. 7) [''a'', ''a''] ''r'' demo_bll_world = (Inr jobs, w')" "map ojAssetID jobs = [''a'', ''a'']"
    "distinct (map ojJobID jobs)" "bwEvents w' = bwEvents demo_bll_world @ map (\<lambda>j. OTATriggered (ojJobID j) (ojAssetID j) ''r'') jobs"
    using local_rollout [of demo_bll "[''a'', ''a'']" "''r''" "\<lambda>_. 7" demo_bll_world] by (auto simp: demo_bll_def)
  have "length (map ojAssetID jobs) = 2" unfolding j(2) by simp
  then have "length jobs = 2" by simp
  with j show ?thesis by (simp add: demo_bll_world_def)
qed

end
