(* ===== verification/Support.thy ===== *)
theory Support
  imports Ops InternalBLL
begin

text \<open>
  Support tickets from the customer portal to the ticket service, and incident alerts from the worker to it:
  \<open>internal/app/customerbll/tickets.go\<close>, the ticket handlers of \<open>internal/app/customerbff\<close>, the ticket calls of
  \<open>internal/app/internalbll\<close> and the incident consumer of \<open>internal/app/worker\<close>. The ticket service is reached through
  a client, a record of the calls that are made; \<open>ops_grpc\<close> is the client of the server of \<open>Ops\<close>, over either repository,
  and the locale \<open>ticket_contract\<close> states what the callers rely on.
\<close>

section \<open>The client of the ticket service\<close>

text \<open>A response to a lookup may lack its ticket.\<close>

record 'o ops_client =
  ocCreateTicket :: "ticket_message \<Rightarrow> 'o \<Rightarrow> (ops_error + ticket_message) \<times> 'o"
  ocGetTicket :: "string \<Rightarrow> 'o \<Rightarrow> ops_error + ticket_message option"
  ocListTickets :: "int \<Rightarrow> int \<Rightarrow> 'o \<Rightarrow> ops_error + ticket_message list"
  ocCreateCustomerTicket :: "CreateCustomerTicketRequest \<Rightarrow> 'o \<Rightarrow> (ops_error + ticket_message) \<times> 'o"
  ocListCustomerTickets :: "string \<Rightarrow> int \<Rightarrow> int \<Rightarrow> 'o \<Rightarrow> ops_error + ticket_message list"
  ocAddTicketComment :: "string \<Rightarrow> AddCommentRequest \<Rightarrow> 'o \<Rightarrow> (ops_error + comment_message) \<times> 'o"
  ocListTicketComments :: "string \<Rightarrow> bool \<Rightarrow> 'o \<Rightarrow> ops_error + comment_message list"

definition ops_grpc :: "'x OpsEnv \<Rightarrow> 's OpsRepository \<Rightarrow> time \<Rightarrow> ('s \<times> 'x) ops_client" where
  "ops_grpc E R now = \<lparr>ocCreateTicket = grpc_CreateTicket E R now,
     ocGetTicket = (\<lambda>i sx. map_sum id Some (grpc_GetTicket R i (fst sx))),
     ocListTickets = (\<lambda>limit offset sx. grpc_ListTickets R [] [] [] limit offset (fst sx)),
     ocCreateCustomerTicket = grpc_CreateCustomerTicket E R now,
     ocListCustomerTickets = (\<lambda>c limit offset sx. grpc_ListCustomerTickets R c limit offset (fst sx)),
     ocAddTicketComment = grpc_AddTicketComment E R,
     ocListTicketComments = (\<lambda>i b sx. grpc_ListTicketComments R i b (fst sx))\<rparr>"

text \<open>The call of the internal layer that creates a ticket for an incident.\<close>

definition incident_ticket :: "CreateTicketRequest \<Rightarrow> ticket_message" where
  "incident_ticket q = \<lparr>gtTicketID = [], gtTitle = tqTitle q, gtBody = tqBody q, gtState = [], gtSeverity = tqSeverity q, gtCategory = tqCategory q,
     gtSource = tqSource q, gtCustomerID = [], gtAuthorUsername = tqAuthorUsername q, gtAssigneeUsername = [], gtIsUrgent = tqIsUrgent q,
     gtAcknowledgedBy = [], gtAcknowledgedAt = [], gtCreatedAt = [], gtUpdatedAt = [], gtResolutionNotes = [], gtForgejoRepo = [], gtForgejoIssueID = 0\<rparr>"

definition ticket_call :: "'o ops_client \<Rightarrow> CreateTicketRequest \<Rightarrow> 'o \<Rightarrow> (rpc_error + string option) \<times> 'o" where
  "ticket_call C q w = map_prod (map_sum (\<lambda>_. Unknown) (\<lambda>t. Some (gtTicketID t))) id (ocCreateTicket C (incident_ticket q) w)"

text \<open>The ticket calls of the internal layer for employees: each is passed on to the ticket service.\<close>

definition pass_on :: "'o ops_client option \<Rightarrow> ('o ops_client \<Rightarrow> 'o \<Rightarrow> (ops_error + 'a) \<times> 'o) \<Rightarrow> 'o \<Rightarrow> ((code, ops_error) sum + 'a) \<times> 'o" where
  "pass_on ops call w = (case ops of None \<Rightarrow> (Inl (Inl Unavailable), w) | Some C \<Rightarrow> map_prod (map_sum Inr id) id (call C w))"

section \<open>The customer business layer\<close>

datatype ticket_error = Failed code | NoSuchTicket

definition bll_ListCustomerTickets :: "'o ops_client option \<Rightarrow> string \<Rightarrow> int \<Rightarrow> int \<Rightarrow> 'o \<Rightarrow> ticket_error + ticket_message list" where
  "bll_ListCustomerTickets ops c limit offset w = (case ops of
     None \<Rightarrow> Inl (Failed Unavailable)
   | Some C \<Rightarrow> map_sum (\<lambda>_. Failed Internal) id
       (if c \<noteq> [] then ocListCustomerTickets C c (limit_or_50 limit) offset w else ocListTickets C (limit_or_50 limit) offset w))"

definition bll_CreateCustomerTicket ::
    "'o ops_client option \<Rightarrow> CreateCustomerTicketRequest \<Rightarrow> string \<Rightarrow> 'o \<Rightarrow> (ticket_error + ticket_message) \<times> 'o" where
  "bll_CreateCustomerTicket ops q severity w =
     (if TrimSpace (ctTitle q) = [] then (Inl (Failed InvalidArgument), w)
      else case ops of
        None \<Rightarrow> (Inl (Failed Unavailable), w)
      | Some C \<Rightarrow>
          let category = (if ctCategory q = [] then ''General Inquiry'' else ctCategory q)
          in if ctCustomerID q \<noteq> []
             then map_prod (map_sum (\<lambda>_. Failed InvalidArgument) id) id (ocCreateCustomerTicket C (q\<lparr>ctCategory := category\<rparr>) w)
             else map_prod (map_sum (\<lambda>_. Failed Internal) id) id (ocCreateTicket C (incident_ticket \<lparr>tqTitle = ctTitle q, tqBody = ctBody q,
                    tqSeverity = severity, tqCategory = category, tqSource = [], tqAuthorUsername = [], tqIsUrgent = False\<rparr>) w))"

text \<open>The lookup that the three calls on a single ticket start with.\<close>

definition visible_ticket :: "'o ops_client \<Rightarrow> string \<Rightarrow> string \<Rightarrow> 'o \<Rightarrow> ticket_message option" where
  "visible_ticket C c i w = (case ocGetTicket C i w of
     Inr (Some t) \<Rightarrow> if c \<noteq> [] \<and> gtCustomerID t \<noteq> [] \<and> gtCustomerID t \<noteq> c then None else Some t
   | _ \<Rightarrow> None)"

definition bll_GetCustomerTicket :: "'o ops_client option \<Rightarrow> string \<Rightarrow> string \<Rightarrow> 'o \<Rightarrow> ticket_error + ticket_message" where
  "bll_GetCustomerTicket ops c i w =
     (if i = [] then Inl (Failed InvalidArgument)
      else case ops of
        None \<Rightarrow> Inl (Failed Unavailable)
      | Some C \<Rightarrow> (case visible_ticket C c i w of None \<Rightarrow> Inl NoSuchTicket | Some t \<Rightarrow> Inr t))"

definition bll_ListCustomerTicketComments :: "'o ops_client option \<Rightarrow> string \<Rightarrow> string \<Rightarrow> 'o \<Rightarrow> ticket_error + comment_message list" where
  "bll_ListCustomerTicketComments ops c i w =
     (if i = [] then Inl (Failed InvalidArgument)
      else case ops of
        None \<Rightarrow> Inl (Failed Unavailable)
      | Some C \<Rightarrow> (case visible_ticket C c i w of
          None \<Rightarrow> Inl NoSuchTicket
        | Some t \<Rightarrow> map_sum (\<lambda>_. Failed Internal) id (ocListTicketComments C i False w)))"

definition bll_AddCustomerTicketComment ::
    "'o ops_client option \<Rightarrow> string \<Rightarrow> string \<Rightarrow> string \<Rightarrow> string \<Rightarrow> 'o \<Rightarrow> (ticket_error + comment_message) \<times> 'o" where
  "bll_AddCustomerTicketComment ops c i author comment w =
     (if i = [] \<or> TrimSpace comment = [] then (Inl (Failed InvalidArgument), w)
      else case ops of
        None \<Rightarrow> (Inl (Failed Unavailable), w)
      | Some C \<Rightarrow> (case visible_ticket C c i w of
          None \<Rightarrow> (Inl NoSuchTicket, w)
        | Some t \<Rightarrow> map_prod (map_sum (\<lambda>_. Failed InvalidArgument) id) id (ocAddTicketComment C i
            \<lparr>aqAuthorUsername = (if author \<noteq> [] then author else if c \<noteq> [] then c else ''Customer''), aqComment = comment, aqIsInternal = False\<rparr> w)))"

section \<open>The customer portal\<close>

text \<open>
  The handlers behind the session check of the router. A session is the identifier of its customer; a body that does
  not decode is \<open>None\<close>; \<open>bll\<close> is the business layer with its ticket client.
\<close>

datatype 'a http = Reply nat 'a | Refuse nat

definition handleListCustomerTickets ::
    "'o ops_client option option \<Rightarrow> string option \<Rightarrow> 'o \<Rightarrow> ticket_message list http" where
  "handleListCustomerTickets bll session w =
     (if strVal session = [] then Refuse 401
      else case bll of
        None \<Rightarrow> Refuse 503
      | Some ops \<Rightarrow> (case bll_ListCustomerTickets ops (strVal session) 0 0 w of Inl _ \<Rightarrow> Reply 200 [] | Inr ts \<Rightarrow> Reply 200 ts))"

definition handleGetCustomerTicket :: "'o ops_client option option \<Rightarrow> string \<Rightarrow> 'o \<Rightarrow> ticket_message http" where
  "handleGetCustomerTicket bll i w =
     (if i = [] then Refuse 400
      else case bll of
        None \<Rightarrow> Refuse 503
      | Some ops \<Rightarrow> (case bll_GetCustomerTicket ops [] i w of Inl _ \<Rightarrow> Refuse 404 | Inr t \<Rightarrow> Reply 200 t))"

record ticket_form =
  tfSubject :: string
  tfDescription :: string
  tfTitle :: string
  tfBody :: string
  tfCategory :: string
  tfPriority :: string
  tfSeverity :: string

definition handleCreateCustomerTicket ::
    "'o ops_client option option \<Rightarrow> string option \<Rightarrow> ticket_form option \<Rightarrow> 'o \<Rightarrow> ticket_message http \<times> 'o" where
  "handleCreateCustomerTicket bll session form w = (case session of
     None \<Rightarrow> (Refuse 401, w)
   | Some c \<Rightarrow> (case form of
       None \<Rightarrow> (Refuse 400, w)
     | Some f \<Rightarrow>
         let title = (if tfTitle f = [] then tfSubject f else tfTitle f);
             body = (if tfBody f = [] then tfDescription f else tfBody f);
             severity = (if tfSeverity f \<noteq> [] then tfSeverity f else if tfPriority f \<noteq> [] then tfPriority f else ''normal'')
         in if title = [] \<or> body = [] then (Refuse 400, w)
            else (case bll of
                None \<Rightarrow> (Refuse 503, w)
              | Some ops \<Rightarrow> (case bll_CreateCustomerTicket ops \<lparr>ctCustomerID = c, ctCategory = tfCategory f, ctTitle = title, ctBody = body\<rparr> severity w of
                  (Inl _, w') \<Rightarrow> (Refuse 400, w')
                | (Inr t, w') \<Rightarrow> (Reply 201 t, w')))))"

definition handleListCustomerTicketComments :: "'o ops_client option option \<Rightarrow> string \<Rightarrow> 'o \<Rightarrow> comment_message list http" where
  "handleListCustomerTicketComments bll i w =
     (if i = [] then Refuse 400
      else case bll of
        None \<Rightarrow> Refuse 503
      | Some ops \<Rightarrow> (case bll_ListCustomerTicketComments ops [] i w of Inl _ \<Rightarrow> Reply 200 [] | Inr cs \<Rightarrow> Reply 200 cs))"

definition handleAddCustomerTicketComment ::
    "'o ops_client option option \<Rightarrow> string option \<Rightarrow> string \<Rightarrow> string option \<Rightarrow> 'o \<Rightarrow> comment_message http \<times> 'o" where
  "handleAddCustomerTicketComment bll session i comment w = (case session of
     None \<Rightarrow> (Refuse 401, w)
   | Some c \<Rightarrow>
       if i = [] then (Refuse 400, w)
       else (case comment of
           None \<Rightarrow> (Refuse 400, w)
         | Some text \<Rightarrow>
             if text = [] then (Refuse 400, w)
             else (case bll of
                 None \<Rightarrow> (Refuse 503, w)
               | Some ops \<Rightarrow> (case bll_AddCustomerTicketComment ops c i c text w of
                   (Inl _, w') \<Rightarrow> (Refuse 400, w')
                 | (Inr m, w') \<Rightarrow> (Reply 201 m, w')))))"

section \<open>The incident consumer of the worker\<close>

text \<open>
  \<open>haBff\<close> and \<open>haPebble\<close> are the incidents that a fan-out has reached, \<open>haHttp\<close> the state of the two receivers and \<open>haWorld\<close> that of the
  internal layer, whose answer is ignored. A message is the identifier of its event and the payload, \<open>None\<close> if it does not decode.
\<close>

record IncidentCreatedEventPayload =
  icIncidentID :: string
  icTitle :: string
  icCategory :: string
  icInvolvedFelineID :: string
  icInvolvedHumanID :: string
  icSeverity :: string
  icRoomZone :: string
  icDescription :: string
  icReportedAt :: time

record ('h, 'z) alert_state =
  haBff :: "string set"
  haPebble :: "string set"
  haHttp :: 'h
  haWorld :: 'z

text \<open>One fan-out: the result says whether it failed.\<close>

definition fan_out ::
    "(string \<Rightarrow> IncidentCreatedEventPayload \<Rightarrow> 'h \<Rightarrow> post_result \<times> 'h) \<Rightarrow> string \<Rightarrow> IncidentCreatedEventPayload \<Rightarrow> string \<Rightarrow> string set \<times> 'h
      \<Rightarrow> bool \<times> string set \<times> 'h" where
  "fan_out post url p i = (\<lambda>(seen, h).
     if i \<in> seen then (False, seen, h)
     else case post url p h of
       (Answer st, h') \<Rightarrow> if 200 \<le> st \<and> st < 300 then (False, insert i seen, h') else (True, seen, h')
     | (_, h') \<Rightarrow> (True, seen, h'))"

definition incident_id :: "string \<Rightarrow> IncidentCreatedEventPayload \<Rightarrow> string" where
  "incident_id event p = (if icIncidentID p = [] then event else icIncidentID p)"

definition HandleIncidentAlert ::
    "('w, 'v, 'k, 'o, 'f, 'x) bll_server option \<Rightarrow> (string \<Rightarrow> IncidentCreatedEventPayload \<Rightarrow> 'h \<Rightarrow> post_result \<times> 'h) \<Rightarrow> string \<Rightarrow> string
      \<Rightarrow> string \<times> IncidentCreatedEventPayload option \<Rightarrow> ('h, ('w, 'v, 'k, 'o, 'f, 'x) bll_world) alert_state
      \<Rightarrow> bool \<times> ('h, ('w, 'v, 'k, 'o, 'f, 'x) bll_world) alert_state" where
  "HandleIncidentAlert internalBLL post employeeBFFURL pebbleProxyURL msg s = (case snd msg of
     None \<Rightarrow> (False, s)
   | Some p \<Rightarrow>
       let i = incident_id (fst msg) p;
           z = (case internalBLL of None \<Rightarrow> haWorld s
                | Some B \<Rightarrow> snd (BroadcastPebbleIncidentAlert B i (icTitle p) (icCategory p) (icSeverity p) (icDescription p) (haWorld s)));
           bff = (if employeeBFFURL = [] then ''http://oci-employee-bff.oci-core.svc.cluster.local:8081'' else employeeBFFURL);
           pebble = (if pebbleProxyURL = [] then ''http://oci-pebble-proxy.oci-core.svc.cluster.local:8082'' else pebbleProxyURL);
           (e1, seen1, h1) = fan_out post (bff @ ''/api/v1/employee/incidents/broadcast'') p i (haBff s, haHttp s);
           (e2, seen2, h2) = fan_out post (pebble @ ''/api/v1/ops/pebble/incidents/broadcast'') p i (haPebble s, h1)
       in (\<not> e1 \<and> \<not> e2, s\<lparr>haBff := seen1, haPebble := seen2, haHttp := h2, haWorld := z\<rparr>))"

section \<open>The contract of the ticket service\<close>

lemma map_sum_Inr [simp]: "map_sum f id x = Inr y \<longleftrightarrow> x = Inr y"
  by (cases x) simp_all

locale ticket_contract =
  fixes C :: "'o ops_client" and stored :: "string \<Rightarrow> 'o \<Rightarrow> ticket_message option"
  assumes lookup: "i \<noteq> [] \<Longrightarrow> stored i w = Some t \<Longrightarrow> ocGetTicket C i w = Inr (Some t)"
    and own: "ocListCustomerTickets C c l n w = Inr ts \<Longrightarrow> t \<in> set ts \<Longrightarrow> gtCustomerID t = c"
    and public: "ocListTicketComments C i False w = Inr cs \<Longrightarrow> m \<in> set cs \<Longrightarrow> \<not> gcIsInternal m"
begin

lemma list_own: "handleListCustomerTickets (Some (Some C)) (Some c) w = Reply n ts \<Longrightarrow> t \<in> set ts \<Longrightarrow> gtCustomerID t = c"
  using own by (auto simp: handleListCustomerTickets_def bll_ListCustomerTickets_def strVal_def split: if_splits sum.splits)

lemma comments_public: "handleListCustomerTicketComments (Some (Some C)) i w = Reply n cs \<Longrightarrow> m \<in> set cs \<Longrightarrow> \<not> gcIsInternal m"
  using public by (auto simp: handleListCustomerTicketComments_def bll_ListCustomerTicketComments_def split: if_splits sum.splits option.splits)

lemma read_any: "i \<noteq> [] \<Longrightarrow> stored i w = Some t \<Longrightarrow> handleGetCustomerTicket (Some (Some C)) i w = Reply 200 t"
  by (simp add: handleGetCustomerTicket_def bll_GetCustomerTicket_def visible_ticket_def lookup)

lemma foreign_comment:
  assumes "i \<noteq> []" and "stored i w = Some t" and "c \<noteq> []" and "gtCustomerID t \<noteq> []" and "gtCustomerID t \<noteq> c"
  shows "handleAddCustomerTicketComment (Some (Some C)) (Some c) i text w = (Refuse 400, w)"
  using assms by (simp add: handleAddCustomerTicketComment_def bll_AddCustomerTicketComment_def visible_ticket_def lookup split: option.split)

end

interpretation memory_tickets: ticket_contract "ops_grpc E (mock_ops ord now) now" "\<lambda>i sx. map_option toProtoTicket (mtTickets (fst sx) i)" for E ord now
  by unfold_locales
    (auto simp: ops_grpc_def grpc_GetTicket_def ops_GetITTicket_def mock_ops_def mock_GetITTicketByID_def grpc_ListCustomerTickets_def
      mock_ListITTicketsByCustomer_def toProtoTicket_def strVal_def grpc_ListTicketComments_def ops_ListTicketComments_def
      mock_ListTicketComments_def toProtoComment_def split: if_splits)

interpretation database_tickets: ticket_contract "ops_grpc E (pgx_ops uuid True now) now" "\<lambda>i sx. map_option toProtoTicket (find_ticket i (fst sx))"
  for E uuid now
  by unfold_locales
    (auto simp: ops_grpc_def grpc_GetTicket_def ops_GetITTicket_def pgx_GetITTicketByID_def grpc_ListCustomerTickets_def
      pgx_ListITTicketsByCustomer_def pgx_query_def page_def toProtoTicket_def strVal_def grpc_ListTicketComments_def ops_ListTicketComments_def
      pgx_ListTicketComments_def toProtoComment_def dest!: in_set_takeD in_set_dropD split: if_splits)

section \<open>Properties\<close>

text \<open>C17: What a customer may see and do on the pages of their tickets, over the database: the list of a session has tickets of that customer only;
  the comments of a ticket never include one that an employee marked as internal; and a comment on a ticket of another customer is refused
  and changes nothing.
\<close>

theorem ticket_pages_confidential:
  fixes E uuid now d x
  defines "bll \<equiv> Some (Some (ops_grpc E (pgx_ops uuid True now) now))"
  shows "(case handleListCustomerTickets bll (Some c) (d, x) of Reply n ts \<Rightarrow> \<forall>t \<in> set ts. gtCustomerID t = c | Refuse n \<Rightarrow> c = [])
    \<and> (case handleListCustomerTicketComments bll i (d, x) of Reply n cs \<Rightarrow> \<forall>m \<in> set cs. \<not> gcIsInternal m | Refuse n \<Rightarrow> i = [])
    \<and> (\<forall>t. find_ticket i d = Some t \<longrightarrow> i \<noteq> [] \<longrightarrow> c \<noteq> [] \<longrightarrow> strVal (itCustomerID t) \<notin> {[], c}
         \<longrightarrow> handleAddCustomerTicketComment bll (Some c) i remark (d, x) = (Refuse 400, d, x))"
    (is "?list \<and> ?comments \<and> ?add")
proof (intro conjI)
  have "handleListCustomerTickets bll (Some c) (d, x) = Refuse n \<Longrightarrow> c = []" for n
    by (simp add: handleListCustomerTickets_def bll_def strVal_def split: if_splits sum.splits)
  then show ?list
    using database_tickets.list_own [of E uuid now c "(d, x)"] unfolding bll_def by (auto split: http.split)
  have "handleListCustomerTicketComments bll i (d, x) = Refuse n \<Longrightarrow> i = []" for n
    by (simp add: handleListCustomerTicketComments_def bll_def split: if_splits sum.splits)
  then show ?comments
    using database_tickets.comments_public [of E uuid now i "(d, x)"] unfolding bll_def by (auto split: http.split)
  have g: "gtCustomerID (toProtoTicket t) = strVal (itCustomerID t)" for t by (simp add: toProtoTicket_def)
  show ?add
    using database_tickets.foreign_comment [where w = "(d, x)"] g unfolding bll_def by simp
qed

theorem ticket_pages_confidential_witness:
  "handleAddCustomerTicketComment (Some (Some (ops_grpc quiet_env (pgx_ops dec_nat True 9) 9))) (Some ''c2'') ''1'' (Some ''mine?'') (demo_db, ()) = (Refuse 400, demo_db, ())"
proof -
  have "find_ticket ''1'' demo_db = Some demo_ticket" "strVal (itCustomerID demo_ticket) = ''c1''"
    by (simp_all add: find_ticket_def demo_db_def demo_ticket_def new_ticket_def customer_request_def demo_request_def strPtr_def strVal_def)
  then show ?thesis
    using ticket_pages_confidential [where E = quiet_env and uuid = dec_nat and now = 9 and c = "''c2''" and d = demo_db and x = "()"
        and i = "''1''" and remark = "Some ''mine?''"] by simp
qed

text \<open>But a single ticket is open to every customer: the page of a ticket and the page of its comments do not pass on the session, so any customer
  who knows or guesses an identifier reads the whole ticket, of another customer or of the IT department, with its assignee and the internal
  resolution notes, and its public comments; and a ticket of the IT department also takes a comment from any customer.
\<close>

theorem any_ticket_readable:
  assumes "find_ticket i d = Some t" and "i \<noteq> []" and "dbComments d = cs"
  shows "handleGetCustomerTicket (Some (Some (ops_grpc E (pgx_ops uuid True now) now))) i (d, x) = Reply 200 (toProtoTicket t)
    \<and> handleListCustomerTicketComments (Some (Some (ops_grpc E (pgx_ops uuid True now) now))) i (d, x)
        = Reply 200 (map toProtoComment (sort_key cmCreatedAt (filter (\<lambda>c. cmTicketID c = i \<and> \<not> cmIsInternal c) cs)))
    \<and> (itCustomerID t = None \<and> c \<noteq> [] \<and> length c \<le> 100 \<and> TrimSpace text \<noteq> []
        \<longrightarrow> (\<exists>m d' x'. handleAddCustomerTicketComment (Some (Some (ops_grpc E (pgx_ops uuid True now) now))) (Some c) i (Some text) (d, x)
               = (Reply 201 m, d', x') \<and> gcAuthorUsername m = c \<and> gcComment m = text))"
proof (intro conjI impI)
  show "handleGetCustomerTicket (Some (Some (ops_grpc E (pgx_ops uuid True now) now))) i (d, x) = Reply 200 (toProtoTicket t)"
    using database_tickets.read_any [of i "(d, x)"] assms(1,2) by simp
  have g: "ocGetTicket (ops_grpc E (pgx_ops uuid True now) now) i (d, x) = Inr (Some (toProtoTicket t))"
    using assms(1,2) database_tickets.lookup [of i "(d, x)"] by simp
  then show "handleListCustomerTicketComments (Some (Some (ops_grpc E (pgx_ops uuid True now) now))) i (d, x)
        = Reply 200 (map toProtoComment (sort_key cmCreatedAt (filter (\<lambda>c. cmTicketID c = i \<and> \<not> cmIsInternal c) cs)))"
    using assms(2,3)
    by (simp add: handleListCustomerTicketComments_def bll_ListCustomerTicketComments_def visible_ticket_def)
      (simp add: ops_grpc_def grpc_ListTicketComments_def ops_ListTicketComments_def pgx_ListTicketComments_def)
  assume c: "itCustomerID t = None \<and> c \<noteq> [] \<and> length c \<le> 100 \<and> TrimSpace text \<noteq> []"
  then have n: "gtCustomerID (toProtoTicket t) = []" "text \<noteq> []" by (auto simp: toProtoTicket_def strVal_def TrimSpace_def)
  show "\<exists>m d' x'. handleAddCustomerTicketComment (Some (Some (ops_grpc E (pgx_ops uuid True now) now))) (Some c) i (Some text) (d, x)
               = (Reply 201 m, d', x') \<and> gcAuthorUsername m = c \<and> gcComment m = text"
    using c n assms(1,2) g
    by (simp add: handleAddCustomerTicketComment_def bll_AddCustomerTicketComment_def visible_ticket_def)
      (simp add: ops_grpc_def grpc_AddTicketComment_def ops_AddTicketComment_def pgx_GetITTicketByID_def pgx_CreateTicketComment_def toProtoComment_def Let_def)
qed

definition it_ticket :: ITTicket where
  "it_ticket = (new_ticket outage)\<lparr>itTicketID := ''7'', itResolutionNotes := Some ''root password rotated''\<rparr>"

definition it_db :: ticket_db where
  "it_db = \<lparr>dbTickets = [it_ticket], dbComments = [], dbCount = 8\<rparr>"

theorem any_ticket_readable_witness:
  "\<exists>t. handleGetCustomerTicket (Some (Some (ops_grpc quiet_env (pgx_ops dec_nat True 9) 9))) ''7'' (it_db, ()) = Reply 200 t
     \<and> gtResolutionNotes t = ''root password rotated'' \<and> gtCustomerID t = []"
proof -
  have f: "find_ticket ''7'' it_db = Some it_ticket" by (simp add: find_ticket_def it_db_def it_ticket_def)
  have "gtResolutionNotes (toProtoTicket it_ticket) = ''root password rotated''" "gtCustomerID (toProtoTicket it_ticket) = []"
    by (simp_all add: toProtoTicket_def it_ticket_def new_ticket_def outage_def strVal_def strPtr_def)
  then show ?thesis
    using any_ticket_readable [OF f, where cs = "[]" and E = quiet_env and uuid = dec_nat and now = 9 and x = "()"]
    by (simp add: it_db_def)
qed

definition table_categories :: "string set" where
  "table_categories = {''hardware'', ''software'', ''habitat'', ''trading'', ''general''}"

text \<open>The categories of a form that end as one of the table: none at all becomes ``General Inquiry'', blanks become ``general''.\<close>

definition accepted_category :: "string \<Rightarrow> bool" where
  "accepted_category s \<longleftrightarrow> s \<noteq> [] \<and> (TrimSpace s = [] \<or> ToLower (TrimSpace s) \<in> table_categories)"

lemma is_space_code: "is_space c \<longleftrightarrow> (of_char c :: nat) \<in> {32, 9, 10, 11, 12, 13}"
proof -
  have "c = d \<longleftrightarrow> (of_char c :: nat) = of_char d" for d by (metis of_char_eq_iff)
  then show ?thesis unfolding is_space_def insert_iff empty_iff by (simp only:) simp
qed

lemma is_space_lower [simp]: "is_space (lower_char c) = is_space c"
  by (auto simp: is_space_code lower_char_def)

lemma ToLower_TrimSpace: "TrimSpace (ToLower s) = ToLower (TrimSpace s)"
  by (simp add: TrimSpace_def ToLower_def dropWhile_map rev_map comp_def)

lemma TrimSpace_idem [simp]: "TrimSpace (TrimSpace s) = TrimSpace s"
proof -
  define l where "l = dropWhile is_space s"
  define t where "t = dropWhile is_space (rev l)"
  have "dropWhile is_space (rev t) = rev t"
  proof (cases "rev t")
    case (Cons a as)
    have "l = rev t @ rev (takeWhile is_space (rev l))"
      unfolding t_def by (metis rev_append rev_rev_ident takeWhile_dropWhile_id)
    then have "hd l = a" "l \<noteq> []" using Cons by (metis append_Cons list.sel(1), metis append_Cons list.discI)
    then have "\<not> is_space a" unfolding l_def by (metis hd_dropWhile)
    then show ?thesis using Cons by simp
  qed simp
  moreover have "dropWhile is_space t = t" by (simp add: t_def)
  ultimately show ?thesis by (simp add: TrimSpace_def l_def [symmetric] t_def [symmetric])
qed

lemma form_category:
  "itCategory (new_ticket (customer_request q)) = (if TrimSpace (ctCategory q) = [] then ''general'' else ToLower (TrimSpace (ctCategory q)))"
proof -
  have "ToLower (TrimSpace ''general'') = ''general''" "TrimSpace ''general'' \<noteq> []" by code_simp+
  moreover have "ToLower s = [] \<longleftrightarrow> s = []" for s by (simp add: ToLower_def)
  ultimately show ?thesis by (simp add: new_ticket_def customer_request_def ToLower_TrimSpace Let_def)
qed

text \<open>The support form of the portal, over the database and without an issue tracker as the ticket server is started: a form with a title and
  a text whose category the table knows stores exactly one more ticket, open, of the customer who sent it, and shows it to them, always with
  severity ``medium'' whatever severity or priority the form names; every other form is refused and changes nothing. A form that leaves the
  category out is refused, because its default is not a category of the table.
\<close>

theorem support_form:
  fixes E uuid now d x f c
  defines "out \<equiv> handleCreateCustomerTicket (Some (Some (ops_grpc E (pgx_ops uuid True now) now))) (Some c) (Some f) (d, x)"
    and "title \<equiv> (if tfTitle f = [] then tfSubject f else tfTitle f)" and "body \<equiv> (if tfBody f = [] then tfDescription f else tfBody f)"
  assumes "c \<noteq> []" and "oeTracker E = None"
  shows "if TrimSpace title \<noteq> [] \<and> body \<noteq> [] \<and> accepted_category (tfCategory f) \<and> length title \<le> 255 \<and> length c \<le> 100
    then \<exists>t. out = (Reply 201 (toProtoTicket t), d\<lparr>dbTickets := dbTickets d @ [t], dbCount := Suc (dbCount d)\<rparr>, x)
      \<and> itTicketID t = uuid (dbCount d) \<and> itTitle t = title \<and> itBody t = Some body \<and> itCustomerID t = Some c \<and> itState t = ''open''
      \<and> itSeverity t = ''medium'' \<and> itSource t = ''customer'' \<and> \<not> itIsUrgent t
    else out = (Refuse 400, d, x)"
proof -
  define q where "q = \<lparr>ctCustomerID = c, ctCategory = (if tfCategory f = [] then ''General Inquiry'' else tfCategory f), ctTitle = title, ctBody = body\<rparr>"
  define t where "t = (new_ticket (customer_request q))\<lparr>itTicketID := uuid (dbCount d), itCreatedAt := now, itUpdatedAt := now\<rparr>"
  have n: "itSeverity (new_ticket (customer_request q)) = ''medium''" "itCategory (new_ticket (customer_request q)) \<noteq> []"
    "itSource (new_ticket (customer_request q)) = ''customer''" "itForgejoRepo (new_ticket (customer_request q)) = ''oci-internal/customer-support''"
    "itForgejoIssueID (new_ticket (customer_request q)) = None" "\<not> itIsUrgent (new_ticket (customer_request q))"
    by (simp_all add: new_ticket_def customer_request_def request_urgent_def Let_def)
  have g: "ToLower (TrimSpace ''General Inquiry'') \<notin> table_categories" "TrimSpace ''General Inquiry'' \<noteq> []" by code_simp+
  have k: "itCategory t \<in> table_categories \<longleftrightarrow> accepted_category (tfCategory f)"
    using g by (auto simp: t_def form_category q_def accepted_category_def table_categories_def)
  have r: "ticket_row_ok t \<longleftrightarrow> accepted_category (tfCategory f) \<and> length title \<le> 255 \<and> length c \<le> 100"
    unfolding k [symmetric]
    by (auto simp: ticket_row_ok_def table_categories_def t_def n new_ticket_def customer_request_def q_def strVal_def strPtr_def Let_def split: option.split)
  have ct: "(ticket_defaults (new_ticket (customer_request q)))\<lparr>itTicketID := uuid (dbCount d), itState := ''open'', itAcknowledgedAt := None,
      itAcknowledgedBy := None, itCreatedAt := now, itUpdatedAt := now\<rparr> = t"
    using n by (simp add: ticket_defaults_def t_def Let_def) (simp add: new_ticket_def)
  have p: "pgx_CreateITTicket uuid True now (new_ticket (customer_request q)) d
      = (if ticket_row_ok t then (Inr t, d\<lparr>dbTickets := dbTickets d @ [t], dbCount := Suc (dbCount d)\<rparr>) else (Inl DbError, d))"
    unfolding pgx_CreateITTicket_def ct Let_def using n(5) by (simp add: t_def issue_free_def)
  have i: "(new_ticket (customer_request q))\<lparr>itForgejoIssueID := None\<rparr> = new_ticket (customer_request q)" using n(5) by simp
  have s: "sync_issue E r (customer_request q) x = (None, x)" for r using assms(5) by (simp add: sync_issue_def customer_request_def)
  have cr: "cqTitle (customer_request q) = title" "cqAuthorUsername (customer_request q) = c" by (simp_all add: customer_request_def q_def)
  have o: "grpc_CreateCustomerTicket E (pgx_ops uuid True now) now q (d, x) = (if ticket_row_ok t
      then (Inr (toProtoTicket t), d\<lparr>dbTickets := dbTickets d @ [t], dbCount := Suc (dbCount d)\<rparr>, x) else (Inl DbError, d, x))" if "title \<noteq> []"
    using that assms(4) n(6) unfolding grpc_CreateCustomerTicket_def ops_CreateCustomerTicket_def ops_CreateITTicket_def
    by (simp add: cr s i p) (simp add: q_def)
  have e: "TrimSpace title = []" if "title = []" using that by (simp add: TrimSpace_def)
  have z: "out = (if title = [] \<or> body = [] \<or> TrimSpace title = [] then (Refuse 400, d, x)
      else case grpc_CreateCustomerTicket E (pgx_ops uuid True now) now q (d, x) of (Inl _, w') \<Rightarrow> (Refuse 400, w') | (Inr m, w') \<Rightarrow> (Reply 201 m, w'))"
  proof -
    obtain res w' where g: "grpc_CreateCustomerTicket E (pgx_ops uuid True now) now q (d, x) = (res, w')" by (metis surj_pair)
    have a: "ctTitle a0 = title" "ctCustomerID a0 = c" "a0\<lparr>ctCategory := (if ctCategory a0 = [] then ''General Inquiry'' else ctCategory a0)\<rparr> = q"
      if "a0 = \<lparr>ctCustomerID = c, ctCategory = tfCategory f, ctTitle = title, ctBody = body\<rparr>" for a0
      using that by (simp_all add: q_def)
    have h: "ocCreateCustomerTicket (ops_grpc E (pgx_ops uuid True now) now) q (d, x) = (res, w')" using g by (simp add: ops_grpc_def)
    show ?thesis
      unfolding out_def handleCreateCustomerTicket_def bll_CreateCustomerTicket_def title_def [symmetric] body_def [symmetric] Let_def option.case
        a [OF refl] h g
      using assms(4) by (cases res) simp_all
  qed
  have ff: "itTicketID t = uuid (dbCount d) \<and> itTitle t = title \<and> (body \<noteq> [] \<longrightarrow> itBody t = Some body) \<and> itCustomerID t = Some c \<and> itState t = ''open''
      \<and> itSeverity t = ''medium'' \<and> itSource t = ''customer'' \<and> \<not> itIsUrgent t"
    using assms(4) n by (simp add: t_def) (simp add: new_ticket_def customer_request_def q_def strPtr_def)
  show ?thesis
  proof (cases "title = [] \<or> body = [] \<or> TrimSpace title = []")
    case True
    then show ?thesis using z e by auto
  next
    case False
    then have "out = (if ticket_row_ok t then (Reply 201 (toProtoTicket t), d\<lparr>dbTickets := dbTickets d @ [t], dbCount := Suc (dbCount d)\<rparr>, x)
        else (Refuse 400, d, x))"
      using z o by simp
    then show ?thesis using False r ff by (cases "ticket_row_ok t") auto
  qed
qed

definition demo_form :: ticket_form where
  "demo_form = \<lparr>tfSubject = ''Order stuck'', tfDescription = ''Please check'', tfTitle = [], tfBody = [], tfCategory = [], tfPriority = ''urgent'', tfSeverity = []\<rparr>"

theorem support_form_witness:
  "handleCreateCustomerTicket (Some (Some (ops_grpc quiet_env (pgx_ops dec_nat True 9) 9))) (Some ''c1'') (Some demo_form) (empty_db, ()) = (Refuse 400, empty_db, ())
   \<and> (\<exists>t. handleCreateCustomerTicket (Some (Some (ops_grpc quiet_env (pgx_ops dec_nat True 9) 9))) (Some ''c1'') (Some (demo_form\<lparr>tfCategory := ''Trading''\<rparr>)) (empty_db, ())
          = (Reply 201 (toProtoTicket t), empty_db\<lparr>dbTickets := [t], dbCount := 1\<rparr>, ()) \<and> itSeverity t = ''medium'')"
proof -
  have e: "oeTracker quiet_env = None" "dbTickets empty_db = []" "dbCount empty_db = 0" by (simp_all add: quiet_env_def empty_db_def)
  have a: "\<not> accepted_category (tfCategory demo_form)" "accepted_category ''Trading''" "TrimSpace ''Order stuck'' \<noteq> []"
    by (simp add: accepted_category_def demo_form_def, code_simp+)
  have c: "''c1'' \<noteq> []" by simp
  show ?thesis
    using support_form [OF c e(1), where uuid = dec_nat and now = 9 and d = empty_db and x = "()" and f = demo_form]
      support_form [OF c e(1), where uuid = dec_nat and now = 9 and d = empty_db and x = "()" and f = "demo_form\<lparr>tfCategory := ''Trading''\<rparr>"] a e(2,3)
    by (auto simp: demo_form_def)
qed

subsection \<open>Incidents\<close>

lemma fan_out_result:
  assumes "fan_out post url p i (seen, h) = (e, seen', h')"
  shows "\<not> e \<longleftrightarrow> i \<in> seen'" and "seen \<subseteq> seen'" and "seen' \<subseteq> insert i seen" and "i \<in> seen \<Longrightarrow> h' = h \<and> seen' = seen"
  using assms by (auto simp: fan_out_def split: if_splits prod.splits post_result.splits)

text \<open>The incident consumer reaches each receiver once: it reports success exactly when the incident has been accepted by the portal and by the
  watch gateway, in this delivery or an earlier one; it forgets no incident and marks no other; and when both have accepted the incident
  before, a repeated delivery sends nothing. A message that failed is delivered again, so only the receiver that failed is tried again.
\<close>

theorem incident_fanout:
  assumes "HandleIncidentAlert B post u1 u2 (ev, Some p) s = (done', s')" and "i = incident_id ev p"
  shows "(done' \<longleftrightarrow> i \<in> haBff s' \<and> i \<in> haPebble s')
    \<and> haBff s \<subseteq> haBff s' \<and> haBff s' \<subseteq> insert i (haBff s) \<and> haPebble s \<subseteq> haPebble s' \<and> haPebble s' \<subseteq> insert i (haPebble s)
    \<and> (i \<in> haBff s \<and> i \<in> haPebble s \<longrightarrow> haHttp s' = haHttp s)"
proof -
  obtain v1 v2 where v: "HandleIncidentAlert B post u1 u2 (ev, Some p) s = (let
        (e1, seen1, h1) = fan_out post v1 p i (haBff s, haHttp s); (e2, seen2, h2) = fan_out post v2 p i (haPebble s, h1)
      in (\<not> e1 \<and> \<not> e2, s\<lparr>haBff := seen1, haPebble := seen2, haHttp := h2, haWorld := (case B of None \<Rightarrow> haWorld s
                | Some B \<Rightarrow> snd (BroadcastPebbleIncidentAlert B i (icTitle p) (icCategory p) (icSeverity p) (icDescription p) (haWorld s)))\<rparr>))"
    unfolding HandleIncidentAlert_def fst_conv snd_conv option.case assms(2) Let_def by blast
  obtain e1 seen1 h1 where f1: "fan_out post v1 p i (haBff s, haHttp s) = (e1, seen1, h1)" by (metis surj_pair)
  obtain e2 seen2 h2 where f2: "fan_out post v2 p i (haPebble s, h1) = (e2, seen2, h2)" by (metis surj_pair)
  have "done' = (\<not> e1 \<and> \<not> e2)" "haBff s' = seen1" "haPebble s' = seen2" "haHttp s' = h2"
    using assms(1) unfolding v f1 f2 Let_def prod.case by auto
  then show ?thesis using fan_out_result [OF f1] fan_out_result [OF f2] by auto
qed

definition demo_incident :: IncidentCreatedEventPayload where
  "demo_incident = \<lparr>icIncidentID = ''inc-1'', icTitle = ''Scratched desk'', icCategory = ''scratching'', icInvolvedFelineID = [], icInvolvedHumanID = [],
     icSeverity = ''low'', icRoomZone = [], icDescription = ''Again'', icReportedAt = 0\<rparr>"

definition quiet_world :: "'o \<Rightarrow> (unit, unit, unit, 'o, unit, unit) bll_world" where
  "quiet_world ops = \<lparr>bwWorkforce = (), bwVCS = (), bwHardware = (), bwOps = ops, bwFacilities = (), bwSearch = (), bwEvents = []\<rparr>"

theorem incident_fanout_witness:
  "\<exists>s'. HandleIncidentAlert (None :: (unit, unit, unit, unit, unit, unit) bll_server option) (\<lambda>url p n. (Answer (if n = 0 then 200 else 500), Suc n)) [] []
      (''e'', Some demo_incident) \<lparr>haBff = {}, haPebble = {}, haHttp = 0, haWorld = quiet_world ()\<rparr> = (False, s') \<and> ''inc-1'' \<in> haBff s' \<and> ''inc-1'' \<notin> haPebble s'"
proof -
  let ?s = "\<lparr>haBff = {}, haPebble = {}, haHttp = 0, haWorld = quiet_world ()\<rparr> :: (nat, (unit, unit, unit, unit, unit, unit) bll_world) alert_state"
  let ?h = "HandleIncidentAlert (None :: (unit, unit, unit, unit, unit, unit) bll_server option) (\<lambda>url p n. (Answer (if n = 0 then 200 else 500), Suc n)) [] []
      (''e'', Some demo_incident) ?s"
  have i: "incident_id ''e'' demo_incident = ''inc-1''" by (simp add: incident_id_def demo_incident_def)
  have d: "fst ?h = False" "''inc-1'' \<in> haBff (snd ?h)"
    by (simp_all add: HandleIncidentAlert_def fan_out_def i Let_def)
  define h where "h = ?h"
  have h: "?h = (fst h, snd h)" by (simp add: h_def)
  from incident_fanout [OF h i [symmetric]] d [folded h_def] have "''inc-1'' \<notin> haPebble (snd h)" by blast
  with d [folded h_def] h show ?thesis by auto
qed

text \<open>No incident ever reaches the on-call engineer through a ticket: over the database, the alert that the internal layer broadcasts is
  refused whatever the incident, because neither its category nor its source is one that the table of tickets allows. The tables stay as they are
  and nobody is notified; the consumer ignores the error and goes on as if the ticket had been created.
\<close>

theorem incident_alert_lost:
  assumes "blOps B = Some (ticket_call (ops_grpc E (pgx_ops uuid up now) now))" and "oeTracker E = None"
  shows "(\<exists>e. fst (BroadcastPebbleIncidentAlert B i title category severity description w) = Inl e)
    \<and> snd (BroadcastPebbleIncidentAlert B i title category severity description w) = w
    \<and> haWorld (snd (HandleIncidentAlert (Some B) post u1 u2 (ev, Some p) s)) = haWorld s"
proof -
  define C where "C = ops_grpc E (pgx_ops uuid up now) now"
  have n: "\<not> ticket_row_ok (t\<lparr>itCategory := ''feline_safety''\<rparr>)" for t by (simp add: ticket_row_ok_def)
  have c: "itCategory (new_ticket q) = ''feline_safety''" if "cqCategory q = ''feline_safety''" for q
  proof -
    have "ToLower (TrimSpace ''feline_safety'') = ''feline_safety''" by code_simp
    then show ?thesis using that by (simp add: new_ticket_def Let_def)
  qed
  have r: "pgx_CreateITTicket uuid up now t d = (Inl DbError, d)" if "itCategory t = ''feline_safety''" for t d
    using that by (simp add: pgx_CreateITTicket_def ticket_defaults_def ticket_row_ok_def Let_def)
  have k: "ticket_call C q sx = (Inl Unknown, sx)" if "tqCategory q = ''feline_safety''" "tqTitle q \<noteq> []" "tqAuthorUsername q \<noteq> []" for q sx
    using that assms(2)
    by (cases sx) (simp add: ticket_call_def C_def ops_grpc_def grpc_CreateTicket_def ops_CreateITTicket_def incident_ticket_def sync_issue_def c r)
  have b: "BroadcastPebbleIncidentAlert B i title category severity description w = (Inl (Rpc Unknown), w)" for i title category severity description w
    unfolding BroadcastPebbleIncidentAlert_def assms(1) C_def [symmetric] option.case Let_def by (simp add: k)
  then show ?thesis
    by (simp add: HandleIncidentAlert_def Let_def split: prod.split)
qed

definition ticket_only :: "(unit, unit, unit, ticket_db \<times> unit, unit, unit) bll_server" where
  "ticket_only = \<lparr>blWorkforce = None, blVCS = None, blHardware = None, blOps = Some (ticket_call (ops_grpc quiet_env (pgx_ops dec_nat True 9) 9)),
     blFacilities = None, blSearch = None, blPublisher = False\<rparr>"

theorem incident_alert_lost_witness:
  "\<exists>e. fst (BroadcastPebbleIncidentAlert ticket_only ''inc-1'' ''Fire'' ''scratching'' ''critical'' ''Smoke'' (quiet_world (empty_db, ()))) = Inl e"
proof -
  have "blOps ticket_only = Some (ticket_call (ops_grpc quiet_env (pgx_ops dec_nat True 9) 9))" "oeTracker quiet_env = None"
    by (simp_all add: ticket_only_def quiet_env_def)
  from incident_alert_lost [OF this, of "''inc-1''"] show ?thesis by blast
qed



end
