(* ===== verification/SessionStore.thy ===== *)
theory SessionStore
  imports GoText
begin

text \<open>
  Session stores, \<open>pkg/session/valkey/store.go\<close>: two kinds of session (customer and
  employee), each with an in-memory store and one in a Valkey server. The server
  and its client library are not part of the repository: the client is a record of
  functions, an argument of every definition that uses it, and the locale
  \<open>valkey_server\<close> states the documented behaviour of the commands on an abstract
  database, failures included. A JSON text is represented by the session it
  encodes, or by \<open>Garbage\<close> when it does not decode. The contract that both
  implementations keep is the locale \<open>session_store\<close>.
\<close>

section \<open>Sessions\<close>

record CustomerSession =
  SessionID :: string
  CustomerID :: string
  Email :: string
  Name :: string
  ExpiresAt :: time

record EmployeeSession =
  EmpSessionID :: string
  EmployeeID :: string
  EmpEmail :: string
  EmpName :: string
  Role :: string
  Department :: string
  Permissions :: "string list"
  EmpExpiresAt :: time

text \<open>
  The source repeats every operation for the two kinds; here an operation is
  written once over the fields and key names that differ, and each kind is an
  instance.
\<close>

record 'x family =
  sid :: "'x \<Rightarrow> string"
  owner :: "'x \<Rightarrow> string"
  expires :: "'x \<Rightarrow> time"
  sessionKey :: "string \<Rightarrow> string"
  userIndexKey :: "string \<Rightarrow> string"

definition customerSessionKey :: "string \<Rightarrow> string" where
  "customerSessionKey token = ''session:customer:'' @ token"

definition customerUserIndexKey :: "string \<Rightarrow> string" where
  "customerUserIndexKey customerID = ''user:sessions:customer:'' @ customerID"

definition employeeSessionKey :: "string \<Rightarrow> string" where
  "employeeSessionKey token = ''session:employee:'' @ token"

definition employeeUserIndexKey :: "string \<Rightarrow> string" where
  "employeeUserIndexKey employeeID = ''user:sessions:employee:'' @ employeeID"

definition customer :: "CustomerSession family" where
  "customer = \<lparr>sid = SessionID, owner = CustomerID, expires = ExpiresAt,
     sessionKey = customerSessionKey, userIndexKey = customerUserIndexKey\<rparr>"

definition employee :: "EmployeeSession family" where
  "employee = \<lparr>sid = EmpSessionID, owner = EmployeeID, expires = EmpExpiresAt,
     sessionKey = employeeSessionKey, userIndexKey = employeeUserIndexKey\<rparr>"

text \<open>The new sessions that \<open>Create\<close> builds from random bytes.\<close>

definition new_customer_session :: "string \<Rightarrow> time \<Rightarrow> string \<Rightarrow> string \<Rightarrow> string \<Rightarrow> CustomerSession" where
  "new_customer_session rnd now customerID name email =
     \<lparr>SessionID = ''sess-'' @ EncodeToString rnd, CustomerID = customerID, Email = email, Name = name,
      ExpiresAt = now + 24 * hour\<rparr>"

definition new_employee_session ::
    "string \<Rightarrow> time \<Rightarrow> string \<Rightarrow> string \<Rightarrow> string \<Rightarrow> string \<Rightarrow> string \<Rightarrow> EmployeeSession" where
  "new_employee_session rnd now employeeID email name role department =
     \<lparr>EmpSessionID = ''emp-sess-'' @ EncodeToString rnd, EmployeeID = employeeID, EmpEmail = email,
      EmpName = name, Role = ToLower (TrimSpace role), Department = department, Permissions = [],
      EmpExpiresAt = now + 24 * hour\<rparr>"

section \<open>The in-memory store\<close>

type_synonym 'x memory = "(string, 'x) gomap"

definition NewMemoryStore :: "'x memory" where
  "NewMemoryStore = Map.empty"

definition memory_Get :: "'x family \<Rightarrow> time \<Rightarrow> string \<Rightarrow> 'x memory \<Rightarrow> 'x option" where
  "memory_Get F now token s = (case s token of
     None \<Rightarrow> None
   | Some x \<Rightarrow> if expires F x < now then None else Some x)"

definition memory_SetSession :: "'x family \<Rightarrow> 'x \<Rightarrow> 'x memory \<Rightarrow> 'x memory" where
  "memory_SetSession F x s = s(sid F x \<mapsto> x)"

definition memory_Delete :: "string \<Rightarrow> 'x memory \<Rightarrow> 'x memory" where
  "memory_Delete token s = s(token := None)"

definition drop_where :: "('x \<Rightarrow> bool) \<Rightarrow> 'x memory \<Rightarrow> 'x memory" where
  "drop_where P s = (\<lambda>t. case s t of None \<Rightarrow> None | Some x \<Rightarrow> if P x then None else Some x)"

text \<open>The two loops delete while they range over the map; \<open>ord\<close> is the visiting order, which only the count uses.\<close>

definition memory_Purge :: "'x family \<Rightarrow> string list \<Rightarrow> string \<Rightarrow> 'x memory \<Rightarrow> nat \<times> 'x memory" where
  "memory_Purge F ord user s =
     (length (filter (\<lambda>x. owner F x = user) (map_vals ord s)), drop_where (\<lambda>x. owner F x = user) s)"

definition memory_Prune :: "'x family \<Rightarrow> string list \<Rightarrow> time \<Rightarrow> string \<Rightarrow> 'x memory \<Rightarrow> nat \<times> 'x memory" where
  "memory_Prune F ord now user s =
     (let stale = (\<lambda>x. owner F x = user \<and> expires F x < now)
      in (length (filter stale (map_vals ord s)), drop_where stale s))"

definition memory_Close :: "'x memory \<Rightarrow> 'x memory" where
  "memory_Close s = Map.empty"

text \<open>\<open>Create\<close>: the random bytes are \<open>None\<close> when the random source reports an error.\<close>

definition memoryCustomer_Create ::
    "string option \<Rightarrow> time \<Rightarrow> string \<Rightarrow> string \<Rightarrow> string \<Rightarrow> CustomerSession memory
      \<Rightarrow> CustomerSession option \<times> CustomerSession memory" where
  "memoryCustomer_Create rnd now customerID name email s = (case rnd of
     None \<Rightarrow> (None, s)
   | Some b \<Rightarrow> let x = new_customer_session b now customerID name email in (Some x, memory_SetSession customer x s))"

definition memoryEmployee_Create ::
    "string option \<Rightarrow> time \<Rightarrow> string \<Rightarrow> string \<Rightarrow> string \<Rightarrow> string \<Rightarrow> string \<Rightarrow> EmployeeSession memory
      \<Rightarrow> EmployeeSession option \<times> EmployeeSession memory" where
  "memoryEmployee_Create rnd now employeeID email name role department s = (case rnd of
     None \<Rightarrow> (None, s)
   | Some b \<Rightarrow> let x = new_employee_session b now employeeID email name role department
       in (Some x, memory_SetSession employee x s))"

definition memoryCustomer_Get :: "time \<Rightarrow> string \<Rightarrow> CustomerSession memory \<Rightarrow> CustomerSession option" where
  "memoryCustomer_Get = memory_Get customer"

definition memoryCustomer_SetSession :: "CustomerSession \<Rightarrow> CustomerSession memory \<Rightarrow> CustomerSession memory" where
  "memoryCustomer_SetSession = memory_SetSession customer"

definition memory_PurgeCustomerSessions ::
    "string list \<Rightarrow> string \<Rightarrow> CustomerSession memory \<Rightarrow> nat \<times> CustomerSession memory" where
  "memory_PurgeCustomerSessions = memory_Purge customer"

definition memoryCustomer_PruneStaleSessions ::
    "string list \<Rightarrow> time \<Rightarrow> string \<Rightarrow> CustomerSession memory \<Rightarrow> nat \<times> CustomerSession memory" where
  "memoryCustomer_PruneStaleSessions = memory_Prune customer"

definition memoryEmployee_Get :: "time \<Rightarrow> string \<Rightarrow> EmployeeSession memory \<Rightarrow> EmployeeSession option" where
  "memoryEmployee_Get = memory_Get employee"

definition memoryEmployee_SetSession :: "EmployeeSession \<Rightarrow> EmployeeSession memory \<Rightarrow> EmployeeSession memory" where
  "memoryEmployee_SetSession = memory_SetSession employee"

definition memoryEmployee_Delete :: "string \<Rightarrow> EmployeeSession memory \<Rightarrow> EmployeeSession memory" where
  "memoryEmployee_Delete = memory_Delete"

definition memory_PurgeEmployeeSessions ::
    "string list \<Rightarrow> string \<Rightarrow> EmployeeSession memory \<Rightarrow> nat \<times> EmployeeSession memory" where
  "memory_PurgeEmployeeSessions = memory_Purge employee"

definition memoryEmployee_PruneStaleSessions ::
    "string list \<Rightarrow> time \<Rightarrow> string \<Rightarrow> EmployeeSession memory \<Rightarrow> nat \<times> EmployeeSession memory" where
  "memoryEmployee_PruneStaleSessions = memory_Prune employee"

definition memoryEmployee_Close :: "EmployeeSession memory \<Rightarrow> EmployeeSession memory" where
  "memoryEmployee_Close = memory_Close"

lemmas memory_instances = memoryCustomer_Get_def memoryCustomer_SetSession_def memory_PurgeCustomerSessions_def
  memoryCustomer_PruneStaleSessions_def memoryEmployee_Get_def memoryEmployee_SetSession_def memoryEmployee_Delete_def
  memory_PurgeEmployeeSessions_def memoryEmployee_PruneStaleSessions_def memoryEmployee_Close_def

section \<open>The Valkey client\<close>

datatype 'x json = Encoded 'x | Garbage

datatype 'v command =
    SET string 'v duration
  | DEL "string list"
  | SADD string string
  | SREM string string
  | EXPIRE string duration

text \<open>
  A reply is \<open>None\<close> when the client reports an error. \<open>cmdPipe\<close> is \<open>Pipeline\<close> with its
  \<open>Exec\<close>; \<open>cmdEval\<close> runs a script that reads the members of one set and then
  issues commands and returns a number, the form of the script used here.
\<close>

record ('r, 'v) valkey =
  cmdGet :: "time \<Rightarrow> string \<Rightarrow> 'r \<Rightarrow> 'v option option"
  cmdMGet :: "time \<Rightarrow> string list \<Rightarrow> 'r \<Rightarrow> 'v option list option"
  cmdSMembers :: "time \<Rightarrow> string \<Rightarrow> 'r \<Rightarrow> string list option"
  cmdPipe :: "time \<Rightarrow> 'v command list \<Rightarrow> 'r \<Rightarrow> bool \<times> 'r"
  cmdEval :: "time \<Rightarrow> string \<Rightarrow> (string list \<Rightarrow> 'v command list \<times> int) \<Rightarrow> 'r \<Rightarrow> int option \<times> 'r"

section \<open>The Valkey store\<close>

definition valkey_Get ::
    "'x family \<Rightarrow> ('r, 'x json) valkey \<Rightarrow> time \<Rightarrow> string \<Rightarrow> 'r \<Rightarrow> 'x option \<times> 'r" where
  "valkey_Get F C now token r = (case cmdGet C now (sessionKey F token) r of
     Some (Some (Encoded x)) \<Rightarrow>
       if expires F x < now
       then (None, snd (cmdPipe C now (DEL [sessionKey F token]
               # (if owner F x \<noteq> [] then [SREM (userIndexKey F (owner F x)) token] else [])) r))
       else (Some x, r)
   | _ \<Rightarrow> (None, r))"

definition valkey_SetSession ::
    "'x family \<Rightarrow> ('r, 'x json) valkey \<Rightarrow> time \<Rightarrow> 'x \<Rightarrow> 'r \<Rightarrow> bool \<times> 'r" where
  "valkey_SetSession F C now x r =
     (let ttl = expires F x - now
      in if ttl \<le> 0 then (False, r)
         else cmdPipe C now (SET (sessionKey F (sid F x)) (Encoded x) ttl
                # (if owner F x \<noteq> []
                   then [SADD (userIndexKey F (owner F x)) (sid F x),
                         EXPIRE (userIndexKey F (owner F x)) (48 * hour)]
                   else [])) r)"

definition valkey_Delete :: "'x family \<Rightarrow> ('r, 'x json) valkey \<Rightarrow> time \<Rightarrow> string \<Rightarrow> 'r \<Rightarrow> bool \<times> 'r" where
  "valkey_Delete F C now token r =
     (let user = (case cmdGet C now (sessionKey F token) r of Some (Some (Encoded x)) \<Rightarrow> owner F x | _ \<Rightarrow> [])
      in cmdPipe C now (DEL [sessionKey F token]
           # (if user \<noteq> [] then [SREM (userIndexKey F user) token] else [])) r)"

text \<open>The Lua script \<open>purgeSessionsLua\<close>, with the key of the index set and the prefix of the session keys.\<close>

definition purgeSessionsLua :: "string \<Rightarrow> (string \<Rightarrow> string) \<Rightarrow> string list \<Rightarrow> 'v command list \<times> int" where
  "purgeSessionsLua indexKey key tokens =
     (if tokens = [] then ([DEL [indexKey]], 0)
      else (map (\<lambda>token. DEL [key token]) tokens @ [DEL [indexKey]], int (length tokens)))"

definition valkey_Purge ::
    "'x family \<Rightarrow> ('r, 'x json) valkey \<Rightarrow> time \<Rightarrow> string \<Rightarrow> 'r \<Rightarrow> int option \<times> 'r" where
  "valkey_Purge F C now user r =
     cmdEval C now (userIndexKey F user) (purgeSessionsLua (userIndexKey F user) (sessionKey F)) r"

text \<open>One round of the loop in \<open>PruneStaleSessions\<close>: the stale tokens and the keys to delete.\<close>

definition prune_token ::
    "'x family \<Rightarrow> time \<Rightarrow> string \<times> 'x json option \<Rightarrow> string list \<times> string list \<Rightarrow> string list \<times> string list" where
  "prune_token F now tv acc = (case (tv, acc) of ((token, val), (stale, keys)) \<Rightarrow>
     (case val of
        None \<Rightarrow> (stale @ [token], keys)
      | Some Garbage \<Rightarrow> (stale @ [token], keys @ [sessionKey F token])
      | Some (Encoded x) \<Rightarrow>
          if expires F x < now then (stale @ [token], keys @ [sessionKey F token]) else (stale, keys)))"

definition valkey_Prune :: "'x family \<Rightarrow> ('r, 'x json) valkey \<Rightarrow> time \<Rightarrow> string \<Rightarrow> 'r \<Rightarrow> nat \<times> 'r" where
  "valkey_Prune F C now user r = (case cmdSMembers C now (userIndexKey F user) r of
     None \<Rightarrow> (0, r)
   | Some tokens \<Rightarrow>
       if tokens = [] then (0, r)
       else (case cmdMGet C now (map (sessionKey F) tokens) r of
           None \<Rightarrow> (0, r)
         | Some vals \<Rightarrow>
             let (stale, keys) = fold (prune_token F now) (zip tokens vals) ([], [])
             in if stale = [] then (0, r)
                else (length stale, snd (cmdPipe C now
                        (map (SREM (userIndexKey F user)) stale @ (if keys \<noteq> [] then [DEL keys] else [])) r))))"

definition valkeyCustomer_Create ::
    "('r, CustomerSession json) valkey \<Rightarrow> string option \<Rightarrow> time \<Rightarrow> string \<Rightarrow> string \<Rightarrow> string \<Rightarrow> 'r
      \<Rightarrow> CustomerSession option \<times> 'r" where
  "valkeyCustomer_Create C rnd now customerID name email r = (case rnd of
     None \<Rightarrow> (None, r)
   | Some b \<Rightarrow>
       let x = new_customer_session b now customerID name email
       in case valkey_SetSession customer C now x r of (ok, r') \<Rightarrow> (if ok then Some x else None, r'))"

definition valkeyEmployee_Create ::
    "('r, EmployeeSession json) valkey \<Rightarrow> string option \<Rightarrow> time \<Rightarrow> string \<Rightarrow> string \<Rightarrow> string \<Rightarrow> string \<Rightarrow> string \<Rightarrow> 'r
      \<Rightarrow> EmployeeSession option \<times> 'r" where
  "valkeyEmployee_Create C rnd now employeeID email name role department r = (case rnd of
     None \<Rightarrow> (None, r)
   | Some b \<Rightarrow>
       let x = new_employee_session b now employeeID email name role department
       in case valkey_SetSession employee C now x r of (ok, r') \<Rightarrow> (if ok then Some x else None, r'))"

type_synonym 'r customer_client = "('r, CustomerSession json) valkey"
type_synonym 'r employee_client = "('r, EmployeeSession json) valkey"

definition valkeyCustomer_Get :: "'r customer_client \<Rightarrow> time \<Rightarrow> string \<Rightarrow> 'r \<Rightarrow> CustomerSession option \<times> 'r" where
  "valkeyCustomer_Get = valkey_Get customer"

definition valkeyCustomer_SetSession :: "'r customer_client \<Rightarrow> time \<Rightarrow> CustomerSession \<Rightarrow> 'r \<Rightarrow> bool \<times> 'r" where
  "valkeyCustomer_SetSession = valkey_SetSession customer"

definition valkeyCustomer_Delete :: "'r customer_client \<Rightarrow> time \<Rightarrow> string \<Rightarrow> 'r \<Rightarrow> bool \<times> 'r" where
  "valkeyCustomer_Delete = valkey_Delete customer"

definition valkey_PurgeCustomerSessions :: "'r customer_client \<Rightarrow> time \<Rightarrow> string \<Rightarrow> 'r \<Rightarrow> int option \<times> 'r" where
  "valkey_PurgeCustomerSessions = valkey_Purge customer"

definition valkeyCustomer_PruneStaleSessions :: "'r customer_client \<Rightarrow> time \<Rightarrow> string \<Rightarrow> 'r \<Rightarrow> nat \<times> 'r" where
  "valkeyCustomer_PruneStaleSessions = valkey_Prune customer"

definition valkeyEmployee_Get :: "'r employee_client \<Rightarrow> time \<Rightarrow> string \<Rightarrow> 'r \<Rightarrow> EmployeeSession option \<times> 'r" where
  "valkeyEmployee_Get = valkey_Get employee"

definition valkeyEmployee_SetSession :: "'r employee_client \<Rightarrow> time \<Rightarrow> EmployeeSession \<Rightarrow> 'r \<Rightarrow> bool \<times> 'r" where
  "valkeyEmployee_SetSession = valkey_SetSession employee"

definition valkeyEmployee_Delete :: "'r employee_client \<Rightarrow> time \<Rightarrow> string \<Rightarrow> 'r \<Rightarrow> bool \<times> 'r" where
  "valkeyEmployee_Delete = valkey_Delete employee"

definition valkey_PurgeEmployeeSessions :: "'r employee_client \<Rightarrow> time \<Rightarrow> string \<Rightarrow> 'r \<Rightarrow> int option \<times> 'r" where
  "valkey_PurgeEmployeeSessions = valkey_Purge employee"

definition valkeyEmployee_PruneStaleSessions :: "'r employee_client \<Rightarrow> time \<Rightarrow> string \<Rightarrow> 'r \<Rightarrow> nat \<times> 'r" where
  "valkeyEmployee_PruneStaleSessions = valkey_Prune employee"

lemmas valkey_instances = valkeyCustomer_Get_def valkeyCustomer_SetSession_def valkeyCustomer_Delete_def
  valkey_PurgeCustomerSessions_def valkeyCustomer_PruneStaleSessions_def valkeyEmployee_Get_def
  valkeyEmployee_SetSession_def valkeyEmployee_Delete_def valkey_PurgeEmployeeSessions_def
  valkeyEmployee_PruneStaleSessions_def

text \<open>\<open>NewCustomerSessionStore\<close> and \<open>NewEmployeeSessionStore\<close>: the store chosen from the address and the ping.\<close>

datatype backend = InMemory | InValkey

definition choose_backend :: "string \<Rightarrow> bool \<Rightarrow> backend" where
  "choose_backend addr ping_ok = (if addr = [] then InMemory else if \<not> ping_ok then InMemory else InValkey)"

definition tokenFingerprint :: "string \<Rightarrow> string" where
  "tokenFingerprint token = (if length token \<le> 8 then ''...'' else take 8 token @ ''...'')"

section \<open>The server's documented behaviour\<close>

text \<open>
  The abstract database: values with the time at which they expire, and sets with
  an optional expiry. Expiry times have millisecond resolution. A pipeline that
  reports an error may have executed any part of its commands in order; a script
  is atomic, and one that reports an error has run completely or not at all.
\<close>

record 'v db =
  vals :: "string \<Rightarrow> ('v \<times> time) option"
  sets :: "string \<Rightarrow> (string set \<times> time option) option"

definition grain :: "duration \<Rightarrow> duration" where
  "grain d = (if d < 1000000 then 1000000 else d - d mod 1000000)"

definition lookup :: "time \<Rightarrow> 'v db \<Rightarrow> string \<Rightarrow> 'v option" where
  "lookup now d k = (case vals d k of None \<Rightarrow> None | Some (v, e) \<Rightarrow> if now < e then Some v else None)"

definition set_live :: "time \<Rightarrow> time option \<Rightarrow> bool" where
  "set_live now e = (case e of None \<Rightarrow> True | Some e \<Rightarrow> now < e)"

definition members :: "time \<Rightarrow> 'v db \<Rightarrow> string \<Rightarrow> string set" where
  "members now d k = (case sets d k of None \<Rightarrow> {} | Some (S, e) \<Rightarrow> if set_live now e then S else {})"

fun apply_cmd :: "time \<Rightarrow> 'v command \<Rightarrow> 'v db \<Rightarrow> 'v db" where
  "apply_cmd now (SET k v ttl) d =
     d\<lparr>vals := (vals d)(k \<mapsto> (v, now + grain ttl)), sets := (sets d)(k := None)\<rparr>"
| "apply_cmd now (DEL ks) d =
     d\<lparr>vals := (\<lambda>k. if k \<in> set ks then None else vals d k), sets := (\<lambda>k. if k \<in> set ks then None else sets d k)\<rparr>"
| "apply_cmd now (SADD k m) d =
     d\<lparr>sets := (sets d)(k \<mapsto> (insert m (members now d k),
        case sets d k of None \<Rightarrow> None | Some (S, e) \<Rightarrow> if set_live now e then e else None))\<rparr>"
| "apply_cmd now (SREM k m) d =
     d\<lparr>sets := (case sets d k of None \<Rightarrow> sets d | Some (S, e) \<Rightarrow> (sets d)(k := if S \<subseteq> {m} then None else Some (S - {m}, e)))\<rparr>"
| "apply_cmd now (EXPIRE k t) d =
     d\<lparr>sets := (case sets d k of None \<Rightarrow> sets d
        | Some (S, e) \<Rightarrow> if set_live now e then (sets d)(k \<mapsto> (S, Some (now + t))) else sets d)\<rparr>"

abbreviation apply_cmds :: "time \<Rightarrow> 'v command list \<Rightarrow> 'v db \<Rightarrow> 'v db" where
  "apply_cmds now cs d \<equiv> fold (apply_cmd now) cs d"

locale valkey_server =
  fixes C :: "('r, 'v) valkey" and db :: "'r \<Rightarrow> 'v db"
  assumes get_reply: "cmdGet C now k r = Some v \<Longrightarrow> v = lookup now (db r) k"
    and mget_reply: "cmdMGet C now ks r = Some vs \<Longrightarrow> vs = map (lookup now (db r)) ks"
    and smembers_reply: "cmdSMembers C now k r = Some ts \<Longrightarrow> distinct ts \<and> set ts = members now (db r) k"
    and pipe_ok: "cmdPipe C now cs r = (True, r') \<Longrightarrow> db r' = apply_cmds now cs (db r)"
    and pipe_failed: "cmdPipe C now cs r = (False, r') \<Longrightarrow>
      \<exists>cs'. subseq cs' cs \<and> db r' = apply_cmds now cs' (db r)"
    and eval_ok: "cmdEval C now k f r = (Some n, r') \<Longrightarrow> \<exists>ts. distinct ts \<and> set ts = members now (db r) k
      \<and> n = snd (f ts) \<and> db r' = apply_cmds now (fst (f ts)) (db r)"
    and eval_failed: "cmdEval C now k f r = (None, r') \<Longrightarrow> db r' = db r \<or>
      (\<exists>ts. distinct ts \<and> set ts = members now (db r) k \<and> db r' = apply_cmds now (fst (f ts)) (db r))"
begin

lemma pipe_any: "\<exists>cs'. subseq cs' cs \<and> db (snd (cmdPipe C now cs r)) = apply_cmds now cs' (db r)"
proof (cases "cmdPipe C now cs r")
  case (Pair ok r')
  then show ?thesis by (cases ok) (auto dest: pipe_ok pipe_failed)
qed

end

section \<open>The contract of a session store\<close>

text \<open>
  \<open>visible s now t\<close> is the session a lookup of token \<open>t\<close> would find at time \<open>now\<close>.
  \<open>storable\<close> says which sessions may be stored: those that the owner's index
  outlives, with a token that no other owner's index mentions. Laws about later
  states hold from the time of the operation on.
\<close>

datatype 'x session_op = OpGet string | OpPut 'x | OpDelete string | OpPurge string

record ('s, 'x) store_ops =
  opGet :: "time \<Rightarrow> string \<Rightarrow> 's \<Rightarrow> 'x option \<times> 's"
  opPut :: "time \<Rightarrow> 'x \<Rightarrow> 's \<Rightarrow> bool \<times> 's"
  opDelete :: "time \<Rightarrow> string \<Rightarrow> 's \<Rightarrow> bool \<times> 's"
  opPurge :: "time \<Rightarrow> string \<Rightarrow> 's \<Rightarrow> bool \<times> 's"

fun do_op :: "('s, 'x) store_ops \<Rightarrow> time \<Rightarrow> 'x session_op \<Rightarrow> 's \<Rightarrow> bool \<times> 's" where
  "do_op O' now (OpGet t) s = (True, snd (opGet O' now t s))"
| "do_op O' now (OpPut x) s = opPut O' now x s"
| "do_op O' now (OpDelete t) s = opDelete O' now t s"
| "do_op O' now (OpPurge u) s = opPurge O' now u s"

fun run_ops :: "('s, 'x) store_ops \<Rightarrow> (time \<times> 'x session_op) list \<Rightarrow> 's \<Rightarrow> 's" where
  "run_ops O' [] s = s"
| "run_ops O' ((now, op) # ops) s = run_ops O' ops (snd (do_op O' now op s))"

text \<open>
  A run without a new session for \<open>u\<close>: times do not go back, every operation is
  reported successful, what is stored is storable and does not belong to \<open>u\<close>.
\<close>

fun quiet :: "('s, 'x) store_ops \<Rightarrow> (time \<Rightarrow> 'x \<Rightarrow> 's \<Rightarrow> bool) \<Rightarrow> 'x family \<Rightarrow> string \<Rightarrow> time
    \<Rightarrow> (time \<times> 'x session_op) list \<Rightarrow> 's \<Rightarrow> bool" where
  "quiet O' storable F u now [] s = True"
| "quiet O' storable F u now ((now', op) # ops) s \<longleftrightarrow> now \<le> now' \<and> fst (do_op O' now' op s)
     \<and> (case op of OpPut x \<Rightarrow> storable now' x s \<and> owner F x \<noteq> u | OpPurge v \<Rightarrow> v \<noteq> [] | _ \<Rightarrow> True)
     \<and> quiet O' storable F u now' ops (snd (do_op O' now' op s))"

fun last_time :: "time \<Rightarrow> (time \<times> 'a) list \<Rightarrow> time" where
  "last_time now [] = now"
| "last_time now ((now', _) # ops) = last_time now' ops"

locale session_store =
  fixes get :: "time \<Rightarrow> string \<Rightarrow> 's \<Rightarrow> 'x option \<times> 's"
    and put :: "time \<Rightarrow> 'x \<Rightarrow> 's \<Rightarrow> bool \<times> 's"
    and del :: "time \<Rightarrow> string \<Rightarrow> 's \<Rightarrow> bool \<times> 's"
    and purge :: "time \<Rightarrow> string \<Rightarrow> 's \<Rightarrow> bool \<times> 's"
    and visible :: "'s \<Rightarrow> time \<Rightarrow> string \<Rightarrow> 'x option"
    and inv :: "time \<Rightarrow> 's \<Rightarrow> bool"
    and storable :: "time \<Rightarrow> 'x \<Rightarrow> 's \<Rightarrow> bool"
    and F :: "'x family"
  assumes inv_later: "inv now s \<Longrightarrow> now \<le> now' \<Longrightarrow> inv now' s"
    and visible_live: "inv now s \<Longrightarrow> visible s now t = Some x \<Longrightarrow> sid F x = t \<and> now \<le> expires F x"
    and visible_earlier: "visible s now' t = Some x \<Longrightarrow> now \<le> now' \<Longrightarrow> visible s now t = Some x"
    and get_sound: "inv now s \<Longrightarrow> get now t s = (Some x, s') \<Longrightarrow> visible s now t = Some x"
    and get_frame: "inv now s \<Longrightarrow> get now t s = (res, s') \<Longrightarrow>
      inv now s' \<and> (\<forall>now' \<ge> now. visible s' now' = visible s now')"
    and put_stored: "inv now s \<Longrightarrow> storable now x s \<Longrightarrow> put now x s = (True, s') \<Longrightarrow>
      inv now s' \<and> (\<forall>now' \<ge> now. \<forall>t. t \<noteq> sid F x \<longrightarrow> visible s' now' t = visible s now' t)
      \<and> (\<forall>now' \<ge> now. now' + 1000000 \<le> expires F x \<longrightarrow> visible s' now' (sid F x) = Some x)
      \<and> (\<forall>now' \<ge> now. \<forall>y. visible s' now' (sid F x) = Some y \<longrightarrow> y = x)"
    and del_removes: "inv now s \<Longrightarrow> del now t s = (True, s') \<Longrightarrow>
      inv now s' \<and> (\<forall>now' \<ge> now. visible s' now' = (visible s now')(t := None))"
    and purge_removes: "inv now s \<Longrightarrow> u \<noteq> [] \<Longrightarrow> purge now u s = (True, s') \<Longrightarrow>
      inv now s' \<and> (\<forall>now' \<ge> now. \<forall>t x. visible s' now' t = Some x \<longleftrightarrow> visible s now' t = Some x \<and> owner F x \<noteq> u)"
begin

text \<open>A revoked owner has no session that a lookup could find, now or later.\<close>

definition revoked :: "string \<Rightarrow> time \<Rightarrow> 's \<Rightarrow> bool" where
  "revoked u now s \<longleftrightarrow> (\<forall>now' \<ge> now. \<forall>t x. visible s now' t = Some x \<longrightarrow> owner F x \<noteq> u)"

lemma purge_revokes: "inv now s \<Longrightarrow> u \<noteq> [] \<Longrightarrow> purge now u s = (True, s') \<Longrightarrow> revoked u now s'"
  using purge_removes unfolding revoked_def by blast

lemma revoked_later: "revoked u now s \<Longrightarrow> now \<le> now' \<Longrightarrow> revoked u now' s"
  unfolding revoked_def using order_trans by blast

lemma revoked_get: "inv now s \<Longrightarrow> revoked u now s \<Longrightarrow> get now t s = (res, s') \<Longrightarrow> revoked u now s'"
  using get_frame unfolding revoked_def by metis

lemma revoked_no_login: "inv now s \<Longrightarrow> revoked u now s \<Longrightarrow> get now t s = (Some x, s') \<Longrightarrow> owner F x \<noteq> u"
  using get_sound unfolding revoked_def by blast

lemma revoked_put:
  assumes "inv now s" and "revoked u now s" and "storable now x s" and "put now x s = (True, s')" and "owner F x \<noteq> u"
  shows "revoked u now s'"
  unfolding revoked_def
proof (intro allI impI)
  fix now' t y assume "now \<le> now'" "visible s' now' t = Some y"
  with put_stored [OF assms(1,3,4)] assms(2,5) show "owner F y \<noteq> u"
    unfolding revoked_def by (cases "t = sid F x") auto
qed

lemma revoked_del: "inv now s \<Longrightarrow> revoked u now s \<Longrightarrow> del now t s = (True, s') \<Longrightarrow> revoked u now s'"
  using del_removes unfolding revoked_def by (metis fun_upd_apply option.distinct(1))

lemma put_get:
  assumes "inv now s" and "storable now x s" and "put now x s = (True, s')" and "now \<le> now'"
    and "get now' (sid F x) s' = (Some y, s'')"
  shows "y = x"
  using put_stored [OF assms(1-3)] assms(4,5) get_sound inv_later by blast

lemma revoked_purge: "inv now s \<Longrightarrow> revoked u now s \<Longrightarrow> v \<noteq> [] \<Longrightarrow> purge now v s = (True, s') \<Longrightarrow> revoked u now s'"
  using purge_removes unfolding revoked_def by blast

lemma revoked_run:
  assumes "inv now s" and "revoked u now s"
    and "quiet \<lparr>opGet = get, opPut = put, opDelete = del, opPurge = purge\<rparr> storable F u now ops s"
  shows "inv (last_time now ops) (run_ops \<lparr>opGet = get, opPut = put, opDelete = del, opPurge = purge\<rparr> ops s)
    \<and> revoked u (last_time now ops) (run_ops \<lparr>opGet = get, opPut = put, opDelete = del, opPurge = purge\<rparr> ops s)"
  using assms
proof (induction ops arbitrary: now s)
  case (Cons o1 ops)
  let ?O = "\<lparr>opGet = get, opPut = put, opDelete = del, opPurge = purge\<rparr>"
  obtain now' op where o1: "o1 = (now', op)" by (cases o1)
  obtain ok s' where s': "do_op ?O now' op s = (ok, s')" by (cases "do_op ?O now' op s")
  have q: "now \<le> now'" ok "quiet ?O storable F u now' ops s'"
    using Cons.prems(3) by (simp_all add: o1 s')
  have i: "inv now' s" "revoked u now' s"
    using Cons.prems(1,2) q(1) by (auto intro: inv_later revoked_later)
  have "inv now' s' \<and> revoked u now' s'"
  proof (cases op)
    case (OpGet t)
    obtain res where "get now' t s = (res, s')" using s' OpGet by (cases "get now' t s") auto
    with i show ?thesis using get_frame revoked_get by blast
  next
    case (OpPut x)
    with s' q(2) Cons.prems(3) i show ?thesis
      using put_stored revoked_put by (auto simp: o1)
  next
    case (OpDelete t)
    with s' q(2) i show ?thesis using del_removes revoked_del by auto
  next
    case (OpPurge v)
    with s' q(2) Cons.prems(3) i show ?thesis using purge_removes revoked_purge by (auto simp: o1)
  qed
  with Cons.IH [of now' s'] q(3) show ?case by (simp add: o1 s')
qed simp

end

section \<open>The in-memory store keeps the contract\<close>

definition memory_inv :: "'x family \<Rightarrow> time \<Rightarrow> 'x memory \<Rightarrow> bool" where
  "memory_inv F now s \<longleftrightarrow> (\<forall>t x. s t = Some x \<longrightarrow> sid F x = t)"

lemma drop_where_Some: "drop_where P s t = Some x \<longleftrightarrow> s t = Some x \<and> \<not> P x"
  by (auto simp: drop_where_def split: option.splits)

lemma memory_Get_Some: "memory_Get F now t s = Some x \<longleftrightarrow> s t = Some x \<and> now \<le> expires F x"
  by (auto simp: memory_Get_def split: option.splits)

interpretation memory: session_store
  "\<lambda>now t s. (memory_Get F now t s, s)" "\<lambda>now x s. (True, memory_SetSession F x s)"
  "\<lambda>now t s. (True, memory_Delete t s)" "\<lambda>now u s. (True, snd (memory_Purge F ord u s))"
  "\<lambda>s now t. memory_Get F now t s" "memory_inv F" "\<lambda>now x s. True" F
  for F :: "'x family" and ord
proof (unfold_locales, goal_cases)
  case (1 now s now')
  then show ?case by (simp add: memory_inv_def)
next
  case (2 now s t x)
  then show ?case by (simp add: memory_inv_def memory_Get_Some)
next
  case (3 s now' t x now)
  then show ?case by (simp add: memory_Get_Some)
next
  case (4 now s t x s')
  then show ?case by auto
next
  case (5 now s t res s')
  then show ?case by simp
next
  case (6 now s x s')
  then have s': "s' = s(sid F x \<mapsto> x)" by (simp add: memory_SetSession_def)
  from 6(1) show ?case by (auto simp: s' memory_inv_def memory_Get_def)
next
  case (7 now s t s')
  then have s': "s' = s(t := None)" by (simp add: memory_Delete_def)
  from 7(1) show ?case by (auto simp: s' memory_inv_def memory_Get_def)
next
  case (8 now s u s')
  then have s': "s' = drop_where (\<lambda>x. owner F x = u) s" by (simp add: memory_Purge_def)
  from 8(1) show ?case by (auto simp: s' memory_inv_def memory_Get_Some drop_where_Some)
qed

section \<open>The Valkey store keeps the contract\<close>

definition db_visible :: "'x family \<Rightarrow> 'x json db \<Rightarrow> time \<Rightarrow> string \<Rightarrow> 'x option" where
  "db_visible F d now t = (case lookup now d (sessionKey F t) of
     Some (Encoded x) \<Rightarrow> if expires F x < now then None else Some x
   | _ \<Rightarrow> None)"

definition indexed :: "'x family \<Rightarrow> time \<Rightarrow> 'x json db \<Rightarrow> string \<Rightarrow> string set" where
  "indexed F now d u = members now d (userIndexKey F u)"

definition family_ok :: "'x family \<Rightarrow> bool" where
  "family_ok F \<longleftrightarrow> inj (sessionKey F) \<and> inj (userIndexKey F) \<and> (\<forall>t u. sessionKey F t \<noteq> userIndexKey F u)"

definition db_inv :: "'x family \<Rightarrow> time \<Rightarrow> 'x json db \<Rightarrow> bool" where
  "db_inv F now d \<longleftrightarrow> (\<forall>t x. db_visible F d now t = Some x \<longrightarrow> sid F x = t
     \<and> (\<forall>u. t \<in> indexed F now d u \<longrightarrow> u = owner F x)
     \<and> (owner F x \<noteq> [] \<longrightarrow> (\<forall>now' \<ge> now. db_visible F d now' t = Some x \<longrightarrow> t \<in> indexed F now' d (owner F x)))
     \<and> (\<forall>v e. vals d (sessionKey F t) = Some (v, e) \<longrightarrow> e \<le> now + 48 * hour))"

definition db_storable :: "'x family \<Rightarrow> time \<Rightarrow> 'x \<Rightarrow> 'x json db \<Rightarrow> bool" where
  "db_storable F now x d \<longleftrightarrow> expires F x \<le> now + 48 * hour \<and> (\<forall>u. sid F x \<in> indexed F now d u \<longrightarrow> u = owner F x)"

lemma family_ok_customer: "family_ok customer"
  by (auto simp: family_ok_def customer_def customerSessionKey_def customerUserIndexKey_def inj_def)

lemma family_ok_employee: "family_ok employee"
  by (auto simp: family_ok_def employee_def employeeSessionKey_def employeeUserIndexKey_def inj_def)

lemma key_eq:
  assumes "family_ok F"
  shows "sessionKey F t = sessionKey F t' \<longleftrightarrow> t = t'" and "userIndexKey F u = userIndexKey F u' \<longleftrightarrow> u = u'"
    and "sessionKey F t \<noteq> userIndexKey F u" and "userIndexKey F u \<noteq> sessionKey F t"
  using assms by (auto simp: family_ok_def inj_eq dest: not_sym)

lemma db_visible_Some:
  "db_visible F d now t = Some x \<longleftrightarrow>
     (\<exists>e. vals d (sessionKey F t) = Some (Encoded x, e) \<and> now < e) \<and> now \<le> expires F x"
  by (auto simp: db_visible_def lookup_def split: option.splits json.splits if_splits)

lemma db_visible_vals: "vals d' (sessionKey F t) = vals d (sessionKey F t) \<Longrightarrow> db_visible F d' now t = db_visible F d now t"
  by (simp add: db_visible_def lookup_def)

lemma db_visible_earlier: "db_visible F d now' t = Some x \<Longrightarrow> now \<le> now' \<Longrightarrow> db_visible F d now t = Some x"
  by (auto simp: db_visible_Some)

lemma members_later: "now \<le> now' \<Longrightarrow> members now' d k \<subseteq> members now d k"
  by (auto simp: members_def set_live_def split: option.splits prod.splits if_splits)

lemma indexed_later: "now \<le> now' \<Longrightarrow> indexed F now' d u \<subseteq> indexed F now d u"
  unfolding indexed_def by (rule members_later)

lemma db_inv_later: "db_inv F now d \<Longrightarrow> now \<le> now' \<Longrightarrow> db_inv F now' d"
  unfolding db_inv_def
  by (smt (verit) db_visible_earlier indexed_later order_trans subsetD)

text \<open>
  Removing tokens \<open>T\<close>: commands that delete session keys of \<open>T\<close> or take members of
  \<open>T\<close> out of indexes, in any number and order.
\<close>

definition removal :: "'x family \<Rightarrow> string set \<Rightarrow> 'x json command \<Rightarrow> bool" where
  "removal F T c \<longleftrightarrow> (\<exists>ts. c = DEL (map (sessionKey F) ts) \<and> set ts \<subseteq> T)
     \<or> (\<exists>u t. c = SREM (userIndexKey F u) t \<and> t \<in> T)"

definition shrinks :: "'x family \<Rightarrow> string set \<Rightarrow> 'x json db \<Rightarrow> 'x json db \<Rightarrow> bool" where
  "shrinks F T d d' \<longleftrightarrow> (\<forall>t. vals d' (sessionKey F t) = vals d (sessionKey F t) \<or> t \<in> T \<and> vals d' (sessionKey F t) = None)
     \<and> (\<forall>now u. indexed F now d u - T \<subseteq> indexed F now d' u \<and> indexed F now d' u \<subseteq> indexed F now d u)"

lemma shrinks_refl: "shrinks F T d d"
  by (simp add: shrinks_def)

lemma shrinks_trans: "shrinks F T d1 d2 \<Longrightarrow> shrinks F T d2 d3 \<Longrightarrow> shrinks F T d1 d3"
  unfolding shrinks_def by (smt (verit, ccfv_SIG) Diff_iff in_mono subsetI)

lemma removal_shrinks:
  assumes F: "family_ok F" and "removal F T c"
  shows "shrinks F T d (apply_cmd now c d)"
  using assms(2) unfolding removal_def
proof (elim disjE exE conjE)
  fix ts assume "c = DEL (map (sessionKey F) ts)" "set ts \<subseteq> T"
  then show ?thesis
    using key_eq [OF F] by (auto simp: shrinks_def indexed_def members_def)
next
  fix u t assume "c = SREM (userIndexKey F u) t" "t \<in> T"
  then show ?thesis
    using key_eq [OF F] by (auto simp: shrinks_def indexed_def members_def split: option.splits prod.splits if_splits)
qed

lemma removals_shrink:
  assumes "family_ok F" and "\<forall>c \<in> set cs. removal F T c"
  shows "shrinks F T d (apply_cmds now cs d)"
  using assms(2)
proof (induction cs arbitrary: d)
  case (Cons c cs)
  then show ?case using removal_shrinks [OF assms(1)] shrinks_trans by (metis fold_simps(2) list.set_intros)
qed (simp add: shrinks_refl)

lemma shrinks_visible:
  assumes "shrinks F T d d'" and "\<forall>t \<in> T. \<forall>x. db_visible F d' now t \<noteq> Some x" and "now \<le> now'"
  shows "db_visible F d' now' t = (if t \<in> T then None else db_visible F d now' t)"
proof (cases "t \<in> T")
  case True
  with assms(2,3) show ?thesis using db_visible_earlier [of F d' now' t _ now] by (metis not_None_eq)
next
  case False
  with assms(1) show ?thesis using db_visible_vals [of d' F t d] by (auto simp: shrinks_def)
qed

lemma shrinks_inv:
  assumes inv: "db_inv F now d" and sh: "shrinks F T d d'" and none: "\<forall>t \<in> T. \<forall>x. db_visible F d' now t \<noteq> Some x"
  shows "db_inv F now d'"
  unfolding db_inv_def
proof (intro allI impI)
  fix t x assume v: "db_visible F d' now t = Some x"
  have t: "t \<notin> T" using none v by auto
  note vis = shrinks_visible [OF sh none, of _ t]
  have "vals d' (sessionKey F t) = vals d (sessionKey F t)" using sh t by (auto simp: shrinks_def)
  moreover have "indexed F now' d u - T \<subseteq> indexed F now' d' u" "indexed F now' d' u \<subseteq> indexed F now' d u" for now' u
    using sh by (auto simp: shrinks_def)
  moreover have "db_visible F d now t = Some x" using v t vis by simp
  ultimately show "sid F x = t \<and> (\<forall>u. t \<in> indexed F now d' u \<longrightarrow> u = owner F x)
     \<and> (owner F x \<noteq> [] \<longrightarrow> (\<forall>now' \<ge> now. db_visible F d' now' t = Some x \<longrightarrow> t \<in> indexed F now' d' (owner F x)))
     \<and> (\<forall>v e. vals d' (sessionKey F t) = Some (v, e) \<longrightarrow> e \<le> now + 48 * hour)"
    using inv t vis unfolding db_inv_def by (smt (verit) DiffI subsetD)
qed

lemma subseq_set: "subseq cs' cs \<Longrightarrow> set cs' \<subseteq> set cs"
  by (induction rule: list_emb.induct) auto

lemma removal_intros:
  "t \<in> T \<Longrightarrow> removal F T (DEL [sessionKey F t])" "t \<in> T \<Longrightarrow> removal F T (SREM (userIndexKey F u) t)"
  "set ts \<subseteq> T \<Longrightarrow> removal F T (DEL (map (sessionKey F) ts))"
  unfolding removal_def by (metis list.simps(8,9) empty_set empty_subsetI insert_subset list.set(2)) auto

lemma members_set:
  "sets d' k = sets d k \<Longrightarrow> members now d' k = members now d k"
  by (simp add: members_def)

text \<open>Storing a session: the value, its entry in the owner's index, and the index's new expiry.\<close>

definition store_cmds :: "'x family \<Rightarrow> time \<Rightarrow> 'x \<Rightarrow> 'x json command list" where
  "store_cmds F now x = SET (sessionKey F (sid F x)) (Encoded x) (expires F x - now)
     # (if owner F x \<noteq> [] then [SADD (userIndexKey F (owner F x)) (sid F x),
          EXPIRE (userIndexKey F (owner F x)) (48 * hour)] else [])"

lemma store_vals:
  "vals (apply_cmds now (store_cmds F now x) d)
     = (vals d)(sessionKey F (sid F x) \<mapsto> (Encoded x, now + grain (expires F x - now)))"
  by (simp add: store_cmds_def split: option.split)

lemma store_indexed:
  assumes F: "family_ok F" and "now \<le> now'"
  shows "indexed F now' (apply_cmds now (store_cmds F now x) d) u
    = (if u = owner F x \<and> u \<noteq> [] then if now' < now + 48 * hour then insert (sid F x) (indexed F now d u) else {}
       else indexed F now' d u)"
  using assms(2) key_eq [OF F]
  by (auto simp: store_cmds_def indexed_def members_def set_live_def split: option.splits prod.splits if_splits)

lemma grain_bounds:
  assumes "0 < d"
  shows "0 < grain d" and "d - 1000000 < grain d" and "grain d \<le> max d 1000000"
proof -
  have "0 \<le> d mod 1000000" "d mod 1000000 < 1000000" by simp_all
  moreover have "d mod 1000000 < d \<or> d < 1000000" using calculation by linarith
  ultimately show "0 < grain d" "d - 1000000 < grain d" "grain d \<le> max d 1000000"
    using assms unfolding grain_def by auto
qed

lemma store_visible:
  fixes F :: "'x family" and now :: time and x :: 'x and d :: "'x json db"
  assumes F: "family_ok F"
  defines "d' \<equiv> apply_cmds now (store_cmds F now x) d"
  shows "t \<noteq> sid F x \<Longrightarrow> db_visible F d' now' t = db_visible F d now' t"
    and "db_visible F d' now' (sid F x) = Some y \<longleftrightarrow> y = x \<and> now' < now + grain (expires F x - now) \<and> now' \<le> expires F x"
proof -
  show "t \<noteq> sid F x \<Longrightarrow> db_visible F d' now' t = db_visible F d now' t"
    unfolding d'_def by (rule db_visible_vals) (simp add: store_vals key_eq [OF F])
  show "db_visible F d' now' (sid F x) = Some y \<longleftrightarrow> y = x \<and> now' < now + grain (expires F x - now) \<and> now' \<le> expires F x"
    unfolding db_visible_Some d'_def store_vals by auto
qed

lemma store_inv:
  assumes F: "family_ok F" and inv: "db_inv F now d" and st: "db_storable F now x d" and pos: "now < expires F x"
  defines "d' \<equiv> apply_cmds now (store_cmds F now x) d"
  shows "db_inv F now d'"
  unfolding db_inv_def
proof (intro allI impI)
  fix t y assume v: "db_visible F d' now t = Some y"
  have idx: "indexed F now' d' u = (if u = owner F x \<and> u \<noteq> [] then
      if now' < now + 48 * hour then insert (sid F x) (indexed F now d u) else {} else indexed F now' d u)"
    if "now \<le> now'" for now' u using store_indexed [OF F that, of x d u] by (simp add: d'_def)
  have g: "grain (expires F x - now) \<le> 48 * hour"
    using grain_bounds(3) [of "expires F x - now"] pos st by (auto simp: db_storable_def max_def split: if_splits)
  show "sid F y = t \<and> (\<forall>u. t \<in> indexed F now d' u \<longrightarrow> u = owner F y)
     \<and> (owner F y \<noteq> [] \<longrightarrow> (\<forall>now' \<ge> now. db_visible F d' now' t = Some y \<longrightarrow> t \<in> indexed F now' d' (owner F y)))
     \<and> (\<forall>v e. vals d' (sessionKey F t) = Some (v, e) \<longrightarrow> e \<le> now + 48 * hour)"
  proof (cases "t = sid F x")
    case True
    with v have y: "y = x" using store_visible(2) [OF F, of now x d now y] by (simp add: d'_def)
    have "now' < now + 48 * hour" if "db_visible F d' now' t = Some x" for now'
      using that True g store_visible(2) [OF F, of now x d now' x] by (simp add: d'_def)
    with y True st idx g show ?thesis
      by (auto simp: db_storable_def d'_def store_vals split: if_splits)
  next
    case False
    then have same: "db_visible F d' now' t = db_visible F d now' t" for now'
      using store_visible(1) [OF F] by (simp add: d'_def)
    with v have vd: "db_visible F d now t = Some y" by simp
    have bound: "vals d' (sessionKey F t) = vals d (sessionKey F t)"
      using False by (simp add: d'_def store_vals key_eq [OF F])
    have i: "sid F y = t" "\<forall>u. t \<in> indexed F now d u \<longrightarrow> u = owner F y"
        "owner F y \<noteq> [] \<longrightarrow> (\<forall>now' \<ge> now. db_visible F d now' t = Some y \<longrightarrow> t \<in> indexed F now' d (owner F y))"
        "\<forall>v e. vals d (sessionKey F t) = Some (v, e) \<longrightarrow> e \<le> now + 48 * hour"
      using inv vd unfolding db_inv_def by blast+
    have "now' < now + 48 * hour" if "db_visible F d now' t = Some y" for now'
      using that i(4) unfolding db_visible_Some by fastforce
    then have "t \<in> indexed F now' d' (owner F y)"
      if "owner F y \<noteq> []" "now \<le> now'" "db_visible F d now' t = Some y" for now'
      using that i(3) vd idx [OF that(2)] by auto
    moreover have "u = owner F y" if "t \<in> indexed F now d' u" for u
      using that i(2) False idx [of now u] by (auto split: if_splits)
    ultimately show ?thesis using i(1,4) bound same by auto
  qed
qed

text \<open>The stale tokens are invisible ones, and the keys to delete are theirs.\<close>

lemma prune_loop:
  assumes "acc' = fold (prune_token F now) (zip ts (map (\<lambda>t. lookup now d (sessionKey F t)) ts)) acc"
  shows "\<exists>T. snd acc' = snd acc @ map (sessionKey F) T \<and> set T \<subseteq> set (fst acc')
    \<and> (\<forall>t \<in> set (fst acc'). t \<in> set (fst acc) \<or> db_visible F d now t = None) \<and> set (fst acc) \<subseteq> set (fst acc')"
  using assms
proof (induction ts arbitrary: acc)
  case Nil
  then show ?case by (auto intro: exI [of _ "[]"])
next
  case (Cons t ts)
  let ?acc1 = "prune_token F now (t, lookup now d (sessionKey F t)) acc"
  obtain st ks where acc: "acc = (st, ks)" by (cases acc)
  have step: "?acc1 = acc \<or> fst ?acc1 = st @ [t] \<and> db_visible F d now t = None
      \<and> (snd ?acc1 = ks \<or> snd ?acc1 = ks @ [sessionKey F t])"
    by (auto simp: prune_token_def acc db_visible_def split: option.splits json.splits)
  from Cons.prems have "acc' = fold (prune_token F now) (zip ts (map (\<lambda>t. lookup now d (sessionKey F t)) ts)) ?acc1"
    by simp
  from Cons.IH [OF this] obtain T where T: "snd acc' = snd ?acc1 @ map (sessionKey F) T" "set T \<subseteq> set (fst acc')"
      "\<forall>t \<in> set (fst acc'). t \<in> set (fst ?acc1) \<or> db_visible F d now t = None"
      "set (fst ?acc1) \<subseteq> set (fst acc')" by blast
  from step show ?case
  proof (elim disjE conjE)
    assume "?acc1 = acc"
    with T show ?case by auto
  next
    assume "fst ?acc1 = st @ [t]" "db_visible F d now t = None" "snd ?acc1 = ks"
    with T acc show ?case by (intro exI [of _ T]) auto
  next
    assume "fst ?acc1 = st @ [t]" "db_visible F d now t = None" "snd ?acc1 = ks @ [sessionKey F t]"
    with T acc show ?case by (intro exI [of _ "t # T"]) auto
  qed
qed

lemma purge_cmds:
  "fst (purgeSessionsLua k f ts) = map (\<lambda>t. DEL [f t]) ts @ [DEL [k]]"
  by (simp add: purgeSessionsLua_def)

lemma purge_effect:
  assumes F: "family_ok F" and inv: "db_inv F now d" and u: "u \<noteq> []" and ts: "set ts = indexed F now d u"
  defines "d' \<equiv> apply_cmds now (map (\<lambda>t. DEL [sessionKey F t]) ts @ [DEL [userIndexKey F u]]) d"
  shows "db_inv F now d'" and "now \<le> now' \<Longrightarrow> db_visible F d' now' t = Some x \<longleftrightarrow>
    db_visible F d now' t = Some x \<and> owner F x \<noteq> u"
proof -
  have v': "vals d' (sessionKey F t) = (if t \<in> set ts then None else vals d (sessionKey F t))" for t
  proof -
    have "vals (apply_cmds now (map (\<lambda>t. DEL [sessionKey F t]) ts) d) (sessionKey F t)
        = (if t \<in> set ts then None else vals d (sessionKey F t))"
      by (induction ts arbitrary: d) (auto simp: key_eq [OF F])
    then show ?thesis by (simp add: d'_def key_eq [OF F])
  qed
  have i': "indexed F n d' w = (if w = u then {} else indexed F n d w)" for n w
  proof -
    have "sets (apply_cmds now (map (\<lambda>t. DEL [sessionKey F t]) ts) d) (userIndexKey F w) = sets d (userIndexKey F w)"
      by (induction ts arbitrary: d) (auto simp: key_eq [OF F])
    then show ?thesis by (auto simp: d'_def indexed_def members_def key_eq [OF F])
  qed
  have out: "t \<in> set ts \<longleftrightarrow> owner F x = u" if "db_visible F d now t = Some x" for t x
    using that inv u ts unfolding db_inv_def by auto
  have vis: "db_visible F d' n t = Some x \<longleftrightarrow> db_visible F d n t = Some x \<and> owner F x \<noteq> u" if "now \<le> n" for n t x
  proof (cases "t \<in> set ts")
    case True
    then have "db_visible F d' n t \<noteq> Some x" using v' by (simp add: db_visible_Some)
    moreover have "owner F x = u" if "db_visible F d n t = Some x"
      using out [OF db_visible_earlier [OF that \<open>now \<le> n\<close>]] True by blast
    ultimately show ?thesis by blast
  next
    case False
    then have "db_visible F d' n t = db_visible F d n t" using v' by (intro db_visible_vals) simp
    with False out that show ?thesis using db_visible_earlier [of F d n t x now] by auto
  qed
  then show "now \<le> now' \<Longrightarrow> db_visible F d' now' t = Some x \<longleftrightarrow> db_visible F d now' t = Some x \<and> owner F x \<noteq> u" .
  show "db_inv F now d'"
    unfolding db_inv_def
  proof (intro allI impI)
    fix t x assume "db_visible F d' now t = Some x"
    with vis have v: "db_visible F d now t = Some x" "owner F x \<noteq> u" by auto
    with out have "t \<notin> set ts" by blast
    then have "vals d' (sessionKey F t) = vals d (sessionKey F t)" by (simp add: v')
    with v inv vis show "sid F x = t \<and> (\<forall>w. t \<in> indexed F now d' w \<longrightarrow> w = owner F x)
       \<and> (owner F x \<noteq> [] \<longrightarrow> (\<forall>n \<ge> now. db_visible F d' n t = Some x \<longrightarrow> t \<in> indexed F n d' (owner F x)))
       \<and> (\<forall>v e. vals d' (sessionKey F t) = Some (v, e) \<longrightarrow> e \<le> now + 48 * hour)"
      unfolding db_inv_def i' by auto
  qed
qed

locale family_server = valkey_server C db for C :: "('r, 'x json) valkey" and db :: "'r \<Rightarrow> 'x json db" +
  fixes F :: "'x family"
  assumes family: "family_ok F"
begin

lemma removal_pipe:
  assumes "db_inv F now (db r)" and "\<forall>c \<in> set cs. removal F T c"
    and "\<forall>t \<in> T. \<forall>x. db_visible F (db r) now t \<noteq> Some x"
  shows "db_inv F now (db (snd (cmdPipe C now cs r)))
    \<and> (\<forall>now' \<ge> now. db_visible F (db (snd (cmdPipe C now cs r))) now' = db_visible F (db r) now')"
proof -
  obtain cs' where cs': "subseq cs' cs" "db (snd (cmdPipe C now cs r)) = apply_cmds now cs' (db r)"
    using pipe_any by blast
  then have "\<forall>c \<in> set cs'. removal F T c" using assms(2) subseq_set by blast
  then have sh: "shrinks F T (db r) (db (snd (cmdPipe C now cs r)))"
    using removals_shrink [OF family] cs'(2) by metis
  have none: "\<forall>t \<in> T. \<forall>x. db_visible F (db (snd (cmdPipe C now cs r))) now t \<noteq> Some x"
  proof (intro ballI allI)
    fix t x assume "t \<in> T"
    then have "vals (db (snd (cmdPipe C now cs r))) (sessionKey F t) = vals (db r) (sessionKey F t)
        \<or> vals (db (snd (cmdPipe C now cs r))) (sessionKey F t) = None"
      using sh by (auto simp: shrinks_def)
    with assms(3) \<open>t \<in> T\<close> show "db_visible F (db (snd (cmdPipe C now cs r))) now t \<noteq> Some x"
      by (metis db_visible_Some option.distinct(1))
  qed
  have "db_visible F (db (snd (cmdPipe C now cs r))) now' t = db_visible F (db r) now' t" if "now \<le> now'" for now' t
    using shrinks_visible [OF sh none that] assms(3) db_visible_earlier [OF _ that]
    by (metis not_None_eq)
  with shrinks_inv [OF assms(1) sh none] show ?thesis by auto
qed

lemma get_effect:
  assumes inv: "db_inv F now (db r)" and g: "valkey_Get F C now t r = (res, r')"
  shows "(\<forall>x. res = Some x \<longrightarrow> db_visible F (db r) now t = Some x)
    \<and> db_inv F now (db r') \<and> (\<forall>now' \<ge> now. db_visible F (db r') now' = db_visible F (db r) now')"
proof (cases "cmdGet C now (sessionKey F t) r")
  case None
  with g inv show ?thesis by (simp add: valkey_Get_def)
next
  case (Some v)
  then have v: "v = lookup now (db r) (sessionKey F t)" by (rule get_reply)
  show ?thesis
  proof (cases "\<exists>x. v = Some (Encoded x) \<and> expires F x < now")
    case True
    then obtain x where x: "v = Some (Encoded x)" "expires F x < now" by blast
    let ?cs = "DEL [sessionKey F t] # (if owner F x \<noteq> [] then [SREM (userIndexKey F (owner F x)) t] else [])"
    have r: "res = None" "r' = snd (cmdPipe C now ?cs r)" using g Some x by (simp_all add: valkey_Get_def)
    have "\<forall>c \<in> set ?cs. removal F {t} c" by (auto intro: removal_intros)
    moreover have "lookup now (db r) (sessionKey F t) = Some (Encoded x)" using v x by simp
    then have "\<forall>t' \<in> {t}. \<forall>y. db_visible F (db r) now t' \<noteq> Some y" using x by (simp add: db_visible_def)
    ultimately show ?thesis using removal_pipe [OF inv] r by auto
  next
    case False
    with g Some inv v show ?thesis
      by (auto simp: valkey_Get_def db_visible_def split: option.splits json.splits if_splits)
  qed
qed

lemma put_effect:
  assumes inv: "db_inv F now (db r)" and st: "db_storable F now x (db r)" and p: "valkey_SetSession F C now x r = (True, r')"
  shows "now < expires F x \<and> db r' = apply_cmds now (store_cmds F now x) (db r)"
  using p pipe_ok by (auto simp: valkey_SetSession_def store_cmds_def Let_def split: if_splits)

lemma delete_effect:
  assumes inv: "db_inv F now (db r)" and p: "valkey_Delete F C now t r = (True, r')"
  shows "db_inv F now (db r') \<and> (\<forall>now' \<ge> now. db_visible F (db r') now' = (db_visible F (db r) now')(t := None))"
proof -
  obtain u where "db r' = apply_cmds now (DEL [sessionKey F t] # (if u \<noteq> [] then [SREM (userIndexKey F u) t] else [])) (db r)"
      (is "_ = apply_cmds now ?cs _")
    using p pipe_ok unfolding valkey_Delete_def Let_def by blast
  moreover have "\<forall>c \<in> set ?cs. removal F {t} c" by (auto intro: removal_intros)
  ultimately have sh: "shrinks F {t} (db r) (db r')" using removals_shrink [OF family, of ?cs "{t}" "db r" now] by simp
  have "vals (db r') (sessionKey F t) = None"
    using \<open>db r' = _\<close> by (auto split: option.splits)
  then have none: "\<forall>t' \<in> {t}. \<forall>x. db_visible F (db r') now t' \<noteq> Some x" by (simp add: db_visible_Some)
  show ?thesis
    using shrinks_inv [OF inv sh none] shrinks_visible [OF sh none] by auto
qed

end

definition valkey_ops :: "'x family \<Rightarrow> ('r, 'x json) valkey \<Rightarrow> ('r, 'x) store_ops" where
  "valkey_ops F C = \<lparr>opGet = valkey_Get F C, opPut = valkey_SetSession F C, opDelete = valkey_Delete F C,
     opPurge = (\<lambda>now u r. map_prod (\<lambda>n. n \<noteq> None) id (valkey_Purge F C now u r))\<rparr>"

sublocale family_server \<subseteq> session: session_store "valkey_Get F C" "valkey_SetSession F C" "valkey_Delete F C"
    "\<lambda>now u r. map_prod (\<lambda>n. n \<noteq> None) id (valkey_Purge F C now u r)"
    "\<lambda>r. db_visible F (db r)" "\<lambda>now r. db_inv F now (db r)" "\<lambda>now x r. db_storable F now x (db r)" F
proof (unfold_locales, goal_cases)
  case (1 now s now')
  then show ?case by (rule db_inv_later)
next
  case (2 now s t x)
  then show ?case by (auto simp: db_inv_def db_visible_Some)
next
  case (3 s now' t x now)
  then show ?case by (rule db_visible_earlier)
next
  case (4 now s t x s')
  then show ?case using get_effect by blast
next
  case (5 now s t res s')
  then show ?case using get_effect by blast
next
  case (6 now s x s')
  from put_effect [OF 6] have e: "now < expires F x" "db s' = apply_cmds now (store_cmds F now x) (db s)" by auto
  have "now' < now + grain (expires F x - now)" if "now' + 1000000 \<le> expires F x" for now'
    using grain_bounds(2) [of "expires F x - now"] e(1) that by simp
  then show ?case
    unfolding e(2) using store_inv [OF family 6(1,2) e(1)] store_visible [OF family] by auto
next
  case (7 now s t s')
  then show ?case by (rule delete_effect)
next
  case (8 now s u s')
  then obtain n where "valkey_Purge F C now u s = (Some n, s')"
    by (cases "valkey_Purge F C now u s") auto
  then obtain ts where "set ts = indexed F now (db s) u"
      "db s' = apply_cmds now (map (\<lambda>t. DEL [sessionKey F t]) ts @ [DEL [userIndexKey F u]]) (db s)"
    using eval_ok unfolding valkey_Purge_def indexed_def by (metis purge_cmds)
  with purge_effect [OF family 8(1,2)] show ?case by (metis (no_types, lifting))
qed

context family_server
begin

lemma purge_then_quiet:
  assumes "db_inv F now (db r)" and "u \<noteq> []" and "valkey_Purge F C now u r = (Some n, r')"
    and "quiet (valkey_ops F C) (\<lambda>now x r. db_storable F now x (db r)) F u now ops r'"
    and "last_time now ops \<le> now'" and "valkey_Get F C now' t (run_ops (valkey_ops F C) ops r') = (Some x, r'')"
  shows "owner F x \<noteq> u"
proof -
  have p: "map_prod (\<lambda>n. n \<noteq> None) id (valkey_Purge F C now u r) = (True, r')" by (simp add: assms(3))
  have i: "db_inv F now (db r')" "session.revoked u now r'"
    using session.purge_removes [OF assms(1,2) p] session.purge_revokes [OF assms(1,2) p] by auto
  from session.revoked_run [OF i] assms(4)
  have "db_inv F (last_time now ops) (db (run_ops (valkey_ops F C) ops r'))
      \<and> session.revoked u (last_time now ops) (run_ops (valkey_ops F C) ops r')"
    by (simp add: valkey_ops_def)
  with assms(5,6) show ?thesis
    using session.revoked_no_login session.revoked_later session.inv_later by blast
qed

lemmas put_visible = session.put_stored

lemmas store_contract = session.session_store_axioms

lemma put_then_get:
  assumes "db_inv F now (db r)" and "db_storable F now x (db r)" and "valkey_SetSession F C now x r = (True, r')"
    and "now \<le> now'" and "now' + 1000000 \<le> expires F x" and "cmdGet C now' (sessionKey F (sid F x)) r' \<noteq> None"
  shows "valkey_Get F C now' (sid F x) r' = (Some x, r')"
proof -
  from put_visible [OF assms(1-3)] assms(4,5) have "db_visible F (db r') now' (sid F x) = Some x" by blast
  with assms(6) show ?thesis
    using get_reply by (fastforce simp: valkey_Get_def db_visible_def split: option.splits json.splits if_splits)
qed

lemma prune_keeps:
  assumes inv: "db_inv F now (db r)" and p: "valkey_Prune F C now u r = (n, r')"
  shows "db_inv F now (db r') \<and> (\<forall>now' \<ge> now. db_visible F (db r') now' = db_visible F (db r) now')"
proof (cases "r' = r")
  case False
  then obtain tokens vs stale keys where c: "cmdMGet C now (map (sessionKey F) tokens) r = Some vs"
      "fold (prune_token F now) (zip tokens vs) ([], []) = (stale, keys)"
      "r' = snd (cmdPipe C now (map (SREM (userIndexKey F u)) stale @ (if keys \<noteq> [] then [DEL keys] else [])) r)"
    using p by (auto simp: valkey_Prune_def Let_def split: option.splits prod.splits if_splits)
  have vs: "vs = map (\<lambda>t. lookup now (db r) (sessionKey F t)) tokens"
    using mget_reply [OF c(1)] by simp
  from prune_loop [OF refl, of F now tokens "db r" "([], [])"] c(2) vs obtain T where
    T: "keys = map (sessionKey F) T" "set T \<subseteq> set stale" "\<forall>t \<in> set stale. db_visible F (db r) now t = None" by auto
  show ?thesis
    unfolding c(3)
  proof (rule removal_pipe [OF inv])
    show "\<forall>c \<in> set (map (SREM (userIndexKey F u)) stale @ (if keys \<noteq> [] then [DEL keys] else [])). removal F (set stale) c"
      using T(1,2) by (auto intro: removal_intros)
    show "\<forall>t \<in> set stale. \<forall>x. db_visible F (db r) now t \<noteq> Some x" using T(3) by simp
  qed
qed (use inv in simp)

end

section \<open>A server with that behaviour\<close>

text \<open>
  A server that never fails, with sets as lists: the assumptions about the server
  can be met, and the stores can be run.
\<close>

record 'v server =
  rvals :: "string \<Rightarrow> ('v \<times> time) option"
  rsets :: "string \<Rightarrow> (string list \<times> time option) option"

definition server_db :: "'v server \<Rightarrow> 'v db" where
  "server_db r = \<lparr>vals = rvals r, sets = (\<lambda>k. map_option (map_prod set id) (rsets r k))\<rparr>"

definition server_members :: "time \<Rightarrow> 'v server \<Rightarrow> string \<Rightarrow> string list" where
  "server_members now r k = (case rsets r k of None \<Rightarrow> [] | Some (S, e) \<Rightarrow> if set_live now e then remdups S else [])"

definition server_get :: "time \<Rightarrow> 'v server \<Rightarrow> string \<Rightarrow> 'v option" where
  "server_get now r k = (case rvals r k of None \<Rightarrow> None | Some (v, e) \<Rightarrow> if now < e then Some v else None)"

fun server_do :: "time \<Rightarrow> 'v command \<Rightarrow> 'v server \<Rightarrow> 'v server" where
  "server_do now (SET k v ttl) r =
     r\<lparr>rvals := (rvals r)(k \<mapsto> (v, now + grain ttl)), rsets := (rsets r)(k := None)\<rparr>"
| "server_do now (DEL ks) r =
     r\<lparr>rvals := (\<lambda>k. if k \<in> set ks then None else rvals r k), rsets := (\<lambda>k. if k \<in> set ks then None else rsets r k)\<rparr>"
| "server_do now (SADD k m) r =
     r\<lparr>rsets := (rsets r)(k \<mapsto> (m # server_members now r k,
        case rsets r k of None \<Rightarrow> None | Some (S, e) \<Rightarrow> if set_live now e then e else None))\<rparr>"
| "server_do now (SREM k m) r =
     r\<lparr>rsets := (case rsets r k of None \<Rightarrow> rsets r | Some (S, e) \<Rightarrow>
        (rsets r)(k := if list_all (\<lambda>x. x = m) S then None else Some (removeAll m S, e)))\<rparr>"
| "server_do now (EXPIRE k t) r =
     r\<lparr>rsets := (case rsets r k of None \<Rightarrow> rsets r
        | Some (S, e) \<Rightarrow> if set_live now e then (rsets r)(k \<mapsto> (S, Some (now + t))) else rsets r)\<rparr>"

definition reliable :: "('v server, 'v) valkey" where
  "reliable = \<lparr>
     cmdGet = (\<lambda>now k r. Some (server_get now r k)),
     cmdMGet = (\<lambda>now ks r. Some (map (server_get now r) ks)),
     cmdSMembers = (\<lambda>now k r. Some (server_members now r k)),
     cmdPipe = (\<lambda>now cs r. (True, fold (server_do now) cs r)),
     cmdEval = (\<lambda>now k f r. case f (server_members now r k) of (cs, n) \<Rightarrow> (Some n, fold (server_do now) cs r))\<rparr>"

definition empty_server :: "'v server" where
  "empty_server = \<lparr>rvals = Map.empty, rsets = Map.empty\<rparr>"

lemma server_members_db: "set (server_members now r k) = members now (server_db r) k"
  by (auto simp: server_members_def members_def server_db_def split: option.splits)

lemma server_get_db: "server_get now r k = lookup now (server_db r) k"
  by (simp add: server_get_def lookup_def server_db_def)

lemma server_do_db: "server_db (server_do now c r) = apply_cmd now c (server_db r)"
proof (cases c)
  case (SADD k m)
  then show ?thesis
    using server_members_db [of now r k] by (auto simp: server_db_def fun_eq_iff split: option.splits)
qed (auto simp: server_db_def fun_eq_iff list_all_iff split: option.splits)

lemma server_dos_db: "server_db (fold (server_do now) cs r) = apply_cmds now cs (server_db r)"
  by (induction cs arbitrary: r) (simp_all add: server_do_db)

lemma distinct_server_members: "distinct (server_members now r k)"
  by (simp add: server_members_def split: option.splits)

interpretation reliable: valkey_server reliable server_db
proof (unfold_locales, goal_cases)
  case (6 now k f r n r')
  then show ?case
    by (intro exI [of _ "server_members now r k"])
      (auto simp: reliable_def server_dos_db server_members_db distinct_server_members split: prod.splits)
next
  case (3 now k r ts)
  then show ?case by (auto simp: reliable_def server_members_db distinct_server_members)
qed (auto simp: reliable_def server_get_db server_dos_db split: prod.splits)

interpretation customers: family_server reliable server_db customer
  by unfold_locales (rule family_ok_customer)

interpretation employees: family_server reliable server_db employee
  by unfold_locales (rule family_ok_employee)

lemma db_inv_empty: "db_inv F now (server_db empty_server)"
  by (simp add: db_inv_def db_visible_Some server_db_def empty_server_def)

section \<open>Properties\<close>

text \<open>Revocation takes effect in the Valkey store. On a server that behaves as documented, and
  with every stored session indexed under its owner, once a purge of a user is reported successful,
  no lookup at any later time returns a session of that user, whatever lookups, deletions, purges
  and storing of other users' sessions happen in between and however often the server fails lookups.\<close>

theorem purge_revokes_for_good:
  assumes "valkey_server C db" and "family_ok F" and "db_inv F now (db r)" and "u \<noteq> []"
    and "valkey_Purge F C now u r = (Some n, r')"
    and "quiet (valkey_ops F C) (\<lambda>now x r. db_storable F now x (db r)) F u now ops r'"
    and "last_time now ops \<le> now'" and "valkey_Get F C now' t (run_ops (valkey_ops F C) ops r') = (Some x, r'')"
  shows "owner F x \<noteq> u"
proof -
  have "family_server C db F"
    using assms(1,2) by (simp add: family_server_def family_server_axioms_def)
  then show ?thesis using assms(3-8) by (rule family_server.purge_then_quiet)
qed

definition demo_session :: "string \<Rightarrow> string \<Rightarrow> EmployeeSession" where
  "demo_session tok user = \<lparr>EmpSessionID = tok, EmployeeID = user, EmpEmail = [], EmpName = [], Role = ''hr'',
     Department = [], Permissions = [], EmpExpiresAt = 24 * hour\<rparr>"

definition demo_server :: "EmployeeSession json server" where
  "demo_server = snd (valkey_SetSession employee reliable 0 (demo_session ''t2'' ''bob'')
     (snd (valkey_SetSession employee reliable 0 (demo_session ''t1'' ''ann'') empty_server)))"

lemma demo_server_inv: "db_inv employee 0 (server_db demo_server)"
proof -
  have put: "valkey_SetSession employee reliable 0 (demo_session t u) r
      = (True, snd (valkey_SetSession employee reliable 0 (demo_session t u) r))" for t u r
    by (simp add: valkey_SetSession_def reliable_def employee_def demo_session_def Let_def)
  have "db_storable employee 0 (demo_session ''t1'' ''ann'') (server_db empty_server)"
    by (simp add: db_storable_def indexed_def members_def server_db_def empty_server_def employee_def demo_session_def)
  then have 1: "db_inv employee 0 (server_db (snd (valkey_SetSession employee reliable 0 (demo_session ''t1'' ''ann'') empty_server)))"
    (is "db_inv _ _ (server_db ?r1)")
    using employees.session.put_stored [OF db_inv_empty _ put] by blast
  have "indexed employee 0 (server_db ?r1) u = (if u = ''ann'' then {''t1''} else {})" for u
    by (simp add: indexed_def server_members_db [symmetric] server_members_def valkey_SetSession_def reliable_def
        employee_def demo_session_def Let_def empty_server_def employeeUserIndexKey_def set_live_def)
  then have "db_storable employee 0 (demo_session ''t2'' ''bob'') (server_db ?r1)"
    by (auto simp: db_storable_def employee_def demo_session_def split: if_splits)
  then show ?thesis
    unfolding demo_server_def using employees.session.put_stored [OF 1 _ put] by blast
qed

theorem purge_revokes_for_good_witness:
  "fst (valkey_Get employee reliable 5 ''t1'' (snd (valkey_Purge employee reliable 1 ''ann'' demo_server)))
     \<noteq> Some (demo_session ''t1'' ''ann'')"
proof
  assume g: "fst (valkey_Get employee reliable 5 ''t1'' (snd (valkey_Purge employee reliable 1 ''ann'' demo_server)))
      = Some (demo_session ''t1'' ''ann'')"
  have p: "valkey_Purge employee reliable 1 ''ann'' demo_server
      = (Some (the (fst (valkey_Purge employee reliable 1 ''ann'' demo_server))),
         snd (valkey_Purge employee reliable 1 ''ann'' demo_server))"
    by (simp add: valkey_Purge_def reliable_def split: prod.split)
  have "db_inv employee 1 (server_db demo_server)" using demo_server_inv by (rule db_inv_later) simp
  from purge_revokes_for_good [OF reliable.valkey_server_axioms family_ok_employee this _ p, of "[]" 5 "''t1''"] g
  have "owner employee (demo_session ''t1'' ''ann'') \<noteq> ''ann''"
    by (metis last_time.simps(1) list.distinct(1) one_le_numeral prod.collapse quiet.simps(1) run_ops.simps(1))
  then show False by (simp add: employee_def demo_session_def)
qed


text \<open>Pruning removes only dead weight: on a server that behaves as documented, and even when
  its pipeline fails half way, pruning a user's index keeps the index invariant and changes no
  lookup of any session at any later time.\<close>

theorem pruning_keeps_sessions:
  assumes "valkey_server C db" and "family_ok F" and "db_inv F now (db r)" and "valkey_Prune F C now u r = (n, r')"
  shows "db_inv F now (db r') \<and> (\<forall>now'. now \<le> now' \<longrightarrow> db_visible F (db r') now' = db_visible F (db r) now')"
proof -
  have "family_server C db F"
    using assms(1,2) by (simp add: family_server_def family_server_axioms_def)
  from family_server.prune_keeps [OF this assms(3,4)] show ?thesis by blast
qed

lemma demo_put:
  "valkey_SetSession employee reliable 0 (demo_session t u) r
     = (True, snd (valkey_SetSession employee reliable 0 (demo_session t u) r))"
  by (simp add: valkey_SetSession_def reliable_def employee_def demo_session_def Let_def)


theorem pruning_keeps_sessions_witness:
  "db_visible employee (server_db (snd (valkey_Prune employee reliable 1 ''ann'' demo_server))) 7
     = db_visible employee (server_db demo_server) 7"
proof -
  have "db_inv employee 1 (server_db demo_server)" using demo_server_inv by (rule db_inv_later) simp
  from pruning_keeps_sessions [OF reliable.valkey_server_axioms family_ok_employee this prod.collapse [symmetric]]
  show ?thesis by simp
qed

definition long_session :: EmployeeSession where
  "long_session = (demo_session ''t1'' ''ann'')\<lparr>EmpExpiresAt := 72 * hour\<rparr>"

text \<open>The index of a user lives 48 hours. A session stored with a longer lifetime outlives its
  index entry: a purge after 49 hours finds nothing to delete, reports success, and the session
  can still be used.\<close>

theorem long_session_survives_purge:
  "case valkey_Purge employee reliable (49 * hour) ''ann''
       (snd (valkey_SetSession employee reliable 0 long_session empty_server)) of
     (res, r) \<Rightarrow> res = Some 0 \<and> fst (valkey_Get employee reliable (50 * hour) ''t1'' r) = Some long_session"
  by (simp add: valkey_Purge_def valkey_SetSession_def valkey_Get_def reliable_def employee_def long_session_def
      demo_session_def empty_server_def server_get_def server_members_def set_live_def purgeSessionsLua_def grain_def
      employeeSessionKey_def employeeUserIndexKey_def)

text \<open>The in-memory purge is exact: visiting every token once in any order, it reports how many
  sessions the user had, and afterwards every lookup at every time returns what it returned before,
  except that the user's sessions are gone.\<close>

theorem memory_purge_exact:
  assumes "set ord = dom s" and "distinct ord" and "memory_PurgeEmployeeSessions ord u s = (n, s')"
  shows "n = card {t. \<exists>x. s t = Some x \<and> EmployeeID x = u}
    \<and> (\<forall>now t. memoryEmployee_Get now t s' =
         (case memoryEmployee_Get now t s of Some x \<Rightarrow> if EmployeeID x = u then None else Some x | None \<Rightarrow> None))"
proof
  have "n = length (filter (\<lambda>x. EmployeeID x = u) (map (the \<circ> s) ord))"
    using assms(1,3) map_vals_the [of ord s]
    by (auto simp: memory_PurgeEmployeeSessions_def memory_Purge_def employee_def)
  also have "\<dots> = length (filter (\<lambda>t. EmployeeID (the (s t)) = u) ord)"
    by (simp add: filter_map comp_def)
  also have "\<dots> = card (set (filter (\<lambda>t. EmployeeID (the (s t)) = u) ord))"
    using assms(2) by (simp only: distinct_card distinct_filter)
  also have "\<dots> = card {t \<in> dom s. EmployeeID (the (s t)) = u}" using assms(1) by simp
  also have "{t \<in> dom s. EmployeeID (the (s t)) = u} = {t. \<exists>x. s t = Some x \<and> EmployeeID x = u}" by auto
  finally show "n = card {t. \<exists>x. s t = Some x \<and> EmployeeID x = u}" .
  have "s' = drop_where (\<lambda>x. EmployeeID x = u) s"
    using assms(3) by (auto simp: memory_PurgeEmployeeSessions_def memory_Purge_def employee_def)
  then show "\<forall>now t. memoryEmployee_Get now t s' =
      (case memoryEmployee_Get now t s of Some x \<Rightarrow> if EmployeeID x = u then None else Some x | None \<Rightarrow> None)"
    by (auto simp: memoryEmployee_Get_def memory_Get_def drop_where_def employee_def split: option.split)
qed

theorem memory_purge_exact_witness:
  "case memory_PurgeEmployeeSessions [''t1'', ''t2''] ''ann''
       [''t1'' \<mapsto> demo_session ''t1'' ''ann'', ''t2'' \<mapsto> demo_session ''t2'' ''bob''] of
     (n, s') \<Rightarrow> n = 1 \<and> memoryEmployee_Get 0 ''t1'' s' = None
       \<and> memoryEmployee_Get 0 ''t2'' s' = Some (demo_session ''t2'' ''bob'')"
    (is "case memory_PurgeEmployeeSessions ?ord ?u ?s of (n, s') \<Rightarrow> ?P n s'")
proof -
  obtain n s' where p: "memory_PurgeEmployeeSessions ?ord ?u ?s = (n, s')" by fastforce
  have c: "{t. \<exists>x. ?s t = Some x \<and> EmployeeID x = ?u} = {''t1''}" by (auto simp: demo_session_def split: if_splits)
  have d: "set ?ord = dom ?s" "distinct ?ord" by auto
  from memory_purge_exact [OF d p] have n: "n = 1"
    and g: "memoryEmployee_Get 0 t s' = (case memoryEmployee_Get 0 t ?s of
      Some x \<Rightarrow> if EmployeeID x = ?u then None else Some x | None \<Rightarrow> None)" for t
    unfolding c by auto
  from n g [of "''t1''"] g [of "''t2''"] have "?P n s'"
    by (simp add: memoryEmployee_Get_def memory_Get_def employee_def demo_session_def)
  with p show ?thesis by simp
qed

text \<open>Tokens carry all their random bytes: two customer sessions, or two employee sessions, have
  the same token exactly when they were created from the same bytes, and a customer token is never
  an employee token.\<close>

theorem tokens_distinct:
  "(SessionID (new_customer_session b now i n e) = SessionID (new_customer_session b' now' i' n' e') \<longleftrightarrow> b = b')
   \<and> (EmpSessionID (new_employee_session b now i e n ro d) = EmpSessionID (new_employee_session b' now' i' e' n' ro' d') \<longleftrightarrow> b = b')
   \<and> SessionID (new_customer_session b now i n e) \<noteq> EmpSessionID (new_employee_session b' now' i' e' n' ro' d')"
  using EncodeToString_inj by (auto simp: new_customer_session_def new_employee_session_def)

end
