(* ===== verification/SessionMiddleware.thy ===== *)
theory SessionMiddleware
  imports SessionStore
begin

text \<open>
  Authentication of browser requests: the middleware of \<open>pkg/session/middleware.go\<close>
  (customers) and \<open>internal/app/employeebff/rbac.go\<close> (employees), and the login,
  logout and token handlers of \<open>internal/app/employeebff/auth_handlers.go\<close>. A
  middleware is a function from the request to a verdict: the request is rejected
  with a status and a message, or passed on with the session put into its context.
  The session store is the Go interface \<open>EmployeeSessionStore\<close> (or its customer
  twin) as a record of operations, with one instance per implementation. The
  identity provider is an argument.
\<close>

section \<open>Requests and cookies\<close>

text \<open>\<open>Header\<close> is \<open>r.Header.Get\<close>, \<open>Query\<close> is \<open>r.URL.Query().Get\<close>: the empty string when absent.\<close>

record request =
  Method :: string
  Cookies :: "(string \<times> string) list"
  Header :: "string \<Rightarrow> string"
  Query :: "string \<Rightarrow> string"

record Cookie =
  CookieName :: string
  CookieValue :: string
  HttpOnly :: bool
  Secure :: bool
  SameSiteLax :: bool
  Expires :: "time option"
  MaxAge :: int

definition cookie :: "request \<Rightarrow> string \<Rightarrow> string option" where
  "cookie r name = map_option snd (find (\<lambda>c. fst c = name) (Cookies r))"

text \<open>The guard \<open>err == nil && c.Value != ""\<close> with the value it protects: empty when the guard fails.\<close>

definition cookie_value :: "request \<Rightarrow> string \<Rightarrow> string" where
  "cookie_value r name = (case cookie r name of None \<Rightarrow> [] | Some v \<Rightarrow> v)"

definition GenerateRandomToken :: "string option \<Rightarrow> string option" where
  "GenerateRandomToken rnd = map_option EncodeToString rnd"

definition alternate_names :: "string list" where
  "alternate_names = [''csrf_token'', ''__Host-csrf-token'', ''employee_csrf_token'', ''__Host-employee-csrf-token'']"

definition GetCSRFCookie :: "request \<Rightarrow> string \<Rightarrow> string" where
  "GetCSRFCookie r primaryName0 =
     (let primaryName = (if primaryName0 = [] then ''csrf_token'' else primaryName0);
          hostName = ''__Host-'' @ map (\<lambda>c. if c = CHR ''_'' then CHR ''-'' else c) primaryName
      in if cookie_value r primaryName \<noteq> [] then cookie_value r primaryName
         else if cookie_value r hostName \<noteq> [] then cookie_value r hostName
         else (case find (\<lambda>alt. cookie_value r alt \<noteq> []) alternate_names of
                 None \<Rightarrow> []
               | Some alt \<Rightarrow> cookie_value r alt))"

definition SetCSRFCookie :: "string \<Rightarrow> string \<Rightarrow> Cookie" where
  "SetCSRFCookie cookieName token =
     \<lparr>CookieName = (if cookieName = [] then ''csrf_token'' else cookieName), CookieValue = token,
      HttpOnly = False, Secure = False, SameSiteLax = True, Expires = None, MaxAge = 0\<rparr>"

section \<open>Customer middleware\<close>

datatype 'x verdict = Reject nat string | Next 'x

text \<open>The answer of \<open>CSRFTokenHandler\<close>: the token in the body and the header, with the cookies set.\<close>

definition CSRFTokenHandler :: "string \<Rightarrow> string option \<Rightarrow> request \<Rightarrow> string verdict \<times> Cookie list" where
  "CSRFTokenHandler cookieName rnd r =
     (let token = GetCSRFCookie r cookieName
      in if token \<noteq> [] then (Next token, [])
         else (case GenerateRandomToken rnd of
                 None \<Rightarrow> (Reject 500 ''failed to generate csrf token'', [])
               | Some t \<Rightarrow> (Next t, [SetCSRFCookie cookieName t])))"

definition mutating :: "request \<Rightarrow> bool" where
  "mutating r \<longleftrightarrow> Method r \<in> {''POST'', ''PUT'', ''DELETE'', ''PATCH''}"

definition CSRFProtectMiddleware :: "string \<Rightarrow> request \<Rightarrow> unit verdict" where
  "CSRFProtectMiddleware cookieName r =
     (if mutating r
      then let headerToken = Header r ''X-CSRF-Token''; cookieToken = GetCSRFCookie r cookieName
           in if headerToken = [] \<or> cookieToken = [] \<or> headerToken \<noteq> cookieToken
              then Reject 403 ''forbidden: invalid or missing CSRF token''
              else Next ()
      else Next ())"

definition bearer :: "request \<Rightarrow> string" where
  "bearer r = (let authHeader = Header r ''Authorization''
     in if HasPrefix authHeader ''Bearer '' then TrimPrefix authHeader ''Bearer '' else [])"

definition session_cookie :: "string \<Rightarrow> string \<Rightarrow> request \<Rightarrow> string" where
  "session_cookie hostName name r =
     (if cookie_value r hostName \<noteq> [] then cookie_value r hostName else cookie_value r name)"

definition session_token :: "string \<Rightarrow> string \<Rightarrow> request \<Rightarrow> string" where
  "session_token hostName name r =
     (let token = session_cookie hostName name r in if token = [] then bearer r else token)"

text \<open>\<open>get\<close> is the store's \<open>Get\<close> at the time of the request.\<close>

definition CustomerSessionAuthMiddleware ::
    "(string \<Rightarrow> 'r \<Rightarrow> CustomerSession option \<times> 'r) \<Rightarrow> string option \<Rightarrow> request \<Rightarrow> 'r
      \<Rightarrow> (CustomerSession verdict \<times> Cookie list) \<times> 'r" where
  "CustomerSessionAuthMiddleware get rnd r st =
     (let token = session_token ''__Host-customer-session'' ''customer_session'' r
      in if token = [] then ((Reject 401 ''unauthorized: valid customer session required'', []), st)
         else (case get token st of
             (None, st') \<Rightarrow> ((Reject 401 ''unauthorized: invalid or expired customer session'', []), st')
           | (Some sess, st') \<Rightarrow>
               if GetCSRFCookie r ''csrf_token'' = []
               then (case GenerateRandomToken rnd of
                       None \<Rightarrow> ((Reject 500 ''internal server error'', []), st')
                     | Some t \<Rightarrow> ((Next sess, [SetCSRFCookie ''csrf_token'' t]), st'))
               else ((Next sess, []), st')))"

definition EmployeeSessionAuthMiddleware ::
    "(string \<Rightarrow> 'r \<Rightarrow> EmployeeSession option \<times> 'r) \<Rightarrow> string option \<Rightarrow> request \<Rightarrow> 'r
      \<Rightarrow> (EmployeeSession verdict \<times> Cookie list) \<times> 'r" where
  "EmployeeSessionAuthMiddleware get rnd r st =
     (let token = session_token ''__Host-employee-session'' ''employee_session'' r
      in if token = [] then ((Reject 401 ''unauthorized: valid employee session required'', []), st)
         else (case get token st of
             (None, st') \<Rightarrow> ((Reject 401 ''unauthorized: invalid or expired employee session'', []), st')
           | (Some sess, st') \<Rightarrow>
               ((Next sess,
                 if GetCSRFCookie r ''employee_csrf_token'' = []
                 then (case GenerateRandomToken rnd of None \<Rightarrow> [] | Some t \<Rightarrow> [SetCSRFCookie ''employee_csrf_token'' t])
                 else []), st')))"

definition normalise_role :: "string \<Rightarrow> string" where
  "normalise_role role = ToLower (TrimSpace role)"

definition RequireRoleMiddleware :: "string list \<Rightarrow> EmployeeSession option \<Rightarrow> unit verdict" where
  "RequireRoleMiddleware allowedRoles sess =
     (let allowedMap = set (map normalise_role allowedRoles)
      in case sess of
           None \<Rightarrow> Reject 401 ''unauthorized: employee session context required for role verification''
         | Some s \<Rightarrow>
             let userRole = normalise_role (Role s)
             in if userRole = ''admin'' \<or> ''*'' \<in> allowedMap \<or> userRole \<in> allowedMap then Next ()
                else Reject 403 ''forbidden: insufficient permissions for employee role'')"

text \<open>\<open>env\<close> is the value of \<open>INTERNAL_SERVICE_KEY\<close>, empty when it is not set.\<close>

definition InternalServiceAuthMiddleware :: "string \<Rightarrow> request \<Rightarrow> unit verdict" where
  "InternalServiceAuthMiddleware env r =
     (let key = Header r ''X-Internal-Service-Key'';
          token = (if key = [] then bearer r else key);
          expectedKey = (if env = [] then ''oci-internal-service-secret'' else env)
      in if token \<noteq> expectedKey then Reject 401 ''unauthorized: valid internal service key required'' else Next ())"

section \<open>Employee middleware\<close>

text \<open>The employee site's own copies in \<open>rbac.go\<close>; its CSRF cookie has no alternate names.\<close>

definition emp_GetCSRFCookie :: "request \<Rightarrow> string" where
  "emp_GetCSRFCookie r =
     (if cookie_value r ''employee_csrf_token'' \<noteq> [] then cookie_value r ''employee_csrf_token''
      else if cookie_value r ''__Host-employee-csrf-token'' \<noteq> [] then cookie_value r ''__Host-employee-csrf-token''
      else [])"

definition emp_SetCSRFCookie :: "string \<Rightarrow> Cookie" where
  "emp_SetCSRFCookie token =
     \<lparr>CookieName = ''employee_csrf_token'', CookieValue = token,
      HttpOnly = False, Secure = False, SameSiteLax = True, Expires = None, MaxAge = 0\<rparr>"

definition emp_SessionAuthMiddleware ::
    "(string \<Rightarrow> 'r \<Rightarrow> EmployeeSession option \<times> 'r) \<Rightarrow> string option \<Rightarrow> request \<Rightarrow> 'r
      \<Rightarrow> (EmployeeSession verdict \<times> Cookie list) \<times> 'r" where
  "emp_SessionAuthMiddleware get rnd r st =
     (let token = session_token ''__Host-employee-session'' ''employee_session'' r
      in if token = [] then ((Reject 401 ''unauthorized: valid employee session required'', []), st)
         else (case get token st of
             (None, st') \<Rightarrow> ((Reject 401 ''unauthorized: invalid or expired employee session'', []), st')
           | (Some sess, st') \<Rightarrow>
               ((Next sess,
                 if emp_GetCSRFCookie r = []
                 then (case GenerateRandomToken rnd of None \<Rightarrow> [] | Some t \<Rightarrow> [emp_SetCSRFCookie t])
                 else []), st')))"

definition emp_RequireRoleMiddleware :: "string list \<Rightarrow> EmployeeSession option \<Rightarrow> unit verdict" where
  "emp_RequireRoleMiddleware allowedRoles sess =
     (let allowedMap = set (map normalise_role allowedRoles)
      in case sess of
           None \<Rightarrow> Reject 401 ''unauthorized: employee session context required for role verification''
         | Some s \<Rightarrow>
             let userRole = normalise_role (Role s)
             in if userRole = ''admin'' \<or> ''*'' \<in> allowedMap \<or> userRole \<in> allowedMap then Next ()
                else Reject 403 ''forbidden: insufficient permissions for employee role'')"

definition emp_CSRFProtectMiddleware :: "request \<Rightarrow> unit verdict" where
  "emp_CSRFProtectMiddleware r =
     (if mutating r
      then let headerToken = Header r ''X-CSRF-Token''; cookieToken = emp_GetCSRFCookie r
           in if headerToken = [] \<or> cookieToken = [] \<or> headerToken \<noteq> cookieToken
              then Reject 403 ''forbidden: invalid or missing CSRF token''
              else Next ()
      else Next ())"

definition emp_InternalServiceAuthMiddleware :: "string \<Rightarrow> request \<Rightarrow> unit verdict" where
  "emp_InternalServiceAuthMiddleware env r =
     (let key = Header r ''X-Internal-Service-Key'';
          token = (if key = [] then bearer r else key);
          expectedKey = (if env = [] then ''oci-internal-service-secret'' else env)
      in if token \<noteq> expectedKey then Reject 401 ''unauthorized: valid internal service key required'' else Next ())"

text \<open>
  \<open>handleProtected\<close> of the quant routes: session, then CSRF for mutating methods,
  then the role. The route of a method only receives requests of that method.
\<close>

definition quant_roles :: "string list" where
  "quant_roles = [''investment'', ''engineering'', ''admin'', ''staff'', ''ops'']"

definition handleProtected ::
    "string list \<Rightarrow> (string \<Rightarrow> 'r \<Rightarrow> EmployeeSession option \<times> 'r) \<Rightarrow> string option \<Rightarrow> request \<Rightarrow> 'r
      \<Rightarrow> (EmployeeSession verdict \<times> Cookie list) \<times> 'r" where
  "handleProtected roles get rnd r st =
     (case emp_SessionAuthMiddleware get rnd r st of
        ((Reject code msg, cs), st') \<Rightarrow> ((Reject code msg, cs), st')
      | ((Next sess, cs), st') \<Rightarrow>
          (case (if mutating r then emp_CSRFProtectMiddleware r else Next ()) of
             Reject code msg \<Rightarrow> ((Reject code msg, cs), st')
           | Next _ \<Rightarrow> (case emp_RequireRoleMiddleware roles (Some sess) of
               Reject code msg \<Rightarrow> ((Reject code msg, cs), st')
             | Next _ \<Rightarrow> ((Next sess, cs), st'))))"

section \<open>Login and logout\<close>

text \<open>The interface \<open>EmployeeSessionStore\<close> as far as the handlers use it, and its two implementations.\<close>

record 'r employee_store =
  storeGet :: "time \<Rightarrow> string \<Rightarrow> 'r \<Rightarrow> EmployeeSession option \<times> 'r"
  storeCreate :: "string option \<Rightarrow> time \<Rightarrow> string \<Rightarrow> string \<Rightarrow> string \<Rightarrow> string \<Rightarrow> string \<Rightarrow> 'r
    \<Rightarrow> EmployeeSession option \<times> 'r"
  storeDelete :: "time \<Rightarrow> string \<Rightarrow> 'r \<Rightarrow> 'r"
  storePurge :: "time \<Rightarrow> string \<Rightarrow> 'r \<Rightarrow> int option \<times> 'r"

definition memory_store :: "string list \<Rightarrow> EmployeeSession memory employee_store" where
  "memory_store ord = \<lparr>
     storeGet = (\<lambda>now t s. (memoryEmployee_Get now t s, s)),
     storeCreate = memoryEmployee_Create,
     storeDelete = (\<lambda>now t s. memoryEmployee_Delete t s),
     storePurge = (\<lambda>now u s. map_prod (\<lambda>n. Some (int n)) id (memory_PurgeEmployeeSessions ord u s))\<rparr>"

definition valkey_store :: "'r employee_client \<Rightarrow> 'r employee_store" where
  "valkey_store C = \<lparr>
     storeGet = valkeyEmployee_Get C,
     storeCreate = valkeyEmployee_Create C,
     storeDelete = (\<lambda>now t r. snd (valkeyEmployee_Delete C now t r)),
     storePurge = valkey_PurgeEmployeeSessions C\<rparr>"

datatype auth_body =
    AuthError string
  | CSRFBody string
  | Authenticated EmployeeSession string
  | SessionBody EmployeeSession
  | LoggedOut

type_synonym auth_response = "nat \<times> auth_body \<times> Cookie list"

definition HandleGetCSRFToken :: "string option \<Rightarrow> request \<Rightarrow> auth_response" where
  "HandleGetCSRFToken rnd r =
     (let token = emp_GetCSRFCookie r
      in if token \<noteq> [] then (200, CSRFBody token, [])
         else (case GenerateRandomToken rnd of
                 None \<Rightarrow> (500, AuthError ''failed to generate csrf token'', [])
               | Some t \<Rightarrow> (200, CSRFBody t, [emp_SetCSRFCookie t])))"

text \<open>The two session cookies, and the answer to a successful login.\<close>

definition session_cookies :: "EmployeeSession \<Rightarrow> Cookie list" where
  "session_cookies session =
     [\<lparr>CookieName = ''employee_session'', CookieValue = EmpSessionID session, HttpOnly = True, Secure = False,
       SameSiteLax = True, Expires = Some (EmpExpiresAt session), MaxAge = 0\<rparr>,
      \<lparr>CookieName = ''__Host-employee-session'', CookieValue = EmpSessionID session, HttpOnly = True, Secure = True,
       SameSiteLax = True, Expires = Some (EmpExpiresAt session), MaxAge = 0\<rparr>]"

definition logged_in :: "string option \<Rightarrow> EmployeeSession \<Rightarrow> auth_response" where
  "logged_in csrfRnd session =
     (let csrfToken = (case GenerateRandomToken csrfRnd of None \<Rightarrow> [] | Some t \<Rightarrow> t)
      in (200, Authenticated session csrfToken, session_cookies session @ [emp_SetCSRFCookie csrfToken]))"

record forgejo_user =
  UserName :: string
  UserEmail :: string
  FullName :: string
  IsAdmin :: bool

text \<open>
  What happens to \<open>GET /api/v1/user\<close> at the identity provider with these credentials: the
  request cannot be built, the provider does not answer, or it answers with a status
  and a body (\<open>None\<close> when the body does not decode).
\<close>

datatype forgejo_reply = BadRequestURL | Unreachable | Answer nat "forgejo_user option"

definition HandleForgejoLogin ::
    "(string \<Rightarrow> string \<Rightarrow> string \<Rightarrow> forgejo_reply) \<Rightarrow> string \<Rightarrow> 'r employee_store \<Rightarrow> string option \<Rightarrow> string option \<Rightarrow> time
      \<Rightarrow> (string \<times> string) option \<Rightarrow> 'r \<Rightarrow> auth_response \<times> 'r" where
  "HandleForgejoLogin forgejo forgejoURL O' rnd csrfRnd now req st = (case req of
     None \<Rightarrow> ((400, AuthError ''invalid request payload'', []), st)
   | Some (username, password) \<Rightarrow>
       if username = [] \<or> password = [] then ((400, AuthError ''username and password are required'', []), st)
       else if forgejoURL = [] then ((503, AuthError ''Forgejo identity provider is not configured'', []), st)
       else (case forgejo (forgejoURL @ ''/api/v1/user'') username password of
           BadRequestURL \<Rightarrow> ((500, AuthError ''failed to create identity provider request'', []), st)
         | Unreachable \<Rightarrow> ((502, AuthError ''failed to connect to Forgejo identity provider'', []), st)
         | Answer code body \<Rightarrow>
             if code \<noteq> 200 then ((401, AuthError ''invalid Forgejo credentials'', []), st)
             else (case body of
                 None \<Rightarrow> ((500, AuthError ''failed to parse Forgejo identity response'', []), st)
               | Some u \<Rightarrow>
                   let role = (if IsAdmin u then ''admin'' else ''engineering'');
                       dept = (if IsAdmin u then ''Executive Leadership'' else ''Engineering & Operations'');
                       name = (if FullName u = [] then UserName u else FullName u)
                   in case storeCreate O' rnd now (''emp-'' @ UserName u) (UserEmail u) name role dept st of
                        (None, st') \<Rightarrow> ((500, AuthError ''failed to create employee session'', []), st')
                      | (Some session, st') \<Rightarrow> (logged_in csrfRnd session, st'))))"

record login_request =
  LoginEmployeeID :: string
  LoginEmail :: string
  LoginName :: string
  LoginRole :: string
  LoginDepartment :: string

definition HandleLogin ::
    "bool \<Rightarrow> 'r employee_store \<Rightarrow> string option \<Rightarrow> string option \<Rightarrow> time \<Rightarrow> login_request option \<Rightarrow> 'r
      \<Rightarrow> auth_response \<times> 'r" where
  "HandleLogin isProd O' rnd csrfRnd now req st =
     (if isProd then ((403, AuthError (''forbidden: self-asserted login is disabled in production; '' @
         ''authenticate through Forgejo (/api/v1/employee/auth/forgejo/login)''), []), st)
      else (case req of
          None \<Rightarrow> ((400, AuthError ''invalid request payload'', []), st)
        | Some q \<Rightarrow>
            if LoginEmployeeID q = [] \<or> LoginRole q = []
            then ((400, AuthError ''employee_id and role are required'', []), st)
            else (case storeCreate O' rnd now (LoginEmployeeID q) (LoginEmail q) (LoginName q) (LoginRole q) (LoginDepartment q) st of
                (None, st') \<Rightarrow> ((500, AuthError ''failed to create employee session'', []), st')
              | (Some session, st') \<Rightarrow> (logged_in csrfRnd session, st'))))"

definition cleared_cookie :: "string \<Rightarrow> Cookie" where
  "cleared_cookie name = \<lparr>CookieName = name, CookieValue = [], HttpOnly = True, Secure = False,
     SameSiteLax = False, Expires = None, MaxAge = -1\<rparr>"

text \<open>\<open>ctx\<close> is the session in the request's context, if a middleware put one there.\<close>

definition HandleLogout ::
    "'r employee_store \<Rightarrow> time \<Rightarrow> EmployeeSession option \<Rightarrow> request \<Rightarrow> 'r \<Rightarrow> auth_response \<times> 'r" where
  "HandleLogout O' now ctx r st =
     (let token = session_cookie ''__Host-employee-session'' ''employee_session'' r;
          fromToken = (if token \<noteq> []
             then (case storeGet O' now token st of
                     (None, st') \<Rightarrow> ([], st')
                   | (Some sess, st') \<Rightarrow> (EmployeeID sess, st'))
             else ([], st));
          (employeeID, st1) = (case ctx of
             None \<Rightarrow> fromToken
           | Some sess \<Rightarrow> if EmployeeID sess \<noteq> [] then (EmployeeID sess, st) else fromToken);
          st2 = (if token \<noteq> [] then storeDelete O' now token st1 else st1);
          st3 = (if Query r ''all'' = ''true'' \<and> employeeID \<noteq> []
                 then snd (storePurge O' now employeeID st2) else st2)
      in ((200, LoggedOut, [cleared_cookie ''employee_session'', cleared_cookie ''__Host-employee-session'']), st3))"

definition HandleGetSession :: "EmployeeSession option \<Rightarrow> auth_response" where
  "HandleGetSession ctx = (case ctx of
     None \<Rightarrow> (401, AuthError ''unauthorized'', [])
   | Some session \<Rightarrow> (200, SessionBody session, []))"

section \<open>What the middleware lets through\<close>

definition role_allowed :: "string list \<Rightarrow> EmployeeSession \<Rightarrow> bool" where
  "role_allowed roles sess \<longleftrightarrow> normalise_role (Role sess) = ''admin''
     \<or> (\<exists>role \<in> set roles. normalise_role role \<in> {''*'', normalise_role (Role sess)})"

definition double_submit :: "request \<Rightarrow> bool" where
  "double_submit r \<longleftrightarrow> emp_GetCSRFCookie r \<noteq> [] \<and> Header r ''X-CSRF-Token'' = emp_GetCSRFCookie r"

abbreviation emp_cookie :: "request \<Rightarrow> string" where
  "emp_cookie r \<equiv> session_cookie ''__Host-employee-session'' ''employee_session'' r"

abbreviation emp_token :: "request \<Rightarrow> string" where
  "emp_token r \<equiv> session_token ''__Host-employee-session'' ''employee_session'' r"

lemma emp_auth_Next:
  "fst (fst (emp_SessionAuthMiddleware get rnd r st)) = Next sess
     \<longleftrightarrow> emp_token r \<noteq> [] \<and> fst (get (emp_token r) st) = Some sess"
  by (auto simp: emp_SessionAuthMiddleware_def Let_def split: prod.splits option.splits)

lemma emp_auth_state:
  "snd (emp_SessionAuthMiddleware get rnd r st) = (if emp_token r = [] then st else snd (get (emp_token r) st))"
  by (auto simp: emp_SessionAuthMiddleware_def Let_def split: prod.splits option.splits)

lemma emp_role_Next: "emp_RequireRoleMiddleware roles (Some sess) = Next () \<longleftrightarrow> role_allowed roles sess"
  by (auto simp: emp_RequireRoleMiddleware_def role_allowed_def Let_def image_iff)

lemma emp_csrf_Next: "emp_CSRFProtectMiddleware r = Next () \<longleftrightarrow> (if mutating r then double_submit r else True)"
  by (auto simp: emp_CSRFProtectMiddleware_def double_submit_def Let_def)

lemma verdict_unit: "(v :: unit verdict) = Next () \<or> (\<exists>c m. v = Reject c m)"
  by (cases v) auto

lemma handleProtected_Next:
  "fst (fst (handleProtected roles get rnd r st)) = Next sess \<longleftrightarrow>
     emp_token r \<noteq> [] \<and> fst (get (emp_token r) st) = Some sess
     \<and> (if mutating r then double_submit r else True) \<and> role_allowed roles sess"
proof -
  obtain v cs st' where a: "emp_SessionAuthMiddleware get rnd r st = ((v, cs), st')" by (metis surj_pair)
  then have "v = Next s \<longleftrightarrow> emp_token r \<noteq> [] \<and> fst (get (emp_token r) st) = Some s" for s
    using emp_auth_Next [of get rnd r st s] by simp
  moreover have "fst (fst (handleProtected roles get rnd r st)) = Next sess \<longleftrightarrow>
      v = Next sess \<and> (if mutating r then emp_CSRFProtectMiddleware r = Next () else True)
      \<and> emp_RequireRoleMiddleware roles (Some sess) = Next ()"
    by (auto simp: handleProtected_def a split: verdict.splits)
  ultimately show ?thesis by (simp add: emp_role_Next emp_csrf_Next)
qed

locale employee_sessions = session_store get put del purge visible inv storable employee
  for get :: "time \<Rightarrow> string \<Rightarrow> 'r \<Rightarrow> EmployeeSession option \<times> 'r" and put del purge visible inv storable
begin

lemma passed_live:
  assumes "inv now st" and "fst (fst (emp_SessionAuthMiddleware (get now) rnd r st)) = Next sess"
  shows "EmpSessionID sess = emp_token r \<and> now \<le> EmpExpiresAt sess"
proof -
  from assms(2) have "fst (get now (emp_token r) st) = Some sess" by (simp add: emp_auth_Next)
  then have "get now (emp_token r) st = (Some sess, snd (get now (emp_token r) st))" by (simp add: prod_eq_iff)
  from visible_live [OF assms(1) get_sound [OF assms(1) this]] show ?thesis by (simp add: employee_def)
qed

lemma passed_not_revoked:
  assumes "inv now st" and "revoked u now st" and "fst (fst (handleProtected roles (get now) rnd r st)) = Next sess"
  shows "EmployeeID sess \<noteq> u"
proof -
  from assms(3) have "fst (get now (emp_token r) st) = Some sess" by (simp add: handleProtected_Next)
  then have "get now (emp_token r) st = (Some sess, snd (get now (emp_token r) st))" by (simp add: prod_eq_iff)
  from revoked_no_login [OF assms(1,2) this] show ?thesis by (simp add: employee_def)
qed

end

interpretation memory_employees: employee_sessions "\<lambda>now t s. (memoryEmployee_Get now t s, s)"
  "\<lambda>now x s. (True, memoryEmployee_SetSession x s)" "\<lambda>now t s. (True, memoryEmployee_Delete t s)"
  "\<lambda>now u s. (True, snd (memory_PurgeEmployeeSessions ord u s))"
  "\<lambda>s now t. memoryEmployee_Get now t s" "memory_inv employee" "\<lambda>now x s. True" for ord
  unfolding memory_instances employee_sessions_def by (rule memory.session_store_axioms)

lemma valkey_employee_sessions:
  assumes "valkey_server C db"
  shows "employee_sessions (valkeyEmployee_Get C) (valkeyEmployee_SetSession C) (valkeyEmployee_Delete C)
    (\<lambda>now u r. map_prod (\<lambda>n. n \<noteq> None) id (valkey_PurgeEmployeeSessions C now u r))
    (\<lambda>r. db_visible employee (db r)) (\<lambda>now r. db_inv employee now (db r)) (\<lambda>now x r. db_storable employee now x (db r))"
  unfolding valkey_instances employee_sessions_def
  using assms family_ok_employee
  by (intro family_server.store_contract) (simp add: family_server_def family_server_axioms_def)

interpretation reliable_employees: employee_sessions "valkeyEmployee_Get reliable" "valkeyEmployee_SetSession reliable"
  "valkeyEmployee_Delete reliable" "\<lambda>now u r. map_prod (\<lambda>n. n \<noteq> None) id (valkey_PurgeEmployeeSessions reliable now u r)"
  "\<lambda>r. db_visible employee (server_db r)" "\<lambda>now r. db_inv employee now (server_db r)"
  "\<lambda>now x r. db_storable employee now x (server_db r)"
  by (rule valkey_employee_sessions [OF reliable.valkey_server_axioms])

section \<open>Properties\<close>

text \<open>C3: An employee whose sessions were purged is locked out of every protected route. On a Valkey
  server that behaves as documented, once the purge is reported successful, and as long as no new
  session is stored for this employee, no request at any later time, whatever its cookies and
  headers, reaches a handler of a protected route with a session of this employee.\<close>

theorem purged_employee_locked_out:
  assumes "valkey_server C db" and "db_inv employee now (db r)" and "u \<noteq> []"
    and "valkey_PurgeEmployeeSessions C now u r = (Some n, r')"
    and "quiet (valkey_ops employee C) (\<lambda>now x r. db_storable employee now x (db r)) employee u now ops r'"
    and "last_time now ops \<le> now'"
    and "fst (fst (handleProtected roles (valkeyEmployee_Get C now') rnd q (run_ops (valkey_ops employee C) ops r'))) = Next sess"
  shows "EmployeeID sess \<noteq> u"
proof -
  let ?st = "run_ops (valkey_ops employee C) ops r'"
  have fs: "family_server C db employee"
    using assms(1) family_ok_employee by (simp add: family_server_def family_server_axioms_def)
  from assms(7) have "valkey_Get employee C now' (emp_token q) ?st
      = (Some sess, snd (valkey_Get employee C now' (emp_token q) ?st))"
    by (simp add: handleProtected_Next valkeyEmployee_Get_def prod_eq_iff)
  from family_server.purge_then_quiet [OF fs assms(2,3) _ assms(5,6) this] assms(4)
  show ?thesis by (simp add: valkey_PurgeEmployeeSessions_def employee_def)
qed


text \<open>C33: Logging in through the identity provider opens a session. When the login succeeds, on a
  Valkey server that behaves as documented and with a fresh token, the provider accepted the
  credentials, the session names that user and is an admin session exactly for an admin user, and
  until one millisecond before the session's 24 hours are over every request that carries its
  cookie, and whose lookup gets a reply, is passed on with this session.\<close>

theorem forgejo_login_opens_session:
  assumes "valkey_server C db" and "db_inv employee now (db st)"
    and "\<forall>u. ''emp-sess-'' @ EncodeToString b \<notin> indexed employee now (db st) u"
    and "HandleForgejoLogin forgejo url (valkey_store C) (Some b) csrfRnd now req st = ((200, Authenticated x csrf, cs), st')"
    and "now \<le> now'" and "now' + 1000000 \<le> now + 24 * hour"
    and "session_cookie ''__Host-employee-session'' ''employee_session'' q = EmpSessionID x"
    and "cmdGet C now' (employeeSessionKey (EmpSessionID x)) st' \<noteq> None"
  shows "\<exists>name pw u. req = Some (name, pw) \<and> forgejo (url @ ''/api/v1/user'') name pw = Answer 200 (Some u)
    \<and> EmployeeID x = ''emp-'' @ UserName u \<and> (Role x = ''admin'' \<longleftrightarrow> IsAdmin u)
    \<and> fst (fst (emp_SessionAuthMiddleware (valkeyEmployee_Get C now') rnd q st')) = Next x"
proof -
  have fs: "family_server C db employee"
    using assms(1) family_ok_employee by (simp add: family_server_def family_server_axioms_def)
  from assms(4) obtain name pw u where r: "req = Some (name, pw)" "forgejo (url @ ''/api/v1/user'') name pw = Answer 200 (Some u)"
    by (auto simp: HandleForgejoLogin_def logged_in_def Let_def split: option.splits if_splits forgejo_reply.splits prod.splits)
  obtain nm role dept where role: "role = (if IsAdmin u then ''admin'' else ''engineering'')"
    and c: "valkeyEmployee_Create C (Some b) now (''emp-'' @ UserName u) (UserEmail u) nm role dept st = (Some x, st')"
    using assms(4) r
    by (auto simp: HandleForgejoLogin_def logged_in_def valkey_store_def Let_def split: option.splits if_splits prod.splits)
  have x: "x = new_employee_session b now (''emp-'' @ UserName u) (UserEmail u) nm role dept"
    and put: "valkey_SetSession employee C now x st = (True, st')"
    using c by (auto simp: valkeyEmployee_Create_def Let_def split: prod.splits if_splits)
  have st: "db_storable employee now x (db st)"
    using assms(3) by (simp add: db_storable_def x new_employee_session_def employee_def)
  have "valkey_Get employee C now' (sid employee x) st' = (Some x, st')"
    using family_server.put_then_get [OF fs assms(2) st put assms(5)] assms(6,8)
    by (simp add: x new_employee_session_def employee_def)
  moreover have "emp_token q = sid employee x" "sid employee x \<noteq> []"
    using assms(7) by (auto simp: session_token_def x new_employee_session_def employee_def)
  ultimately have "fst (fst (emp_SessionAuthMiddleware (valkeyEmployee_Get C now') rnd q st')) = Next x"
    by (simp add: emp_auth_Next valkeyEmployee_Get_def)
  moreover have "Role x = role"
    by (simp add: x new_employee_session_def role TrimSpace_def ToLower_def is_space_def lower_char_def)
  then have "Role x = ''admin'' \<longleftrightarrow> IsAdmin u" by (simp add: role)
  moreover have "EmployeeID x = ''emp-'' @ UserName u" by (simp add: x new_employee_session_def)
  ultimately show ?thesis using r by blast
qed

definition carrying :: "string \<Rightarrow> request" where
  "carrying token = \<lparr>Method = ''GET'', Cookies = [(''employee_session'', token)], Header = (\<lambda>_. []), Query = (\<lambda>_. [])\<rparr>"

lemma carrying_cookie: "session_cookie ''__Host-employee-session'' ''employee_session'' (carrying token) = token"
  by (simp add: carrying_def session_cookie_def cookie_value_def cookie_def)

theorem purged_employee_locked_out_witness:
  "fst (fst (handleProtected [''hr''] (valkeyEmployee_Get reliable 5) None (carrying ''t1'')
     (snd (valkey_PurgeEmployeeSessions reliable 1 ''ann'' demo_server)))) \<noteq> Next (demo_session ''t1'' ''ann'')"
proof
  assume g: "fst (fst (handleProtected [''hr''] (valkeyEmployee_Get reliable 5) None (carrying ''t1'')
     (snd (valkey_PurgeEmployeeSessions reliable 1 ''ann'' demo_server)))) = Next (demo_session ''t1'' ''ann'')"
  have p: "valkey_PurgeEmployeeSessions reliable 1 ''ann'' demo_server
      = (Some (the (fst (valkey_PurgeEmployeeSessions reliable 1 ''ann'' demo_server))),
         snd (valkey_PurgeEmployeeSessions reliable 1 ''ann'' demo_server))"
    by (simp add: valkey_PurgeEmployeeSessions_def valkey_Purge_def reliable_def split: prod.split)
  have "db_inv employee 1 (server_db demo_server)" using demo_server_inv by (rule db_inv_later) simp
  from purged_employee_locked_out [OF reliable.valkey_server_axioms this _ p, of "[]" 5] g
  have "EmployeeID (demo_session ''t1'' ''ann'') \<noteq> ''ann''" by simp
  then show False by (simp add: demo_session_def)
qed

definition demo_forgejo :: "string \<Rightarrow> string \<Rightarrow> string \<Rightarrow> forgejo_reply" where
  "demo_forgejo url name pw = (if pw = ''pw'' then Answer 200 (Some \<lparr>UserName = name, UserEmail = [], FullName = [], IsAdmin = True\<rparr>)
     else Answer 401 None)"

definition demo_login :: EmployeeSession where
  "demo_login = new_employee_session ''k'' 0 ''emp-ann'' [] ''ann'' ''admin'' ''Executive Leadership''"

lemma demo_login_run:
  "HandleForgejoLogin demo_forgejo ''url'' (valkey_store reliable) (Some ''k'') None 0 (Some (''ann'', ''pw'')) empty_server
     = (logged_in None demo_login, snd (valkey_SetSession employee reliable 0 demo_login empty_server))"
proof -
  have "fst (valkey_SetSession employee reliable 0 demo_login empty_server)"
    by (simp add: valkey_SetSession_def reliable_def employee_def demo_login_def new_employee_session_def Let_def)
  then obtain st' where "valkey_SetSession employee reliable 0 demo_login empty_server = (True, st')"
    by (metis (full_types) prod.collapse)
  then show ?thesis
    by (simp add: HandleForgejoLogin_def demo_forgejo_def valkey_store_def valkeyEmployee_Create_def Let_def
        flip: demo_login_def)
qed

theorem forgejo_login_opens_session_witness:
  "fst (fst (emp_SessionAuthMiddleware (valkeyEmployee_Get reliable hour) None (carrying (EmpSessionID demo_login))
     (snd (HandleForgejoLogin demo_forgejo ''url'' (valkey_store reliable) (Some ''k'') None 0 (Some (''ann'', ''pw'')) empty_server))))
   = Next demo_login"
proof -
  have idx: "\<forall>u. ''emp-sess-'' @ EncodeToString ''k'' \<notin> indexed employee 0 (server_db empty_server) u"
    by (simp add: indexed_def members_def server_db_def empty_server_def)
  have "HandleForgejoLogin demo_forgejo ''url'' (valkey_store reliable) (Some ''k'') None 0 (Some (''ann'', ''pw'')) empty_server
      = ((200, Authenticated demo_login [], session_cookies demo_login @ [emp_SetCSRFCookie []]),
         snd (valkey_SetSession employee reliable 0 demo_login empty_server))" (is "_ = (_, ?st)")
    unfolding demo_login_run by (simp add: logged_in_def GenerateRandomToken_def)
  from forgejo_login_opens_session [OF reliable.valkey_server_axioms db_inv_empty idx this, of hour "carrying (EmpSessionID demo_login)"]
  have "fst (fst (emp_SessionAuthMiddleware (valkeyEmployee_Get reliable hour) None (carrying (EmpSessionID demo_login)) ?st)) = Next demo_login"
    by (auto simp: carrying_cookie reliable_def)
  then show ?thesis by (simp add: demo_login_run)
qed

text \<open>Logging out with the session cookie ends the session of the in-memory store: the token
  can never be used again; with \<open>all=true\<close> and a live session, every session of that employee is
  gone, and no session of another employee or, without \<open>all=true\<close>, of another token is touched.\<close>

theorem logout_ends_session:
  fixes s :: "EmployeeSession memory"
  assumes "HandleLogout (memory_store ord) now None q s = (resp, s')" and "emp_cookie q \<noteq> []"
  shows "s' (emp_cookie q) = None
    \<and> (Query q ''all'' \<noteq> ''true'' \<longrightarrow> (\<forall>t. t \<noteq> emp_cookie q \<longrightarrow> s' t = s t))
    \<and> (\<forall>x. Query q ''all'' = ''true'' \<and> memoryEmployee_Get now (emp_cookie q) s = Some x \<and> EmployeeID x \<noteq> [] \<longrightarrow>
         (\<forall>t y. s' t = Some y \<longleftrightarrow> t \<noteq> emp_cookie q \<and> s t = Some y \<and> EmployeeID y \<noteq> EmployeeID x))"
proof -
  let ?t = "emp_cookie q"
  let ?u = "case memoryEmployee_Get now ?t s of None \<Rightarrow> [] | Some x \<Rightarrow> EmployeeID x"
  have s': "s' = (if Query q ''all'' = ''true'' \<and> ?u \<noteq> []
      then drop_where (\<lambda>x. EmployeeID x = ?u) (s(?t := None)) else s(?t := None))"
    using assms(1,2)
    by (auto simp: HandleLogout_def memory_store_def Let_def memoryEmployee_Delete_def memory_Delete_def
        memory_PurgeEmployeeSessions_def memory_Purge_def employee_def split: option.splits)
  show ?thesis
    unfolding s' by (auto simp: drop_where_def split: option.splits if_splits)
qed

theorem logout_ends_session_witness:
  "snd (HandleLogout (memory_store [''t1'']) 1 None (carrying ''t1'') [''t1'' \<mapsto> demo_session ''t1'' ''ann'']) ''t1'' = None"
  using logout_ends_session [of "[''t1'']" 1 "carrying ''t1''" "[''t1'' \<mapsto> demo_session ''t1'' ''ann'']", OF surjective_pairing]
  by (simp add: carrying_cookie)

text \<open>Logout ignores the token of the Authorization header, which the session middleware accepts:
  a client that authenticates with a bearer token is told that it is logged out, also with
  \<open>all=true\<close>, and every session, its own included, stays usable.\<close>

theorem bearer_logout_keeps_session:
  assumes "session_cookie ''__Host-employee-session'' ''employee_session'' q = []"
    and "fst (fst (emp_SessionAuthMiddleware (storeGet O' now) rnd q st)) = Next sess"
  shows "HandleLogout O' now None q st
    = ((200, LoggedOut, [cleared_cookie ''employee_session'', cleared_cookie ''__Host-employee-session'']), st)
    \<and> fst (fst (handleProtected [''*''] (storeGet O' now) rnd (q\<lparr>Method := ''GET''\<rparr>) (snd (HandleLogout O' now None q st)))) = Next sess"
proof -
  let ?q = "q\<lparr>Method := ''GET''\<rparr>"
  have "HandleLogout O' now None q st
    = ((200, LoggedOut, [cleared_cookie ''employee_session'', cleared_cookie ''__Host-employee-session'']), st)"
    using assms(1) by (simp add: HandleLogout_def)
  moreover have "emp_token ?q = emp_token q" "\<not> mutating ?q"
    by (simp_all add: session_token_def session_cookie_def bearer_def cookie_value_def cookie_def mutating_def Let_def)
  moreover have "role_allowed [''*''] sess"
    by (simp add: role_allowed_def normalise_role_def TrimSpace_def ToLower_def is_space_def lower_char_def)
  ultimately show ?thesis
    using assms(2) by (simp add: handleProtected_Next emp_auth_Next)
qed

definition bearer_request :: "string \<Rightarrow> request" where
  "bearer_request token = \<lparr>Method = ''POST'', Cookies = [],
     Header = (\<lambda>h. if h = ''Authorization'' then ''Bearer '' @ token else []),
     Query = (\<lambda>p. if p = ''all'' then ''true'' else [])\<rparr>"

theorem bearer_logout_keeps_session_witness:
  "snd (HandleLogout (memory_store [''t1'']) 1 None (bearer_request ''t1'') [''t1'' \<mapsto> demo_session ''t1'' ''ann''])
     = [''t1'' \<mapsto> demo_session ''t1'' ''ann'']"
proof -
  have a: "session_cookie ''__Host-employee-session'' ''employee_session'' (bearer_request ''t1'') = []"
    by (simp add: bearer_request_def session_cookie_def cookie_value_def cookie_def)
  have "emp_token (bearer_request ''t1'') = ''t1''"
    by (simp add: session_token_def a) (simp add: bearer_def bearer_request_def HasPrefix_def TrimPrefix_def)
  then have "fst (fst (emp_SessionAuthMiddleware (storeGet (memory_store [''t1'']) 1) None (bearer_request ''t1'')
      [''t1'' \<mapsto> demo_session ''t1'' ''ann''])) = Next (demo_session ''t1'' ''ann'')"
    by (simp add: emp_auth_Next memory_store_def memoryEmployee_Get_def memory_Get_def employee_def demo_session_def)
  from bearer_logout_keeps_session [OF a this] show ?thesis by simp
qed

end
