(* ===== verification/Cache.thy ===== *)
theory Cache
  imports SessionMiddleware
begin

text \<open>
  The query cache, \<open>pkg/cache/valkey/cache.go\<close>, in memory and in a Valkey server, and the
  listener that evicts entries on domain events, \<open>pkg/cache/valkey/invalidation.go\<close>.
  Cached bytes are represented by the value they decode to, or \<open>Garbage\<close>, as for
  sessions. The cache interface is the locale \<open>cache_store\<close>; the listener is verified
  inside it. The Valkey client is a parameter with the documented behaviour of GET, SET,
  DEL and SCAN in the locale \<open>cache_server\<close>: a complete iteration of SCAN returns every
  key that is present from its start to its end, and ends while the database stays bounded.
\<close>

section \<open>Keys\<close>

definition KeyPortfolio :: "string \<Rightarrow> string" where
  "KeyPortfolio customerID = ''cache:portfolio:'' @ customerID"

definition KeyPortfolioWithID :: "string \<Rightarrow> string \<Rightarrow> string" where
  "KeyPortfolioWithID customerID portfolioID =
     (if portfolioID = [] \<or> portfolioID = ''port-'' @ customerID then KeyPortfolio customerID
      else ''cache:portfolio:'' @ customerID @ '':'' @ portfolioID)"

definition KeyOrders :: "string \<Rightarrow> string" where
  "KeyOrders customerID = ''cache:orders:'' @ customerID"

definition KeyQuotes :: "string \<Rightarrow> string" where
  "KeyQuotes symbol = ''cache:quotes:'' @ ToUpper (TrimSpace symbol)"

definition KeyCareSchedule :: "string \<Rightarrow> string" where
  "KeyCareSchedule felineID = ''cache:care_schedule:'' @ felineID"

definition KeyCareScheduleVersion :: "string \<Rightarrow> string" where
  "KeyCareScheduleVersion felineID = ''cache:care_schedule:v:'' @ felineID"

definition KeyActiveIncidents :: string where
  "KeyActiveIncidents = ''cache:ops:active_incidents''"

definition KeyHabitatTelemetry :: string where "KeyHabitatTelemetry = ''cache:habitat:telemetry''"
definition KeyESGMetrics :: string where "KeyESGMetrics = ''cache:esg:metrics''"
definition KeySnipeITAssets :: string where "KeySnipeITAssets = ''cache:cots:snipeit:assets''"
definition KeyForgejoRepos :: string where "KeyForgejoRepos = ''cache:cots:forgejo:repos''"
definition KeyFrappeLeavePolicies :: string where "KeyFrappeLeavePolicies = ''cache:cots:frappe:leave_policies''"

section \<open>The in-memory cache\<close>

datatype cache_error = UnmarshalError | MarshalError | GetError | SetError | DelError | ScanError

record 'v memoryCacheEntry =
  edata :: "'v json"
  expiresAt :: time

type_synonym 'v memoryCache = "(string, 'v memoryCacheEntry) gomap"

text \<open>
  \<open>Get\<close> reads under the read lock and, when the entry it saw has expired, deletes the
  key under the write lock: two atomic steps. \<open>now\<close> is the clock reading between them.
\<close>

definition cache_read :: "string \<Rightarrow> 'v memoryCache \<Rightarrow> 'v memoryCacheEntry option" where
  "cache_read key m = m key"

definition cache_finish ::
    "time \<Rightarrow> string \<Rightarrow> 'v memoryCacheEntry option \<Rightarrow> 'v memoryCache \<Rightarrow> 'v json option \<times> 'v memoryCache" where
  "cache_finish now key seen m = (case seen of
     None \<Rightarrow> (None, m)
   | Some e \<Rightarrow> if expiresAt e < now then (None, m(key := None)) else (Some (edata e), m))"

definition cache_GetRaw :: "time \<Rightarrow> string \<Rightarrow> 'v memoryCache \<Rightarrow> 'v json option \<times> 'v memoryCache" where
  "cache_GetRaw now key m = cache_finish now key (cache_read key m) m"

text \<open>Decoding what was found: a hit with its value, a miss, or an error.\<close>

definition decode :: "'v json option \<Rightarrow> cache_error + 'v option" where
  "decode found = (case found of
     None \<Rightarrow> Inr None
   | Some (Encoded v) \<Rightarrow> Inr (Some v)
   | Some Garbage \<Rightarrow> Inl UnmarshalError)"

definition cache_Get :: "time \<Rightarrow> string \<Rightarrow> 'v memoryCache \<Rightarrow> (cache_error + 'v option) \<times> 'v memoryCache" where
  "cache_Get now key m = (case cache_GetRaw now key m of (found, m') \<Rightarrow> (decode found, m'))"

definition cache_SetRaw :: "time \<Rightarrow> string \<Rightarrow> 'v json \<Rightarrow> duration \<Rightarrow> 'v memoryCache \<Rightarrow> 'v memoryCache" where
  "cache_SetRaw now key data ttl m = m(key \<mapsto> \<lparr>edata = data, expiresAt = now + ttl\<rparr>)"

text \<open>\<open>marshalled\<close> is the outcome of \<open>json.Marshal\<close>.\<close>

definition cache_Set ::
    "time \<Rightarrow> string \<Rightarrow> 'v json option \<Rightarrow> duration \<Rightarrow> 'v memoryCache \<Rightarrow> (cache_error + unit) \<times> 'v memoryCache" where
  "cache_Set now key marshalled ttl m = (case marshalled of
     None \<Rightarrow> (Inl MarshalError, m)
   | Some data \<Rightarrow> (Inr (), cache_SetRaw now key data ttl m))"

definition cache_Delete :: "string list \<Rightarrow> 'v memoryCache \<Rightarrow> 'v memoryCache" where
  "cache_Delete keys m = fold (\<lambda>k m. m(k := None)) keys m"

definition cache_DeletePrefix :: "string \<Rightarrow> 'v memoryCache \<Rightarrow> 'v memoryCache" where
  "cache_DeletePrefix pre m = (\<lambda>k. if HasPrefix k pre then None else m k)"

definition cache_Close :: "'v memoryCache \<Rightarrow> 'v memoryCache" where
  "cache_Close m = Map.empty"

section \<open>The Valkey cache\<close>

record ('r, 'v) cache_client =
  ccGet :: "time \<Rightarrow> string \<Rightarrow> 'r \<Rightarrow> 'v option option"
  ccDo :: "time \<Rightarrow> 'v command \<Rightarrow> 'r \<Rightarrow> bool \<times> 'r"
  ccScan :: "time \<Rightarrow> nat \<Rightarrow> string \<Rightarrow> 'r \<Rightarrow> (string list \<times> nat) option"

definition valkeyCache_GetRaw :: "('r, 'v json) cache_client \<Rightarrow> time \<Rightarrow> string \<Rightarrow> 'r \<Rightarrow> cache_error + 'v json option" where
  "valkeyCache_GetRaw C now key r = (case ccGet C now key r of
     None \<Rightarrow> Inl GetError
   | Some v \<Rightarrow> Inr v)"

definition valkeyCache_Get :: "('r, 'v json) cache_client \<Rightarrow> time \<Rightarrow> string \<Rightarrow> 'r \<Rightarrow> cache_error + 'v option" where
  "valkeyCache_Get C now key r = (case ccGet C now key r of
     None \<Rightarrow> Inl GetError
   | Some v \<Rightarrow> decode v)"

definition valkeyCache_SetRaw ::
    "('r, 'v json) cache_client \<Rightarrow> time \<Rightarrow> string \<Rightarrow> 'v json \<Rightarrow> duration \<Rightarrow> 'r \<Rightarrow> (cache_error + unit) \<times> 'r" where
  "valkeyCache_SetRaw C now key data ttl r = (case ccDo C now (SET key data ttl) r of
     (ok, r') \<Rightarrow> (if ok then Inr () else Inl SetError, r'))"

definition valkeyCache_Set ::
    "('r, 'v json) cache_client \<Rightarrow> time \<Rightarrow> string \<Rightarrow> 'v json option \<Rightarrow> duration \<Rightarrow> 'r \<Rightarrow> (cache_error + unit) \<times> 'r" where
  "valkeyCache_Set C now key marshalled ttl r = (case marshalled of
     None \<Rightarrow> (Inl MarshalError, r)
   | Some data \<Rightarrow> valkeyCache_SetRaw C now key data ttl r)"

definition valkeyCache_Delete :: "('r, 'v json) cache_client \<Rightarrow> time \<Rightarrow> string list \<Rightarrow> 'r \<Rightarrow> (cache_error + unit) \<times> 'r" where
  "valkeyCache_Delete C now keys r = (if keys = [] then (Inr (), r)
     else (case ccDo C now (DEL keys) r of (ok, r') \<Rightarrow> (if ok then Inr () else Inl DelError, r')))"

text \<open>The scan loop; it ends when the server returns cursor 0, and without fuel it is still running.\<close>

fun scan_delete ::
    "nat \<Rightarrow> ('r, 'v json) cache_client \<Rightarrow> time \<Rightarrow> string \<Rightarrow> nat \<Rightarrow> 'r \<Rightarrow> ((cache_error + unit) \<times> 'r) option" where
  "scan_delete 0 C now pat cursor r = None"
| "scan_delete (Suc fuel) C now pat cursor r = (case ccScan C now cursor pat r of
     None \<Rightarrow> Some (Inl ScanError, r)
   | Some (keys, next) \<Rightarrow>
       (case (if keys \<noteq> [] then ccDo C now (DEL keys) r else (True, r)) of
          (ok, r') \<Rightarrow>
            if \<not> ok then Some (Inl DelError, r')
            else if next = 0 then Some (Inr (), r')
            else scan_delete fuel C now pat next r'))"

definition valkeyCache_DeletePrefix ::
    "nat \<Rightarrow> ('r, 'v json) cache_client \<Rightarrow> time \<Rightarrow> string \<Rightarrow> 'r \<Rightarrow> ((cache_error + unit) \<times> 'r) option" where
  "valkeyCache_DeletePrefix fuel C now pre r = scan_delete fuel C now (pre @ ''*'') 0 r"

section \<open>Conditional requests\<close>

text \<open>\<open>sha\<close> is SHA-256.\<close>

definition ComputeETag :: "(string \<Rightarrow> string) \<Rightarrow> string \<Rightarrow> string" where
  "ComputeETag sha data = CHR 0x22 # EncodeToString (take 16 (sha data)) @ [CHR 0x22]"

definition HandleConditionalETag :: "(string \<Rightarrow> string) \<Rightarrow> request \<Rightarrow> string \<Rightarrow> bool" where
  "HandleConditionalETag sha r data =
     (let etag = ComputeETag sha data; clientETag = Header r ''If-None-Match''
      in clientETag \<noteq> [] \<and> (clientETag = etag \<or> clientETag = ''W/'' @ etag \<or> TrimPrefix clientETag ''W/'' = etag))"

section \<open>The invalidation listener\<close>

record genericPayload =
  plCustomerID :: string
  plPortfolioID :: string
  plFelineID :: string

text \<open>
  \<open>handleMessage\<close> for a decoded message (\<open>None\<close> when the envelope or its payload does not
  decode). \<open>del\<close> and \<open>delp\<close> are the cache's \<open>Delete\<close> and \<open>DeletePrefix\<close>; their errors are
  only logged.
\<close>

definition handleMessage ::
    "(string list \<Rightarrow> 's \<Rightarrow> 's) \<Rightarrow> (string \<Rightarrow> 's \<Rightarrow> 's) \<Rightarrow> string \<Rightarrow> genericPayload option \<Rightarrow> 's \<Rightarrow> 's" where
  "handleMessage del delp topic msg st = (case msg of
     None \<Rightarrow> st
   | Some p \<Rightarrow>
       if topic = ''events.investment.trade_executed.v1'' \<or> topic = ''events.investment.order_placed.v1''
       then if plCustomerID p \<noteq> []
            then delp (''cache:portfolio:'' @ plCustomerID p @ '':'')
                   (del ([KeyPortfolio (plCustomerID p), KeyOrders (plCustomerID p)]
                      @ (if plPortfolioID p \<noteq> [] then [KeyPortfolioWithID (plCustomerID p) (plPortfolioID p)] else [])) st)
            else delp ''cache:portfolio:'' st
       else if topic = ''events.workforce.care_schedule_updated.v1''
       then if plFelineID p \<noteq> [] then del [KeyCareSchedule (plFelineID p)] st
            else delp ''cache:care_schedule:'' st
       else if topic = ''events.workforce.incident_created.v1'' then del [KeyActiveIncidents] st
       else st)"

section \<open>The contract of a cache\<close>

text \<open>\<open>shown s now k\<close> is what a lookup of \<open>k\<close> at time \<open>now\<close> would find.\<close>

locale cache_store =
  fixes get :: "time \<Rightarrow> string \<Rightarrow> 's \<Rightarrow> 'v json option \<times> 's" and put :: "time \<Rightarrow> string \<Rightarrow> 'v json \<Rightarrow> duration \<Rightarrow> 's \<Rightarrow> 's"
    and del :: "string list \<Rightarrow> 's \<Rightarrow> 's" and delp :: "string \<Rightarrow> 's \<Rightarrow> 's" and shown :: "'s \<Rightarrow> time \<Rightarrow> string \<Rightarrow> 'v json option"
  assumes get_shown: "fst (get now k s) = shown s now k"
    and get_frame: "now \<le> now' \<Longrightarrow> shown (snd (get now k s)) now' k' = shown s now' k'"
    and put_shown: "shown (put now k v ttl s) now' k' = (if k' = k then if now' \<le> now + ttl then Some v else None else shown s now' k')"
    and del_shown: "shown (del ks s) now k = (if k \<in> set ks then None else shown s now k)"
    and delp_shown: "shown (delp p s) now k = (if HasPrefix k p then None else shown s now k)"
begin

text \<open>A trade or order event hides every portfolio view and the orders of its customer.\<close>

lemma order_event:
  assumes "topic = ''events.investment.trade_executed.v1'' \<or> topic = ''events.investment.order_placed.v1''"
    and "plCustomerID p \<noteq> []"
  shows "shown (handleMessage del delp topic (Some p) s) now (KeyPortfolioWithID (plCustomerID p) q) = None"
    and "shown (handleMessage del delp topic (Some p) s) now (KeyOrders (plCustomerID p)) = None"
    and "\<not> HasPrefix k (''cache:portfolio:'' @ plCustomerID p @ '':'') \<Longrightarrow> k \<noteq> KeyPortfolio (plCustomerID p) \<Longrightarrow>
      k \<noteq> KeyOrders (plCustomerID p) \<Longrightarrow> shown (handleMessage del delp topic (Some p) s) now k = shown s now k"
proof -
  let ?c = "plCustomerID p"
  let ?ks = "[KeyPortfolio ?c, KeyOrders ?c] @ (if plPortfolioID p \<noteq> [] then [KeyPortfolioWithID ?c (plPortfolioID p)] else [])"
  have h: "handleMessage del delp topic (Some p) s = delp (''cache:portfolio:'' @ ?c @ '':'') (del ?ks s)"
    using assms unfolding handleMessage_def by (simp only: option.case if_True simp_thms)
  have pre: "HasPrefix (KeyPortfolioWithID ?c x) (''cache:portfolio:'' @ ?c @ '':'')"
    if "KeyPortfolioWithID ?c x \<noteq> KeyPortfolio ?c" for x
    using that unfolding KeyPortfolioWithID_def HasPrefix_iff
    by (auto split: if_splits)
  show "shown (handleMessage del delp topic (Some p) s) now (KeyPortfolioWithID ?c q) = None"
    unfolding h delp_shown del_shown using pre [of q] by auto
  show "shown (handleMessage del delp topic (Some p) s) now (KeyOrders ?c) = None"
    unfolding h delp_shown del_shown by simp
  show "shown (handleMessage del delp topic (Some p) s) now k = shown s now k"
    if "\<not> HasPrefix k (''cache:portfolio:'' @ ?c @ '':'')" "k \<noteq> KeyPortfolio ?c" "k \<noteq> KeyOrders ?c"
    unfolding h delp_shown del_shown using that pre [of "plPortfolioID p"] by auto
qed

end

lemma cache_Delete_apply: "cache_Delete ks m k = (if k \<in> set ks then None else m k)"
  unfolding cache_Delete_def by (induction ks arbitrary: m) auto

lemma cache_GetRaw_fst:
  "fst (cache_GetRaw now k m) = (case m k of None \<Rightarrow> None | Some e \<Rightarrow> if expiresAt e < now then None else Some (edata e))"
  by (simp add: cache_GetRaw_def cache_finish_def cache_read_def split: option.split)

interpretation memory_cache: cache_store cache_GetRaw cache_SetRaw cache_Delete cache_DeletePrefix
  "\<lambda>m now k. fst (cache_GetRaw now k m)"
proof (unfold_locales, goal_cases)
  case (2 now now' k s k')
  then show ?case
    unfolding cache_GetRaw_fst by (auto simp: cache_GetRaw_def cache_finish_def cache_read_def split: option.splits if_splits)
qed (auto simp: cache_GetRaw_fst cache_SetRaw_def cache_Delete_apply cache_DeletePrefix_def)

section \<open>Deleting by prefix in the server\<close>

text \<open>The scans of one iteration: states with the keys and the cursor they return, until cursor 0.\<close>

fun scanned :: "('r, 'v) cache_client \<Rightarrow> time \<Rightarrow> string \<Rightarrow> nat \<Rightarrow> ('r \<times> string list \<times> nat) list \<Rightarrow> bool" where
  "scanned C now pat cur [] = False"
| "scanned C now pat cur ((r, ks, n) # tr) \<longleftrightarrow> ccScan C now cur pat r = Some (ks, n)
     \<and> (if n = 0 then tr = [] else scanned C now pat n tr)"

text \<open>An iteration that may still be going on.\<close>

fun scan_run :: "('r, 'v) cache_client \<Rightarrow> time \<Rightarrow> string \<Rightarrow> nat \<Rightarrow> ('r \<times> string list \<times> nat) list \<Rightarrow> bool" where
  "scan_run C now pat cur [] = True"
| "scan_run C now pat cur ((r, ks, n) # tr) \<longleftrightarrow> ccScan C now cur pat r = Some (ks, n)
     \<and> (tr = [] \<or> n \<noteq> 0 \<and> scan_run C now pat n tr)"

definition at_most :: "nat \<Rightarrow> 'v db \<Rightarrow> bool" where
  "at_most m d \<longleftrightarrow> finite (dom (vals d)) \<and> card (dom (vals d)) \<le> m"

definition plain :: "string \<Rightarrow> bool" where
  "plain p \<longleftrightarrow> set p \<inter> {CHR ''*'', CHR ''?'', CHR ''['', CHR '']'', CHR 0x5C} = {}"

locale cache_server =
  fixes C :: "('r, 'v json) cache_client" and cdb :: "'r \<Rightarrow> 'v json db" and glob :: "string \<Rightarrow> string \<Rightarrow> bool"
  assumes glob_prefix: "plain p \<Longrightarrow> glob (p @ ''*'') k \<longleftrightarrow> HasPrefix k p"
    and get_reply: "ccGet C now k r = Some v \<Longrightarrow> v = lookup now (cdb r) k"
    and do_ok: "ccDo C now c r = (True, r') \<Longrightarrow> cdb r' = apply_cmd now c (cdb r)"
    and do_failed: "ccDo C now c r = (False, r') \<Longrightarrow> cdb r' = cdb r \<or> cdb r' = apply_cmd now c (cdb r)"
    and scan_sound: "ccScan C now cur pat r = Some (ks, n) \<Longrightarrow> k \<in> set ks \<Longrightarrow> glob pat k"
    and scan_complete: "scanned C now pat 0 tr \<Longrightarrow> glob pat k \<Longrightarrow>
      (\<And>r ks n. (r, ks, n) \<in> set tr \<Longrightarrow> lookup now (cdb r) k \<noteq> None) \<Longrightarrow> \<exists>(r, ks, n) \<in> set tr. k \<in> set ks"
    and scan_ends: "\<exists>len. \<forall>tr. scan_run C now pat 0 tr \<and> (\<forall>(r, ks, n) \<in> set tr. at_most m (cdb r)) \<longrightarrow> length tr \<le> len"
begin

lemma del_lookup:
  assumes "(if ks \<noteq> [] then ccDo C now (DEL ks) r else (True, r)) = (True, r')"
  shows "lookup now (cdb r') k = (if k \<in> set ks then None else lookup now (cdb r) k)"
  using assms do_ok [of now "DEL ks" r r'] by (auto simp: lookup_def split: if_splits)

lemma scan_delete_trace:
  assumes "scan_delete fuel C now pat cur r = Some (Inr (), r')"
  shows "\<exists>tr. scanned C now pat cur tr \<and> (\<forall>k. \<not> glob pat k \<longrightarrow> lookup now (cdb r') k = lookup now (cdb r) k)
    \<and> (\<forall>k. lookup now (cdb r') k \<noteq> None \<longrightarrow> lookup now (cdb r) k = lookup now (cdb r') k
         \<and> (\<forall>ri ks n. (ri, ks, n) \<in> set tr \<longrightarrow> k \<notin> set ks \<and> lookup now (cdb ri) k \<noteq> None))"
  using assms
proof (induction fuel arbitrary: cur r)
  case (Suc fuel)
  obtain ks n where scan: "ccScan C now cur pat r = Some (ks, n)"
    using Suc.prems by (cases "ccScan C now cur pat r") auto
  obtain ok r1 where d: "(if ks \<noteq> [] then ccDo C now (DEL ks) r else (True, r)) = (ok, r1)" by fastforce
  have ok: "ok" and rest: "if n = 0 then r' = r1 else scan_delete fuel C now pat n r1 = Some (Inr (), r')"
    using Suc.prems d by (auto simp: scan split: if_splits)
  note l = del_lookup [OF d [unfolded eqTrueI [OF ok]]]
  have g: "k \<notin> set ks" if "\<not> glob pat k" for k using scan_sound [OF scan] that by blast
  show ?case
  proof (cases "n = 0")
    case True
    then show ?thesis using rest l g scan by (intro exI [of _ "[(r, ks, n)]"]) (auto split: if_splits)
  next
    case False
    with rest Suc.IH obtain tr where tr: "scanned C now pat n tr"
        "\<forall>k. \<not> glob pat k \<longrightarrow> lookup now (cdb r') k = lookup now (cdb r1) k"
        "\<forall>k. lookup now (cdb r') k \<noteq> None \<longrightarrow> lookup now (cdb r1) k = lookup now (cdb r') k
          \<and> (\<forall>ri ks n. (ri, ks, n) \<in> set tr \<longrightarrow> k \<notin> set ks \<and> lookup now (cdb ri) k \<noteq> None)" by metis
    have "scanned C now pat cur ((r, ks, n) # tr)" using tr(1) scan False by simp
    moreover have "\<forall>k. \<not> glob pat k \<longrightarrow> lookup now (cdb r') k = lookup now (cdb r) k"
      using tr(2) l g by simp
    moreover have "lookup now (cdb r) k = lookup now (cdb r') k \<and> k \<notin> set ks" if "lookup now (cdb r') k \<noteq> None" for k
      using tr(3) l that by (metis (full_types))
    ultimately show ?thesis using tr(3) by (intro exI [of _ "(r, ks, n) # tr"]) (metis prod.inject set_ConsD)
  qed
qed simp

lemma ccDo_cases:
  assumes "ccDo C now c r = (ok, r')"
  shows "cdb r' = cdb r \<or> cdb r' = apply_cmd now c (cdb r)"
  using assms do_ok [of now c r r'] do_failed [of now c r r'] by (cases ok) simp_all

lemma ccDo_DEL_at_most:
  assumes "ccDo C now (DEL ks) r = (ok, r')" and "at_most m (cdb r)"
  shows "at_most m (cdb r')"
proof -
  have "cdb r' = cdb r \<or> cdb r' = apply_cmd now (DEL ks) (cdb r)"
    by (rule ccDo_cases [OF assms(1)])
  moreover have "dom (vals (apply_cmd now (DEL ks) (cdb r))) \<subseteq> dom (vals (cdb r))"
    by (auto simp: dom_def)
  ultimately show ?thesis using assms(2) unfolding at_most_def
    by (metis card_mono finite_subset order_trans)
qed

text \<open>A run that has used up its fuel has made as many scans.\<close>

lemma scan_delete_running:
  assumes "scan_delete fuel C now pat cur r = None" and "at_most m (cdb r)"
  shows "\<exists>tr. scan_run C now pat cur tr \<and> length tr = fuel \<and> (\<forall>(r, ks, n) \<in> set tr. at_most m (cdb r))"
  using assms
proof (induction fuel arbitrary: cur r)
  case (Suc fuel)
  obtain ks n where scan: "ccScan C now cur pat r = Some (ks, n)"
    using Suc.prems by (cases "ccScan C now cur pat r") auto
  obtain ok r1 where d: "(if ks \<noteq> [] then ccDo C now (DEL ks) r else (True, r)) = (ok, r1)" by fastforce
  have n: "n \<noteq> 0" and rest: "scan_delete fuel C now pat n r1 = None"
    using Suc.prems(1) d by (auto simp: scan split: if_splits)
  have "at_most m (cdb r1)" using d ccDo_DEL_at_most [of now ks r ok r1 m] Suc.prems(2) by (auto split: if_splits)
  from Suc.IH [OF rest this] obtain tr where "scan_run C now pat n tr" "length tr = fuel"
    "\<forall>(r, ks, n) \<in> set tr. at_most m (cdb r)" by blast
  with n scan Suc.prems(2) show ?case by (intro exI [of _ "(r, ks, n) # tr"]) auto
qed simp

lemma scan_delete_returns:
  assumes "finite (dom (vals (cdb r)))"
  shows "\<exists>fuel res r'. scan_delete fuel C now pat 0 r = Some (res, r')"
proof -
  let ?m = "card (dom (vals (cdb r)))"
  obtain len where len: "\<And>tr. scan_run C now pat 0 tr \<Longrightarrow> \<forall>(r, ks, n) \<in> set tr. at_most ?m (cdb r) \<Longrightarrow> length tr \<le> len"
    using scan_ends by meson
  have "scan_delete (Suc len) C now pat 0 r \<noteq> None"
  proof
    assume "scan_delete (Suc len) C now pat 0 r = None"
    from scan_delete_running [OF this, of ?m] assms obtain tr where
      "scan_run C now pat 0 tr" "length tr = Suc len" "\<forall>(r, ks, n) \<in> set tr. at_most ?m (cdb r)"
      by (auto simp: at_most_def)
    with len [of tr] show False by simp
  qed
  then show ?thesis by fast
qed

text \<open>Whatever happens, an entry that does not match stays and no entry appears or changes.\<close>

lemma scan_delete_frame:
  assumes "scan_delete fuel C now pat cur r = Some (res, r')"
  shows "lookup now (cdb r') k = lookup now (cdb r) k \<or> glob pat k \<and> lookup now (cdb r') k = None"
  using assms
proof (induction fuel arbitrary: cur r)
  case (Suc fuel)
  show ?case
  proof (cases "ccScan C now cur pat r")
    case (Some kn)
    then obtain ks n where scan: "ccScan C now cur pat r = Some (ks, n)" by (cases kn) auto
    obtain ok r1 where d: "(if ks \<noteq> [] then ccDo C now (DEL ks) r else (True, r)) = (ok, r1)" by fastforce
    have "cdb r1 = cdb r \<or> cdb r1 = apply_cmd now (DEL ks) (cdb r)"
      using d ccDo_cases [of now "DEL ks" r ok r1] by (cases "ks = []") simp_all
    then have l: "lookup now (cdb r1) k = lookup now (cdb r) k \<or> glob pat k \<and> lookup now (cdb r1) k = None"
      using scan_sound [OF scan, of k] by (cases "k \<in> set ks") (auto simp: lookup_def)
    from Suc.prems d have "r' = r1 \<or> scan_delete fuel C now pat n r1 = Some (res, r')"
      by (auto simp: scan split: if_splits)
    with l Suc.IH [of n r1] show ?thesis by metis
  qed (use Suc.prems in simp)
qed simp

lemma delete_prefix:
  assumes "valkeyCache_DeletePrefix fuel C now p r = Some (Inr (), r')" and "plain p"
  shows "lookup now (cdb r') k = (if HasPrefix k p then None else lookup now (cdb r) k)"
proof -
  from scan_delete_trace [OF assms(1) [unfolded valkeyCache_DeletePrefix_def]] obtain tr where tr:
    "scanned C now (p @ ''*'') 0 tr" "\<forall>k. \<not> glob (p @ ''*'') k \<longrightarrow> lookup now (cdb r') k = lookup now (cdb r) k"
    "\<forall>k. lookup now (cdb r') k \<noteq> None \<longrightarrow>
      (\<forall>ri ks n. (ri, ks, n) \<in> set tr \<longrightarrow> k \<notin> set ks \<and> lookup now (cdb ri) k \<noteq> None)" by metis
  show ?thesis
  proof (cases "HasPrefix k p")
    case True
    have "lookup now (cdb r') k = None"
    proof (rule ccontr)
      assume "lookup now (cdb r') k \<noteq> None"
      with tr(3) have t: "\<And>ri ks n. (ri, ks, n) \<in> set tr \<Longrightarrow> k \<notin> set ks \<and> lookup now (cdb ri) k \<noteq> None" by blast
      have "\<exists>(r, ks, n) \<in> set tr. k \<in> set ks"
        by (rule scan_complete [OF tr(1)]) (use True glob_prefix [OF assms(2)] t in auto)
      with t show False by blast
    qed
    with True show ?thesis by simp
  qed (use tr(2) glob_prefix [OF assms(2)] in simp)
qed

end

lemma colon_prefix:
  assumes "CHR '':'' \<notin> set c" and "CHR '':'' \<notin> set d" and "c @ CHR '':'' # t = d @ CHR '':'' # u"
  shows "c = d"
  using assms by (induction c arbitrary: d) (auto simp: Cons_eq_append_conv append_eq_Cons_conv)

section \<open>Properties\<close>

text \<open>A trade or order event of a customer takes effect in the cache: afterwards no lookup finds
  any portfolio view (whatever the portfolio) or the orders of this customer, and what is cached
  for every other customer is untouched, customer identifiers being free of colons.\<close>

theorem order_event_evicts:
  assumes "topic = ''events.investment.trade_executed.v1'' \<or> topic = ''events.investment.order_placed.v1''"
    and "plCustomerID p \<noteq> []" and "CHR '':'' \<notin> set (plCustomerID p)"
  shows "fst (cache_GetRaw now (KeyPortfolioWithID (plCustomerID p) q) (handleMessage cache_Delete cache_DeletePrefix topic (Some p) m)) = None
    \<and> fst (cache_GetRaw now (KeyOrders (plCustomerID p)) (handleMessage cache_Delete cache_DeletePrefix topic (Some p) m)) = None
    \<and> (\<forall>d. d \<noteq> plCustomerID p \<and> CHR '':'' \<notin> set d \<longrightarrow>
         fst (cache_GetRaw now (KeyPortfolioWithID d q) (handleMessage cache_Delete cache_DeletePrefix topic (Some p) m))
           = fst (cache_GetRaw now (KeyPortfolioWithID d q) m)
         \<and> fst (cache_GetRaw now (KeyOrders d) (handleMessage cache_Delete cache_DeletePrefix topic (Some p) m))
           = fst (cache_GetRaw now (KeyOrders d) m))"
proof (intro conjI allI impI)
  fix d assume d: "d \<noteq> plCustomerID p \<and> CHR '':'' \<notin> set d"
  have "\<not> HasPrefix (KeyPortfolioWithID d q) (''cache:portfolio:'' @ plCustomerID p @ '':'')"
  proof
    assume "HasPrefix (KeyPortfolioWithID d q) (''cache:portfolio:'' @ plCustomerID p @ '':'')"
    then obtain t where "d = plCustomerID p @ CHR '':'' # t \<or> d @ CHR '':'' # q = plCustomerID p @ CHR '':'' # t"
      by (auto simp: HasPrefix_iff KeyPortfolioWithID_def KeyPortfolio_def split: if_splits)
    with d assms(3) colon_prefix [of d "plCustomerID p" q t] show False by auto
  qed
  moreover have "KeyPortfolioWithID d q \<noteq> KeyPortfolio (plCustomerID p)"
  proof -
    have "d @ CHR '':'' # q \<noteq> plCustomerID p" using assms(3) by (metis in_set_conv_decomp)
    with d show ?thesis by (auto simp: KeyPortfolioWithID_def KeyPortfolio_def)
  qed
  moreover have "KeyPortfolioWithID d q \<noteq> KeyOrders (plCustomerID p)"
    by (simp add: KeyPortfolioWithID_def KeyPortfolio_def KeyOrders_def)
  ultimately show "fst (cache_GetRaw now (KeyPortfolioWithID d q) (handleMessage cache_Delete cache_DeletePrefix topic (Some p) m))
      = fst (cache_GetRaw now (KeyPortfolioWithID d q) m)"
    using memory_cache.order_event(3) [OF assms(1,2)] by blast
  show "fst (cache_GetRaw now (KeyOrders d) (handleMessage cache_Delete cache_DeletePrefix topic (Some p) m))
      = fst (cache_GetRaw now (KeyOrders d) m)"
    by (rule memory_cache.order_event(3) [OF assms(1,2)])
      (use d in \<open>auto simp: KeyOrders_def KeyPortfolio_def HasPrefix_def\<close>)
qed (use memory_cache.order_event(1,2) [OF assms(1,2)] in blast)+

theorem order_event_evicts_witness:
  "let p = \<lparr>plCustomerID = ''c1'', plPortfolioID = ''p9'', plFelineID = []\<rparr>;
       e = \<lparr>edata = Encoded (1::nat), expiresAt = 50\<rparr>;
       m = Map.empty(KeyPortfolioWithID ''c1'' ''p2'' \<mapsto> e, KeyPortfolioWithID ''c2'' ''p2'' \<mapsto> e);
       m' = handleMessage cache_Delete cache_DeletePrefix ''events.investment.order_placed.v1'' (Some p) m
   in fst (cache_GetRaw 7 (KeyPortfolioWithID ''c1'' ''p2'') m) = Some (Encoded 1)
    \<and> fst (cache_GetRaw 7 (KeyPortfolioWithID ''c1'' ''p2'') m') = None
    \<and> fst (cache_GetRaw 7 (KeyPortfolioWithID ''c2'' ''p2'') m') = Some (Encoded 1)"
proof -
  define p where "p = \<lparr>plCustomerID = ''c1'', plPortfolioID = ''p9'', plFelineID = []\<rparr>"
  define e where "e = \<lparr>edata = Encoded (1::nat), expiresAt = 50\<rparr>"
  define m where "m = Map.empty(KeyPortfolioWithID ''c1'' ''p2'' \<mapsto> e, KeyPortfolioWithID ''c2'' ''p2'' \<mapsto> e)"
  have c: "plCustomerID p = ''c1''" by (simp add: p_def)
  note ev = order_event_evicts [of "''events.investment.order_placed.v1''" p 7 "''p2''" m, unfolded c, simplified]
  have m: "fst (cache_GetRaw 7 (KeyPortfolioWithID ''c1'' ''p2'') m) = Some (Encoded 1)"
      "fst (cache_GetRaw 7 (KeyPortfolioWithID ''c2'' ''p2'') m) = Some (Encoded 1)"
    by (simp_all add: cache_GetRaw_fst m_def e_def KeyPortfolioWithID_def KeyPortfolio_def)
  from ev m show ?thesis unfolding Let_def p_def [symmetric] e_def [symmetric] m_def [symmetric] by simp
qed

text \<open>C35: Deleting a prefix in the Valkey server: for every prefix free of glob characters the
  scan loop returns; when it reports success, no entry under the prefix is left and every
  other entry is as before; when it reports an error, entries have at most been removed and
  only under the prefix.\<close>

theorem server_prefix_deletion:
  assumes "cache_server C cdb glob" and "plain p" and "finite (dom (vals (cdb r)))"
  shows "\<exists>fuel res r'. valkeyCache_DeletePrefix fuel C now p r = Some (res, r')
    \<and> (\<forall>k. \<not> HasPrefix k p \<longrightarrow> lookup now (cdb r') k = lookup now (cdb r) k)
    \<and> (\<forall>k. HasPrefix k p \<longrightarrow> lookup now (cdb r') k = None \<or> res \<noteq> Inr () \<and> lookup now (cdb r') k = lookup now (cdb r) k)"
proof -
  from cache_server.scan_delete_returns [OF assms(1,3)] obtain fuel res r' where
    run: "valkeyCache_DeletePrefix fuel C now p r = Some (res, r')"
    unfolding valkeyCache_DeletePrefix_def by blast
  note frame = cache_server.scan_delete_frame [OF assms(1) run [unfolded valkeyCache_DeletePrefix_def]]
  have "lookup now (cdb r') k = None" if "res = Inr ()" "HasPrefix k p" for k
    using cache_server.delete_prefix [OF assms(1) _ assms(2), of fuel now r r' k] run that by simp
  with run frame cache_server.glob_prefix [OF assms(1,2)] show ?thesis by metis
qed

text \<open>A server that scans in one step and does not offer sets.\<close>

fun kv_do :: "time \<Rightarrow> 'v command \<Rightarrow> (string \<times> 'v \<times> time) list \<Rightarrow> bool \<times> (string \<times> 'v \<times> time) list" where
  "kv_do now (SET k v ttl) kv = (True, (k, v, now + grain ttl) # kv)"
| "kv_do now (DEL ks) kv = (True, filter (\<lambda>(k, _). k \<notin> set ks) kv)"
| "kv_do now _ kv = (False, kv)"

definition kv_glob :: "string \<Rightarrow> string \<Rightarrow> bool" where
  "kv_glob pat k = HasPrefix k (butlast pat)"

definition kv_client :: "((string \<times> 'v \<times> time) list, 'v) cache_client" where
  "kv_client = \<lparr>ccGet = (\<lambda>now k kv. Some (case map_of kv k of None \<Rightarrow> None | Some (v, e) \<Rightarrow> if now < e then Some v else None)),
     ccDo = kv_do, ccScan = (\<lambda>now cur pat kv. Some (filter (kv_glob pat) (map fst kv), 0))\<rparr>"

definition kv_db :: "(string \<times> 'v \<times> time) list \<Rightarrow> 'v db" where
  "kv_db kv = \<lparr>vals = map_of kv, sets = Map.empty\<rparr>"

lemma map_of_filter_keys: "map_of (filter (\<lambda>(k, _). k \<notin> S) kv) = (\<lambda>k. if k \<in> S then None else map_of kv k)"
  by (induction kv) auto

interpretation kv_server: cache_server kv_client kv_db kv_glob
proof (unfold_locales, goal_cases)
  case (3 now c r r')
  then show ?case by (cases c) (auto simp: kv_client_def kv_db_def map_of_filter_keys)
next
  case (4 now c r r')
  then show ?case by (cases c) (auto simp: kv_client_def kv_db_def)
next
  case (6 now pat tr k)
  then obtain r ks n where tr: "tr = [(r, ks, n)]" "ks = filter (kv_glob pat) (map fst r)"
    by (cases tr) (auto simp: kv_client_def)
  with 6(3) [of r ks n] have "map_of r k \<noteq> None"
    by (auto simp: lookup_def kv_db_def split: option.splits)
  then have "k \<in> set (map fst r)" by (force dest: map_of_SomeD)
  with tr 6(2) show ?case by auto
next
  case (7 now pat m)
  have "length tr \<le> 1" if "scan_run kv_client now pat 0 tr" for tr
    using that by (cases tr; cases "tl tr") (auto simp: kv_client_def)
  then show ?case by blast
qed (auto simp: kv_client_def kv_db_def kv_glob_def lookup_def split: option.splits)

theorem server_prefix_deletion_witness:
  "\<exists>fuel res r'. valkeyCache_DeletePrefix fuel kv_client 1 ''cache:a:'' [(''cache:a:x'', Encoded (), 9), (''cache:b'', Encoded (), 9)] = Some (res, r')
    \<and> lookup 1 (kv_db r') ''cache:b'' = Some (Encoded ())"
  using server_prefix_deletion [OF kv_server.cache_server_axioms, of "''cache:a:''"
      "[(''cache:a:x'', Encoded (), 9), (''cache:b'', Encoded (), 9)]" 1]
  by (force simp: plain_def kv_db_def lookup_def finite_dom_map_of HasPrefix_def)

end
