(* ===== verification/CustomerPortal.thy ===== *)
theory CustomerPortal
  imports Support Cache
begin

text \<open>
  The customer portal: the handlers of \<open>internal/app/customerbff\<close> for login, registration, portfolios, orders, deposits, keys, webhooks, closing and
  erasure, over the calls of \<open>internal/app/customerbll\<close> that they make (\<open>brokerage.go\<close>, \<open>lifecycle_statements.go\<close>) and the methods of the
  investment core that these reach (\<open>cmd/core-invest-api\<close>). Sessions, cache, broker, bank and core are the components of this
  development; each is reached through a record of the operations that the handlers use. A request body is taken decoded, \<open>None\<close> when it does
  not decode; an answer is a status with a body, or a refusal with its status.
\<close>

section \<open>Messages of the investment core\<close>

record portfolio_message =
  pmPortfolioID :: string
  pmCustomerID :: string
  pmAccountName :: string
  pmTotalBalanceUSD :: float64
  pmCashBalanceUSD :: float64
  pmStatus :: string
  pmCreatedAt :: string

record holding_message =
  hmHoldingID :: string
  hmPortfolioID :: string
  hmSymbol :: string
  hmQuantity :: float64
  hmAvgPriceUSD :: float64
  hmCurrentPriceUSD :: float64
  hmMarketValueUSD :: float64

record key_message =
  kmKeyID :: string
  kmCustomerID :: string
  kmLabel :: string
  kmKeyPrefix :: string
  kmScopes :: "string list"
  kmStatus :: string
  kmCreatedAt :: string

record webhook_message =
  wmWebhookID :: string
  wmCustomerID :: string
  wmTargetURL :: string
  wmEventTypes :: "string list"
  wmSecret :: string
  wmStatus :: string
  wmCreatedAt :: string

record register_message =
  rmCustomerID :: string
  rmEmail :: string
  rmName :: string
  rmZitadelUserID :: string
  rmPortfolioID :: string
  rmLinkedBankAccID :: string
  rmCashBalance :: float64
  rmStatus :: string
  rmCreatedAt :: string

record close_message =
  lmCustomerID :: string
  lmPortfolioID :: string
  lmLiquidatedOrders :: int
  lmLiquidatedProceeds :: float64
  lmFinalCashWithdrawn :: float64
  lmTransferID :: string
  lmDestinationAccountID :: string
  lmAccountStatus :: string
  lmClosedAt :: string

text \<open>The time of an erasure travels as text to the second.\<close>

record certificate_message =
  cgCertificateID :: string
  cgCustomerID :: string
  cgCustomerIDHash :: string
  cgCustomerEmailHash :: string
  cgErasedAt :: time
  cgLegalBasis :: string
  cgSupervisoryAuthority :: string
  cgAnonymizedTables :: "string list"
  cgSessionsPurgedCount :: int
  cgRecordsScrubbedCount :: int
  cgComplianceHash :: string
  cgComplianceStatement :: string
  cgStatus :: string

definition int32 :: "int \<Rightarrow> int" where "int32 n = (n + 2 ^ 31) mod 2 ^ 32 - 2 ^ 31"

definition toProtoPortfolio :: "Portfolio \<Rightarrow> portfolio_message" where
  "toProtoPortfolio p = \<lparr>pmPortfolioID = pfPortfolioID p, pmCustomerID = pfCustomerID p, pmAccountName = pfAccountName p, pmTotalBalanceUSD = pfTotalBalanceUSD p,
     pmCashBalanceUSD = pfCashBalanceUSD p, pmStatus = pfStatus p, pmCreatedAt = time_text (pfCreatedAt p)\<rparr>"

definition toProtoHolding :: "PortfolioHolding \<Rightarrow> holding_message" where
  "toProtoHolding h = \<lparr>hmHoldingID = phHoldingID h, hmPortfolioID = phPortfolioID h, hmSymbol = phSymbol h, hmQuantity = phQuantity h, hmAvgPriceUSD = phAvgPriceUSD h,
     hmCurrentPriceUSD = phCurrentPriceUSD h, hmMarketValueUSD = phMarketValueUSD h\<rparr>"

definition key_out :: "CustomerAPIKey \<Rightarrow> key_message" where
  "key_out k = \<lparr>kmKeyID = akKeyID k, kmCustomerID = akCustomerID k, kmLabel = akName k, kmKeyPrefix = akKeyPrefix k, kmScopes = akPermissions k, kmStatus = akStatus k,
     kmCreatedAt = rfc3339 (akCreatedAt k)\<rparr>"

definition webhook_out :: "WebhookSubscription \<Rightarrow> webhook_message" where
  "webhook_out x = \<lparr>wmWebhookID = whSubscriptionID x, wmCustomerID = whCustomerID x, wmTargetURL = whTargetURL x, wmEventTypes = whEvents x, wmSecret = whSecret x,
     wmStatus = whStatus x, wmCreatedAt = rfc3339 (whCreatedAt x)\<rparr>"

section \<open>Methods of the core\<close>

definition grpc_GetPortfolio ::
    "string list \<Rightarrow> string list \<Rightarrow> time \<Rightarrow> string \<Rightarrow> string \<Rightarrow> mockRepository \<Rightarrow> (portfolio_message option \<times> holding_message list) option \<times> mockRepository" where
  "grpc_GetPortfolio ord hord now portfolioID customerID m =
     (case CoreInvest.GetPortfolio ord now (if portfolioID = [] then customerID else portfolioID) m of
        (Inl _, m') \<Rightarrow> (None, m')
      | (Inr a, m') \<Rightarrow> (Some (case mHeap m' a of
            None \<Rightarrow> (None, [])
          | Some p \<Rightarrow> (Some (toProtoPortfolio p), map toProtoHolding (GetHoldingsByPortfolioID hord (pfPortfolioID p) m'))), m'))"

definition grpc_RegisterCustomer ::
    "(string \<Rightarrow> string) \<Rightarrow> (nat \<Rightarrow> rune_class option) \<Rightarrow> 'k BankClient option \<Rightarrow> time \<Rightarrow> CustomerRegistrationRequest \<Rightarrow> mockRepository \<times> 'k
      \<Rightarrow> register_message option \<times> mockRepository \<times> 'k" where
  "grpc_RegisterCustomer sha uni bank now q st = (case CoreLifecycle.RegisterCustomer sha uni bank now q st of
     (Inl _, st') \<Rightarrow> (None, st')
   | (Inr r, st') \<Rightarrow> (Some \<lparr>rmCustomerID = rrCustomerID r, rmEmail = rrEmail r, rmName = rrCustomerName r, rmZitadelUserID = rrZitadelUserID r,
       rmPortfolioID = rrPortfolioID r, rmLinkedBankAccID = rrLinkedBankAccID r, rmCashBalance = rrStartingBalance r, rmStatus = ''active'', rmCreatedAt = rfc3339 now\<rparr>, st'))"

definition grpc_CloseAndLiquidateAccount ::
    "'b BrokerClient option \<Rightarrow> 'k BankClient option \<Rightarrow> string list \<Rightarrow> time \<Rightarrow> CloseAccountRequest \<Rightarrow> mockRepository \<times> 'b \<times> 'k
      \<Rightarrow> close_message option \<times> mockRepository \<times> 'b \<times> 'k" where
  "grpc_CloseAndLiquidateAccount broker bank ord now q st = (case CloseAndLiquidateAccount broker bank ord now q st of
     (Inl _, st') \<Rightarrow> (None, st')
   | (Inr r, st') \<Rightarrow> (Some \<lparr>lmCustomerID = lqCustomerID r, lmPortfolioID = lqPortfolioID r, lmLiquidatedOrders = int32 (lqLiquidatedPositions r),
       lmLiquidatedProceeds = lqGrossProceedsUSD r, lmFinalCashWithdrawn = lqTransferredToBankUSD r, lmTransferID = lqTransferID r,
       lmDestinationAccountID = lqDestinationAccountID r, lmAccountStatus = lqAccountStatus r, lmClosedAt = rfc3339 (lqSettlementDate r)\<rparr>, st'))"

definition grpc_ExecuteGDPRErasure ::
    "(string \<Rightarrow> string) \<Rightarrow> (string \<Rightarrow> string \<Rightarrow> string) \<Rightarrow> string list \<Rightarrow> string list \<Rightarrow> time \<Rightarrow> string \<Rightarrow> string \<Rightarrow> mockRepository
      \<Rightarrow> certificate_message option \<times> mockRepository" where
  "grpc_ExecuteGDPRErasure sha hmac dord pord now c email m = (case CoreLifecycle.ExecuteGDPRErasure sha hmac dord pord now c email m of
     (Inl _, m') \<Rightarrow> (None, m')
   | (Inr x, m') \<Rightarrow> (Some \<lparr>cgCertificateID = dcCertificateID x, cgCustomerID = c, cgCustomerIDHash = dcCustomerIDHash x, cgCustomerEmailHash = dcCustomerEmailHash x,
       cgErasedAt = wire (dcErasureTimestamp x), cgLegalBasis = dcLegalBasis x, cgSupervisoryAuthority = dcSupervisoryAuthority x,
       cgAnonymizedTables = dcTablesScrubbed x, cgSessionsPurgedCount = int32 (dcSessionsPurgedCount x), cgRecordsScrubbedCount = int32 (dcRecordsScrubbedCount x),
       cgComplianceHash = dcDigitalSignature x, cgComplianceStatement = dcComplianceStatement x, cgStatus = ''erased''\<rparr>, m'))"

definition grpc_GetGDPRErasureCertificate :: "string \<Rightarrow> mockRepository \<Rightarrow> certificate_message option" where
  "grpc_GetGDPRErasureCertificate c m = (case CoreLifecycle.GetGDPRErasureCertificate c m of
     Inl _ \<Rightarrow> None
   | Inr r \<Rightarrow> Some \<lparr>cgCertificateID = gcCertificateID r, cgCustomerID = [], cgCustomerIDHash = gcCustomerIDHash r, cgCustomerEmailHash = gcCustomerEmailHash r,
       cgErasedAt = wire (GDPRCertificateRecord.gcCreatedAt r), cgLegalBasis = gcLegalBasis r, cgSupervisoryAuthority = gcSupervisoryAuthority r,
       cgAnonymizedTables = gcTablesScrubbed r, cgSessionsPurgedCount = int32 (gcSessionsPurgedCount r), cgRecordsScrubbedCount = int32 (gcRecordsScrubbedCount r),
       cgComplianceHash = gcDigitalSignature r, cgComplianceStatement = gcComplianceStatement r, cgStatus = ''erased''\<rparr>)"

definition grpc_CreateAPIKey ::
    "time \<Rightarrow> string \<Rightarrow> string \<Rightarrow> string list \<Rightarrow> mockRepository \<Rightarrow> (key_message option \<times> string) option \<times> mockRepository" where
  "grpc_CreateAPIKey now c label scopes m =
     (case CreateCustomerAPIKey now (Some \<lparr>akKeyID = [], akCustomerID = c, akKeyPrefix = [], akKeyHash = [], akAPIKey = [], akName = label, akStatus = [],
         akPermissions = scopes, akCreatedAt = zeroTime\<rparr>) m of
        (Inl _, m') \<Rightarrow> (None, m')
      | (Inr k, m') \<Rightarrow> (Some (Some (key_out k), akAPIKey k), m'))"

definition grpc_ListAPIKeys :: "string \<Rightarrow> mockRepository \<Rightarrow> key_message list option" where
  "grpc_ListAPIKeys c m = (case ListCustomerAPIKeys c m of Inl _ \<Rightarrow> None | Inr ks \<Rightarrow> Some (map key_out ks))"

definition grpc_RevokeAPIKey :: "string \<Rightarrow> string \<Rightarrow> mockRepository \<Rightarrow> bool \<times> mockRepository" where
  "grpc_RevokeAPIKey c i m = (case RevokeCustomerAPIKey c i m of (Inl _, m') \<Rightarrow> (False, m') | (Inr _, m') \<Rightarrow> (True, m'))"

definition grpc_CreateWebhook ::
    "time \<Rightarrow> string \<Rightarrow> string \<Rightarrow> string list \<Rightarrow> mockRepository \<Rightarrow> webhook_message option option \<times> mockRepository" where
  "grpc_CreateWebhook now c url events m =
     (case CreateWebhookSubscription now (Some \<lparr>whSubscriptionID = [], whCustomerID = c, whTargetURL = url, whEvents = events, whSecret = [], whStatus = [],
         whCreatedAt = zeroTime\<rparr>) m of
        (Inl _, m') \<Rightarrow> (None, m')
      | (Inr x, m') \<Rightarrow> (Some (Some (webhook_out x)), m'))"

definition grpc_ListWebhooks :: "string \<Rightarrow> mockRepository \<Rightarrow> webhook_message list option" where
  "grpc_ListWebhooks c m = (case ListWebhookSubscriptions c m of Inl _ \<Rightarrow> None | Inr xs \<Rightarrow> Some (map webhook_out xs))"

definition grpc_DeleteWebhook :: "string \<Rightarrow> string \<Rightarrow> mockRepository \<Rightarrow> string option \<times> mockRepository" where
  "grpc_DeleteWebhook c i m = (case DeleteWebhookSubscription c i m of (Inl _, m') \<Rightarrow> (None, m') | (Inr _, m') \<Rightarrow> (Some ''deleted'', m'))"

text \<open>
  The calls of the core that the business layer makes for the portal. \<open>None\<close> is an error; a response may lack its portfolio, key or webhook. The core has
  clients of its own for the broker and the bank.
\<close>

record ('b, 'k, 'c) portal_core =
  pcGetPortfolio :: "string \<Rightarrow> string \<Rightarrow> 'c \<Rightarrow> (portfolio_message option \<times> holding_message list) option \<times> 'c"
  pcRegister :: "CustomerRegistrationRequest \<Rightarrow> 'c \<times> 'k \<Rightarrow> register_message option \<times> 'c \<times> 'k"
  pcClose :: "CloseAccountRequest \<Rightarrow> 'c \<times> 'b \<times> 'k \<Rightarrow> close_message option \<times> 'c \<times> 'b \<times> 'k"
  pcErase :: "string \<Rightarrow> string \<Rightarrow> 'c \<Rightarrow> certificate_message option \<times> 'c"
  pcCertificate :: "string \<Rightarrow> 'c \<Rightarrow> certificate_message option"
  pcCreateAPIKey :: "string \<Rightarrow> string \<Rightarrow> string list \<Rightarrow> 'c \<Rightarrow> (key_message option \<times> string) option \<times> 'c"
  pcListAPIKeys :: "string \<Rightarrow> 'c \<Rightarrow> key_message list option"
  pcRevokeAPIKey :: "string \<Rightarrow> string \<Rightarrow> 'c \<Rightarrow> bool \<times> 'c"
  pcCreateWebhook :: "string \<Rightarrow> string \<Rightarrow> string list \<Rightarrow> 'c \<Rightarrow> webhook_message option option \<times> 'c"
  pcListWebhooks :: "string \<Rightarrow> 'c \<Rightarrow> webhook_message list option"
  pcDeleteWebhook :: "string \<Rightarrow> string \<Rightarrow> 'c \<Rightarrow> string option \<times> 'c"

definition memory_portal ::
    "(string \<Rightarrow> string) \<Rightarrow> (string \<Rightarrow> string \<Rightarrow> string) \<Rightarrow> (nat \<Rightarrow> rune_class option) \<Rightarrow> 'b BrokerClient option \<Rightarrow> 'k BankClient option \<Rightarrow> string list \<Rightarrow> time
      \<Rightarrow> ('b, 'k, mockRepository) portal_core" where
  "memory_portal sha hmac uni broker bank ord now = \<lparr>pcGetPortfolio = grpc_GetPortfolio ord ord now, pcRegister = grpc_RegisterCustomer sha uni bank now,
     pcClose = grpc_CloseAndLiquidateAccount broker bank ord now, pcErase = grpc_ExecuteGDPRErasure sha hmac ord ord now, pcCertificate = grpc_GetGDPRErasureCertificate,
     pcCreateAPIKey = grpc_CreateAPIKey now, pcListAPIKeys = grpc_ListAPIKeys, pcRevokeAPIKey = grpc_RevokeAPIKey, pcCreateWebhook = grpc_CreateWebhook now,
     pcListWebhooks = grpc_ListWebhooks, pcDeleteWebhook = grpc_DeleteWebhook\<rparr>"

section \<open>The business layer\<close>

record GetPortfolioResponse =
  gpPortfolioID :: string
  gpCustomerID :: string
  gpCustomerName :: string
  gpAccountName :: string
  gpTotalBalanceUSD :: float64
  gpCashBalanceUSD :: float64
  gpStatus :: string
  gpHoldings :: "holding_message list"
  gpHistoricalPerformance :: "(string \<times> float64) list"

definition bPositions :: "'b AlpacaClient \<Rightarrow> string \<Rightarrow> 'b \<Rightarrow> holding_message list option" where
  "bPositions B portfolioID b = map_option (map (\<lambda>p. \<lparr>hmHoldingID = [], hmPortfolioID = portfolioID, hmSymbol = Symbol p, hmQuantity = Qty p,
     hmAvgPriceUSD = AvgEntryPrice p, hmCurrentPriceUSD = CurrentPrice p, hmMarketValueUSD = MarketValue p\<rparr>)) (brListPositions B portfolioID b)"

definition getHistoricalValuationPoints :: "'b AlpacaClient \<Rightarrow> string \<Rightarrow> 'b \<Rightarrow> (string \<times> float64) list" where
  "getHistoricalValuationPoints B portfolioID b = (case acGetPortfolioHistory B portfolioID ''1M'' b of
     None \<Rightarrow> []
   | Some h \<Rightarrow> if HistTimestamp h \<noteq> [] \<and> length (HistTimestamp h) = length (HistEquity h)
       then map (\<lambda>(ts, x). (fmt_date (ts * second), fdiv (fround (fmul x (Fin 100))) (Fin 100))) (zip (HistTimestamp h) (HistEquity h)) else [])"

definition bll_portfolio_id :: "('b, 'k, 'w, 'c) Server \<Rightarrow> string \<Rightarrow> string \<Rightarrow> 'b \<Rightarrow> string" where
  "bll_portfolio_id S custID portfolioID b =
     (let p = (if portfolioID = [] then (case svBroker S of
                  None \<Rightarrow> [] | Some B \<Rightarrow> (case acListAccounts B b of None \<Rightarrow> [] | Some accs \<Rightarrow> account_of custID accs))
               else portfolioID)
      in if p = [] \<and> custID \<noteq> [] then ''port-'' @ custID else p)"

text \<open>What the broker knows of an account; the customer name of the request goes first, then the one of the account.\<close>

definition broker_view :: "('b, 'k, 'w, 'c) Server \<Rightarrow> string \<Rightarrow> string \<Rightarrow> string \<Rightarrow> 'b \<Rightarrow> GetPortfolioResponse option" where
  "broker_view S custID customerName p b = (case svBroker S of
     None \<Rightarrow> None
   | Some B \<Rightarrow> if p = [] then None
       else (case (acGetAccount B p b, bPositions B p b) of
          (Some acc, Some hs) \<Rightarrow> Some \<lparr>gpPortfolioID = p, gpCustomerID = custID,
            gpCustomerName = (if customerName \<noteq> [] then customerName else if CustomerName acc \<noteq> [] then CustomerName acc else custID),
            gpAccountName = (if BrokerLedger.Account.AccountNumber acc \<noteq> [] then ''Account '' @ BrokerLedger.Account.AccountNumber acc else ''OCI Investment Portfolio''),
            gpTotalBalanceUSD = PortfolioValue acc, gpCashBalanceUSD = Cash acc, gpStatus = AcctStatus acc, gpHoldings = hs,
            gpHistoricalPerformance = getHistoricalValuationPoints B p b\<rparr>
        | _ \<Rightarrow> None))"

definition bll_GetPortfolio ::
    "('b, 'k, 'w, 'c) Server \<Rightarrow> ('b, 'k, 'c) portal_core option \<Rightarrow> string \<Rightarrow> string \<Rightarrow> string \<Rightarrow> ('b, 'k, 'w, 'c) world
      \<Rightarrow> GetPortfolioResponse \<times> ('b, 'k, 'w, 'c) world" where
  "bll_GetPortfolio S P custID portfolioID customerName w =
     (let p = bll_portfolio_id S custID portfolioID (wBroker w);
          empty = \<lparr>gpPortfolioID = p, gpCustomerID = custID, gpCustomerName = (if customerName \<noteq> [] then customerName else custID),
            gpAccountName = ''OCI Investment Portfolio'', gpTotalBalanceUSD = Fin 0, gpCashBalanceUSD = Fin 0, gpStatus = ''active'', gpHoldings = [],
            gpHistoricalPerformance = []\<rparr>
      in case broker_view S custID customerName p (wBroker w) of
           Some r \<Rightarrow> (r, w)
         | None \<Rightarrow> (case P of
             None \<Rightarrow> (empty, w)
           | Some C \<Rightarrow> (case pcGetPortfolio C p custID (wCore w) of
               (Some (Some x, hs), c) \<Rightarrow> (\<lparr>gpPortfolioID = pmPortfolioID x, gpCustomerID = (if pmCustomerID x = [] then custID else pmCustomerID x),
                   gpCustomerName = (if customerName = [] then custID else customerName), gpAccountName = pmAccountName x,
                   gpTotalBalanceUSD = pmTotalBalanceUSD x, gpCashBalanceUSD = pmCashBalanceUSD x, gpStatus = pmStatus x, gpHoldings = hs,
                   gpHistoricalPerformance = []\<rparr>, w\<lparr>wCore := c\<rparr>)
             | (_, c) \<Rightarrow> (empty, w\<lparr>wCore := c\<rparr>))))"

definition bll_RegisterCustomer ::
    "('b, 'k, 'c) portal_core option \<Rightarrow> string \<Rightarrow> time \<Rightarrow> CustomerRegistrationRequest \<Rightarrow> ('b, 'k, 'w, 'c) world \<Rightarrow> (code + register_message) \<times> ('b, 'k, 'w, 'c) world" where
  "bll_RegisterCustomer P uuid now q w = (case P of
     Some C \<Rightarrow> (case pcRegister C q (wCore w, wBank w) of
         (None, c, k) \<Rightarrow> (Inl InvalidArgument, w\<lparr>wCore := c, wBank := k\<rparr>)
       | (Some r, c, k) \<Rightarrow> (Inr r, w\<lparr>wCore := c, wBank := k\<rparr>))
   | None \<Rightarrow> let custID = ''cust-'' @ take 8 uuid
       in (Inr \<lparr>rmCustomerID = custID, rmEmail = rqEmail q, rmName = rqFullName q, rmZitadelUserID = [], rmPortfolioID = ''port-'' @ custID,
             rmLinkedBankAccID = ''acc-mock-1111'', rmCashBalance = Fin 0, rmStatus = ''active'', rmCreatedAt = rfc3339 now\<rparr>, w))"

definition bll_CloseAccount ::
    "('b, 'k, 'c) portal_core option \<Rightarrow> time \<Rightarrow> CloseAccountRequest \<Rightarrow> ('b, 'k, 'w, 'c) world \<Rightarrow> (code + close_message) \<times> ('b, 'k, 'w, 'c) world" where
  "bll_CloseAccount P now q w =
     (if caCustomerID q = [] then (Inl InvalidArgument, w)
      else (case P of
        Some C \<Rightarrow> (case pcClose C q (wCore w, wBroker w, wBank w) of
            (None, c, b, k) \<Rightarrow> (Inl InvalidArgument, w\<lparr>wCore := c, wBroker := b, wBank := k\<rparr>)
          | (Some r, c, b, k) \<Rightarrow> (Inr r, w\<lparr>wCore := c, wBroker := b, wBank := k\<rparr>))
      | None \<Rightarrow> (Inr \<lparr>lmCustomerID = caCustomerID q, lmPortfolioID = caPortfolioID q, lmLiquidatedOrders = 0, lmLiquidatedProceeds = Fin 0, lmFinalCashWithdrawn = Fin 0,
          lmTransferID = [], lmDestinationAccountID = caDestinationAccountID q, lmAccountStatus = ''closed'', lmClosedAt = rfc3339 now\<rparr>, w)))"

text \<open>The certificate that the business layer writes itself.\<close>

definition local_certificate :: "(string \<Rightarrow> string) \<Rightarrow> string \<Rightarrow> time \<Rightarrow> string \<Rightarrow> string \<Rightarrow> certificate_message" where
  "local_certificate sha certID now c email = \<lparr>cgCertificateID = certID, cgCustomerID = c, cgCustomerIDHash = EncodeToString (sha c),
     cgCustomerEmailHash = EncodeToString (sha email), cgErasedAt = wire now, cgLegalBasis = ''GDPR Article 17 - Right to Erasure / Right to be Forgotten'',
     cgSupervisoryAuthority = ''Orange Cat Investments Data Protection Office'',
     cgAnonymizedTables = [''core_invest.investment_portfolios'', ''core_invest.customer_api_keys'', ''core_invest.webhook_subscriptions'', ''core_invest.recurring_deposits''],
     cgSessionsPurgedCount = 1, cgRecordsScrubbedCount = 4, cgComplianceHash = ''hmac-sha256:'' @ take 32 (EncodeToString (sha c)),
     cgComplianceStatement = ''Permanent and irrecoverable erasure of personal data executed in accordance with GDPR Article 17.'', cgStatus = ''erased''\<rparr>"

definition bll_ExecuteGDPRErasure ::
    "(string \<Rightarrow> string) \<Rightarrow> ('b, 'k, 'c) portal_core option \<Rightarrow> string \<Rightarrow> time \<Rightarrow> string \<Rightarrow> string \<Rightarrow> ('b, 'k, 'w, 'c) world
      \<Rightarrow> (code + certificate_message) \<times> ('b, 'k, 'w, 'c) world" where
  "bll_ExecuteGDPRErasure sha P uuid now c email w =
     (if c = [] then (Inl InvalidArgument, w)
      else (case P of
        Some C \<Rightarrow> (case pcErase C c email (wCore w) of (None, s) \<Rightarrow> (Inl Internal, w\<lparr>wCore := s\<rparr>) | (Some x, s) \<Rightarrow> (Inr x, w\<lparr>wCore := s\<rparr>))
      | None \<Rightarrow> (Inr (local_certificate sha (''gdpr-cert-'' @ take 8 uuid) now c email), w)))"

definition bll_GetGDPRCertificate ::
    "(string \<Rightarrow> string) \<Rightarrow> ('b, 'k, 'c) portal_core option \<Rightarrow> time \<Rightarrow> string \<Rightarrow> string \<Rightarrow> string \<Rightarrow> ('b, 'k, 'w, 'c) world \<Rightarrow> code + certificate_message" where
  "bll_GetGDPRCertificate sha P now certID c email w =
     (if certID = [] then Inl InvalidArgument
      else (case (case P of None \<Rightarrow> None | Some C \<Rightarrow> if c = [] then None else pcCertificate C c (wCore w)) of
        Some x \<Rightarrow> Inr x
      | None \<Rightarrow> Inr (local_certificate sha certID now c email)))"

definition bll_ListAPIKeys :: "('b, 'k, 'c) portal_core option \<Rightarrow> string \<Rightarrow> ('b, 'k, 'w, 'c) world \<Rightarrow> key_message list" where
  "bll_ListAPIKeys P c w = (case P of None \<Rightarrow> [] | Some C \<Rightarrow> (case pcListAPIKeys C c (wCore w) of None \<Rightarrow> [] | Some ks \<Rightarrow> ks))"

definition bll_CreateAPIKey ::
    "('b, 'k, 'c) portal_core option \<Rightarrow> string \<Rightarrow> string \<Rightarrow> string list \<Rightarrow> string \<Rightarrow> string \<Rightarrow> ('b, 'k, 'w, 'c) world
      \<Rightarrow> (key_message \<times> string) \<times> ('b, 'k, 'w, 'c) world" where
  "bll_CreateAPIKey P c name permissions apiKey keyPrefix w =
     (let own = (\<lparr>kmKeyID = [], kmCustomerID = c, kmLabel = name, kmKeyPrefix = keyPrefix, kmScopes = permissions, kmStatus = ''active'', kmCreatedAt = []\<rparr>, apiKey)
      in case P of
           None \<Rightarrow> (own, w)
         | Some C \<Rightarrow> (case pcCreateAPIKey C c name permissions (wCore w) of
             (Some (Some k, raw), s) \<Rightarrow> ((k, if raw = [] then apiKey else raw), w\<lparr>wCore := s\<rparr>)
           | (_, s) \<Rightarrow> (own, w\<lparr>wCore := s\<rparr>)))"

definition bll_RevokeAPIKey :: "('b, 'k, 'c) portal_core option \<Rightarrow> string \<Rightarrow> string \<Rightarrow> ('b, 'k, 'w, 'c) world \<Rightarrow> string \<times> ('b, 'k, 'w, 'c) world" where
  "bll_RevokeAPIKey P c i w = (''revoked'', case P of None \<Rightarrow> w | Some C \<Rightarrow> w\<lparr>wCore := snd (pcRevokeAPIKey C c i (wCore w))\<rparr>)"

definition bll_ListWebhooks :: "('b, 'k, 'c) portal_core option \<Rightarrow> string \<Rightarrow> ('b, 'k, 'w, 'c) world \<Rightarrow> webhook_message list" where
  "bll_ListWebhooks P c w = (case P of None \<Rightarrow> [] | Some C \<Rightarrow> (case pcListWebhooks C c (wCore w) of None \<Rightarrow> [] | Some xs \<Rightarrow> xs))"

definition bll_CreateWebhook ::
    "('b, 'k, 'c) portal_core option \<Rightarrow> time \<Rightarrow> string \<Rightarrow> string \<Rightarrow> string list \<Rightarrow> string \<Rightarrow> ('b, 'k, 'w, 'c) world \<Rightarrow> webhook_message \<times> ('b, 'k, 'w, 'c) world" where
  "bll_CreateWebhook P now c url events secret w =
     (let own = \<lparr>wmWebhookID = ''sub-'' @ dec_int now, wmCustomerID = c, wmTargetURL = url, wmEventTypes = events, wmSecret = secret, wmStatus = ''active'',
            wmCreatedAt = rfc3339 now\<rparr>
      in case P of
           None \<Rightarrow> (own, w)
         | Some C \<Rightarrow> (case pcCreateWebhook C c url events (wCore w) of
             (Some (Some x), s) \<Rightarrow> (if wmSecret x = [] then x\<lparr>wmSecret := secret\<rparr> else x, w\<lparr>wCore := s\<rparr>)
           | (_, s) \<Rightarrow> (own, w\<lparr>wCore := s\<rparr>)))"

text \<open>The answer is success with a status.\<close>

definition bll_DeleteWebhook ::
    "('b, 'k, 'c) portal_core option \<Rightarrow> string \<Rightarrow> string \<Rightarrow> ('b, 'k, 'w, 'c) world \<Rightarrow> string option \<times> ('b, 'k, 'w, 'c) world" where
  "bll_DeleteWebhook P c i w = (case P of
     None \<Rightarrow> (Some ''deleted'', w)
   | Some C \<Rightarrow> (case pcDeleteWebhook C c i (wCore w) of
       (None, s) \<Rightarrow> (None, w\<lparr>wCore := s\<rparr>)
     | (Some st, s) \<Rightarrow> (Some (if st = [] then ''deleted'' else st), w\<lparr>wCore := s\<rparr>)))"


section \<open>The portal\<close>

text \<open>The interface \<open>CustomerSessionStore\<close> as far as the handlers use it, and its two implementations.\<close>

record 'r customer_store =
  csGet :: "time \<Rightarrow> string \<Rightarrow> 'r \<Rightarrow> CustomerSession option \<times> 'r"
  csCreate :: "string option \<Rightarrow> time \<Rightarrow> string \<Rightarrow> string \<Rightarrow> string \<Rightarrow> 'r \<Rightarrow> CustomerSession option \<times> 'r"
  csDelete :: "time \<Rightarrow> string \<Rightarrow> 'r \<Rightarrow> 'r"

definition memory_customers :: "CustomerSession memory customer_store" where
  "memory_customers = \<lparr>csGet = (\<lambda>now t s. (memoryCustomer_Get now t s, s)), csCreate = memoryCustomer_Create, csDelete = (\<lambda>now t s. memory_Delete t s)\<rparr>"

definition valkey_customers :: "'r customer_client \<Rightarrow> 'r customer_store" where
  "valkey_customers C = \<lparr>csGet = valkeyCustomer_Get C, csCreate = valkeyCustomer_Create C, csDelete = (\<lambda>now t r. snd (valkeyCustomer_Delete C now t r))\<rparr>"

text \<open>The cache as the handlers use it: an error counts as a miss, a view with a number that is not finite cannot be stored.\<close>

record 'h portal_cache =
  chGet :: "time \<Rightarrow> string \<Rightarrow> 'h \<Rightarrow> GetPortfolioResponse option \<times> 'h"
  chSet :: "time \<Rightarrow> string \<Rightarrow> GetPortfolioResponse \<Rightarrow> duration \<Rightarrow> 'h \<Rightarrow> 'h"
  chDelete :: "string list \<Rightarrow> 'h \<Rightarrow> 'h"
  chDeletePrefix :: "string \<Rightarrow> 'h \<Rightarrow> 'h"

definition finite_holding :: "holding_message \<Rightarrow> bool" where
  "finite_holding h \<longleftrightarrow> list_all finite64 [hmQuantity h, hmAvgPriceUSD h, hmCurrentPriceUSD h, hmMarketValueUSD h]"

definition finite_view :: "GetPortfolioResponse \<Rightarrow> bool" where
  "finite_view v \<longleftrightarrow> finite64 (gpTotalBalanceUSD v) \<and> finite64 (gpCashBalanceUSD v) \<and> list_all finite_holding (gpHoldings v) \<and> list_all (finite64 \<circ> snd) (gpHistoricalPerformance v)"

definition memory_views :: "GetPortfolioResponse memoryCache portal_cache" where
  "memory_views = \<lparr>chGet = (\<lambda>now k m. case cache_Get now k m of (Inr v, m') \<Rightarrow> (v, m') | (Inl _, m') \<Rightarrow> (None, m')),
     chSet = (\<lambda>now k v ttl m. snd (cache_Set now k (if finite_view v then Some (Encoded v) else None) ttl m)),
     chDelete = cache_Delete, chDeletePrefix = cache_DeletePrefix\<rparr>"

text \<open>The portal: the business layer with its access to the core (none when the client is missing), the session store and the optional cache.\<close>

record ('b, 'k, 'w, 'c, 'r, 'h) CustomerBFF =
  cfBLL :: "(('b, 'k, 'w, 'c) Server \<times> ('b, 'k, 'c) portal_core option) option"
  cfSessions :: "'r customer_store"
  cfCache :: "'h portal_cache option"

record ('b, 'k, 'w, 'c, 'r, 'h) portal_world =
  pwWorld :: "('b, 'k, 'w, 'c) world"
  pwSessions :: 'r
  pwCache :: 'h

definition customer_cookies :: "CustomerSession \<Rightarrow> Cookie list" where
  "customer_cookies s = map (\<lambda>n. \<lparr>CookieName = n, CookieValue = SessionID s, HttpOnly = True, Secure = False, SameSiteLax = True, Expires = Some (ExpiresAt s), MaxAge = 0\<rparr>)
     [''customer_session'', ''__Host-customer-session'']"

record login_form =
  lfPersona :: string
  lfCustomerID :: string
  lfName :: string
  lfEmail :: string

text \<open>Who a login form stands for: identifier, name and address, the last two possibly empty.\<close>

definition login_identity :: "login_form \<Rightarrow> (string \<times> string \<times> string) option" where
  "login_identity q =
     (if lfCustomerID q \<noteq> [] then Some (lfCustomerID q, lfName q, lfEmail q)
      else if lfEmail q \<noteq> []
      then let name = (if lfName q = [] then hd (Split (CHR ''@'') (lfEmail q)) else lfName q)
           in Some (''cust-'' @ map (\<lambda>c. if c = CHR '' '' then CHR ''-'' else c) name, name, lfEmail q)
      else if lfPersona q \<noteq> [] then Some (''cust-'' @ lfPersona q, lfPersona q, lfPersona q @ ''@oci.local'')
      else None)"

text \<open>A body that does not decode leaves the fields that were read before the error; \<open>q\<close> is the form after decoding.\<close>

definition handleLogin ::
    "('b, 'k, 'w, 'c, 'r, 'h) CustomerBFF \<Rightarrow> string option \<Rightarrow> string option \<Rightarrow> time \<Rightarrow> login_form \<Rightarrow> ('b, 'k, 'w, 'c, 'r, 'h) portal_world
      \<Rightarrow> (CustomerSession http \<times> Cookie list) \<times> ('b, 'k, 'w, 'c, 'r, 'h) portal_world" where
  "handleLogin F token_bytes csrf_bytes now q pw = (case login_identity q of
     None \<Rightarrow> ((Refuse 400, []), pw)
   | Some (custID, name0, email0) \<Rightarrow>
       let (name1, w) = (case cfBLL F of
              None \<Rightarrow> (name0, pwWorld pw)
            | Some (S, P) \<Rightarrow> (case bll_GetPortfolio S P custID [] [] (pwWorld pw) of
                (p, w) \<Rightarrow> (if name0 = [] \<and> gpCustomerName p \<noteq> [] then gpCustomerName p else name0, w)));
           name = (if name1 = [] then custID else name1);
           email = (if email0 = [] then custID @ ''@oci.local'' else email0)
       in case csCreate (cfSessions F) token_bytes now custID name email (pwSessions pw) of
            (None, s) \<Rightarrow> ((Refuse 500, []), pw\<lparr>pwWorld := w, pwSessions := s\<rparr>)
          | (Some sess, s) \<Rightarrow>
              (case GenerateRandomToken csrf_bytes of
                 None \<Rightarrow> (Refuse 500, customer_cookies sess)
               | Some t \<Rightarrow> (Reply 200 sess, customer_cookies sess @ [SetCSRFCookie ''csrf_token'' t]),
               pw\<lparr>pwWorld := w, pwSessions := s\<rparr>))"

definition delete_cookie_session :: "('b, 'k, 'w, 'c, 'r, 'h) CustomerBFF \<Rightarrow> time \<Rightarrow> request \<Rightarrow> string \<Rightarrow> 'r \<Rightarrow> 'r" where
  "delete_cookie_session F now r name s = (case cookie r name of None \<Rightarrow> s | Some v \<Rightarrow> csDelete (cfSessions F) now v s)"

definition handleLogout ::
    "('b, 'k, 'w, 'c, 'r, 'h) CustomerBFF \<Rightarrow> time \<Rightarrow> request \<Rightarrow> ('b, 'k, 'w, 'c, 'r, 'h) portal_world \<Rightarrow> Cookie list \<times> ('b, 'k, 'w, 'c, 'r, 'h) portal_world" where
  "handleLogout F now r pw = ([cleared_cookie ''customer_session'', cleared_cookie ''__Host-customer-session''],
     pw\<lparr>pwSessions := delete_cookie_session F now r ''__Host-customer-session'' (delete_cookie_session F now r ''customer_session'' (pwSessions pw))\<rparr>)"

definition handleRegister ::
    "('b, 'k, 'w, 'c, 'r, 'h) CustomerBFF \<Rightarrow> string \<Rightarrow> string option \<Rightarrow> string option \<Rightarrow> time \<Rightarrow> CustomerRegistrationRequest option \<Rightarrow> ('b, 'k, 'w, 'c, 'r, 'h) portal_world
      \<Rightarrow> ((CustomerSession \<times> register_message) http \<times> Cookie list) \<times> ('b, 'k, 'w, 'c, 'r, 'h) portal_world" where
  "handleRegister F uuid token_bytes csrf_bytes now form pw = (case form of
     None \<Rightarrow> ((Refuse 400, []), pw)
   | Some q \<Rightarrow> if length (rqPassword q) < 8 then ((Refuse 400, []), pw)
       else (case cfBLL F of
          None \<Rightarrow> ((Refuse 503, []), pw)
        | Some (S, P) \<Rightarrow> (case bll_RegisterCustomer P uuid now q (pwWorld pw) of
            (Inl _, w) \<Rightarrow> ((Refuse 400, []), pw\<lparr>pwWorld := w\<rparr>)
          | (Inr r, w) \<Rightarrow>
              (case csCreate (cfSessions F) token_bytes now (if rmCustomerID r = [] then rqEmail q else rmCustomerID r)
                  (if rmName r = [] then rqFullName q else rmName r) (if rmEmail r = [] then rqEmail q else rmEmail r) (pwSessions pw) of
                 (None, s) \<Rightarrow> ((Refuse 500, []), pw\<lparr>pwWorld := w, pwSessions := s\<rparr>)
               | (Some sess, s) \<Rightarrow> ((Reply 201 (sess, r), customer_cookies sess @ (case GenerateRandomToken csrf_bytes of None \<Rightarrow> [] | Some t \<Rightarrow> [SetCSRFCookie ''csrf_token'' t])),
                   pw\<lparr>pwWorld := w, pwSessions := s\<rparr>)))))"

definition handleGetSession :: "CustomerSession option \<Rightarrow> CustomerSession http" where
  "handleGetSession ctx = (case ctx of None \<Rightarrow> Refuse 401 | Some s \<Rightarrow> Reply 200 s)"

definition evict :: "('b, 'k, 'w, 'c, 'r, 'h) CustomerBFF \<Rightarrow> string list \<Rightarrow> 'h \<Rightarrow> 'h" where
  "evict F keys h = (case cfCache F of None \<Rightarrow> h | Some C \<Rightarrow> chDelete C keys h)"

text \<open>\<open>q\<close> holds portfolio and destination account as far as the body decoded.\<close>

definition handleCloseAccount ::
    "('b, 'k, 'w, 'c, 'r, 'h) CustomerBFF \<Rightarrow> time \<Rightarrow> CustomerSession option \<Rightarrow> string \<times> string \<Rightarrow> ('b, 'k, 'w, 'c, 'r, 'h) portal_world
      \<Rightarrow> close_message http \<times> ('b, 'k, 'w, 'c, 'r, 'h) portal_world" where
  "handleCloseAccount F now ctx q pw = (case ctx of
     None \<Rightarrow> (Refuse 401, pw)
   | Some sess \<Rightarrow> (case cfBLL F of
       None \<Rightarrow> (Refuse 503, pw)
     | Some (S, P) \<Rightarrow> (case bll_CloseAccount P now \<lparr>caCustomerID = CustomerID sess, caPortfolioID = fst q, caDestinationAccountID = snd q\<rparr> (pwWorld pw) of
         (Inl _, w) \<Rightarrow> (Refuse 400, pw\<lparr>pwWorld := w\<rparr>)
       | (Inr r, w) \<Rightarrow> (Reply 200 r, pw\<lparr>pwWorld := w, pwCache := evict F [KeyPortfolio (CustomerID sess), KeyOrders (CustomerID sess)] (pwCache pw)\<rparr>))))"

definition certificate_model :: "certificate_message \<Rightarrow> GDPRDeletionCertificate" where
  "certificate_model x = \<lparr>dcCertificateID = cgCertificateID x, dcCustomerIDHash = cgCustomerIDHash x, dcCustomerEmailHash = cgCustomerEmailHash x, dcErasureTimestamp = cgErasedAt x,
     dcLegalBasis = cgLegalBasis x, dcSupervisoryAuthority = cgSupervisoryAuthority x, dcTablesScrubbed = cgAnonymizedTables x,
     dcSessionsPurgedCount = cgSessionsPurgedCount x, dcRecordsScrubbedCount = cgRecordsScrubbedCount x, dcDigitalSignature = cgComplianceHash x,
     dcComplianceStatement = cgComplianceStatement x\<rparr>"

definition handleGDPRErasure ::
    "(string \<Rightarrow> string) \<Rightarrow> ('b, 'k, 'w, 'c, 'r, 'h) CustomerBFF \<Rightarrow> string \<Rightarrow> time \<Rightarrow> CustomerSession option \<Rightarrow> ('b, 'k, 'w, 'c, 'r, 'h) portal_world
      \<Rightarrow> GDPRDeletionCertificate http \<times> ('b, 'k, 'w, 'c, 'r, 'h) portal_world" where
  "handleGDPRErasure sha F uuid now ctx pw = (case ctx of
     None \<Rightarrow> (Refuse 401, pw)
   | Some sess \<Rightarrow> (case cfBLL F of
       None \<Rightarrow> (Refuse 503, pw)
     | Some (S, P) \<Rightarrow> (case bll_ExecuteGDPRErasure sha P uuid now (CustomerID sess) (Email sess) (pwWorld pw) of
         (Inl _, w) \<Rightarrow> (Refuse 500, pw\<lparr>pwWorld := w\<rparr>)
       | (Inr x, w) \<Rightarrow> (Reply 200 (certificate_model x), pw\<lparr>pwWorld := w, pwSessions := csDelete (cfSessions F) now (SessionID sess) (pwSessions pw)\<rparr>))))"

definition handleGetGDPRCertificate ::
    "(string \<Rightarrow> string) \<Rightarrow> ('b, 'k, 'w, 'c, 'r, 'h) CustomerBFF \<Rightarrow> time \<Rightarrow> string \<Rightarrow> ('b, 'k, 'w, 'c, 'r, 'h) portal_world \<Rightarrow> GDPRDeletionCertificate http" where
  "handleGetGDPRCertificate sha F now i pw =
     (if i = [] then Refuse 400
      else (case cfBLL F of
        None \<Rightarrow> Refuse 503
      | Some (S, P) \<Rightarrow> (case bll_GetGDPRCertificate sha P now i [] [] (pwWorld pw) of Inl _ \<Rightarrow> Refuse 404 | Inr x \<Rightarrow> Reply 200 (certificate_model x))))"

section \<open>Portfolios, deposits and orders\<close>

text \<open>The answer of a view: the body, or none when the client already has it or when the view has a number that cannot be encoded. \<open>json\<close> is the text of a
  view.\<close>

definition answer_view :: "(string \<Rightarrow> string) \<Rightarrow> (GetPortfolioResponse \<Rightarrow> string) \<Rightarrow> request \<Rightarrow> GetPortfolioResponse \<Rightarrow> GetPortfolioResponse option http" where
  "answer_view sha json r v =
     (if \<not> finite_view v then Reply 200 None else if HandleConditionalETag sha r (json v) then Reply 304 None else Reply 200 (Some v))"

definition handleGetPortfolio ::
    "(string \<Rightarrow> string) \<Rightarrow> (GetPortfolioResponse \<Rightarrow> string) \<Rightarrow> ('b, 'k, 'w, 'c, 'r, 'h) CustomerBFF \<Rightarrow> time \<Rightarrow> CustomerSession option \<Rightarrow> request
      \<Rightarrow> ('b, 'k, 'w, 'c, 'r, 'h) portal_world \<Rightarrow> GetPortfolioResponse option http \<times> ('b, 'k, 'w, 'c, 'r, 'h) portal_world" where
  "handleGetPortfolio sha json F now ctx r pw = (case ctx of
     None \<Rightarrow> (Refuse 401, pw)
   | Some sess \<Rightarrow> if CustomerID sess = [] then (Refuse 401, pw)
       else
         let portfolioID = (if Query r ''portfolio_id'' = [] then ''port-'' @ CustomerID sess else Query r ''portfolio_id'');
             key = KeyPortfolioWithID (CustomerID sess) portfolioID;
             (hit, h) = (case cfCache F of None \<Rightarrow> (None, pwCache pw) | Some C \<Rightarrow> chGet C now key (pwCache pw))
         in case hit of
              Some v \<Rightarrow> (answer_view sha json r v, pw\<lparr>pwCache := h\<rparr>)
            | None \<Rightarrow> (case cfBLL F of
                None \<Rightarrow> (Refuse 503, pw\<lparr>pwCache := h\<rparr>)
              | Some (S, P) \<Rightarrow> (case bll_GetPortfolio S P (CustomerID sess) portfolioID [] (pwWorld pw) of
                  (p, w) \<Rightarrow>
                    let v = (if Name sess \<noteq> [] then p\<lparr>gpCustomerName := Name sess\<rparr> else p)
                    in (answer_view sha json r v,
                        pw\<lparr>pwWorld := w, pwCache := (case cfCache F of None \<Rightarrow> h | Some C \<Rightarrow> chSet C now key v (30 * second) h)\<rparr>))))"

record deposit_form =
  dfPortfolioID :: string
  dfAmountUSD :: float64
  dfFrequency :: string
  dfBankAccount :: string
  dfAccountID :: string

definition handleCreateDeposit ::
    "('b, 'k, 'w, 'c, 'r, 'h) CustomerBFF \<Rightarrow> string \<Rightarrow> string \<Rightarrow> time \<Rightarrow> CustomerSession option \<Rightarrow> deposit_form option \<Rightarrow> ('b, 'k, 'w, 'c, 'r, 'h) portal_world
      \<Rightarrow> InitiateACHDepositResponse http \<times> ('b, 'k, 'w, 'c, 'r, 'h) portal_world" where
  "handleCreateDeposit F uuid eventID now ctx form pw = (case ctx of
     None \<Rightarrow> (Refuse 401, pw)
   | Some sess \<Rightarrow> (case form of
       None \<Rightarrow> (Refuse 400, pw)
     | Some q \<Rightarrow> if fle (dfAmountUSD q) (Fin 0) then (Refuse 400, pw)
         else (case cfBLL F of
            None \<Rightarrow> (Refuse 503, pw)
          | Some (S, P) \<Rightarrow> (case InitiateACHDeposit S now uuid eventID \<lparr>iqCustomerID = CustomerID sess, iqPortfolioID = dfPortfolioID q, iqAccountID = [], iqBankAccount = [],
                iqAmountUSD = dfAmountUSD q, iqFrequency = (if dfFrequency q = [] then ''one_time'' else dfFrequency q)\<rparr> (pwWorld pw) of
              (Inl _, w) \<Rightarrow> (Refuse 400, pw\<lparr>pwWorld := w\<rparr>)
            | (Inr r, w) \<Rightarrow> (Reply 201 r, pw\<lparr>pwWorld := w,
                pwCache := (if CustomerID sess \<noteq> [] then evict F [KeyPortfolio (CustomerID sess)] (pwCache pw) else pwCache pw)\<rparr>)))))"

definition handleGetBankAccounts ::
    "('b, 'k, 'w, 'c, 'r, 'h) CustomerBFF \<Rightarrow> CustomerSession option \<Rightarrow> ('b, 'k, 'w, 'c, 'r, 'h) portal_world \<Rightarrow> LinkedBankAccount list http" where
  "handleGetBankAccounts F ctx pw = (case ctx of
     None \<Rightarrow> Refuse 401
   | Some sess \<Rightarrow> if CustomerID sess = [] then Refuse 401
       else (case cfBLL F of
          None \<Rightarrow> Refuse 503
        | Some (S, P) \<Rightarrow> (case ListBankAccounts S (CustomerID sess) (pwWorld pw) of Inl _ \<Rightarrow> Refuse 500 | Inr as \<Rightarrow> Reply 200 as)))"

record order_form =
  ofPortfolioID :: string
  ofSymbol :: string
  ofSide :: string
  ofQuantity :: float64
  ofOrderType :: string
  ofPrice :: float64

definition portal_order :: "CustomerSession \<Rightarrow> order_form \<Rightarrow> ValidateAndExecuteOrderRequest" where
  "portal_order sess q = \<lparr>vqCustomerID = CustomerID sess, vqPortfolioID = (if ofPortfolioID q = [] then ''port-'' @ CustomerID sess else ofPortfolioID q),
     vqSymbol = ToUpper (TrimSpace (ofSymbol q)), vqSide = ToLower (TrimSpace (ofSide q)), vqQuantity = ofQuantity q,
     vqOrderType = (if ofOrderType q = [] then ''market'' else ofOrderType q), vqLimitPrice = (if fle (ofPrice q) (Fin 0) then lit 224.30 else ofPrice q),
     vqStopLoss = Fin 0, vqTakeProfit = Fin 0, vqFelineID = []\<rparr>"

definition handleCreateOrder ::
    "('b, 'k, 'w, 'c, 'r, 'h) CustomerBFF \<Rightarrow> string \<Rightarrow> string \<Rightarrow> time \<Rightarrow> CustomerSession option \<Rightarrow> order_form option \<Rightarrow> ('b, 'k, 'w, 'c, 'r, 'h) portal_world
      \<Rightarrow> ValidateAndExecuteOrderResponse http \<times> ('b, 'k, 'w, 'c, 'r, 'h) portal_world" where
  "handleCreateOrder F uuid eventID now ctx form pw = (case ctx of
     None \<Rightarrow> (Refuse 401, pw)
   | Some sess \<Rightarrow> (case form of
       None \<Rightarrow> (Refuse 400, pw)
     | Some q \<Rightarrow>
         let req = portal_order sess q
         in if vqSymbol req = [] \<or> (vqSide req \<noteq> ''buy'' \<and> vqSide req \<noteq> ''sell'') \<or> fle (ofQuantity q) (Fin 0) then (Refuse 400, pw)
            else (case cfBLL F of
               None \<Rightarrow> (Refuse 503, pw)
             | Some (S, P) \<Rightarrow> (case ValidateAndExecuteOrder S now uuid eventID req (pwWorld pw) of
                 (Inl _, w) \<Rightarrow> (Refuse 400, pw\<lparr>pwWorld := w\<rparr>)
               | (Inr r, w) \<Rightarrow> (Reply 200 r, pw\<lparr>pwWorld := w, pwCache := (case cfCache F of
                     None \<Rightarrow> pwCache pw
                   | Some C \<Rightarrow> if CustomerID sess = [] then pwCache pw
                       else chDeletePrefix C (''cache:portfolio:'' @ CustomerID sess)
                         (chDelete C [KeyPortfolio (CustomerID sess), KeyOrders (CustomerID sess)] (pwCache pw)))\<rparr>)))))"

section \<open>Keys and webhooks\<close>

definition handleGetAPIKeys ::
    "('b, 'k, 'w, 'c, 'r, 'h) CustomerBFF \<Rightarrow> CustomerSession option \<Rightarrow> ('b, 'k, 'w, 'c, 'r, 'h) portal_world \<Rightarrow> key_message list http" where
  "handleGetAPIKeys F ctx pw = (case ctx of
     None \<Rightarrow> Refuse 401
   | Some sess \<Rightarrow> if CustomerID sess = [] then Refuse 401
       else (case cfBLL F of None \<Rightarrow> Refuse 503 | Some (S, P) \<Rightarrow> Reply 200 (bll_ListAPIKeys P (CustomerID sess) (pwWorld pw))))"

text \<open>The form of a new key: its two names and its permissions.\<close>

definition handleCreateAPIKey ::
    "('b, 'k, 'w, 'c, 'r, 'h) CustomerBFF \<Rightarrow> CustomerSession option \<Rightarrow> (string \<times> string \<times> string list) option \<Rightarrow> ('b, 'k, 'w, 'c, 'r, 'h) portal_world
      \<Rightarrow> (key_message \<times> string) http \<times> ('b, 'k, 'w, 'c, 'r, 'h) portal_world" where
  "handleCreateAPIKey F ctx form pw = (case ctx of
     None \<Rightarrow> (Refuse 401, pw)
   | Some sess \<Rightarrow> (case form of
       None \<Rightarrow> (Refuse 400, pw)
     | Some (name, keyName, permissions) \<Rightarrow>
         let n1 = (if name = [] then keyName else name); n2 = (if n1 = [] then ''Default API Key'' else n1)
         in case cfBLL F of
              None \<Rightarrow> (Refuse 503, pw)
            | Some (S, P) \<Rightarrow> (case bll_CreateAPIKey P (CustomerID sess) n2 permissions [] [] (pwWorld pw) of (r, w) \<Rightarrow> (Reply 201 r, pw\<lparr>pwWorld := w\<rparr>))))"

definition handleRevokeAPIKey ::
    "('b, 'k, 'w, 'c, 'r, 'h) CustomerBFF \<Rightarrow> CustomerSession option \<Rightarrow> string \<Rightarrow> ('b, 'k, 'w, 'c, 'r, 'h) portal_world
      \<Rightarrow> string http \<times> ('b, 'k, 'w, 'c, 'r, 'h) portal_world" where
  "handleRevokeAPIKey F ctx i pw = (case ctx of
     None \<Rightarrow> (Refuse 401, pw)
   | Some sess \<Rightarrow> if i = [] then (Refuse 400, pw)
       else (case cfBLL F of
          None \<Rightarrow> (Refuse 503, pw)
        | Some (S, P) \<Rightarrow> (case bll_RevokeAPIKey P (CustomerID sess) i (pwWorld pw) of (r, w) \<Rightarrow> (Reply 200 r, pw\<lparr>pwWorld := w\<rparr>))))"

definition handleGetWebhooks ::
    "('b, 'k, 'w, 'c, 'r, 'h) CustomerBFF \<Rightarrow> CustomerSession option \<Rightarrow> ('b, 'k, 'w, 'c, 'r, 'h) portal_world \<Rightarrow> webhook_message list http" where
  "handleGetWebhooks F ctx pw = (case ctx of
     None \<Rightarrow> Refuse 401
   | Some sess \<Rightarrow> if CustomerID sess = [] then Refuse 401
       else (case cfBLL F of None \<Rightarrow> Refuse 503
         | Some (S, P) \<Rightarrow> Reply 200 (map (\<lambda>x. x\<lparr>wmSecret := []\<rparr>) (bll_ListWebhooks P (CustomerID sess) (pwWorld pw)))))"

text \<open>The form of a new webhook: \<open>url\<close>, \<open>target_url\<close> and the events; \<open>bytes\<close> are the random bytes of its secret.\<close>

definition handleCreateWebhook ::
    "('b, 'k, 'w, 'c, 'r, 'h) CustomerBFF \<Rightarrow> string \<Rightarrow> time \<Rightarrow> CustomerSession option \<Rightarrow> (string \<times> string \<times> string list) option \<Rightarrow> ('b, 'k, 'w, 'c, 'r, 'h) portal_world
      \<Rightarrow> webhook_message http \<times> ('b, 'k, 'w, 'c, 'r, 'h) portal_world" where
  "handleCreateWebhook F bytes now ctx form pw = (case ctx of
     None \<Rightarrow> (Refuse 401, pw)
   | Some sess \<Rightarrow> (case form of
       None \<Rightarrow> (Refuse 400, pw)
     | Some (url, targetURL, events) \<Rightarrow>
         let u = (if targetURL = [] then url else targetURL); secret = ''whsec_'' @ EncodeToString bytes
         in if u = [] then (Refuse 400, pw)
            else (case cfBLL F of
               None \<Rightarrow> (Refuse 503, pw)
             | Some (S, P) \<Rightarrow> (case bll_CreateWebhook P now (CustomerID sess) u events secret (pwWorld pw) of
                 (x, w) \<Rightarrow> (Reply 201 (x\<lparr>wmSecret := secret\<rparr>), pw\<lparr>pwWorld := w\<rparr>)))))"

definition handleDeleteWebhook ::
    "('b, 'k, 'w, 'c, 'r, 'h) CustomerBFF \<Rightarrow> CustomerSession option \<Rightarrow> string \<Rightarrow> ('b, 'k, 'w, 'c, 'r, 'h) portal_world
      \<Rightarrow> string http \<times> ('b, 'k, 'w, 'c, 'r, 'h) portal_world" where
  "handleDeleteWebhook F ctx i pw = (case ctx of
     None \<Rightarrow> (Refuse 401, pw)
   | Some sess \<Rightarrow> if i = [] then (Refuse 400, pw)
       else (case cfBLL F of
          None \<Rightarrow> (Refuse 503, pw)
        | Some (S, P) \<Rightarrow> (case bll_DeleteWebhook P (CustomerID sess) i (pwWorld pw) of
            (None, w) \<Rightarrow> (Refuse 500, pw\<lparr>pwWorld := w\<rparr>) | (Some _, w) \<Rightarrow> (Reply 200 i, pw\<lparr>pwWorld := w\<rparr>))))"


section \<open>The contract of a session store\<close>

text \<open>\<open>shown r now t\<close> is the session that a lookup of \<open>t\<close> at time \<open>now\<close> would find.\<close>

locale customer_sessions =
  fixes S :: "'r customer_store" and shown :: "'r \<Rightarrow> time \<Rightarrow> string \<Rightarrow> CustomerSession option"
  assumes get_shown: "fst (csGet S now t r) = shown r now t"
    and create_result: "fst (csCreate S (Some bs) now c n e r) = Some (new_customer_session bs now c n e)"
    and create_shown: "shown (snd (csCreate S (Some bs) now c n e r)) now' (SessionID (new_customer_session bs now c n e))
      = (if now' \<le> now + 24 * hour then Some (new_customer_session bs now c n e) else None)"
    and delete_shown: "shown (csDelete S now t r) now' t' = (if t' = t then None else shown r now' t')"
begin

lemma login_result:
  assumes "cfSessions F = S" and "login_identity q = Some (c, n, e)"
  shows "\<exists>sess cs pw'. handleLogin F (Some bs) (Some zs) now q pw = ((Reply 200 sess, cs), pw') \<and> CustomerID sess = c \<and> SessionID sess \<noteq> []
    \<and> (\<forall>t. shown (pwSessions pw') t (SessionID sess) = (if t \<le> now + 24 * hour then Some sess else None))"
proof -
  define up where "up = (case cfBLL F of None \<Rightarrow> (n, pwWorld pw) | Some (S, P) \<Rightarrow> (case bll_GetPortfolio S P c [] [] (pwWorld pw) of
      (p, w) \<Rightarrow> (if n = [] \<and> gpCustomerName p \<noteq> [] then gpCustomerName p else n, w)))"
  obtain name w where u: "up = (name, w)" by (cases up)
  define nm where "nm = (if name = [] then c else name)"
  define em where "em = (if e = [] then c @ ''@oci.local'' else e)"
  define x where "x = new_customer_session bs now c nm em"
  obtain s' where k: "csCreate S (Some bs) now c nm em (pwSessions pw) = (Some x, s')"
    using create_result [of bs now c nm em "pwSessions pw"] unfolding x_def [symmetric] by (cases "csCreate S (Some bs) now c nm em (pwSessions pw)") simp
  have "shown s' t (SessionID x) = (if t \<le> now + 24 * hour then Some x else None)" for t
    using create_shown [of bs now c nm em "pwSessions pw" t] k by (simp add: x_def)
  moreover have "handleLogin F (Some bs) (Some zs) now q pw
      = ((Reply 200 x, customer_cookies x @ [SetCSRFCookie ''csrf_token'' (EncodeToString zs)]), pw\<lparr>pwWorld := w, pwSessions := s'\<rparr>)"
    using assms k by (simp add: handleLogin_def up_def [symmetric] u nm_def [symmetric] em_def [symmetric] GenerateRandomToken_def)
  ultimately show ?thesis by (auto simp: x_def new_customer_session_def)
qed

lemma admitted:
  assumes "session_cookie ''__Host-customer-session'' ''customer_session'' r = SessionID sess" and "SessionID sess \<noteq> []" and "shown s t (SessionID sess) = Some sess"
  shows "fst (fst (CustomerSessionAuthMiddleware (csGet S t) (Some zs) r s)) = Next sess"
proof -
  obtain s' where "csGet S t (SessionID sess) s = (Some sess, s')" using get_shown [of t "SessionID sess" s] assms(3) by (metis prod.collapse)
  then show ?thesis
    using assms(1,2) by (simp add: CustomerSessionAuthMiddleware_def session_token_def GenerateRandomToken_def Let_def)
qed

lemma logged_out:
  assumes "cfSessions F = S" and "session_cookie ''__Host-customer-session'' ''customer_session'' r = t" and "t \<noteq> []"
  shows "\<exists>m. fst (fst (CustomerSessionAuthMiddleware (csGet S now') z r (pwSessions (snd (handleLogout F now r pw))))) = Reject 401 m"
proof -
  have "\<exists>n \<in> {''customer_session'', ''__Host-customer-session''}. cookie r n = Some t"
    using assms(2,3) by (auto simp: session_cookie_def cookie_value_def split: if_splits option.splits)
  then have "shown (pwSessions (snd (handleLogout F now r pw))) now' t = None"
    using assms(1) by (auto simp: handleLogout_def delete_cookie_session_def delete_shown split: option.splits)
  then obtain s' where "csGet S now' t (pwSessions (snd (handleLogout F now r pw))) = (None, s')"
    using get_shown [of now' t "pwSessions (snd (handleLogout F now r pw))"] by (metis prod.collapse)
  then show ?thesis using assms(2,3)
    by (simp add: CustomerSessionAuthMiddleware_def session_token_def Let_def)
qed

end

interpretation memory_sessions: customer_sessions memory_customers "\<lambda>r now t. memoryCustomer_Get now t r"
  by unfold_locales (auto simp: memory_customers_def memoryCustomer_Get_def memoryCustomer_Create_def memory_Get_def memory_SetSession_def memory_Delete_def customer_def
      new_customer_session_def Let_def)

section \<open>Properties\<close>

text \<open>C9: Every login form that names a customer, by identifier, address or persona, opens a session of this customer; nothing else is asked for. For one day a request
  with the session cookie is admitted as this customer, and after a logout with this cookie it is rejected.\<close>

theorem portal_session:
  assumes "cfSessions F = memory_customers" and "login_identity q = Some (c, n, e)"
  shows "\<exists>sess cs pw'. handleLogin F (Some bs) (Some zs) now q pw = ((Reply 200 sess, cs), pw') \<and> CustomerID sess = c
    \<and> (\<forall>r t ys. session_cookie ''__Host-customer-session'' ''customer_session'' r = SessionID sess \<longrightarrow>
         (t \<le> now + 24 * hour \<longrightarrow> fst (fst (CustomerSessionAuthMiddleware (csGet (cfSessions F) t) (Some ys) r (pwSessions pw'))) = Next sess)
         \<and> (\<forall>u. \<exists>m. fst (fst (CustomerSessionAuthMiddleware (csGet (cfSessions F) u) (Some ys) r (pwSessions (snd (handleLogout F t r pw'))))) = Reject 401 m))"
proof -
  obtain sess cs pw' where s: "handleLogin F (Some bs) (Some zs) now q pw = ((Reply 200 sess, cs), pw')" "CustomerID sess = c" "SessionID sess \<noteq> []"
    and l: "\<And>t. memoryCustomer_Get t (SessionID sess) (pwSessions pw') = (if t \<le> now + 24 * hour then Some sess else None)"
    using memory_sessions.login_result [OF assms, of bs zs now pw] by blast
  have "fst (fst (CustomerSessionAuthMiddleware (csGet (cfSessions F) t) (Some ys) r (pwSessions pw'))) = Next sess"
    if "session_cookie ''__Host-customer-session'' ''customer_session'' r = SessionID sess" "t \<le> now + 24 * hour" for r t ys
    using memory_sessions.admitted [OF that(1) s(3)] l that(2) by (simp add: assms(1))
  moreover have "\<exists>m. fst (fst (CustomerSessionAuthMiddleware (csGet (cfSessions F) u) (Some ys) r (pwSessions (snd (handleLogout F t r pw'))))) = Reject 401 m"
    if "session_cookie ''__Host-customer-session'' ''customer_session'' r = SessionID sess" for r t u ys
    using memory_sessions.logged_out [OF assms(1) that s(3)] by (simp add: assms(1))
  ultimately show ?thesis using s(1,2) by blast
qed

definition demo_bff :: "(unit, unit, unit, unit, CustomerSession memory, GetPortfolioResponse memoryCache) CustomerBFF" where
  "demo_bff = \<lparr>cfBLL = None, cfSessions = memory_customers, cfCache = Some memory_views\<rparr>"

definition demo_portal_world :: "(unit, unit, unit, unit, CustomerSession memory, GetPortfolioResponse memoryCache) portal_world" where
  "demo_portal_world = \<lparr>pwWorld = \<lparr>wBroker = (), wBank = (), wWorkforce = (), wCore = (), wMessages = []\<rparr>, pwSessions = Map.empty, pwCache = Map.empty\<rparr>"

theorem portal_session_witness:
  "\<exists>sess cs pw'. handleLogin demo_bff (Some ''x'') (Some ''y'') 5 \<lparr>lfPersona = [], lfCustomerID = ''victim'', lfName = [], lfEmail = []\<rparr> demo_portal_world = ((Reply 200 sess, cs), pw')
    \<and> CustomerID sess = ''victim''"
  using portal_session [of demo_bff "\<lparr>lfPersona = [], lfCustomerID = ''victim'', lfName = [], lfEmail = []\<rparr>" "''victim''" "[]" "[]" "''x''" "''y''" 5 demo_portal_world]
  by (auto simp: demo_bff_def login_identity_def)



definition view_bff :: "(unit, unit, unit, unit, CustomerSession memory, GetPortfolioResponse memoryCache) CustomerBFF" where
  "view_bff = \<lparr>cfBLL = Some (\<lparr>svBroker = None, svBank = None, svWorkforce = Some \<lparr>wfGetCareSchedule = (\<lambda>_ _. Some (Some False)), wfActiveFelines = (\<lambda>_. Some [''f''])\<rparr>,
     svCore = Some \<lparr>ccCreateOrder = (\<lambda>q c. (Some (inserted ''o1'' 0 ''executed'' q), c)), ccCreateRecurringDeposit = (\<lambda>_ c. (None, c)), ccListRecurringDeposits = (\<lambda>_ _. None),
       ccAdvanceRecurringDeposit = (\<lambda>_ _ c. (False, c)), ccUpdatePortfolioBalance = (\<lambda>_ _ c. (None, c))\<rparr>, svPublisher = None, svDefaultFelineID = []\<rparr>, None),
     cfSessions = memory_customers, cfCache = Some memory_views\<rparr>"

definition demo_customer :: CustomerSession where
  "demo_customer = \<lparr>SessionID = ''s'', CustomerID = ''c1'', Email = ''c1@x'', Name = ''Cat'', ExpiresAt = 9\<rparr>"

definition demo_order_form :: order_form where
  "demo_order_form = \<lparr>ofPortfolioID = [], ofSymbol = '' aapl'', ofSide = ''BUY'', ofQuantity = Fin 1, ofOrderType = [], ofPrice = Fin 100\<rparr>"

lemma demo_portal_order: "\<exists>resp pw'. handleCreateOrder view_bff ''u'' ''e'' 5 (Some demo_customer) (Some demo_order_form) demo_portal_world = (Reply 200 resp, pw')"
proof -
  have "ToUpper (TrimSpace '' aapl'') = ''AAPL''" "ToLower (TrimSpace ''BUY'') = ''buy''" by code_simp+
  then show ?thesis
    by (simp add: handleCreateOrder_def view_bff_def demo_customer_def demo_order_form_def demo_portal_world_def portal_order_def ValidateAndExecuteOrder_def invalid_order_def
        order_type_def resolveTargetFeline_def fetchFirstActiveFeline_def checkFelineMedicalHold_def execute_in_core_def Let_def)
qed


text \<open>C11: A deposit through the portal never settles while a bank is configured: the account that the form names is not passed on, so the published transfer names no
  bank account, and whenever it is delivered to a bank that has no account with the empty identifier, settlement is refused, no account is
  debited and the core is not asked to credit the portfolio.\<close>

theorem portal_deposit_never_settles:
  assumes "cfBLL F = Some (S, P)" and "svBank S = Some (plaid_client env)" and "svPublisher S = Some acc" and "finite64 (dfAmountUSD q)"
    and "handleCreateDeposit F uuid eventID now (Some sess) (Some q) pw = (Reply 201 resp, pw')"
  shows "\<exists>m p. wMessages (pwWorld pw') = wMessages (pwWorld pw) @ [m] \<and> msgBody m = Some (ACHTransferRequested p) \<and> apAmountUSD p = dfAmountUSD q
    \<and> (\<forall>t w. BankLedger.accounts (wBank w) [] = None \<longrightarrow>
         (\<exists>k. SettleACHTransfer S t p w = (Inl Unavailable, w\<lparr>wBank := k\<rparr>) \<and> BankLedger.accounts k = BankLedger.accounts (wBank w)))"
proof -
  obtain m p where m: "wMessages (pwWorld pw') = wMessages (pwWorld pw) @ [m]" "msgBody m = Some (ACHTransferRequested p)" "apAmountUSD p = dfAmountUSD q"
    and p: "apBankAccount p = []" "apTransferID p \<noteq> []" "apTransferType p = ''deposit''"
    using assms(1,3-5) by (auto simp: handleCreateDeposit_def InitiateACHDeposit_def CustomerBLL.publish_def Let_def split: if_splits sum.splits prod.splits option.splits)
  have "\<exists>k. SettleACHTransfer S t p w = (Inl Unavailable, w\<lparr>wBank := k\<rparr>) \<and> BankLedger.accounts k = BankLedger.accounts (wBank w)"
    if n: "BankLedger.accounts (wBank w) [] = None" for t and w :: "('a, LedgerStore, 'b, 'c) world"
  proof -
    let ?d = "''OCI Investment Capital ACH '' @ apTransferType p @ '' ('' @ apTransferID p @ '')''"
    obtain x k where k: "plaid_CreateTransfer env [] (apAmountUSD p) ''debit'' ?d (wBank w) = (x, k)" by fastforce
    have "x = None"
    proof (rule ccontr)
      assume "x \<noteq> None"
      with k obtain y where "plaid_CreateTransfer env [] (apAmountUSD p) ''debit'' ?d (wBank w) = (Some y, k)" by auto
      from plaid_CreateTransfer_accepted(7) [OF this] n show False by auto
    qed
    with plaid_CreateTransfer_refused [OF _ disjI1 [OF refl]] k have "BankLedger.accounts k = BankLedger.accounts (wBank w)" by blast
    then show ?thesis
      using \<open>x = None\<close> k p assms(2) by (intro exI [of _ k]) (simp add: SettleACHTransfer_def clearing_direction_def plaid_client_def)
  qed
  with m show ?thesis by blast
qed


definition deposit_server :: "(unit, LedgerStore, unit, unit) Server" where
  "deposit_server = \<lparr>svBroker = None, svBank = Some (plaid_client \<lparr>keClientID = ''a'', keSecret = ''b'', keExpectedClientID = ''a'', keExpectedSecret = ''b'', keNow = 3, keAccounts = []\<rparr>),
     svWorkforce = None, svCore = None, svPublisher = Some (\<lambda>_. True), svDefaultFelineID = []\<rparr>"

definition deposit_bff :: "(unit, LedgerStore, unit, unit, CustomerSession memory, GetPortfolioResponse memoryCache) CustomerBFF" where
  "deposit_bff = \<lparr>cfBLL = Some (deposit_server, None), cfSessions = memory_customers, cfCache = None\<rparr>"

definition bank_world :: "(unit, LedgerStore, unit, unit) world" where
  "bank_world = \<lparr>wBroker = (), wBank = BankLedger.NewLedgerStore 0, wWorkforce = (), wCore = (), wMessages = []\<rparr>"

definition demo_deposit_form :: deposit_form where
  "demo_deposit_form = \<lparr>dfPortfolioID = ''p1'', dfAmountUSD = Fin 50, dfFrequency = [], dfBankAccount = ''acc_arthur_chk'', dfAccountID = []\<rparr>"

theorem portal_deposit_never_settles_witness:
  "\<exists>resp pw' m p w'. handleCreateDeposit deposit_bff ''u'' ''e'' 5 (Some demo_customer) (Some demo_deposit_form)
        \<lparr>pwWorld = bank_world, pwSessions = Map.empty, pwCache = Map.empty\<rparr> = (Reply 201 resp, pw')
    \<and> wMessages (pwWorld pw') = [m] \<and> msgBody m = Some (ACHTransferRequested p) \<and> SettleACHTransfer deposit_server 7 p bank_world = (Inl Unavailable, w')"
proof -
  let ?pw = "\<lparr>pwWorld = bank_world, pwSessions = Map.empty, pwCache = Map.empty\<rparr>"
  have "\<exists>resp pw'. handleCreateDeposit deposit_bff ''u'' ''e'' 5 (Some demo_customer) (Some demo_deposit_form) ?pw = (Reply 201 resp, pw')"
    by (simp add: handleCreateDeposit_def deposit_bff_def deposit_server_def demo_customer_def demo_deposit_form_def InitiateACHDeposit_def CustomerBLL.publish_def Let_def)
  then obtain resp pw' where r: "handleCreateDeposit deposit_bff ''u'' ''e'' 5 (Some demo_customer) (Some demo_deposit_form) ?pw = (Reply 201 resp, pw')" by blast
  have a: "BankLedger.accounts (wBank bank_world) [] = None"
    by (simp add: bank_world_def BankLedger.NewLedgerStore_def BankLedger.Seed_def arthurChk_def arthurSav_def chloeChk_def ociCustody_def DefaultCustodyAccountID_def)
  obtain env where e: "svBank deposit_server = Some (plaid_client env)" by (simp add: deposit_server_def)
  have "cfBLL deposit_bff = Some (deposit_server, None)" "svPublisher deposit_server = Some (\<lambda>_. True)" "finite64 (dfAmountUSD demo_deposit_form)"
    by (simp_all add: deposit_bff_def deposit_server_def demo_deposit_form_def finite64_def)
  from portal_deposit_never_settles [OF this(1) e this(2,3) r] obtain m p where m: "wMessages (pwWorld pw') = wMessages bank_world @ [m]"
    "msgBody m = Some (ACHTransferRequested p)"
    and s: "\<forall>t w. BankLedger.accounts (wBank w) [] = None \<longrightarrow> (\<exists>k. SettleACHTransfer deposit_server t p w = (Inl Unavailable, w\<lparr>wBank := k\<rparr>)
      \<and> BankLedger.accounts k = BankLedger.accounts (wBank w))"
    by auto
  obtain k where "SettleACHTransfer deposit_server 7 p bank_world = (Inl Unavailable, bank_world\<lparr>wBank := k\<rparr>)" using s a by blast
  then show ?thesis using r m by (intro exI conjI) (simp_all add: bank_world_def)
qed

text \<open>C12: A customer closes the portfolio of anybody and has the proceeds sent to an account of choice: a portfolio that is stored under the given
  identifier is closed whoever it belongs to, its cash and the value of its positions go to the named account, and the answer reports the
  owner of the portfolio. The session only has to be one of some customer.\<close>

theorem foreign_account_closed:
  assumes "cfBLL F = Some (S, Some (memory_portal sha hmac uni broker (Some K) ord now))" and "CustomerID sess \<noteq> []" and "i \<noteq> []" and "dest \<noteq> []"
    and "mPortfolios (wCore (pwWorld pw)) i = Some a" and "mHeap (wCore (pwWorld pw)) a = Some p" and "pfPortfolioID p = i"
    and "flt (Fin 0) (payout broker p (wBroker (pwWorld pw)))"
  shows "\<exists>m pw' q. handleCloseAccount F now (Some sess) (i, dest) pw = (Reply 200 m, pw') \<and> lmCustomerID m = pfCustomerID p
    \<and> lmFinalCashWithdrawn m = payout broker p (wBroker (pwWorld pw))
    \<and> deref (wCore (pwWorld pw')) i = Some q \<and> pfStatus q = ''closed'' \<and> pfCashBalanceUSD q = Fin 0
    \<and> wBank (pwWorld pw') = snd (bkCreateTransfer K dest (payout broker p (wBroker (pwWorld pw))) ''credit''
        ''OCI Portfolio Liquidation & Account Closure Net Settlement'' (wBank (pwWorld pw)))"
proof -
  let ?w = "pwWorld pw" and ?q = "\<lparr>caCustomerID = CustomerID sess, caPortfolioID = i, caDestinationAccountID = dest\<rparr>"
  have t: "close_target ?q = i" using assms(3) by (simp add: close_target_def)
  have "GetPortfolioByCustomerID ord now (close_target ?q) (wCore ?w) = (a, wCore ?w)" using assms(5) by (simp add: t GetPortfolioByCustomerID_def)
  from CloseAndLiquidateAccount_eq [OF _ this assms(6), of broker "Some K" "wBroker ?w" "wBank ?w"] assms(3)
  obtain r c where r: "CloseAndLiquidateAccount broker (Some K) ord now ?q (wCore ?w, wBroker ?w, wBank ?w) =
      (Inr r, c, snd (snd (liquidate_all broker (pfPortfolioID p) (wBroker ?w))), snd (snd (pay_out (Some K) dest (pfCustomerID p) (payout broker p (wBroker ?w)) (wBank ?w))))"
    "lqTransferredToBankUSD r = payout broker p (wBroker ?w)" "lqCustomerID r = pfCustomerID p"
    and c: "c = UpdatePortfolio now a ((wCore ?w)\<lparr>mHeap := (mHeap (wCore ?w))(a \<mapsto> close_portfolio p)\<rparr>)"
    unfolding t by auto
  have b: "snd (snd (pay_out (Some K) dest (pfCustomerID p) (payout broker p (wBroker ?w)) (wBank ?w))) =
      snd (bkCreateTransfer K dest (payout broker p (wBroker ?w)) ''credit'' ''OCI Portfolio Liquidation & Account Closure Net Settlement'' (wBank ?w))"
    using assms(4,8) by (simp add: pay_out_def destination_def split: prod.split option.split)
  have d: "deref c i = Some ((close_portfolio p)\<lparr>pfUpdatedAt := now\<rparr>)"
    using closed_lookup [OF assms(6) disjI2 [OF assms(7)] assms(3), of now] by (simp add: deref_def c)
  show ?thesis
    using assms(1,2) r b d
    by (simp add: handleCloseAccount_def bll_CloseAccount_def memory_portal_def grpc_CloseAndLiquidateAccount_def close_portfolio_def)
qed


definition close_bff :: "(unit, unit, unit, mockRepository, CustomerSession memory, GetPortfolioResponse memoryCache) CustomerBFF" where
  "close_bff = \<lparr>cfBLL = Some (\<lparr>svBroker = None, svBank = None, svWorkforce = None, svCore = None, svPublisher = None, svDefaultFelineID = []\<rparr>,
     Some (memory_portal id (\<lambda>_ s. s) (\<lambda>_. None) None
       (Some \<lparr>bkCreateTransfer = (\<lambda>_ _ _ _ k. (None, k)), bkAuthorizeTransfer = (\<lambda>_ _ _ k. (None, k)), bkGetAccounts = (\<lambda>_ _. None), bkExchangePublicToken = (\<lambda>_ _ k. (None, k))\<rparr>) [] 5)),
     cfSessions = memory_customers, cfCache = None\<rparr>"

definition rich_portfolio :: Portfolio where
  "rich_portfolio = (new_portfolio 0 ''owner'' \<lparr>rqFullName = ''O'', rqEmail = [], rqPassword = [], rqBankPublicToken = [], rqTargetFund = []\<rparr>)\<lparr>pfCashBalanceUSD := Fin 100\<rparr>"

definition rich_world :: "(unit, unit, unit, mockRepository, CustomerSession memory, GetPortfolioResponse memoryCache) portal_world" where
  "rich_world = \<lparr>pwWorld = \<lparr>wBroker = (), wBank = (), wWorkforce = (),
     wCore = (CoreRepo.NewMockRepository 0)\<lparr>mPortfolios := [''port-owner'' \<mapsto> 0], mHeap := [0 \<mapsto> rich_portfolio]\<rparr>, wMessages = []\<rparr>, pwSessions = Map.empty, pwCache = Map.empty\<rparr>"

lemma rich_payout: "payout None rich_portfolio b = Fin 100"
  by (simp add: payout_def proceeds_def liquidate_all_def rich_portfolio_def new_portfolio_def)

theorem foreign_account_closed_witness:
  "\<exists>m pw' q. handleCloseAccount close_bff 5 (Some demo_customer) (''port-owner'', ''acc-thief'') rich_world = (Reply 200 m, pw') \<and> lmCustomerID m = ''owner''
    \<and> deref (wCore (pwWorld pw')) ''port-owner'' = Some q \<and> pfStatus q = ''closed''"
proof -
  have "mPortfolios (wCore (pwWorld rich_world)) ''port-owner'' = Some 0" "mHeap (wCore (pwWorld rich_world)) 0 = Some rich_portfolio"
    "pfPortfolioID rich_portfolio = ''port-owner''" "pfCustomerID rich_portfolio = ''owner''" "CustomerID demo_customer \<noteq> []"
    by (simp_all add: rich_world_def rich_portfolio_def new_portfolio_def demo_customer_def)
  moreover have "flt (Fin 0) (payout None rich_portfolio (wBroker (pwWorld rich_world)))" by (simp add: rich_payout)
  moreover obtain S K where "cfBLL close_bff = Some (S, Some (memory_portal id (\<lambda>_ s. s) (\<lambda>_. None) None (Some K) [] 5))" by (simp add: close_bff_def)
  ultimately show ?thesis using foreign_account_closed [of close_bff S id "\<lambda>_ s. s" "\<lambda>_. None" None K "[]" 5 demo_customer "''port-owner''" "''acc-thief''" rich_world 0 rich_portfolio]
    by auto
qed

text \<open>The public certificate page confirms everything: for every identifier, issued or not, it answers with a certificate under this identifier that states an
  erasure at the time of the request, over the hashes of the empty text.\<close>

theorem any_certificate_confirmed:
  assumes "cfBLL F = Some (S, P)" and "i \<noteq> []"
  shows "\<exists>x. handleGetGDPRCertificate sha F now i pw = Reply 200 x \<and> dcCertificateID x = i \<and> dcErasureTimestamp x = wire now
    \<and> dcCustomerIDHash x = EncodeToString (sha []) \<and> dcRecordsScrubbedCount x = 4"
  using assms by (simp add: handleGetGDPRCertificate_def bll_GetGDPRCertificate_def local_certificate_def certificate_model_def split: option.split)

theorem any_certificate_confirmed_witness:
  "\<exists>x. handleGetGDPRCertificate id close_bff 5 ''never-issued'' rich_world = Reply 200 x \<and> dcCertificateID x = ''never-issued''"
  using any_certificate_confirmed [of close_bff _ _ "''never-issued''" id 5 rich_world] by (auto simp: close_bff_def)

text \<open>An erasure ends the session it was asked from and no other: any other session of the erased customer is admitted as before.\<close>

theorem erasure_keeps_sessions:
  assumes "cfSessions F = memory_customers" and "handleGDPRErasure sha F uuid now (Some sess) pw = (Reply 200 x, pw')"
  shows "pwSessions pw' = (pwSessions pw)(SessionID sess := None)"
  using assms by (auto simp: handleGDPRErasure_def memory_customers_def memory_Delete_def split: option.splits prod.splits sum.splits)

theorem erasure_keeps_sessions_witness:
  "\<exists>x pw'. handleGDPRErasure id close_bff ''u'' 5 (Some demo_customer) (rich_world\<lparr>pwSessions := [''s'' \<mapsto> demo_customer, ''s2'' \<mapsto> demo_customer\<lparr>SessionID := ''s2''\<rparr>]\<rparr>) = (Reply 200 x, pw')
    \<and> pwSessions pw' ''s2'' = Some (demo_customer\<lparr>SessionID := ''s2''\<rparr>)"
proof -
  let ?pw = "rich_world\<lparr>pwSessions := [''s'' \<mapsto> demo_customer, ''s2'' \<mapsto> demo_customer\<lparr>SessionID := ''s2''\<rparr>]\<rparr>"
  have "\<exists>x pw'. handleGDPRErasure id close_bff ''u'' 5 (Some demo_customer) ?pw = (Reply 200 x, pw')"
    by (simp add: handleGDPRErasure_def close_bff_def bll_ExecuteGDPRErasure_def demo_customer_def memory_portal_def grpc_ExecuteGDPRErasure_def CoreLifecycle.ExecuteGDPRErasure_def Let_def
        split: prod.split)
  then obtain x pw' where r: "handleGDPRErasure id close_bff ''u'' 5 (Some demo_customer) ?pw = (Reply 200 x, pw')" by blast
  have "cfSessions close_bff = memory_customers" by (simp add: close_bff_def)
  from erasure_keeps_sessions [OF this r] r show ?thesis by (simp add: demo_customer_def)
qed

text \<open>A key made through the portal over the core in memory has no secret and no prefix: the answer carries an empty secret, and the stored key an empty prefix and hash.
  A webhook is stored without the secret that the customer is shown.\<close>

theorem portal_secrets_lost:
  assumes "cfBLL F = Some (S, Some (memory_portal sha hmac uni broker bank ord now))" and "CustomerID sess \<noteq> []"
  shows "\<exists>k pw'. handleCreateAPIKey F (Some sess) (Some form) pw = (Reply 201 (k, []), pw') \<and> kmKeyPrefix k = []
      \<and> mApiKeys (wCore (pwWorld pw')) (CustomerID sess) \<noteq> None
      \<and> akKeyHash (last (the (mApiKeys (wCore (pwWorld pw')) (CustomerID sess)))) = []"
    and "u \<noteq> [] \<Longrightarrow> \<exists>x pw'. handleCreateWebhook F bs now (Some sess) (Some (u, u, evs)) pw = (Reply 201 x, pw') \<and> wmSecret x = ''whsec_'' @ EncodeToString bs
      \<and> whSecret (last (the (mWebhooks (wCore (pwWorld pw')) (CustomerID sess)))) = []"
proof -
  show "\<exists>k pw'. handleCreateAPIKey F (Some sess) (Some form) pw = (Reply 201 (k, []), pw') \<and> kmKeyPrefix k = []
      \<and> mApiKeys (wCore (pwWorld pw')) (CustomerID sess) \<noteq> None
      \<and> akKeyHash (last (the (mApiKeys (wCore (pwWorld pw')) (CustomerID sess)))) = []"
    using assms by (cases form) (simp add: handleCreateAPIKey_def bll_CreateAPIKey_def memory_portal_def grpc_CreateAPIKey_def CreateCustomerAPIKey_def CreateAPIKey_def key_out_def Let_def)
  show "u \<noteq> [] \<Longrightarrow> \<exists>x pw'. handleCreateWebhook F bs now (Some sess) (Some (u, u, evs)) pw = (Reply 201 x, pw') \<and> wmSecret x = ''whsec_'' @ EncodeToString bs
      \<and> whSecret (last (the (mWebhooks (wCore (pwWorld pw')) (CustomerID sess)))) = []"
    using assms by (simp add: handleCreateWebhook_def bll_CreateWebhook_def memory_portal_def grpc_CreateWebhook_def CreateWebhookSubscription_def CreateWebhook_def webhook_out_def Let_def)
qed

end
