(* ===== verification/Facilities.thy ===== *)
theory Facilities
  imports InternalBLL
begin

text \<open>
  Hardware assets, maintenance logs, firmware and habitat telemetry: the data model and both repositories of
  \<open>internal/repository/facilities\<close>, the service of \<open>internal/service/facilities\<close>, the gRPC server of \<open>cmd/facilities-api\<close>, the
  calls of the internal layer that reach it and the firmware consumer of the worker. The repository is a record of operations.
  The tables of the database carry the constraints of \<open>scripts/init.sql\<close>.
\<close>

section \<open>Data\<close>

record HardwareAsset =
  hwAssetID :: string
  hwSerialNumber :: string
  hwAssetType :: string
  hwModel :: string
  hwStatus :: string
  hwZoneID :: "string option"
  hwAssignedEmployeeID :: "string option"
  hwLastPingAt :: "time option"
  hwCreatedAt :: time
  hwUpdatedAt :: time

record MaintenanceTicket =
  mkTicketID :: string
  mkAssetID :: string
  mkTitle :: string
  mkDescription :: string
  mkPriority :: string
  mkStatus :: string
  mkAssignedTechnicianID :: "string option"
  mkReportedBy :: "string option"
  mkResolvedAt :: "time option"
  mkCreatedAt :: time
  mkUpdatedAt :: time

record MaintenanceLog =
  mlLogID :: string
  mlTicketID :: "string option"
  mlAssetID :: string
  mlTechnicianID :: "string option"
  mlQRCodeScanned :: string
  mlActionTaken :: string
  mlNotes :: "string option"
  mlSyncedAt :: time
  mlCreatedAt :: time

record FirmwareRelease =
  fwReleaseID :: string
  fwDeviceType :: string
  fwVersion :: string
  fwFileURL :: string
  fwChecksum :: string
  fwMinHardwareVersion :: "string option"
  fwStatus :: string
  fwCreatedAt :: time
  fwUpdatedAt :: time

record OTAJob =
  jbJobID :: string
  jbAssetID :: string
  jbReleaseID :: string
  jbStatus :: string
  jbErrorMessage :: "string option"
  jbScheduledAt :: time
  jbCompletedAt :: "time option"
  jbCreatedAt :: time
  jbUpdatedAt :: time

record EnvironmentalTelemetry =
  teTelemetryID :: string
  teZoneID :: string
  teTemperatureC :: float64
  teRelativeHumidityPct :: float64
  teLightIntensityLux :: float64
  teNoiseLevelDB :: float64
  teRecordedAt :: time

datatype fac_error =
    FacDbError | AssetIDEmpty | SerialAndTypeRequired | LogFieldsRequired | ReleaseFieldsRequired | DeviceTypeRequired
  | RolloutFieldsRequired | AssetIDRequired | ZoneRequired | TelemetryNotStored fac_error | NoLogSynced | SampleSendFailed
  | StreamInternal | StreamNotFound

record 's FacRepository =
  faGetAssetByID :: "string \<Rightarrow> 's \<Rightarrow> fac_error + HardwareAsset"
  faListAssets :: "int \<Rightarrow> (time \<times> string) option \<Rightarrow> string option \<Rightarrow> 's \<Rightarrow> fac_error + HardwareAsset list"
  faCreateAsset :: "HardwareAsset \<Rightarrow> 's \<Rightarrow> (fac_error + HardwareAsset) \<times> 's"
  faCreateMaintenanceTicket :: "MaintenanceTicket \<Rightarrow> 's \<Rightarrow> (fac_error + MaintenanceTicket) \<times> 's"
  faBatchInsertMaintenanceLogs :: "MaintenanceLog list \<Rightarrow> 's \<Rightarrow> (fac_error + MaintenanceLog list) \<times> 's"
  faListMaintenanceLogsByAsset :: "string \<Rightarrow> 's \<Rightarrow> fac_error + MaintenanceLog list"
  faCreateFirmwareRelease :: "FirmwareRelease \<Rightarrow> 's \<Rightarrow> (fac_error + FirmwareRelease) \<times> 's"
  faListFirmwareReleases :: "string \<Rightarrow> 's \<Rightarrow> fac_error + FirmwareRelease list"
  faCreateOTAJob :: "OTAJob \<Rightarrow> 's \<Rightarrow> (fac_error + OTAJob) \<times> 's"
  faBatchCreateOTAJobs :: "OTAJob list \<Rightarrow> 's \<Rightarrow> (fac_error + OTAJob list) \<times> 's"
  faUpdateOTAJobStatus :: "string \<Rightarrow> string \<Rightarrow> string option \<Rightarrow> time option \<Rightarrow> 's \<Rightarrow> (fac_error + OTAJob) \<times> 's"
  faListOTAJobsByAsset :: "string \<Rightarrow> 's \<Rightarrow> fac_error + OTAJob list"
  faRecordTelemetry :: "EnvironmentalTelemetry \<Rightarrow> 's \<Rightarrow> (fac_error + EnvironmentalTelemetry) \<times> 's"
  faLatestTelemetry :: "string \<Rightarrow> int \<Rightarrow> 's \<Rightarrow> fac_error + EnvironmentalTelemetry list"

section \<open>The repository in memory\<close>

record mock_fac =
  mfAssets :: "(string, HardwareAsset) gomap"
  mfTickets :: "(string, MaintenanceTicket) gomap"
  mfLogs :: "(string, MaintenanceLog list) gomap"
  mfReleases :: "(string, FirmwareRelease list) gomap"
  mfJobs :: "(string, OTAJob list) gomap"
  mfTelemetry :: "EnvironmentalTelemetry list"

definition NewMockFac :: mock_fac where
  "NewMockFac = \<lparr>mfAssets = Map.empty, mfTickets = Map.empty, mfLogs = Map.empty, mfReleases = Map.empty, mfJobs = Map.empty, mfTelemetry = []\<rparr>"

definition bucket :: "(string, 'a list) gomap \<Rightarrow> string \<Rightarrow> 'a list" where
  "bucket m k = (case m k of None \<Rightarrow> [] | Some xs \<Rightarrow> xs)"

definition made_up_asset :: "time \<Rightarrow> string \<Rightarrow> string \<Rightarrow> string \<Rightarrow> string \<Rightarrow> string option \<Rightarrow> HardwareAsset" where
  "made_up_asset now i serial type model emp = \<lparr>hwAssetID = i, hwSerialNumber = serial, hwAssetType = type, hwModel = model, hwStatus = ''active'',
     hwZoneID = None, hwAssignedEmployeeID = emp, hwLastPingAt = None, hwCreatedAt = now, hwUpdatedAt = now\<rparr>"

definition pebble_frank :: "time \<Rightarrow> HardwareAsset" where
  "pebble_frank now = made_up_asset now ''asset-pebble-frank'' ''PEBBLE-FRANK-01'' ''pebble_watch'' ''Pebble Time Steel'' (Some ''emp-human-frank'')"

definition pebble_bob :: "time \<Rightarrow> HardwareAsset" where
  "pebble_bob now = made_up_asset now ''asset-pebble-bob'' ''PEBBLE-BOB-01'' ''pebble_watch'' ''Pebble Time'' (Some ''emp-human-bob'')"

definition laptop_rick :: "time \<Rightarrow> HardwareAsset" where
  "laptop_rick now = made_up_asset now ''asset-laptop-rick'' ''MBP-RICK-01'' ''laptop'' ''MacBook Pro 16-inch M3 Max'' (Some ''emp-human-rick'')"

definition mock_GetAssetByID :: "time \<Rightarrow> string \<Rightarrow> mock_fac \<Rightarrow> HardwareAsset" where
  "mock_GetAssetByID now i m = (case mfAssets m i of
     Some a \<Rightarrow> a
   | None \<Rightarrow> if i \<in> {''asset-pebble-frank'', ''PEBBLE-FRANK-01''} then pebble_frank now
       else if i \<in> {''asset-pebble-bob'', ''PEBBLE-BOB-01''} then pebble_bob now
       else if i \<in> {''asset-laptop-rick'', ''MBP-RICK-01''} then laptop_rick now
       else made_up_asset now i ''CAM-ORANGE-01'' ''edge_camera'' ''4K-FelineCam-v2'' None)"

definition default_assets :: "time \<Rightarrow> HardwareAsset list" where
  "default_assets now = [made_up_asset now ''asset-uuid-001'' ''CAM-ORANGE-01'' ''edge_camera'' ''4K-FelineCam-v2'' None,
     made_up_asset now ''asset-switch-001'' ''SW-CORE-01'' ''networking_switch'' ''Cisco-Catalyst-SMB-24P'' None,
     made_up_asset now ''asset-gateway-001'' ''GW-HABITAT-01'' ''gateway'' ''Edge-Gateway-IoT-V1'' None, pebble_frank now, pebble_bob now, laptop_rick now]"

definition mock_ListAssets :: "string list \<Rightarrow> time \<Rightarrow> string option \<Rightarrow> mock_fac \<Rightarrow> HardwareAsset list" where
  "mock_ListAssets ord now type m =
     (let xs = map_vals ord (mfAssets m); ys = (if xs = [] then default_assets now else xs)
      in if strVal type = [] then ys else filter (\<lambda>a. hwAssetType a = strVal type) ys)"

definition mock_CreateAsset :: "time \<Rightarrow> HardwareAsset \<Rightarrow> mock_fac \<Rightarrow> HardwareAsset \<times> mock_fac" where
  "mock_CreateAsset now a m =
     (let a' = a\<lparr>hwAssetID := ''asset-uuid-created'', hwCreatedAt := now, hwUpdatedAt := now\<rparr> in (a', m\<lparr>mfAssets := (mfAssets m)(hwAssetID a' \<mapsto> a')\<rparr>))"

definition mock_CreateMaintenanceTicket :: "time \<Rightarrow> MaintenanceTicket \<Rightarrow> mock_fac \<Rightarrow> MaintenanceTicket \<times> mock_fac" where
  "mock_CreateMaintenanceTicket now t m =
     (let t' = t\<lparr>mkTicketID := ''maint-uuid-created'', mkStatus := ''open'', mkCreatedAt := now, mkUpdatedAt := now\<rparr>
      in (t', m\<lparr>mfTickets := (mfTickets m)(mkTicketID t' \<mapsto> t')\<rparr>))"

fun mock_BatchInsertMaintenanceLogs :: "time \<Rightarrow> MaintenanceLog list \<Rightarrow> mock_fac \<Rightarrow> MaintenanceLog list \<times> mock_fac" where
  "mock_BatchInsertMaintenanceLogs now [] m = ([], m)"
| "mock_BatchInsertMaintenanceLogs now (l # ls) m =
     (let c = l\<lparr>mlLogID := (if mlLogID l = [] then ''log-uuid-synced'' else mlLogID l), mlSyncedAt := now,
                mlCreatedAt := (if mlCreatedAt l = zeroTime then now else mlCreatedAt l)\<rparr>;
          (cs, m') = mock_BatchInsertMaintenanceLogs now ls (m\<lparr>mfLogs := (mfLogs m)(mlAssetID c \<mapsto> bucket (mfLogs m) (mlAssetID c) @ [c])\<rparr>)
      in (c # cs, m'))"

definition mock_ListMaintenanceLogsByAsset :: "time \<Rightarrow> string \<Rightarrow> mock_fac \<Rightarrow> MaintenanceLog list" where
  "mock_ListMaintenanceLogsByAsset now i m =
     (if bucket (mfLogs m) i \<noteq> [] then bucket (mfLogs m) i
      else [\<lparr>mlLogID = ''log-uuid-001'', mlTicketID = None, mlAssetID = i, mlTechnicianID = None, mlQRCodeScanned = ''QR-CAM-ORANGE-01'',
             mlActionTaken = ''Sensor cleaning and recalibration'', mlNotes = None, mlSyncedAt = now, mlCreatedAt = now - 10 * minute\<rparr>])"

definition mock_CreateFirmwareRelease :: "time \<Rightarrow> FirmwareRelease \<Rightarrow> mock_fac \<Rightarrow> FirmwareRelease \<times> mock_fac" where
  "mock_CreateFirmwareRelease now f m =
     (let f' = f\<lparr>fwReleaseID := ''release-uuid-created'', fwStatus := (if fwStatus f = [] then ''published'' else fwStatus f), fwCreatedAt := now, fwUpdatedAt := now\<rparr>
      in (f', m\<lparr>mfReleases := (mfReleases m)(fwDeviceType f \<mapsto> bucket (mfReleases m) (fwDeviceType f) @ [f'])\<rparr>))"

definition mock_ListFirmwareReleases :: "time \<Rightarrow> string \<Rightarrow> mock_fac \<Rightarrow> FirmwareRelease list" where
  "mock_ListFirmwareReleases now d m =
     (if bucket (mfReleases m) d \<noteq> [] then bucket (mfReleases m) d
      else [\<lparr>fwReleaseID = ''release-uuid-v2'', fwDeviceType = d, fwVersion = ''2.1.0'', fwFileURL = ''https://firmware.oci.local/edge_camera/v2.1.0.bin'',
             fwChecksum = ''e3b0c44298fc1c149afbf4c8996fb92427ae41e4649b934ca495991b7852b855'', fwMinHardwareVersion = None, fwStatus = ''published'',
             fwCreatedAt = now, fwUpdatedAt = now\<rparr>])"

definition new_job :: "time \<Rightarrow> string \<Rightarrow> OTAJob \<Rightarrow> OTAJob" where
  "new_job now i j = j\<lparr>jbJobID := i, jbStatus := ''pending'', jbScheduledAt := now, jbCreatedAt := now, jbUpdatedAt := now\<rparr>"

definition push_job :: "OTAJob \<Rightarrow> mock_fac \<Rightarrow> mock_fac" where
  "push_job j m = m\<lparr>mfJobs := (mfJobs m)(jbAssetID j \<mapsto> bucket (mfJobs m) (jbAssetID j) @ [j])\<rparr>"

definition mock_CreateOTAJob :: "time \<Rightarrow> OTAJob \<Rightarrow> mock_fac \<Rightarrow> OTAJob \<times> mock_fac" where
  "mock_CreateOTAJob now j m = (let j' = new_job now ''ota-job-uuid-created'' j in (j', push_job j' m))"

fun mock_BatchCreateOTAJobs :: "time \<Rightarrow> OTAJob list \<Rightarrow> mock_fac \<Rightarrow> OTAJob list \<times> mock_fac" where
  "mock_BatchCreateOTAJobs now [] m = ([], m)"
| "mock_BatchCreateOTAJobs now (j # js) m =
     (let c = new_job now (if jbJobID j = [] then ''ota-job-uuid-created'' else jbJobID j) j; (cs, m') = mock_BatchCreateOTAJobs now js (push_job c m)
      in (c # cs, m'))"

text \<open>The first job with the identifier is changed; the jobs are searched asset by asset, in the order of the map.\<close>

fun update_first :: "('a \<Rightarrow> bool) \<Rightarrow> ('a \<Rightarrow> 'a) \<Rightarrow> 'a list \<Rightarrow> 'a list" where
  "update_first P f [] = []"
| "update_first P f (x # xs) = (if P x then f x # xs else x # update_first P f xs)"

definition job_change :: "time \<Rightarrow> string \<Rightarrow> string option \<Rightarrow> time option \<Rightarrow> OTAJob \<Rightarrow> OTAJob" where
  "job_change now status err completedAt j = j\<lparr>jbStatus := status, jbErrorMessage := err, jbCompletedAt := completedAt, jbUpdatedAt := now\<rparr>"

definition mock_UpdateOTAJobStatus ::
    "string list \<Rightarrow> time \<Rightarrow> string \<Rightarrow> string \<Rightarrow> string option \<Rightarrow> time option \<Rightarrow> mock_fac \<Rightarrow> OTAJob \<times> mock_fac" where
  "mock_UpdateOTAJobStatus ord now i status err completedAt m =
     (case find (\<lambda>a. \<exists>j \<in> set (bucket (mfJobs m) a). jbJobID j = i) ord of
        Some a \<Rightarrow> (job_change now status err completedAt (hd (filter (\<lambda>j. jbJobID j = i) (bucket (mfJobs m) a))),
          m\<lparr>mfJobs := (mfJobs m)(a \<mapsto> update_first (\<lambda>j. jbJobID j = i) (job_change now status err completedAt) (bucket (mfJobs m) a))\<rparr>)
      | None \<Rightarrow> (\<lparr>jbJobID = i, jbAssetID = ''asset-uuid-001'', jbReleaseID = ''release-uuid-v2'', jbStatus = status, jbErrorMessage = err,
                  jbScheduledAt = now - 5 * minute, jbCompletedAt = completedAt, jbCreatedAt = now - 5 * minute, jbUpdatedAt = now\<rparr>, m))"

definition mock_ListOTAJobsByAsset :: "time \<Rightarrow> string \<Rightarrow> mock_fac \<Rightarrow> OTAJob list" where
  "mock_ListOTAJobsByAsset now i m =
     (if bucket (mfJobs m) i \<noteq> [] then bucket (mfJobs m) i
      else [\<lparr>jbJobID = ''ota-job-uuid-001'', jbAssetID = i, jbReleaseID = ''release-uuid-v2'', jbStatus = ''completed'', jbErrorMessage = None,
             jbScheduledAt = now - hour, jbCompletedAt = Some now, jbCreatedAt = now - hour, jbUpdatedAt = now\<rparr>])"

text \<open>\<open>stamp\<close> formats a time, in the zone of the server, for the generated identifiers.\<close>

definition mock_RecordTelemetry :: "time \<Rightarrow> (time \<Rightarrow> string) \<Rightarrow> EnvironmentalTelemetry \<Rightarrow> mock_fac \<Rightarrow> EnvironmentalTelemetry \<times> mock_fac" where
  "mock_RecordTelemetry now stamp t m =
     (let t' = t\<lparr>teTelemetryID := (if teTelemetryID t = [] then ''telemetry-env-'' @ stamp now else teTelemetryID t),
                 teRecordedAt := (if teRecordedAt t = zeroTime then now else teRecordedAt t)\<rparr>
      in (t', m\<lparr>mfTelemetry := mfTelemetry m @ [t']\<rparr>))"

definition telemetry_seed :: "time \<Rightarrow> string \<Rightarrow> nat \<Rightarrow> EnvironmentalTelemetry" where
  "telemetry_seed now zone k = \<lparr>teTelemetryID = ''telemetry-env-seed-'' @ dec_nat (k + 1), teZoneID = (if zone = [] then ''zone-alpha'' else zone),
     teTemperatureC = lit 21.5, teRelativeHumidityPct = lit 45, teLightIntensityLux = lit 520, teNoiseLevelDB = lit 38, teRecordedAt = now - int k * minute\<rparr>"

definition mock_LatestTelemetry :: "time \<Rightarrow> string \<Rightarrow> int \<Rightarrow> mock_fac \<Rightarrow> EnvironmentalTelemetry list" where
  "mock_LatestTelemetry now zone limit m =
     (let n = nat (if limit \<le> 0 then 10 else limit); res = take n (filter (\<lambda>t. zone = [] \<or> teZoneID t = zone) (rev (mfTelemetry m)))
      in if res = [] then map (telemetry_seed now zone) [0..<min n 5] else res)"

definition mock_facilities :: "string list \<Rightarrow> string list \<Rightarrow> (time \<Rightarrow> string) \<Rightarrow> time \<Rightarrow> mock_fac FacRepository" where
  "mock_facilities oa oj stamp now = \<lparr>faGetAssetByID = (\<lambda>i m. Inr (mock_GetAssetByID now i m)), faListAssets = (\<lambda>l c t m. Inr (mock_ListAssets oa now t m)),
     faCreateAsset = (\<lambda>a m. map_prod Inr id (mock_CreateAsset now a m)), faCreateMaintenanceTicket = (\<lambda>t m. map_prod Inr id (mock_CreateMaintenanceTicket now t m)),
     faBatchInsertMaintenanceLogs = (\<lambda>ls m. map_prod Inr id (mock_BatchInsertMaintenanceLogs now ls m)),
     faListMaintenanceLogsByAsset = (\<lambda>i m. Inr (mock_ListMaintenanceLogsByAsset now i m)), faCreateFirmwareRelease = (\<lambda>f m. map_prod Inr id (mock_CreateFirmwareRelease now f m)),
     faListFirmwareReleases = (\<lambda>d m. Inr (mock_ListFirmwareReleases now d m)), faCreateOTAJob = (\<lambda>j m. map_prod Inr id (mock_CreateOTAJob now j m)),
     faBatchCreateOTAJobs = (\<lambda>js m. map_prod Inr id (mock_BatchCreateOTAJobs now js m)),
     faUpdateOTAJobStatus = (\<lambda>i st e c m. map_prod Inr id (mock_UpdateOTAJobStatus oj now i st e c m)), faListOTAJobsByAsset = (\<lambda>i m. Inr (mock_ListOTAJobsByAsset now i m)),
     faRecordTelemetry = (\<lambda>t m. map_prod Inr id (mock_RecordTelemetry now stamp t m)), faLatestTelemetry = (\<lambda>z l m. Inr (mock_LatestTelemetry now z l m))\<rparr>"

section \<open>The repository in PostgreSQL\<close>

text \<open>
  The tables of the schema, with rows in the order of their insertion; \<open>fdZones\<close> holds identifier and name of the zones and \<open>fdEmployees\<close> the identifiers
  that the workforce tables know. \<open>uuid\<close> supplies the identifiers that the database generates, \<open>up\<close> says whether a statement reaches it. A batch of
  statements is one transaction. \<open>num p\<close> is the conversion to a column \<open>DECIMAL(p,2)\<close>, nothing when the number does not fit.
\<close>

record fac_db =
  fdZones :: "(string \<times> string) list"
  fdEmployees :: "string set"
  fdAssets :: "HardwareAsset list"
  fdTickets :: "MaintenanceTicket list"
  fdLogs :: "MaintenanceLog list"
  fdReleases :: "FirmwareRelease list"
  fdJobs :: "OTAJob list"
  fdTelemetry :: "EnvironmentalTelemetry list"
  fdCount :: nat

definition known :: "string option \<Rightarrow> string set \<Rightarrow> bool" where
  "known r ids \<longleftrightarrow> (case r of None \<Rightarrow> True | Some i \<Rightarrow> i \<in> ids)"

definition asset_ids :: "fac_db \<Rightarrow> string set" where "asset_ids d = hwAssetID ` set (fdAssets d)"

definition release_ids :: "fac_db \<Rightarrow> string set" where "release_ids d = fwReleaseID ` set (fdReleases d)"

definition asset_row_ok :: "fac_db \<Rightarrow> HardwareAsset \<Rightarrow> bool" where
  "asset_row_ok d a \<longleftrightarrow> hwAssetType a \<in> {''edge_camera'', ''gateway'', ''networking_switch'', ''laptop'', ''workstation'', ''pebble_watch'', ''smartphone''}
     \<and> hwStatus a \<in> {''active'', ''maintenance_required'', ''offline'', ''pending_return'', ''decommissioned''}
     \<and> hwSerialNumber a \<notin> hwSerialNumber ` set (fdAssets d) \<and> length (hwSerialNumber a) \<le> 100 \<and> length (hwModel a) \<le> 100
     \<and> known (hwZoneID a) (fst ` set (fdZones d))"

definition pgx_GetAssetByID :: "bool \<Rightarrow> string \<Rightarrow> fac_db \<Rightarrow> fac_error + HardwareAsset" where
  "pgx_GetAssetByID up i d =
     (if \<not> up then Inl FacDbError else case find (\<lambda>a. hwAssetID a = i) (fdAssets d) of None \<Rightarrow> Inl FacDbError | Some a \<Rightarrow> Inr a)"

definition asset_before :: "time \<times> string \<Rightarrow> time \<times> string \<Rightarrow> bool" where
  "asset_before p q = (if fst p \<noteq> fst q then fst p < fst q else str_less (snd p) (snd q))"

definition asset_key :: "HardwareAsset \<Rightarrow> time \<times> string" where "asset_key a = (hwCreatedAt a, hwAssetID a)"

definition pgx_ListAssets :: "bool \<Rightarrow> int \<Rightarrow> (time \<times> string) option \<Rightarrow> string option \<Rightarrow> fac_db \<Rightarrow> fac_error + HardwareAsset list" where
  "pgx_ListAssets up limit cursor type d =
     (if \<not> up \<or> limit < 0 then Inl FacDbError
      else Inr (take (nat limit) (sort_by (\<lambda>a b. asset_before (asset_key b) (asset_key a))
        (filter (\<lambda>a. (case cursor of None \<Rightarrow> True | Some c \<Rightarrow> asset_before (asset_key a) c) \<and> (strVal type = [] \<or> hwAssetType a = strVal type)) (fdAssets d)))))"

definition pgx_CreateAsset :: "(nat \<Rightarrow> string) \<Rightarrow> bool \<Rightarrow> time \<Rightarrow> HardwareAsset \<Rightarrow> fac_db \<Rightarrow> (fac_error + HardwareAsset) \<times> fac_db" where
  "pgx_CreateAsset uuid up now a d =
     (let a' = a\<lparr>hwAssetID := uuid (fdCount d), hwAssignedEmployeeID := None, hwLastPingAt := None, hwCreatedAt := now, hwUpdatedAt := now\<rparr>
      in if up \<and> asset_row_ok d a' then (Inr a', d\<lparr>fdAssets := fdAssets d @ [a'], fdCount := Suc (fdCount d)\<rparr>) else (Inl FacDbError, d))"

definition pgx_CreateMaintenanceTicket ::
    "(nat \<Rightarrow> string) \<Rightarrow> bool \<Rightarrow> time \<Rightarrow> MaintenanceTicket \<Rightarrow> fac_db \<Rightarrow> (fac_error + MaintenanceTicket) \<times> fac_db" where
  "pgx_CreateMaintenanceTicket uuid up now t d =
     (let t' = t\<lparr>mkTicketID := uuid (fdCount d), mkStatus := ''open'', mkAssignedTechnicianID := None, mkReportedBy := None, mkResolvedAt := None,
                mkCreatedAt := now, mkUpdatedAt := now\<rparr>
      in if up \<and> mkAssetID t \<in> asset_ids d \<and> length (mkTitle t) \<le> 200 \<and> mkPriority t \<in> {''low'', ''medium'', ''high'', ''critical''}
         then (Inr t', d\<lparr>fdTickets := fdTickets d @ [t'], fdCount := Suc (fdCount d)\<rparr>) else (Inl FacDbError, d))"

definition log_row_ok :: "fac_db \<Rightarrow> MaintenanceLog \<Rightarrow> bool" where
  "log_row_ok d l \<longleftrightarrow> mlAssetID l \<in> asset_ids d \<and> known (mlTicketID l) (mkTicketID ` set (fdTickets d)) \<and> known (mlTechnicianID l) (fdEmployees d)
     \<and> length (mlQRCodeScanned l) \<le> 255"

definition stored_log :: "(nat \<Rightarrow> string) \<Rightarrow> time \<Rightarrow> nat \<times> MaintenanceLog \<Rightarrow> MaintenanceLog" where
  "stored_log uuid now = (\<lambda>(k, l). l\<lparr>mlLogID := uuid k, mlSyncedAt := now, mlCreatedAt := (if mlCreatedAt l = zeroTime then now else mlCreatedAt l)\<rparr>)"

definition pgx_BatchInsertMaintenanceLogs ::
    "(nat \<Rightarrow> string) \<Rightarrow> bool \<Rightarrow> time \<Rightarrow> MaintenanceLog list \<Rightarrow> fac_db \<Rightarrow> (fac_error + MaintenanceLog list) \<times> fac_db" where
  "pgx_BatchInsertMaintenanceLogs uuid up now ls d =
     (if \<not> up then (Inl FacDbError, d)
      else if list_all (log_row_ok d) ls
      then let ls' = map (stored_log uuid now) (enumerate (fdCount d) ls)
           in (Inr ls', d\<lparr>fdLogs := fdLogs d @ ls', fdCount := fdCount d + length ls\<rparr>)
      else (Inl FacDbError, d))"

definition pgx_ListMaintenanceLogsByAsset :: "bool \<Rightarrow> string \<Rightarrow> fac_db \<Rightarrow> fac_error + MaintenanceLog list" where
  "pgx_ListMaintenanceLogsByAsset up i d =
     (if \<not> up then Inl FacDbError else Inr (sort_key (\<lambda>l. - mlCreatedAt l) (filter (\<lambda>l. mlAssetID l = i) (fdLogs d))))"

definition release_row_ok :: "fac_db \<Rightarrow> FirmwareRelease \<Rightarrow> bool" where
  "release_row_ok d f \<longleftrightarrow> fwDeviceType f \<in> {''edge_camera'', ''gateway'', ''networking_switch'', ''pebble_watch'', ''workstation'', ''smartphone''}
     \<and> fwStatus f \<in> {''draft'', ''published'', ''deprecated''} \<and> length (fwVersion f) \<le> 50 \<and> length (fwChecksum f) \<le> 64
     \<and> length (strVal (fwMinHardwareVersion f)) \<le> 50 \<and> (fwDeviceType f, fwVersion f) \<notin> (\<lambda>g. (fwDeviceType g, fwVersion g)) ` set (fdReleases d)"

definition pgx_CreateFirmwareRelease ::
    "(nat \<Rightarrow> string) \<Rightarrow> bool \<Rightarrow> time \<Rightarrow> FirmwareRelease \<Rightarrow> fac_db \<Rightarrow> (fac_error + FirmwareRelease) \<times> fac_db" where
  "pgx_CreateFirmwareRelease uuid up now f d =
     (let f' = f\<lparr>fwReleaseID := uuid (fdCount d), fwStatus := (if fwStatus f = [] then ''published'' else fwStatus f), fwCreatedAt := now, fwUpdatedAt := now\<rparr>
      in if up \<and> release_row_ok d f' then (Inr f', d\<lparr>fdReleases := fdReleases d @ [f'], fdCount := Suc (fdCount d)\<rparr>) else (Inl FacDbError, d))"

definition pgx_ListFirmwareReleases :: "bool \<Rightarrow> string \<Rightarrow> fac_db \<Rightarrow> fac_error + FirmwareRelease list" where
  "pgx_ListFirmwareReleases up t d =
     (if \<not> up then Inl FacDbError else Inr (sort_key (\<lambda>f. - fwCreatedAt f) (filter (\<lambda>f. fwDeviceType f = t) (fdReleases d))))"

definition job_row_ok :: "fac_db \<Rightarrow> OTAJob \<Rightarrow> bool" where
  "job_row_ok d j \<longleftrightarrow> jbAssetID j \<in> asset_ids d \<and> jbReleaseID j \<in> release_ids d
     \<and> jbStatus j \<in> {''pending'', ''downloading'', ''applying'', ''completed'', ''failed''}"

definition stored_job :: "(nat \<Rightarrow> string) \<Rightarrow> time \<Rightarrow> nat \<times> OTAJob \<Rightarrow> OTAJob" where
  "stored_job uuid now = (\<lambda>(k, j). new_job now (uuid k) (j\<lparr>jbErrorMessage := None, jbCompletedAt := None\<rparr>))"

definition pgx_CreateOTAJob :: "(nat \<Rightarrow> string) \<Rightarrow> bool \<Rightarrow> time \<Rightarrow> OTAJob \<Rightarrow> fac_db \<Rightarrow> (fac_error + OTAJob) \<times> fac_db" where
  "pgx_CreateOTAJob uuid up now j d =
     (let j' = stored_job uuid now (fdCount d, j)
      in if up \<and> job_row_ok d j' then (Inr j', d\<lparr>fdJobs := fdJobs d @ [j'], fdCount := Suc (fdCount d)\<rparr>) else (Inl FacDbError, d))"

definition pgx_BatchCreateOTAJobs :: "(nat \<Rightarrow> string) \<Rightarrow> bool \<Rightarrow> time \<Rightarrow> OTAJob list \<Rightarrow> fac_db \<Rightarrow> (fac_error + OTAJob list) \<times> fac_db" where
  "pgx_BatchCreateOTAJobs uuid up now js d =
     (let js' = map (stored_job uuid now) (enumerate (fdCount d) js)
      in if up \<and> list_all (job_row_ok d) js' then (Inr js', d\<lparr>fdJobs := fdJobs d @ js', fdCount := fdCount d + length js\<rparr>) else (Inl FacDbError, d))"

definition pgx_UpdateOTAJobStatus ::
    "bool \<Rightarrow> time \<Rightarrow> string \<Rightarrow> string \<Rightarrow> string option \<Rightarrow> time option \<Rightarrow> fac_db \<Rightarrow> (fac_error + OTAJob) \<times> fac_db" where
  "pgx_UpdateOTAJobStatus up now i status err completedAt d =
     (if \<not> up then (Inl FacDbError, d)
      else case find (\<lambda>j. jbJobID j = i) (fdJobs d) of
        None \<Rightarrow> (Inl FacDbError, d)
      | Some j \<Rightarrow> if job_row_ok d (job_change now status err completedAt j)
          then (Inr (job_change now status err completedAt j),
                d\<lparr>fdJobs := map (\<lambda>k. if jbJobID k = i then job_change now status err completedAt k else k) (fdJobs d)\<rparr>)
          else (Inl FacDbError, d))"

definition pgx_ListOTAJobsByAsset :: "bool \<Rightarrow> string \<Rightarrow> fac_db \<Rightarrow> fac_error + OTAJob list" where
  "pgx_ListOTAJobsByAsset up i d =
     (if \<not> up then Inl FacDbError else Inr (sort_key (\<lambda>j. - jbCreatedAt j) (filter (\<lambda>j. jbAssetID j = i) (fdJobs d))))"

definition pgx_RecordTelemetry ::
    "(nat \<Rightarrow> float64 \<Rightarrow> float64 option) \<Rightarrow> (nat \<Rightarrow> string) \<Rightarrow> bool \<Rightarrow> time \<Rightarrow> EnvironmentalTelemetry \<Rightarrow> fac_db
      \<Rightarrow> (fac_error + EnvironmentalTelemetry) \<times> fac_db" where
  "pgx_RecordTelemetry num uuid up now t d =
     (let t' = t\<lparr>teTelemetryID := uuid (fdCount d), teRecordedAt := (if teRecordedAt t = zeroTime then now else teRecordedAt t)\<rparr>
      in case (num 4 (teTemperatureC t), num 5 (teRelativeHumidityPct t), num 8 (teLightIntensityLux t), num 5 (teNoiseLevelDB t)) of
           (Some a, Some b, Some c, Some e) \<Rightarrow>
             if up \<and> teZoneID t \<in> fst ` set (fdZones d)
             then (Inr t', d\<lparr>fdTelemetry := fdTelemetry d @ [t'\<lparr>teTemperatureC := a, teRelativeHumidityPct := b, teLightIntensityLux := c, teNoiseLevelDB := e\<rparr>],
                             fdCount := Suc (fdCount d)\<rparr>)
             else (Inl FacDbError, d)
         | _ \<Rightarrow> (Inl FacDbError, d))"

definition pgx_LatestTelemetry :: "bool \<Rightarrow> string \<Rightarrow> int \<Rightarrow> fac_db \<Rightarrow> fac_error + EnvironmentalTelemetry list" where
  "pgx_LatestTelemetry up zone limit d =
     (if \<not> up then Inl FacDbError
      else let n = (if limit \<le> 0 then 10 else if 100 < limit then 100 else limit)
           in Inr (take (nat n) (sort_key (\<lambda>t. - teRecordedAt t)
                (filter (\<lambda>t. zone = [] \<or> teZoneID t = zone \<or> (teZoneID t, zone) \<in> set (fdZones d)) (fdTelemetry d)))))"

definition pgx_facilities :: "(nat \<Rightarrow> float64 \<Rightarrow> float64 option) \<Rightarrow> (nat \<Rightarrow> string) \<Rightarrow> bool \<Rightarrow> time \<Rightarrow> fac_db FacRepository" where
  "pgx_facilities num uuid up now = \<lparr>faGetAssetByID = pgx_GetAssetByID up, faListAssets = pgx_ListAssets up, faCreateAsset = pgx_CreateAsset uuid up now,
     faCreateMaintenanceTicket = pgx_CreateMaintenanceTicket uuid up now, faBatchInsertMaintenanceLogs = pgx_BatchInsertMaintenanceLogs uuid up now,
     faListMaintenanceLogsByAsset = pgx_ListMaintenanceLogsByAsset up, faCreateFirmwareRelease = pgx_CreateFirmwareRelease uuid up now,
     faListFirmwareReleases = pgx_ListFirmwareReleases up, faCreateOTAJob = pgx_CreateOTAJob uuid up now, faBatchCreateOTAJobs = pgx_BatchCreateOTAJobs uuid up now,
     faUpdateOTAJobStatus = pgx_UpdateOTAJobStatus up now, faListOTAJobsByAsset = pgx_ListOTAJobsByAsset up,
     faRecordTelemetry = pgx_RecordTelemetry num uuid up now, faLatestTelemetry = pgx_LatestTelemetry up\<rparr>"

section \<open>The service\<close>

definition fac_GetAsset :: "'s FacRepository \<Rightarrow> string \<Rightarrow> 's \<Rightarrow> fac_error + HardwareAsset" where
  "fac_GetAsset R i s = (if i = [] then Inl AssetIDEmpty else faGetAssetByID R i s)"

definition fac_ListAssets :: "'s FacRepository \<Rightarrow> int \<Rightarrow> (time \<times> string) option \<Rightarrow> string option \<Rightarrow> 's \<Rightarrow> fac_error + HardwareAsset list" where
  "fac_ListAssets R limit cursor type s = faListAssets R (if limit \<le> 0 then 20 else limit) cursor type s"

definition fac_CreateAsset :: "'s FacRepository \<Rightarrow> string \<Rightarrow> string \<Rightarrow> string \<Rightarrow> string \<Rightarrow> 's \<Rightarrow> (fac_error + HardwareAsset) \<times> 's" where
  "fac_CreateAsset R serial type model zone s =
     (if serial = [] \<or> type = [] then (Inl SerialAndTypeRequired, s)
      else faCreateAsset R \<lparr>hwAssetID = [], hwSerialNumber = serial, hwAssetType = type, hwModel = model, hwStatus = ''active'', hwZoneID = strPtr zone,
        hwAssignedEmployeeID = None, hwLastPingAt = None, hwCreatedAt = zeroTime, hwUpdatedAt = zeroTime\<rparr> s)"

definition fac_SyncMaintenanceLogs :: "'s FacRepository \<Rightarrow> MaintenanceLog list \<Rightarrow> 's \<Rightarrow> (fac_error + MaintenanceLog list) \<times> 's" where
  "fac_SyncMaintenanceLogs R ls s =
     (if ls = [] then (Inr [], s)
      else if list_ex (\<lambda>l. mlAssetID l = [] \<or> mlQRCodeScanned l = []) ls then (Inl LogFieldsRequired, s)
      else faBatchInsertMaintenanceLogs R ls s)"

definition fac_CreateFirmwareRelease :: "'s FacRepository \<Rightarrow> FirmwareRelease \<Rightarrow> 's \<Rightarrow> (fac_error + FirmwareRelease) \<times> 's" where
  "fac_CreateFirmwareRelease R f s =
     (if fwDeviceType f = [] \<or> fwVersion f = [] \<or> fwFileURL f = [] then (Inl ReleaseFieldsRequired, s) else faCreateFirmwareRelease R f s)"

definition fac_ListFirmwareReleases :: "'s FacRepository \<Rightarrow> string \<Rightarrow> 's \<Rightarrow> fac_error + FirmwareRelease list" where
  "fac_ListFirmwareReleases R type s = (if type = [] then Inl DeviceTypeRequired else faListFirmwareReleases R type s)"

definition blank_job :: "string \<Rightarrow> string \<Rightarrow> OTAJob" where
  "blank_job releaseID assetID = \<lparr>jbJobID = [], jbAssetID = assetID, jbReleaseID = releaseID, jbStatus = [], jbErrorMessage = None, jbScheduledAt = zeroTime,
     jbCompletedAt = None, jbCreatedAt = zeroTime, jbUpdatedAt = zeroTime\<rparr>"

definition fac_TriggerOTAUpdate :: "'s FacRepository \<Rightarrow> string list \<Rightarrow> string \<Rightarrow> 's \<Rightarrow> (fac_error + OTAJob list) \<times> 's" where
  "fac_TriggerOTAUpdate R assetIDs releaseID s =
     (if assetIDs = [] \<or> releaseID = [] then (Inl RolloutFieldsRequired, s) else faBatchCreateOTAJobs R (map (blank_job releaseID) assetIDs) s)"

definition fac_ListOTAJobs :: "'s FacRepository \<Rightarrow> string \<Rightarrow> 's \<Rightarrow> fac_error + OTAJob list" where
  "fac_ListOTAJobs R i s = (if i = [] then Inl AssetIDRequired else faListOTAJobsByAsset R i s)"

text \<open>A payload is a map from names to values of any type; a \<open>float32\<close> is represented by the \<open>float64\<close> of the same value.\<close>

datatype any = AString string | AFloat float64 | AInt int | AOther

definition getFloat :: "(string, any) gomap \<Rightarrow> string \<Rightarrow> float64" where
  "getFloat m k = (case m k of Some (AFloat v) \<Rightarrow> v | Some (AInt v) \<Rightarrow> of_i64 v | _ \<Rightarrow> Fin 0)"

definition getString :: "(string, any) gomap \<Rightarrow> string \<Rightarrow> string" where
  "getString m k = (case m k of Some (AString v) \<Rightarrow> v | _ \<Rightarrow> [])"

definition fac_IngestTelemetry :: "'s FacRepository \<Rightarrow> time \<Rightarrow> (string, any) gomap \<Rightarrow> 's \<Rightarrow> (fac_error + EnvironmentalTelemetry) \<times> 's" where
  "fac_IngestTelemetry R now p s =
     (if getString p ''zone_id'' = [] then (Inl ZoneRequired, s)
      else map_prod (map_sum TelemetryNotStored id) id (faRecordTelemetry R \<lparr>teTelemetryID = [], teZoneID = getString p ''zone_id'',
        teTemperatureC = getFloat p ''temperature_c'', teRelativeHumidityPct = getFloat p ''relative_humidity_pct'',
        teLightIntensityLux = getFloat p ''light_intensity_lux'', teNoiseLevelDB = getFloat p ''noise_level_db'', teRecordedAt = now\<rparr> s))"

section \<open>The gRPC server\<close>

record asset_message =
  ghAssetID :: string
  ghSerialNumber :: string
  ghAssetType :: string
  ghModel :: string
  ghStatus :: string
  ghZoneID :: string
  ghAssignedEmployeeID :: string
  ghLastPingAt :: string
  ghCreatedAt :: string

record log_message =
  glLogID :: string
  glTicketID :: string
  glAssetID :: string
  glTechnicianID :: string
  glQRCodeScanned :: string
  glActionTaken :: string
  glNotes :: string
  glSyncedAt :: string

record release_message =
  grReleaseID :: string
  grDeviceType :: string
  grVersion :: string
  grFileURL :: string
  grChecksum :: string
  grMinHardwareVersion :: string
  grStatus :: string
  grCreatedAt :: string

record ota_message = DeviceOTAJob +
  ojErrorMessage :: string
  ojCompletedAt :: string

record sample_message =
  gsTelemetryID :: string
  gsZoneID :: string
  gsTemperatureC :: float64
  gsRelativeHumidityPct :: float64
  gsLightIntensityLux :: float64
  gsNoiseLevelDB :: float64
  gsTimestamp :: string

definition toProtoAsset :: "HardwareAsset \<Rightarrow> asset_message" where
  "toProtoAsset a = \<lparr>ghAssetID = hwAssetID a, ghSerialNumber = hwSerialNumber a, ghAssetType = hwAssetType a, ghModel = hwModel a, ghStatus = hwStatus a,
     ghZoneID = strVal (hwZoneID a), ghAssignedEmployeeID = strVal (hwAssignedEmployeeID a), ghLastPingAt = time_ptr_text (hwLastPingAt a), ghCreatedAt = time_text (hwCreatedAt a)\<rparr>"

definition toProtoMaintenanceLog :: "MaintenanceLog \<Rightarrow> log_message" where
  "toProtoMaintenanceLog l = \<lparr>glLogID = mlLogID l, glTicketID = strVal (mlTicketID l), glAssetID = mlAssetID l, glTechnicianID = strVal (mlTechnicianID l),
     glQRCodeScanned = mlQRCodeScanned l, glActionTaken = mlActionTaken l, glNotes = strVal (mlNotes l), glSyncedAt = time_text (mlSyncedAt l)\<rparr>"

definition toProtoFirmwareRelease :: "FirmwareRelease \<Rightarrow> release_message" where
  "toProtoFirmwareRelease f = \<lparr>grReleaseID = fwReleaseID f, grDeviceType = fwDeviceType f, grVersion = fwVersion f, grFileURL = fwFileURL f, grChecksum = fwChecksum f,
     grMinHardwareVersion = strVal (fwMinHardwareVersion f), grStatus = fwStatus f, grCreatedAt = rfc3339 (fwCreatedAt f)\<rparr>"

definition toProtoOTAJob :: "OTAJob \<Rightarrow> ota_message" where
  "toProtoOTAJob j = \<lparr>ojJobID = jbJobID j, ojAssetID = jbAssetID j, ojReleaseID = jbReleaseID j, ojStatus = jbStatus j, ojScheduledAt = rfc3339 (jbScheduledAt j),
     ojErrorMessage = strVal (jbErrorMessage j), ojCompletedAt = time_ptr_text (jbCompletedAt j)\<rparr>"

definition grpc_GetAsset :: "'s FacRepository \<Rightarrow> string \<Rightarrow> 's \<Rightarrow> fac_error + asset_message" where
  "grpc_GetAsset R i s = map_sum id toProtoAsset (fac_GetAsset R i s)"

definition grpc_ListAssets :: "'s FacRepository \<Rightarrow> int \<Rightarrow> string \<Rightarrow> 's \<Rightarrow> fac_error + asset_message list" where
  "grpc_ListAssets R limit type s = map_sum id (map toProtoAsset) (fac_ListAssets R limit None (strPtr type) s)"

definition grpc_CreateAsset :: "'s FacRepository \<Rightarrow> string \<Rightarrow> string \<Rightarrow> string \<Rightarrow> string \<Rightarrow> 's \<Rightarrow> (fac_error + asset_message) \<times> 's" where
  "grpc_CreateAsset R serial type model zone s = map_prod (map_sum id toProtoAsset) id (fac_CreateAsset R serial type model zone s)"

text \<open>A log message as a row to insert: its identifier and its times are not taken over.\<close>

definition log_to_sync :: "time \<Rightarrow> log_message \<Rightarrow> MaintenanceLog" where
  "log_to_sync now m = \<lparr>mlLogID = [], mlTicketID = strPtr (glTicketID m), mlAssetID = glAssetID m, mlTechnicianID = strPtr (glTechnicianID m),
     mlQRCodeScanned = glQRCodeScanned m, mlActionTaken = glActionTaken m, mlNotes = strPtr (glNotes m), mlSyncedAt = now, mlCreatedAt = zeroTime\<rparr>"

definition grpc_CreateMaintenanceLog :: "'s FacRepository \<Rightarrow> time \<Rightarrow> log_message \<Rightarrow> 's \<Rightarrow> (fac_error + log_message) \<times> 's" where
  "grpc_CreateMaintenanceLog R now m s = (case fac_SyncMaintenanceLogs R [log_to_sync now (m\<lparr>glTicketID := []\<rparr>)] s of
     (Inl e, s') \<Rightarrow> (Inl e, s')
   | (Inr [], s') \<Rightarrow> (Inl NoLogSynced, s')
   | (Inr (l # _), s') \<Rightarrow> (Inr (toProtoMaintenanceLog l), s'))"

text \<open>The server was started with the repository; without it the two calls below that use it directly would answer with an empty response.\<close>

definition grpc_ListMaintenanceLogs :: "'s FacRepository option \<Rightarrow> string \<Rightarrow> 's \<Rightarrow> fac_error + log_message list" where
  "grpc_ListMaintenanceLogs repo i s = (case repo of
     None \<Rightarrow> Inr []
   | Some R \<Rightarrow> if i = [] then Inr [] else map_sum id (map toProtoMaintenanceLog) (faListMaintenanceLogsByAsset R i s))"

definition grpc_SyncOfflineLogs :: "'s FacRepository \<Rightarrow> time \<Rightarrow> log_message option list \<Rightarrow> 's \<Rightarrow> (fac_error + log_message list) \<times> 's" where
  "grpc_SyncOfflineLogs R now ms s =
     map_prod (map_sum id (map toProtoMaintenanceLog)) id (fac_SyncMaintenanceLogs R (map (log_to_sync now) (List.map_filter id ms)) s)"

definition grpc_CreateFirmwareRelease :: "'s FacRepository \<Rightarrow> release_message \<Rightarrow> 's \<Rightarrow> (fac_error + release_message) \<times> 's" where
  "grpc_CreateFirmwareRelease R m s = map_prod (map_sum id toProtoFirmwareRelease) id (fac_CreateFirmwareRelease R
     \<lparr>fwReleaseID = [], fwDeviceType = grDeviceType m, fwVersion = grVersion m, fwFileURL = grFileURL m, fwChecksum = grChecksum m,
      fwMinHardwareVersion = strPtr (grMinHardwareVersion m), fwStatus = grStatus m, fwCreatedAt = zeroTime, fwUpdatedAt = zeroTime\<rparr> s)"

definition grpc_ListFirmwareReleases :: "'s FacRepository \<Rightarrow> string \<Rightarrow> 's \<Rightarrow> fac_error + release_message list" where
  "grpc_ListFirmwareReleases R type s = map_sum id (map toProtoFirmwareRelease) (fac_ListFirmwareReleases R type s)"

definition grpc_CreateOTAJob :: "'s FacRepository \<Rightarrow> string list \<Rightarrow> string \<Rightarrow> 's \<Rightarrow> (fac_error + ota_message list) \<times> 's" where
  "grpc_CreateOTAJob R assetIDs releaseID s = map_prod (map_sum id (map toProtoOTAJob)) id (fac_TriggerOTAUpdate R assetIDs releaseID s)"

definition grpc_ListOTAJobs :: "'s FacRepository \<Rightarrow> string \<Rightarrow> 's \<Rightarrow> fac_error + ota_message list" where
  "grpc_ListOTAJobs R i s = map_sum id (map toProtoOTAJob) (fac_ListOTAJobs R i s)"

definition grpc_UpdateOTAJobStatus ::
    "'s FacRepository option \<Rightarrow> time \<Rightarrow> string \<Rightarrow> string \<Rightarrow> string \<Rightarrow> 's \<Rightarrow> (fac_error + ota_message) \<times> 's" where
  "grpc_UpdateOTAJobStatus repo now i status err s = (case repo of
     None \<Rightarrow> (Inr \<lparr>ojJobID = i, ojAssetID = [], ojReleaseID = [], ojStatus = status, ojScheduledAt = [], ojErrorMessage = err, ojCompletedAt = rfc3339 now\<rparr>, s)
   | Some R \<Rightarrow> map_prod (map_sum id toProtoOTAJob) id
       (faUpdateOTAJobStatus R i status (strPtr err) (if status = ''completed'' \<or> status = ''failed'' then Some now else None) s))"

definition grpc_IngestTelemetry :: "'s FacRepository \<Rightarrow> time \<Rightarrow> sample_message \<Rightarrow> 's \<Rightarrow> (fac_error + string \<times> string) \<times> 's" where
  "grpc_IngestTelemetry R now m s = map_prod (map_sum id (\<lambda>t. (teTelemetryID t, ''ingested''))) id (fac_IngestTelemetry R now
     [''zone_id'' \<mapsto> AString (gsZoneID m), ''temperature_c'' \<mapsto> AFloat (gsTemperatureC m), ''relative_humidity_pct'' \<mapsto> AFloat (gsRelativeHumidityPct m),
      ''light_intensity_lux'' \<mapsto> AFloat (gsLightIntensityLux m), ''noise_level_db'' \<mapsto> AFloat (gsNoiseLevelDB m)] s)"

definition sample_of :: "EnvironmentalTelemetry \<Rightarrow> sample_message" where
  "sample_of t = \<lparr>gsTelemetryID = teTelemetryID t, gsZoneID = teZoneID t, gsTemperatureC = teTemperatureC t, gsRelativeHumidityPct = teRelativeHumidityPct t,
     gsLightIntensityLux = teLightIntensityLux t, gsNoiseLevelDB = teNoiseLevelDB t, gsTimestamp = rfc3339 (teRecordedAt t)\<rparr>"

text \<open>Sending stops at the first sample that cannot be sent; \<open>ok k\<close> says whether the sample at position \<open>k\<close> can. The second result is what the client received.\<close>

fun send_samples :: "(nat \<Rightarrow> bool) \<Rightarrow> nat \<Rightarrow> EnvironmentalTelemetry list \<Rightarrow> fac_error option \<times> sample_message list" where
  "send_samples ok k [] = (None, [])"
| "send_samples ok k (t # ts) = (if ok k then map_prod id (Cons (sample_of t)) (send_samples ok (Suc k) ts) else (Some SampleSendFailed, []))"

definition grpc_StreamTelemetry ::
    "'s FacRepository \<Rightarrow> (nat \<Rightarrow> bool) \<Rightarrow> string \<Rightarrow> int \<Rightarrow> 's \<Rightarrow> fac_error option \<times> sample_message list" where
  "grpc_StreamTelemetry R ok zone samples s =
     (case faLatestTelemetry R (if zone = [] then ''zone-alpha'' else zone) (if samples \<le> 0 then 5 else if 100 < samples then 100 else samples) s of
        Inl _ \<Rightarrow> (Some StreamInternal, [])
      | Inr ts \<Rightarrow> if ts = [] then (Some StreamNotFound, []) else send_samples ok 0 ts)"

text \<open>The two camera calls of the server answer with a status and change nothing.\<close>

definition grpc_ControlPTZ :: "string \<Rightarrow> string \<times> string" where
  "grpc_ControlPTZ cameraID = (cameraID, ''ptz_adjusted'')"

definition grpc_CalibrateCameraLens :: "string \<Rightarrow> string \<times> string" where
  "grpc_CalibrateCameraLens cameraID = (cameraID, ''lens_calibrated'')"

section \<open>The internal layer and the worker\<close>

text \<open>
  The calls of the internal layer: without a client most are refused as unavailable and the listings are empty; with one they are passed on.
\<close>

definition pass_call :: "'c option \<Rightarrow> ('c \<Rightarrow> 'f \<Rightarrow> ('e + 'a) \<times> 'f) \<Rightarrow> 'f \<Rightarrow> ((code, 'e) sum + 'a) \<times> 'f" where
  "pass_call client call w = (case client of None \<Rightarrow> (Inl (Inl Unavailable), w) | Some C \<Rightarrow> map_prod (map_sum Inr id) id (call C w))"

definition pass_list :: "'c option \<Rightarrow> ('c \<Rightarrow> 'f \<Rightarrow> 'e + 'a list) \<Rightarrow> 'f \<Rightarrow> 'e + 'a list" where
  "pass_list client call w = (case client of None \<Rightarrow> Inr [] | Some C \<Rightarrow> call C w)"

text \<open>The telemetry stream is relayed sample by sample until the upstream ends, fails, or a sample cannot be sent on.\<close>

fun relay :: "(nat \<Rightarrow> bool) \<Rightarrow> nat \<Rightarrow> fac_error option \<times> sample_message list \<Rightarrow> fac_error option \<times> sample_message list" where
  "relay ok k (e, []) = (e, [])"
| "relay ok k (e, m # ms) = (if ok k then map_prod id (Cons m) (relay ok (Suc k) (e, ms)) else (Some SampleSendFailed, []))"

definition ota_call :: "'s FacRepository \<Rightarrow> string list \<Rightarrow> string \<Rightarrow> 's \<Rightarrow> (rpc_error + DeviceOTAJob list) \<times> 's" where
  "ota_call R assetIDs releaseID s = map_prod (map_sum (\<lambda>_. Unknown) (map DeviceOTAJob.truncate)) id (grpc_CreateOTAJob R assetIDs releaseID s)"

record OTATriggeredPayload =
  opJobID :: string
  opAssetID :: string
  opReleaseID :: string
  opDeviceType :: string
  opVersion :: string
  opFileURL :: string
  opChecksum :: string

record OTACompletedPayload =
  odJobID :: string
  odAssetID :: string
  odReleaseID :: string
  odStatus :: string
  odCompletedAt :: time

text \<open>The payload of the event that the internal layer publishes for a job.\<close>

definition ota_payload :: "DeviceOTAJob \<Rightarrow> OTATriggeredPayload" where
  "ota_payload j = \<lparr>opJobID = ojJobID j, opAssetID = ojAssetID j, opReleaseID = ojReleaseID j, opDeviceType = [], opVersion = [], opFileURL = [], opChecksum = []\<rparr>"

definition HandleOTATriggered ::
    "(string \<Rightarrow> string \<Rightarrow> string \<Rightarrow> 'f \<Rightarrow> ('e + ota_message) \<times> 'f) option \<Rightarrow> time \<Rightarrow> OTATriggeredPayload option \<Rightarrow> 'f \<Rightarrow> OTACompletedPayload option \<times> 'f" where
  "HandleOTATriggered internalBLL now msg w = (case internalBLL of
     None \<Rightarrow> (None, w)
   | Some update \<Rightarrow> (case msg of
       None \<Rightarrow> (None, w)
     | Some p \<Rightarrow> (case update (opJobID p) ''completed'' [] w of
         (Inl _, w') \<Rightarrow> (None, w')
       | (Inr _, w') \<Rightarrow> (Some \<lparr>odJobID = opJobID p, odAssetID = opAssetID p, odReleaseID = opReleaseID p, odStatus = ''completed'', odCompletedAt = now\<rparr>, w'))))"

text \<open>The update call of the internal layer on a facilities server over the database, at a time.\<close>

definition update_call :: "(nat \<Rightarrow> float64 \<Rightarrow> float64 option) \<Rightarrow> (nat \<Rightarrow> string) \<Rightarrow> time \<Rightarrow> string \<Rightarrow> string \<Rightarrow> string \<Rightarrow> fac_db
    \<Rightarrow> ((code, fac_error) sum + ota_message) \<times> fac_db" where
  "update_call num uuid now i status err =
     pass_call (Some (pgx_facilities num uuid True now)) (\<lambda>R. grpc_UpdateOTAJobStatus (Some R) now i status err)"

fun deliver_all :: "(nat \<Rightarrow> float64 \<Rightarrow> float64 option) \<Rightarrow> (nat \<Rightarrow> string) \<Rightarrow> (time \<times> OTATriggeredPayload) list \<Rightarrow> fac_db \<Rightarrow> fac_db" where
  "deliver_all num uuid [] d = d"
| "deliver_all num uuid ((t, p) # ms) d = deliver_all num uuid ms (snd (HandleOTATriggered (Some (update_call num uuid t)) t (Some p) d))"

section \<open>Rollouts\<close>

definition jobs_inv :: "(nat \<Rightarrow> string) \<Rightarrow> fac_db \<Rightarrow> bool" where
  "jobs_inv uuid d \<longleftrightarrow> list_all (job_row_ok d) (fdJobs d) \<and> distinct (map jbJobID (fdJobs d)) \<and> (\<forall>j \<in> set (fdJobs d). jbJobID j \<in> uuid ` {..<fdCount d})"

lemma job_change_twice [simp]: "job_change t st e c (job_change t' st' e' c' j) = job_change t st e c j"
  by (simp add: job_change_def)

lemma job_change_keeps [simp]:
  "jbJobID (job_change t st e c j) = jbJobID j" "jbAssetID (job_change t st e c j) = jbAssetID j" "jbReleaseID (job_change t st e c j) = jbReleaseID j"
  "jbStatus (job_change t st e c j) = st" "jbCompletedAt (job_change t st e c j) = c"
  by (simp_all add: job_change_def)

lemma stored_job_simps [simp]:
  "jbJobID (stored_job uuid now (k, j)) = uuid k" "jbAssetID (stored_job uuid now (k, j)) = jbAssetID j" "jbReleaseID (stored_job uuid now (k, j)) = jbReleaseID j"
  "jbStatus (stored_job uuid now (k, j)) = ''pending''"
  by (simp_all add: stored_job_def new_job_def)

lemma deliver_one:
  assumes "j \<in> set (fdJobs d)" and "jbJobID j = opJobID p" and "list_all (job_row_ok d) (fdJobs d)"
  shows "\<exists>c. HandleOTATriggered (Some (update_call num uuid t)) t (Some p) d = (Some c,
    d\<lparr>fdJobs := map (\<lambda>k. if jbJobID k = opJobID p then job_change t ''completed'' None (Some t) k else k) (fdJobs d)\<rparr>) \<and> odStatus c = ''completed'' \<and> odJobID c = opJobID p"
proof -
  obtain k where k: "find (\<lambda>j. jbJobID j = opJobID p) (fdJobs d) = Some k" "k \<in> set (fdJobs d)"
    using assms(1,2) by (cases "find (\<lambda>j. jbJobID j = opJobID p) (fdJobs d)") (auto simp: find_None_iff find_Some_iff)
  have "job_row_ok d (job_change t ''completed'' None (Some t) k)"
    using assms(3) k(2) by (auto simp: list_all_iff job_row_ok_def)
  then show ?thesis
    by (simp add: HandleOTATriggered_def update_call_def pass_call_def grpc_UpdateOTAJobStatus_def pgx_facilities_def pgx_UpdateOTAJobStatus_def k(1) strPtr_def)
qed

text \<open>What a sequence of deliveries leaves: a job that was named is completed, at the time of its last delivery, and every other is as it was.\<close>

definition advanced :: "string set \<Rightarrow> fac_db \<Rightarrow> fac_db \<Rightarrow> bool" where
  "advanced ids d d' \<longleftrightarrow> fdAssets d' = fdAssets d \<and> fdReleases d' = fdReleases d
     \<and> list_all2 (\<lambda>j k. if jbJobID j \<in> ids then \<exists>t. k = job_change t ''completed'' None (Some t) j else k = j) (fdJobs d) (fdJobs d')"

lemma advanced_ids: "advanced ids d d' \<Longrightarrow> map jbJobID (fdJobs d') = map jbJobID (fdJobs d)"
proof -
  assume "advanced ids d d'"
  then have "list_all2 (\<lambda>j k. jbJobID k = jbJobID j) (fdJobs d) (fdJobs d')"
    unfolding advanced_def by (elim conjE list_all2_mono) (auto split: if_splits)
  then show ?thesis by (induction rule: list_all2_induct) simp_all
qed

lemma advanced_rows: "advanced ids d d' \<Longrightarrow> list_all (job_row_ok d) (fdJobs d) \<Longrightarrow> list_all (job_row_ok d') (fdJobs d')"
proof -
  assume a: "advanced ids d d'" and r: "list_all (job_row_ok d) (fdJobs d)"
  have e: "asset_ids d' = asset_ids d" "release_ids d' = release_ids d" using a by (simp_all add: advanced_def asset_ids_def release_ids_def)
  have "list_all2 (\<lambda>j k. job_row_ok d j \<longrightarrow> job_row_ok d' k) (fdJobs d) (fdJobs d')"
    using a unfolding advanced_def by (elim conjE list_all2_mono) (auto simp: job_row_ok_def e split: if_splits)
  then show ?thesis using r by (induction rule: list_all2_induct) simp_all
qed

lemma deliver_all_advances:
  "list_all (job_row_ok d) (fdJobs d) \<Longrightarrow> opJobID ` snd ` set ms \<subseteq> jbJobID ` set (fdJobs d) \<Longrightarrow> advanced (opJobID ` snd ` set ms) d (deliver_all num uuid ms d)"
proof (induction ms arbitrary: d)
  case Nil
  then show ?case by (simp add: advanced_def list_all2_refl)
next
  case (Cons m ms)
  obtain t p where m: "m = (t, p)" by (cases m)
  define d1 where "d1 = d\<lparr>fdJobs := map (\<lambda>k. if jbJobID k = opJobID p then job_change t ''completed'' None (Some t) k else k) (fdJobs d)\<rparr>"
  obtain j where "j \<in> set (fdJobs d)" "jbJobID j = opJobID p" using Cons.prems(2) m by auto
  from deliver_one [OF this Cons.prems(1), where num = num and uuid = uuid and t = t, folded d1_def]
  have s: "snd (HandleOTATriggered (Some (update_call num uuid t)) t (Some p) d) = d1" by auto
  have a: "advanced {opJobID p} d d1"
    by (auto simp: advanced_def d1_def list_all2_map2 intro!: list_all2_refl)
  have "jbJobID ` set (fdJobs d1) = jbJobID ` set (fdJobs d)" using advanced_ids [OF a] by (metis set_map)
  then have "opJobID ` snd ` set ms \<subseteq> jbJobID ` set (fdJobs d1)" using Cons.prems(2) m by auto
  from Cons.IH [OF advanced_rows [OF a Cons.prems(1)] this] have b: "advanced (opJobID ` snd ` set ms) d1 (deliver_all num uuid ms d1)" .
  have "list_all2 (\<lambda>j k. if jbJobID j \<in> insert (opJobID p) (opJobID ` snd ` set ms) then \<exists>t. k = job_change t ''completed'' None (Some t) j else k = j)
      (fdJobs d) (fdJobs (deliver_all num uuid ms d1))"
  proof (rule list_all2_trans [of "\<lambda>j k. if jbJobID j \<in> {opJobID p} then \<exists>t. k = job_change t ''completed'' None (Some t) j else k = j"
        "\<lambda>j k. if jbJobID j \<in> opJobID ` snd ` set ms then \<exists>t. k = job_change t ''completed'' None (Some t) j else k = j"])
    show "list_all2 (\<lambda>j k. if jbJobID j \<in> {opJobID p} then \<exists>t. k = job_change t ''completed'' None (Some t) j else k = j) (fdJobs d) (fdJobs d1)"
      using a by (simp only: advanced_def)
    show "list_all2 (\<lambda>j k. if jbJobID j \<in> opJobID ` snd ` set ms then \<exists>t. k = job_change t ''completed'' None (Some t) j else k = j)
        (fdJobs d1) (fdJobs (deliver_all num uuid ms d1))"
      using b by (simp only: advanced_def)
  qed (auto split: if_splits)
  then show ?case using a b by (simp add: advanced_def m s)
qed

definition rollout_jobs :: "(nat \<Rightarrow> string) \<Rightarrow> time \<Rightarrow> string list \<Rightarrow> string \<Rightarrow> fac_db \<Rightarrow> OTAJob list" where
  "rollout_jobs uuid now assetIDs releaseID d = map (stored_job uuid now) (enumerate (fdCount d) (map (blank_job releaseID) assetIDs))"

lemma rollout_jobs_simps:
  "map jbAssetID (rollout_jobs uuid now as r d) = as" "map jbJobID (rollout_jobs uuid now as r d) = map uuid [fdCount d..<fdCount d + length as]"
  "\<forall>j \<in> set (rollout_jobs uuid now as r d). jbReleaseID j = r \<and> jbStatus j = ''pending''" "length (rollout_jobs uuid now as r d) = length as"
proof -
  have "map jbAssetID (rollout_jobs uuid now as r d) = map (jbAssetID \<circ> snd) (enumerate (fdCount d) (map (blank_job r) as))"
    by (simp add: rollout_jobs_def case_prod_unfold split: prod.split) (metis (no_types, lifting) stored_job_simps(2) prod.collapse)
  also have "\<dots> = map (jbAssetID \<circ> blank_job r) as" by (metis map_map map_snd_enumerate)
  finally show "map jbAssetID (rollout_jobs uuid now as r d) = as" by (simp add: blank_job_def comp_def)
  have "map jbJobID (rollout_jobs uuid now as r d) = map (uuid \<circ> fst) (enumerate (fdCount d) (map (blank_job r) as))"
    by (simp add: rollout_jobs_def) (metis (no_types, lifting) stored_job_simps(1) prod.collapse)
  also have "\<dots> = map uuid [fdCount d..<fdCount d + length as]" by (metis map_map map_fst_enumerate length_map)
  finally show "map jbJobID (rollout_jobs uuid now as r d) = map uuid [fdCount d..<fdCount d + length as]" .
  show "length (rollout_jobs uuid now as r d) = length as" by (simp add: rollout_jobs_def)
  show "\<forall>j \<in> set (rollout_jobs uuid now as r d). jbReleaseID j = r \<and> jbStatus j = ''pending''"
    by (auto simp: rollout_jobs_def in_set_enumerate_eq blank_job_def)
qed

lemma rollout_rows: "list_all (job_row_ok d) (rollout_jobs uuid now as r d) \<longleftrightarrow> set as \<subseteq> asset_ids d \<and> (as = [] \<or> r \<in> release_ids d)"
proof -
  have a: "jbAssetID ` set (rollout_jobs uuid now as r d) = set as" by (metis rollout_jobs_simps(1) set_map)
  have n: "rollout_jobs uuid now as r d = [] \<longleftrightarrow> as = []" by (metis length_0_conv rollout_jobs_simps(4))
  show ?thesis
  proof
    assume l: "list_all (job_row_ok d) (rollout_jobs uuid now as r d)"
    then have "jbAssetID ` set (rollout_jobs uuid now as r d) \<subseteq> asset_ids d" by (auto simp: list_all_iff job_row_ok_def)
    moreover have "as = [] \<or> r \<in> release_ids d"
      using l n rollout_jobs_simps(3) [of uuid now as r d] by (cases "rollout_jobs uuid now as r d") (auto simp: job_row_ok_def)
    ultimately show "set as \<subseteq> asset_ids d \<and> (as = [] \<or> r \<in> release_ids d)" unfolding a by simp
  next
    assume "set as \<subseteq> asset_ids d \<and> (as = [] \<or> r \<in> release_ids d)"
    then show "list_all (job_row_ok d) (rollout_jobs uuid now as r d)"
      using a n rollout_jobs_simps(3) [of uuid now as r d] by (fastforce simp: list_all_iff job_row_ok_def)
  qed
qed

lemma ota_call_db:
  assumes "as \<noteq> []" and "r \<noteq> []"
  shows "ota_call (pgx_facilities num uuid True now) as r d =
    (if set as \<subseteq> asset_ids d \<and> r \<in> release_ids d
     then (Inr (map (DeviceOTAJob.truncate \<circ> toProtoOTAJob) (rollout_jobs uuid now as r d)),
           d\<lparr>fdJobs := fdJobs d @ rollout_jobs uuid now as r d, fdCount := fdCount d + length as\<rparr>)
     else (Inl Unknown, d))"
  using assms rollout_rows [of d uuid now as r]
  by (simp add: ota_call_def grpc_CreateOTAJob_def fac_TriggerOTAUpdate_def pgx_facilities_def pgx_BatchCreateOTAJobs_def rollout_jobs_def [symmetric] Let_def)

lemma truncate_simps [simp]:
  "ojJobID (DeviceOTAJob.truncate (toProtoOTAJob j)) = jbJobID j" "ojAssetID (DeviceOTAJob.truncate (toProtoOTAJob j)) = jbAssetID j"
  "ojReleaseID (DeviceOTAJob.truncate (toProtoOTAJob j)) = jbReleaseID j"
  by (simp_all add: toProtoOTAJob_def DeviceOTAJob.truncate_def)

lemma rollout_events:
  assumes "blPublisher B"
  shows "bwEvents (emit_jobs B js w) = bwEvents w @ map (\<lambda>j. OTATriggered (ojJobID j) (ojAssetID j) (ojReleaseID j)) js"
    and "bwFacilities (emit_jobs B js w) = bwFacilities w"
  unfolding emit_jobs_def by (induction js arbitrary: w) (simp_all add: emit_def assms)

lemma rollout_inv:
  assumes "inj uuid" and "jobs_inv uuid d" and "set as \<subseteq> asset_ids d" and "r \<in> release_ids d"
  shows "jobs_inv uuid (d\<lparr>fdJobs := fdJobs d @ rollout_jobs uuid now as r d, fdCount := fdCount d + length as\<rparr>)" (is "jobs_inv uuid ?d")
proof -
  have o: "job_row_ok ?d = job_row_ok d" by (simp add: job_row_ok_def fun_eq_iff asset_ids_def release_ids_def)
  have i: "jbJobID ` set (rollout_jobs uuid now as r d) = uuid ` {fdCount d..<fdCount d + length as}"
    by (metis rollout_jobs_simps(2) set_map set_upt)
  have "distinct (map jbJobID (rollout_jobs uuid now as r d))"
    unfolding rollout_jobs_simps(2) using assms(1) by (simp add: distinct_map inj_on_def inj_def)
  moreover have "set (map jbJobID (fdJobs d)) \<inter> set (map jbJobID (rollout_jobs uuid now as r d)) = {}"
  proof -
    have "set (map jbJobID (fdJobs d)) \<subseteq> uuid ` {..<fdCount d}" using assms(2) by (auto simp: jobs_inv_def)
    moreover have "uuid ` {..<fdCount d} \<inter> uuid ` {fdCount d..<fdCount d + length as} = {}"
      using assms(1) by (auto simp: inj_eq)
    ultimately show ?thesis unfolding set_map i by auto
  qed
  moreover have "jbJobID j \<in> uuid ` {..<fdCount d + length as}" if "j \<in> set (fdJobs d @ rollout_jobs uuid now as r d)" for j
  proof (cases "j \<in> set (fdJobs d)")
    case True
    then show ?thesis using assms(2) by (auto simp: jobs_inv_def)
  next
    case False
    then have "jbJobID j \<in> uuid ` {fdCount d..<fdCount d + length as}" using that i by auto
    then show ?thesis by auto
  qed
  ultimately show ?thesis
    using assms(2,3,4) rollout_rows [of d uuid now as r] unfolding jobs_inv_def o by auto
qed

section \<open>Properties\<close>

text \<open>C19: A firmware rollout from the internal layer to the database and back: for assets and a release that exist it stores one pending job for each asset, with new
  identifiers, and publishes one event for each job; and once the worker has been delivered every one of these events, in any order, at any times and
  as often as the broker repeats them, every job of the rollout is completed and has a time, and no other job was touched.\<close>

theorem rollout_completes:
  assumes "blFacilities B = Some (ota_call (pgx_facilities num uuid True now))" and "blPublisher B" and "bwFacilities w = d"
    and "as \<noteq> []" and "set as \<subseteq> asset_ids d" and "r \<noteq> []" and "r \<in> release_ids d" and "inj uuid" and "jobs_inv uuid d"
  shows "\<exists>jobs w'. TriggerOTARollout B clk as r w = (Inr jobs, w') \<and> map ojAssetID jobs = as \<and> distinct (map ojJobID jobs)
    \<and> bwEvents w' = bwEvents w @ map (\<lambda>j. OTATriggered (ojJobID j) (ojAssetID j) (ojReleaseID j)) jobs \<and> jobs_inv uuid (bwFacilities w')
    \<and> (\<forall>ms. snd ` set ms = ota_payload ` set jobs \<longrightarrow>
         take (length (fdJobs d)) (fdJobs (deliver_all num uuid ms (bwFacilities w'))) = fdJobs d
         \<and> map jbJobID (drop (length (fdJobs d)) (fdJobs (deliver_all num uuid ms (bwFacilities w')))) = map ojJobID jobs
         \<and> (\<forall>j \<in> set (drop (length (fdJobs d)) (fdJobs (deliver_all num uuid ms (bwFacilities w')))). jbStatus j = ''completed'' \<and> jbCompletedAt j \<noteq> None))"
proof -
  define news where "news = rollout_jobs uuid now as r d"
  define d1 where "d1 = d\<lparr>fdJobs := fdJobs d @ news, fdCount := fdCount d + length as\<rparr>"
  define jobs where "jobs = map (DeviceOTAJob.truncate \<circ> toProtoOTAJob) news"
  define w' where "w' = emit_jobs B jobs (w\<lparr>bwFacilities := d1\<rparr>)"
  have c: "ota_call (pgx_facilities num uuid True now) as r d = (Inr jobs, d1)"
    using ota_call_db [OF assms(4,6), of num uuid now d] assms(5,7) by (simp add: jobs_def d1_def news_def)
  have t: "TriggerOTARollout B clk as r w = (Inr jobs, w')"
    using assms(1,3,4,6) c by (simp add: TriggerOTARollout_def w'_def)
  have inv: "jobs_inv uuid d1" using rollout_inv [OF assms(8,9,5,7)] by (simp add: d1_def news_def)
  have f: "bwFacilities w' = d1" "bwEvents w' = bwEvents w @ map (\<lambda>j. OTATriggered (ojJobID j) (ojAssetID j) (ojReleaseID j)) jobs"
    using rollout_events [OF assms(2)] by (simp_all add: w'_def)
  have ids: "map ojJobID jobs = map jbJobID news" "map ojAssetID jobs = as"
    using rollout_jobs_simps(1) [of uuid now as r d] by (simp_all add: jobs_def news_def [symmetric] comp_def)
  have dj: "distinct (map jbJobID (fdJobs d @ news))" using inv by (simp add: jobs_inv_def d1_def)
  have e: "take (length (fdJobs d)) (fdJobs (deliver_all num uuid ms d1)) = fdJobs d
      \<and> map jbJobID (drop (length (fdJobs d)) (fdJobs (deliver_all num uuid ms d1))) = map jbJobID news
      \<and> (\<forall>j \<in> set (drop (length (fdJobs d)) (fdJobs (deliver_all num uuid ms d1))). jbStatus j = ''completed'' \<and> jbCompletedAt j \<noteq> None)"
    if ms: "snd ` set ms = ota_payload ` set jobs" for ms
  proof -
    have i: "opJobID ` snd ` set ms = jbJobID ` set news"
      unfolding ms image_image by (auto simp: jobs_def ota_payload_def image_image)
    have "jbJobID ` set news \<subseteq> jbJobID ` set (fdJobs d1)" by (auto simp: d1_def)
    then have a: "advanced (jbJobID ` set news) d1 (deliver_all num uuid ms d1)"
      using deliver_all_advances [of d1 ms num uuid] inv i by (simp add: jobs_inv_def)
    define new where "new = fdJobs (deliver_all num uuid ms d1)"
    have l: "list_all2 (\<lambda>j k. if jbJobID j \<in> jbJobID ` set news then \<exists>t. k = job_change t ''completed'' None (Some t) j else k = j) (fdJobs d @ news) new"
      using a by (simp add: advanced_def d1_def new_def)
    obtain xs ys where s: "new = xs @ ys" "length xs = length (fdJobs d)"
      "list_all2 (\<lambda>j k. if jbJobID j \<in> jbJobID ` set news then \<exists>t. k = job_change t ''completed'' None (Some t) j else k = j) (fdJobs d) xs"
      "list_all2 (\<lambda>j k. if jbJobID j \<in> jbJobID ` set news then \<exists>t. k = job_change t ''completed'' None (Some t) j else k = j) news ys"
      using iffD1 [OF list_all2_append1 l] by blast
    have x: "xs = fdJobs d"
    proof (rule nth_equalityI [OF s(2)])
      fix k assume k: "k < length xs"
      then have "jbJobID (fdJobs d ! k) \<in> jbJobID ` set (fdJobs d)" using s(2) by simp
      moreover have "jbJobID ` set (fdJobs d) \<inter> jbJobID ` set news = {}" using dj by simp
      ultimately have "jbJobID (fdJobs d ! k) \<notin> jbJobID ` set news" by blast
      then show "xs ! k = fdJobs d ! k" using s(3) k s(2) by (simp add: list_all2_conv_all_nth)
    qed
    have "list_all2 (\<lambda>j k. \<exists>t. k = job_change t ''completed'' None (Some t) j) news ys"
      using s(4) by (auto simp: list_all2_conv_all_nth)
    then have "map jbJobID ys = map jbJobID news \<and> (\<forall>j \<in> set ys. jbStatus j = ''completed'' \<and> jbCompletedAt j \<noteq> None)"
      by (induction rule: list_all2_induct) auto
    then show ?thesis using s(1,2) x by (simp add: new_def [symmetric])
  qed
  then show ?thesis
    using t f ids dj inv by (intro exI [of _ jobs] exI [of _ w']) (simp add: distinct_append)
qed


text \<open>A database with one camera, one draft release for another kind of device, and one zone.\<close>

definition demo_fac_db :: fac_db where
  "demo_fac_db = \<lparr>fdZones = [(''z'', ''zone-alpha'')], fdEmployees = {''e''},
     fdAssets = [made_up_asset 1 ''0'' ''CAM-1'' ''edge_camera'' ''v2'' None], fdTickets = [], fdLogs = [],
     fdReleases = [\<lparr>fwReleaseID = ''1'', fwDeviceType = ''pebble_watch'', fwVersion = ''2'', fwFileURL = ''u'', fwChecksum = [], fwMinHardwareVersion = None,
       fwStatus = ''draft'', fwCreatedAt = 2, fwUpdatedAt = 2\<rparr>], fdJobs = [], fdTelemetry = [], fdCount = 2\<rparr>"

definition fac_bll :: "(unit, unit, unit, unit, fac_db, unit) bll_server" where
  "fac_bll = \<lparr>blWorkforce = None, blVCS = None, blHardware = None, blOps = None, blFacilities = Some (ota_call (pgx_facilities (\<lambda>_ x. Some x) dec_nat True 5)),
     blSearch = None, blPublisher = True\<rparr>"

definition fac_bll_world :: "(unit, unit, unit, unit, fac_db, unit) bll_world" where
  "fac_bll_world = \<lparr>bwWorkforce = (), bwVCS = (), bwHardware = (), bwOps = (), bwFacilities = demo_fac_db, bwSearch = (), bwEvents = []\<rparr>"

lemma demo_fac_facts:
  "asset_ids demo_fac_db = {''0''}" "release_ids demo_fac_db = {''1''}" "jobs_inv dec_nat demo_fac_db" "inj dec_nat"
  by (simp_all add: asset_ids_def release_ids_def demo_fac_db_def made_up_asset_def jobs_inv_def inj_def dec_nat_inj)

theorem rollout_completes_witness:
  "\<exists>jobs w'. TriggerOTARollout fac_bll (\<lambda>_. 4) [''0'', ''0''] ''1'' fac_bll_world = (Inr jobs, w') \<and> length jobs = 2 \<and> length (bwEvents w') = 2
    \<and> list_all (\<lambda>j. jbStatus j = ''completed'') (fdJobs (deliver_all (\<lambda>_ x. Some x) dec_nat (map (\<lambda>j. (6, ota_payload j)) (jobs @ jobs)) (bwFacilities w')))"
proof -
  have d: "fdJobs demo_fac_db = []" by (simp add: demo_fac_db_def)
  obtain jobs w' where j: "TriggerOTARollout fac_bll (\<lambda>_. 4) [''0'', ''0''] ''1'' fac_bll_world = (Inr jobs, w')" "map ojAssetID jobs = [''0'', ''0'']"
    "bwEvents w' = bwEvents fac_bll_world @ map (\<lambda>j. OTATriggered (ojJobID j) (ojAssetID j) (ojReleaseID j)) jobs"
    and e: "\<And>ms. snd ` set ms = ota_payload ` set jobs \<Longrightarrow> \<forall>j \<in> set (drop (length (fdJobs demo_fac_db)) (fdJobs (deliver_all (\<lambda>_ x. Some x) dec_nat ms (bwFacilities w')))).
      jbStatus j = ''completed'' \<and> jbCompletedAt j \<noteq> None"
    using rollout_completes [of fac_bll "\<lambda>_ x. Some x" dec_nat 5 fac_bll_world demo_fac_db "[''0'', ''0'']" "''1''" "\<lambda>_. 4"] demo_fac_facts
    by (auto simp: fac_bll_def fac_bll_world_def)
  have "length jobs = 2" using arg_cong [OF j(2), of length] by simp
  moreover have "snd ` set (map (\<lambda>j. (6 :: time, ota_payload j)) (jobs @ jobs)) = ota_payload ` set jobs" by (simp add: image_image)
  from e [OF this] have "list_all (\<lambda>j. jbStatus j = ''completed'') (fdJobs (deliver_all (\<lambda>_ x. Some x) dec_nat (map (\<lambda>j. (6, ota_payload j)) (jobs @ jobs)) (bwFacilities w')))"
    by (simp add: d list_all_iff)
  ultimately show ?thesis using j(1,3) by (intro exI [of _ jobs] exI [of _ w']) (simp add: fac_bll_world_def)
qed

text \<open>Exactly when the database accepts a rollout: at least one asset, a release, and both exist. Nothing relates the release to the assets: the type of device it is
  for and whether it was published are not examined. A rollout that is refused changes nothing and publishes nothing.\<close>

theorem rollout_accepted:
  assumes "blFacilities B = Some (ota_call (pgx_facilities num uuid True now))"
  shows "if as \<noteq> [] \<and> r \<noteq> [] \<and> set as \<subseteq> asset_ids (bwFacilities w) \<and> r \<in> release_ids (bwFacilities w)
    then \<exists>jobs w'. TriggerOTARollout B clk as r w = (Inr jobs, w') \<and> map ojAssetID jobs = as
    else \<exists>e. TriggerOTARollout B clk as r w = (Inl e, w)"
proof (cases "as = [] \<or> r = []")
  case True
  then show ?thesis by (auto simp: TriggerOTARollout_def)
next
  case False
  then have c: "ota_call (pgx_facilities num uuid True now) as r (bwFacilities w) = (if set as \<subseteq> asset_ids (bwFacilities w) \<and> r \<in> release_ids (bwFacilities w)
     then (Inr (map (DeviceOTAJob.truncate \<circ> toProtoOTAJob) (rollout_jobs uuid now as r (bwFacilities w))),
           (bwFacilities w)\<lparr>fdJobs := fdJobs (bwFacilities w) @ rollout_jobs uuid now as r (bwFacilities w), fdCount := fdCount (bwFacilities w) + length as\<rparr>)
     else (Inl Unknown, bwFacilities w))" by (intro ota_call_db) simp_all
  show ?thesis using False assms rollout_jobs_simps(1) [of uuid now as r "bwFacilities w"] by (simp add: TriggerOTARollout_def c comp_def)
qed

theorem rollout_accepted_witness:
  "(\<exists>jobs w'. TriggerOTARollout fac_bll (\<lambda>_. 4) [''0''] ''1'' fac_bll_world = (Inr jobs, w'))
    \<and> hwAssetType (hd (fdAssets demo_fac_db)) \<noteq> fwDeviceType (hd (fdReleases demo_fac_db)) \<and> fwStatus (hd (fdReleases demo_fac_db)) = ''draft''"
  using rollout_accepted [of fac_bll "\<lambda>_ x. Some x" dec_nat 5 "[''0'']" "''1''" fac_bll_world "\<lambda>_. 4"] demo_fac_facts
  by (auto simp add: fac_bll_def fac_bll_world_def demo_fac_db_def made_up_asset_def)

section \<open>Logs from offline devices\<close>

text \<open>What of a stored log comes from the device: everything but the identifier and the two times.\<close>

definition log_content :: "MaintenanceLog \<Rightarrow> MaintenanceLog" where
  "log_content l = l\<lparr>mlLogID := [], mlSyncedAt := 0, mlCreatedAt := 0\<rparr>"

definition log_acceptable :: "fac_db \<Rightarrow> log_message \<Rightarrow> bool" where
  "log_acceptable d m \<longleftrightarrow> glAssetID m \<noteq> [] \<and> glQRCodeScanned m \<noteq> [] \<and> log_row_ok d (log_to_sync 0 m)"

lemma log_row_ok_sync: "log_row_ok d (log_to_sync t m) = log_row_ok d (log_to_sync 0 m)"
  by (simp add: log_row_ok_def log_to_sync_def)

lemma log_acceptable_logs [simp]: "log_acceptable (d\<lparr>fdLogs := ls, fdCount := n\<rparr>) = log_acceptable d"
  by (simp add: log_acceptable_def fun_eq_iff log_row_ok_def asset_ids_def)

lemma sync_step:
  "fst (grpc_SyncOfflineLogs (pgx_facilities num uuid True t) t (map Some ms) d) \<in> range Inr \<longleftrightarrow> list_all (log_acceptable d) ms"
  "list_all (log_acceptable d) ms \<Longrightarrow> snd (grpc_SyncOfflineLogs (pgx_facilities num uuid True t) t (map Some ms) d) =
     d\<lparr>fdLogs := fdLogs d @ map (stored_log uuid t) (enumerate (fdCount d) (map (log_to_sync t) ms)), fdCount := fdCount d + length ms\<rparr>"
proof -
  have m: "List.map_filter id (map Some ms) = ms" by (simp add: map_filter_def comp_def)
  have a: "list_all (log_acceptable d) ms \<longleftrightarrow>
      \<not> list_ex (\<lambda>l. mlAssetID l = [] \<or> mlQRCodeScanned l = []) (map (log_to_sync t) ms) \<and> list_all (log_row_ok d) (map (log_to_sync t) ms)"
    by (auto simp: log_acceptable_def list_all_iff list_ex_iff log_row_ok_sync [of d t]) (auto simp: log_to_sync_def)
  show "fst (grpc_SyncOfflineLogs (pgx_facilities num uuid True t) t (map Some ms) d) \<in> range Inr \<longleftrightarrow> list_all (log_acceptable d) ms"
    unfolding a by (auto simp: grpc_SyncOfflineLogs_def m fac_SyncMaintenanceLogs_def pgx_facilities_def pgx_BatchInsertMaintenanceLogs_def Let_def)
  assume "list_all (log_acceptable d) ms"
  then show "snd (grpc_SyncOfflineLogs (pgx_facilities num uuid True t) t (map Some ms) d) =
     d\<lparr>fdLogs := fdLogs d @ map (stored_log uuid t) (enumerate (fdCount d) (map (log_to_sync t) ms)), fdCount := fdCount d + length ms\<rparr>"
    unfolding a by (auto simp: grpc_SyncOfflineLogs_def m fac_SyncMaintenanceLogs_def pgx_facilities_def pgx_BatchInsertMaintenanceLogs_def Let_def)
qed

lemma stored_logs:
  "map log_content (map (stored_log uuid t) (enumerate n (map (log_to_sync t) ms))) = map (\<lambda>m. log_content (log_to_sync 0 m)) ms"
  "list_all (\<lambda>l. mlCreatedAt l = t) (map (stored_log uuid t) (enumerate n (map (log_to_sync t) ms)))"
proof -
  show "map log_content (map (stored_log uuid t) (enumerate n (map (log_to_sync t) ms))) = map (\<lambda>m. log_content (log_to_sync 0 m)) ms"
    by (rule nth_equalityI) (simp_all add: nth_enumerate_eq stored_log_def log_content_def log_to_sync_def)
  show "list_all (\<lambda>l. mlCreatedAt l = t) (map (stored_log uuid t) (enumerate n (map (log_to_sync t) ms)))"
    by (simp add: list_all_length nth_enumerate_eq stored_log_def log_to_sync_def)
qed

text \<open>Offline logs that a device sends again, because it saw no answer, are stored again: after two synchronisations of the same acceptable logs
  the table holds each of them twice, and each row is dated by the synchronisation and not by the work it records. A list with one
  log that is not acceptable is refused whole and stores nothing.\<close>

theorem offline_sync_duplicates:
  fixes num uuid d ms t1 t2
  defines "d1 \<equiv> snd (grpc_SyncOfflineLogs (pgx_facilities num uuid True t1) t1 (map Some ms) d)"
  defines "d2 \<equiv> snd (grpc_SyncOfflineLogs (pgx_facilities num uuid True t2) t2 (map Some ms) d1)"
  shows "if list_all (log_acceptable d) ms
    then map log_content (fdLogs d2) = map log_content (fdLogs d) @ map (\<lambda>m. log_content (log_to_sync 0 m)) (ms @ ms)
      \<and> map mlCreatedAt (drop (length (fdLogs d)) (fdLogs d2)) = replicate (length ms) t1 @ replicate (length ms) t2
    else d2 = d"
proof (cases "list_all (log_acceptable d) ms")
  case True
  define xs where "xs = map (stored_log uuid t1) (enumerate (fdCount d) (map (log_to_sync t1) ms))"
  define ys where "ys = map (stored_log uuid t2) (enumerate (fdCount d + length ms) (map (log_to_sync t2) ms))"
  have d1: "d1 = d\<lparr>fdLogs := fdLogs d @ xs, fdCount := fdCount d + length ms\<rparr>" unfolding d1_def xs_def by (rule sync_step(2) [OF True])
  have "list_all (log_acceptable d1) ms" using True by (simp add: d1)
  from sync_step(2) [OF this, of num uuid t2] have l: "fdLogs d2 = fdLogs d @ xs @ ys" by (simp add: d2_def d1 ys_def)
  have "map mlCreatedAt zs = replicate (length zs) t" if "list_all (\<lambda>l. mlCreatedAt l = t) zs" for zs :: "MaintenanceLog list" and t
    using that by (induction zs) auto
  from this [OF stored_logs(2)] have c: "map mlCreatedAt xs = replicate (length ms) t1" "map mlCreatedAt ys = replicate (length ms) t2"
    unfolding xs_def ys_def by (simp_all only: length_map length_enumerate)
  have "map log_content xs = map (\<lambda>m. log_content (log_to_sync 0 m)) ms" "map log_content ys = map (\<lambda>m. log_content (log_to_sync 0 m)) ms"
    unfolding xs_def ys_def by (rule stored_logs(1))+
  then show ?thesis using True l c by simp
next
  case False
  have r: "snd (grpc_SyncOfflineLogs (pgx_facilities num uuid True t) t (map Some ms) d) = d" for t
    using sync_step(1) [of num uuid t ms d] False
    by (auto simp: grpc_SyncOfflineLogs_def fac_SyncMaintenanceLogs_def pgx_facilities_def pgx_BatchInsertMaintenanceLogs_def Let_def split: if_splits)
  then have "d2 = d" unfolding d2_def d1_def by simp
  then show ?thesis using False by simp
qed

theorem offline_sync_duplicates_witness:
  "length (fdLogs (snd (grpc_SyncOfflineLogs (pgx_facilities (\<lambda>_ x. Some x) dec_nat True 9) 9 [Some \<lparr>glLogID = ''dev-1'', glTicketID = [], glAssetID = ''0'', glTechnicianID = ''e'',
      glQRCodeScanned = ''QR'', glActionTaken = ''clean'', glNotes = [], glSyncedAt = []\<rparr>]
    (snd (grpc_SyncOfflineLogs (pgx_facilities (\<lambda>_ x. Some x) dec_nat True 7) 7 [Some \<lparr>glLogID = ''dev-1'', glTicketID = [], glAssetID = ''0'', glTechnicianID = ''e'',
      glQRCodeScanned = ''QR'', glActionTaken = ''clean'', glNotes = [], glSyncedAt = []\<rparr>] demo_fac_db))))) = 2"
proof -
  define m where "m = \<lparr>glLogID = ''dev-1'', glTicketID = [], glAssetID = ''0'', glTechnicianID = ''e'',
      glQRCodeScanned = ''QR'', glActionTaken = ''clean'', glNotes = [], glSyncedAt = []\<rparr>"
  have a: "list_all (log_acceptable demo_fac_db) [m]"
    by (simp add: log_acceptable_def m_def log_row_ok_def log_to_sync_def demo_fac_facts known_def strPtr_def) (simp add: demo_fac_db_def)
  have "length (map log_content (fdLogs (snd (grpc_SyncOfflineLogs (pgx_facilities (\<lambda>_ x. Some x) dec_nat True 9) 9 [Some m]
    (snd (grpc_SyncOfflineLogs (pgx_facilities (\<lambda>_ x. Some x) dec_nat True 7) 7 [Some m] demo_fac_db)))))) = 2"
    using offline_sync_duplicates [of demo_fac_db "[m]" "\<lambda>_ x. Some x" dec_nat 9 7] a by (simp add: demo_fac_db_def)
  then show ?thesis unfolding m_def [symmetric] by simp
qed

end
