(* ===== verification/Timesheets.thy ===== *)
theory Timesheets
  imports WorkforceGrpc
begin

text \<open>
  Timesheets and payroll of the workforce service, \<open>timesheets_payroll.go\<close> and \<open>payroll_salary_slips.go\<close>, over the documents of
  \<open>pkg/cots/frappe\<close>. The service keeps timesheets, slips and payroll runs in memory, or hands them to an HR system when it has a client
  for one; the client is a record of calls over a state of its own, each of which may fail. \<open>clk\<close> gives the successive clock readings
  of a call. A time is an instant: a formatted date or time of day is that of UTC.
\<close>

section \<open>Parsing the time of a log\<close>

text \<open>\<open>getnum\<close> reads one or two digits, two when \<open>fixed\<close>; a clock reading is followed by an optional fraction of which nine digits count.\<close>

fun getnum :: "bool \<Rightarrow> string \<Rightarrow> (int \<times> string) option" where
  "getnum fixed (a # b # s) = (if \<not> is_digit a then None
     else if is_digit b then Some (int (undec 0 [a, b]), s) else if fixed then None else Some (int (undec 0 [a]), b # s))"
| "getnum fixed [a] = (if is_digit a \<and> \<not> fixed then Some (int (undec 0 [a]), []) else None)"
| "getnum fixed [] = None"

definition parse_fraction :: "string \<Rightarrow> int \<times> string" where
  "parse_fraction s = (case s of
     c # d # r \<Rightarrow> if c \<in> {CHR ''.'', CHR '',''} \<and> is_digit d
       then let ds = takeWhile is_digit (d # r); ns = take 9 ds
            in (int (undec 0 ns) * 10 ^ (9 - length ns), dropWhile is_digit (d # r)) else (0, s)
   | _ \<Rightarrow> (0, s))"

definition parse_clock :: "string \<Rightarrow> (int \<times> string) option" where
  "parse_clock s = (case getnum False s of
     Some (h, c1 # s1) \<Rightarrow> if c1 \<noteq> CHR '':'' then None else (case getnum True s1 of
       Some (m, c2 # s2) \<Rightarrow> if c2 \<noteq> CHR '':'' then None else (case getnum True s2 of
         Some (sec, s3) \<Rightarrow> if 24 \<le> h \<or> 60 \<le> m \<or> 60 \<le> sec then None
           else (case parse_fraction s3 of (ns, r) \<Rightarrow> Some (((h * 60 + m) * 60 + sec) * second + ns, r))
       | None \<Rightarrow> None)
     | _ \<Rightarrow> None)
   | _ \<Rightarrow> None)"

definition parse_log_time :: "string \<Rightarrow> time option" where
  "parse_log_time s = (case ParseDate (take 10 s) of
     None \<Rightarrow> None
   | Some d \<Rightarrow> (case drop 10 s of
       c # r \<Rightarrow> if c \<noteq> CHR '' '' then None
         else (case parse_clock (dropWhile (\<lambda>c. c = CHR '' '') r) of Some (t, []) \<Rightarrow> Some (d * day + t) | _ \<Rightarrow> None)
     | [] \<Rightarrow> None))"

definition parse_zone :: "string \<Rightarrow> (int \<times> string) option" where
  "parse_zone s = (case s of
     c # r \<Rightarrow> if c = CHR ''Z'' then Some (0, r)
       else if c \<notin> {CHR ''+'', CHR ''-''} \<or> length r < 5 \<or> r ! 2 \<noteq> CHR '':'' then None
       else (case (getnum True (take 2 r), getnum True (take 2 (drop 3 r))) of
           (Some (h, _), Some (m, _)) \<Rightarrow> if 24 < h \<or> 60 < m then None
             else Some ((if c = CHR ''+'' then h * 60 + m else - (h * 60 + m)) * 60 * second, drop 5 r)
         | _ \<Rightarrow> None)
   | [] \<Rightarrow> None)"

definition parse_rfc3339 :: "string \<Rightarrow> time option" where
  "parse_rfc3339 s = (case ParseDate (take 10 s) of
     None \<Rightarrow> None
   | Some d \<Rightarrow> (case drop 10 s of
       c # r \<Rightarrow> if c \<noteq> CHR ''T'' then None
         else (case parse_clock r of
             Some (t, z) \<Rightarrow> (case parse_zone z of Some (off, []) \<Rightarrow> Some (d * day + t - off) | _ \<Rightarrow> None)
           | None \<Rightarrow> None)
     | [] \<Rightarrow> None))"

definition fmt_log_time :: "time \<Rightarrow> string" where
  "fmt_log_time t = (let s = (t mod day) div second
     in fmt_date t @ '' '' @ pad2 (s div 3600) @ '':'' @ pad2 (s div 60 mod 60) @ '':'' @ pad2 (s mod 60))"

section \<open>Documents\<close>

record TimeLog =
  tlActivityType :: string
  tlFromTime :: string
  tlToTime :: string
  tlHours :: float64
  tlBillable :: int
  tlCostCenter :: string

record Timesheet =
  thName :: string
  thTimesheetID :: string
  thEmployee :: string
  thEmployeeID :: string
  thStartDate :: string
  thShiftDate :: string
  thEndDate :: string
  thStartTime :: "time option"
  thEndTime :: "time option"
  thBreakMinutes :: int
  thTotalHours :: float64
  thHoursWorked :: float64
  thBillable :: bool
  thStatus :: string
  thTimeLogs :: "TimeLog list"
  thTaskCode :: string
  thCostCenter :: string
  thNotes :: "string option"
  thApprovedBy :: "string option"
  thApprovedAt :: "time option"
  thFrappeTimesheetID :: "string option"
  thCreatedAt :: time
  thUpdatedAt :: time

definition or_else :: "string \<Rightarrow> string \<Rightarrow> string" where
  "or_else a b = (if a = [] then b else a)"

definition normalize_ids :: "Timesheet \<Rightarrow> Timesheet" where
  "normalize_ids t = (let i = or_else (thTimesheetID t) (thName t); e = or_else (thEmployeeID t) (thEmployee t); d = or_else (thShiftDate t) (thStartDate t)
     in t\<lparr>thTimesheetID := i, thName := or_else (thName t) i, thEmployeeID := e, thEmployee := or_else (thEmployee t) e,
       thShiftDate := d, thStartDate := or_else (thStartDate t) d, thEndDate := or_else (thEndDate t) d\<rparr>)"

definition normalize_hours :: "Timesheet \<Rightarrow> Timesheet" where
  "normalize_hours t = (let h = (if feq (thHoursWorked t) (Fin 0) \<and> \<not> feq (thTotalHours t) (Fin 0) then thTotalHours t else thHoursWorked t)
     in t\<lparr>thHoursWorked := h, thTotalHours := (if feq (thTotalHours t) (Fin 0) \<and> \<not> feq h (Fin 0) then h else thTotalHours t),
       thFrappeTimesheetID := (if thFrappeTimesheetID t = None \<and> thName t \<noteq> [] then Some (thName t) else thFrappeTimesheetID t)\<rparr>)"

definition log_time :: "time option \<Rightarrow> string \<Rightarrow> time option" where
  "log_time p s = (if p = None \<and> s \<noteq> [] then (case parse_log_time s of Some t \<Rightarrow> Some t | None \<Rightarrow> parse_rfc3339 s) else p)"

definition normalize_logs :: "Timesheet \<Rightarrow> Timesheet" where
  "normalize_logs t = (case thTimeLogs t of
     l # _ \<Rightarrow> t\<lparr>thTaskCode := or_else (thTaskCode t) (tlActivityType l), thCostCenter := or_else (thCostCenter t) (tlCostCenter l),
       thBillable := (thBillable t \<or> tlBillable l = 1),
       thStartTime := log_time (thStartTime t) (tlFromTime l), thEndTime := log_time (thEndTime t) (tlToTime l)\<rparr>
   | [] \<Rightarrow> (case (thStartTime t, thEndTime t) of
       (Some a, Some b) \<Rightarrow> t\<lparr>thTimeLogs := [\<lparr>tlActivityType = thTaskCode t, tlFromTime = fmt_log_time a, tlToTime = fmt_log_time b, tlHours = thHoursWorked t,
           tlBillable = (if thBillable t then 1 else 0), tlCostCenter = thCostCenter t\<rparr>]\<rparr>
     | _ \<Rightarrow> t))"

definition Normalize :: "time \<Rightarrow> time \<Rightarrow> Timesheet \<Rightarrow> Timesheet" where
  "Normalize c u t = (let t' = normalize_logs (normalize_hours (normalize_ids t))
     in t'\<lparr>thCreatedAt := (if thCreatedAt t' = zeroTime then c else thCreatedAt t'), thUpdatedAt := (if thUpdatedAt t' = zeroTime then u else thUpdatedAt t')\<rparr>)"

record SalaryComponent =
  scSalaryComponent :: string
  scType :: string
  scAmount :: float64
  scDescription :: string

record SalarySlip =
  ssName :: string
  ssSalarySlipID :: string
  ssEmployee :: string
  ssEmployeeID :: string
  ssEmployeeName :: string
  ssPostingDate :: string
  ssStartDate :: string
  ssEndDate :: string
  ssGrossPay :: float64
  ssTotalDeductions :: float64
  ssNetPay :: float64
  ssCurrency :: string
  ssStatus :: string
  ssEarnings :: "SalaryComponent list"
  ssDeductions :: "SalaryComponent list"
  ssPayrollEntry :: "string option"

definition normalize_slip :: "SalarySlip \<Rightarrow> SalarySlip" where
  "normalize_slip s = (let i = or_else (ssSalarySlipID s) (ssName s); e = or_else (ssEmployeeID s) (ssEmployee s)
     in s\<lparr>ssSalarySlipID := i, ssName := or_else (ssName s) i, ssEmployeeID := e, ssEmployee := or_else (ssEmployee s) e,
       ssCurrency := or_else (ssCurrency s) ''USD''\<rparr>)"

record PayrollEntry =
  pnName :: string
  pnPayrollEntryID :: string
  pnPostingDate :: string
  pnCompany :: string
  pnCurrency :: string
  pnPayrollFrequency :: string
  pnStartDate :: string
  pnEndDate :: string
  pnDepartment :: string
  pnStatus :: string
  pnSalarySlipsCreated :: int
  pnSalarySlipsSubmitted :: int
  pnTotalGrossPay :: float64
  pnTotalNetPay :: float64
  pnEmployees :: "string list"

definition normalize_entry :: "PayrollEntry \<Rightarrow> PayrollEntry" where
  "normalize_entry p = (let i = or_else (pnPayrollEntryID p) (pnName p)
     in p\<lparr>pnPayrollEntryID := i, pnName := or_else (pnName p) i, pnCompany := or_else (pnCompany p) ''Orange Cat Investments LLC'',
       pnCurrency := or_else (pnCurrency p) ''USD'', pnPayrollFrequency := or_else (pnPayrollFrequency p) ''Monthly'', pnStatus := or_else (pnStatus p) ''Submitted''\<rparr>)"

section \<open>Service\<close>

record 'q hr_client =
  hcCreateTimesheet :: "Timesheet \<Rightarrow> 'q \<Rightarrow> Timesheet option \<times> 'q"
  hcGetTimesheet :: "string \<Rightarrow> 'q \<Rightarrow> Timesheet option"
  hcListTimesheets :: "string \<Rightarrow> string \<Rightarrow> 'q \<Rightarrow> Timesheet list option"
  hcApproveTimesheet :: "string \<Rightarrow> 'q \<Rightarrow> Timesheet option \<times> 'q"
  hcCancelTimesheet :: "string \<Rightarrow> 'q \<Rightarrow> Timesheet option \<times> 'q"
  hcMarkAttendance :: "string \<Rightarrow> string \<Rightarrow> string \<Rightarrow> 'q \<Rightarrow> 'q"
  hcGetSalarySlips :: "string \<Rightarrow> 'q \<Rightarrow> SalarySlip list option"
  hcGetSalarySlip :: "string \<Rightarrow> 'q \<Rightarrow> SalarySlip option"
  hcCreatePayrollEntry :: "PayrollEntry \<Rightarrow> 'q \<Rightarrow> PayrollEntry option \<times> 'q"

record TimesheetApprovedPayload =
  taTimesheetID :: string
  taEmployeeID :: string
  taShiftDate :: string
  taHoursWorked :: float64
  taTaskCode :: string
  taCostCenter :: string
  taApprovedBy :: string
  taApprovedAt :: time
  taFrappeTimesheetID :: "string option"

record 'q payroll_service =
  psHR :: "'q hr_client option"
  psPublisher :: bool

record 'q payroll_state =
  memTimesheets :: "(string, Timesheet) gomap"
  memSalarySlips :: "(string, SalarySlip) gomap"
  memPayrollEntries :: "(string, PayrollEntry) gomap"
  pyEvents :: "TimesheetApprovedPayload list"
  pyHR :: 'q

datatype sheet_error = Required string | BadValue string | Overlap string | NoSheet | AlreadyApproved | HRFailed

definition EqualFold :: "string \<Rightarrow> string \<Rightarrow> bool" where
  "EqualFold a b \<longleftrightarrow> ToLower a = ToLower b"

record TimesheetFilter =
  tfEmployeeID :: string
  tfStatus :: string
  tfFromDate :: string
  tfToDate :: string
  tfTaskCode :: string

definition status_match :: "string \<Rightarrow> string \<Rightarrow> bool" where
  "status_match status wanted \<longleftrightarrow> EqualFold status wanted \<or> (EqualFold wanted ''submitted'' \<and> EqualFold status ''draft'')
     \<or> (EqualFold wanted ''draft'' \<and> EqualFold status ''submitted'') \<or> (EqualFold wanted ''rejected'' \<and> EqualFold status ''cancelled'')"

definition sheet_match :: "TimesheetFilter \<Rightarrow> Timesheet \<Rightarrow> bool" where
  "sheet_match f t \<longleftrightarrow> (tfEmployeeID f = [] \<or> thEmployeeID t = tfEmployeeID f \<or> thEmployee t = tfEmployeeID f)
     \<and> (tfStatus f = [] \<or> status_match (thStatus t) (tfStatus f))
     \<and> (tfFromDate f = [] \<or> \<not> str_less (thShiftDate t) (tfFromDate f)) \<and> (tfToDate f = [] \<or> \<not> str_less (tfToDate f) (thShiftDate t))
     \<and> (tfTaskCode f = [] \<or> thTaskCode t = tfTaskCode f)"

definition ListTimesheets :: "'q payroll_service \<Rightarrow> time \<Rightarrow> string list \<Rightarrow> TimesheetFilter \<Rightarrow> 'q payroll_state \<Rightarrow> sheet_error + Timesheet list" where
  "ListTimesheets P now ord f s = (case psHR P of
     Some H \<Rightarrow> (case hcListTimesheets H (tfEmployeeID f) [] (pyHR s) of
         None \<Rightarrow> Inl HRFailed | Some ts \<Rightarrow> Inr (filter (sheet_match f) (map (Normalize now now) ts)))
   | None \<Rightarrow> Inr (filter (sheet_match f) (map_vals ord (memTimesheets s))))"

definition GetTimesheet :: "'q payroll_service \<Rightarrow> time \<Rightarrow> string \<Rightarrow> 'q payroll_state \<Rightarrow> sheet_error + Timesheet" where
  "GetTimesheet P now i s = (if i = [] then Inl (Required ''timesheet id'')
     else (case psHR P of
         Some H \<Rightarrow> (case hcGetTimesheet H i (pyHR s) of None \<Rightarrow> Inl HRFailed | Some t \<Rightarrow> Inr (Normalize now now t))
       | None \<Rightarrow> (case memTimesheets s i of None \<Rightarrow> Inl NoSheet | Some t \<Rightarrow> Inr t)))"

definition validTaskCodes :: "string set" where
  "validTaskCodes = {''habitat_maintenance'', ''feline_feeding'', ''veterinary_assist'', ''admin'', ''invest_ops''}"

definition cost_center :: "string \<Rightarrow> string" where
  "cost_center code = (if code = ''habitat_maintenance'' then ''Facilities Operations''
     else if code = ''feline_feeding'' \<or> code = ''veterinary_assist'' then ''Veterinary & Care''
     else if code = ''invest_ops'' then ''Trading & Investment Ops'' else ''General Administration'')"

text \<open>\<open>Duration.Hours\<close> for a duration that is not negative.\<close>

definition Hours :: "duration \<Rightarrow> float64" where
  "Hours d = fadd (of_i64 (d div 3600000000000)) (fdiv (of_i64 (d mod 3600000000000)) (Fin 3600000000000))"

definition net_hours :: "time \<Rightarrow> time \<Rightarrow> int \<Rightarrow> float64" where
  "net_hours a b breakMinutes = fsub (Hours (b - a)) (fdiv (of_i64 breakMinutes) (Fin 60))"

definition check_sheet :: "Timesheet \<Rightarrow> sheet_error + Timesheet" where
  "check_sheet t =
     (if thEmployeeID t = [] then Inl (Required ''employee_id'')
      else (case (thStartTime t, thEndTime t) of
          (Some a, Some b) \<Rightarrow>
            if \<not> a < b then Inl (BadValue ''start_time'')
            else if day < b - a then Inl (BadValue ''duration'')
            else if thBreakMinutes t < 0 then Inl (BadValue ''break_minutes'')
            else if fle (net_hours a b (thBreakMinutes t)) (Fin 0) then Inl (BadValue ''hours'')
            else let t1 = (if fle (thHoursWorked t) (Fin 0)
                       then let h = fdiv (fround (fmul (net_hours a b (thBreakMinutes t)) (Fin 100))) (Fin 100) in t\<lparr>thHoursWorked := h, thTotalHours := h\<rparr> else t);
                     t2 = (if thShiftDate t1 = [] then t1\<lparr>thShiftDate := fmt_date a, thStartDate := fmt_date a, thEndDate := fmt_date a\<rparr> else t1)
                 in if thTaskCode t2 \<notin> validTaskCodes then Inl (BadValue ''task_code'')
                    else Inr (t2\<lparr>thCostCenter := or_else (thCostCenter t2) (cost_center (thTaskCode t2)), thStatus := or_else (thStatus t2) ''submitted''\<rparr>)
        | _ \<Rightarrow> Inl (Required ''start_time'')))"

definition inactive :: "string \<Rightarrow> bool" where
  "inactive st \<longleftrightarrow> EqualFold st ''rejected'' \<or> EqualFold st ''cancelled''"

definition overlap :: "Timesheet \<Rightarrow> Timesheet \<Rightarrow> bool" where
  "overlap t e = (case (thStartTime t, thEndTime t, thStartTime e, thEndTime e) of
     (Some a, Some b, Some c, Some d) \<Rightarrow> a < d \<and> c < b | _ \<Rightarrow> False)"

definition clashes :: "Timesheet \<Rightarrow> Timesheet \<Rightarrow> bool" where
  "clashes t e \<longleftrightarrow> \<not> ((thTimesheetID e \<noteq> [] \<and> thTimesheetID e = thTimesheetID t) \<or> (thName e \<noteq> [] \<and> thName e = thName t) \<or> inactive (thStatus e)) \<and> overlap t e"

definition store_sheet :: "(nat \<Rightarrow> time) \<Rightarrow> Timesheet \<Rightarrow> 'q payroll_state \<Rightarrow> (sheet_error + Timesheet) \<times> 'q payroll_state" where
  "store_sheet clk t s =
     (let t' = Normalize (clk 4) (clk 5) (t\<lparr>thTimesheetID := or_else (thTimesheetID t) (''ts-'' @ dec_int (clk 3))\<rparr>)
      in (Inr t', s\<lparr>memTimesheets := (memTimesheets s)(thTimesheetID t' \<mapsto> t')\<rparr>))"

definition hand_over :: "'q hr_client \<Rightarrow> (nat \<Rightarrow> time) \<Rightarrow> Timesheet \<Rightarrow> 'q payroll_state \<Rightarrow> (sheet_error + Timesheet) \<times> 'q payroll_state" where
  "hand_over H clk t s =
     (let t' = (Normalize (clk 3) (clk 3) t)\<lparr>thStatus := ''Draft''\<rparr>
      in (case hcCreateTimesheet H t' (pyHR s) of
          (None, q) \<Rightarrow> (Inl HRFailed, s\<lparr>pyHR := q\<rparr>)
        | (Some created, q) \<Rightarrow>
            let c = Normalize (clk 4) (clk 5) created
            in (Inr (c\<lparr>thStatus := ''submitted'', thStartTime := (if thStartTime c = None then thStartTime t' else thStartTime c),
                   thEndTime := (if thEndTime c = None then thEndTime t' else thEndTime c),
                   thBreakMinutes := (if thBreakMinutes c = 0 \<and> 0 < thBreakMinutes t' then thBreakMinutes t' else thBreakMinutes c),
                   thNotes := (if thNotes c = None then thNotes t' else thNotes c)\<rparr>), s\<lparr>pyHR := q\<rparr>)))"

definition SubmitTimesheet ::
    "'q payroll_service \<Rightarrow> (nat \<Rightarrow> time) \<Rightarrow> string list \<Rightarrow> Timesheet option \<Rightarrow> 'q payroll_state \<Rightarrow> (sheet_error + Timesheet) \<times> 'q payroll_state" where
  "SubmitTimesheet P clk ord ts s = (case ts of
     None \<Rightarrow> (Inl (Required ''timesheet''), s)
   | Some t0 \<Rightarrow> (case check_sheet (Normalize (clk 0) (clk 1) t0) of
       Inl e \<Rightarrow> (Inl e, s)
     | Inr t \<Rightarrow>
         let f = \<lparr>tfEmployeeID = thEmployeeID t, tfStatus = [], tfFromDate = thShiftDate t, tfToDate = thShiftDate t, tfTaskCode = []\<rparr>
         in (case (case ListTimesheets P (clk 2) ord f s of Inr es \<Rightarrow> find (clashes t) es | Inl _ \<Rightarrow> None) of
             Some e \<Rightarrow> (Inl (Overlap (thTimesheetID e)), s)
           | None \<Rightarrow>
               let t' = t\<lparr>thCreatedAt := (if thCreatedAt t = zeroTime then clk 2 else thCreatedAt t), thUpdatedAt := clk 2\<rparr>
               in (case psHR P of Some H \<Rightarrow> hand_over H clk t' s | None \<Rightarrow> store_sheet clk t' s))))"

definition approval_event :: "string \<Rightarrow> time \<Rightarrow> Timesheet \<Rightarrow> TimesheetApprovedPayload" where
  "approval_event approver now t = \<lparr>taTimesheetID = thTimesheetID t, taEmployeeID = thEmployeeID t, taShiftDate = thShiftDate t, taHoursWorked = thHoursWorked t,
     taTaskCode = thTaskCode t, taCostCenter = thCostCenter t, taApprovedBy = approver, taApprovedAt = now, taFrappeTimesheetID = thFrappeTimesheetID t\<rparr>"

definition ApproveTimesheet ::
    "'q payroll_service \<Rightarrow> time \<Rightarrow> string \<Rightarrow> string \<Rightarrow> 'q payroll_state \<Rightarrow> (sheet_error + Timesheet) \<times> 'q payroll_state" where
  "ApproveTimesheet P now i approver s =
     (if i = [] then (Inl (Required ''timesheet id''), s) else if approver = [] then (Inl (Required ''approver id''), s)
      else (case GetTimesheet P now i s of
          Inl e \<Rightarrow> (Inl e, s)
        | Inr t \<Rightarrow>
            if EqualFold (thStatus t) ''approved'' then (Inr t, s)
            else let publish = (\<lambda>u s. (Inr u, if psPublisher P then s\<lparr>pyEvents := pyEvents s @ [approval_event approver now u]\<rparr> else s))
                 in (case psHR P of
                     Some H \<Rightarrow> (case hcApproveTimesheet H i (pyHR s) of
                         (None, q) \<Rightarrow> (Inl HRFailed, s\<lparr>pyHR := q\<rparr>)
                       | (Some a, q) \<Rightarrow>
                           let a' = Normalize now now a;
                               u = a'\<lparr>thApprovedBy := Some approver, thApprovedAt := Some now, thStatus := ''approved'', thUpdatedAt := now,
                                 thStartTime := (if thStartTime a' = None then thStartTime t else thStartTime a'),
                                 thEndTime := (if thEndTime a' = None then thEndTime t else thEndTime a')\<rparr>
                           in publish u (s\<lparr>pyHR := hcMarkAttendance H (thEmployee u) (thShiftDate u) ''Present'' q\<rparr>))
                   | None \<Rightarrow>
                       let u = t\<lparr>thStatus := ''approved'', thApprovedBy := Some approver, thApprovedAt := Some now, thUpdatedAt := now\<rparr>
                       in publish u (s\<lparr>memTimesheets := (memTimesheets s)(i \<mapsto> u)\<rparr>))))"

definition RejectTimesheet ::
    "'q payroll_service \<Rightarrow> time \<Rightarrow> string \<Rightarrow> string \<Rightarrow> string \<Rightarrow> 'q payroll_state \<Rightarrow> (sheet_error + Timesheet) \<times> 'q payroll_state" where
  "RejectTimesheet P now i reviewer reason s =
     (if i = [] then (Inl (Required ''timesheet id''), s) else if reviewer = [] then (Inl (Required ''reviewer id''), s)
      else if reason = [] then (Inl (Required ''reason''), s)
      else (case GetTimesheet P now i s of
          Inl e \<Rightarrow> (Inl e, s)
        | Inr t \<Rightarrow>
            if EqualFold (thStatus t) ''approved'' then (Inl AlreadyApproved, s)
            else let close = (\<lambda>t. t\<lparr>thStatus := ''rejected'', thApprovedBy := Some reviewer, thApprovedAt := Some now, thNotes := Some reason, thUpdatedAt := now\<rparr>)
                 in (case psHR P of
                     Some H \<Rightarrow> (case hcCancelTimesheet H i (pyHR s) of
                         (None, q) \<Rightarrow> (Inl HRFailed, s\<lparr>pyHR := q\<rparr>)
                       | (Some c, q) \<Rightarrow> (Inr (close (Normalize now now c)), s\<lparr>pyHR := q\<rparr>))
                   | None \<Rightarrow> (Inr (close t), s\<lparr>memTimesheets := (memTimesheets s)(i \<mapsto> close t)\<rparr>))))"

section \<open>Payroll\<close>

definition ListSalarySlips :: "'q payroll_service \<Rightarrow> string list \<Rightarrow> string \<Rightarrow> 'q payroll_state \<Rightarrow> sheet_error + SalarySlip list" where
  "ListSalarySlips P ord employeeID s = (case psHR P of
     Some H \<Rightarrow> (case hcGetSalarySlips H employeeID (pyHR s) of None \<Rightarrow> Inl HRFailed | Some xs \<Rightarrow> Inr (map normalize_slip xs))
   | None \<Rightarrow> Inr (filter (\<lambda>x. employeeID = [] \<or> ssEmployeeID x = employeeID \<or> ssEmployee x = employeeID) (map_vals ord (memSalarySlips s))))"

definition GetSalarySlip :: "'q payroll_service \<Rightarrow> string \<Rightarrow> 'q payroll_state \<Rightarrow> sheet_error + SalarySlip" where
  "GetSalarySlip P i s = (if i = [] then Inl (Required ''salary slip id'')
     else (case psHR P of
         Some H \<Rightarrow> (case hcGetSalarySlip H i (pyHR s) of None \<Rightarrow> Inl HRFailed | Some x \<Rightarrow> Inr (normalize_slip x))
       | None \<Rightarrow> (case memSalarySlips s i of None \<Rightarrow> Inl NoSheet | Some x \<Rightarrow> Inr x)))"

definition pad3 :: "nat \<Rightarrow> string" where
  "pad3 n = replicate (3 - length (dec_nat n)) (CHR ''0'') @ dec_nat n"

definition slip_id :: "string \<Rightarrow> nat \<Rightarrow> string" where
  "slip_id entry n = ''SAL-SLIP-'' @ entry @ ''-'' @ pad3 (n + 1)"

definition component :: "string \<Rightarrow> string \<Rightarrow> rat \<Rightarrow> SalaryComponent" where
  "component name type x = \<lparr>scSalaryComponent = name, scType = type, scAmount = Fin x, scDescription = []\<rparr>"

definition salary_slip :: "PayrollEntry \<Rightarrow> nat \<Rightarrow> string \<Rightarrow> SalarySlip" where
  "salary_slip pe n emp = normalize_slip \<lparr>ssName = slip_id (pnPayrollEntryID pe) n, ssSalarySlipID = slip_id (pnPayrollEntryID pe) n,
     ssEmployee = emp, ssEmployeeID = emp, ssEmployeeName = emp, ssPostingDate = pnPostingDate pe, ssStartDate = pnStartDate pe, ssEndDate = pnEndDate pe,
     ssGrossPay = Fin 5000, ssTotalDeductions = Fin 1200, ssNetPay = fsub (Fin 5000) (Fin 1200), ssCurrency = pnCurrency pe, ssStatus = ''Submitted'',
     ssEarnings = [component ''Base Salary'' ''Earning'' 5000],
     ssDeductions = [component ''Federal Tax'' ''Deduction'' 800, component ''Social Security'' ''Deduction'' 400], ssPayrollEntry = Some (pnPayrollEntryID pe)\<rparr>"

text \<open>The loop over the employees carries the totals and the stored slips.\<close>

fun pay_slips :: "PayrollEntry \<Rightarrow> nat \<Rightarrow> string list \<Rightarrow> float64 \<times> float64 \<times> (string, SalarySlip) gomap \<Rightarrow> float64 \<times> float64 \<times> (string, SalarySlip) gomap" where
  "pay_slips pe n [] acc = acc"
| "pay_slips pe n (emp # emps) (gross, net, m) =
     pay_slips pe (Suc n) emps (fadd gross (Fin 5000), fadd net (fsub (Fin 5000) (Fin 1200)), m(slip_id (pnPayrollEntryID pe) n \<mapsto> salary_slip pe n emp))"

definition prepare_entry :: "(nat \<Rightarrow> time) \<Rightarrow> string list \<Rightarrow> wfRepository option \<Rightarrow> PayrollEntry \<Rightarrow> PayrollEntry" where
  "prepare_entry clk oe repo pe0 =
     (let pe1 = (if pnPayrollEntryID pe0 = [] then let i = ''PAY-RUN-'' @ dec_int (clk 0) in pe0\<lparr>pnPayrollEntryID := i, pnName := i\<rparr> else pe0);
          emps = (case repo of
              Some r \<Rightarrow> if pnEmployees pe1 = [] then map emEmployeeID (ListEmployees oe ''human'' ''active'' r) else pnEmployees pe1
            | None \<Rightarrow> pnEmployees pe1)
      in pe1\<lparr>pnStatus := ''Submitted'', pnPostingDate := or_else (pnPostingDate pe1) (fmt_date (clk 1)), pnEmployees := emps,
         pnSalarySlipsCreated := int (length emps), pnSalarySlipsSubmitted := int (length emps)\<rparr>)"

definition ProcessPayrollRun ::
    "'q payroll_service \<Rightarrow> (nat \<Rightarrow> time) \<Rightarrow> string list \<Rightarrow> wfRepository option \<Rightarrow> PayrollEntry option \<Rightarrow> 'q payroll_state
      \<Rightarrow> (sheet_error + PayrollEntry) \<times> 'q payroll_state" where
  "ProcessPayrollRun P clk oe repo entry s = (case entry of
     None \<Rightarrow> (Inl (Required ''payroll entry''), s)
   | Some e0 \<Rightarrow>
       let e = normalize_entry e0
       in if pnStartDate e = [] \<or> pnEndDate e = [] then (Inl (Required ''start_date''), s)
          else (case psHR P of
              Some H \<Rightarrow> (case hcCreatePayrollEntry H e (pyHR s) of
                  (None, q) \<Rightarrow> (Inl HRFailed, s\<lparr>pyHR := q\<rparr>) | (Some c, q) \<Rightarrow> (Inr c, s\<lparr>pyHR := q\<rparr>))
            | None \<Rightarrow>
                let pe = prepare_entry clk oe repo e;
                    (gross, net, slips) = pay_slips pe 0 (pnEmployees pe) (Fin 0, Fin 0, memSalarySlips s);
                    run = pe\<lparr>pnTotalGrossPay := gross, pnTotalNetPay := net\<rparr>
                in (Inr run, s\<lparr>memSalarySlips := slips, memPayrollEntries := (memPayrollEntries s)(pnPayrollEntryID run \<mapsto> run)\<rparr>)))"

section \<open>Shifts of an employee do not overlap\<close>

text \<open>The memory is well-formed when every sheet is stored under its identifier, which is also its name and not empty, and two different
  sheets of one employee and shift date that are not rejected or cancelled do not overlap.\<close>

definition sheet_ok :: "string \<Rightarrow> Timesheet \<Rightarrow> bool" where
  "sheet_ok i t \<longleftrightarrow> thTimesheetID t = i \<and> thName t = i \<and> i \<noteq> [] \<and> thEmployeeID t \<noteq> []
     \<and> (\<exists>a b. thStartTime t = Some a \<and> thEndTime t = Some b \<and> a < b \<and> b - a \<le> day)"

definition no_overlaps :: "(string, Timesheet) gomap \<Rightarrow> bool" where
  "no_overlaps m \<longleftrightarrow> (\<forall>i j t e. m i = Some t \<longrightarrow> m j = Some e \<longrightarrow> i \<noteq> j \<longrightarrow> thEmployeeID t = thEmployeeID e \<longrightarrow> thShiftDate t = thShiftDate e
      \<longrightarrow> \<not> inactive (thStatus t) \<longrightarrow> \<not> inactive (thStatus e) \<longrightarrow> \<not> overlap t e)"

definition sheets_inv :: "'q payroll_state \<Rightarrow> bool" where
  "sheets_inv s \<longleftrightarrow> finite (dom (memTimesheets s)) \<and> (\<forall>i t. memTimesheets s i = Some t \<longrightarrow> sheet_ok i t) \<and> no_overlaps (memTimesheets s)"

text \<open>One operation of the service in memory. A submitted sheet gives its name and identifier as one, or only one of them; an approval is of a
  sheet that was not rejected or cancelled before.\<close>

inductive sheet_step :: "'q payroll_service \<Rightarrow> 'q payroll_state \<Rightarrow> 'q payroll_state \<Rightarrow> bool" for P :: "'q payroll_service" where
  submit: "iter_order ord (memTimesheets s) \<Longrightarrow> thName t = [] \<or> thTimesheetID t = [] \<or> thName t = thTimesheetID t
    \<Longrightarrow> SubmitTimesheet P clk ord (Some t) s = (res, s') \<Longrightarrow> sheet_step P s s'"
| approve: "\<not> (\<exists>t. memTimesheets s i = Some t \<and> inactive (thStatus t)) \<Longrightarrow> ApproveTimesheet P now i approver s = (res, s') \<Longrightarrow> sheet_step P s s'"
| reject: "RejectTimesheet P now i reviewer reason s = (res, s') \<Longrightarrow> sheet_step P s s'"
| payroll: "ProcessPayrollRun P clk oe repo entry s = (res, s') \<Longrightarrow> sheet_step P s s'"

lemma overlap_sym: "overlap t e = overlap e t"
  by (auto simp: overlap_def split: option.splits)

lemma str_less_total: "\<not> str_less a b \<Longrightarrow> \<not> str_less b a \<Longrightarrow> a = b"
proof (induction a b rule: str_less.induct)
  case (1 xs)
  then show ?case by (cases xs) auto
next
  case (3 x xs y ys)
  then have "(of_char x :: nat) = of_char y" by auto
  then have "x = y" by simp
  with 3 show ?case by auto
qed simp

lemma inactive_states [simp]: "\<not> inactive ''approved''" "inactive ''rejected''"
  by (simp_all add: inactive_def EqualFold_def) code_simp+

lemma or_else_simps [simp]: "or_else [] b = b" "a \<noteq> [] \<Longrightarrow> or_else a b = a" "or_else a b = [] \<longleftrightarrow> a = [] \<and> b = []"
  by (simp_all add: or_else_def)

lemma normalize_logs_frame [simp]:
  "thTimesheetID (normalize_logs t) = thTimesheetID t" "thName (normalize_logs t) = thName t" "thEmployeeID (normalize_logs t) = thEmployeeID t"
  "thShiftDate (normalize_logs t) = thShiftDate t" "thStatus (normalize_logs t) = thStatus t"
  "thStartTime t = Some a \<Longrightarrow> thStartTime (normalize_logs t) = Some a" "thEndTime t = Some b \<Longrightarrow> thEndTime (normalize_logs t) = Some b"
  by (auto simp: normalize_logs_def log_time_def split: list.split option.split)

lemma Normalize_frame [simp]:
  "thTimesheetID (Normalize c u t) = or_else (thTimesheetID t) (thName t)"
  "thName (Normalize c u t) = or_else (thName t) (thTimesheetID t)"
  "thEmployeeID (Normalize c u t) = or_else (thEmployeeID t) (thEmployee t)" "thShiftDate (Normalize c u t) = or_else (thShiftDate t) (thStartDate t)"
  "thStatus (Normalize c u t) = thStatus t"
  "thStartTime t = Some a \<Longrightarrow> thStartTime (Normalize c u t) = Some a" "thEndTime t = Some b \<Longrightarrow> thEndTime (Normalize c u t) = Some b"
  by (auto simp: Normalize_def normalize_hours_def normalize_ids_def Let_def or_else_def)

lemma fmt_date_nonempty [simp]: "fmt_date t \<noteq> []"
  by (simp add: fmt_date_def split: prod.split)

lemma check_sheet_Inr:
  assumes "check_sheet t = Inr t'"
  shows "thEmployeeID t' = thEmployeeID t" "thEmployeeID t \<noteq> []" "thName t' = thName t" "thTimesheetID t' = thTimesheetID t" "thShiftDate t' \<noteq> []"
    "\<exists>a b. thStartTime t' = Some a \<and> thEndTime t' = Some b \<and> a < b \<and> b - a \<le> day" "thStatus t' = or_else (thStatus t) ''submitted''"
  using assms by (auto simp: check_sheet_def Let_def split: if_splits option.splits)

definition stored :: "(nat \<Rightarrow> time) \<Rightarrow> Timesheet \<Rightarrow> Timesheet" where
  "stored clk t = Normalize (clk 4) (clk 5) (t\<lparr>thCreatedAt := (if thCreatedAt t = zeroTime then clk 2 else thCreatedAt t), thUpdatedAt := clk 2,
     thTimesheetID := or_else (thTimesheetID t) (''ts-'' @ dec_int (clk 3))\<rparr>)"

lemma submit_cases:
  assumes "SubmitTimesheet P clk ord (Some t0) s = (res, s')" and "iter_order ord (memTimesheets s)"
  obtains (unchanged) "memTimesheets s' = memTimesheets s"
  | (accepted) t where "psHR P = None" "check_sheet (Normalize (clk 0) (clk 1) t0) = Inr t" "res = Inr (stored clk t)"
      "\<And>j e. memTimesheets s j = Some e \<Longrightarrow> thEmployeeID e = thEmployeeID t \<Longrightarrow> thShiftDate e = thShiftDate t \<Longrightarrow> \<not> clashes t e"
      "s' = s\<lparr>memTimesheets := (memTimesheets s)(thTimesheetID (stored clk t) \<mapsto> stored clk t)\<rparr>"
proof (cases "psHR P")
  case (Some H)
  have "memTimesheets (snd (hand_over H clk t s)) = memTimesheets s" for t
    by (auto simp: hand_over_def Let_def split: prod.split option.split)
  then have "memTimesheets (snd (SubmitTimesheet P clk ord (Some t0) s)) = memTimesheets s"
    by (auto simp: SubmitTimesheet_def Let_def Some split: sum.split option.split)
  with assms(1) unchanged show thesis by simp
next
  case None
  show thesis
  proof (cases "check_sheet (Normalize (clk 0) (clk 1) t0)")
    case (Inl e)
    with assms(1) unchanged show thesis by (simp add: SubmitTimesheet_def)
  next
    case (Inr t)
    define f where "f = \<lparr>tfEmployeeID = thEmployeeID t, tfStatus = [], tfFromDate = thShiftDate t, tfToDate = thShiftDate t, tfTaskCode = []\<rparr>"
    have m: "sheet_match f e" if "thEmployeeID e = thEmployeeID t" "thShiftDate e = thShiftDate t" for e
    proof -
      have "\<not> str_less x x" for x by (induction x) auto
      with that show ?thesis by (simp add: sheet_match_def f_def)
    qed
    have l: "ListTimesheets P (clk 2) ord f s = Inr (filter (sheet_match f) (map_vals ord (memTimesheets s)))" by (simp add: ListTimesheets_def None)
    show thesis
    proof (cases "find (clashes t) (filter (sheet_match f) (map_vals ord (memTimesheets s)))")
      case (Some e)
      with assms(1) Inr l unchanged show thesis by (simp add: SubmitTimesheet_def f_def [symmetric] Let_def)
    next
      case n: None
      have "\<not> clashes t e" if "memTimesheets s j = Some e" "thEmployeeID e = thEmployeeID t" "thShiftDate e = thShiftDate t" for j e
        using n m [OF that(2,3)] that(1) map_vals_order [OF assms(2)] by (auto simp: find_None_iff ran_def)
      moreover have "(res, s') = (Inr (stored clk t), s\<lparr>memTimesheets := (memTimesheets s)(thTimesheetID (stored clk t) \<mapsto> stored clk t)\<rparr>)"
        unfolding assms(1) [symmetric] using Inr l n None by (simp add: SubmitTimesheet_def f_def [symmetric] Let_def store_sheet_def stored_def)
      ultimately show thesis using None Inr by (intro accepted) auto
    qed
  qed
qed

lemma stored_ok:
  assumes "check_sheet (Normalize c u t0) = Inr t" and "thName t0 = [] \<or> thTimesheetID t0 = [] \<or> thName t0 = thTimesheetID t0"
  shows "sheet_ok (thTimesheetID (stored clk t)) (stored clk t)" and "thEmployeeID (stored clk t) = thEmployeeID t"
    and "thShiftDate (stored clk t) = thShiftDate t" and "overlap (stored clk t) e = overlap t e"
    and "thTimesheetID t \<noteq> [] \<Longrightarrow> thTimesheetID (stored clk t) = thTimesheetID t"
    and "thName t = thTimesheetID t"
proof -
  note c = check_sheet_Inr [OF assms(1)]
  from c(6) obtain a b where ab: "thStartTime t = Some a" "thEndTime t = Some b" "a < b" "b - a \<le> day" by blast
  have n: "thName t = thTimesheetID t" using assms(2) c(3,4) by (auto simp: or_else_def)
  have st: "thStartTime (stored clk t) = Some a" "thEndTime (stored clk t) = Some b" using ab by (simp_all add: stored_def)
  show "thEmployeeID (stored clk t) = thEmployeeID t" using c(1,2) by (simp add: stored_def or_else_def)
  show "thShiftDate (stored clk t) = thShiftDate t" using c(5) by (simp add: stored_def)
  show "overlap (stored clk t) e = overlap t e" by (simp add: overlap_def st ab)
  show "thTimesheetID t \<noteq> [] \<Longrightarrow> thTimesheetID (stored clk t) = thTimesheetID t" by (simp add: stored_def)
  show "thName t = thTimesheetID t" by (rule n)
  show "sheet_ok (thTimesheetID (stored clk t)) (stored clk t)"
    using st ab n c(1,2) \<open>thEmployeeID (stored clk t) = thEmployeeID t\<close> by (simp add: sheet_ok_def) (simp add: stored_def or_else_def)
qed

lemma no_overlaps_update:
  assumes "no_overlaps m"
    and "\<And>j e. m j = Some e \<Longrightarrow> j \<noteq> i \<Longrightarrow> thEmployeeID e = thEmployeeID t \<Longrightarrow> thShiftDate e = thShiftDate t \<Longrightarrow> \<not> inactive (thStatus e)
      \<Longrightarrow> \<not> inactive (thStatus t) \<Longrightarrow> \<not> overlap t e"
  shows "no_overlaps (m(i \<mapsto> t))"
  using assms unfolding no_overlaps_def by (auto simp: overlap_sym)

lemma inv_submit:
  assumes "sheets_inv s" and "iter_order ord (memTimesheets s)" and "thName t0 = [] \<or> thTimesheetID t0 = [] \<or> thName t0 = thTimesheetID t0"
    and "SubmitTimesheet P clk ord (Some t0) s = (res, s')"
  shows "sheets_inv s'"
  using assms(4,2)
proof (cases rule: submit_cases)
  case unchanged
  with assms(1) show ?thesis by (simp add: sheets_inv_def)
next
  case (accepted t)
  note o = stored_ok(1-5) [OF accepted(2) assms(3), where clk = clk] and n = stored_ok(6) [OF accepted(2) assms(3)]
  have "\<not> overlap (stored clk t) e"
    if e: "memTimesheets s j = Some e" "j \<noteq> thTimesheetID (stored clk t)" "thEmployeeID e = thEmployeeID (stored clk t)" "thShiftDate e = thShiftDate (stored clk t)"
      "\<not> inactive (thStatus e)" for j e
  proof -
    have "\<not> clashes t e" using accepted(4) [OF e(1)] e(3,4) o(2,3) by simp
    moreover have "thTimesheetID e = j" "thName e = j" using assms(1) e(1) by (auto simp: sheets_inv_def sheet_ok_def)
    ultimately show ?thesis using e(2,5) o(4,5) n by (auto simp: clashes_def)
  qed
  then have "no_overlaps (memTimesheets s')"
    using assms(1) unfolding accepted(5) by (simp add: sheets_inv_def no_overlaps_update)
  then show ?thesis using assms(1) o(1) unfolding accepted(5) by (auto simp: sheets_inv_def split: if_splits)
qed

lemma inv_replace:
  assumes "sheets_inv s" and "memTimesheets s i = Some t" and "sheet_ok i t \<Longrightarrow> sheet_ok i u"
    and "thEmployeeID u = thEmployeeID t" "thShiftDate u = thShiftDate t" "thStartTime u = thStartTime t" "thEndTime u = thEndTime t"
    and "\<not> inactive (thStatus u) \<Longrightarrow> \<not> inactive (thStatus t)"
  shows "sheets_inv (s\<lparr>memTimesheets := (memTimesheets s)(i \<mapsto> u)\<rparr>)"
proof -
  have "overlap u e = overlap t e" for e using assms(6,7) by (simp add: overlap_def)
  then have "no_overlaps ((memTimesheets s)(i \<mapsto> u))"
    using assms by (intro no_overlaps_update) (auto simp: sheets_inv_def no_overlaps_def)
  with assms(1,2,3) show ?thesis by (auto simp: sheets_inv_def)
qed

lemma sheets_inv_cong: "memTimesheets s' = memTimesheets s \<Longrightarrow> sheets_inv s' = sheets_inv s"
  by (simp add: sheets_inv_def)

lemma approve_memory:
  "(\<exists>t. psHR P = None \<and> memTimesheets s i = Some t \<and> \<not> EqualFold (thStatus t) ''approved''
      \<and> memTimesheets (snd (ApproveTimesheet P now i approver s))
        = (memTimesheets s)(i \<mapsto> t\<lparr>thStatus := ''approved'', thApprovedBy := Some approver, thApprovedAt := Some now, thUpdatedAt := now\<rparr>))
    \<or> memTimesheets (snd (ApproveTimesheet P now i approver s)) = memTimesheets s"
  by (auto simp: ApproveTimesheet_def GetTimesheet_def Let_def split: option.split prod.split)

lemma reject_memory:
  "(\<exists>t. psHR P = None \<and> memTimesheets s i = Some t \<and> \<not> EqualFold (thStatus t) ''approved''
      \<and> memTimesheets (snd (RejectTimesheet P now i reviewer reason s))
        = (memTimesheets s)(i \<mapsto> t\<lparr>thStatus := ''rejected'', thApprovedBy := Some reviewer, thApprovedAt := Some now, thNotes := Some reason, thUpdatedAt := now\<rparr>))
    \<or> memTimesheets (snd (RejectTimesheet P now i reviewer reason s)) = memTimesheets s"
  by (auto simp: RejectTimesheet_def GetTimesheet_def Let_def split: option.split prod.split)

lemma inv_approve:
  assumes "sheets_inv s" and "\<not> (\<exists>t. memTimesheets s i = Some t \<and> inactive (thStatus t))"
  shows "sheets_inv (snd (ApproveTimesheet P now i approver s))"
  using approve_memory [of P s i now approver]
proof (elim disjE exE conjE)
  fix t assume t: "memTimesheets s i = Some t"
    and m: "memTimesheets (snd (ApproveTimesheet P now i approver s))
      = (memTimesheets s)(i \<mapsto> t\<lparr>thStatus := ''approved'', thApprovedBy := Some approver, thApprovedAt := Some now, thUpdatedAt := now\<rparr>)"
  have "sheets_inv (s\<lparr>memTimesheets := (memTimesheets s)(i \<mapsto> t\<lparr>thStatus := ''approved'', thApprovedBy := Some approver, thApprovedAt := Some now, thUpdatedAt := now\<rparr>)\<rparr>)"
    using assms t by (intro inv_replace) (auto simp: sheet_ok_def)
  then show ?thesis using m by (simp add: sheets_inv_def)
qed (use assms(1) sheets_inv_cong in blast)

lemma inv_reject:
  assumes "sheets_inv s"
  shows "sheets_inv (snd (RejectTimesheet P now i reviewer reason s))"
  using reject_memory [of P s i now reviewer reason]
proof (elim disjE exE conjE)
  fix t assume t: "memTimesheets s i = Some t"
    and m: "memTimesheets (snd (RejectTimesheet P now i reviewer reason s))
      = (memTimesheets s)(i \<mapsto> t\<lparr>thStatus := ''rejected'', thApprovedBy := Some reviewer, thApprovedAt := Some now, thNotes := Some reason, thUpdatedAt := now\<rparr>)"
  have "sheets_inv (s\<lparr>memTimesheets := (memTimesheets s)(i \<mapsto> t\<lparr>thStatus := ''rejected'', thApprovedBy := Some reviewer, thApprovedAt := Some now, thNotes := Some reason, thUpdatedAt := now\<rparr>)\<rparr>)"
    using assms t by (intro inv_replace) (auto simp: sheet_ok_def)
  then show ?thesis using m by (simp add: sheets_inv_def)
qed (use assms(1) sheets_inv_cong in blast)

lemma payroll_sheets: "memTimesheets (snd (ProcessPayrollRun P clk oe repo entry s)) = memTimesheets s"
  by (auto simp: ProcessPayrollRun_def Let_def split: option.split prod.split)

interpretation sheets: transition_system "sheet_step P" "sheets_inv :: 'q payroll_state \<Rightarrow> bool" for P :: "'q payroll_service"
proof unfold_locales
  fix s s' :: "'q payroll_state" assume "sheet_step P s s'" and i: "sheets_inv s"
  then show "sheets_inv s'"
  proof (cases rule: sheet_step.cases)
    case (submit ord t clk res)
    show ?thesis by (rule inv_submit [OF i submit])
  next
    case (approve i' now approver res)
    then show ?thesis using inv_approve [OF i, of i' P now approver] by simp
  next
    case (reject now i' reviewer reason res)
    then show ?thesis using inv_reject [OF i, of P now i' reviewer reason] by simp
  next
    case (payroll clk oe repo entry res)
    have "memTimesheets s' = memTimesheets s" using payroll_sheets [of P clk oe repo entry s] unfolding payroll by (simp only: snd_conv)
    then show ?thesis using i sheets_inv_cong [of s' s] by blast
  qed
qed

definition no_sheets :: "'q \<Rightarrow> 'q payroll_state" where
  "no_sheets q = \<lparr>memTimesheets = Map.empty, memSalarySlips = Map.empty, memPayrollEntries = Map.empty, pyEvents = [], pyHR = q\<rparr>"


text \<open>A concrete shift of eight hours.\<close>

definition demo_sheet :: "string \<Rightarrow> time \<Rightarrow> Timesheet" where
  "demo_sheet status a = \<lparr>thName = [], thTimesheetID = [], thEmployee = [], thEmployeeID = ''e'', thStartDate = [], thShiftDate = ''2026-07-01'', thEndDate = [],
     thStartTime = Some a, thEndTime = Some (a + 28800000000000), thBreakMinutes = 0, thTotalHours = Fin 8, thHoursWorked = Fin 8, thBillable = False, thStatus = status,
     thTimeLogs = [], thTaskCode = ''admin'', thCostCenter = ''c'', thNotes = None, thApprovedBy = None, thApprovedAt = None, thFrappeTimesheetID = None,
     thCreatedAt = 1, thUpdatedAt = 1\<rparr>"

definition memory_service :: "unit payroll_service" where
  "memory_service = \<lparr>psHR = None, psPublisher = True\<rparr>"

lemma eight_hours: "\<not> fle (net_hours a (a + 28800000000000) 0) (Fin 0)"
proof -
  have r: "rnd 8 = Fin 8" "rnd 0 = Fin 0" using rnd_grid [of 0 8] rnd_grid [of 0 0] by (simp_all add: grid_def)
  then show ?thesis by (simp add: net_hours_def Hours_def of_i64_def fsub_def)
qed

lemma demo_sheet_checked:
  "\<exists>t. check_sheet (Normalize (clk 0) (clk 1) (demo_sheet st a)) = Inr t \<and> thEmployeeID t = ''e'' \<and> thShiftDate t = ''2026-07-01'' \<and> thTimesheetID t = []
    \<and> thName t = [] \<and> thStartTime t = Some a \<and> thEndTime t = Some (a + 28800000000000) \<and> thStatus t = or_else st ''submitted''"
proof -
  define t where "t = Normalize (clk 0) (clk 1) (demo_sheet st a)"
  have n: "thEmployeeID t = ''e''" "thStartTime t = Some a" "thEndTime t = Some (a + 28800000000000)" "thBreakMinutes t = 0" "thHoursWorked t = Fin 8"
    "thShiftDate t = ''2026-07-01''" "thTaskCode t = ''admin''" "thTimesheetID t = []" "thName t = []" "thStatus t = st"
    by (simp_all add: t_def Normalize_def normalize_logs_def normalize_hours_def normalize_ids_def demo_sheet_def feq_def Let_def)
  then show ?thesis unfolding t_def [symmetric] by (simp add: check_sheet_def eight_hours validTaskCodes_def Let_def)
qed

lemma demo_sheet_accepted:
  assumes "iter_order ord (memTimesheets s)" and "\<forall>j e. memTimesheets s j = Some e \<longrightarrow> inactive (thStatus e)"
  shows "\<exists>u s'. SubmitTimesheet memory_service clk ord (Some (demo_sheet st a)) s = (Inr u, s') \<and> memTimesheets s' = (memTimesheets s)(''ts-'' @ dec_int (clk 3) \<mapsto> u)
    \<and> thStatus u = or_else st ''submitted'' \<and> thEmployeeID u = ''e'' \<and> thShiftDate u = ''2026-07-01'' \<and> thStartTime u = Some a \<and> thEndTime u = Some (a + 28800000000000)"
proof -
  obtain t where t: "check_sheet (Normalize (clk 0) (clk 1) (demo_sheet st a)) = Inr t" "thEmployeeID t = ''e''" "thShiftDate t = ''2026-07-01''" "thTimesheetID t = []"
    "thName t = []" "thStartTime t = Some a" "thEndTime t = Some (a + 28800000000000)" "thStatus t = or_else st ''submitted''" using demo_sheet_checked by blast
  have "\<not> clashes t e" if "e \<in> set (map_vals ord (memTimesheets s))" for e
    using that assms map_vals_order [OF assms(1)] by (auto simp: clashes_def ran_def)
  then have f: "find (clashes t) (filter Q (map_vals ord (memTimesheets s))) = None" for Q by (auto simp: find_None_iff)
  have "SubmitTimesheet memory_service clk ord (Some (demo_sheet st a)) s
      = (Inr (stored clk t), s\<lparr>memTimesheets := (memTimesheets s)(thTimesheetID (stored clk t) \<mapsto> stored clk t)\<rparr>)"
    using f t(1) by (simp add: SubmitTimesheet_def ListTimesheets_def memory_service_def Let_def store_sheet_def stored_def)
  moreover have "thTimesheetID (stored clk t) = ''ts-'' @ dec_int (clk 3)" "thStatus (stored clk t) = or_else st ''submitted''" "thEmployeeID (stored clk t) = ''e''"
    "thShiftDate (stored clk t) = ''2026-07-01''" "thStartTime (stored clk t) = Some a" "thEndTime (stored clk t) = Some (a + 28800000000000)"
    using t by (simp_all add: stored_def)
  ultimately show ?thesis by fastforce
qed


section \<open>Approval\<close>

text \<open>The status that a submission carries is kept. A sheet that is submitted with the status approved and accepted by the memory is stored as
  approved although nobody approved it and no approval event is published, and it can no longer be rejected.\<close>

theorem submission_approves_itself:
  assumes "psHR P = None" and "iter_order ord (memTimesheets s)" and "SubmitTimesheet P clk ord (Some t) s = (Inr u, s')" and "thStatus t = ''approved''"
    and "thName t = [] \<or> thTimesheetID t = [] \<or> thName t = thTimesheetID t"
  shows "memTimesheets s' (thTimesheetID u) = Some u \<and> thStatus u = ''approved'' \<and> pyEvents s' = pyEvents s
    \<and> (reviewer \<noteq> [] \<and> reason \<noteq> [] \<longrightarrow> RejectTimesheet P now (thTimesheetID u) reviewer reason s' = (Inl AlreadyApproved, s'))"
proof -
  obtain t1 where c: "check_sheet (Normalize (clk 0) (clk 1) t) = Inr t1" and u: "u = stored clk t1"
    and s': "s' = s\<lparr>memTimesheets := (memTimesheets s)(thTimesheetID (stored clk t1) \<mapsto> stored clk t1)\<rparr>"
  proof -
    have l: "ListTimesheets P n ord f s = Inr (filter (sheet_match f) (map_vals ord (memTimesheets s)))" for n f by (simp add: ListTimesheets_def assms(1))
    show thesis using assms(1,3) that
      by (auto simp: SubmitTimesheet_def l Let_def store_sheet_def stored_def split: sum.splits option.splits)
  qed
  have m: "memTimesheets s' (thTimesheetID u) = Some u" and e: "pyEvents s' = pyEvents s" by (simp_all add: s' u)
  have st: "thStatus u = ''approved''" using check_sheet_Inr(7) [OF c] assms(4) by (simp add: u stored_def)
  have "thTimesheetID u \<noteq> []" using stored_ok(1) [OF c assms(5), of clk] by (simp add: sheet_ok_def u)
  then have "RejectTimesheet P now (thTimesheetID u) reviewer reason s' = (Inl AlreadyApproved, s')" if "reviewer \<noteq> []" "reason \<noteq> []"
    using m st that assms(1) by (simp add: RejectTimesheet_def GetTimesheet_def EqualFold_def)
  with m st e show ?thesis by blast
qed

theorem submission_approves_itself_witness:
  "\<exists>u s'. SubmitTimesheet memory_service (\<lambda>_. 7) [] (Some (demo_sheet ''approved'' 0)) (no_sheets ()) = (Inr u, s')
     \<and> thStatus u = ''approved'' \<and> pyEvents s' = [] \<and> RejectTimesheet memory_service 9 (thTimesheetID u) ''r'' ''x'' s' = (Inl AlreadyApproved, s')"
proof -
  have o: "iter_order [] (memTimesheets (no_sheets ()))" by (simp add: iter_order_def no_sheets_def)
  obtain u s' where u: "SubmitTimesheet memory_service (\<lambda>_. 7) [] (Some (demo_sheet ''approved'' 0)) (no_sheets ()) = (Inr u, s')"
    using demo_sheet_accepted [OF o, of "\<lambda>_. 7" "''approved''" 0] by (auto simp: no_sheets_def)
  have "psHR memory_service = None" by (simp add: memory_service_def)
  from submission_approves_itself [OF this o u, of "''r''" "''x''" 9] u show ?thesis by (auto simp: demo_sheet_def no_sheets_def)
qed

text \<open>An approval does not look at other sheets. When a rejected sheet overlaps an active one of its employee and date, as a later submission
  may, its approval succeeds and leaves two active sheets that overlap.\<close>

theorem approval_revives_overlap:
  assumes "psHR P = None" and "memTimesheets s i = Some t" and "memTimesheets s j = Some e" and "inactive (thStatus t)" and "\<not> inactive (thStatus e)"
    and "thEmployeeID t = thEmployeeID e" and "thShiftDate t = thShiftDate e" and "overlap t e" and "i \<noteq> []" and "approver \<noteq> []"
  shows "\<exists>u s'. ApproveTimesheet P now i approver s = (Inr u, s') \<and> \<not> no_overlaps (memTimesheets s')"
proof -
  let ?u = "t\<lparr>thStatus := ''approved'', thApprovedBy := Some approver, thApprovedAt := Some now, thUpdatedAt := now\<rparr>"
  have n: "\<not> EqualFold (thStatus t) ''approved''"
  proof
    assume "EqualFold (thStatus t) ''approved''"
    then have "inactive ''approved''" using assms(4) by (simp add: inactive_def EqualFold_def)
    then show False by simp
  qed
  have ij: "i \<noteq> j" using assms(2-5) by auto
  have "overlap ?u e" using assms(8) by (simp add: overlap_def)
  then have "\<not> no_overlaps ((memTimesheets s)(i \<mapsto> ?u))"
    using assms(3,5,6,7) ij unfolding no_overlaps_def by (intro notI) (drule spec [of _ i], drule spec [of _ j], auto)
  then show ?thesis using assms(1,2,9,10) n by (simp add: ApproveTimesheet_def GetTimesheet_def Let_def)
qed

theorem approval_revives_overlap_witness:
  "\<exists>s u s'. (sheet_step memory_service)\<^sup>*\<^sup>* (no_sheets ()) s \<and> ApproveTimesheet memory_service 9 ''ts-7'' ''a'' s = (Inr u, s') \<and> \<not> no_overlaps (memTimesheets s')"
proof -
  have k: "''ts-'' @ dec_int 7 = ''ts-7''" "''ts-'' @ dec_int 8 = ''ts-8''" by code_simp+
  have o: "iter_order [] (memTimesheets (no_sheets ()))" by (simp add: iter_order_def no_sheets_def)
  obtain t s1 where t: "SubmitTimesheet memory_service (\<lambda>_. 7) [] (Some (demo_sheet [] 0)) (no_sheets ()) = (Inr t, s1)"
    "memTimesheets s1 = [''ts-7'' \<mapsto> t]" "thStatus t = ''submitted''" "thEmployeeID t = ''e''" "thShiftDate t = ''2026-07-01''"
    "thStartTime t = Some 0" "thEndTime t = Some 28800000000000"
    using demo_sheet_accepted [OF o, of "\<lambda>_. 7" "[]" 0] k by (auto simp: no_sheets_def)
  obtain r s2 where r: "RejectTimesheet memory_service 8 ''ts-7'' ''b'' ''x'' s1 = (Inr r, s2)" "memTimesheets s2 = [''ts-7'' \<mapsto> r]" "thStatus r = ''rejected''"
    "thEmployeeID r = ''e''" "thShiftDate r = ''2026-07-01''" "thStartTime r = Some 0" "thEndTime r = Some 28800000000000"
  proof -
    have "\<not> EqualFold ''submitted'' ''approved''" by code_simp
    with t that show thesis by (simp add: RejectTimesheet_def GetTimesheet_def memory_service_def Let_def)
  qed
  have o2: "iter_order [''ts-7''] (memTimesheets s2)" by (simp add: iter_order_def r(2))
  have q2: "\<forall>j e. memTimesheets s2 j = Some e \<longrightarrow> inactive (thStatus e)" using r(2,3) by auto
  obtain e s3 where e: "SubmitTimesheet memory_service (\<lambda>_. 8) [''ts-7''] (Some (demo_sheet [] 0)) s2 = (Inr e, s3)"
    "memTimesheets s3 = [''ts-7'' \<mapsto> r, ''ts-8'' \<mapsto> e]" "thStatus e = ''submitted''" "thEmployeeID e = ''e''" "thShiftDate e = ''2026-07-01''"
    "thStartTime e = Some 0" "thEndTime e = Some 28800000000000"
    using demo_sheet_accepted [OF o2 q2, where clk = "\<lambda>_. 8" and st = "[]" and a = 0] k r(2) by auto
  have "sheet_step memory_service (no_sheets ()) s1" "sheet_step memory_service s1 s2" "sheet_step memory_service s2 s3"
    using sheet_step.submit [OF o _ t(1)] sheet_step.reject [OF r(1)] sheet_step.submit [OF o2 _ e(1)] by (auto simp: demo_sheet_def)
  then have run: "(sheet_step memory_service)\<^sup>*\<^sup>* (no_sheets ()) s3" by (meson converse_rtranclp_into_rtranclp rtranclp.rtrancl_refl)
  have "\<not> inactive ''submitted''" unfolding inactive_def EqualFold_def by code_simp
  then have "\<exists>u s'. ApproveTimesheet memory_service 9 ''ts-7'' ''a'' s3 = (Inr u, s') \<and> \<not> no_overlaps (memTimesheets s')"
    using r e by (intro approval_revives_overlap [where t = r and e = e and j = "''ts-8''"]) (simp_all add: memory_service_def overlap_def)
  with run show ?thesis by blast
qed

section \<open>Payroll runs\<close>

lemma undec_zeros: "undec 0 (replicate k (CHR ''0'') @ xs) = undec 0 xs"
  by (induction k) simp_all

lemma slip_id_inj [simp]: "slip_id e m = slip_id e n \<longleftrightarrow> m = n"
proof
  assume "slip_id e m = slip_id e n"
  then have "undec 0 (pad3 (m + 1)) = undec 0 (pad3 (n + 1))" by (simp add: slip_id_def)
  then show "m = n" by (simp add: pad3_def undec_zeros undec_dec_nat)
qed simp

lemma net_pay: "fsub (Fin 5000) (Fin 1200) = Fin 3800"
  using rnd_grid [of 0 3800] by (simp add: fsub_def grid_def)

lemma fadd_nats:
  assumes "m + n \<le> (2 ^ 52 :: nat)"
  shows "fadd (Fin (of_nat m)) (Fin (of_nat n)) = Fin (of_nat (m + n))"
proof -
  have "(of_nat (m + n) :: rat) \<le> of_nat (2 ^ 52)" using assms by (simp only: of_nat_le_iff)
  then have "grid 0 (of_nat (m + n))" by (simp add: grid_def)
  then show ?thesis using rnd_grid [of 0 "of_nat (m + n)"] by simp
qed

lemma pay_slips_totals:
  assumes "a + 5000 * length emps \<le> 2 ^ 52" and "b + 3800 * length emps \<le> 2 ^ 52"
  shows "\<exists>m'. pay_slips pe n emps (Fin (of_nat a), Fin (of_nat b), m) = (Fin (of_nat (a + 5000 * length emps)), Fin (of_nat (b + 3800 * length emps)), m')"
  using assms
proof (induction emps arbitrary: a b n m)
  case (Cons e emps)
  have l: "a + 5000 + 5000 * length emps \<le> 2 ^ 52" "b + 3800 + 3800 * length emps \<le> 2 ^ 52" using Cons.prems by simp_all
  have "fadd (Fin (of_nat a)) (Fin 5000) = Fin (of_nat (a + 5000))" "fadd (Fin (of_nat b)) (Fin 3800) = Fin (of_nat (b + 3800))"
    using fadd_nats [of a 5000] fadd_nats [of b 3800] Cons.prems by simp_all
  moreover obtain m' where "pay_slips pe (Suc n) emps (Fin (of_nat (a + 5000)), Fin (of_nat (b + 3800)), m(slip_id (pnPayrollEntryID pe) n \<mapsto> salary_slip pe n e))
      = (Fin (of_nat (a + 5000 + 5000 * length emps)), Fin (of_nat (b + 3800 + 3800 * length emps)), m')"
    using Cons.IH [OF l, of "Suc n" "m(slip_id (pnPayrollEntryID pe) n \<mapsto> salary_slip pe n e)"] by blast
  ultimately show ?case by (simp add: net_pay add.assoc)
qed simp

lemma pay_slips_stored:
  assumes "pay_slips pe n emps (g, t, m) = (g', t', m')"
  shows "k < length emps \<Longrightarrow> m' (slip_id (pnPayrollEntryID pe) (n + k)) = Some (salary_slip pe (n + k) (emps ! k))"
    and "(\<And>k. k < length emps \<Longrightarrow> i \<noteq> slip_id (pnPayrollEntryID pe) (n + k)) \<Longrightarrow> m' i = m i"
  using assms
proof (induction emps arbitrary: n g t m k i)
  case (Cons e emps)
  {
    case 1
    note p = 1(2) [simplified]
    show ?case
    proof (cases k)
      case 0
      have "m' (slip_id (pnPayrollEntryID pe) n) = Some (salary_slip pe n e)"
        using Cons.IH(2) [OF _ p, of "slip_id (pnPayrollEntryID pe) n"] by simp
      then show ?thesis by (simp add: 0)
    next
      case (Suc j)
      then show ?thesis using Cons.IH(1) [OF _ p, of j] 1(1) by simp
    qed
  next
    case 2
    note p = 2(2) [simplified]
    have "i \<noteq> slip_id (pnPayrollEntryID pe) (Suc n + k)" if "k < length emps" for k using 2(1) [of "Suc k"] that by simp
    then show ?case using Cons.IH(2) [OF _ p] 2(1) [of 0] by simp
  }
qed auto

text \<open>A payroll run in memory pays every employee of the run once. With the totals in the exact range of the arithmetic, it
  reports one slip for each entry of its list of employees, a gross total of 5000 and a net total of 3800 for each, and stores for
  the k-th employee a slip of its own with that pay, whose net is the gross less the deductions and whose deductions are the sum of its
  components; the slips of other runs stay as they were.\<close>

theorem payroll_run:
  assumes "psHR P = None" and "pnStartDate e \<noteq> []" and "pnEndDate e \<noteq> []"
    and "5000 * length (pnEmployees (prepare_entry clk oe repo (normalize_entry e))) \<le> 2 ^ 52"
  shows "\<exists>run s'. ProcessPayrollRun P clk oe repo (Some e) s = (Inr run, s') \<and> memPayrollEntries s' (pnPayrollEntryID run) = Some run
    \<and> pnSalarySlipsCreated run = int (length (pnEmployees run))
    \<and> pnTotalGrossPay run = Fin (of_nat (5000 * length (pnEmployees run))) \<and> pnTotalNetPay run = Fin (of_nat (3800 * length (pnEmployees run)))
    \<and> (\<forall>k < length (pnEmployees run). \<exists>x. memSalarySlips s' (slip_id (pnPayrollEntryID run) k) = Some x \<and> ssEmployeeID x = pnEmployees run ! k
         \<and> ssNetPay x = fsub (ssGrossPay x) (ssTotalDeductions x) \<and> ssNetPay x = Fin 3800
         \<and> ssTotalDeductions x = fold (\<lambda>c. fadd (scAmount c)) (ssDeductions x) (Fin 0))
    \<and> (\<forall>i. (\<forall>k < length (pnEmployees run). i \<noteq> slip_id (pnPayrollEntryID run) k) \<longrightarrow> memSalarySlips s' i = memSalarySlips s i)"
proof -
  define pe where "pe = prepare_entry clk oe repo (normalize_entry e)"
  have len: "5000 * length (pnEmployees pe) \<le> 2 ^ 52" "3800 * length (pnEmployees pe) \<le> 2 ^ 52" using assms(4) by (simp_all add: pe_def)
  have c: "pnSalarySlipsCreated pe = int (length (pnEmployees pe))" by (simp add: pe_def prepare_entry_def Let_def)
  obtain m' where p: "pay_slips pe 0 (pnEmployees pe) (Fin 0, Fin 0, memSalarySlips s)
      = (Fin (of_nat (5000 * length (pnEmployees pe))), Fin (of_nat (3800 * length (pnEmployees pe))), m')"
    using pay_slips_totals [of 0 "pnEmployees pe" 0 pe 0 "memSalarySlips s"] len by auto
  let ?run = "pe\<lparr>pnTotalGrossPay := Fin (of_nat (5000 * length (pnEmployees pe))), pnTotalNetPay := Fin (of_nat (3800 * length (pnEmployees pe)))\<rparr>"
  have d: "pnStartDate (normalize_entry e) \<noteq> []" "pnEndDate (normalize_entry e) \<noteq> []" using assms(2,3) by (simp_all add: normalize_entry_def Let_def)
  have run: "ProcessPayrollRun P clk oe repo (Some e) s
      = (Inr ?run, s\<lparr>memSalarySlips := m', memPayrollEntries := (memPayrollEntries s)(pnPayrollEntryID pe \<mapsto> ?run)\<rparr>)"
    using d assms(1) p unfolding ProcessPayrollRun_def by (simp add: Let_def pe_def [symmetric])
  have sum: "fadd (Fin 400) (fadd (Fin 800) (Fin 0)) = Fin 1200"
    using rnd_grid [of 0 800] rnd_grid [of 0 1200] by (simp add: grid_def)
  have slip: "\<exists>x. m' (slip_id (pnPayrollEntryID pe) k) = Some x \<and> ssEmployeeID x = pnEmployees pe ! k \<and> ssNetPay x = fsub (ssGrossPay x) (ssTotalDeductions x)
      \<and> ssNetPay x = Fin 3800 \<and> ssTotalDeductions x = fold (\<lambda>c. fadd (scAmount c)) (ssDeductions x) (Fin 0)" if "k < length (pnEmployees pe)" for k
  proof -
    have "m' (slip_id (pnPayrollEntryID pe) k) = Some (salary_slip pe k (pnEmployees pe ! k))" using pay_slips_stored(1) [OF p that] by simp
    then show ?thesis by (simp add: salary_slip_def normalize_slip_def component_def sum net_pay or_else_def Let_def)
  qed
  have other: "m' i = memSalarySlips s i" if "\<forall>k < length (pnEmployees pe). i \<noteq> slip_id (pnPayrollEntryID pe) k" for i
    using pay_slips_stored(2) [OF p, of i] that by simp
  show ?thesis using c slip other by (intro exI [of _ ?run] exI conjI) (rule run, simp_all)
qed

definition demo_entry :: PayrollEntry where
  "demo_entry = \<lparr>pnName = [], pnPayrollEntryID = ''P'', pnPostingDate = [], pnCompany = [], pnCurrency = [], pnPayrollFrequency = [], pnStartDate = ''2026-07-01'',
     pnEndDate = ''2026-07-31'', pnDepartment = [], pnStatus = [], pnSalarySlipsCreated = 0, pnSalarySlipsSubmitted = 0, pnTotalGrossPay = Fin 0, pnTotalNetPay = Fin 0,
     pnEmployees = [''a'', ''b'']\<rparr>"

theorem payroll_run_witness:
  "\<exists>run s'. ProcessPayrollRun memory_service (\<lambda>_. 7) [] None (Some demo_entry) (no_sheets ()) = (Inr run, s') \<and> memPayrollEntries s' (pnPayrollEntryID run) = Some run"
proof -
  have "psHR memory_service = None" "pnStartDate demo_entry \<noteq> []" "pnEndDate demo_entry \<noteq> []"
    "5000 * length (pnEmployees (prepare_entry (\<lambda>_. 7) [] None (normalize_entry demo_entry))) \<le> 2 ^ 52"
    by (simp_all add: memory_service_def demo_entry_def prepare_entry_def normalize_entry_def Let_def)
  from payroll_run [OF this, of "no_sheets ()"] show ?thesis by blast
qed

end
