(* ===== verification/RateLimit.thy ===== *)
theory RateLimit
  imports SessionMiddleware Float64
begin

text \<open>
  The sliding-window rate limiter, \<open>pkg/cache/valkey/ratelimit.go\<close>: the in-memory
  limiter, the Lua script that decides in a Valkey server, the fall-back from one to
  the other, and the HTTP middleware. The server and its client are a parameter: a
  function that runs the script, with the locale \<open>limiter_server\<close> for the documented
  behaviour (the script is atomic; a call that reports an error ran it completely or
  not at all). Sorted-set scores are doubles, so a time is stored as \<open>sc t\<close> for a
  monotone rounding \<open>sc\<close>, and \<open>shw\<close> is how the server prints a score.
\<close>

section \<open>The in-memory limiter\<close>

type_synonym limits = "(string, time list) gomap"

text \<open>
  A decision: allowed, remaining calls, time to wait. \<open>None\<close> is the panic of \<open>valid[0]\<close>
  on an empty slice. \<open>later\<close> is the second clock reading, inside \<open>time.Until\<close>.
\<close>

type_synonym decision = "bool \<times> int \<times> duration"

definition valid_stamps :: "time \<Rightarrow> time list \<Rightarrow> time list" where
  "valid_stamps cutoff timestamps = filter (\<lambda>t. cutoff < t) timestamps"

definition until :: "time \<Rightarrow> time \<Rightarrow> duration" where
  "until later t = (if t - later < 0 then second else t - later)"

definition allowMemory ::
    "time \<Rightarrow> time \<Rightarrow> string \<Rightarrow> int \<Rightarrow> duration \<Rightarrow> limits \<Rightarrow> decision option \<times> limits" where
  "allowMemory now later key limit window m =
     (let timestamps = (case m key of None \<Rightarrow> [] | Some ts \<Rightarrow> ts);
          valid = valid_stamps (now - window) timestamps
      in if limit \<le> int (length valid)
         then (case valid of
                 [] \<Rightarrow> (None, m)
               | oldest # _ \<Rightarrow> (Some (False, 0, until later (oldest + window)), m(key \<mapsto> valid)))
         else (Some (True, limit - int (length (valid @ [now])), 0), m(key \<mapsto> valid @ [now])))"

section \<open>The script\<close>

text \<open>A sorted set: scores with members, in order of the scores.\<close>

type_synonym zset = "(int \<times> string) list"

definition zadd :: "int \<Rightarrow> string \<Rightarrow> zset \<Rightarrow> zset" where
  "zadd s m z = insort_key fst (s, m) (filter (\<lambda>e. snd e \<noteq> m) z)"

record script_args =
  argWindowStart :: time
  argNow :: time
  argMember :: string
  argLimit :: int
  argExpire :: int

datatype script_value = IntV int | StrV string

text \<open>The stored set with its expiry; a set that is empty or past its expiry is absent.\<close>

type_synonym zentry = "zset \<times> time option"

definition live_zset :: "time \<Rightarrow> zentry \<Rightarrow> zset" where
  "live_zset now ze = (case snd ze of None \<Rightarrow> fst ze | Some e \<Rightarrow> if now < e then fst ze else [])"

definition slidingWindowLuaScript ::
    "(int \<Rightarrow> int) \<Rightarrow> (int \<Rightarrow> string) \<Rightarrow> time \<Rightarrow> script_args \<Rightarrow> zentry \<Rightarrow> script_value list \<times> zentry" where
  "slidingWindowLuaScript sc shw now a ze =
     (let z = filter (\<lambda>e. \<not> (0 \<le> fst e \<and> fst e \<le> sc (argWindowStart a))) (live_zset now ze);
          count = int (length z)
      in if argLimit a \<le> count
         then ([IntV 0, IntV count, StrV (case z of [] \<Rightarrow> ''0'' | e # _ \<Rightarrow> shw (fst e))],
               (z, if z = [] then None else snd ze))
         else ([IntV 1, IntV (count + 1), StrV ''0''],
               (zadd (sc (argNow a)) (argMember a) z, Some (now + argExpire a * second))))"

section \<open>The limiter\<close>

text \<open>\<open>time.Duration.Seconds\<close> and the conversion of its result to an integer, which truncates towards zero.\<close>

definition quot :: "int \<Rightarrow> int \<Rightarrow> int" where
  "quot a b = (if 0 \<le> a then a div b else - ((- a) div b))"

definition Seconds :: "duration \<Rightarrow> float64" where
  "Seconds d = fadd (Fin (of_int (quot d second))) (fdiv (Fin (of_int (d - quot d second * second))) (Fin 1000000000))"

definition trunc64 :: "float64 \<Rightarrow> int" where
  "trunc64 x = (case x of Fin v \<Rightarrow> if 0 \<le> v then \<lfloor>v\<rfloor> else - \<lfloor>- v\<rfloor> | _ \<Rightarrow> - (2 ^ 63))"

definition expire_seconds :: "duration \<Rightarrow> int" where
  "expire_seconds window = (let e = trunc64 (Seconds (window + second)) in if e \<le> 0 then 1 else e)"

definition member_name :: "time \<Rightarrow> string \<Rightarrow> string" where
  "member_name now b = dec_int now @ CHR ''-'' # EncodeToString b"

definition int_value :: "script_value \<Rightarrow> int" where
  "int_value v = (case v of IntV n \<Rightarrow> n | StrV _ \<Rightarrow> 0)"

definition str_value :: "script_value \<Rightarrow> string" where
  "str_value v = (case v of IntV _ \<Rightarrow> [] | StrV s \<Rightarrow> s)"

definition retry_after :: "time \<Rightarrow> duration \<Rightarrow> string \<Rightarrow> duration" where
  "retry_after later window oldest =
     (if oldest \<noteq> [] \<and> oldest \<noteq> ''0''
      then (case Atoi oldest of
              None \<Rightarrow> window
            | Some nano \<Rightarrow> if 0 < nano then until later (nano + window) else window)
      else window)"

definition redisKey :: "string \<Rightarrow> string" where
  "redisKey key = ''ratelimit:'' @ key"

definition script_call :: "time \<Rightarrow> string \<Rightarrow> int \<Rightarrow> duration \<Rightarrow> script_args" where
  "script_call now b limit window = \<lparr>argWindowStart = now - window, argNow = now, argMember = member_name now b,
     argLimit = limit, argExpire = expire_seconds window\<rparr>"

text \<open>
  \<open>Allow\<close>: \<open>client\<close> is \<open>None\<close> for a limiter without a server; its reply is \<open>None\<close> when the
  call fails. The error result of the Go function is always nil.
\<close>

type_synonym 'r script_client = "time \<Rightarrow> string \<Rightarrow> script_args \<Rightarrow> 'r \<Rightarrow> script_value list option \<times> 'r"

definition Allow ::
    "'r script_client option \<Rightarrow> time \<Rightarrow> time \<Rightarrow> string \<Rightarrow> string \<Rightarrow> int \<Rightarrow> duration \<Rightarrow> limits \<times> 'r
      \<Rightarrow> decision option \<times> limits \<times> 'r" where
  "Allow client now later b key limit window st = (case (client, st) of
     (None, (m, r)) \<Rightarrow> (case allowMemory now later key limit window m of (d, m') \<Rightarrow> (d, m', r))
   | (Some run, (m, r)) \<Rightarrow>
       (case run now (redisKey key) (script_call now b limit window) r of
          (Some (v1 # v2 # v3 # _), r') \<Rightarrow>
            if int_value v1 = 0 then (Some (False, 0, retry_after later window (str_value v3)), m, r')
            else (Some (True, max 0 (limit - int_value v2), 0), m, r')
        | (_, r') \<Rightarrow> (case allowMemory now later key limit window m of (d, m') \<Rightarrow> (d, m', r'))))"

section \<open>HTTP\<close>

definition last_colon :: "string \<Rightarrow> nat option" where
  "last_colon s = (let n = length (takeWhile (\<lambda>c. c \<noteq> CHR '':'') (rev s))
     in if n = length s then None else Some (length s - 1 - n))"

text \<open>\<open>net.SplitHostPort\<close>; \<open>None\<close> is its error.\<close>

definition SplitHostPort :: "string \<Rightarrow> (string \<times> string) option" where
  "SplitHostPort hp = (case last_colon hp of
     None \<Rightarrow> None
   | Some i \<Rightarrow>
       if hp \<noteq> [] \<and> hd hp = CHR ''[''
       then let e = length (takeWhile (\<lambda>c. c \<noteq> CHR '']'') hp)
            in if e = length hp \<or> e + 1 \<noteq> i then None
               else if CHR ''['' \<in> set (tl hp) \<or> CHR '']'' \<in> set (drop (e + 1) hp) then None
               else Some (drop 1 (take e hp), drop (i + 1) hp)
       else if CHR '':'' \<in> set (take i hp) \<or> CHR ''['' \<in> set hp \<or> CHR '']'' \<in> set hp then None
       else Some (take i hp, drop (i + 1) hp))"

definition ClientIP :: "string \<Rightarrow> request \<Rightarrow> string" where
  "ClientIP remoteAddr r =
     (if Header r ''X-Forwarded-For'' \<noteq> [] then TrimSpace (hd (Split (CHR '','') (Header r ''X-Forwarded-For'')))
      else if Header r ''X-Real-IP'' \<noteq> [] then TrimSpace (Header r ''X-Real-IP'')
      else (case SplitHostPort remoteAddr of Some (host, _) \<Rightarrow> host | None \<Rightarrow> remoteAddr))"

datatype limit_verdict =
    Served int int
  | TooManyRequests int int int

text \<open>\<open>RateLimitMiddleware\<close>: the limit and remaining headers, and the seconds of \<open>Retry-After\<close> with a 429.\<close>

definition RateLimitMiddleware ::
    "'r script_client option \<Rightarrow> (request \<Rightarrow> string) \<Rightarrow> int \<Rightarrow> duration \<Rightarrow> time \<Rightarrow> time \<Rightarrow> string \<Rightarrow> request \<Rightarrow> limits \<times> 'r
      \<Rightarrow> limit_verdict option \<times> limits \<times> 'r" where
  "RateLimitMiddleware client keyFunc limit window now later b r st =
     (case Allow client now later b (keyFunc r) limit window st of
        (None, st') \<Rightarrow> (None, st')
      | (Some (allowed, remaining, retryAfter), st') \<Rightarrow>
          (Some (if allowed then Served limit remaining
                 else let retrySec = trunc64 (Seconds retryAfter)
                      in TooManyRequests limit remaining (if retrySec \<le> 0 then 1 else retrySec)), st'))"

section \<open>Windows over a history\<close>

text \<open>
  The specification looks at the history of admitted times. \<open>recent after c hist\<close> counts the
  times that are past the cutoff \<open>c\<close>; \<open>window_bound\<close> bounds every window of the history.
\<close>

definition recent :: "(time \<Rightarrow> time \<Rightarrow> bool) \<Rightarrow> time \<Rightarrow> time list \<Rightarrow> nat" where
  "recent after c hist = length (filter (after c) hist)"

definition window_bound :: "(time \<Rightarrow> time \<Rightarrow> bool) \<Rightarrow> int \<Rightarrow> duration \<Rightarrow> time list \<Rightarrow> bool" where
  "window_bound after limit window hist \<longleftrightarrow>
     (\<forall>t. int (length (filter (\<lambda>a. after (t - window) a \<and> a \<le> t) hist)) \<le> limit)"

lemma recent_Nil [simp]: "recent after c [] = 0"
  by (simp add: recent_def)

lemma recent_append [simp]: "recent after c (xs @ ys) = recent after c xs + recent after c ys"
  by (simp add: recent_def)

lemma recent_single [simp]: "recent after c [a] = (if after c a then 1 else 0)"
  by (simp add: recent_def)

lemma recent_mono:
  assumes "\<And>a. a \<in> set hist \<Longrightarrow> after' c' a \<Longrightarrow> after c a"
  shows "recent after' c' hist \<le> recent after c hist"
  using assms unfolding recent_def by (induction hist) auto

text \<open>
  The laws that a limiter's memory has to obey for one key: cutoffs are monotone, a call is
  admitted only when fewer than \<open>limit\<close> times past the cutoff are remembered, and whatever
  is still inside the window stays remembered.
\<close>

locale sliding_window =
  fixes after :: "time \<Rightarrow> time \<Rightarrow> bool" and limit :: int and window :: duration
    and remembered :: "'s \<Rightarrow> time \<Rightarrow> nat"
  assumes after_mono: "c \<le> c' \<Longrightarrow> after c' a \<Longrightarrow> after c a"
begin

definition tracks :: "time \<Rightarrow> time list \<Rightarrow> 's \<Rightarrow> bool" where
  "tracks now hist s \<longleftrightarrow> (\<forall>a \<in> set hist. a \<le> now) \<and> window_bound after limit window hist
     \<and> (\<forall>c. now - window \<le> c \<longrightarrow> recent after c hist \<le> remembered s c)"

lemma tracks_later:
  assumes "tracks now hist s" and "now \<le> now'"
  shows "tracks now' hist s"
  using assms by (fastforce simp: tracks_def)

lemma tracks_prefix:
  assumes "tracks now (hist @ ys) s"
  shows "tracks now hist s"
proof -
  have "int (length (filter P hist)) \<le> limit" if "int (length (filter P (hist @ ys))) \<le> limit" for P
    using that by simp
  moreover have "recent after c hist \<le> recent after c (hist @ ys)" for c by simp
  ultimately show ?thesis
    using assms order_trans unfolding tracks_def window_bound_def by (metis UnCI set_append)
qed

lemma tracks_forgets:
  assumes "tracks now hist s" and "\<And>c. now - window \<le> c \<Longrightarrow> recent after c hist \<le> remembered s' c"
  shows "tracks now hist s'"
  using assms by (simp add: tracks_def)

lemma admit_bound:
  assumes "window_bound after limit window hist" and le: "\<forall>a \<in> set hist. a \<le> now"
    and less: "int (recent after (now - window) hist) < limit"
  shows "window_bound after limit window (hist @ [now])"
  unfolding window_bound_def
proof
  fix t
  let ?P = "\<lambda>a. after (t - window) a \<and> a \<le> t"
  show "int (length (filter ?P (hist @ [now]))) \<le> limit"
  proof (cases "now \<le> t")
    case True
    have "length (filter ?P hist) \<le> recent after (now - window) hist"
      unfolding recent_def using True by (induction hist) (auto intro: after_mono [of "now - window" "t - window"])
    with less show ?thesis by simp
  next
    case False
    with assms(1) show ?thesis by (simp add: window_bound_def)
  qed
qed

lemma tracks_admit:
  assumes "tracks now hist s" and "int (remembered s (now - window)) < limit"
    and "\<And>c. now - window \<le> c \<Longrightarrow> remembered s c + (if after c now then 1 else 0) \<le> remembered s' c"
  shows "tracks now (hist @ [now]) s'"
proof -
  have t: "\<forall>a \<in> set hist. a \<le> now" "window_bound after limit window hist"
      "\<And>c. now - window \<le> c \<Longrightarrow> recent after c hist \<le> remembered s c"
    using assms(1) by (auto simp: tracks_def)
  have "window_bound after limit window (hist @ [now])"
    by (rule admit_bound [OF t(2,1)]) (use t(3) [of "now - window"] assms(2) in simp)
  moreover have "recent after c (hist @ [now]) \<le> remembered s' c" if "now - window \<le> c" for c
    using t(3) [OF that] assms(3) [OF that] by simp
  ultimately show ?thesis using t(1) by (auto simp: tracks_def)
qed

end

section \<open>The memory of the limiters\<close>

definition stamps :: "limits \<Rightarrow> string \<Rightarrow> time list" where
  "stamps m key = (case m key of None \<Rightarrow> [] | Some ts \<Rightarrow> ts)"

definition is_allowed :: "decision option \<Rightarrow> bool" where
  "is_allowed d = (case d of None \<Rightarrow> False | Some (ok, _) \<Rightarrow> ok)"

lemma is_allowed_simps [simp]: "\<not> is_allowed None" "is_allowed (Some (ok, n, w)) = ok"
  by (simp_all add: is_allowed_def)

abbreviation (input) past :: "time \<Rightarrow> time \<Rightarrow> bool" where
  "past c a \<equiv> c < a"

lemma recent_valid_stamps: "c \<le> c' \<Longrightarrow> recent past c' (valid_stamps c ts) = recent past c' ts"
  unfolding recent_def valid_stamps_def by (induction ts) auto

lemma length_valid_stamps: "length (valid_stamps c ts) = recent past c ts"
  by (simp add: recent_def valid_stamps_def)

lemma allowMemory_other: "allowMemory now later k limit window m = (d, m') \<Longrightarrow> key \<noteq> k \<Longrightarrow> m' key = m key"
  by (auto simp: allowMemory_def Let_def split: if_splits list.splits)

lemma allowMemory_stamps:
  assumes "allowMemory now later key limit window m = (d, m')"
  shows "(int (recent past (now - window) (stamps m key)) < limit \<longrightarrow>
      (\<exists>n. d = Some (True, n, 0)) \<and> stamps m' key = valid_stamps (now - window) (stamps m key) @ [now])
    \<and> (limit \<le> int (recent past (now - window) (stamps m key)) \<longrightarrow>
      (if recent past (now - window) (stamps m key) = 0 then d = None else \<exists>w. d = Some (False, 0, w))
      \<and> (\<forall>c. now - window \<le> c \<longrightarrow> recent past c (stamps m' key) = recent past c (stamps m key)))"
proof -
  let ?v = "valid_stamps (now - window) (stamps m key)"
  have d: "allowMemory now later key limit window m =
      (if limit \<le> int (length ?v)
       then case ?v of [] \<Rightarrow> (None, m)
          | oldest # _ \<Rightarrow> (Some (False, 0, until later (oldest + window)), m(key \<mapsto> ?v))
       else (Some (True, limit - int (length (?v @ [now])), 0), m(key \<mapsto> ?v @ [now])))"
    unfolding allowMemory_def stamps_def Let_def by (rule refl)
  have "recent past c (stamps m' key) = recent past c (stamps m key)"
    if "now - window \<le> c" "limit \<le> int (length ?v)" for c
    using assms that recent_valid_stamps [OF that(1), of "stamps m key"] unfolding d
    by (auto simp: stamps_def split: list.splits)
  then show ?thesis
    using assms unfolding d length_valid_stamps [symmetric]
    by (auto simp: stamps_def split: list.splits if_splits)
qed

interpretation mem_window: sliding_window past limit window "\<lambda>ts c. recent past c ts"
  for limit window
  by unfold_locales simp

lemma mem_step:
  assumes "mem_window.tracks limit window now hist (stamps m key)"
    and "allowMemory now later key limit window m = (d, m')"
  shows "mem_window.tracks limit window now (if is_allowed d then hist @ [now] else hist) (stamps m' key)"
proof (cases "int (recent past (now - window) (stamps m key)) < limit")
  case True
  then obtain n where n: "d = Some (True, n, 0)" "stamps m' key = valid_stamps (now - window) (stamps m key) @ [now]"
    using allowMemory_stamps [OF assms(2)] by blast
  have "mem_window.tracks limit window now (hist @ [now]) (stamps m' key)"
    by (rule mem_window.tracks_admit [OF assms(1) True]) (simp add: n recent_valid_stamps)
  with n show ?thesis by simp
next
  case False
  have s: "recent past c (stamps m' key) = recent past c (stamps m key)" if "now - window \<le> c" for c
    using allowMemory_stamps [OF assms(2)] False that by auto
  have "mem_window.tracks limit window now hist (stamps m' key)"
    by (rule mem_window.tracks_forgets [OF assms(1)]) (use assms(1) s in \<open>simp add: mem_window.tracks_def\<close>)
  moreover have "\<not> is_allowed d"
    using allowMemory_stamps [OF assms(2)] False by (auto split: if_splits)
  ultimately show ?thesis by simp
qed

section \<open>The memory of the server\<close>

lemma rnd_squeeze:
  assumes "of_int i \<le> x" and "x \<le> of_int j" and "\<bar>i\<bar> \<le> 2 ^ 53" and "\<bar>j\<bar> \<le> 2 ^ 53"
  obtains v where "rnd x = Fin v" and "of_int i \<le> v" and "v \<le> of_int j"
proof -
  have "fle (Fin (of_int i)) (rnd x)" "fle (rnd x) (Fin (of_int j))"
    using rnd_mono [OF assms(1)] rnd_mono [OF assms(2)] rnd_int [OF assms(3)] rnd_int [OF assms(4)] by simp_all
  with that show ?thesis by (cases "rnd x") auto
qed

lemma trunc_Seconds:
  assumes "0 \<le> d" and "d < 2 ^ 63"
  shows "d div second \<le> trunc64 (Seconds d)"
proof -
  define q where "q = d div second"
  have q0: "0 \<le> q" and qd: "quot d second = q" using assms by (simp_all add: q_def quot_def)
  have q: "\<bar>q\<bar> \<le> 2 ^ 53" "\<bar>q + 1\<bar> \<le> 2 ^ 53" using assms by (auto simp: q_def)
  have r: "0 \<le> d - q * second" "d - q * second \<le> second" by (simp_all add: q_def minus_div_mult_eq_mod)
  obtain y where y: "rnd (of_int (d - q * second) / 1000000000) = Fin y" "0 \<le> y" "y \<le> 1"
    by (rule rnd_squeeze [of 0 "of_int (d - q * second) / 1000000000" 1]) (use r in \<open>simp_all add: divide_le_eq\<close>)
  obtain v where v: "rnd (of_int q + y) = Fin v" "of_int q \<le> v"
    by (rule rnd_squeeze [of q "of_int q + y" "q + 1"]) (use y q in simp_all)
  have "fdiv (Fin (of_int (d - q * second))) (Fin 1000000000) = Fin y" using y(1) by simp
  then have "Seconds d = Fin v" unfolding Seconds_def qd by (simp only: fadd.simps v(1))
  moreover have "0 \<le> v" using v(2) q0 by (metis of_int_0_le_iff order_trans)
  moreover have "q \<le> \<lfloor>v\<rfloor>" using v(2) by (simp add: le_floor_iff)
  ultimately show ?thesis by (simp add: trunc64_def q_def)
qed

lemma expire_exceeds:
  assumes "window < 2 ^ 62"
  shows "window < expire_seconds window * second"
proof (cases "window + second < 0")
  case True
  then show ?thesis by (simp add: expire_seconds_def Let_def)
next
  case False
  let ?q = "(window + second) div second"
  have "?q \<le> trunc64 (Seconds (window + second))" using assms False by (intro trunc_Seconds) simp_all
  then have "?q * second \<le> expire_seconds window * second" by (auto simp: expire_seconds_def Let_def)
  moreover have "window < ?q * second"
    using div_mult_mod_eq [of "window + second" second] pos_mod_bound [of second "window + second"] by simp
  ultimately show ?thesis by simp
qed

definition scored :: "(int \<Rightarrow> int) \<Rightarrow> time \<Rightarrow> zset \<Rightarrow> nat" where
  "scored sc c z = length (filter (\<lambda>e. sc c < fst e) z)"

lemma filter_insort_key:
  "length (filter P (insort_key f x xs)) = length (filter P xs) + (if P x then 1 else 0)"
  by (induction xs) auto

lemma filter_fresh: "m \<notin> snd ` set z \<Longrightarrow> filter (\<lambda>e. snd e \<noteq> m) z = z"
  by (induction z) auto

lemma scored_zadd: "m \<notin> snd ` set z \<Longrightarrow> scored sc c (zadd s m z) = scored sc c z + (if sc c < s then 1 else 0)"
  by (simp add: scored_def zadd_def filter_insort_key filter_fresh)

lemma snd_zadd: "snd ` set (zadd s m z) \<subseteq> insert m (snd ` set z)"
  by (auto simp: zadd_def set_insort_key)

locale limiter_server =
  fixes run :: "'r script_client" and zview :: "'r \<Rightarrow> string \<Rightarrow> zentry"
    and sc :: "int \<Rightarrow> int" and shw :: "int \<Rightarrow> string"
  assumes score_mono: "s \<le> t \<Longrightarrow> sc s \<le> sc t"
    and run_ok: "run now k a r = (Some vs, r') \<Longrightarrow>
      vs = fst (slidingWindowLuaScript sc shw now a (zview r k))
      \<and> zview r' = (zview r)(k := snd (slidingWindowLuaScript sc shw now a (zview r k)))"
    and run_failed: "run now k a r = (None, r') \<Longrightarrow>
      zview r' = zview r \<or> zview r' = (zview r)(k := snd (slidingWindowLuaScript sc shw now a (zview r k)))"

sublocale limiter_server \<subseteq> window: sliding_window "\<lambda>c a. sc c < sc a" limit window "\<lambda>z c. scored sc c z"
  for limit window
  by unfold_locales (meson le_less_trans score_mono)

context limiter_server
begin

definition server_inv :: "int \<Rightarrow> duration \<Rightarrow> time \<Rightarrow> time list \<Rightarrow> string set \<Rightarrow> zentry \<Rightarrow> bool" where
  "server_inv limit window now hist used ze \<longleftrightarrow> window.tracks limit window now hist (fst ze)
     \<and> (\<forall>e. snd ze = Some e \<longrightarrow> (\<forall>a \<in> set hist. a + window < e)) \<and> snd ` set (fst ze) \<subseteq> used"

lemma server_inv_later: "server_inv limit window now hist used ze \<Longrightarrow> now \<le> now' \<Longrightarrow> server_inv limit window now' hist used ze"
  using window.tracks_later by (auto simp: server_inv_def)

lemma server_inv_used: "server_inv limit window now hist used ze \<Longrightarrow> used \<subseteq> used' \<Longrightarrow> server_inv limit window now hist used' ze"
  by (auto simp: server_inv_def)

lemma server_inv_prefix: "server_inv limit window now (hist @ ys) used ze \<Longrightarrow> server_inv limit window now hist used ze"
  using window.tracks_prefix by (auto simp: server_inv_def)

lemma live_tracks:
  assumes "server_inv limit window now hist used ze"
  shows "window.tracks limit window now hist (live_zset now ze)"
proof (cases "live_zset now ze = fst ze")
  case False
  then obtain e where e: "snd ze = Some e" "e \<le> now"
    by (auto simp: live_zset_def split: option.splits if_splits)
  have "recent (\<lambda>c a. sc c < sc a) c hist = 0" if "now - window \<le> c" for c
  proof -
    have "sc a \<le> sc c" if "a \<in> set hist" for a
      using assms e that \<open>now - window \<le> c\<close> by (intro score_mono) (force simp: server_inv_def)
    then show ?thesis by (auto simp: recent_def filter_empty_conv leD)
  qed
  then show ?thesis using assms by (auto simp: server_inv_def intro: window.tracks_forgets)
qed (use assms in \<open>simp add: server_inv_def\<close>)

lemma script_step:
  assumes inv: "server_inv limit window now hist used ze" and "member_name now b \<notin> used" and "window < 2 ^ 62"
    and script: "slidingWindowLuaScript sc shw now (script_call now b limit window) ze = (vs, ze')"
  shows "(\<exists>n s. vs = [IntV 1, IntV n, StrV s]) \<and> server_inv limit window now (hist @ [now]) (insert (member_name now b) used) ze'
    \<or> (\<exists>n s. vs = [IntV 0, IntV n, StrV s]) \<and> server_inv limit window now hist (insert (member_name now b) used) ze'"
proof -
  let ?m = "member_name now b"
  let ?z0 = "live_zset now ze"
  define z where "z = filter (\<lambda>e. \<not> (0 \<le> fst e \<and> fst e \<le> sc (now - window))) ?z0"
  have sub: "set z \<subseteq> set (fst ze)" by (auto simp: z_def live_zset_def split: option.splits if_splits)
  have zused: "snd ` set z \<subseteq> used"
    using inv sub unfolding server_inv_def by (meson image_mono order_trans)
  have same: "scored sc c z = scored sc c ?z0" if "now - window \<le> c" for c
    unfolding z_def scored_def filter_filter using score_mono [OF that]
    by (intro arg_cong [of _ _ length] filter_cong) auto
  have t: "window.tracks limit window now hist z"
    using live_tracks [OF inv] same by (auto simp: window.tracks_def)
  show ?thesis
  proof (cases "limit \<le> int (length z)")
    case True
    then have "vs = [IntV 0, IntV (int (length z)), StrV (case z of [] \<Rightarrow> ''0'' | e # _ \<Rightarrow> shw (fst e))]"
        "ze' = (z, if z = [] then None else snd ze)"
      using script by (auto simp: slidingWindowLuaScript_def script_call_def Let_def z_def)
    moreover have "snd ` set z \<subseteq> insert (member_name now b) used" using zused by blast
    ultimately have "server_inv limit window now hist (insert (member_name now b) used) ze'"
      using t inv unfolding server_inv_def by simp
    with \<open>vs = _\<close> show ?thesis by blast
  next
    case False
    then have r: "vs = [IntV 1, IntV (int (length z) + 1), StrV ''0'']"
        "ze' = (zadd (sc now) ?m z, Some (now + expire_seconds window * second))"
      using script by (auto simp: slidingWindowLuaScript_def script_call_def Let_def z_def)
    have fresh: "?m \<notin> snd ` set z" using assms(2) zused by blast
    have "scored sc (now - window) z \<le> length z" by (simp add: scored_def)
    then have "window.tracks limit window now (hist @ [now]) (fst ze')"
      using False by (intro window.tracks_admit [OF t]) (auto simp: r scored_zadd [OF fresh])
    moreover have "a + window < now + expire_seconds window * second" if "a \<in> set (hist @ [now])" for a
    proof -
      have "a \<le> now" using t that by (auto simp: window.tracks_def)
      with expire_exceeds [OF assms(3)] show ?thesis by linarith
    qed
    moreover have "snd ` set (fst ze') \<subseteq> insert (member_name now b) used"
      using snd_zadd [of "sc now" ?m z] zused by (auto simp: r)
    ultimately show ?thesis using expire_exceeds [OF assms(3)] by (auto simp: r server_inv_def)
  qed
qed

end

section \<open>Runs\<close>

record call =
  cKey :: string
  cNow :: time
  cLater :: time
  cBytes :: string
  cLimit :: int
  cWindow :: duration

fun run_calls :: "'r script_client option \<Rightarrow> call list \<Rightarrow> limits \<times> 'r \<Rightarrow> decision option list \<times> limits \<times> 'r" where
  "run_calls client [] st = ([], st)"
| "run_calls client (c # cs) st =
     (case Allow client (cNow c) (cLater c) (cBytes c) (cKey c) (cLimit c) (cWindow c) st of
        (d, st1) \<Rightarrow> (case run_calls client cs st1 of (ds, st2) \<Rightarrow> (d # ds, st2)))"

text \<open>The times of the calls on one key that were admitted.\<close>

fun admitted :: "string \<Rightarrow> call list \<Rightarrow> decision option list \<Rightarrow> time list" where
  "admitted k (c # cs) (d # ds) = (if cKey c = k \<and> is_allowed d then [cNow c] else []) @ admitted k cs ds"
| "admitted k _ _ = []"

fun ordered :: "time \<Rightarrow> call list \<Rightarrow> bool" where
  "ordered now [] = True"
| "ordered now (c # cs) \<longleftrightarrow> now \<le> cNow c \<and> ordered (cNow c) cs"

definition uses :: "string \<Rightarrow> int \<Rightarrow> duration \<Rightarrow> call list \<Rightarrow> bool" where
  "uses k limit window calls \<longleftrightarrow> (\<forall>c \<in> set calls. cKey c = k \<longrightarrow> cLimit c = limit \<and> cWindow c = window)"

definition member_of :: "call \<Rightarrow> string" where
  "member_of c = member_name (cNow c) (cBytes c)"

lemma uses_Cons: "uses k l w (c # cs) \<longleftrightarrow> (cKey c = k \<longrightarrow> cLimit c = l \<and> cWindow c = w) \<and> uses k l w cs"
  by (auto simp: uses_def)

text \<open>The specification: decide from the history of admitted times.\<close>

fun spec_run :: "int \<Rightarrow> duration \<Rightarrow> time list \<Rightarrow> time list \<Rightarrow> bool list" where
  "spec_run limit window hist [] = []"
| "spec_run limit window hist (now # ts) =
     (let ok = int (recent (<) (now - window) hist) < limit
      in ok # spec_run limit window (if ok then hist @ [now] else hist) ts)"

fun decided :: "string \<Rightarrow> call list \<Rightarrow> decision option list \<Rightarrow> bool option list" where
  "decided k (c # cs) (d # ds) = (if cKey c = k then [map_option fst d] else []) @ decided k cs ds"
| "decided k _ _ = []"

lemma memory_run:
  assumes "run_calls None calls (m, r) = (ds, st')" and "ordered now calls" and "uses k limit window calls" and "0 < limit"
    and "\<forall>c. now - window \<le> c \<longrightarrow> recent (<) c (stamps m k) = recent (<) c hist"
  shows "decided k calls ds = map Some (spec_run limit window hist (map cNow (filter (\<lambda>c. cKey c = k) calls)))"
  using assms
proof (induction calls arbitrary: m ds st' now hist)
  case (Cons c cs)
  obtain d m' where a: "allowMemory (cNow c) (cLater c) (cKey c) (cLimit c) (cWindow c) m = (d, m')"
    by (metis surj_pair)
  then obtain ds' where ds: "ds = d # ds'" "run_calls None cs (m', r) = (ds', st')"
    using Cons.prems(1) by (auto simp: Allow_def split: prod.splits)
  have o: "now \<le> cNow c" "ordered (cNow c) cs" "uses k limit window cs"
    using Cons.prems(2,3) by (simp_all add: uses_Cons)
  show ?case
  proof (cases "cKey c = k")
    case False
    then have "stamps m' k = stamps m k" using allowMemory_other [OF a] by (simp add: stamps_def)
    with Cons.IH [OF ds(2) o(2,3) Cons.prems(4), of hist] Cons.prems(5) o(1) False show ?thesis by (simp add: ds)
  next
    case True
    then have l: "cLimit c = limit" "cWindow c = window" using Cons.prems(3) by (auto simp: uses_Cons)
    note s = allowMemory_stamps [OF a [unfolded True l]]
    have eq: "recent (<) x (stamps m k) = recent (<) x hist" if "cNow c - window \<le> x" for x
      using Cons.prems(5) o(1) that by simp
    show ?thesis
    proof (cases "int (recent (<) (cNow c - window) hist) < limit")
      case ok: True
      with s eq [of "cNow c - window"] have d: "is_allowed d" "map_option fst d = Some True"
          "stamps m' k = valid_stamps (cNow c - window) (stamps m k) @ [cNow c]" by auto
      have "\<forall>x. cNow c - window \<le> x \<longrightarrow> recent (<) x (stamps m' k) = recent (<) x (hist @ [cNow c])"
        using eq by (auto simp: d recent_valid_stamps)
      from Cons.IH [OF ds(2) o(2,3) Cons.prems(4) this] d ok True show ?thesis by (simp add: ds Let_def)
    next
      case no: False
      with s eq [of "cNow c - window"] Cons.prems(4) have d: "map_option fst d = Some False"
        by (auto split: if_splits)
      have "\<forall>x. cNow c - window \<le> x \<longrightarrow> recent (<) x (stamps m' k) = recent (<) x hist"
        using eq s no by auto
      from Cons.IH [OF ds(2) o(2,3) Cons.prems(4) this] d no True show ?thesis by (simp add: ds Let_def)
    qed
  qed
qed simp

context limiter_server
begin

text \<open>What one key relies on: its set in the server and its times in memory.\<close>

definition key_inv :: "string \<Rightarrow> int \<Rightarrow> duration \<Rightarrow> time \<Rightarrow> time list \<Rightarrow> time list \<Rightarrow> string set \<Rightarrow> limits \<times> 'r \<Rightarrow> bool" where
  "key_inv k limit window now hS hM used st \<longleftrightarrow> server_inv limit window now hS used (zview (snd st) (redisKey k))
     \<and> mem_window.tracks limit window now hM (stamps (fst st) k)"

lemma redisKey_inj [simp]: "redisKey k = redisKey k' \<longleftrightarrow> k = k'"
  by (simp add: redisKey_def)

lemma key_inv_later: "key_inv k l w now hS hM used st \<Longrightarrow> now \<le> now' \<Longrightarrow> key_inv k l w now' hS hM used st"
  unfolding key_inv_def by (blast intro: server_inv_later mem_window.tracks_later)

lemma Allow_other:
  assumes "Allow (Some run) now later b k' l' w' st = (d, st')" and "k' \<noteq> k" and "key_inv k l w now hS hM used st"
  shows "key_inv k l w now hS hM used st'"
proof -
  obtain m r where st: "st = (m, r)" by (cases st)
  obtain reply r' where r: "run now (redisKey k') (script_call now b l' w') r = (reply, r')" by (metis surj_pair)
  have "zview r' (redisKey k) = zview r (redisKey k)"
  proof (cases reply)
    case None
    from run_failed [OF r [unfolded None]] show ?thesis
    proof (elim disjE)
      assume "zview r' = zview r"
      then show ?thesis by simp
    next
      assume z: "zview r' = (zview r)(redisKey k' := snd (slidingWindowLuaScript sc shw now (script_call now b l' w')
        (zview r (redisKey k'))))"
      show ?thesis unfolding z using assms(2) by simp
    qed
  next
    case (Some vs)
    from run_ok [OF r [unfolded Some]] assms(2) show ?thesis by simp
  qed
  moreover have "snd st' = r'" "fst st' k = m k"
    using assms(1) allowMemory_other [of now later k' l' w' m _ _ k] assms(2)
    by (auto simp: Allow_def st r split: option.splits list.splits prod.splits if_splits)
  ultimately show ?thesis using assms(3) by (simp add: key_inv_def st stamps_def)
qed

lemma Allow_key:
  assumes A: "Allow (Some run) now later b k limit window st = (d, st')" and inv: "key_inv k limit window now hS hM used st"
    and "window < 2 ^ 62" and "member_name now b \<notin> used"
  obtains hS' hM' where "key_inv k limit window now hS' hM' (insert (member_name now b) used) st'"
    and "if is_allowed d then (hS', hM') = (hS @ [now], hM) \<or> (hS', hM') = (hS, hM @ [now]) else (hS', hM') = (hS, hM)"
proof -
  obtain m r where st: "st = (m, r)" by (cases st)
  let ?k = "redisKey k"
  let ?a = "script_call now b limit window"
  let ?used = "insert (member_name now b) used"
  obtain reply r' where r: "run now ?k ?a r = (reply, r')" by (metis surj_pair)
  obtain vs ze' where script: "slidingWindowLuaScript sc shw now ?a (zview r ?k) = (vs, ze')" by (metis surj_pair)
  have sinv: "server_inv limit window now hS used (zview r ?k)" and minv: "mem_window.tracks limit window now hM (stamps m k)"
    using inv by (simp_all add: key_inv_def st)
  note step = script_step [OF sinv assms(4,3) script]
  show thesis
  proof (cases reply)
    case None
    have "zview r' ?k = zview r ?k \<or> zview r' ?k = ze'"
      using run_failed [OF r [unfolded None]] script by auto
    moreover have "server_inv limit window now hS ?used (zview r ?k)" using sinv server_inv_used by blast
    moreover have "server_inv limit window now hS ?used ze'" using step server_inv_prefix by blast
    ultimately have s': "server_inv limit window now hS ?used (zview r' ?k)" by metis
    obtain m' where m': "allowMemory now later k limit window m = (d, m')" "st' = (m', r')"
      using A by (auto simp: Allow_def st r None split: prod.splits)
    have "key_inv k limit window now hS (if is_allowed d then hM @ [now] else hM) ?used st'"
      using s' mem_step [OF minv m'(1)] by (simp add: key_inv_def m')
    then show thesis by (rule that) simp
  next
    case (Some vs')
    then have e: "vs' = vs" "zview r' ?k = ze'" using run_ok [OF r [unfolded Some]] script by auto
    from step show thesis
    proof (elim disjE conjE exE)
      fix n s assume v: "vs = [IntV 1, IntV n, StrV s]" and "server_inv limit window now (hS @ [now]) ?used ze'"
      then have "key_inv k limit window now (hS @ [now]) hM ?used st'" "is_allowed d"
        using A minv e by (auto simp: key_inv_def Allow_def st r Some int_value_def)
      then show thesis by (intro that [of "hS @ [now]" hM]) simp_all
    next
      fix n s assume v: "vs = [IntV 0, IntV n, StrV s]" and "server_inv limit window now hS ?used ze'"
      then have "key_inv k limit window now hS hM ?used st'" "\<not> is_allowed d"
        using A minv e by (auto simp: key_inv_def Allow_def st r Some int_value_def)
      then show thesis by (intro that [of hS hM]) simp_all
    qed
  qed
qed

lemma key_run:
  assumes "run_calls (Some run) calls st = (ds, st')" and "ordered now calls" and "uses k limit window calls"
    and "window < 2 ^ 62" and "key_inv k limit window now hS hM used st"
    and "distinct (map member_of (filter (\<lambda>c. cKey c = k) calls))"
    and "member_of ` {c \<in> set calls. cKey c = k} \<inter> used = {}"
  shows "\<exists>hS' hM' now' used'. key_inv k limit window now' hS' hM' used' st'
    \<and> (\<forall>P. length (filter P hS') + length (filter P hM')
         = length (filter P hS) + length (filter P hM) + length (filter P (admitted k calls ds)))"
  using assms
proof (induction calls arbitrary: st ds now hS hM used)
  case Nil
  then show ?case by auto
next
  case (Cons c cs)
  obtain d st1 where a: "Allow (Some run) (cNow c) (cLater c) (cBytes c) (cKey c) (cLimit c) (cWindow c) st = (d, st1)"
    by (metis surj_pair)
  then obtain ds' where ds: "ds = d # ds'" "run_calls (Some run) cs st1 = (ds', st')"
    using Cons.prems(1) by (auto split: prod.splits)
  have o: "now \<le> cNow c" "ordered (cNow c) cs" "uses k limit window cs"
    using Cons.prems(2,3) by (simp_all add: uses_Cons)
  have i: "key_inv k limit window (cNow c) hS hM used st" using key_inv_later [OF Cons.prems(5) o(1)] .
  show ?case
  proof (cases "cKey c = k")
    case False
    have "key_inv k limit window (cNow c) hS hM used st1" by (rule Allow_other [OF a False i])
    moreover have "distinct (map member_of (filter (\<lambda>c. cKey c = k) cs))"
        "member_of ` {c \<in> set cs. cKey c = k} \<inter> used = {}"
      using Cons.prems(6,7) False by auto
    moreover have "admitted k (c # cs) ds = admitted k cs ds'" using False by (simp add: ds)
    ultimately show ?thesis using Cons.IH [OF ds(2) o(2,3) Cons.prems(4)] by simp
  next
    case True
    then have l: "cLimit c = limit" "cWindow c = window" using Cons.prems(3) by (auto simp: uses_Cons)
    have "member_name (cNow c) (cBytes c) \<notin> used" using Cons.prems(7) True by (auto simp: member_of_def)
    then obtain hS1 hM1 where h: "key_inv k limit window (cNow c) hS1 hM1 (insert (member_of c) used) st1"
        "if is_allowed d then (hS1, hM1) = (hS @ [cNow c], hM) \<or> (hS1, hM1) = (hS, hM @ [cNow c]) else (hS1, hM1) = (hS, hM)"
      using Allow_key [OF a [unfolded True l] i Cons.prems(4)] by (auto simp: member_of_def)
    have "distinct (map member_of (filter (\<lambda>c. cKey c = k) cs))"
        "member_of ` {c \<in> set cs. cKey c = k} \<inter> insert (member_of c) used = {}"
      using Cons.prems(6,7) True by auto
    from Cons.IH [OF ds(2) o(2,3) Cons.prems(4) h(1) this] obtain hS' hM' now' used' where
      e: "key_inv k limit window now' hS' hM' used' st'"
        "\<And>P. length (filter P hS') + length (filter P hM')
         = length (filter P hS1) + length (filter P hM1) + length (filter P (admitted k cs ds'))" by blast
    have "length (filter P hS1) + length (filter P hM1) + length (filter P (admitted k cs ds'))
        = length (filter P hS) + length (filter P hM) + length (filter P (admitted k (c # cs) ds))" for P
      using h(2) True by (auto simp: ds split: if_splits)
    with e show ?thesis by metis
  qed
qed

lemma key_bound:
  assumes "run_calls (Some run) calls (m, r) = (ds, st')"
    and "ordered now calls" and "uses k limit window calls" and "window < 2 ^ 62" and "0 \<le> limit"
    and "distinct (map member_of (filter (\<lambda>c. cKey c = k) calls))"
    and "zview r (redisKey k) = ([], None)" and "m k = None"
  shows "window_bound (\<lambda>c a. sc c < sc a) (2 * limit) window (admitted k calls ds)"
  unfolding window_bound_def
proof
  fix t
  let ?P = "\<lambda>a. sc (t - window) < sc a \<and> a \<le> t"
  have "key_inv k limit window now [] [] {} (m, r)"
    using assms(5,7,8)
    by (simp add: key_inv_def server_inv_def window.tracks_def mem_window.tracks_def window_bound_def stamps_def)
  from key_run [OF assms(1-4) this assms(6)] obtain hS hM now' used' where
    i: "key_inv k limit window now' hS hM used' st'"
    and e: "\<And>P. length (filter P hS) + length (filter P hM) = length (filter P (admitted k calls ds))" by auto
  from i have b: "window_bound (\<lambda>c a. sc c < sc a) limit window hS" "window_bound (<) limit window hM"
    by (simp_all add: key_inv_def server_inv_def window.tracks_def mem_window.tracks_def)
  have "length (filter ?P hM) \<le> length (filter (\<lambda>a. t - window < a \<and> a \<le> t) hM)"
  proof -
    have "t - window < a" if "sc (t - window) < sc a" for a
      using that score_mono [of a "t - window"] by linarith
    then show ?thesis by (induction hM) auto
  qed
  moreover have "int (length (filter ?P hS)) \<le> limit" "int (length (filter (\<lambda>a. t - window < a \<and> a \<le> t) hM)) \<le> limit"
    using b unfolding window_bound_def by blast+
  ultimately show "int (length (filter ?P (admitted k calls ds))) \<le> 2 * limit"
    unfolding e [symmetric] by linarith
qed

end

section \<open>Properties\<close>

text \<open>C24: The in-memory limiter is the sliding-window specification: over every sequence of calls at
  non-decreasing times, the decisions on a key are those obtained by counting, in the full history
  of admitted calls on this key, the ones inside the window, whatever calls on other keys are
  interleaved.\<close>

theorem memory_limiter_refines_history:
  assumes "run_calls None calls (m, r) = (ds, st')" and "ordered now calls" and "uses k limit window calls"
    and "0 < limit" and "m k = None"
  shows "decided k calls ds = map Some (spec_run limit window [] (map cNow (filter (\<lambda>c. cKey c = k) calls)))"
  by (rule memory_run [OF assms(1-4)]) (simp add: assms(5) stamps_def)

definition demo_call :: "time \<Rightarrow> call" where
  "demo_call now = \<lparr>cKey = ''u'', cNow = now, cLater = now, cBytes = ''b'', cLimit = 2, cWindow = 10\<rparr>"

theorem memory_limiter_refines_history_witness:
  "decided ''u'' (map demo_call [0, 1, 2, 11]) (fst (run_calls None (map demo_call [0, 1, 2, 11]) (Map.empty, ())))
     = [Some True, Some True, Some False, Some True]"
proof -
  have "uses ''u'' 2 10 (map demo_call [0, 1, 2, 11])" "ordered 0 (map demo_call [0, 1, 2, 11])"
    by (simp_all add: uses_def demo_call_def)
  from memory_limiter_refines_history [OF surjective_pairing this(2,1), of Map.empty "()"]
  show ?thesis by (simp add: demo_call_def recent_def Let_def)
qed

text \<open>C34: Failures of the server cost at most a factor of two: for a server that runs the script
  atomically and may fail any call, before or after running it, so that the limiter falls back to
  memory call by call, the calls on a key that this limiter admits in any window are at most twice
  the limit. Times are compared as the server stores them, rounded to doubles, and the members it
  stores are assumed distinct.\<close>

theorem admitted_at_most_twice_limit:
  assumes "limiter_server run zview sc shw" and "run_calls (Some run) calls (m, r) = (ds, st')"
    and "ordered now calls" and "uses k limit window calls" and "window < 2 ^ 62" and "0 \<le> limit"
    and "distinct (map member_of (filter (\<lambda>c. cKey c = k) calls))"
    and "zview r (redisKey k) = ([], None)" and "m k = None"
  shows "window_bound (\<lambda>c a. sc c < sc a) (2 * limit) window (admitted k calls ds)"
  by (rule limiter_server.key_bound [OF assms])

text \<open>A server that loses every second reply, after running the script.\<close>

definition flaky :: "(nat \<times> (string \<Rightarrow> zentry)) script_client" where
  "flaky now k a r = (case slidingWindowLuaScript id dec_int now a (snd r k) of
     (vs, ze) \<Rightarrow> (if even (fst r) then Some vs else None, (fst r + 1, (snd r)(k := ze))))"

interpretation flaky: limiter_server flaky snd id dec_int
  by unfold_locales (auto simp: flaky_def split: prod.splits if_splits)

theorem admitted_at_most_twice_limit_witness:
  "window_bound (<) 4 10 (admitted ''u'' (map demo_call [0, 1, 2, 3, 4, 5])
     (fst (run_calls (Some flaky) (map demo_call [0, 1, 2, 3, 4, 5]) (Map.empty, 0, \<lambda>_. ([], None)))))"
proof -
  let ?cs = "map demo_call [0, 1, 2, 3, 4, 5]"
  have u: "uses ''u'' 2 10 ?cs" "ordered 0 ?cs" by (simp_all add: uses_def demo_call_def)
  have inj: "member_name a b = member_name c b \<longleftrightarrow> a = c" for a b c
    by (simp add: member_name_def)
  have "distinct (map member_of (filter (\<lambda>c. cKey c = ''u'') ?cs))"
    by (simp add: demo_call_def member_of_def inj)
  from admitted_at_most_twice_limit [OF flaky.limiter_server_axioms surjective_pairing u(2,1) _ _ this]
  show ?thesis by simp
qed

text \<open>A limit of zero (or less) crashes the in-memory limiter instead of refusing: the first call
  on a fresh key reads the oldest entry of an empty list.\<close>

theorem zero_limit_panics:
  assumes "limit \<le> 0" and "m key = None"
  shows "Allow None now later b key limit window (m, r) = (None, m, r)"
  using assms by (simp add: Allow_def allowMemory_def valid_stamps_def)

theorem zero_limit_panics_witness: "fst (Allow None 0 0 [] ''u'' 0 10 (Map.empty, ())) = None"
  using zero_limit_panics [of 0 Map.empty "''u''" 0 0 "[]" 10 "()"] by simp

end
