(* ===== verification/Spec2Isabelle.thy ===== *)
theory Spec2Isabelle
  imports Worker CoreStatements CustomerPortal Facilities Timesheets RateLimit
begin

text \<open>
  \<^bold>\<open>Orange Cat Investments: a verification of the services that hold money, sessions and customer records\<close>

  \<^bold>\<open>The program.\<close> The platform is a set of Go services. A customer or employee reaches it through a
  front end (BFF) that keeps sessions in Valkey, limits request rates and caches answers. The business
  layer (\<open>src/internal/app/customerbll\<close>) places orders with the broker, moves money between bank and
  portfolio, and stores what happened in the investment core (\<open>src/internal/service/core_invest\<close> over
  \<open>src/internal/repository/core_invest\<close>). A worker (\<open>src/internal/app/worker\<close>) turns due deposits into messages
  and settles them. The workforce service (\<open>src/internal/service/workforce\<close>, \<open>src/cmd/workforce-api\<close>) keeps the
  employees, human and feline, whose medical holds stop orders; the internal layer (\<open>src/internal/app/internalbll\<close>) onboards and
  offboards them. Broker and bank are services of the repository too
  (\<open>src/cmd/mock-broker\<close>, \<open>src/cmd/mock-bank\<close>), reached through the clients of \<open>src/pkg/broker/alpaca\<close>
  and \<open>src/pkg/bank/plaid\<close>. The theories follow this: each models one part, and the later ones are proved
  against the models of the earlier ones.

  \<^bold>\<open>Conventions.\<close> A Go struct is a record with the source's field names (with a prefix where several
  structs share a name), an enumeration a datatype, a method a function from the old to the new state. A
  time is the number of nanoseconds since the epoch, a map a partial function, and a loop over a
  map takes the order of the keys as a list argument, about which only \<open>iter_order\<close> is known. Errors are
  values of sum or option types, one constructor for each error of the code. A \<open>float64\<close> is a value of
  \<open>Float64\<close>: a rational with IEEE rounding to nearest even, the infinities and NaN, with the sign of zero left
  out; the operations round as the hardware does, so that statements about balances are statements
  about the numbers the code computes. Clocks, random numbers, generated identifiers, hash functions,
  the answers of the Valkey server and of the database are arguments, and what a property needs of
  them is a hypothesis of it.

  \<^bold>\<open>Theories.\<close>
  \<^item> \<open>Prelude\<close>: maps with an iteration order, 64-bit wrap-around, time truncation, Go strings and decimal
    numbers, the locale \<open>transition_system\<close> for invariants of step relations. \<open>Float64\<close>: the arithmetic, exactness on a
    binary grid, sign lemmas. \<open>GoText\<close>: splitting and joining, \<open>Atoi\<close>, base64 and hexadecimal with round trips.
  \<^item> \<open>BankLedger\<close>, \<open>BankEngine\<close>, \<open>BankHandler\<close>: accounts and transfers of the mock bank, its settlement tick and
    its HTTP handlers. Shown: holds and balances agree with the open transfers over every sequence of
    intended steps and money is conserved; available balances stay non-negative; a tick moves each
    transfer by exactly the step its age calls for, and settles one that was returned meanwhile; the
    authorization endpoint agrees with the creation of the transfer.
  \<^item> \<open>BrokerLedger\<close>, \<open>BrokerMarket\<close>, \<open>BrokerHandler\<close>: accounts, positions and orders with the shared order objects of the
    mock broker, its market engine with the ring buffers of bars, and its handlers and streams. Shown: no
    reachable account has debt or a short position; limit prices are respected; closed orders
    never change; the ring buffer refines an unbounded tape; aggregation preserves volume and candle validity;
    quotes are not crossed; every request keeps the ledger reachable.
  \<^item> \<open>SessionStore\<close>, \<open>SessionMiddleware\<close>: both session stores over a model of the Valkey commands they send, with
    scripts and pipelines that may fail half way; the middleware chain with CSRF and roles; login and logout. Shown: a stored
    session is found until it expires; after a purge no request reaches a protected route with a session of that employee.
  \<^item> \<open>RateLimit\<close>, \<open>Cache\<close>: the sliding window limiter in memory and as a Lua script, the query cache and its
    invalidation. Shown: the limiter decides as the count over the full history; with a failing server it
    admits at most twice the limit; an order event evicts what shows the order; prefix deletion terminates.
  \<^item> \<open>CoreRepo\<close>: the data model and the in-memory repository with its shared portfolio objects, an invariant over
    every operation, erasure and what it leaves behind. \<open>CoreInvest\<close>: orders, deposits and the remaining services; the
    locale \<open>order_repository\<close> is interpreted for the repository in memory and for the PostgreSQL tables.
    \<open>CoreLifecycle\<close>: registration, closing, erasure and the password rules. \<open>CoreStatements\<close>: statements and tax forms.
  \<^item> \<open>Clients\<close>: the broker and bank clients, connected to the handlers of the two mock services.
    \<open>CoreGrpc\<close>: the gRPC server of the core for orders, deposits and balances, in memory and over database tables.
    \<open>CustomerBLL\<close>: orders with the medical hold check, deposits, settlement, claims of due deposits; the locale
    \<open>deposit_schedule\<close> is what it needs of the core and is interpreted for both cores. \<open>Worker\<close>: the recurring batch and the
    settlement consumer. Shown across these: an order reaches broker, core and messages only after the
    hold check answered; a due deposit is claimed once per period; over any sequence of deliveries of a transfer
    message the portfolio is credited exactly as often as the bank held the amount.

  \<^item> \<open>WorkforceRepo\<close>, \<open>WorkforceService\<close>, \<open>WorkforceGrpc\<close>: employees, care schedules, leave, incidents and reviews in
    memory, the service over them and its gRPC server. \<open>Timesheets\<close>: timesheets and payroll runs of the service, in memory and over an
    HR client. \<open>Saga\<close>: the onboarding saga, the offboarding engine and their adapters. \<open>InternalBLL\<close>: the sagas, the HR webhook, incidents and firmware
    rollouts of the internal layer; the locale \<open>workforce_contract\<close> is what the sagas need of the workforce service and is
    interpreted for the gRPC server. Shown: stored reviews are well-typed over every sequence of operations; a medical hold,
    set directly or by offboarding the feline, refuses every order until it is lifted; a review is read back as it was sent; the active shifts of an
    employee do not overlap; payroll totals are exact; and the ways in which a failed update, a webhook, a submitted status or
    a missing last name break what the code means to do.

  \<^item> \<open>Ops\<close>: IT tickets and on-call alerts (\<open>src/internal/repository/ops\<close>, \<open>src/internal/service/ops\<close>, \<open>src/cmd/ops-api\<close>), in memory and over
    PostgreSQL tables with their constraints. \<open>Support\<close>: the tickets of customers through the business layer and the portal, and the incident
    consumer of the worker; the locale \<open>ticket_contract\<close> is what they need of the ticket service and is interpreted for both repositories. Shown: no call
    loses or rewrites a ticket or a comment; the two repositories agree up to the constraints; a customer lists own tickets and no internal comment, but
    reads any single ticket; the support form and the incident alerts fail on categories that the table does not allow.

  \<^item> \<open>Facilities\<close>: hardware assets, maintenance logs, firmware and habitat telemetry (\<open>src/internal/repository/facilities\<close>,
    \<open>src/internal/service/facilities\<close>, \<open>src/cmd/facilities-api\<close>), in memory and over the tables, with the calls of the internal layer and the firmware
    consumer of the worker. Shown: a rollout from the internal layer to the database is completed by any delivery of its events; exactly which rollouts are
    accepted; logs that an offline device sends again are stored again.

  \<^item> \<open>CustomerPortal\<close>: the handlers of the customer front end (\<open>src/internal/app/customerbff\<close>) for login, registration, portfolio views, deposits,
    orders, keys, webhooks, closing and erasure, over the business layer and the methods of the core that they reach. It joins sessions, cache, bank, core and
    messages; the locale \<open>customer_sessions\<close> is what the portal needs of a session store and is interpreted for the store in memory. Shown: a login opens a
    session that lives for a day or until logout, and needs no credential; after an order the next portfolio view is a fresh one; a deposit of the
    portal never settles; any portfolio can be closed to any account; the certificate page confirms every identifier; an erasure leaves the other sessions.

  \<^bold>\<open>Bounds.\<close> Loops run over lists, with two exceptions. The scan loop that deletes a prefix of the cache
  follows the cursor of the server and takes fuel; it is shown that fuel for as many scans as the server needs
  for its entries suffices. The limit check of the broker updates the order objects it walks over; it is shown never to
  panic on a reachable ledger.

  \<^bold>\<open>Not modelled.\<close> JSON and protobuf text (requests are taken decoded; where a number that is not finite
  cannot be encoded, the model refuses it), HTTP routing, goroutines and tickers (an operation is called at an
  arbitrary time; operations that take one lock are one step), logging and metrics, PDF rendering, the SQL
  engine beyond the rows a statement reads and writes, Unicode case mapping beyond ASCII. Of the platform, the
  search and PKI services, the PostgreSQL repository of the workforce service, the internal front end and the handlers of the
  customer front end that only read and forward, the
  REST clients of third-party systems and the simulation are left out.
\<close>

end
